(* ===== verification/Emu_Prelude.thy ===== *)
theory Emu_Prelude
  imports Main "HOL-Library.Word"
begin

text \<open>
  Shared vocabulary of the development: the machine integers of the code, C strings and the few
  string functions of the C library the sources use, 32-bit flag masks, and the search loops
  that run an index over an indexed container. The collections \<open>mask_simps\<close> and \<open>cstr_simps\<close>
  hold the facts the component proofs feed to the simplifier.
\<close>

unbundle bit_operations_syntax

named_theorems mask_simps "facts on 32-bit flag masks"
named_theorems cstr_simps "facts on C strings"

section \<open>Machine integers\<close>

type_synonym u8 = "8 word"
type_synonym u16 = "16 word"
type_synonym u32 = "32 word"
type_synonym u64 = "64 word"

text \<open>Reading \<open>n\<close> bits of a C \<open>int\<close>: the value stored when an \<open>int\<close> is assigned to an \<open>unsigned\<close>.\<close>

abbreviation u32_of_int :: "int \<Rightarrow> u32" where
  "u32_of_int i \<equiv> word_of_int i"

lemma unat_of_nat_u32 [simp]: "n < 2 ^ 32 \<Longrightarrow> unat (of_nat n :: u32) = n"
  by (simp add: unsigned_of_nat take_bit_nat_eq_self)

lemma unat_u32_less: "unat (w :: u32) < 2 ^ 32"
  by (rule order.strict_trans2 [OF unsigned_less]) simp

section \<open>Flag masks\<close>

text \<open>The mask \<open>1 << n\<close> and the test \<open>m & (1 << n)\<close> of the sources.\<close>

definition flag :: "nat \<Rightarrow> u32" where
  "flag n = push_bit n 1"

definition has_flag :: "u32 \<Rightarrow> nat \<Rightarrow> bool" where
  "has_flag m n \<longleftrightarrow> m AND flag n \<noteq> 0"

lemma bit_flag [mask_simps]: "bit (flag n) i \<longleftrightarrow> i = n \<and> n < 32"
  by (auto simp: flag_def bit_exp_iff)

lemma has_flag_iff_bit: "has_flag m n \<longleftrightarrow> bit m n \<and> n < 32"
proof
  assume "has_flag m n"
  then obtain i where "bit (m AND flag n) i"
    by (auto simp: has_flag_def bit_eq_iff)
  then show "bit m n \<and> n < 32" by (auto simp: bit_and_iff bit_flag)
next
  assume "bit m n \<and> n < 32"
  then have "bit (m AND flag n) n" by (simp add: bit_and_iff bit_flag)
  then show "has_flag m n" by (auto simp: has_flag_def)
qed

lemma has_flag_bit: "n < 32 \<Longrightarrow> has_flag m n \<longleftrightarrow> bit m n"
  by (simp add: has_flag_iff_bit)

lemma has_flag_or [mask_simps]: "has_flag (a OR b) n \<longleftrightarrow> has_flag a n \<or> has_flag b n"
  by (auto simp: has_flag_iff_bit bit_or_iff)

lemma has_flag_flag [mask_simps]: "has_flag (flag k) n \<longleftrightarrow> k = n \<and> n < 32"
  by (auto simp: has_flag_iff_bit bit_flag)

lemma has_flag_zero [mask_simps]: "\<not> has_flag 0 n"
  by (simp add: has_flag_def)

text \<open>\<open>m & ~(1 << n)\<close> clears one flag and leaves the others.\<close>

definition clear_flag :: "u32 \<Rightarrow> nat \<Rightarrow> u32" where
  "clear_flag m n = m AND NOT (flag n)"

lemma has_flag_clear [mask_simps]: "has_flag (clear_flag m n) k \<longleftrightarrow> has_flag m k \<and> k \<noteq> n"
  by (auto simp: clear_flag_def has_flag_iff_bit bit_and_iff bit_not_iff bit_flag)

lemma mask_eq_zero_iff: "m = 0 \<longleftrightarrow> (\<forall>n < 32. \<not> has_flag m n)"
proof
  assume "\<forall>n < 32. \<not> has_flag m n"
  then show "m = 0" by (auto simp: has_flag_bit intro: bit_word_eqI)
qed (simp add: has_flag_zero)

text \<open>\<open>(1 << n) - 1\<close>: the mask with the \<open>n\<close> lowest flags set.\<close>

definition low_flags :: "nat \<Rightarrow> u32" where
  "low_flags n = flag n - 1"

lemma has_flag_low [mask_simps]: "n < 32 \<Longrightarrow> has_flag (low_flags n) k \<longleftrightarrow> k < n"
  by (auto simp: low_flags_def flag_def has_flag_iff_bit bit_mask_iff simp flip: mask_eq_exp_minus_1)

section \<open>C strings\<close>

text \<open>
  A C string is its list of characters without the terminating NUL. \<open>strncmp\<close> is used by the
  sources as an equality test only, so the model returns whether the result is 0.
\<close>

fun strncmp_eq :: "string \<Rightarrow> string \<Rightarrow> nat \<Rightarrow> bool" where
  "strncmp_eq s t 0 \<longleftrightarrow> True"
| "strncmp_eq [] [] (Suc n) \<longleftrightarrow> True"
| "strncmp_eq (a # s) (b # t) (Suc n) \<longleftrightarrow> a = b \<and> strncmp_eq s t n"
| "strncmp_eq s t (Suc n) \<longleftrightarrow> False"

lemma strncmp_eq_take [cstr_simps]: "strncmp_eq s t n \<longleftrightarrow> take n s = take n t"
  by (induction s t n rule: strncmp_eq.induct) auto

lemma strncmp_eq_prefix: "strncmp_eq s t (length t) \<longleftrightarrow> take (length t) s = t"
  by (simp add: strncmp_eq_take)

text \<open>\<open>strstr\<close>: the rest of the haystack from the first occurrence on.\<close>

fun strstr :: "string \<Rightarrow> string \<Rightarrow> string option" where
  "strstr [] n = (if n = [] then Some [] else None)"
| "strstr (c # s) n = (if take (length n) (c # s) = n then Some (c # s) else strstr s n)"

text \<open>\<open>strrchr\<close> of the sources, which only use what follows the last occurrence.\<close>

fun after_last :: "char \<Rightarrow> string \<Rightarrow> string option" where
  "after_last c [] = None"
| "after_last c (d # s) =
     (case after_last c s of
        Some t \<Rightarrow> Some t
      | None \<Rightarrow> if d = c then Some s else None)"

lemma after_last_None [cstr_simps]: "after_last c s = None \<longleftrightarrow> c \<notin> set s"
  by (induction s) (auto split: option.splits)

lemma after_last_append [cstr_simps]: "c \<notin> set t \<Longrightarrow> after_last c (s @ c # t) = Some t"
proof (induction s)
  case Nil
  assume "c \<notin> set t"
  then have "after_last c t = None" by (simp add: after_last_None)
  then show ?case by simp
qed auto

lemma after_last_SomeD: "after_last c s = Some t \<Longrightarrow> c \<notin> set t \<and> (\<exists>p. s = p @ c # t)"
proof (induction s)
  case (Cons d s)
  show ?case
  proof (cases "after_last c s")
    case None
    with Cons.prems show ?thesis by (auto simp: after_last_None split: if_splits)
  next
    case (Some u)
    with Cons.prems have "u = t" by simp
    with Some Cons.IH obtain p where "c \<notin> set t" "s = p @ c # t" by blast
    then show ?thesis by (metis append_Cons)
  qed
qed simp

text \<open>\<open>snprintf\<close> into a buffer of \<open>n\<close> bytes keeps at most \<open>n - 1\<close> characters.\<close>

definition snprintf_store :: "nat \<Rightarrow> string \<Rightarrow> string" where
  "snprintf_store n s = take (n - 1) s"

lemma snprintf_store_fits [cstr_simps]: "length s < n \<Longrightarrow> snprintf_store n s = s"
  by (simp add: snprintf_store_def)

section \<open>Printing and scanning decimal integers\<close>

definition digit_char :: "nat \<Rightarrow> char" where
  "digit_char d = char_of (48 + d)"

definition is_digit :: "char \<Rightarrow> bool" where
  "is_digit c \<longleftrightarrow> (48::nat) \<le> of_char c \<and> of_char c \<le> (57::nat)"

definition digit_val :: "char \<Rightarrow> nat" where
  "digit_val c = of_char c - 48"

fun show_nat :: "nat \<Rightarrow> string" where
  "show_nat n = (if n < 10 then [digit_char n] else show_nat (n div 10) @ [digit_char (n mod 10)])"

declare show_nat.simps [simp del]

text \<open>\<open>%d\<close>.\<close>

definition show_int :: "int \<Rightarrow> string" where
  "show_int i = (if i < 0 then CHR ''-'' # show_nat (nat (- i)) else show_nat (nat i))"

fun scan_digits :: "nat \<Rightarrow> string \<Rightarrow> nat \<times> string" where
  "scan_digits a [] = (a, [])"
| "scan_digits a (c # s) = (if is_digit c then scan_digits (10 * a + digit_val c) s else (a, c # s))"

text \<open>One \<open>%d\<close> of \<open>sscanf\<close>: optional sign, at least one digit, the rest of the input.\<close>

definition scan_int :: "string \<Rightarrow> (int \<times> string) option" where
  "scan_int s =
     (let neg = (s \<noteq> [] \<and> hd s = CHR ''-''); t = (if neg then tl s else s)
      in case t of
           [] \<Rightarrow> None
         | c # _ \<Rightarrow>
             if is_digit c
             then (case scan_digits 0 t of (n, r) \<Rightarrow> Some (if neg then - int n else int n, r))
             else None)"

definition is_blank :: "char \<Rightarrow> bool" where
  "is_blank c \<longleftrightarrow> c \<in> {CHR '' '', CHR 0x09, CHR 0x0A, CHR 0x0B, CHR 0x0C, CHR 0x0D}"

text \<open>\<open>atoi\<close>: blanks, a sign and digits, 0 without a digit.\<close>

definition atoi :: "string \<Rightarrow> int" where
  "atoi s =
     (case dropWhile is_blank s of
        [] \<Rightarrow> 0
      | c # r \<Rightarrow>
          if c = CHR ''+'' then int (fst (scan_digits 0 r))
          else (case scan_int (c # r) of None \<Rightarrow> 0 | Some (i, _) \<Rightarrow> i))"

lemma of_char_digit: "d < 10 \<Longrightarrow> of_char (digit_char d) = 48 + d"
  by (simp add: digit_char_def)

lemma is_digit_digit_char [simp]: "d < 10 \<Longrightarrow> is_digit (digit_char d)"
  by (simp add: is_digit_def of_char_digit)

lemma digit_val_digit_char [simp]: "d < 10 \<Longrightarrow> digit_val (digit_char d) = d"
  by (simp add: digit_val_def of_char_digit)

lemma digit_char_inj: "a < 10 \<Longrightarrow> b < 10 \<Longrightarrow> digit_char a = digit_char b \<Longrightarrow> a = b"
  by (metis digit_val_digit_char)

lemma not_digit_dash [simp]: "\<not> is_digit CHR ''-''"
  by (simp add: is_digit_def)

lemma show_nat_digits: "c \<in> set (show_nat n) \<Longrightarrow> is_digit c"
  by (induction n rule: show_nat.induct) (subst (asm) (2) show_nat.simps, auto split: if_splits)

lemma show_nat_nonempty [simp]: "show_nat n \<noteq> []"
  by (subst show_nat.simps) simp

lemma scan_digits_show:
  "scan_digits a (show_nat n @ r) = scan_digits (a * 10 ^ length (show_nat n) + n) r"
proof (induction n arbitrary: a r rule: show_nat.induct)
  case (1 n)
  show ?case
  proof (cases "n < 10")
    case True
    then show ?thesis by (simp add: show_nat.simps [of n] mult.commute)
  next
    case False
    then have eq: "show_nat n = show_nat (n div 10) @ [digit_char (n mod 10)]"
      by (simp add: show_nat.simps [of n])
    have "scan_digits a (show_nat n @ r)
      = scan_digits (10 * (a * 10 ^ length (show_nat (n div 10)) + n div 10) + n mod 10) r"
      using "1.IH" [OF False] by (simp add: eq)
    also have "10 * (a * 10 ^ length (show_nat (n div 10)) + n div 10) + n mod 10
      = a * 10 ^ length (show_nat n) + n"
      by (simp add: eq algebra_simps)
    finally show ?thesis .
  qed
qed

definition no_digit_hd :: "string \<Rightarrow> bool" where
  "no_digit_hd r \<longleftrightarrow> (case r of [] \<Rightarrow> True | c # _ \<Rightarrow> \<not> is_digit c)"

lemma scan_digits_stop: "no_digit_hd r \<Longrightarrow> scan_digits a r = (a, r)"
  by (cases r) (auto simp: no_digit_hd_def)

lemma scan_digits_show_nat: "no_digit_hd r \<Longrightarrow> scan_digits 0 (show_nat n @ r) = (n, r)"
  by (simp add: scan_digits_show scan_digits_stop)

lemma show_nat_Cons: obtains c s where "show_nat n = c # s" "is_digit c" "c \<noteq> CHR ''-''"
proof -
  obtain c s where cs: "show_nat n = c # s" by (cases "show_nat n") auto
  moreover have "is_digit c" using show_nat_digits [of c n] cs by simp
  moreover have "c \<noteq> CHR ''-''" using \<open>is_digit c\<close> by auto
  ultimately show thesis by (rule that)
qed

lemma scan_int_show_nat: "no_digit_hd r \<Longrightarrow> scan_int (show_nat n @ r) = Some (int n, r)"
proof -
  assume r: "no_digit_hd r"
  obtain c s where "show_nat n = c # s" "is_digit c" "c \<noteq> CHR ''-''" by (rule show_nat_Cons)
  then show ?thesis
    using scan_digits_show_nat [OF r, of n] by (simp add: scan_int_def)
qed

lemma scan_int_show_int: "no_digit_hd r \<Longrightarrow> scan_int (show_int i @ r) = Some (i, r)"
proof -
  assume r: "no_digit_hd r"
  show ?thesis
  proof (cases "i < 0")
    case True
    obtain c s where cs: "show_nat (nat (- i)) = c # s" "is_digit c" by (rule show_nat_Cons)
    with True show ?thesis
      using scan_digits_show_nat [OF r, of "nat (- i)"] by (simp add: scan_int_def show_int_def)
  next
    case False
    then show ?thesis by (simp add: show_int_def scan_int_show_nat [OF r])
  qed
qed

lemma show_nat_inj: "show_nat m = show_nat n \<Longrightarrow> m = n"
  using scan_int_show_nat [of "[]" m] scan_int_show_nat [of "[]" n]
  by (simp add: no_digit_hd_def)

section \<open>Search loops over an indexed container\<close>

text \<open>
  \<open>for (i = start; i < count; i++) { e = peek(i); if (P(e)) return ...; }\<close>, with the number of
  iterations left as the last argument. A \<open>NULL\<close> element does not match.
\<close>

fun search_from :: "(nat \<Rightarrow> 'a option) \<Rightarrow> ('a \<Rightarrow> bool) \<Rightarrow> nat \<Rightarrow> nat \<Rightarrow> (nat \<times> 'a) option" where
  "search_from peek P i 0 = None"
| "search_from peek P i (Suc n) =
     (case peek i of
        Some e \<Rightarrow> if P e then Some (i, e) else search_from peek P (Suc i) n
      | None \<Rightarrow> search_from peek P (Suc i) n)"

text \<open>What such a loop computes: the first matching element of the contents, with its index.\<close>

fun first_index :: "('a \<Rightarrow> bool) \<Rightarrow> 'a list \<Rightarrow> (nat \<times> 'a) option" where
  "first_index P [] = None"
| "first_index P (x # xs) =
     (if P x then Some (0, x) else map_option (apfst Suc) (first_index P xs))"

lemma first_index_None: "first_index P xs = None \<longleftrightarrow> (\<forall>x \<in> set xs. \<not> P x)"
  by (induction xs) auto

lemma first_index_Some:
  "first_index P xs = Some (i, x) \<longleftrightarrow>
     i < length xs \<and> xs ! i = x \<and> P x \<and> (\<forall>j < i. \<not> P (xs ! j))"
proof (induction xs arbitrary: i)
  case (Cons y ys)
  show ?case
  proof (cases i)
    case 0
    then show ?thesis using Cons.IH by (auto simp: apfst_def map_prod_def split: prod.splits)
  next
    case (Suc k)
    then show ?thesis
      using Cons.IH [of k] by (auto simp: All_less_Suc2 apfst_def map_prod_def split: prod.splits)
  qed
qed simp

lemma first_index_find: "map_option snd (first_index P xs) = find P xs"
  by (induction xs) (auto simp: option.map_comp comp_def)

lemma search_from_first_index:
  assumes "\<And>j. i \<le> j \<Longrightarrow> j < i + length xs \<Longrightarrow> peek j = Some (xs ! (j - i))"
  shows "search_from peek P i (length xs) = map_option (apfst (\<lambda>k. i + k)) (first_index P xs)"
  using assms
proof (induction xs arbitrary: i)
  case (Cons x xs)
  have "peek i = Some x" using Cons.prems [of i] by simp
  moreover have "search_from peek P (Suc i) (length xs)
    = map_option (apfst (\<lambda>k. Suc i + k)) (first_index P xs)"
    by (rule Cons.IH) (use Cons.prems in \<open>auto simp: nth_Cons'\<close>)
  ultimately show ?case by (auto simp: option.map_comp comp_def apfst_def map_prod_def
        intro!: option.map_cong)
qed simp

end
