(* ===== verification/Emu_Queue.thy ===== *)
theory Emu_Queue
  imports Emu_Prelude
begin

text \<open>
  The queue of \<open>src/utils/collection.c\<close> as its callers see it: the sequence of the stored pointers,
  head first. \<open>queue_push\<close> inserts at the head and \<open>queue_pop\<close> takes the last element, so the
  queue is first-in first-out for push and pop while index 0 of \<open>queue_peek\<close> is the element pushed
  last. Counts and indices are \<open>uint32_t\<close>. Theory \<open>Linked_Queue\<close> shows that the linked cells of the
  C code implement exactly these operations. The locale \<open>indexed_queue\<close> is the interface of the
  index loops the rest of the program runs over its queues.
\<close>

section \<open>Operations\<close>

type_synonym 'a queue = "'a list"

definition queue_create :: "'a queue" where
  "queue_create = []"

definition queue_count :: "'a queue \<Rightarrow> u32" where
  "queue_count q = of_nat (length q)"

text \<open>The first argument is whether \<open>malloc\<close> returned memory; the result code is 0 or \<open>-1\<close>.\<close>

definition queue_push :: "bool \<Rightarrow> 'a queue \<Rightarrow> 'a \<Rightarrow> int \<times> 'a queue" where
  "queue_push mem q x = (if mem then (0, x # q) else (- 1, q))"

definition queue_pop :: "'a queue \<Rightarrow> 'a option \<times> 'a queue" where
  "queue_pop q = (if q = [] then (None, q) else (Some (last q), butlast q))"

definition queue_peek :: "'a queue \<Rightarrow> u32 \<Rightarrow> 'a option" where
  "queue_peek q i =
     (if queue_count q - 1 < i then None
      else if q = [] then None
      else if unat i < length q then Some (q ! unat i) else None)"

definition queue_remove :: "'a queue \<Rightarrow> u32 \<Rightarrow> 'a option \<times> 'a queue" where
  "queue_remove q i =
     (if queue_count q - 1 < i then (None, q)
      else if q = [] then (None, q)
      else (Some (q ! unat i), take (unat i) q @ drop (Suc (unat i)) q))"

text \<open>A queue that fits the 32-bit counter: the only queues the code can build.\<close>

definition queue_ok :: "'a queue \<Rightarrow> bool" where
  "queue_ok q \<longleftrightarrow> length q < 2 ^ 32"

section \<open>What the operations compute on queues that fit the counter\<close>

lemma queue_ok_Nil [simp]: "queue_ok []"
  by (simp add: queue_ok_def)

lemma queue_ok_Cons: "queue_ok (x # q) \<Longrightarrow> queue_ok q"
  by (simp add: queue_ok_def)

lemma unat_queue_count [simp]: "queue_ok q \<Longrightarrow> unat (queue_count q) = length q"
  by (simp add: queue_ok_def queue_count_def)

lemma queue_count_eq_0 [simp]: "queue_ok q \<Longrightarrow> queue_count q = 0 \<longleftrightarrow> q = []"
  by (metis length_0_conv unat_eq_0 unat_queue_count)

lemma queue_count_push: "queue_count (snd (queue_push True q x)) = queue_count q + 1"
  by (simp add: queue_push_def queue_count_def)

text \<open>The guard \<open>index > count - 1\<close> wraps around on an empty queue; the head test behind it decides.\<close>

lemma queue_guard:
  assumes "queue_ok q" and "q \<noteq> []"
  shows "queue_count q - 1 < i \<longleftrightarrow> length q \<le> unat i"
proof -
  have pos: "queue_count q \<noteq> 0" using assms by simp
  have "queue_count q - 1 < i \<longleftrightarrow> unat (queue_count q - 1) < unat i"
    by (simp add: word_less_nat_alt)
  also have "unat (queue_count q - 1) = length q - 1"
    using pos assms by (simp add: unat_minus_one)
  finally show ?thesis using assms by (cases q) auto
qed

lemma queue_peek_nth: "queue_ok q \<Longrightarrow> queue_peek q i = (if unat i < length q then Some (q ! unat i) else None)"
  by (cases "q = []") (auto simp: queue_peek_def queue_guard)

lemma queue_remove_nth:
  "queue_ok q \<Longrightarrow> queue_remove q i =
     (if unat i < length q then (Some (q ! unat i), take (unat i) q @ drop (Suc (unat i)) q)
      else (None, q))"
  by (cases "q = []") (auto simp: queue_remove_def queue_guard)

lemma queue_remove_fst: "queue_ok q \<Longrightarrow> fst (queue_remove q i) = queue_peek q i"
  by (simp add: queue_peek_nth queue_remove_nth)

lemma queue_ok_remove: "queue_ok q \<Longrightarrow> queue_ok (snd (queue_remove q i))"
  by (auto simp: queue_remove_nth queue_ok_def)

lemma queue_ok_pop: "queue_ok q \<Longrightarrow> queue_ok (snd (queue_pop q))"
  by (auto simp: queue_pop_def queue_ok_def)

lemma set_queue_remove: "queue_ok q \<Longrightarrow> set (snd (queue_remove q i)) \<subseteq> set q"
  by (auto simp: queue_remove_nth dest: in_set_takeD in_set_dropD)

section \<open>First in, first out\<close>

fun push_all :: "'a queue \<Rightarrow> 'a list \<Rightarrow> 'a queue" where
  "push_all q [] = q"
| "push_all q (x # xs) = push_all (snd (queue_push True q x)) xs"

fun pop_all :: "nat \<Rightarrow> 'a queue \<Rightarrow> 'a option list" where
  "pop_all 0 q = []"
| "pop_all (Suc n) q = fst (queue_pop q) # pop_all n (snd (queue_pop q))"

lemma push_all_eq: "push_all q xs = rev xs @ q"
  by (induction xs arbitrary: q) (auto simp: queue_push_def)

lemma pop_all_rev: "pop_all (length xs) (rev xs) = map Some xs"
  by (induction xs) (auto simp: queue_pop_def)

lemma pop_all_push_all: "pop_all (length xs) (push_all queue_create xs) = map Some xs"
  by (simp add: push_all_eq queue_create_def pop_all_rev)

section \<open>The interface of the index loops\<close>

text \<open>
  Every manager walks its queue with \<open>count = queue_count(q); for (i = 0; i < count; i++)
  queue_peek(q, i)\<close>. The contract of the pair is that peeking below the count returns the contents
  in order. Inside the locale the loop is shown to find the first matching element.
\<close>

definition index_search :: "('q \<Rightarrow> u32) \<Rightarrow> ('q \<Rightarrow> u32 \<Rightarrow> 'a option) \<Rightarrow> ('a \<Rightarrow> bool) \<Rightarrow> 'q \<Rightarrow> (nat \<times> 'a) option" where
  "index_search cnt pk P q = search_from (\<lambda>i. pk q (of_nat i)) P 0 (unat (cnt q))"

text \<open>
  The loop that runs its body on every element: the body gets what \<open>queue_peek\<close> returned and yields
  the new state, or \<open>None\<close> where the code fails (dereferences a \<open>NULL\<close> element, say).
\<close>

fun loop_from :: "(nat \<Rightarrow> 'a option) \<Rightarrow> ('a option \<Rightarrow> 's \<Rightarrow> 's option) \<Rightarrow> nat \<Rightarrow> nat \<Rightarrow> 's \<Rightarrow> 's option" where
  "loop_from peek body i 0 s = Some s"
| "loop_from peek body i (Suc n) s =
     (case body (peek i) s of None \<Rightarrow> None | Some s' \<Rightarrow> loop_from peek body (Suc i) n s')"

fun fold_opt :: "('a \<Rightarrow> 's \<Rightarrow> 's option) \<Rightarrow> 'a list \<Rightarrow> 's \<Rightarrow> 's option" where
  "fold_opt f [] s = Some s"
| "fold_opt f (x # xs) s = (case f x s of None \<Rightarrow> None | Some s' \<Rightarrow> fold_opt f xs s')"

definition index_loop :: "('q \<Rightarrow> u32) \<Rightarrow> ('q \<Rightarrow> u32 \<Rightarrow> 'a option) \<Rightarrow> ('a option \<Rightarrow> 's \<Rightarrow> 's option) \<Rightarrow> 'q \<Rightarrow> 's \<Rightarrow> 's option" where
  "index_loop cnt pk body q s = loop_from (\<lambda>i. pk q (of_nat i)) body 0 (unat (cnt q)) s"

lemma loop_from_fold_opt:
  assumes "\<And>j. i \<le> j \<Longrightarrow> j < i + length xs \<Longrightarrow> peek j = Some (xs ! (j - i))"
  shows "loop_from peek body i (length xs) s = fold_opt (\<lambda>x. body (Some x)) xs s"
  using assms
proof (induction xs arbitrary: i s)
  case (Cons x xs)
  have "peek i = Some x" using Cons.prems [of i] by simp
  moreover have "loop_from peek body (Suc i) (length xs) s' = fold_opt (\<lambda>x. body (Some x)) xs s'" for s'
    by (rule Cons.IH) (use Cons.prems in \<open>auto simp: nth_Cons'\<close>)
  ultimately show ?case by (simp split: option.split)
qed simp

lemma fold_opt_total: "(\<And>x s. f x s = Some (g x s)) \<Longrightarrow> fold_opt f xs s = Some (fold g xs s)"
  by (induction xs arbitrary: s) auto

locale indexed_queue =
  fixes cnt :: "'q \<Rightarrow> u32"
    and pk :: "'q \<Rightarrow> u32 \<Rightarrow> 'a option"
    and contents :: "'q \<Rightarrow> 'a list"
    and ok :: "'q \<Rightarrow> bool"
  assumes cnt_contents: "ok q \<Longrightarrow> unat (cnt q) = length (contents q)"
    and pk_contents: "ok q \<Longrightarrow> unat i < length (contents q) \<Longrightarrow> pk q i = Some (contents q ! unat i)"
    and pk_beyond: "ok q \<Longrightarrow> length (contents q) \<le> unat i \<Longrightarrow> pk q i = None"
begin

lemma contents_bound: "ok q \<Longrightarrow> length (contents q) < 2 ^ 32"
  using cnt_contents [of q] unat_u32_less [of "cnt q"] by simp

lemma index_search_first: "ok q \<Longrightarrow> index_search cnt pk P q = first_index P (contents q)"
proof -
  assume q: "ok q"
  have "search_from (\<lambda>i. pk q (of_nat i)) P 0 (length (contents q))
    = map_option (apfst (\<lambda>k. 0 + k)) (first_index P (contents q))"
  proof (rule search_from_first_index)
    fix j assume "0 \<le> j" "j < 0 + length (contents q)"
    moreover from this have "unat (of_nat j :: u32) = j"
      using contents_bound [OF q] by simp
    ultimately show "pk q (of_nat j) = Some (contents q ! (j - 0))"
      using pk_contents [OF q] by simp
  qed
  moreover have "apfst (\<lambda>k. 0 + k) = (\<lambda>p :: nat \<times> 'a. p)" by (auto simp: apfst_def)
  ultimately show ?thesis
    by (simp add: index_search_def cnt_contents [OF q] option.map_ident)
qed

lemma index_loop_contents: "ok q \<Longrightarrow> index_loop cnt pk body q s = fold_opt (\<lambda>x. body (Some x)) (contents q) s"
proof -
  assume q: "ok q"
  have "loop_from (\<lambda>i. pk q (of_nat i)) body 0 (length (contents q)) s
    = fold_opt (\<lambda>x. body (Some x)) (contents q) s"
  proof (rule loop_from_fold_opt)
    fix j assume "0 \<le> j" "j < 0 + length (contents q)"
    moreover from this have "unat (of_nat j :: u32) = j"
      using contents_bound [OF q] by simp
    ultimately show "pk q (of_nat j) = Some (contents q ! (j - 0))"
      using pk_contents [OF q] by simp
  qed
  then show ?thesis by (simp add: index_loop_def cnt_contents [OF q])
qed

lemma index_search_None: "ok q \<Longrightarrow> index_search cnt pk P q = None \<longleftrightarrow> (\<forall>x \<in> set (contents q). \<not> P x)"
  by (simp add: index_search_first first_index_None)

lemma index_search_Some:
  "ok q \<Longrightarrow> index_search cnt pk P q = Some (i, x) \<longleftrightarrow>
     i < length (contents q) \<and> contents q ! i = x \<and> P x \<and> (\<forall>j < i. \<not> P (contents q ! j))"
  by (simp add: index_search_first first_index_Some)

end

interpretation eq: indexed_queue queue_count queue_peek "\<lambda>q. q" queue_ok
  by unfold_locales (auto simp: queue_peek_nth)

abbreviation queue_search :: "('a \<Rightarrow> bool) \<Rightarrow> 'a queue \<Rightarrow> (nat \<times> 'a) option" where
  "queue_search P q \<equiv> index_search queue_count queue_peek P q"

abbreviation queue_loop :: "('a option \<Rightarrow> 's \<Rightarrow> 's option) \<Rightarrow> 'a queue \<Rightarrow> 's \<Rightarrow> 's option" where
  "queue_loop body q s \<equiv> index_loop queue_count queue_peek body q s"

end
