(* ===== verification/Linked_Queue.thy ===== *)
theory Linked_Queue
  imports Emu_Queue
begin

text \<open>
  \<open>src/utils/collection.c\<close> as it is written: singly linked cells in a heap, walked pointer by pointer.
  An address is a natural number and \<open>NULL\<close> is 0; the heap maps the live addresses to cells. Every
  function returns an \<open>option\<close>: \<open>None\<close> is a dereference of \<open>NULL\<close> or of a dead cell, or a walk that
  never ends (on a cyclic chain). The result of \<open>malloc\<close> is an argument. The refinement lemmas show
  that on a well-formed chain no such failure occurs and that each function computes the
  operation of theory \<open>Emu_Queue\<close> on the sequence the chain represents, touching no other cell.
\<close>

section \<open>Cells, heap and the code\<close>

type_synonym addr = nat

abbreviation NULL :: addr where "NULL \<equiv> 0"

record 'a element =
  e_data :: 'a
  e_next :: addr

type_synonym 'a heap = "addr \<rightharpoonup> 'a element"

text \<open>\<open>queue_create\<close>: the memory returned by \<open>malloc\<close>, if any, is zeroed, so the head is \<open>NULL\<close>.\<close>

definition c_queue_create :: "bool \<Rightarrow> addr option" where
  "c_queue_create mem = (if mem then Some NULL else None)"

definition c_queue_push :: "addr option \<Rightarrow> 'a heap \<Rightarrow> addr \<Rightarrow> 'a \<Rightarrow> int \<times> 'a heap \<times> addr" where
  "c_queue_push malloc h hp d =
     (case malloc of
        None \<Rightarrow> (- 1, h, hp)
      | Some e \<Rightarrow>
          if hp = NULL then (0, h(e \<mapsto> \<lparr>e_data = d, e_next = NULL\<rparr>), e)
          else (0, h(e \<mapsto> \<lparr>e_data = d, e_next = hp\<rparr>), e))"

partial_function (option) pop_walk :: "'a heap \<Rightarrow> addr \<Rightarrow> addr \<Rightarrow> (addr \<times> addr) option" where
  "pop_walk h tmp e =
     (case h e of
        None \<Rightarrow> None
      | Some c \<Rightarrow> if e_next c \<noteq> NULL then pop_walk h e (e_next c) else Some (tmp, e))"

definition set_next :: "'a heap \<Rightarrow> addr \<Rightarrow> addr \<Rightarrow> 'a heap option" where
  "set_next h a n = (case h a of None \<Rightarrow> None | Some c \<Rightarrow> Some (h(a \<mapsto> c\<lparr>e_next := n\<rparr>)))"

definition c_queue_pop :: "'a heap \<Rightarrow> addr \<Rightarrow> ('a option \<times> 'a heap \<times> addr) option" where
  "c_queue_pop h hp =
     (if hp = NULL then Some (None, h, hp)
      else case pop_walk h NULL hp of
             None \<Rightarrow> None
           | Some (tmp, e) \<Rightarrow>
               (case h e of
                  None \<Rightarrow> None
                | Some c \<Rightarrow>
                    if tmp \<noteq> NULL
                    then (case set_next h tmp NULL of
                            None \<Rightarrow> None
                          | Some h' \<Rightarrow> Some (Some (e_data c), h'(e := None), hp))
                    else Some (Some (e_data c), h(e := None), NULL)))"

partial_function (option) count_walk :: "'a heap \<Rightarrow> u32 \<Rightarrow> addr \<Rightarrow> u32 option" where
  "count_walk h i e =
     (if e = NULL then Some i
      else case h e of None \<Rightarrow> None | Some c \<Rightarrow> count_walk h (i + 1) (e_next c))"

text \<open>\<open>queue_count\<close> also accepts a \<open>NULL\<close> queue (\<open>None\<close> here); its callers pass \<open>q\<close> itself.\<close>

definition c_queue_count :: "'a heap \<Rightarrow> addr option \<Rightarrow> u32 option" where
  "c_queue_count h q = (case q of None \<Rightarrow> Some 0 | Some hp \<Rightarrow> count_walk h 0 hp)"

partial_function (option) remove_walk :: "'a heap \<Rightarrow> u32 \<Rightarrow> u32 \<Rightarrow> addr \<Rightarrow> addr \<Rightarrow> (addr \<times> addr) option" where
  "remove_walk h index i tmp e =
     (if i < index
      then (case h e of None \<Rightarrow> None | Some c \<Rightarrow> remove_walk h index (i + 1) e (e_next c))
      else Some (tmp, e))"

definition c_queue_remove :: "'a heap \<Rightarrow> addr \<Rightarrow> u32 \<Rightarrow> ('a option \<times> 'a heap \<times> addr) option" where
  "c_queue_remove h hp index =
     (case c_queue_count h (Some hp) of
        None \<Rightarrow> None
      | Some n \<Rightarrow>
          if n - 1 < index then Some (None, h, hp)
          else if hp = NULL then Some (None, h, hp)
          else case remove_walk h index 0 NULL hp of
                 None \<Rightarrow> None
               | Some (tmp, e) \<Rightarrow>
                   (case h e of
                      None \<Rightarrow> None
                    | Some c \<Rightarrow>
                        if tmp = NULL then Some (Some (e_data c), h(e := None), e_next c)
                        else case set_next h tmp (e_next c) of
                               None \<Rightarrow> None
                             | Some h' \<Rightarrow> Some (Some (e_data c), h'(e := None), hp)))"

partial_function (option) peek_walk :: "'a heap \<Rightarrow> u32 \<Rightarrow> u32 \<Rightarrow> addr \<Rightarrow> addr option" where
  "peek_walk h index i e =
     (if i < index \<and> e \<noteq> NULL
      then (case h e of None \<Rightarrow> None | Some c \<Rightarrow> peek_walk h index (i + 1) (e_next c))
      else Some e)"

definition c_queue_peek :: "'a heap \<Rightarrow> addr \<Rightarrow> u32 \<Rightarrow> 'a option option" where
  "c_queue_peek h hp index =
     (case c_queue_count h (Some hp) of
        None \<Rightarrow> None
      | Some n \<Rightarrow>
          if n - 1 < index then Some None
          else if hp = NULL then Some None
          else case peek_walk h index 0 hp of
                 None \<Rightarrow> None
               | Some e \<Rightarrow>
                   if e \<noteq> NULL
                   then (case h e of None \<Rightarrow> None | Some c \<Rightarrow> Some (Some (e_data c)))
                   else Some None)"

text \<open>\<open>queue_destroy\<close> frees the data of every cell and the cell; the freed pointers are returned.\<close>

partial_function (option) destroy_walk :: "'a heap \<Rightarrow> 'a list \<Rightarrow> addr \<Rightarrow> ('a list \<times> 'a heap) option" where
  "destroy_walk h fs e =
     (if e = NULL then Some (fs, h)
      else case h e of
             None \<Rightarrow> None
           | Some c \<Rightarrow> destroy_walk (h(e := None)) (fs @ [e_data c]) (e_next c))"

definition c_queue_destroy :: "'a heap \<Rightarrow> addr \<Rightarrow> ('a list \<times> 'a heap) option" where
  "c_queue_destroy h hp = destroy_walk h [] hp"

section \<open>The sequence a chain of cells represents\<close>

fun chain :: "'a heap \<Rightarrow> addr \<Rightarrow> addr list \<Rightarrow> 'a list \<Rightarrow> bool" where
  "chain h p [] [] \<longleftrightarrow> p = NULL"
| "chain h p (a # as) (x # xs) \<longleftrightarrow>
     p = a \<and> a \<noteq> NULL \<and> (\<exists>n. h a = Some \<lparr>e_data = x, e_next = n\<rparr> \<and> chain h n as xs)"
| "chain h p _ _ \<longleftrightarrow> False"

definition rep :: "'a heap \<Rightarrow> addr \<Rightarrow> addr list \<Rightarrow> 'a queue \<Rightarrow> bool" where
  "rep h p as xs \<longleftrightarrow> chain h p as xs \<and> distinct as \<and> queue_ok xs"

lemma chain_length: "chain h p as xs \<Longrightarrow> length as = length xs"
  by (induction h p as xs rule: chain.induct) auto

lemma chain_NULL: "chain h NULL as xs \<longleftrightarrow> as = [] \<and> xs = []"
  by (cases as; cases xs) auto

lemma chain_NULL_iff: "chain h p as xs \<Longrightarrow> p = NULL \<longleftrightarrow> xs = []"
  by (cases as; cases xs) auto

lemma chain_frame: "chain h p as xs \<Longrightarrow> (\<And>a. a \<in> set as \<Longrightarrow> h' a = h a) \<Longrightarrow> chain h' p as xs"
  by (induction h p as xs rule: chain.induct) auto

lemma chain_update_other [simp]: "chain h p as xs \<Longrightarrow> b \<notin> set as \<Longrightarrow> chain (h(b := v)) p as xs"
  by (erule chain_frame) auto

lemma chain_live: "chain h p as xs \<Longrightarrow> set as \<subseteq> dom h"
  by (induction h p as xs rule: chain.induct) auto

lemma chain_not_NULL: "chain h p as xs \<Longrightarrow> NULL \<notin> set as"
  by (induction h p as xs rule: chain.induct) auto

section \<open>Push\<close>

lemma rep_push:
  assumes "rep h p as xs" "e \<noteq> NULL" "e \<notin> dom h" "queue_ok (x # xs)"
  shows "\<exists>h'. c_queue_push (Some e) h p x = (0, h', e) \<and> rep h' e (e # as) (x # xs)
    \<and> (\<forall>a. a \<noteq> e \<longrightarrow> h' a = h a)"
proof -
  have "e \<notin> set as" using assms chain_live [of h p as xs] by (auto simp: rep_def)
  with assms show ?thesis
    by (cases "p = NULL") (auto simp: c_queue_push_def rep_def chain_NULL)
qed

lemma push_no_memory: "c_queue_push None h p x = (- 1, h, p)"
  by (simp add: c_queue_push_def)

section \<open>Count and peek\<close>

lemma count_walk_chain: "chain h p as xs \<Longrightarrow> count_walk h i p = Some (i + of_nat (length xs))"
proof (induction h p as xs arbitrary: i rule: chain.induct)
  case (1 h p)
  then show ?case by (simp add: count_walk.simps)
next
  case (2 h p a as x xs)
  then show ?case by (auto simp: count_walk.simps [of h i a] add.assoc)
qed auto

lemma c_queue_count_rep: "rep h p as xs \<Longrightarrow> c_queue_count h (Some p) = Some (queue_count xs)"
  by (auto simp: rep_def c_queue_count_def queue_count_def dest: count_walk_chain [of _ _ _ _ 0])

lemma u32_less_Suc: "i < index \<Longrightarrow> unat (i + 1 :: u32) = Suc (unat i)"
proof -
  assume "i < index"
  then have "Suc (unat i) < 2 ^ 32"
    using unat_u32_less [of index] by (simp add: word_less_nat_alt)
  then show ?thesis by (simp add: unat_word_ariths)
qed

text \<open>The walk to an index ends at the cell of that index, with its predecessor behind it.\<close>

lemma remove_walk_chain:
  assumes "chain h p as xs" "i \<le> index" "unat index - unat i < length xs"
  shows "remove_walk h index i tmp p = Some ((tmp # as) ! (unat index - unat i), as ! (unat index - unat i))"
  using assms
proof (induction h p as xs arbitrary: i tmp rule: chain.induct)
  case (2 h p a as x xs)
  show ?case
  proof (cases "i < index")
    case True
    from "2.prems" obtain n where n: "p = a" "h a = Some \<lparr>e_data = x, e_next = n\<rparr>" "chain h n as xs"
      by auto
    have Suc: "unat (i + 1) = Suc (unat i)" using True by (rule u32_less_Suc)
    have less: "unat i < unat index" using True by (simp add: word_less_nat_alt)
    have le: "i + 1 \<le> index" using less Suc by (simp add: word_le_nat_alt)
    have "remove_walk h index (i + 1) a n =
      Some ((a # as) ! (unat index - unat (i + 1)), as ! (unat index - unat (i + 1)))"
      by (rule "2.IH" [OF n(3) le]) (use "2.prems"(3) Suc less in auto)
    moreover have "unat index - unat i = Suc (unat index - unat (i + 1))" using Suc less by simp
    ultimately show ?thesis using n True by (simp add: remove_walk.simps [of h index i])
  next
    case False
    with "2.prems"(2) have "i = index" by simp
    with "2.prems" show ?thesis by (auto simp: remove_walk.simps [of h index index])
  qed
qed auto

lemma peek_walk_remove_walk:
  assumes "chain h p as xs" "i \<le> index" "unat index - unat i < length xs"
  shows "peek_walk h index i p = Some (as ! (unat index - unat i))"
  using assms
proof (induction h p as xs arbitrary: i rule: chain.induct)
  case (2 h p a as x xs)
  show ?case
  proof (cases "i < index")
    case True
    from "2.prems" obtain n where n: "p = a" "a \<noteq> NULL" "h a = Some \<lparr>e_data = x, e_next = n\<rparr>" "chain h n as xs"
      by auto
    have Suc: "unat (i + 1) = Suc (unat i)" using True by (rule u32_less_Suc)
    have less: "unat i < unat index" using True by (simp add: word_less_nat_alt)
    have le: "i + 1 \<le> index" using less Suc by (simp add: word_le_nat_alt)
    have "peek_walk h index (i + 1) n = Some (as ! (unat index - unat (i + 1)))"
      by (rule "2.IH" [OF n(4) le]) (use "2.prems"(3) Suc less in auto)
    moreover have "unat index - unat i = Suc (unat index - unat (i + 1))" using Suc less by simp
    ultimately show ?thesis using n True by (simp add: peek_walk.simps [of h index i])
  next
    case False
    with "2.prems"(2) have "i = index" by simp
    with "2.prems" show ?thesis by (auto simp: peek_walk.simps [of h index index])
  qed
qed auto

lemma chain_cell: "chain h p as xs \<Longrightarrow> k < length xs \<Longrightarrow> \<exists>n. h (as ! k) = Some \<lparr>e_data = xs ! k, e_next = n\<rparr> \<and> as ! k \<noteq> NULL"
proof (induction h p as xs arbitrary: k rule: chain.induct)
  case (2 h p a as x xs)
  then show ?case by (cases k) auto
qed auto

lemma c_queue_peek_rep:
  assumes "rep h p as xs"
  shows "c_queue_peek h p index = Some (queue_peek xs index)"
proof (cases "xs = []")
  case True
  with assms show ?thesis
    by (cases as) (auto simp: rep_def c_queue_peek_def c_queue_count_rep queue_peek_def queue_count_def
        c_queue_count_def count_walk.simps)
next
  case False
  have r: "chain h p as xs" "queue_ok xs" using assms by (auto simp: rep_def)
  have "p \<noteq> NULL" using chain_NULL_iff [OF r(1)] False by simp
  note r = r this
  show ?thesis
  proof (cases "unat index < length xs")
    case True
    have "peek_walk h index 0 p = Some (as ! unat index)"
      using peek_walk_remove_walk [OF r(1), of 0 index] True by simp
    with r True False chain_cell [OF r(1) True] show ?thesis
      by (auto simp: c_queue_peek_def c_queue_count_rep [OF assms] queue_guard queue_peek_nth)
  next
    case False
    with r \<open>xs \<noteq> []\<close> show ?thesis
      by (simp add: c_queue_peek_def c_queue_count_rep [OF assms] queue_guard queue_peek_nth)
  qed
qed

section \<open>Removal\<close>

text \<open>
  Linking the predecessor of the cell at \<open>k\<close> to its successor removes exactly that element from the
  represented sequence.
\<close>

lemma chain_unlink:
  assumes "chain h p as xs" "distinct as" "Suc k < length xs" "h (as ! Suc k) = Some c"
    "h (as ! k) = Some c'"
  shows "chain (h(as ! k \<mapsto> c'\<lparr>e_next := e_next c\<rparr>)) p
    (take (Suc k) as @ drop (Suc (Suc k)) as) (take (Suc k) xs @ drop (Suc (Suc k)) xs)"
  using assms
proof (induction h p as xs arbitrary: k rule: chain.induct)
  case (2 h p a as x xs)
  then obtain n where n: "p = a" "a \<noteq> NULL" "h a = Some \<lparr>e_data = x, e_next = n\<rparr>" "chain h n as xs"
    by auto
  have len: "length as = length xs" using n(4) by (rule chain_length)
  show ?case
  proof (cases k)
    case 0
    with "2.prems" len obtain b bs y ys where b: "as = b # bs" "xs = y # ys"
      by (cases as; cases xs) auto
    with n "2.prems" 0 show ?thesis
      by (auto simp del: fun_upd_apply simp: fun_upd_same)
  next
    case (Suc j)
    have other: "as ! j \<noteq> a" using "2.prems" Suc len by (auto dest: nth_mem)
    have "chain (h(as ! j \<mapsto> c'\<lparr>e_next := e_next c\<rparr>)) n
      (take (Suc j) as @ drop (Suc (Suc j)) as) (take (Suc j) xs @ drop (Suc (Suc j)) xs)"
      by (rule "2.IH" [OF n(4)]) (use "2.prems" Suc in auto)
    with n Suc other show ?thesis
      by (simp del: fun_upd_apply add: fun_upd_other)
  qed
qed auto

lemma distinct_remove_nth: "distinct as \<Longrightarrow> k < length as \<Longrightarrow> as ! k \<notin> set (take k as @ drop (Suc k) as)"
  by (metis Cons_nth_drop_Suc append_take_drop_id distinct.simps(2) distinct_append
      disjoint_insert(1) list.simps(15) set_append Un_iff)

lemma distinct_take_drop: "distinct as \<Longrightarrow> distinct (take k as @ drop (Suc k) as)"
  by (metis append_take_drop_id distinct_append distinct_drop distinct_take drop_drop inf_mono
      plus_1_eq_Suc set_drop_subset subset_refl bot.extremum_uniqueI)

text \<open>The common part of \<open>queue_remove\<close> and \<open>queue_pop\<close>: unlink the cell at \<open>k\<close> and free it.\<close>

lemma rep_unlink:
  assumes r: "rep h p as xs" and k: "k < length xs"
    and c: "h (as ! k) = Some c"
  defines "as' \<equiv> take k as @ drop (Suc k) as" and "xs' \<equiv> take k xs @ drop (Suc k) xs"
  shows "k = 0 \<Longrightarrow> rep (h(as ! 0 := None)) (e_next c) as' xs'"
    and "k = Suc j \<Longrightarrow> \<exists>h'. set_next h (as ! j) (e_next c) = Some h' \<and> rep (h'(as ! k := None)) p as' xs'
      \<and> (\<forall>a. a \<notin> set as \<longrightarrow> h' a = h a)"
proof -
  have r': "chain h p as xs" "distinct as" "queue_ok xs" and len: "length as = length xs"
    using r by (auto simp: rep_def dest: chain_length)
  have fresh: "as ! k \<notin> set as'" using r'(2) k len by (simp add: as'_def distinct_remove_nth del: set_append)
  have dist: "distinct as'" using r'(2) by (simp add: as'_def distinct_take_drop del: distinct_append)
  have ok: "queue_ok xs'" using r'(3) by (simp add: xs'_def queue_ok_def)
  show "rep (h(as ! 0 := None)) (e_next c) as' xs'" if "k = 0"
  proof -
    obtain b bs y ys where "as = b # bs" "xs = y # ys" using k len by (cases as; cases xs) auto
    with that r' c dist ok show ?thesis by (auto simp: rep_def as'_def xs'_def)
  qed
  show "\<exists>h'. set_next h (as ! j) (e_next c) = Some h' \<and> rep (h'(as ! k := None)) p as' xs'
      \<and> (\<forall>a. a \<notin> set as \<longrightarrow> h' a = h a)" if "k = Suc j"
  proof -
    have j: "j < length xs" using that k by simp
    obtain c' where c': "h (as ! j) = Some c'" using chain_cell [OF r'(1) j] by blast
    have "chain (h(as ! j \<mapsto> c'\<lparr>e_next := e_next c\<rparr>)) p as' xs'"
      using chain_unlink [OF r'(1,2), of j c c'] that k c c' by (simp add: as'_def xs'_def)
    with fresh dist ok have "rep (h(as ! j \<mapsto> c'\<lparr>e_next := e_next c\<rparr>, as ! k := None)) p as' xs'"
      by (simp add: rep_def)
    moreover have "as ! j \<in> set as" using j len by simp
    ultimately show ?thesis using c' by (auto simp: set_next_def)
  qed
qed

lemma c_queue_remove_rep:
  assumes r: "rep h p as xs"
  shows "\<exists>h' p' as'. c_queue_remove h p index = Some (fst (queue_remove xs index), h', p')
    \<and> rep h' p' as' (snd (queue_remove xs index)) \<and> set as' \<subseteq> set as \<and> (\<forall>a. a \<notin> set as \<longrightarrow> h' a = h a)"
proof (cases "unat index < length xs")
  case True
  let ?k = "unat index"
  have r': "chain h p as xs" "queue_ok xs" and len: "length as = length xs"
    using r by (auto simp: rep_def dest: chain_length)
  have ne: "xs \<noteq> []" using True by auto
  have p: "p \<noteq> NULL" using chain_NULL_iff [OF r'(1)] ne by simp
  obtain n where n: "h (as ! ?k) = Some \<lparr>e_data = xs ! ?k, e_next = n\<rparr>"
    using chain_cell [OF r'(1) True] by blast
  have walk: "remove_walk h index 0 NULL p = Some ((NULL # as) ! ?k, as ! ?k)"
    using remove_walk_chain [OF r'(1), of 0 index NULL] True by simp
  have nn: "\<And>j. j < length as \<Longrightarrow> as ! j \<noteq> NULL" using chain_cell [OF r'(1)] len by auto
  have sub: "set (take ?k as @ drop (Suc ?k) as) \<subseteq> set as"
    by (auto dest: in_set_takeD in_set_dropD)
  note eqs = c_queue_remove_def c_queue_count_rep [OF r] queue_guard [OF r'(2) ne] p walk n
    queue_remove_nth [OF r'(2)] True
  show ?thesis
  proof (cases ?k)
    case 0
    have "rep (h(as ! 0 := None)) n (take ?k as @ drop (Suc ?k) as) (take ?k xs @ drop (Suc ?k) xs)"
      using rep_unlink(1) [OF r True n 0] by simp
    moreover have "as ! 0 \<in> set as" using ne len by (intro nth_mem) simp
    moreover have "xs ! 0 = xs ! unat index" using 0 by simp
    ultimately show ?thesis using sub 0 ne
      by (intro exI [of _ "h(as ! 0 := None)"] exI [of _ n] exI [of _ "take ?k as @ drop (Suc ?k) as"])
         (auto simp: eqs walk [unfolded 0] n [unfolded 0])
  next
    case (Suc j)
    obtain h' where h': "set_next h (as ! j) n = Some h'"
      "rep (h'(as ! ?k := None)) p (take ?k as @ drop (Suc ?k) as) (take ?k xs @ drop (Suc ?k) xs)"
      "\<forall>a. a \<notin> set as \<longrightarrow> h' a = h a"
      using rep_unlink(2) [OF r True n Suc] by auto
    have "as ! j \<noteq> NULL" using nn Suc True len by simp
    moreover have "as ! ?k \<in> set as" using True len by simp
    ultimately show ?thesis using sub h' Suc True [unfolded Suc]
      by (intro exI [of _ "h'(as ! ?k := None)"] exI [of _ p] exI [of _ "take ?k as @ drop (Suc ?k) as"])
         (auto simp: eqs walk [unfolded Suc] n [unfolded Suc])
  qed
next
  case False
  then have "c_queue_remove h p index = Some (None, h, p)"
    using r by (cases "xs = []") (auto simp: c_queue_remove_def c_queue_count_rep [OF r] rep_def queue_guard
        dest: chain_NULL_iff)
  with False r show ?thesis by (auto simp: rep_def queue_remove_nth)
qed

section \<open>Pop and destroy\<close>

lemma pop_walk_chain:
  "chain h p as xs \<Longrightarrow> xs \<noteq> [] \<Longrightarrow>
     pop_walk h tmp p = Some ((tmp # as) ! (length xs - 1), as ! (length xs - 1))"
proof (induction h p as xs arbitrary: tmp rule: chain.induct)
  case (2 h p a as x xs)
  then obtain n where n: "p = a" "a \<noteq> NULL" "h a = Some \<lparr>e_data = x, e_next = n\<rparr>" "chain h n as xs"
    by auto
  show ?case
  proof (cases xs)
    case Nil
    with n show ?thesis by (cases as) (auto simp: pop_walk.simps [of h tmp a])
  next
    case (Cons y ys)
    then have "pop_walk h a n = Some ((a # as) ! (length xs - 1), as ! (length xs - 1))"
      by (intro "2.IH" [OF n(4)]) simp
    with n Cons show ?thesis
      using chain_NULL_iff [OF n(4)] by (simp add: pop_walk.simps [of h tmp a])
  qed
qed auto

lemma chain_last: "chain h p as xs \<Longrightarrow> xs \<noteq> [] \<Longrightarrow>
    h (as ! (length xs - 1)) = Some \<lparr>e_data = last xs, e_next = NULL\<rparr>"
proof (induction h p as xs rule: chain.induct)
  case (2 h p a as x xs)
  then show ?case by (cases xs; cases as) auto
qed auto

lemma c_queue_pop_rep:
  assumes r: "rep h p as xs"
  shows "\<exists>h' p' as'. c_queue_pop h p = Some (fst (queue_pop xs), h', p')
    \<and> rep h' p' as' (snd (queue_pop xs)) \<and> set as' \<subseteq> set as \<and> (\<forall>a. a \<notin> set as \<longrightarrow> h' a = h a)"
proof (cases "xs = []")
  case True
  with r show ?thesis
    by (auto simp: rep_def c_queue_pop_def queue_pop_def dest: chain_NULL_iff)
next
  case ne: False
  let ?k = "length xs - 1"
  have r': "chain h p as xs" and len: "length as = length xs"
    using r by (auto simp: rep_def dest: chain_length)
  have p: "p \<noteq> NULL" using chain_NULL_iff [OF r'] ne by simp
  have k: "?k < length xs" using ne by simp
  note last = chain_last [OF r' ne] and walk = pop_walk_chain [OF r' ne, of NULL]
  have seq: "take ?k xs @ drop (Suc ?k) xs = butlast xs" using ne by (simp add: butlast_conv_take)
  have sub: "set (take ?k as @ drop (Suc ?k) as) \<subseteq> set as"
    by (auto dest: in_set_takeD in_set_dropD)
  have nn: "\<And>j. j < length as \<Longrightarrow> as ! j \<noteq> NULL" using chain_cell [OF r'] len by auto
  note eqs = c_queue_pop_def p walk last queue_pop_def ne
  show ?thesis
  proof (cases ?k)
    case 0
    have "rep (h(as ! 0 := None)) NULL (take ?k as @ drop (Suc ?k) as) (butlast xs)"
      using rep_unlink(1) [OF r k last 0] seq by simp
    moreover have "as ! 0 \<in> set as" using ne len by (intro nth_mem) simp
    ultimately show ?thesis using sub
      by (intro exI [of _ "h(as ! 0 := None)"] exI [of _ NULL] exI [of _ "take ?k as @ drop (Suc ?k) as"])
         (auto simp: c_queue_pop_def p queue_pop_def ne walk [unfolded 0] last [unfolded 0])
  next
    case (Suc j)
    obtain h' where h': "set_next h (as ! j) NULL = Some h'"
      "rep (h'(as ! Suc j := None)) p (take (Suc j) as @ drop (Suc (Suc j)) as) (butlast xs)"
      "\<forall>a. a \<notin> set as \<longrightarrow> h' a = h a"
      using rep_unlink(2) [OF r k last Suc] seq unfolding Suc by auto
    have "as ! j \<noteq> NULL" using nn Suc len by simp
    moreover have "as ! Suc j \<in> set as" using k len Suc by (intro nth_mem) simp
    ultimately show ?thesis using sub [unfolded Suc] h'
      by (intro exI [of _ "h'(as ! Suc j := None)"] exI [of _ p] exI [of _ "take (Suc j) as @ drop (Suc (Suc j)) as"])
         (auto simp: c_queue_pop_def p queue_pop_def ne walk [unfolded Suc] last [unfolded Suc])
  qed
qed

lemma destroy_walk_chain:
  "chain h p as xs \<Longrightarrow> distinct as \<Longrightarrow>
     \<exists>h'. destroy_walk h fs p = Some (fs @ xs, h') \<and> (\<forall>a. h' a = (if a \<in> set as then None else h a))"
proof (induction xs arbitrary: h p as fs)
  case Nil
  then show ?case by (cases as) (auto simp: destroy_walk.simps)
next
  case (Cons x xs)
  then obtain b bs n where n: "as = b # bs" "p = b" "b \<noteq> NULL" "h b = Some \<lparr>e_data = x, e_next = n\<rparr>"
    "chain h n bs xs" by (cases as) auto
  have "chain (h(b := None)) n bs xs" "distinct bs" using n Cons.prems by auto
  from Cons.IH [OF this, of "fs @ [x]"]
  obtain h' where "destroy_walk (h(b := None)) (fs @ [x]) n = Some ((fs @ [x]) @ xs, h')"
    "\<forall>a. h' a = (if a \<in> set bs then None else (h(b := None)) a)"
    by blast
  with n show ?case by (auto simp: destroy_walk.simps [of h fs b])
qed

lemma c_queue_destroy_rep:
  "rep h p as xs \<Longrightarrow>
     \<exists>h'. c_queue_destroy h p = Some (xs, h') \<and> (\<forall>a. h' a = (if a \<in> set as then None else h a))"
  using destroy_walk_chain [of h p as xs "[]"] by (auto simp: rep_def c_queue_destroy_def)

section \<open>Runs of operations\<close>

text \<open>
  Any sequence of calls on a new queue: \<open>c_run\<close> executes it on the heap, \<open>q_run\<close> on the represented
  sequence. A push says whether \<open>malloc\<close> finds memory; \<open>fresh\<close> is the address it then returns.
\<close>

datatype 'a qop = Push bool 'a | Pop | Peek u32 | Remove u32 | Count

datatype 'a qres = Res_code int | Res_data "'a option" | Res_count u32

fun c_step :: "('a heap \<Rightarrow> addr) \<Rightarrow> 'a qop \<Rightarrow> 'a heap \<times> addr \<Rightarrow> ('a qres \<times> 'a heap \<times> addr) option" where
  "c_step fresh (Push mem x) (h, p) =
     (case c_queue_push (if mem then Some (fresh h) else None) h p x of (r, h', p') \<Rightarrow> Some (Res_code r, h', p'))"
| "c_step fresh Pop (h, p) = map_option (\<lambda>(d, h', p'). (Res_data d, h', p')) (c_queue_pop h p)"
| "c_step fresh (Peek i) (h, p) = map_option (\<lambda>d. (Res_data d, h, p)) (c_queue_peek h p i)"
| "c_step fresh (Remove i) (h, p) = map_option (\<lambda>(d, h', p'). (Res_data d, h', p')) (c_queue_remove h p i)"
| "c_step fresh Count (h, p) = map_option (\<lambda>n. (Res_count n, h, p)) (c_queue_count h (Some p))"

fun q_step :: "'a qop \<Rightarrow> 'a queue \<Rightarrow> 'a qres \<times> 'a queue" where
  "q_step (Push mem x) q = (case queue_push mem q x of (r, q') \<Rightarrow> (Res_code r, q'))"
| "q_step Pop q = (case queue_pop q of (d, q') \<Rightarrow> (Res_data d, q'))"
| "q_step (Peek i) q = (Res_data (queue_peek q i), q)"
| "q_step (Remove i) q = (case queue_remove q i of (d, q') \<Rightarrow> (Res_data d, q'))"
| "q_step Count q = (Res_count (queue_count q), q)"

fun c_run :: "('a heap \<Rightarrow> addr) \<Rightarrow> 'a qop list \<Rightarrow> 'a heap \<times> addr \<Rightarrow> ('a qres list \<times> 'a heap \<times> addr) option" where
  "c_run fresh [] s = Some ([], s)"
| "c_run fresh (op # ops) s =
     (case c_step fresh op s of
        None \<Rightarrow> None
      | Some (r, s') \<Rightarrow> map_option (\<lambda>(rs, s''). (r # rs, s'')) (c_run fresh ops s'))"

fun q_run :: "'a qop list \<Rightarrow> 'a queue \<Rightarrow> 'a qres list \<times> 'a queue" where
  "q_run [] q = ([], q)"
| "q_run (op # ops) q = (case q_step op q of (r, q') \<Rightarrow> case q_run ops q' of (rs, q'') \<Rightarrow> (r # rs, q''))"

definition fresh_ok :: "('a heap \<Rightarrow> addr) \<Rightarrow> bool" where
  "fresh_ok fresh \<longleftrightarrow> (\<forall>h. finite (dom h) \<longrightarrow> fresh h \<noteq> NULL \<and> h (fresh h) = None)"

lemma finite_dom_frame: "finite (dom h) \<Longrightarrow> finite A \<Longrightarrow> (\<And>a. a \<notin> A \<Longrightarrow> h' a = h a) \<Longrightarrow> finite (dom h')"
  by (rule finite_subset [of _ "dom h \<union> A"]) (auto simp: dom_def)

lemma c_step_rep:
  assumes f: "fresh_ok fresh" and r: "rep h p as q" and fin: "finite (dom h)"
    and len: "Suc (length q) < 2 ^ 32"
  shows "\<exists>h' p' as'. c_step fresh op (h, p) = Some (fst (q_step op q), h', p')
    \<and> rep h' p' as' (snd (q_step op q)) \<and> finite (dom h')"
proof (cases op)
  case (Push mem x)
  show ?thesis
  proof (cases mem)
    case True
    have "fresh h \<noteq> NULL" "fresh h \<notin> dom h" using f fin by (auto simp: fresh_ok_def)
    from rep_push [OF r this, of x] len
    obtain h' where h': "c_queue_push (Some (fresh h)) h p x = (0, h', fresh h)"
      "rep h' (fresh h) (fresh h # as) (x # q)" "\<forall>a. a \<noteq> fresh h \<longrightarrow> h' a = h a"
      by (auto simp: queue_ok_def)
    have "finite (dom h')" using h'(3) by (intro finite_dom_frame [OF fin, of "{fresh h}"]) auto
    with Push True h' show ?thesis by (auto simp: queue_push_def)
  next
    case False
    with Push r fin show ?thesis by (auto simp: push_no_memory queue_push_def)
  qed
next
  case Pop
  obtain h' p' as' where "c_queue_pop h p = Some (fst (queue_pop q), h', p')" "rep h' p' as' (snd (queue_pop q))"
    "\<forall>a. a \<notin> set as \<longrightarrow> h' a = h a"
    using c_queue_pop_rep [OF r] by blast
  moreover from this have "finite (dom h')" by (intro finite_dom_frame [OF fin, of "set as"]) auto
  ultimately show ?thesis using Pop by (auto simp: case_prod_beta)
next
  case (Peek i)
  with r fin show ?thesis by (auto simp: c_queue_peek_rep)
next
  case (Remove i)
  obtain h' p' as' where "c_queue_remove h p i = Some (fst (queue_remove q i), h', p')"
    "rep h' p' as' (snd (queue_remove q i))" "\<forall>a. a \<notin> set as \<longrightarrow> h' a = h a"
    using c_queue_remove_rep [OF r] by blast
  moreover from this have "finite (dom h')" by (intro finite_dom_frame [OF fin, of "set as"]) auto
  ultimately show ?thesis using Remove by (auto simp: case_prod_beta)
next
  case Count
  with r fin show ?thesis by (auto simp: c_queue_count_rep)
qed

lemma q_step_length: "queue_ok q \<Longrightarrow> length (snd (q_step op q)) \<le> Suc (length q)"
  by (cases op) (auto simp: queue_push_def queue_pop_def queue_remove_nth case_prod_beta)

lemma c_run_rep:
  assumes f: "fresh_ok fresh" and "rep h p as q" "finite (dom h)" "length q + length ops < 2 ^ 32"
  shows "\<exists>h' p' as'. c_run fresh ops (h, p) = Some (fst (q_run ops q), h', p') \<and> rep h' p' as' (snd (q_run ops q))"
  using assms(2-)
proof (induction ops arbitrary: h p as q)
  case (Cons op ops)
  then have "Suc (length q) < 2 ^ 32" by simp
  from c_step_rep [OF f Cons.prems(1,2) this, of op] obtain h1 p1 as1
    where s1: "c_step fresh op (h, p) = Some (fst (q_step op q), h1, p1)"
      "rep h1 p1 as1 (snd (q_step op q))" "finite (dom h1)" by blast
  have "length (snd (q_step op q)) + length ops < 2 ^ 32"
    using q_step_length [of q op] Cons.prems by (auto simp: rep_def)
  from Cons.IH [OF s1(2,3) this] s1(1) show ?case by (auto simp: case_prod_beta)
qed auto

text \<open>
  C3. Linked cells implement the queue. For every sequence of push, pop, peek, remove and count calls
  on a new queue (fewer than \<open>2 ^ 32\<close> of them), with any failures of \<open>malloc\<close>, the C code never
  dereferences \<open>NULL\<close> or freed memory, ends every walk, and returns exactly the results of the
  list operations; the cells left represent the list left.
\<close>

theorem queue_refinement:
  assumes "fresh_ok fresh" "length ops < 2 ^ 32"
  shows "\<exists>h p as. c_run fresh ops (Map.empty, NULL) = Some (fst (q_run ops queue_create), h, p)
    \<and> rep h p as (snd (q_run ops queue_create))"
proof -
  have "rep Map.empty NULL [] []" by (simp add: rep_def)
  from c_run_rep [OF assms(1) this] assms(2) show ?thesis by (auto simp: queue_create_def)
qed

definition next_addr :: "'a heap \<Rightarrow> addr" where
  "next_addr h = (if h 1 = None then 1 else if h 2 = None then 2 else Suc (Max (insert 2 (dom h))))"

lemma fresh_ok_next_addr: "fresh_ok next_addr"
proof -
  have "h (Suc (Max (insert 2 (dom h)))) = None" if "finite (dom h)" for h :: "'a heap"
  proof (rule ccontr)
    assume "h (Suc (Max (insert 2 (dom h)))) \<noteq> None"
    then have "Suc (Max (insert 2 (dom h))) \<in> insert 2 (dom h)" by (simp add: domIff)
    then have "Suc (Max (insert 2 (dom h))) \<le> Max (insert 2 (dom h))" using that by (intro Max_ge) auto
    then show False by simp
  qed
  then show ?thesis by (auto simp: fresh_ok_def next_addr_def)
qed

theorem queue_refinement_witness:
  "\<exists>h p as. c_run next_addr [Push True 7, Push True (8 :: nat), Peek 0, Push False 9, Pop, Count, Remove 3] (Map.empty, NULL)
      = Some ([Res_code 0, Res_code 0, Res_data (Some 8), Res_code (- 1), Res_data (Some 7), Res_count 1, Res_data None], h, p)
    \<and> rep h p as [8]"
  using queue_refinement [OF fresh_ok_next_addr,
      of "[Push True 7, Push True (8 :: nat), Peek 0, Push False 9, Pop, Count, Remove 3]"]
  by (simp add: queue_create_def queue_push_def queue_pop_def queue_peek_def queue_remove_def queue_count_def)

text \<open>
  Destroying a queue hands every stored pointer to \<open>free\<close> once, in order, and frees exactly the
  cells of this queue: every other cell of the heap is untouched, and nothing freed is read.
\<close>

theorem queue_destroy_exact:
  "rep h p as q \<Longrightarrow>
     \<exists>h'. c_queue_destroy h p = Some (q, h') \<and> (\<forall>a. h' a = (if a \<in> set as then None else h a))"
  by (rule c_queue_destroy_rep)

theorem queue_destroy_exact_witness:
  "\<exists>h'. c_queue_destroy [1 \<mapsto> \<lparr>e_data = (7 :: nat), e_next = 2\<rparr>, 2 \<mapsto> \<lparr>e_data = 8, e_next = NULL\<rparr>, 5 \<mapsto> \<lparr>e_data = 9, e_next = NULL\<rparr>] 1
      = Some ([7, 8], h') \<and> h' 2 = None \<and> h' 5 = Some \<lparr>e_data = 9, e_next = NULL\<rparr>"
  using queue_destroy_exact [of "[1 \<mapsto> \<lparr>e_data = (7 :: nat), e_next = 2\<rparr>, 2 \<mapsto> \<lparr>e_data = 8, e_next = NULL\<rparr>, 5 \<mapsto> \<lparr>e_data = 9, e_next = NULL\<rparr>]" 1 "[1, 2]" "[7, 8]"]
  by (auto simp: rep_def queue_ok_def)

end
