(* ===== verification/Emu_Hash_Map.thy ===== *)
theory Emu_Hash_Map
  imports Emu_Queue
begin

text \<open>
  The \<open>hash_map_*\<close> functions of \<open>src/utils/collection.c\<close>: a queue of key and data pairs searched from
  the head. The keys are compared with \<open>strncmp\<close> over the length of the key that is looked up, so
  a lookup also matches a stored key that only starts with it. The locale \<open>keyed_store\<close> is the
  contract the station managers rely on, and it is interpreted on these functions for the lookups
  in which no other stored key extends the one looked up (\<open>key_apart\<close>).
\<close>

section \<open>Operations\<close>

type_synonym 'a hash_map = "(string \<times> 'a) queue"

definition hash_map_create :: "'a hash_map" where
  "hash_map_create = queue_create"

definition hash_map_count :: "'a hash_map \<Rightarrow> u32" where
  "hash_map_count m = queue_count m"

text \<open>The two flags are whether the two \<open>malloc\<close> calls (hash element, queue cell) succeed.\<close>

definition hash_map_put :: "bool \<Rightarrow> bool \<Rightarrow> 'a hash_map \<Rightarrow> string \<Rightarrow> 'a \<Rightarrow> int \<times> 'a hash_map" where
  "hash_map_put mem_e mem_q m key d = (if mem_e then queue_push mem_q m (key, d) else (- 1, m))"

definition key_match :: "string \<Rightarrow> string \<times> 'a \<Rightarrow> bool" where
  "key_match key e \<longleftrightarrow> strncmp_eq (fst e) key (length key)"

definition hash_map_get :: "'a hash_map \<Rightarrow> string \<Rightarrow> 'a option" where
  "hash_map_get m key =
     (if queue_count m = 0 then None
      else case queue_search (key_match key) m of
             None \<Rightarrow> None
           | Some (i, e) \<Rightarrow> Some (snd e))"

text \<open>
  The data removed and the map left. The element \<open>queue_remove\<close> takes at the index found is asserted
  to be the one found, \<open>None\<close> is a failure of this assertion.
\<close>

definition hash_map_remove :: "'a hash_map \<Rightarrow> string \<Rightarrow> ('a option \<times> 'a hash_map) option" where
  "hash_map_remove m key =
     (if queue_count m = 0 then Some (None, m)
      else case queue_search (key_match key) m of
             None \<Rightarrow> Some (None, m)
           | Some (i, e) \<Rightarrow>
               (case queue_remove m (of_nat i) of
                  (Some e', m') \<Rightarrow>
                    if e' = e then Some (Some (snd e), m') else None
                | (None, m') \<Rightarrow> None))"

definition hash_map_get_first :: "'a hash_map \<Rightarrow> 'a option" where
  "hash_map_get_first m = map_option snd (queue_peek m 0)"

text \<open>The element is found again by comparing its data pointer.\<close>

definition hash_map_get_next :: "'a hash_map \<Rightarrow> 'a \<Rightarrow> 'a option" where
  "hash_map_get_next m d =
     (case queue_search (\<lambda>e. snd e = d) m of
        None \<Rightarrow> None
      | Some (i, e) \<Rightarrow> map_option snd (queue_peek m (of_nat i + 1)))"

section \<open>Lookups and removals in terms of the first matching element\<close>

lemma key_match_iff: "key_match key e \<longleftrightarrow> take (length key) (fst e) = key"
  by (simp add: key_match_def strncmp_eq_prefix)

lemma hash_map_get_find: "queue_ok m \<Longrightarrow> hash_map_get m key = map_option snd (find (key_match key) m)"
  by (auto simp: hash_map_get_def eq.index_search_first option.map_comp comp_def
      simp flip: first_index_find split: option.splits)

fun remove_first :: "('a \<Rightarrow> bool) \<Rightarrow> 'a list \<Rightarrow> 'a list" where
  "remove_first P [] = []"
| "remove_first P (x # xs) = (if P x then xs else x # remove_first P xs)"

lemma remove_first_index:
  "remove_first P xs = (case first_index P xs of None \<Rightarrow> xs | Some (i, x) \<Rightarrow> take i xs @ drop (Suc i) xs)"
  by (induction xs) (auto simp: apfst_def map_prod_def split: option.splits prod.splits)

lemma set_remove_first: "set (remove_first P xs) \<subseteq> set xs"
  by (induction xs) auto

lemma distinct_remove_first: "distinct (map f xs) \<Longrightarrow> distinct (map f (remove_first P xs))"
  using set_remove_first [of P] by (induction xs) auto

lemma length_remove_first: "length (remove_first P xs) \<le> length xs"
  by (induction xs) auto

lemma hash_map_remove_first:
  assumes "queue_ok m"
  shows "hash_map_remove m key = Some (hash_map_get m key, remove_first (key_match key) m)"
proof (cases "first_index (key_match key) m")
  case None
  with assms show ?thesis
    by (simp add: hash_map_remove_def hash_map_get_def eq.index_search_first remove_first_index)
next
  case (Some ie)
  obtain i e where ie: "ie = (i, e)" by (cases ie)
  with Some have i: "i < length m" "m ! i = e" by (auto simp: first_index_Some)
  with assms have "unat (of_nat i :: u32) = i" by (simp add: queue_ok_def)
  with assms Some i ie show ?thesis
    by (auto simp: hash_map_remove_def hash_map_get_def eq.index_search_first remove_first_index
        queue_remove_nth)
qed

section \<open>Iteration\<close>

text \<open>\<open>d = get_first(m); while (d != NULL) { ...; d = get_next(m, d); }\<close>, at most \<open>n\<close> rounds.\<close>

fun map_walk :: "nat \<Rightarrow> 'a hash_map \<Rightarrow> 'a option \<Rightarrow> 'a list" where
  "map_walk n m None = []"
| "map_walk 0 m (Some d) = []"
| "map_walk (Suc n) m (Some d) = d # map_walk n m (hash_map_get_next m d)"

lemma first_index_nth:
  "distinct (map f xs) \<Longrightarrow> i < length xs \<Longrightarrow> first_index (\<lambda>x. f x = f (xs ! i)) xs = Some (i, xs ! i)"
  by (auto simp: first_index_Some distinct_conv_nth)

lemma hash_map_get_next_nth:
  assumes "queue_ok m" "distinct (map snd m)" "i < length m"
  shows "hash_map_get_next m (snd (m ! i)) = (if Suc i < length m then Some (snd (m ! Suc i)) else None)"
proof -
  have "unat (of_nat i + 1 :: u32) = Suc i \<or> length m = Suc i"
  proof (cases "Suc i < length m")
    case True
    then have "unat (of_nat (Suc i) :: u32) = Suc i"
      using assms(1) by (intro unat_of_nat_u32) (simp add: queue_ok_def)
    then show ?thesis by (simp add: add.commute)
  qed (use assms(3) in auto)
  moreover have "unat (of_nat i + 1 :: u32) = Suc i"
  proof -
    have "Suc i < 2 ^ 32" using assms by (simp add: queue_ok_def)
    then have "unat (of_nat (Suc i) :: u32) = Suc i" by (rule unat_of_nat_u32)
    then show ?thesis by (simp add: add.commute)
  qed
  ultimately show ?thesis
    using first_index_nth [OF assms(2,3)] assms
    by (simp add: hash_map_get_next_def eq.index_search_first queue_peek_nth)
qed

lemma map_walk_from:
  assumes "queue_ok m" "distinct (map snd m)" "i < length m" "length m \<le> i + n"
  shows "map_walk n m (Some (snd (m ! i))) = map snd (drop i m)"
  using assms(3,4)
proof (induction n arbitrary: i)
  case (Suc n)
  then show ?case
    using hash_map_get_next_nth [OF assms(1,2) Suc.prems(1)] Cons_nth_drop_Suc [OF Suc.prems(1)]
    by (cases "Suc i < length m") (auto simp flip: Cons_nth_drop_Suc)
qed simp

lemma map_walk_all:
  "queue_ok m \<Longrightarrow> distinct (map snd m) \<Longrightarrow> length m \<le> n \<Longrightarrow>
     map_walk n m (hash_map_get_first m) = map snd m"
  using map_walk_from [of m 0 n] by (cases m) (auto simp: hash_map_get_first_def queue_peek_nth)

section \<open>The contract of a keyed store\<close>

locale keyed_store =
  fixes get :: "'m \<Rightarrow> 'k \<Rightarrow> 'v option"
    and put :: "'m \<Rightarrow> 'k \<Rightarrow> 'v \<Rightarrow> 'm"
    and remove :: "'m \<Rightarrow> 'k \<Rightarrow> 'm"
    and view :: "'m \<Rightarrow> 'k \<Rightarrow> 'v option"
    and ok :: "'m \<Rightarrow> bool"
    and fits :: "'m \<Rightarrow> 'k \<Rightarrow> bool"
    and room :: "'m \<Rightarrow> bool"
    and apart :: "'k \<Rightarrow> 'k \<Rightarrow> bool"
  assumes get_view: "ok m \<Longrightarrow> fits m k \<Longrightarrow> get m k = view m k"
    and put_view: "view (put m k v) = (view m)(k \<mapsto> v)"
    and put_ok: "ok m \<Longrightarrow> room m \<Longrightarrow> view m k = None \<Longrightarrow> ok (put m k v)"
    and put_fits: "fits m k' \<Longrightarrow> apart k k' \<Longrightarrow> fits (put m k v) k'"
    and apart_refl: "apart k k"
    and remove_view: "ok m \<Longrightarrow> fits m k \<Longrightarrow> view (remove m k) = (view m)(k := None)"
    and remove_ok: "ok m \<Longrightarrow> ok (remove m k)"
    and remove_fits: "fits m k' \<Longrightarrow> ok m \<Longrightarrow> fits (remove m k) k'"
begin

lemma get_put_same:
  "ok m \<Longrightarrow> room m \<Longrightarrow> view m k = None \<Longrightarrow> fits m k \<Longrightarrow> get (put m k v) k = Some v"
  using get_view [OF put_ok put_fits [OF _ apart_refl]] by (simp add: put_view)

lemma get_put_other:
  "ok m \<Longrightarrow> room m \<Longrightarrow> view m k = None \<Longrightarrow> fits m k' \<Longrightarrow> apart k k' \<Longrightarrow> k' \<noteq> k \<Longrightarrow>
     get (put m k v) k' = get m k'"
  using get_view [OF put_ok put_fits] get_view by (simp add: put_view)

lemma get_remove_same: "ok m \<Longrightarrow> fits m k \<Longrightarrow> get (remove m k) k = None"
  using get_view [OF remove_ok remove_fits] by (simp add: remove_view)

lemma get_remove_other:
  "ok m \<Longrightarrow> fits m k \<Longrightarrow> fits m k' \<Longrightarrow> k' \<noteq> k \<Longrightarrow> get (remove m k) k' = get m k'"
  using get_view [OF remove_ok remove_fits] get_view by (simp add: remove_view)

lemma put_remove_view:
  "ok m \<Longrightarrow> room m \<Longrightarrow> view m k = None \<Longrightarrow> fits m k \<Longrightarrow> view (remove (put m k v) k) = view m"
  using remove_view [OF put_ok put_fits [OF _ apart_refl]] by (simp add: put_view fun_upd_idem)

end

section \<open>The hash map is a keyed store for keys that are apart\<close>

definition hm_put :: "'a hash_map \<Rightarrow> string \<Rightarrow> 'a \<Rightarrow> 'a hash_map" where
  "hm_put m k v = snd (hash_map_put True True m k v)"

definition hm_remove :: "'a hash_map \<Rightarrow> string \<Rightarrow> 'a hash_map" where
  "hm_remove m k = (case hash_map_remove m k of None \<Rightarrow> m | Some (d, m') \<Rightarrow> m')"

definition hm_ok :: "'a hash_map \<Rightarrow> bool" where
  "hm_ok m \<longleftrightarrow> queue_ok m \<and> distinct (map fst m)"

definition hm_room :: "'a hash_map \<Rightarrow> bool" where
  "hm_room m \<longleftrightarrow> Suc (length m) < 2 ^ 32"

text \<open>A stored key \<open>k\<close> does not interfere with a lookup of \<open>k'\<close>: \<open>k'\<close> is not a proper prefix of \<open>k\<close>.\<close>

definition key_apart :: "string \<Rightarrow> string \<Rightarrow> bool" where
  "key_apart k k' \<longleftrightarrow> take (length k') k = k' \<longrightarrow> k = k'"

definition hm_fits :: "'a hash_map \<Rightarrow> string \<Rightarrow> bool" where
  "hm_fits m k' \<longleftrightarrow> (\<forall>e \<in> set m. key_apart (fst e) k')"

lemma hm_fits_find:
  "hm_fits m k \<Longrightarrow> find (key_match k) m = map_option (Pair k) (map_of m k)"
  by (induction m) (auto simp: hm_fits_def key_match_iff key_apart_def)

lemma hm_fits_remove_first:
  "hm_fits m k \<Longrightarrow> distinct (map fst m) \<Longrightarrow> map_of (remove_first (key_match k) m) = (map_of m)(k := None)"
proof (induction m)
  case (Cons e m)
  then have "hm_fits m k" "distinct (map fst m)" by (auto simp: hm_fits_def)
  note IH = Cons.IH [OF this]
  have "key_match k e \<longleftrightarrow> fst e = k"
    using Cons.prems(1) by (auto simp: hm_fits_def key_match_iff key_apart_def)
  moreover have "fst e = k \<Longrightarrow> map_of m k = None"
    using Cons.prems(2) by (auto simp: map_of_eq_None_iff)
  ultimately show ?case using IH
    by (auto simp: fun_eq_iff)
qed (simp add: fun_eq_iff)

interpretation hm: keyed_store hash_map_get hm_put hm_remove map_of hm_ok hm_fits hm_room key_apart
proof unfold_locales
  fix m :: "'a hash_map" and k k' :: string and v :: 'a
  show "hm_ok m \<Longrightarrow> hm_fits m k \<Longrightarrow> hash_map_get m k = map_of m k"
    by (simp add: hm_ok_def hash_map_get_find hm_fits_find option.map_comp comp_def option.map_ident)
  show "map_of (hm_put m k v) = (map_of m)(k \<mapsto> v)"
    by (simp add: hm_put_def hash_map_put_def queue_push_def)
  show "hm_ok m \<Longrightarrow> hm_room m \<Longrightarrow> map_of m k = None \<Longrightarrow> hm_ok (hm_put m k v)"
    by (auto simp: hm_put_def hash_map_put_def queue_push_def hm_ok_def hm_room_def queue_ok_def
        map_of_eq_None_iff)
  show "hm_fits m k' \<Longrightarrow> key_apart k k' \<Longrightarrow> hm_fits (hm_put m k v) k'"
    by (simp add: hm_put_def hash_map_put_def queue_push_def hm_fits_def)
  show "key_apart k k" by (simp add: key_apart_def)
  show "hm_ok m \<Longrightarrow> hm_fits m k \<Longrightarrow> map_of (hm_remove m k) = (map_of m)(k := None)"
    by (simp add: hm_ok_def hm_remove_def hash_map_remove_first hm_fits_remove_first)
  show "hm_ok m \<Longrightarrow> hm_ok (hm_remove m k)"
    using length_remove_first [of "key_match k" m]
    by (auto simp: hm_ok_def hm_remove_def hash_map_remove_first queue_ok_def distinct_remove_first)
  show "hm_fits m k' \<Longrightarrow> hm_ok m \<Longrightarrow> hm_fits (hm_remove m k) k'"
    using set_remove_first [of "key_match k" m]
    by (auto simp: hm_ok_def hm_remove_def hash_map_remove_first hm_fits_def)
qed

section \<open>Properties\<close>

text \<open>
  C30. The hash map is a map as long as no stored key extends a key that is looked up: after
  \<open>hash_map_put\<close> of a new key the key is found, every other lookup is unchanged, and
  \<open>hash_map_remove\<close> returns the data of the key and takes nothing else away.
\<close>

theorem hash_map_put_get_remove:
  assumes "hm_ok m" "hm_room m" "map_of m k = None" "hm_fits m k" "hm_fits m k'" "key_apart k k'" "k' \<noteq> k"
  shows "hash_map_get (snd (hash_map_put True True m k v)) k = Some v
    \<and> hash_map_get (snd (hash_map_put True True m k v)) k' = hash_map_get m k'
    \<and> (\<exists>m'. hash_map_remove (snd (hash_map_put True True m k v)) k = Some (Some v, m') \<and> map_of m' = map_of m)"
proof -
  have ok: "queue_ok (hm_put m k v)" using hm.put_ok [OF assms(1-3)] by (simp add: hm_ok_def)
  have get: "hash_map_get (hm_put m k v) k = Some v" by (rule hm.get_put_same [OF assms(1-4)])
  moreover have "hash_map_get (hm_put m k v) k' = hash_map_get m k'"
    by (rule hm.get_put_other [OF assms(1-3,5-7)])
  moreover have "map_of (hm_remove (hm_put m k v) k) = map_of m"
    by (rule hm.put_remove_view [OF assms(1-4)])
  ultimately show ?thesis using hash_map_remove_first [OF ok, of k]
    by (simp add: hm_put_def hm_remove_def)
qed

theorem hash_map_put_get_remove_witness:
  "hash_map_get (snd (hash_map_put True True [(''2-1'', 5 :: nat)] ''1-1'' 7)) ''1-1'' = Some 7
    \<and> hash_map_get (snd (hash_map_put True True [(''2-1'', 5 :: nat)] ''1-1'' 7)) ''2-1'' = hash_map_get [(''2-1'', 5)] ''2-1''"
  using hash_map_put_get_remove [of "[(''2-1'', 5 :: nat)]" "''1-1''" "''2-1''" 7]
  by (simp add: hm_ok_def hm_room_def hm_fits_def key_apart_def queue_ok_def)

text \<open>
  The comparison over the length of the looked-up key confuses keys: when \<open>1-10\<close> was put after
  \<open>1-1\<close>, a lookup of \<open>1-1\<close> returns the data of \<open>1-10\<close> and a removal of \<open>1-1\<close> takes \<open>1-10\<close> away.
\<close>

theorem hash_map_prefix_confusion:
  "let m = snd (hash_map_put True True (snd (hash_map_put True True hash_map_create ''1-1'' (1 :: nat))) ''1-10'' 10)
   in hash_map_get m ''1-1'' = Some 10
     \<and> hash_map_remove m ''1-1'' = Some (Some 10, [(''1-1'', 1)])"
proof -
  have "queue_ok [(''1-10'', 10 :: nat), (''1-1'', 1)]" by (simp add: queue_ok_def)
  then show ?thesis
    by (simp add: hash_map_put_def hash_map_create_def queue_create_def queue_push_def Let_def
        hash_map_get_find hash_map_remove_first key_match_iff)
qed

text \<open>
  Iterating with \<open>hash_map_get_first\<close> and \<open>hash_map_get_next\<close> over a map with distinct data
  pointers visits every element exactly once, newest first, and stops.
\<close>

theorem hash_map_iteration:
  "queue_ok m \<Longrightarrow> distinct (map snd m) \<Longrightarrow> length m \<le> n \<Longrightarrow>
     map_walk n m (hash_map_get_first m) = map snd m"
  by (rule map_walk_all)

theorem hash_map_iteration_witness:
  "map_walk 5 [(''a'', 1 :: nat), (''b'', 2), (''c'', 3)] (hash_map_get_first [(''a'', 1), (''b'', 2), (''c'', 3)]) = [1, 2, 3]"
  using hash_map_iteration [of "[(''a'', 1 :: nat), (''b'', 2), (''c'', 3)]" 5] by (simp add: queue_ok_def)

end
