(* ===== verification/Emu_Types.thy ===== *)
theory Emu_Types
  imports Emu_Prelude
begin

text \<open>
  The enumerations of \<open>inc/wlan_emu_common.h\<close> and \<open>inc/wlan_emu_msg_data.h\<close>, the numbering the C
  compiler gives them, the error codes of \<open>inc/wlan_emu_err_code.h\<close> and the printed names of the
  step states. An enumeration is a datatype with the source's constructors; \<open>enum_code\<close> is the
  number of an enumerator in its declaration and \<open>enum_decode\<close> reads a number back (\<open>None\<close> for a
  number that is no enumerator, which in C stays in the variable and takes every \<open>default\<close>).
\<close>

named_theorems enum_simps "the enumerators of each enumeration, in order"

section \<open>Numbering of enumerations\<close>

definition enum_decode :: "'a list \<Rightarrow> u32 \<Rightarrow> 'a option" where
  "enum_decode es n = (if unat n < length es then Some (es ! unat n) else None)"

fun position :: "'a list \<Rightarrow> 'a \<Rightarrow> nat" where
  "position [] x = 0"
| "position (y # ys) x = (if x = y then 0 else Suc (position ys x))"

definition enum_code :: "'a list \<Rightarrow> 'a \<Rightarrow> u32" where
  "enum_code es x = of_nat (position es x)"

lemma position_less: "x \<in> set es \<Longrightarrow> position es x < length es"
  by (induction es) auto

lemma nth_position: "x \<in> set es \<Longrightarrow> es ! position es x = x"
  by (induction es) auto

lemma position_nth: "distinct es \<Longrightarrow> i < length es \<Longrightarrow> position es (es ! i) = i"
  by (induction es arbitrary: i) (auto simp: nth_Cons' split: nat.split)

lemma enum_decode_code:
  "x \<in> set es \<Longrightarrow> length es < 2 ^ 32 \<Longrightarrow> enum_decode es (enum_code es x) = Some x"
  using position_less [of x es] by (simp add: enum_decode_def enum_code_def nth_position)

lemma enum_code_decode:
  "distinct es \<Longrightarrow> enum_decode es n = Some x \<Longrightarrow> enum_code es x = n"
  by (auto simp: enum_decode_def enum_code_def position_nth split: if_splits)

section \<open>Messages\<close>

datatype wlan_emu_msg_type =
    wlan_emu_msg_type_none
  | wlan_emu_msg_type_emu80211
  | wlan_emu_msg_type_cfg80211
  | wlan_emu_msg_type_mac80211
  | wlan_emu_msg_type_frm80211
  | wlan_emu_msg_type_webconfig
  | wlan_emu_msg_type_agent

definition msg_types :: "wlan_emu_msg_type list" where [enum_simps]:
  "msg_types = [wlan_emu_msg_type_none, wlan_emu_msg_type_emu80211, wlan_emu_msg_type_cfg80211,
     wlan_emu_msg_type_mac80211, wlan_emu_msg_type_frm80211, wlan_emu_msg_type_webconfig,
     wlan_emu_msg_type_agent]"

datatype wlan_emu_frm80211_ops_type =
    wlan_emu_frm80211_ops_type_prb_resp
  | wlan_emu_frm80211_ops_type_prb_req
  | wlan_emu_frm80211_ops_type_assoc_resp
  | wlan_emu_frm80211_ops_type_assoc_req
  | wlan_emu_frm80211_ops_type_auth
  | wlan_emu_frm80211_ops_type_deauth
  | wlan_emu_frm80211_ops_type_disassoc
  | wlan_emu_frm80211_ops_type_eapol
  | wlan_emu_frm80211_ops_type_reassoc_req
  | wlan_emu_frm80211_ops_type_reassoc_resp
  | wlan_emu_frm80211_ops_type_action

definition frm80211_ops_types :: "wlan_emu_frm80211_ops_type list" where [enum_simps]:
  "frm80211_ops_types = [wlan_emu_frm80211_ops_type_prb_resp, wlan_emu_frm80211_ops_type_prb_req,
     wlan_emu_frm80211_ops_type_assoc_resp, wlan_emu_frm80211_ops_type_assoc_req,
     wlan_emu_frm80211_ops_type_auth, wlan_emu_frm80211_ops_type_deauth,
     wlan_emu_frm80211_ops_type_disassoc, wlan_emu_frm80211_ops_type_eapol,
     wlan_emu_frm80211_ops_type_reassoc_req, wlan_emu_frm80211_ops_type_reassoc_resp,
     wlan_emu_frm80211_ops_type_action]"

datatype wlan_emu_cfg80211_ops_type =
    wlan_emu_cfg80211_ops_type_none
  | wlan_emu_cfg80211_ops_type_add_intf
  | wlan_emu_cfg80211_ops_type_del_intf
  | wlan_emu_cfg80211_ops_type_change_intf
  | wlan_emu_cfg80211_ops_type_start_ap
  | wlan_emu_cfg80211_ops_type_change_beacon
  | wlan_emu_cfg80211_ops_type_stop_ap
  | wlan_emu_cfg80211_ops_type_set_wiphy
  | wlan_emu_cfg80211_ops_type_unknown

definition cfg80211_ops_types :: "wlan_emu_cfg80211_ops_type list" where [enum_simps]:
  "cfg80211_ops_types = [wlan_emu_cfg80211_ops_type_none, wlan_emu_cfg80211_ops_type_add_intf,
     wlan_emu_cfg80211_ops_type_del_intf, wlan_emu_cfg80211_ops_type_change_intf,
     wlan_emu_cfg80211_ops_type_start_ap, wlan_emu_cfg80211_ops_type_change_beacon,
     wlan_emu_cfg80211_ops_type_stop_ap, wlan_emu_cfg80211_ops_type_set_wiphy,
     wlan_emu_cfg80211_ops_type_unknown]"

datatype wlan_emu_mac80211_ops_type =
    wlan_emu_mac80211_ops_type_none
  | wlan_emu_mac80211_ops_type_tx
  | wlan_emu_mac80211_ops_type_start
  | wlan_emu_mac80211_ops_type_stop
  | wlan_emu_mac80211_ops_type_add_intf
  | wlan_emu_mac80211_ops_type_change_intf
  | wlan_emu_mac80211_ops_type_remove_intf
  | wlan_emu_mac80211_ops_type_config
  | wlan_emu_mac80211_ops_type_configure_filter
  | wlan_emu_mac80211_ops_type_bss_info_changed
  | wlan_emu_mac80211_ops_type_start_ap
  | wlan_emu_mac80211_ops_type_stop_ap
  | wlan_emu_mac80211_ops_type_unknown

definition mac80211_ops_types :: "wlan_emu_mac80211_ops_type list" where [enum_simps]:
  "mac80211_ops_types = [wlan_emu_mac80211_ops_type_none, wlan_emu_mac80211_ops_type_tx,
     wlan_emu_mac80211_ops_type_start, wlan_emu_mac80211_ops_type_stop,
     wlan_emu_mac80211_ops_type_add_intf, wlan_emu_mac80211_ops_type_change_intf,
     wlan_emu_mac80211_ops_type_remove_intf, wlan_emu_mac80211_ops_type_config,
     wlan_emu_mac80211_ops_type_configure_filter, wlan_emu_mac80211_ops_type_bss_info_changed,
     wlan_emu_mac80211_ops_type_start_ap, wlan_emu_mac80211_ops_type_stop_ap,
     wlan_emu_mac80211_ops_type_unknown]"

datatype wlan_emu_emu80211_ops_type =
    wlan_emu_emu80211_ops_type_none
  | wlan_emu_emu80211_ops_type_tctrl
  | wlan_emu_emu80211_ops_type_close
  | wlan_emu_emu80211_ops_type_cmnd
  | wlan_emu_emu80211_ops_type_unnown

definition emu80211_ops_types :: "wlan_emu_emu80211_ops_type list" where [enum_simps]:
  "emu80211_ops_types = [wlan_emu_emu80211_ops_type_none, wlan_emu_emu80211_ops_type_tctrl,
     wlan_emu_emu80211_ops_type_close, wlan_emu_emu80211_ops_type_cmnd,
     wlan_emu_emu80211_ops_type_unnown]"

datatype wlan_emu_emu80211_ctrl_type =
    wlan_emu_emu80211_ctrl_tstart
  | wlan_emu_emu80211_ctrl_tstop

definition emu80211_ctrl_types :: "wlan_emu_emu80211_ctrl_type list" where [enum_simps]:
  "emu80211_ctrl_types = [wlan_emu_emu80211_ctrl_tstart, wlan_emu_emu80211_ctrl_tstop]"

datatype wlan_emu_emu80211_cmd_type =
    wlan_emu_emu80211_cmd_radiotap
  | wlan_emu_emu80211_cmd_mac_update
  | wlan_emu_emu80211_cmd_frame_auth_req
  | wlan_emu_emu80211_cmd_frame_assoc_req

datatype wlan_emu_msg_agent_ops =
    wlan_emu_msg_agent_ops_type_cmd
  | wlan_emu_msg_agent_ops_type_data
  | wlan_emu_msg_agent_ops_type_notification

definition agent_ops_types :: "wlan_emu_msg_agent_ops list" where [enum_simps]:
  "agent_ops_types = [wlan_emu_msg_agent_ops_type_cmd, wlan_emu_msg_agent_ops_type_data,
     wlan_emu_msg_agent_ops_type_notification]"

text \<open>Coverage numbers count from 1; \<open>wlan_emu_test_coverage_max\<close> is 6.\<close>

abbreviation wlan_emu_test_coverage_1 :: int where "wlan_emu_test_coverage_1 \<equiv> 1"
abbreviation wlan_emu_test_coverage_max :: int where "wlan_emu_test_coverage_max \<equiv> 6"

section \<open>Test cases, signals and step states\<close>

datatype (plugins only: code size) wlan_emu_test_type =
    wlan_emu_test_1_subtype_radio
  | wlan_emu_test_1_subtype_ns_private
  | wlan_emu_test_1_subtype_ns_public_xfinity_open
  | wlan_emu_test_1_subtype_ns_public_xfinity_secure
  | wlan_emu_test_1_subtype_ns_managed_xhs
  | wlan_emu_test_1_subtype_ns_managed_lnf_enterprise
  | wlan_emu_test_1_subtype_ns_managed_lnf_secure
  | wlan_emu_test_1_subtype_ns_managed_mesh_backhaul
  | wlan_emu_test_1_subtype_ns_managed_mesh_client
  | wlan_emu_test_1_subtype_cc_probe_response
  | wlan_emu_test_1_subtype_cc_authentication
  | wlan_emu_test_2_subtype_af_connection_admission
  | wlan_emu_test_2_subtype_af_access_control
  | wlan_emu_test_2_subtype_af_stats_manager
  | wlan_emu_test_2_subtype_af_steering_manager
  | wlan_emu_test_2_subtype_af_optimization
  | wlan_emu_test_2_subtype_af_grey_listing
  | wlan_emu_test_2_subtype_af_active_passive_msrmnts
  | wlan_emu_test_2_subtype_af_whix
  | wlan_emu_test_2_subtype_af_blaster
  | wlan_emu_test_2_subtype_af_motion
  | wlan_emu_test_2_subtype_af_finger_printing
  | wlan_emu_test_2_subtype_af_tr_181
  | wlan_emu_test_2_subtype_af_webconfig
  | wlan_emu_test_2_subtype_af_webpa
  | wlan_emu_test_3_subtype_pm_stats_get
  | wlan_emu_test_3_subtype_pm_stats_set
  | wlan_emu_test_1_subtype_max

datatype wlan_emu_sig_type =
    wlan_emu_sig_type_input
  | wlan_emu_sig_type_analysis
  | wlan_emu_sig_type_coverage_1
  | wlan_emu_sig_type_coverage_2
  | wlan_emu_sig_type_coverage_3
  | wlan_emu_sig_type_coverage_4
  | wlan_emu_sig_type_coverage_5
  | wlan_emu_sig_type_results
  | wlan_emu_sig_type_fail
  | wlan_emu_sig_type_max

definition sig_types :: "wlan_emu_sig_type list" where [enum_simps]:
  "sig_types = [wlan_emu_sig_type_input, wlan_emu_sig_type_analysis, wlan_emu_sig_type_coverage_1,
     wlan_emu_sig_type_coverage_2, wlan_emu_sig_type_coverage_3, wlan_emu_sig_type_coverage_4,
     wlan_emu_sig_type_coverage_5, wlan_emu_sig_type_results, wlan_emu_sig_type_fail,
     wlan_emu_sig_type_max]"

datatype wlan_emu_tests_state =
    wlan_emu_tests_state_cmd_none
  | wlan_emu_tests_state_cmd_wait
  | wlan_emu_tests_state_cmd_request
  | wlan_emu_tests_state_cmd_start
  | wlan_emu_tests_state_cmd_results
  | wlan_emu_tests_state_cmd_continue
  | wlan_emu_tests_state_cmd_abort

fun tests_state_value :: "wlan_emu_tests_state \<Rightarrow> u32" where
  "tests_state_value wlan_emu_tests_state_cmd_none = 0"
| "tests_state_value wlan_emu_tests_state_cmd_wait = 1"
| "tests_state_value wlan_emu_tests_state_cmd_request = 2"
| "tests_state_value wlan_emu_tests_state_cmd_start = 0xA0"
| "tests_state_value wlan_emu_tests_state_cmd_results = 0xB0"
| "tests_state_value wlan_emu_tests_state_cmd_continue = 0xC0"
| "tests_state_value wlan_emu_tests_state_cmd_abort = 0xF000"

lemma tests_state_value_inj: "tests_state_value a = tests_state_value b \<Longrightarrow> a = b"
  by (cases a; cases b) auto

text \<open>The two tables are searched by key; a key that is missing takes the fallback value.\<close>

definition step_state_to_str :: "(wlan_emu_tests_state \<times> string) list" where
  "step_state_to_str =
     [(wlan_emu_tests_state_cmd_none, ''none''), (wlan_emu_tests_state_cmd_wait, ''wait''),
      (wlan_emu_tests_state_cmd_request, ''request''), (wlan_emu_tests_state_cmd_start, ''start''),
      (wlan_emu_tests_state_cmd_results, ''results''),
      (wlan_emu_tests_state_cmd_continue, ''continue''),
      (wlan_emu_tests_state_cmd_abort, ''abort'')]"

definition str_to_step_state :: "(string \<times> wlan_emu_tests_state) list" where
  "str_to_step_state =
     [(''none'', wlan_emu_tests_state_cmd_none), (''wait'', wlan_emu_tests_state_cmd_wait),
      (''request'', wlan_emu_tests_state_cmd_request), (''start'', wlan_emu_tests_state_cmd_start),
      (''results'', wlan_emu_tests_state_cmd_results),
      (''continue'', wlan_emu_tests_state_cmd_continue),
      (''abort'', wlan_emu_tests_state_cmd_abort)]"

definition step_state_as_string :: "wlan_emu_tests_state \<Rightarrow> string" where
  "step_state_as_string s =
     (case map_of step_state_to_str s of Some t \<Rightarrow> t | None \<Rightarrow> ''Unknown'')"

definition step_state_as_enum :: "string \<Rightarrow> wlan_emu_tests_state" where
  "step_state_as_enum t =
     (case map_of str_to_step_state t of Some s \<Rightarrow> s | None \<Rightarrow> wlan_emu_tests_state_cmd_none)"

lemma step_state_round_trip: "step_state_as_enum (step_state_as_string s) = s"
  by (cases s) (simp_all add: step_state_as_enum_def step_state_as_string_def
      step_state_to_str_def str_to_step_state_def)

datatype (plugins only: code size) step_param_type =
    step_param_type_radio
  | step_param_type_vap
  | step_param_type_station_management
  | step_param_type_time
  | step_param_type_command
  | step_param_type_log_redirection
  | step_param_type_dml_subdoc
  | step_param_type_dml_reset
  | step_param_type_stats_get
  | step_param_type_stats_set
  | step_param_type_get_file
  | step_param_type_mgmt_frame_capture
  | step_param_type_get_pattern_files
  | step_param_type_timed_wait
  | step_param_type_config_onewifi
  | step_param_type_gateway_performance
  | step_param_type_packet_generator
  | step_param_type_config_iperf_server
  | step_param_type_config_iperf_client
  | step_param_type_ethernet_lan_interface
  | step_param_type_upgrade_or_reboot

datatype log_operation_type =
    log_operation_type_start
  | log_operation_type_stop
  | log_operation_type_timer
  | log_operation_type_invalid

datatype tc_endpoint_type =
    tc_endpoint_type_heartbeat
  | tc_endpoint_type_complete
  | tc_endpoint_type_fail
  | tc_endpoint_type_factory_reset
  | tc_endpoint_type_reboot
  | tc_endpoint_type_pause
  | tc_endpoint_type_resume
  | tc_endpoint_type_conn_request
  | tc_endpoint_type_disconn_request
  | tc_endpoint_type_iperf_request

datatype wlan_emu_connection_type =
    client_connection_type_no_user_input
  | client_connection_type_internal
  | client_connection_type_external
  | client_connection_type_real

datatype sta_state = sta_state_free | sta_state_in_use

section \<open>Result and error codes\<close>

abbreviation RETURN_OK :: int where "RETURN_OK \<equiv> 0"
abbreviation RETURN_ERR :: int where "RETURN_ERR \<equiv> - 1"

text \<open>What \<open>step_frame_filter\<close> reports: \<open>RETURN_UNHANDLED\<close> is \<open>RETURN_ERR\<close>, \<open>RETURN_HANDLED\<close> is \<open>RETURN_OK\<close>.\<close>

abbreviation RETURN_UNHANDLED :: int where "RETURN_UNHANDLED \<equiv> RETURN_ERR"
abbreviation RETURN_HANDLED :: int where "RETURN_HANDLED \<equiv> RETURN_OK"

text \<open>The error codes the controller is told; the macros of \<open>inc/wlan_emu_err_code.h\<close>.\<close>

abbreviation ENONE :: int where "ENONE \<equiv> 0"
abbreviation EFOPEN :: int where "EFOPEN \<equiv> 3"
abbreviation EFREAD :: int where "EFREAD \<equiv> 4"
abbreviation EFWRITE :: int where "EFWRITE \<equiv> 5"
abbreviation EFPRESENCE :: int where "EFPRESENCE \<equiv> 6"
abbreviation EFCOPY :: int where "EFCOPY \<equiv> 7"
abbreviation EFDELETE :: int where "EFDELETE \<equiv> 8"
abbreviation ESYSOPS :: int where "ESYSOPS \<equiv> 9"
abbreviation ESNPRINTF :: int where "ESNPRINTF \<equiv> 10"
abbreviation EMALLOC :: int where "EMALLOC \<equiv> 11"
abbreviation EQALLOC :: int where "EQALLOC \<equiv> 12"
abbreviation ENULL :: int where "ENULL \<equiv> 13"
abbreviation EWEBDECODE :: int where "EWEBDECODE \<equiv> 14"
abbreviation EWEBSET :: int where "EWEBSET \<equiv> 15"
abbreviation EJSONPARSE :: int where "EJSONPARSE \<equiv> 16"
abbreviation ERADIOSTATS :: int where "ERADIOSTATS \<equiv> 17"
abbreviation ECLIENTSTATS :: int where "ECLIENTSTATS \<equiv> 18"
abbreviation ERADIOTEMP :: int where "ERADIOTEMP \<equiv> 19"
abbreviation ENEIGHSTATS :: int where "ENEIGHSTATS \<equiv> 20"
abbreviation EWIFISTATS :: int where "EWIFISTATS \<equiv> 21"
abbreviation EPOPEN :: int where "EPOPEN \<equiv> 22"
abbreviation EQPEEK :: int where "EQPEEK \<equiv> 23"
abbreviation EQPOP :: int where "EQPOP \<equiv> 24"
abbreviation ETIMEOUT :: int where "ETIMEOUT \<equiv> 25"
abbreviation ETIMESTAMP :: int where "ETIMESTAMP \<equiv> 26"
abbreviation ETHREAD :: int where "ETHREAD \<equiv> 27"
abbreviation ESTEPTIMEOUT :: int where "ESTEPTIMEOUT \<equiv> 28"
abbreviation ESTEP :: int where "ESTEP \<equiv> 29"
abbreviation ESTEPSTOPPED :: int where "ESTEPSTOPPED \<equiv> 30"
abbreviation EPROCSTATUS :: int where "EPROCSTATUS \<equiv> 31"
abbreviation EDMLRESET :: int where "EDMLRESET \<equiv> 32"
abbreviation EENCODE :: int where "EENCODE \<equiv> 33"
abbreviation EUNKNOWNTYPE :: int where "EUNKNOWNTYPE \<equiv> 34"
abbreviation EUNKNOWNSCAN :: int where "EUNKNOWNSCAN \<equiv> 35"
abbreviation EUNSUPPORTEDSUBDOC :: int where "EUNSUPPORTEDSUBDOC \<equiv> 36"
abbreviation EBUS :: int where "EBUS \<equiv> 37"
abbreviation EBRLANCFG :: int where "EBRLANCFG \<equiv> 38"
abbreviation EBSSID :: int where "EBSSID \<equiv> 39"
abbreviation EFRAMECAP :: int where "EFRAMECAP \<equiv> 40"
abbreviation EEXTAGENT :: int where "EEXTAGENT \<equiv> 41"
abbreviation EDNLDTSTRESFILE :: int where "EDNLDTSTRESFILE \<equiv> 42"
abbreviation EPUSHTSTRESFILE :: int where "EPUSHTSTRESFILE \<equiv> 43"
abbreviation ECURLGET :: int where "ECURLGET \<equiv> 44"
abbreviation ECURLPOST :: int where "ECURLPOST \<equiv> 45"

section \<open>The enumerators are complete and distinct\<close>

lemma frm80211_ops_complete: "x \<in> set frm80211_ops_types" and frm80211_ops_distinct: "distinct frm80211_ops_types"
  by (cases x; simp add: enum_simps) (simp add: enum_simps)

lemma cfg80211_ops_complete: "x \<in> set cfg80211_ops_types" and cfg80211_ops_distinct: "distinct cfg80211_ops_types"
  by (cases x; simp add: enum_simps) (simp add: enum_simps)

lemma emu80211_ops_complete: "x \<in> set emu80211_ops_types" and emu80211_ops_distinct: "distinct emu80211_ops_types"
  by (cases x; simp add: enum_simps) (simp add: enum_simps)

lemma msg_types_complete: "x \<in> set msg_types" and msg_types_distinct: "distinct msg_types"
  by (cases x; simp add: enum_simps) (simp add: enum_simps)

lemma agent_ops_complete: "x \<in> set agent_ops_types" and agent_ops_distinct: "distinct agent_ops_types"
  by (cases x; simp add: enum_simps) (simp add: enum_simps)

lemmas enum_complete = agent_ops_complete frm80211_ops_complete cfg80211_ops_complete emu80211_ops_complete msg_types_complete

end
