(* ===== verification/Msg_Codec.thy ===== *)
theory Msg_Codec
  imports Emu_Types "HOL-Library.Monad_Syntax"
begin

text \<open>
  Message data (\<open>inc/wlan_emu_msg_data.h\<close>) and the thread that reads it from the emulator device,
  \<open>messages/wlan_emu_msg_hdlr.cpp\<close>. The device delivers packed little-endian fields (\<open>int\<close> and
  enumerations 4 bytes, \<open>size_t\<close> and pointers 8 bytes) which the handlers copy out of a 2048-byte
  buffer one after the other. A decoder returns \<open>None\<close> where the C code reads outside the buffer.
  The message union is kept from one message to the next: a message whose type or operation is
  not handled leaves the rest of it as it was.
\<close>

section \<open>Reading fields\<close>

type_synonym bytes = "u8 list"

fun le_value :: "bytes \<Rightarrow> nat" where
  "le_value [] = 0"
| "le_value (b # bs) = unat b + 256 * le_value bs"

definition take_bytes :: "nat \<Rightarrow> bytes \<Rightarrow> (bytes \<times> bytes) option" where
  "take_bytes n bs = (if n \<le> length bs then Some (take n bs, drop n bs) else None)"

definition get_u32 :: "bytes \<Rightarrow> (u32 \<times> bytes) option" where
  "get_u32 bs = do { (b, r) \<leftarrow> take_bytes 4 bs; Some (of_nat (le_value b), r) }"

definition get_u64 :: "bytes \<Rightarrow> (u64 \<times> bytes) option" where
  "get_u64 bs = do { (b, r) \<leftarrow> take_bytes 8 bs; Some (of_nat (le_value b), r) }"

section \<open>Message data\<close>

text \<open>The enumerations on the wire keep their number, whether or not it is an enumerator.\<close>

record wlan_emu_cfg80211_start_ap =
  sa_ifindex :: u32
  sa_phy_index :: u32
  sa_ssid :: bytes
  sa_beacon_head :: bytes
  sa_beacon_tail :: bytes
  sa_macaddr :: bytes

text \<open>
  The body of a cfg80211 message: an access point start, one whose SSID length was refused (the
  fields behind the length keep their old bytes), or an operation that is not handled.
\<close>

datatype cfg80211_body =
    Cfg_start_ap wlan_emu_cfg80211_start_ap
  | Cfg_start_ap_bad_ssid u32 u32 u64
  | Cfg_unhandled

record wlan_emu_frm80211_frm =
  frm_frame :: bytes
  frm_macaddr :: bytes
  frm_client_macaddr :: bytes

datatype emu80211_body =
    Emu_tctrl u32 u32 u32
  | Emu_close u32
  | Emu_cmd wlan_emu_emu80211_cmd_type bytes u32
  | Emu_unhandled

datatype agent_body =
    Agent_cmd u32
  | Agent_data u64
  | Agent_notif u32 u32 bytes bytes
  | Agent_unhandled

text \<open>Every member of the union starts with its operation, so the operation can be read from all of them.\<close>

datatype msg_union =
    U_zero
  | U_cfg80211 u32 cfg80211_body
  | U_emu80211 u32 emu80211_body
  | U_frm80211 u32 wlan_emu_frm80211_frm
  | U_webconfig u32
  | U_agent u32 agent_body

fun union_ops :: "msg_union \<Rightarrow> u32" where
  "union_ops U_zero = 0"
| "union_ops (U_cfg80211 ops b) = ops"
| "union_ops (U_emu80211 ops b) = ops"
| "union_ops (U_frm80211 ops f) = ops"
| "union_ops (U_webconfig subdoc) = subdoc"
| "union_ops (U_agent ops b) = ops"

record wlan_emu_msg_data =
  md_type :: u32
  md_u :: msg_union

definition get_msg_type :: "wlan_emu_msg_data \<Rightarrow> wlan_emu_msg_type option" where
  "get_msg_type m = enum_decode msg_types (md_type m)"

definition get_frm80211_ops_type :: "wlan_emu_msg_data \<Rightarrow> wlan_emu_frm80211_ops_type option" where
  "get_frm80211_ops_type m = enum_decode frm80211_ops_types (union_ops (md_u m))"

definition get_cfg80211_ops_type :: "wlan_emu_msg_data \<Rightarrow> wlan_emu_cfg80211_ops_type option" where
  "get_cfg80211_ops_type m = enum_decode cfg80211_ops_types (union_ops (md_u m))"

definition get_mac80211_ops_type :: "wlan_emu_msg_data \<Rightarrow> wlan_emu_mac80211_ops_type option" where
  "get_mac80211_ops_type m = enum_decode mac80211_ops_types (union_ops (md_u m))"

definition get_emu80211_ops_type :: "wlan_emu_msg_data \<Rightarrow> wlan_emu_emu80211_ops_type option" where
  "get_emu80211_ops_type m = enum_decode emu80211_ops_types (union_ops (md_u m))"

definition get_agent_ops_type :: "wlan_emu_msg_data \<Rightarrow> wlan_emu_msg_agent_ops option" where
  "get_agent_ops_type m = enum_decode agent_ops_types (union_ops (md_u m))"

section \<open>The decoders\<close>

text \<open>
  \<open>bssid_off\<close> is the offset of \<open>bssid\<close> in \<open>struct ieee80211_mgmt\<close>, a type of the hostap headers. The
  MAC address is read from the copy of the beacon head.
\<close>

definition handle_cfg80211_start_ap :: "nat \<Rightarrow> bytes \<Rightarrow> cfg80211_body option" where
  "handle_cfg80211_start_ap bssid_off f =
     do {
       (ifindex, f) \<leftarrow> get_u32 f;
       (phy_index, f) \<leftarrow> get_u32 f;
       (ssid_len, f) \<leftarrow> get_u64 f;
       if 32 < ssid_len then Some (Cfg_start_ap_bad_ssid ifindex phy_index ssid_len)
       else do {
         (ssid, f) \<leftarrow> take_bytes (unat ssid_len) f;
         (head_len, f) \<leftarrow> get_u64 f;
         (tail_len, f) \<leftarrow> get_u64 f;
         (beacon_head, f) \<leftarrow> take_bytes (unat head_len) f;
         (beacon_tail, f) \<leftarrow> take_bytes (unat tail_len) f;
         (mac, _) \<leftarrow> take_bytes 6 (drop bssid_off beacon_head);
         Some (Cfg_start_ap \<lparr>sa_ifindex = ifindex, sa_phy_index = phy_index, sa_ssid = ssid,
           sa_beacon_head = beacon_head, sa_beacon_tail = beacon_tail, sa_macaddr = mac\<rparr>)
       }
     }"

definition handle_cfg80211_msg :: "nat \<Rightarrow> bytes \<Rightarrow> msg_union option" where
  "handle_cfg80211_msg bssid_off f =
     do {
       (ops, f) \<leftarrow> get_u32 f;
       if enum_decode cfg80211_ops_types ops = Some wlan_emu_cfg80211_ops_type_start_ap
       then do { b \<leftarrow> handle_cfg80211_start_ap bssid_off f; Some (U_cfg80211 ops b) }
       else Some (U_cfg80211 ops Cfg_unhandled)
     }"

definition handle_frm80211_msg :: "bytes \<Rightarrow> msg_union option" where
  "handle_frm80211_msg f =
     do {
       (ops, f) \<leftarrow> get_u32 f;
       (frame_len, f) \<leftarrow> get_u32 f;
       (frame, f) \<leftarrow> take_bytes (unat frame_len) f;
       (macaddr, f) \<leftarrow> take_bytes 6 f;
       (client_macaddr, f) \<leftarrow> take_bytes 6 f;
       Some (U_frm80211 ops \<lparr>frm_frame = frame, frm_macaddr = macaddr,
         frm_client_macaddr = client_macaddr\<rparr>)
     }"

definition handle_emu80211_type_msg_tctrl :: "bytes \<Rightarrow> emu80211_body option" where
  "handle_emu80211_type_msg_tctrl f =
     do {
       (ctrl, f) \<leftarrow> get_u32 f;
       (coverage, f) \<leftarrow> get_u32 f;
       (type, f) \<leftarrow> get_u32 f;
       Some (Emu_tctrl ctrl coverage type)
     }"

definition handle_emu80211_type_msg_close :: "bytes \<Rightarrow> emu80211_body option" where
  "handle_emu80211_type_msg_close f = do { (fd, f) \<leftarrow> get_u32 f; Some (Emu_close fd) }"

definition handle_emu80211_msg :: "bytes \<Rightarrow> msg_union option" where
  "handle_emu80211_msg f =
     do {
       (ops, f) \<leftarrow> get_u32 f;
       b \<leftarrow> (case enum_decode emu80211_ops_types ops of
               Some wlan_emu_emu80211_ops_type_tctrl \<Rightarrow> handle_emu80211_type_msg_tctrl f
             | Some wlan_emu_emu80211_ops_type_close \<Rightarrow> handle_emu80211_type_msg_close f
             | _ \<Rightarrow> Some Emu_unhandled);
       Some (U_emu80211 ops b)
     }"

definition handle_webconfig_msg :: "bytes \<Rightarrow> msg_union option" where
  "handle_webconfig_msg f = do { (subdoc_type, f) \<leftarrow> get_u32 f; Some (U_webconfig subdoc_type) }"

definition handle_agent_msg :: "bytes \<Rightarrow> msg_union option" where
  "handle_agent_msg f =
     do {
       (ops, f) \<leftarrow> get_u32 f;
       b \<leftarrow> (case enum_decode agent_ops_types ops of
               Some wlan_emu_msg_agent_ops_type_cmd \<Rightarrow>
                 do { (cmd, f) \<leftarrow> get_u32 f; Some (Agent_cmd cmd) }
             | Some wlan_emu_msg_agent_ops_type_data \<Rightarrow>
                 do { (buf_address, f) \<leftarrow> get_u64 f; Some (Agent_data buf_address) }
             | Some wlan_emu_msg_agent_ops_type_notification \<Rightarrow>
                 do {
                   (sub_ops_type, f) \<leftarrow> get_u32 f;
                   (sta_state, f) \<leftarrow> get_u32 f;
                   (sta_mac, f) \<leftarrow> take_bytes 6 f;
                   (bssid_mac, f) \<leftarrow> take_bytes 6 f;
                   Some (Agent_notif sub_ops_type sta_state sta_mac bssid_mac)
                 }
             | None \<Rightarrow> Some Agent_unhandled);
       Some (U_agent ops b)
     }"

definition decode_msg :: "nat \<Rightarrow> wlan_emu_msg_data \<Rightarrow> bytes \<Rightarrow> wlan_emu_msg_data option" where
  "decode_msg bssid_off old f =
     do {
       (type, f) \<leftarrow> get_u32 f;
       u \<leftarrow> (case enum_decode msg_types type of
               Some wlan_emu_msg_type_cfg80211 \<Rightarrow> handle_cfg80211_msg bssid_off f
             | Some wlan_emu_msg_type_emu80211 \<Rightarrow> handle_emu80211_msg f
             | Some wlan_emu_msg_type_frm80211 \<Rightarrow> handle_frm80211_msg f
             | Some wlan_emu_msg_type_webconfig \<Rightarrow> handle_webconfig_msg f
             | Some wlan_emu_msg_type_agent \<Rightarrow> handle_agent_msg f
             | _ \<Rightarrow> Some (md_u old));
       Some \<lparr>md_type = type, md_u = u\<rparr>
     }"

section \<open>The handler thread\<close>

definition hdlr_buf_size :: nat where
  "hdlr_buf_size = 2048"

record msg_hdlr =
  h_threadExit :: bool
  h_fd :: int
  h_buf :: bytes
  h_data :: wlan_emu_msg_data

text \<open>The answers of \<open>open\<close>, \<open>poll\<close> and \<open>read\<close> (\<open>None\<close>: the call failed) in one round of the loop.\<close>

record hdlr_io =
  io_open :: int
  io_poll :: int
  io_pollin :: bool
  io_read :: "bytes option"

datatype hdlr_out =
    Hdlr_continue
  | Hdlr_queue_msg wlan_emu_msg_data
  | Hdlr_exit
  | Hdlr_bad_read

definition read_into :: "bytes \<Rightarrow> bytes option \<Rightarrow> bytes" where
  "read_into buf rd =
     (case rd of None \<Rightarrow> buf | Some bs \<Rightarrow> take (length buf) bs @ drop (length bs) buf)"

definition is_close_msg :: "wlan_emu_msg_data \<Rightarrow> bool" where
  "is_close_msg m \<longleftrightarrow> get_msg_type m = Some wlan_emu_msg_type_emu80211 \<and>
     get_emu80211_ops_type m = Some wlan_emu_emu80211_ops_type_close"

text \<open>
  One round of the loop. The test after \<open>read\<close> compares its result with 0 before it is assigned, so
  a failed \<open>read\<close> goes on with the old contents of the buffer. Leaving the loop closes the device.
\<close>

definition msg_hdlr_round :: "nat \<Rightarrow> hdlr_io \<Rightarrow> msg_hdlr \<Rightarrow> hdlr_out \<times> msg_hdlr" where
  "msg_hdlr_round bssid_off io st =
     (let st = (if h_fd st = - 1 then st\<lparr>h_fd := io_open io\<rparr> else st)
      in if h_fd st < 0 then (Hdlr_continue, st)
         else if io_poll io < 0 then (Hdlr_continue, st)
         else if \<not> io_pollin io then (Hdlr_continue, st)
         else if io_read io = Some [] then (Hdlr_continue, st)
         else let st = st\<lparr>h_buf := read_into (h_buf st) (io_read io)\<rparr>
              in case decode_msg bssid_off (h_data st) (h_buf st) of
                   None \<Rightarrow> (Hdlr_bad_read, st)
                 | Some m \<Rightarrow>
                     if is_close_msg m
                     then (Hdlr_exit, st\<lparr>h_data := m, h_threadExit := True, h_fd := - 1\<rparr>)
                     else (Hdlr_queue_msg m, st\<lparr>h_data := m\<rparr>))"

text \<open>The rounds for a list of answers, with the messages handed to \<open>queue_msg\<close>, in order.\<close>

fun msg_hdlr_run :: "nat \<Rightarrow> hdlr_io list \<Rightarrow> msg_hdlr \<Rightarrow> wlan_emu_msg_data list \<times> msg_hdlr" where
  "msg_hdlr_run off [] st = ([], st)"
| "msg_hdlr_run off (io # ios) st =
     (if h_threadExit st then ([], st)
      else case msg_hdlr_round off io st of
             (Hdlr_continue, st') \<Rightarrow> msg_hdlr_run off ios st'
           | (Hdlr_queue_msg m, st') \<Rightarrow>
               (case msg_hdlr_run off ios st' of (ms, st'') \<Rightarrow> (m # ms, st''))
           | (Hdlr_exit, st') \<Rightarrow> ([], st')
           | (Hdlr_bad_read, st') \<Rightarrow> ([], st'))"

text \<open>Before the loop the message data and the buffer are zeroed; the constructor sets the rest.\<close>

definition msg_hdlr_init :: msg_hdlr where
  "msg_hdlr_init = \<lparr>h_threadExit = False, h_fd = - 1, h_buf = replicate hdlr_buf_size 0,
     h_data = \<lparr>md_type = 0, md_u = U_zero\<rparr>\<rparr>"

text \<open>The message \<open>stop\<close> writes to the device.\<close>

definition msg_hdlr_stop_type :: u32 where
  "msg_hdlr_stop_type = enum_code msg_types wlan_emu_msg_type_emu80211"

definition msg_hdlr_stop_ops :: u32 where
  "msg_hdlr_stop_ops = enum_code emu80211_ops_types wlan_emu_emu80211_ops_type_close"

section \<open>The layout of the messages\<close>

text \<open>The packed layout the device driver writes, as the specification of the decoders.\<close>

fun put_le :: "nat \<Rightarrow> nat \<Rightarrow> bytes" where
  "put_le 0 n = []"
| "put_le (Suc k) n = of_nat (n mod 256) # put_le k (n div 256)"

definition put_u32 :: "u32 \<Rightarrow> bytes" where
  "put_u32 w = put_le 4 (unat w)"

definition put_u64 :: "u64 \<Rightarrow> bytes" where
  "put_u64 w = put_le 8 (unat w)"

lemma length_put_le [simp]: "length (put_le k n) = k"
  by (induction k arbitrary: n) auto

lemma length_put_u32 [simp]: "length (put_u32 w) = 4" and length_put_u64 [simp]: "length (put_u64 v) = 8"
  by (simp_all add: put_u32_def put_u64_def)

lemma le_value_put_le: "n < 256 ^ k \<Longrightarrow> le_value (put_le k n) = n"
proof (induction k arbitrary: n)
  case (Suc k)
  then have "n div 256 < 256 ^ k" by (simp add: less_mult_imp_div_less mult.commute)
  with Suc.IH have "le_value (put_le k (n div 256)) = n div 256" by simp
  moreover have "unat (of_nat (n mod 256) :: u8) = n mod 256"
    by (simp add: unsigned_of_nat take_bit_nat_eq_self)
  ultimately show ?case by simp
qed simp

lemma le_value_less: "le_value bs < 256 ^ length bs"
proof (induction bs)
  case (Cons b bs)
  have "unat b < 256" using unsigned_less [where 'a = nat, of b] by simp
  with Cons show ?case by simp
qed simp

lemma take_bytes_append [simp]: "length b = n \<Longrightarrow> take_bytes n (b @ r) = Some (b, r)"
  by (auto simp: take_bytes_def)

lemma get_put_u32 [simp]: "get_u32 (put_u32 w @ r) = Some (w, r)"
  using unat_u32_less [of w] by (simp add: get_u32_def put_u32_def le_value_put_le)

lemma get_put_u64 [simp]: "get_u64 (put_u64 w @ r) = Some (w, r)"
proof -
  have "unat w < 2 ^ 64" by (rule order.strict_trans2 [OF unsigned_less]) simp
  then show ?thesis by (simp add: get_u64_def put_u64_def le_value_put_le)
qed

definition frm80211_layout :: "u32 \<Rightarrow> wlan_emu_frm80211_frm \<Rightarrow> bytes" where
  "frm80211_layout ops fr =
     put_u32 (enum_code msg_types wlan_emu_msg_type_frm80211) @ put_u32 ops @
     put_u32 (of_nat (length (frm_frame fr))) @ frm_frame fr @ frm_macaddr fr @ frm_client_macaddr fr"

text \<open>What the handler expects of the start of an access point.\<close>

definition start_ap_layout :: "wlan_emu_cfg80211_start_ap \<Rightarrow> bytes" where
  "start_ap_layout a =
     put_u32 (enum_code msg_types wlan_emu_msg_type_cfg80211) @
     put_u32 (enum_code cfg80211_ops_types wlan_emu_cfg80211_ops_type_start_ap) @
     put_u32 (sa_ifindex a) @ put_u32 (sa_phy_index a) @ put_u64 (of_nat (length (sa_ssid a))) @
     sa_ssid a @ put_u64 (of_nat (length (sa_beacon_head a))) @
     put_u64 (of_nat (length (sa_beacon_tail a))) @ sa_beacon_head a @ sa_beacon_tail a"

definition agent_notif_layout :: "u32 \<Rightarrow> u32 \<Rightarrow> bytes \<Rightarrow> bytes \<Rightarrow> bytes" where
  "agent_notif_layout sub_ops sta_state sta_mac bssid_mac =
     put_u32 (enum_code msg_types wlan_emu_msg_type_agent) @
     put_u32 (enum_code agent_ops_types wlan_emu_msg_agent_ops_type_notification) @
     put_u32 sub_ops @ put_u32 sta_state @ sta_mac @ bssid_mac"

definition frm_wf :: "wlan_emu_frm80211_frm \<Rightarrow> bool" where
  "frm_wf fr \<longleftrightarrow> length (frm_frame fr) < 2 ^ 32 \<and> length (frm_macaddr fr) = 6
     \<and> length (frm_client_macaddr fr) = 6"

definition start_ap_wf :: "nat \<Rightarrow> wlan_emu_cfg80211_start_ap \<Rightarrow> bool" where
  "start_ap_wf off a \<longleftrightarrow> length (sa_ssid a) \<le> 32 \<and> off + 6 \<le> length (sa_beacon_head a)
     \<and> length (sa_beacon_head a) < 2 ^ 64 \<and> length (sa_beacon_tail a) < 2 ^ 64
     \<and> sa_macaddr a = take 6 (drop off (sa_beacon_head a))"

lemma unat_of_nat_u64 [simp]: "n < 2 ^ 64 \<Longrightarrow> unat (of_nat n :: u64) = n"
  by (simp add: unsigned_of_nat take_bit_nat_eq_self)

lemma enum_decode_msg [simp]: "enum_decode msg_types (enum_code msg_types t) = Some t"
  by (rule enum_decode_code) (simp_all add: msg_types_complete, simp add: msg_types_def)

lemma enum_decode_cfg [simp]: "enum_decode cfg80211_ops_types (enum_code cfg80211_ops_types t) = Some t"
  by (rule enum_decode_code) (simp_all add: cfg80211_ops_complete, simp add: cfg80211_ops_types_def)

lemma enum_decode_agent [simp]: "enum_decode agent_ops_types (enum_code agent_ops_types t) = Some t"
  by (rule enum_decode_code) (simp_all add: agent_ops_complete, simp add: agent_ops_types_def)

lemma decode_frm80211:
  "frm_wf fr \<Longrightarrow> decode_msg off old (frm80211_layout ops fr @ rest) =
     Some \<lparr>md_type = enum_code msg_types wlan_emu_msg_type_frm80211, md_u = U_frm80211 ops fr\<rparr>"
  by (cases fr) (simp add: decode_msg_def frm80211_layout_def handle_frm80211_msg_def frm_wf_def)

lemma decode_start_ap:
  assumes "start_ap_wf off a"
  shows "decode_msg off old (start_ap_layout a @ rest) =
     Some \<lparr>md_type = enum_code msg_types wlan_emu_msg_type_cfg80211,
       md_u = U_cfg80211 (enum_code cfg80211_ops_types wlan_emu_cfg80211_ops_type_start_ap) (Cfg_start_ap a)\<rparr>"
proof -
  have ssid: "length (sa_ssid a) < 2 ^ 64" "\<not> (32 :: u64) < of_nat (length (sa_ssid a))"
    using assms by (auto simp: start_ap_wf_def word_less_nat_alt)
  moreover have "take_bytes 6 (drop off (sa_beacon_head a)) = Some (sa_macaddr a, drop 6 (drop off (sa_beacon_head a)))"
    using assms by (auto simp: start_ap_wf_def take_bytes_def)
  ultimately show ?thesis using assms
    by (cases a) (simp add: decode_msg_def start_ap_layout_def handle_cfg80211_msg_def
        handle_cfg80211_start_ap_def start_ap_wf_def)
qed

lemma decode_agent_notif:
  "length sta_mac = 6 \<Longrightarrow> length bssid_mac = 6 \<Longrightarrow>
     decode_msg off old (agent_notif_layout sub_ops sta_state sta_mac bssid_mac @ rest) =
     Some \<lparr>md_type = enum_code msg_types wlan_emu_msg_type_agent,
       md_u = U_agent (enum_code agent_ops_types wlan_emu_msg_agent_ops_type_notification)
         (Agent_notif sub_ops sta_state sta_mac bssid_mac)\<rparr>"
  by (simp add: decode_msg_def agent_notif_layout_def handle_agent_msg_def)

lemma enum_decode_emu [simp]: "enum_decode emu80211_ops_types (enum_code emu80211_ops_types t) = Some t"
  by (rule enum_decode_code) (simp_all add: emu80211_ops_complete, simp add: emu80211_ops_types_def)

section \<open>Reads outside the buffer\<close>

lemma take_bytes_None [simp]: "take_bytes n bs = None \<longleftrightarrow> length bs < n"
  by (auto simp: take_bytes_def)

lemma take_bytes_enough: "n \<le> length bs \<Longrightarrow> take_bytes n bs = Some (take n bs, drop n bs)"
  by (simp add: take_bytes_def)

lemma get_u32_enough: "4 \<le> length bs \<Longrightarrow> \<exists>w. get_u32 bs = Some (w, drop 4 bs)"
  by (simp add: get_u32_def take_bytes_enough)

lemma get_u64_enough: "8 \<le> length bs \<Longrightarrow> \<exists>w. get_u64 bs = Some (w, drop 8 bs)"
  by (simp add: get_u64_def take_bytes_enough)

lemma decode_frm80211_None:
  assumes "length body = hdlr_buf_size - 12"
  shows "decode_msg off old (put_u32 (enum_code msg_types wlan_emu_msg_type_frm80211) @ put_u32 ops
      @ put_u32 frame_len @ body) = None \<longleftrightarrow> hdlr_buf_size - 24 < unat frame_len"
proof (cases "unat frame_len \<le> hdlr_buf_size - 24")
  case True
  then have "unat frame_len + 12 \<le> length body" using assms by (simp add: hdlr_buf_size_def)
  with True show ?thesis
    by (simp add: decode_msg_def handle_frm80211_msg_def take_bytes_def) arith
next
  case False
  then have "length body < unat frame_len + 12" using assms by (simp add: hdlr_buf_size_def)
  with False show ?thesis
    by (auto simp: decode_msg_def handle_frm80211_msg_def take_bytes_def)
qed

lemma decode_fixed_size_total:
  assumes len: "32 \<le> length f" and ty: "get_u32 f = Some (ty, r)"
    and fixed: "enum_decode msg_types ty \<noteq> Some wlan_emu_msg_type_cfg80211"
      "enum_decode msg_types ty \<noteq> Some wlan_emu_msg_type_frm80211"
  shows "\<exists>m. decode_msg off old f = Some m \<and> md_type m = ty"
proof -
  have r: "r = drop 4 f" using ty len by (auto simp: get_u32_def take_bytes_def)
  have n: "length r \<ge> 28" using len r by simp
  have n4: "4 \<le> length r" "4 \<le> length (drop 4 r)" "4 \<le> length (drop 8 r)" "4 \<le> length (drop 12 r)"
    "8 \<le> length (drop 4 r)" "6 \<le> length (drop 12 r)" "6 \<le> length (drop 18 r)"
    using n by simp_all
  obtain ops where ops: "get_u32 r = Some (ops, drop 4 r)" using get_u32_enough [OF n4(1)] by auto
  obtain a where a: "get_u32 (drop 4 r) = Some (a, drop 8 r)" using get_u32_enough [OF n4(2)] by auto
  obtain b where b: "get_u32 (drop 8 r) = Some (b, drop 12 r)" using get_u32_enough [OF n4(3)] by auto
  obtain c where c: "get_u32 (drop 12 r) = Some (c, drop 16 r)" using get_u32_enough [OF n4(4)] by auto
  obtain d where d: "get_u64 (drop 4 r) = Some (d, drop 12 r)" using get_u64_enough [OF n4(5)] by auto
  note reads = ops a b c d take_bytes_enough [OF n4(6)] take_bytes_enough [OF n4(7)]
  have "\<exists>u. handle_emu80211_msg r = Some u"
    by (simp add: handle_emu80211_msg_def handle_emu80211_type_msg_tctrl_def
        handle_emu80211_type_msg_close_def reads split: option.split wlan_emu_emu80211_ops_type.split)
  moreover have "\<exists>u. handle_agent_msg r = Some u"
    by (simp add: handle_agent_msg_def reads split: option.split wlan_emu_msg_agent_ops.split)
  moreover have "\<exists>u. handle_webconfig_msg r = Some u"
    by (simp add: handle_webconfig_msg_def reads)
  ultimately show ?thesis using fixed
    by (auto simp: decode_msg_def ty split: option.split wlan_emu_msg_type.split)
qed

section \<open>Rounds of the thread\<close>

lemma decode_msg_again: "decode_msg off old f = Some m \<Longrightarrow> decode_msg off m f = Some m"
proof (cases "get_u32 f")
  case (Some p)
  then obtain t r where f: "get_u32 f = Some (t, r)" by (cases p) auto
  assume d: "decode_msg off old f = Some m"
  show ?thesis
  proof (cases "enum_decode msg_types t")
    case None
    with d f show ?thesis by (auto simp: decode_msg_def)
  next
    case (Some y)
    with d f show ?thesis by (cases y) (auto simp: decode_msg_def bind_eq_Some_conv)
  qed
qed (simp add: decode_msg_def)

lemma round_queue_state:
  assumes "msg_hdlr_round off io st = (Hdlr_queue_msg m, st1)"
  shows "0 \<le> h_fd st1" "h_data st1 = m" "\<not> is_close_msg m" "decode_msg off m (h_buf st1) = Some m"
    "h_threadExit st1 = h_threadExit st"
  using assms decode_msg_again
  by (auto simp: msg_hdlr_round_def Let_def split: if_splits option.splits)

lemma round_read_error:
  assumes "msg_hdlr_round off io st = (Hdlr_queue_msg m, st1)"
    and "0 \<le> io_poll io'" "io_pollin io'" "io_read io' = None"
  shows "msg_hdlr_round off io' st1 = (Hdlr_queue_msg m, st1)"
  using round_queue_state [OF assms(1)] assms(2-)
  by (simp add: msg_hdlr_round_def read_into_def Let_def)

text \<open>A successful round trip to the device.\<close>

definition device_read :: "bytes \<Rightarrow> hdlr_io" where
  "device_read bs = \<lparr>io_open = 3, io_poll = 1, io_pollin = True, io_read = Some bs\<rparr>"

definition close_layout :: bytes where
  "close_layout = put_u32 (enum_code msg_types wlan_emu_msg_type_emu80211)
     @ put_u32 (enum_code emu80211_ops_types wlan_emu_emu80211_ops_type_close) @ put_u32 0"

definition frm_msg :: "u32 \<times> wlan_emu_frm80211_frm \<Rightarrow> wlan_emu_msg_data" where
  "frm_msg p = \<lparr>md_type = enum_code msg_types wlan_emu_msg_type_frm80211, md_u = U_frm80211 (fst p) (snd p)\<rparr>"

lemma read_into_fits: "length bs \<le> length buf \<Longrightarrow> \<exists>rest. read_into buf (Some bs) = bs @ rest"
  by (simp add: read_into_def)

lemma length_read_into [simp]: "length (read_into buf rd) = length buf"
  by (cases rd) (auto simp: read_into_def min_def)

lemma is_close_frm_msg [simp]: "\<not> is_close_msg (frm_msg p)"
  by (simp add: is_close_msg_def get_msg_type_def frm_msg_def)

lemma round_frm:
  assumes "frm_wf fr" "length (frm80211_layout ops fr) \<le> length (h_buf st)" "h_fd st = - 1 \<or> 0 \<le> h_fd st"
  shows "\<exists>st'. msg_hdlr_round off (device_read (frm80211_layout ops fr)) st = (Hdlr_queue_msg (frm_msg (ops, fr)), st')
    \<and> length (h_buf st') = length (h_buf st) \<and> 0 \<le> h_fd st' \<and> h_threadExit st' = h_threadExit st"
proof -
  obtain rest where rest: "read_into (h_buf st) (Some (frm80211_layout ops fr)) = frm80211_layout ops fr @ rest"
    using read_into_fits [OF assms(2)] by blast
  have "0 < length (frm80211_layout ops fr)" by (simp add: frm80211_layout_def)
  then have ne: "frm80211_layout ops fr \<noteq> []" by auto
  show ?thesis
    using assms(3) ne rest decode_frm80211 [OF assms(1)] is_close_frm_msg [of "(ops, fr)"]
      length_read_into [of "h_buf st" "Some (frm80211_layout ops fr)"]
    by (auto simp: msg_hdlr_round_def device_read_def frm_msg_def Let_def)
qed

lemma round_close:
  assumes "12 \<le> length (h_buf st)" "h_fd st = - 1 \<or> 0 \<le> h_fd st"
  shows "\<exists>st'. msg_hdlr_round off (device_read close_layout) st = (Hdlr_exit, st') \<and> h_threadExit st' \<and> h_fd st' = - 1"
proof -
  have "length close_layout \<le> length (h_buf st)" using assms by (simp add: close_layout_def)
  then obtain rest where rest: "read_into (h_buf st) (Some close_layout) = close_layout @ rest"
    using read_into_fits by blast
  have "0 < length close_layout" by (simp add: close_layout_def)
  then have ne: "close_layout \<noteq> []" by auto
  have "decode_msg off old (close_layout @ rest) =
    Some \<lparr>md_type = enum_code msg_types wlan_emu_msg_type_emu80211,
      md_u = U_emu80211 (enum_code emu80211_ops_types wlan_emu_emu80211_ops_type_close) (Emu_close 0)\<rparr>" for old
    by (simp add: decode_msg_def close_layout_def handle_emu80211_msg_def
        handle_emu80211_type_msg_close_def)
  with rest ne assms(2) show ?thesis
    by (auto simp: msg_hdlr_round_def device_read_def Let_def is_close_msg_def get_msg_type_def
        get_emu80211_ops_type_def)
qed

lemma run_frames_close:
  assumes "\<And>p. p \<in> set ps \<Longrightarrow> frm_wf (snd p) \<and> length (frm80211_layout (fst p) (snd p)) \<le> length (h_buf st)"
    and "12 \<le> length (h_buf st)" "h_fd st = - 1 \<or> 0 \<le> h_fd st" "\<not> h_threadExit st"
  shows "\<exists>st'. msg_hdlr_run off (map (\<lambda>p. device_read (frm80211_layout (fst p) (snd p))) ps
      @ device_read close_layout # ios) st = (map frm_msg ps, st') \<and> h_threadExit st' \<and> h_fd st' = - 1"
  using assms
proof (induction ps arbitrary: st)
  case Nil
  then show ?case using round_close [of st off] by auto
next
  case (Cons p ps)
  obtain st1 where st1: "msg_hdlr_round off (device_read (frm80211_layout (fst p) (snd p))) st
      = (Hdlr_queue_msg (frm_msg p), st1)" "length (h_buf st1) = length (h_buf st)" "0 \<le> h_fd st1"
    "h_threadExit st1 = h_threadExit st"
    using round_frm [of "snd p" "fst p" st off] Cons.prems by auto
  with Cons.IH [of st1] Cons.prems show ?case by auto
qed

section \<open>Properties\<close>

text \<open>
  The messages the driver of the repository can deliver, with what it packs into them
  (\<open>rdkfmac_read\<close> of \<open>build/openwrt/patches/0999-rdkfmac_cdev.patch\<close> and the functions it calls), but for
  the start of an access point. Of the notifications of an agent it knows those of a station.
\<close>

datatype device_msg =
    Dev_tctrl u32 u32 u32
  | Dev_close u32
  | Dev_webconfig u32
  | Dev_frame wlan_emu_frm80211_ops_type wlan_emu_frm80211_frm
  | Dev_agent_cmd u32
  | Dev_agent_data u64
  | Dev_agent_wifi_notification u32 bytes bytes

definition wifi_notification :: u32 where
  "wifi_notification = 1"

fun device_layout :: "device_msg \<Rightarrow> bytes" where
  "device_layout (Dev_tctrl ctrl coverage type) =
     put_u32 (enum_code msg_types wlan_emu_msg_type_emu80211) @
     put_u32 (enum_code emu80211_ops_types wlan_emu_emu80211_ops_type_tctrl) @
     put_u32 ctrl @ put_u32 coverage @ put_u32 type"
| "device_layout (Dev_close fd) =
     put_u32 (enum_code msg_types wlan_emu_msg_type_emu80211) @
     put_u32 (enum_code emu80211_ops_types wlan_emu_emu80211_ops_type_close) @ put_u32 fd"
| "device_layout (Dev_webconfig subdoc_type) =
     put_u32 (enum_code msg_types wlan_emu_msg_type_webconfig) @ put_u32 subdoc_type"
| "device_layout (Dev_frame ops fr) = frm80211_layout (enum_code frm80211_ops_types ops) fr"
| "device_layout (Dev_agent_cmd cmd) =
     put_u32 (enum_code msg_types wlan_emu_msg_type_agent) @
     put_u32 (enum_code agent_ops_types wlan_emu_msg_agent_ops_type_cmd) @ put_u32 cmd"
| "device_layout (Dev_agent_data buf) =
     put_u32 (enum_code msg_types wlan_emu_msg_type_agent) @
     put_u32 (enum_code agent_ops_types wlan_emu_msg_agent_ops_type_data) @ put_u64 buf"
| "device_layout (Dev_agent_wifi_notification sta_state sta_mac bssid_mac) =
     agent_notif_layout wifi_notification sta_state sta_mac bssid_mac"

text \<open>The message the handler forwards for it.\<close>

fun device_meaning :: "device_msg \<Rightarrow> wlan_emu_msg_data" where
  "device_meaning (Dev_tctrl ctrl coverage type) =
     \<lparr>md_type = enum_code msg_types wlan_emu_msg_type_emu80211,
      md_u = U_emu80211 (enum_code emu80211_ops_types wlan_emu_emu80211_ops_type_tctrl) (Emu_tctrl ctrl coverage type)\<rparr>"
| "device_meaning (Dev_close fd) =
     \<lparr>md_type = enum_code msg_types wlan_emu_msg_type_emu80211,
      md_u = U_emu80211 (enum_code emu80211_ops_types wlan_emu_emu80211_ops_type_close) (Emu_close fd)\<rparr>"
| "device_meaning (Dev_webconfig subdoc_type) =
     \<lparr>md_type = enum_code msg_types wlan_emu_msg_type_webconfig, md_u = U_webconfig subdoc_type\<rparr>"
| "device_meaning (Dev_frame ops fr) =
     \<lparr>md_type = enum_code msg_types wlan_emu_msg_type_frm80211, md_u = U_frm80211 (enum_code frm80211_ops_types ops) fr\<rparr>"
| "device_meaning (Dev_agent_cmd cmd) =
     \<lparr>md_type = enum_code msg_types wlan_emu_msg_type_agent,
      md_u = U_agent (enum_code agent_ops_types wlan_emu_msg_agent_ops_type_cmd) (Agent_cmd cmd)\<rparr>"
| "device_meaning (Dev_agent_data buf) =
     \<lparr>md_type = enum_code msg_types wlan_emu_msg_type_agent,
      md_u = U_agent (enum_code agent_ops_types wlan_emu_msg_agent_ops_type_data) (Agent_data buf)\<rparr>"
| "device_meaning (Dev_agent_wifi_notification sta_state sta_mac bssid_mac) =
     \<lparr>md_type = enum_code msg_types wlan_emu_msg_type_agent,
      md_u = U_agent (enum_code agent_ops_types wlan_emu_msg_agent_ops_type_notification)
        (Agent_notif wifi_notification sta_state sta_mac bssid_mac)\<rparr>"

fun device_msg_wf :: "device_msg \<Rightarrow> bool" where
  "device_msg_wf (Dev_frame ops fr) \<longleftrightarrow> frm_wf fr"
| "device_msg_wf (Dev_agent_wifi_notification sta_state sta_mac bssid_mac) \<longleftrightarrow>
     length sta_mac = 6 \<and> length bssid_mac = 6"
| "device_msg_wf m \<longleftrightarrow> True"

text \<open>
  C4. The handler and the driver of the repository agree on every message but the start of an access point:
  control and close messages, sub-documents, frames of all kinds, and the commands, data and station
  notifications of an agent, as the driver lays them out, are read back field by field, whatever follows in
  the buffer and whatever message came before.
\<close>

theorem decode_round_trip:
  assumes "device_msg_wf m"
  shows "decode_msg off old (device_layout m @ rest) = Some (device_meaning m)"
  using assms
proof (cases m)
  case (Dev_frame ops fr)
  then show ?thesis using assms decode_frm80211 by simp
next
  case (Dev_agent_wifi_notification sta_state sta_mac bssid_mac)
  then show ?thesis using assms decode_agent_notif by simp
qed (simp_all add: decode_msg_def handle_emu80211_msg_def handle_emu80211_type_msg_tctrl_def
    handle_emu80211_type_msg_close_def handle_webconfig_msg_def handle_agent_msg_def)

definition sample_frame :: wlan_emu_frm80211_frm where
  "sample_frame = \<lparr>frm_frame = [0x40, 0], frm_macaddr = [1, 2, 3, 4, 5, 6], frm_client_macaddr = [2, 2, 3, 4, 5, 6]\<rparr>"

theorem decode_round_trip_witness:
  "decode_msg 1 \<lparr>md_type = 0, md_u = U_zero\<rparr> (device_layout (Dev_frame wlan_emu_frm80211_ops_type_prb_req sample_frame) @ [])
    = Some (device_meaning (Dev_frame wlan_emu_frm80211_ops_type_prb_req sample_frame)) \<and>
   decode_msg 1 \<lparr>md_type = 0, md_u = U_zero\<rparr>
     (device_layout (Dev_agent_wifi_notification 1 [1, 2, 3, 4, 5, 6] [7, 7, 7, 7, 7, 7]) @ [0])
    = Some (device_meaning (Dev_agent_wifi_notification 1 [1, 2, 3, 4, 5, 6] [7, 7, 7, 7, 7, 7]))"
  by (intro conjI; rule decode_round_trip) (simp_all add: sample_frame_def frm_wf_def)

text \<open>
  The start of an access point, as the driver lays it out: the two indices, the channel, and then the rest of
  the settings, the name of the network among the last of them. The type \<open>struct cfg80211_chan_def\<close> of the
  channel is the kernel's; its first member is a pointer.
\<close>

definition driver_start_ap_layout :: "u32 \<Rightarrow> u32 \<Rightarrow> bytes \<Rightarrow> bytes \<Rightarrow> bytes" where
  "driver_start_ap_layout ifindex phy_index chandef settings =
     put_u32 (enum_code msg_types wlan_emu_msg_type_cfg80211) @
     put_u32 (enum_code cfg80211_ops_types wlan_emu_cfg80211_ops_type_start_ap) @
     put_u32 ifindex @ put_u32 phy_index @ chandef @ settings"

text \<open>
  C29. The handler and the driver of the repository do not agree on the start of an access point. The handler
  takes the first eight bytes of the channel, a pointer of the kernel, for the length of the name of the
  network. As no pointer is at most 32, every such message is refused behind the two indices: no name and no
  beacon are ever read from it.
\<close>

theorem driver_start_ap_refused:
  assumes "8 \<le> length chandef" and "32 < le_value (take 8 chandef)"
  shows "decode_msg off old (driver_start_ap_layout ifindex phy_index chandef settings @ rest) =
    Some \<lparr>md_type = enum_code msg_types wlan_emu_msg_type_cfg80211,
      md_u = U_cfg80211 (enum_code cfg80211_ops_types wlan_emu_cfg80211_ops_type_start_ap)
        (Cfg_start_ap_bad_ssid ifindex phy_index (of_nat (le_value (take 8 chandef))))\<rparr>"
proof -
  have "get_u64 (chandef @ settings @ rest) =
      Some (of_nat (le_value (take 8 chandef)), drop 8 chandef @ settings @ rest)"
    using assms(1) by (simp add: get_u64_def take_bytes_def)
  moreover have "(32 :: u64) < of_nat (le_value (take 8 chandef))"
  proof -
    have "length (take 8 chandef) = 8" using assms(1) by simp
    then have "le_value (take 8 chandef) < 2 ^ 64" using le_value_less [of "take 8 chandef"] by simp
    with assms(2) show ?thesis by (simp add: word_less_nat_alt)
  qed
  ultimately show ?thesis
    by (simp add: decode_msg_def driver_start_ap_layout_def handle_cfg80211_msg_def handle_cfg80211_start_ap_def)
qed

theorem driver_start_ap_refused_witness:
  "decode_msg 16 \<lparr>md_type = 0, md_u = U_zero\<rparr>
     (driver_start_ap_layout 3 0 ([0, 0x10, 0, 0, 0x80, 0x88, 0xff, 0xff] @ replicate 24 0) (replicate 100 0) @ []) =
   Some \<lparr>md_type = enum_code msg_types wlan_emu_msg_type_cfg80211,
     md_u = U_cfg80211 (enum_code cfg80211_ops_types wlan_emu_cfg80211_ops_type_start_ap)
       (Cfg_start_ap_bad_ssid 3 0
         (of_nat (le_value (take 8 ([0, 0x10, 0, 0, 0x80, 0x88, 0xff, 0xff] @ replicate 24 0)))))\<rparr>"
  by (rule driver_start_ap_refused) simp_all

text \<open>
  The frame length the device reports is not checked against the buffer: of the 2048 bytes a
  frame message may hold 2024 bytes of frame, and for every longer one the handler reads (and
  copies) memory behind the buffer.
\<close>

theorem frame_length_unchecked:
  assumes "length body = hdlr_buf_size - 12"
  shows "decode_msg off old (put_u32 (enum_code msg_types wlan_emu_msg_type_frm80211) @ put_u32 ops
      @ put_u32 frame_len @ body) = None \<longleftrightarrow> 2024 < unat frame_len"
  using decode_frm80211_None [OF assms] by (simp add: hdlr_buf_size_def)

theorem frame_length_unchecked_witness:
  "decode_msg 16 \<lparr>md_type = 0, md_u = U_zero\<rparr> (put_u32 (enum_code msg_types wlan_emu_msg_type_frm80211)
     @ put_u32 0 @ put_u32 2025 @ replicate 2036 0) = None"
  using frame_length_unchecked [of "replicate 2036 0" 16 "\<lparr>md_type = 0, md_u = U_zero\<rparr>" 0 2025]
  by (simp add: hdlr_buf_size_def)

text \<open>
  Only access point starts and frames carry lengths: the handler reads inside the buffer for every
  other message, whatever its bytes are, and the decoded message has the type that was sent.
\<close>

theorem fixed_size_messages_safe:
  assumes "length f = hdlr_buf_size" "get_u32 f = Some (ty, r)"
    "enum_decode msg_types ty \<noteq> Some wlan_emu_msg_type_cfg80211"
    "enum_decode msg_types ty \<noteq> Some wlan_emu_msg_type_frm80211"
  shows "\<exists>m. decode_msg off old f = Some m \<and> md_type m = ty"
  by (rule decode_fixed_size_total [OF _ assms(2-4)]) (simp add: assms(1) hdlr_buf_size_def)

theorem fixed_size_messages_safe_witness:
  "\<exists>m. decode_msg 16 \<lparr>md_type = 0, md_u = U_zero\<rparr> (put_u32 6 @ replicate 2044 0) = Some m \<and> md_type m = 6"
  using fixed_size_messages_safe [of "put_u32 6 @ replicate 2044 0" 6 "replicate 2044 0" 16 "\<lparr>md_type = 0, md_u = U_zero\<rparr>"]
  by (simp add: hdlr_buf_size_def enum_decode_def msg_types_def)

text \<open>
  C5. The handler thread forwards every frame the device delivers, once and in order, up to the
  close message; that one is not forwarded, ends the thread and closes the device, and nothing
  behind it is read.
\<close>

theorem hdlr_forwards_until_close:
  assumes "\<forall>p \<in> set ps. frm_wf (snd p) \<and> length (frm80211_layout (fst p) (snd p)) \<le> hdlr_buf_size"
  shows "\<exists>st'. msg_hdlr_run off (map (\<lambda>p. device_read (frm80211_layout (fst p) (snd p))) ps
      @ device_read close_layout # ios) msg_hdlr_init = (map frm_msg ps, st') \<and> h_threadExit st' \<and> h_fd st' = - 1"
  by (rule run_frames_close) (use assms in \<open>auto simp: msg_hdlr_init_def hdlr_buf_size_def\<close>)

theorem hdlr_forwards_until_close_witness:
  "\<exists>st'. msg_hdlr_run 16 [device_read (frm80211_layout 1 sample_frame), device_read close_layout,
      device_read (frm80211_layout 2 sample_frame)] msg_hdlr_init = ([frm_msg (1, sample_frame)], st')
    \<and> h_threadExit st' \<and> h_fd st' = - 1"
  using hdlr_forwards_until_close [of "[(1, sample_frame)]" 16 "[device_read (frm80211_layout 2 sample_frame)]"]
  by (simp add: sample_frame_def frm_wf_def frm80211_layout_def hdlr_buf_size_def)

text \<open>
  The result of \<open>read\<close> is compared with 0 before it is assigned, so an error is not noticed:
  after a message was forwarded, a failing \<open>read\<close> forwards the same message again.
\<close>

theorem read_error_repeats_message:
  assumes "msg_hdlr_round off io st = (Hdlr_queue_msg m, st1)"
    and "0 \<le> io_poll io'" "io_pollin io'" "io_read io' = None"
  shows "msg_hdlr_round off io' st1 = (Hdlr_queue_msg m, st1)"
  by (rule round_read_error [OF assms])

theorem read_error_repeats_message_witness:
  "\<exists>st1. msg_hdlr_round 16 \<lparr>io_open = 3, io_poll = 1, io_pollin = True, io_read = None\<rparr> st1
     = (Hdlr_queue_msg (frm_msg (1, sample_frame)), st1)"
proof -
  obtain st1 where "msg_hdlr_round 16 (device_read (frm80211_layout 1 sample_frame)) msg_hdlr_init
      = (Hdlr_queue_msg (frm_msg (1, sample_frame)), st1)"
    using round_frm [of sample_frame 1 msg_hdlr_init 16]
    by (auto simp: sample_frame_def frm_wf_def msg_hdlr_init_def hdlr_buf_size_def frm80211_layout_def)
  from read_error_repeats_message [OF this, of "\<lparr>io_open = 3, io_poll = 1, io_pollin = True, io_read = None\<rparr>"]
  show ?thesis by auto
qed

end
