(* ===== verification/Msg_Mgr.thy ===== *)
theory Msg_Mgr
  imports Emu_Queue
begin

text \<open>
  The message manager, \<open>messages/wlan_emu_msg_mgr.cpp\<close>: the queue of subscribed tests and the
  distribution of a message to the message queue (\<open>m_results\<close>) of each of them, together with
  \<open>push_msg\<close> and \<open>pop_msg\<close> of \<open>tests/wlan_emu_tests.cpp\<close>, the two ends of that queue. A test is known
  by its address; the message queues of all tests are a function from it.
\<close>

section \<open>Operations\<close>

record ('t, 'm) msg_mgr =
  mm_tests :: "'t queue"
  mm_results :: "'t \<Rightarrow> 'm queue"

text \<open>The first argument is whether \<open>queue_push\<close> gets memory; its result code is dropped by the code.\<close>

definition push_msg :: "bool \<Rightarrow> 't \<Rightarrow> 'm \<Rightarrow> ('t, 'm) msg_mgr \<Rightarrow> ('t, 'm) msg_mgr" where
  "push_msg mem t m s = s\<lparr>mm_results := (mm_results s)(t := snd (queue_push mem (mm_results s t) m))\<rparr>"

definition pop_msg :: "'t \<Rightarrow> ('t, 'm) msg_mgr \<Rightarrow> 'm option \<times> ('t, 'm) msg_mgr" where
  "pop_msg t s =
     (if queue_count (mm_results s t) = 0 then (None, s)
      else case queue_pop (mm_results s t) of
             (m, q) \<Rightarrow> (m, s\<lparr>mm_results := (mm_results s)(t := q)\<rparr>))"

definition subscribe :: "bool \<Rightarrow> 't \<Rightarrow> ('t, 'm) msg_mgr \<Rightarrow> ('t, 'm) msg_mgr" where
  "subscribe mem t s = s\<lparr>mm_tests := snd (queue_push mem (mm_tests s) t)\<rparr>"

definition unsubscribe :: "'t \<Rightarrow> ('t, 'm) msg_mgr \<Rightarrow> ('t, 'm) msg_mgr" where
  "unsubscribe t s =
     (case queue_search (\<lambda>e. e = t) (mm_tests s) of
        None \<Rightarrow> s
      | Some (i, e) \<Rightarrow> s\<lparr>mm_tests := snd (queue_remove (mm_tests s) (of_nat i))\<rparr>)"

text \<open>Each subscribed test gets a copy; a \<open>NULL\<close> element would be dereferenced.\<close>

definition queue_msg :: "bool \<Rightarrow> 'm \<Rightarrow> ('t, 'm) msg_mgr \<Rightarrow> ('t, 'm) msg_mgr option" where
  "queue_msg mem m s =
     queue_loop (\<lambda>elem s. case elem of None \<Rightarrow> None | Some t \<Rightarrow> Some (push_msg mem t m s)) (mm_tests s) s"

definition msg_mgr_create :: "('t, 'm) msg_mgr" where
  "msg_mgr_create = \<lparr>mm_tests = queue_create, mm_results = (\<lambda>_. queue_create)\<rparr>"

section \<open>Subscriptions\<close>

definition subscribed :: "('t, 'm) msg_mgr \<Rightarrow> 't set" where
  "subscribed s = set (mm_tests s)"

definition mgr_ok :: "('t, 'm) msg_mgr \<Rightarrow> bool" where
  "mgr_ok s \<longleftrightarrow> queue_ok (mm_tests s) \<and> distinct (mm_tests s)"

lemma subscribed_subscribe: "subscribed (subscribe True t s) = insert t (subscribed s)"
  by (simp add: subscribed_def subscribe_def queue_push_def)

lemma mgr_ok_subscribe:
  "mgr_ok s \<Longrightarrow> t \<notin> subscribed s \<Longrightarrow> Suc (length (mm_tests s)) < 2 ^ 32 \<Longrightarrow> mgr_ok (subscribe True t s)"
  by (simp add: mgr_ok_def subscribed_def subscribe_def queue_push_def queue_ok_def)

lemma unsubscribe_tests:
  assumes "mgr_ok s"
  shows "mm_tests (unsubscribe t s) = remove1 t (mm_tests s)"
proof -
  have rem: "remove1 t xs = (case first_index (\<lambda>e. e = t) xs of None \<Rightarrow> xs
    | Some (i, x) \<Rightarrow> take i xs @ drop (Suc i) xs)" for xs
    by (induction xs) (auto simp: apfst_def map_prod_def split: option.splits prod.splits)
  show ?thesis
  proof (cases "first_index (\<lambda>e. e = t) (mm_tests s)")
    case None
    with assms show ?thesis
      by (simp add: unsubscribe_def rem mgr_ok_def eq.index_search_first)
  next
    case (Some ie)
    then obtain i e where ie: "ie = (i, e)" "i < length (mm_tests s)"
      by (cases ie) (auto simp: first_index_Some)
    with assms Some show ?thesis
      by (simp add: unsubscribe_def rem mgr_ok_def eq.index_search_first queue_remove_nth queue_ok_def)
  qed
qed

lemma subscribed_unsubscribe: "mgr_ok s \<Longrightarrow> subscribed (unsubscribe t s) = subscribed s - {t}"
  by (simp add: subscribed_def unsubscribe_tests mgr_ok_def)

lemma mgr_ok_unsubscribe: "mgr_ok s \<Longrightarrow> mgr_ok (unsubscribe t s)"
  using length_remove1 [of t "mm_tests s"]
  by (auto simp: mgr_ok_def unsubscribe_tests queue_ok_def split: if_splits)

lemma unsubscribe_results: "mm_results (unsubscribe t s) = mm_results s"
  by (simp add: unsubscribe_def split: option.split)

section \<open>Distribution\<close>

lemma fold_push_msg:
  "mm_results (fold (\<lambda>t. push_msg True t m) ts s) u = replicate (count_list ts u) m @ mm_results s u"
proof (induction ts arbitrary: s)
  case (Cons t ts)
  then show ?case
    by (auto simp: push_msg_def queue_push_def replicate_append_same [symmetric])
qed simp

lemma queue_msg_fold: "queue_ok (mm_tests s) \<Longrightarrow> queue_msg mem m s = Some (fold (\<lambda>t. push_msg mem t m) (mm_tests s) s)"
  by (simp add: queue_msg_def eq.index_loop_contents fold_opt_total)

lemma fold_push_msg_tests: "mm_tests (fold (\<lambda>t. push_msg mem t m) ts s) = mm_tests s"
  by (induction ts arbitrary: s) (auto simp: push_msg_def)

lemma count_list_distinct: "distinct ts \<Longrightarrow> count_list ts u = (if u \<in> set ts then 1 else 0)"
  by (induction ts) auto

lemma queue_msg_results:
  assumes "mgr_ok s" "queue_msg True m s = Some s'"
  shows "mm_tests s' = mm_tests s"
    and "mm_results s' u = (if u \<in> subscribed s then m # mm_results s u else mm_results s u)"
  using assms
  by (auto simp: mgr_ok_def queue_msg_fold fold_push_msg_tests fold_push_msg count_list_distinct
      subscribed_def)

text \<open>Messages sent one after the other, and a test that takes all of its messages.\<close>

fun queue_msgs :: "'m list \<Rightarrow> ('t, 'm) msg_mgr \<Rightarrow> ('t, 'm) msg_mgr option" where
  "queue_msgs [] s = Some s"
| "queue_msgs (m # ms) s = (case queue_msg True m s of None \<Rightarrow> None | Some s' \<Rightarrow> queue_msgs ms s')"

fun pop_msgs :: "nat \<Rightarrow> 't \<Rightarrow> ('t, 'm) msg_mgr \<Rightarrow> 'm list \<times> ('t, 'm) msg_mgr" where
  "pop_msgs 0 t s = ([], s)"
| "pop_msgs (Suc n) t s =
     (case pop_msg t s of
        (None, s') \<Rightarrow> ([], s')
      | (Some m, s') \<Rightarrow> (case pop_msgs n t s' of (ms, s'') \<Rightarrow> (m # ms, s'')))"

lemma queue_msgs_results:
  assumes "mgr_ok s"
  shows "\<exists>s'. queue_msgs ms s = Some s' \<and> mm_tests s' = mm_tests s \<and>
    (\<forall>u. mm_results s' u = (if u \<in> subscribed s then rev ms @ mm_results s u else mm_results s u))"
  using assms
proof (induction ms arbitrary: s)
  case (Cons m ms)
  then obtain s1 where s1: "queue_msg True m s = Some s1" by (simp add: mgr_ok_def queue_msg_fold)
  note r = queue_msg_results [OF Cons.prems s1]
  then have "mgr_ok s1" "subscribed s1 = subscribed s" using Cons.prems by (auto simp: mgr_ok_def subscribed_def)
  with Cons.IH [of s1] obtain s2 where "queue_msgs ms s1 = Some s2" "mm_tests s2 = mm_tests s1"
    "\<forall>u. mm_results s2 u = (if u \<in> subscribed s then rev ms @ mm_results s1 u else mm_results s1 u)"
    by auto
  with s1 r show ?case by auto
qed simp

lemma pop_msgs_all:
  "queue_ok (mm_results s t) \<Longrightarrow> length (mm_results s t) < n \<Longrightarrow>
     fst (pop_msgs n t s) = rev (mm_results s t) \<and> mm_results (snd (pop_msgs n t s)) t = []"
proof (induction n arbitrary: s)
  case (Suc n)
  show ?case
  proof (cases "mm_results s t = []")
    case False
    let ?q = "mm_results s t"
    let ?s1 = "s\<lparr>mm_results := (mm_results s)(t := butlast ?q)\<rparr>"
    have pop: "pop_msg t s = (Some (last ?q), ?s1)"
      using False Suc.prems by (simp add: pop_msg_def queue_pop_def)
    have IH: "fst (pop_msgs n t ?s1) = rev (mm_results ?s1 t) \<and> mm_results (snd (pop_msgs n t ?s1)) t = []"
    proof (rule Suc.IH)
      have "length (butlast ?q) < length ?q" using False by (cases ?q) auto
      moreover have "queue_ok ?q" "length ?q < Suc n" using Suc.prems by auto
      ultimately have "queue_ok (butlast ?q)" "length (butlast ?q) < n"
        unfolding queue_ok_def by linarith+
      then show "queue_ok (mm_results ?s1 t)" "length (mm_results ?s1 t) < n" by auto
    qed
    have "last ?q # rev (butlast ?q) = rev ?q"
      using False by (metis append_butlast_last_id rev.simps(2) rev_append rev_rev_ident append_Cons append_Nil)
    with pop IH show ?thesis by (auto simp: case_prod_beta)
  qed (simp add: pop_msg_def)
qed simp

section \<open>Properties\<close>

text \<open>
  C6. Messages reach exactly the subscribed tests: after any sequence of messages every subscribed
  test takes precisely that sequence, in the order it was sent, from an empty message queue, and
  a test that unsubscribed before takes nothing.
\<close>

theorem delivery_in_order:
  assumes "mgr_ok s" "\<forall>u. mm_results s u = []" "t \<in> subscribed s" "length ms < n" "length ms < 2 ^ 32"
  shows "\<exists>s'. queue_msgs ms s = Some s' \<and> fst (pop_msgs n t s') = ms
    \<and> (\<exists>s''. queue_msgs ms (unsubscribe t s) = Some s'' \<and> fst (pop_msgs n t s'') = [])"
proof -
  obtain s' where s': "queue_msgs ms s = Some s'" "mm_results s' t = rev ms"
    using queue_msgs_results [OF assms(1), of ms] assms(2,3) by auto
  have "fst (pop_msgs n t s') = ms"
    using pop_msgs_all [of s' t n] s' assms by (simp add: queue_ok_def)
  moreover obtain s'' where s'': "queue_msgs ms (unsubscribe t s) = Some s''" "mm_results s'' t = []"
    using queue_msgs_results [where ms = ms, OF mgr_ok_unsubscribe [OF assms(1), of t]] assms
    by (auto simp: subscribed_unsubscribe unsubscribe_results)
  moreover have "fst (pop_msgs n t s'') = []" using pop_msgs_all [of s'' t n] s'' assms by simp
  ultimately show ?thesis using s' by blast
qed

theorem delivery_in_order_witness:
  "\<exists>s'. queue_msgs [''a'', ''b''] (subscribe True (2 :: nat) (subscribe True 1 msg_mgr_create)) = Some s'
    \<and> fst (pop_msgs 3 1 s') = [''a'', ''b'']"
  using delivery_in_order [of "subscribe True (2 :: nat) (subscribe True 1 msg_mgr_create)" 1 "[''a'', ''b'']" 3]
  by (simp add: mgr_ok_def subscribed_def subscribe_def queue_push_def msg_mgr_create_def queue_create_def queue_ok_def
      del: queue_msgs.simps pop_msgs.simps) blast

end
