(* ===== verification/Wifi_Utils.thy ===== *)
theory Wifi_Utils
  imports Emu_Types
begin

text \<open>
  The helpers of \<open>utils/cci_wifi_utils.cpp\<close> and \<open>common/wlan_common_utils.cpp\<close> the other components
  call: printed MAC addresses, the 802.11 header length, the Internet checksum, file names and
  copies, the value reader of \<open>dmcli\<close>, time stamps, and the tables between enumerations and strings.
\<close>

section \<open>MAC addresses\<close>

definition hex_digit :: "nat \<Rightarrow> char" where
  "hex_digit d = char_of (if d < 10 then 48 + d else 87 + d)"

definition hex2 :: "u8 \<Rightarrow> string" where
  "hex2 b = [hex_digit (unat b div 16), hex_digit (unat b mod 16)]"

definition mac_str_without_colon :: "u8 list \<Rightarrow> string" where
  "mac_str_without_colon mac = concat (map hex2 mac)"

fun mac_to_str :: "u8 list \<Rightarrow> string" where
  "mac_to_str [] = []"
| "mac_to_str [b] = hex2 b"
| "mac_to_str (b # bs) = hex2 b @ '':'' @ mac_to_str bs"

fun is_zero_mac :: "u8 list \<Rightarrow> bool" where
  "is_zero_mac [] = True"
| "is_zero_mac (b # bs) = (if b \<noteq> 0 then False else is_zero_mac bs)"

lemma of_char_hex_digit: "d < 16 \<Longrightarrow> of_char (hex_digit d) = (if d < 10 then 48 + d else 87 + d)"
  by (simp add: hex_digit_def)

lemma hex_digit_inj: "a < 16 \<Longrightarrow> b < 16 \<Longrightarrow> hex_digit a = hex_digit b \<Longrightarrow> a = b"
  by (drule arg_cong [of _ _ "of_char :: char \<Rightarrow> nat"]) (auto simp: of_char_hex_digit split: if_splits)

lemma unat_u8_less: "unat (b :: u8) < 256"
  by (rule order.strict_trans2 [OF unsigned_less]) simp

lemma hex2_inj: "hex2 a = hex2 b \<Longrightarrow> a = b"
proof -
  assume "hex2 a = hex2 b"
  moreover have "unat a div 16 < 16" "unat b div 16 < 16"
    using unat_u8_less [of a] unat_u8_less [of b] by auto
  ultimately have "unat a div 16 = unat b div 16" "unat a mod 16 = unat b mod 16"
    by (auto simp: hex2_def intro: hex_digit_inj)
  then have "unat a = unat b" by (metis div_mult_mod_eq)
  then show "a = b" by (rule unsigned_word_eqI)
qed

lemma length_hex2 [simp]: "length (hex2 b) = 2"
  by (simp add: hex2_def)

lemma mac_str_without_colon_inj:
  "length a = length b \<Longrightarrow> mac_str_without_colon a = mac_str_without_colon b \<Longrightarrow> a = b"
proof (induction a b rule: list_induct2)
  case (Cons x xs y ys)
  then have "hex2 x = hex2 y \<and> mac_str_without_colon xs = mac_str_without_colon ys"
    by (simp add: mac_str_without_colon_def)
  with Cons.IH show ?case by (auto dest: hex2_inj)
qed simp

lemma mac_to_str_inj: "length a = length b \<Longrightarrow> mac_to_str a = mac_to_str b \<Longrightarrow> a = b"
proof (induction a b rule: list_induct2)
  case (Cons x xs y ys)
  show ?case
  proof (cases xs)
    case Nil
    with Cons show ?thesis by (auto dest: hex2_inj)
  next
    case (Cons z zs)
    then obtain w ws where "ys = w # ws" using \<open>length xs = length ys\<close> by (cases ys) auto
    with Cons Cons.IH \<open>mac_to_str (x # xs) = mac_to_str (y # ys)\<close> show ?thesis
      by (auto dest: hex2_inj)
  qed
qed simp

lemma is_zero_mac_iff: "is_zero_mac mac \<longleftrightarrow> (\<forall>b \<in> set mac. b = 0)"
  by (induction mac) auto

section \<open>The length of an 802.11 header\<close>

definition WLAN_FC_TYPE_MGMT :: u16 where "WLAN_FC_TYPE_MGMT = 0"
definition WLAN_FC_TYPE_CTRL :: u16 where "WLAN_FC_TYPE_CTRL = 1"
definition WLAN_FC_TYPE_DATA :: u16 where "WLAN_FC_TYPE_DATA = 2"

definition WLAN_FC_GET_TYPE :: "u16 \<Rightarrow> u16" where
  "WLAN_FC_GET_TYPE fc = drop_bit 2 (fc AND 0x000c)"

text \<open>
  \<open>tods\<close> and \<open>fromds\<close> are the flags \<open>WLAN_FC_TODS\<close> and \<open>WLAN_FC_FROMDS\<close> of the hostap headers. The three
  tests on the type follow each other; the first two leave by \<open>goto out\<close>.
\<close>

definition ieee_frame_hdr_len :: "u16 \<Rightarrow> u16 \<Rightarrow> u16 \<Rightarrow> nat" where
  "ieee_frame_hdr_len tods fromds fc =
     (let type = WLAN_FC_GET_TYPE fc;
          hdrlen = (if type = WLAN_FC_TYPE_DATA \<and> fc AND (tods OR fromds) = tods OR fromds then 30 else 24)
      in if type = WLAN_FC_TYPE_DATA \<and> (fc AND 0x00f0) AND 0x80 = 0x80
         then hdrlen + 2 + (if (fc AND 0xf000) AND 0x8000 \<noteq> 0 then 4 else 0)
         else if type = WLAN_FC_TYPE_MGMT
         then hdrlen + (if (fc AND 0xf000) AND 0x8000 \<noteq> 0 then 4 else 0)
         else if type = WLAN_FC_TYPE_CTRL
         then (if (fc AND 0xff00) AND 0x00E0 = 0x00C then 10 else 16)
         else hdrlen)"

lemma ctrl_mask_zero: "((fc :: u16) AND 0xff00) AND 0x00E0 = 0"
  by (simp add: ac_simps)

lemma hdr_len_ctrl: "WLAN_FC_GET_TYPE fc = WLAN_FC_TYPE_CTRL \<Longrightarrow> ieee_frame_hdr_len tods fromds fc = 16"
  by (simp add: ieee_frame_hdr_len_def WLAN_FC_TYPE_CTRL_def WLAN_FC_TYPE_DATA_def
      WLAN_FC_TYPE_MGMT_def ctrl_mask_zero)

lemma hdr_len_values: "ieee_frame_hdr_len tods fromds fc \<in> {16, 24, 26, 28, 30, 32, 36}"
  using ctrl_mask_zero [of fc]
  by (simp add: ieee_frame_hdr_len_def Let_def WLAN_FC_TYPE_CTRL_def WLAN_FC_TYPE_DATA_def
      WLAN_FC_TYPE_MGMT_def)

section \<open>The Internet checksum\<close>

text \<open>Readings of the word operations of the checksum as naturals.\<close>

lemma unat_and_ffff: "unat (w AND 0xFFFF :: 64 word) = unat w mod 65536"
proof -
  have "w AND 0xFFFF = take_bit 16 w" by (simp add: take_bit_eq_mask mask_eq_exp_minus_1)
  then have "w AND 0xFFFF = w mod 65536" by (simp add: take_bit_eq_mod)
  then show ?thesis by (simp add: unat_mod)
qed
lemma unat_drop16: "unat (drop_bit 16 w :: 64 word) = unat w div 65536"
proof -
  have "drop_bit 16 w = w div 65536" by (simp add: drop_bit_eq_div)
  then show ?thesis by (simp add: unat_div)
qed
lemma bit31: "w AND 0x80000000 \<noteq> (0 :: 64 word) \<longleftrightarrow> odd (unat w div 2 ^ 31)"
proof -
  have "w AND 0x80000000 \<noteq> 0 \<longleftrightarrow> bit w 31"
  proof -
    have "(0x80000000 :: 64 word) = push_bit 31 1" by simp
    then show ?thesis by (metis and_exp_eq_0_iff_not_bit push_bit_of_1)
  qed
  also have "bit w 31 \<longleftrightarrow> bit (unat w) 31" by (simp add: bit_unsigned_iff)
  also have "\<dots> \<longleftrightarrow> odd (unat w div 2 ^ 31)" by (simp add: bit_iff_odd)
  finally show ?thesis .
qed
lemma unat_not16: "unat (NOT x :: 16 word) = 65535 - unat x"
proof -
  have "NOT x = - 1 - x" by (simp add: not_eq_complement)
  then show ?thesis by (simp add: unat_sub unsigned_minus_1_eq_mask mask_eq_exp_minus_1)
qed
definition le16 :: "u8 \<Rightarrow> u8 \<Rightarrow> u64" where
  "le16 lo hi = ucast lo + 256 * ucast hi"

text \<open>One folding of the carries, \<open>(sum & 0xFFFF) + (sum >> 16)\<close>; the sum is an \<open>unsigned long\<close>.\<close>

definition csum_carry :: "u64 \<Rightarrow> u64" where
  "csum_carry sm = (sm AND 0xFFFF) + drop_bit 16 sm"
text \<open>The 16-bit words of the buffer; an odd last byte is left out.\<close>

fun csum_words :: "u64 \<Rightarrow> u8 list \<Rightarrow> u64" where
  "csum_words sm (lo # hi # rest) =
     (let sm = sm + le16 lo hi
      in csum_words (if sm AND 0x80000000 \<noteq> 0 then csum_carry sm else sm) rest)"
| "csum_words sm _ = sm"

lemma unat_u64_less: "unat (w :: u64) < 2 ^ 64"
  by (rule order.strict_trans2 [OF unsigned_less]) simp

lemma unat_csum_carry: "unat (csum_carry w) = unat w mod 65536 + unat w div 65536"
  using unat_u64_less [of w]
  by (simp add: csum_carry_def unat_word_ariths unat_and_ffff unat_drop16)

function csum_fold :: "u64 \<Rightarrow> u64" where
  "csum_fold sm = (if drop_bit 16 sm \<noteq> 0 then csum_fold (csum_carry sm) else sm)"
  by pat_completeness auto
termination
proof (relation "measure unat")
  fix w :: u64
  assume "drop_bit 16 w \<noteq> 0"
  then have "unat (drop_bit 16 w) \<noteq> 0" by (metis unat_eq_0)
  then have "65536 \<le> unat w" by (simp add: unat_drop16)
  then have "1 \<le> unat w div 65536" by (simp add: div_greater_zero_iff Suc_leI)
  then have "unat w mod 65536 + unat w div 65536 < unat w"
    using div_mult_mod_eq [of "unat w" 65536] by linarith
  then show "(csum_carry w, w) \<in> measure unat" by (simp add: unat_csum_carry)
qed simp

declare csum_fold.simps [simp del]

definition inet_csum :: "u8 list \<Rightarrow> u16" where
  "inet_csum buf = NOT (ucast (csum_fold (csum_words 0 buf)))"

lemma unat_le16: "unat (le16 lo hi) = unat lo + 256 * unat hi"
proof -
  have ext: "unat (ucast b :: u64) = unat b" for b :: u8
    using unat_u8_less [of b] by (simp add: unsigned_ucast_eq take_bit_nat_eq_self)
  show ?thesis
    using unat_u8_less [of lo] unat_u8_less [of hi] by (simp add: le16_def unat_word_ariths ext)
qed

lemma carry_cong: "(n mod 65536 + n div 65536) mod 65535 = n mod (65535 :: nat)"
proof -
  have "n mod 65536 + n div 65536 + 65535 * (n div 65536) = n"
    using div_mult_mod_eq [of n 65536] by simp
  then show ?thesis by (metis mod_mult_self2)
qed

definition csum_step :: "u64 \<Rightarrow> u8 \<Rightarrow> u8 \<Rightarrow> u64" where
  "csum_step sm lo hi = (let sm = sm + le16 lo hi
      in if sm AND 0x80000000 \<noteq> 0 then csum_carry sm else sm)"

lemma csum_step:
  assumes "unat sm < 2 ^ 31"
  shows "unat (csum_step sm lo hi) < 2 ^ 31"
    and "unat (csum_step sm lo hi) mod 65535 = (unat sm + unat lo + 256 * unat hi) mod 65535"
    and "0 < unat sm + unat lo + 256 * unat hi \<Longrightarrow> 0 < unat (csum_step sm lo hi)"
proof -
  let ?n = "unat sm + unat lo + 256 * unat hi"
  have n: "unat (sm + le16 lo hi) = ?n" "?n < 2 ^ 32"
    using assms unat_u8_less [of lo] unat_u8_less [of hi]
    by (simp_all add: unat_word_ariths unat_le16)
  have step: "unat (csum_step sm lo hi) = (if odd (?n div 2 ^ 31) then ?n mod 65536 + ?n div 65536 else ?n)"
    by (simp add: csum_step_def Let_def bit31 unat_csum_carry n(1))
  show "unat (csum_step sm lo hi) < 2 ^ 31"
  proof (cases "odd (?n div 2 ^ 31)")
    case True
    have "?n mod 65536 < 65536" "?n div 65536 < 65536" using n(2) by (auto simp: div_less_iff_less_mult)
    with True step show ?thesis by simp
  next
    case False
    have "?n div 2 ^ 31 < 2" using n(2) by (simp add: div_less_iff_less_mult)
    with False have "?n div 2 ^ 31 = 0" by (auto simp: less_2_cases_iff)
    then have "?n < 2 ^ 31" by (simp add: div_eq_0_iff)
    with False step show ?thesis by simp
  qed
  show "unat (csum_step sm lo hi) mod 65535 = ?n mod 65535"
    using carry_cong [of ?n] by (simp add: step)
  show "0 < ?n \<Longrightarrow> 0 < unat (csum_step sm lo hi)"
    using div_mult_mod_eq [of ?n 65536] by (auto simp: step)
qed

lemma csum_words_step: "csum_words sm (lo # hi # rest) = csum_words (csum_step sm lo hi) rest"
  by (simp add: csum_step_def Let_def)

lemma csum_words_append:
  "even (length a) \<Longrightarrow> csum_words sm (a @ b) = csum_words (csum_words sm a) b"
proof (induction a arbitrary: sm rule: induct_list012)
  case (3 x y zs)
  then show ?case by (simp add: csum_words_step del: csum_words.simps(1))
qed auto

lemma csum_words_bound: "unat sm < 2 ^ 31 \<Longrightarrow> unat (csum_words sm a) < 2 ^ 31"
proof (induction a arbitrary: sm rule: induct_list012)
  case (3 x y zs)
  then show ?case using csum_step(1) [of sm x y] by (simp add: csum_words_step del: csum_words.simps(1))
qed auto

lemma csum_fold_props:
  "unat (csum_fold s) < 65536 \<and> unat (csum_fold s) mod 65535 = unat s mod 65535 \<and>
     (0 < unat s \<longrightarrow> 0 < unat (csum_fold s))"
proof (induction s rule: csum_fold.induct)
  case (1 s)
  show ?case
  proof (cases "drop_bit 16 s = 0")
    case True
    then have "unat s div 65536 = 0" by (metis unat_drop16 unat_0)
    then have "unat s < 65536" by (simp add: div_eq_0_iff)
    with True show ?thesis by (simp add: csum_fold.simps [of s])
  next
    case False
    from "1.IH" [OF False] False carry_cong [of "unat s"] div_mult_mod_eq [of "unat s" 65536]
    show ?thesis by (auto simp: csum_fold.simps [of s] unat_csum_carry)
  qed
qed

lemma unat_inet_csum: "unat (inet_csum b) = 65535 - unat (csum_fold (csum_words 0 b))"
  using csum_fold_props [of "csum_words 0 b"]
  by (simp add: inet_csum_def unat_not16 unsigned_ucast_eq take_bit_nat_eq_self)

definition csum_bytes :: "u16 \<Rightarrow> u8 list" where
  "csum_bytes c = [ucast c, ucast (drop_bit 8 c)]"

lemma csum_bytes_value: "csum_bytes c = [lo, hi] \<Longrightarrow> unat lo + 256 * unat hi = unat c"
proof -
  have "unat (ucast c :: u8) = unat c mod 256"
    by (simp add: unsigned_ucast_eq take_bit_eq_mod)
  moreover have "unat (ucast (drop_bit 8 c) :: u8) = unat c div 256 mod 256"
  proof -
    have "drop_bit 8 c = c div 256" by (simp add: drop_bit_eq_div)
    then have "unat (drop_bit 8 c) = unat c div 256" by (simp add: unat_div)
    then show ?thesis by (simp add: unsigned_ucast_eq take_bit_eq_mod)
  qed
  moreover have "unat c < 65536" by (rule order.strict_trans2 [OF unsigned_less]) simp
  moreover from this have "unat c div 256 mod 256 = unat c div 256" by (simp add: div_less_iff_less_mult)
  ultimately show "csum_bytes c = [lo, hi] \<Longrightarrow> unat lo + 256 * unat hi = unat c"
    by (auto simp: csum_bytes_def)
qed

text \<open>
  C32. The Internet checksum verifies: a header of even length followed by its own checksum (low byte
  first, as it is stored) has checksum 0.
\<close>

theorem csum_verifies:
  assumes "even (length b)"
  shows "inet_csum (b @ csum_bytes (inet_csum b)) = 0"
proof -
  obtain lo hi where cb: "csum_bytes (inet_csum b) = [lo, hi]" by (simp add: csum_bytes_def)
  let ?w = "csum_words 0 b" and ?F = "unat (csum_fold (csum_words 0 b))"
  let ?n = "unat ?w + unat lo + 256 * unat hi"
  have w: "unat ?w < 2 ^ 31" by (rule csum_words_bound) simp
  note F = csum_fold_props [of ?w]
  have c: "unat lo + 256 * unat hi = 65535 - ?F"
    using csum_bytes_value [OF cb] by (simp add: unat_inet_csum)
  have words: "csum_words 0 (b @ [lo, hi]) = csum_step ?w lo hi"
    using csum_words_append [OF assms, of 0 "[lo, hi]"] by (simp add: csum_words_step del: csum_words.simps(1))
  have "0 < ?n"
  proof (cases "unat ?w = 0")
    case True
    then have "?w = 0" by (simp add: unsigned_eq_0_iff)
    then have "?F = 0" by (simp add: csum_fold.simps)
    with c have "unat lo + 256 * unat hi = 65535" by simp
    then show ?thesis by linarith
  qed simp
  moreover have "?n mod 65535 = 0"
  proof -
    have "?n mod 65535 = (unat ?w mod 65535 + (65535 - ?F)) mod 65535" using c by (simp add: mod_simps add.assoc)
    also have "\<dots> = (?F mod 65535 + (65535 - ?F)) mod 65535" using F by simp
    also have "\<dots> = (?F + (65535 - ?F)) mod 65535" by (simp add: mod_simps)
    also have "\<dots> = 0" using F by simp
    finally show ?thesis .
  qed
  ultimately have s: "0 < unat (csum_step ?w lo hi)" "unat (csum_step ?w lo hi) mod 65535 = 0"
    using csum_step(2,3) [OF w, of lo hi] by auto
  define G where "G = unat (csum_fold (csum_step ?w lo hi))"
  have "G < 65536" "G mod 65535 = 0" "0 < G"
    using csum_fold_props [of "csum_step ?w lo hi"] s by (auto simp: G_def)
  then obtain k where "G = 65535 * k" "65535 * k < 65536" "0 < k" by (auto simp: mod_eq_0_iff_dvd dvd_def)
  then have "G = 65535" by (cases "k = 1") auto
  then have "unat (csum_fold (csum_words 0 (b @ [lo, hi]))) = 65535" unfolding words G_def .
  then have "unat (inet_csum (b @ [lo, hi])) = unat (0 :: u16)"
    unfolding unat_inet_csum by (simp only: diff_self_eq_0 unsigned_0)
  then show ?thesis unfolding cb by (rule unsigned_word_eqI)
qed

theorem csum_verifies_witness:
  "inet_csum ([0x45, 0, 0, 0x1c] @ csum_bytes (inet_csum [0x45, 0, 0, 0x1c])) = 0"
  by (rule csum_verifies) simp

section \<open>File names, copies and printed values\<close>

text \<open>
  The result code, what is written to \<open>sub_string\<close> (\<open>None\<close>: nothing) and the error code. \<open>None\<close> for
  \<open>str\<close> is a \<open>NULL\<close> pointer; the callers pass a buffer.
\<close>

definition get_last_substring_after_slash :: "string option \<Rightarrow> nat \<Rightarrow> int \<Rightarrow> int \<times> string option \<times> int" where
  "get_last_substring_after_slash str sub_str_len error_code =
     (case str of
        None \<Rightarrow> (RETURN_ERR, None, ENULL)
      | Some s \<Rightarrow>
          if sub_str_len = 0 then (RETURN_ERR, None, ENULL)
          else case after_last CHR ''/'' s of
                 Some t \<Rightarrow>
                   if sub_str_len \<le> length t
                   then (RETURN_ERR, Some (snprintf_store sub_str_len t), ESNPRINTF)
                   else (RETURN_OK, Some t, error_code)
               | None \<Rightarrow> (RETURN_ERR, None, EFPRESENCE))"

lemma last_substring_file:
  "CHR ''/'' \<notin> set f \<Longrightarrow> length f < n \<Longrightarrow>
     get_last_substring_after_slash (Some (d @ ''/'' @ f)) n e = (RETURN_OK, Some f, e)"
  by (simp add: get_last_substring_after_slash_def after_last_append)

text \<open>\<open>std::getline\<close> until it fails: a last line without newline counts, an empty rest does not.\<close>

abbreviation newline :: char where "newline \<equiv> CHR 0x0A"

fun getlines :: "string \<Rightarrow> string \<Rightarrow> string list" where
  "getlines acc [] = (if acc = [] then [] else [rev acc])"
| "getlines acc (c # s) = (if c = newline then rev acc # getlines [] s else getlines (c # acc) s)"

text \<open>
  The source's contents (\<open>None\<close>: it cannot be opened), whether the destination can be opened, and
  the offset to start from; the result code and what the destination holds afterwards.
\<close>

definition copy_file :: "string option \<Rightarrow> bool \<Rightarrow> nat \<Rightarrow> int \<times> string option" where
  "copy_file src dst_open offset =
     (case src of
        None \<Rightarrow> (RETURN_ERR, None)
      | Some content \<Rightarrow>
          if \<not> dst_open then (RETURN_ERR, None)
          else (RETURN_OK, Some (concat (map (\<lambda>line. line @ [newline]) (getlines [] (drop offset content))))))"

lemma getlines_copy:
  "concat (map (\<lambda>line. line @ [newline]) (getlines acc s)) =
     (if acc = [] \<and> s = [] then []
      else if s \<noteq> [] \<and> last s = newline then rev acc @ s else rev acc @ s @ [newline])"
  by (induction acc s rule: getlines.induct) auto

text \<open>
  The value printed by \<open>dmcli\<close>: the chunks \<open>fgets\<close> returns are printed one behind the other into a
  buffer of 1024 bytes. \<open>snprintf\<close> returns the untruncated length, so the offset can pass the end
  of the buffer, where the size left wraps around: \<open>None\<close> is the write behind the buffer.
\<close>

fun dmcli_collect :: "nat \<Rightarrow> string \<Rightarrow> string list \<Rightarrow> string option" where
  "dmcli_collect bytes_written str [] = Some str"
| "dmcli_collect bytes_written str (ptr # ptrs) =
     (if bytes_written \<le> 1024
      then dmcli_collect (bytes_written + length ptr) (str @ take (1023 - bytes_written) ptr) ptrs
      else None)"

definition dmcli_value :: "string \<Rightarrow> string option" where
  "dmcli_value str =
     map_option (\<lambda>rest. takeWhile (\<lambda>c. c \<noteq> CHR '' '' \<and> c \<noteq> newline \<and> c \<noteq> CHR 0x0D) (drop 7 rest))
       (strstr str ''value: '')"

text \<open>The outer option is the write behind the buffer, then the result code and the value stored.\<close>

definition dmcli_get :: "string list option \<Rightarrow> nat \<Rightarrow> (int \<times> string option) option" where
  "dmcli_get popen_out val_len =
     (case popen_out of
        None \<Rightarrow> Some (RETURN_ERR, None)
      | Some chunks \<Rightarrow>
          (case dmcli_collect 0 [] chunks of
             None \<Rightarrow> None
           | Some str \<Rightarrow>
               (case dmcli_value str of
                  None \<Rightarrow> Some (RETURN_ERR, None)
                | Some v \<Rightarrow> Some (RETURN_OK, Some (snprintf_store val_len v)))))"

lemma dmcli_collect_None:
  "dmcli_collect n str ps = None \<longleftrightarrow> (\<exists>k < length ps. 1024 < n + length (concat (take k ps)))"
proof (induction ps arbitrary: n str)
  case (Cons p ps)
  have split: "(\<exists>k < length (p # ps). 1024 < n + length (concat (take k (p # ps))))
    \<longleftrightarrow> 1024 < n \<or> (\<exists>k < length ps. 1024 < n + length p + length (concat (take k ps)))"
  proof
    assume "\<exists>k < length (p # ps). 1024 < n + length (concat (take k (p # ps)))"
    then obtain k where k: "k < length (p # ps)" "1024 < n + length (concat (take k (p # ps)))" by blast
    then show "1024 < n \<or> (\<exists>k < length ps. 1024 < n + length p + length (concat (take k ps)))"
      by (cases k) auto
  next
    assume "1024 < n \<or> (\<exists>k < length ps. 1024 < n + length p + length (concat (take k ps)))"
    then show "\<exists>k < length (p # ps). 1024 < n + length (concat (take k (p # ps)))"
    proof
      assume "\<exists>k < length ps. 1024 < n + length p + length (concat (take k ps))"
      then obtain k where "k < length ps" "1024 < n + length p + length (concat (take k ps))" by blast
      then show ?thesis by (intro exI [of _ "Suc k"]) simp
    qed (intro exI [of _ 0], simp)
  qed
  show ?case
  proof (cases "n \<le> 1024")
    case True
    with Cons.IH split show ?thesis by auto
  next
    case False
    with split show ?thesis by auto
  qed
qed simp

section \<open>Time\<close>

record timespec =
  tv_sec :: int
  tv_nsec :: int

definition timespecadd :: "timespec \<Rightarrow> timespec \<Rightarrow> timespec" where
  "timespecadd a b =
     (let sec = tv_sec a + tv_sec b; nsec = tv_nsec a + tv_nsec b
      in if 1000 * 1000 * 1000 \<le> nsec
         then \<lparr>tv_sec = sec + 1, tv_nsec = nsec - 1000 * 1000 * 1000\<rparr>
         else \<lparr>tv_sec = sec, tv_nsec = nsec\<rparr>)"

text \<open>The moment \<open>WaitForDuration\<close> waits for; \<open>CONVERT_MILLI_TO_NANO\<close> is a million.\<close>

definition wait_until :: "int \<Rightarrow> timespec \<Rightarrow> timespec" where
  "wait_until timeInMs ts =
     (if 1000 < timeInMs then ts\<lparr>tv_sec := tv_sec ts + timeInMs div 1000\<rparr>
      else let nsec = tv_nsec ts + timeInMs * 1000000
           in \<lparr>tv_sec = tv_sec ts + nsec div 1000000000, tv_nsec = nsec mod 1000000000\<rparr>)"

section \<open>Tables between enumerations and strings\<close>

text \<open>A table is the list of its entries; the values are those of the hardware layer's headers.\<close>

fun enum_to_str :: "(int \<times> string) list \<Rightarrow> int \<Rightarrow> string option" where
  "enum_to_str [] d = None"
| "enum_to_str ((e, s) # t) d = (if e = d then Some s else enum_to_str t d)"

fun str_to_enum :: "(int \<times> string) list \<Rightarrow> string \<Rightarrow> int" where
  "str_to_enum [] n = - 1"
| "str_to_enum ((e, s) # t) n = (if s = n then e else str_to_enum t n)"

definition mfp_names :: "string list" where
  "mfp_names = [''Disabled'', ''Optional'', ''Required'']"

definition client_model_names :: "string list" where
  "client_model_names = [''Iphone'', ''Pixel'', ''Android'', ''iOS'', ''Windows'']"

definition secu_mode_names :: "string list" where
  "secu_mode_names = [''None'', ''WEP64'', ''WEP128'', ''WPA-Personal'', ''WPA2-Personal'',
     ''WPA-WPA2-Personal'', ''WPA-Enterprise'', ''WPA2-Enterprise'', ''WPA-WPA2-Enterprise'',
     ''WPA3-Personal'', ''WPA3-Personal-Transition'', ''WPA3-Enterprise'', ''Enhanced-Open'']"

definition encryption_names :: "string list" where
  "encryption_names = [''None'', ''TKIP'', ''AES'', ''AES+TKIP'', ''AES+GCMP256'', ''GCMP256'']"

lemma enum_round_trip:
  "distinct vs \<Longrightarrow> distinct ns \<Longrightarrow> length vs = length ns \<Longrightarrow> i < length vs \<Longrightarrow>
     enum_to_str (zip vs ns) (vs ! i) = Some (ns ! i) \<and> str_to_enum (zip vs ns) (ns ! i) = vs ! i"
proof (induction vs ns arbitrary: i rule: list_induct2')
  case (4 v vs n ns)
  then show ?case by (cases i) (auto simp: in_set_conv_nth)
qed auto

lemma table_names_distinct:
  "distinct mfp_names \<and> distinct client_model_names \<and> distinct secu_mode_names \<and> distinct encryption_names"
  by (simp add: mfp_names_def client_model_names_def secu_mode_names_def encryption_names_def)

section \<open>What the helpers promise\<close>

text \<open>
  A control frame always counts 16 header bytes. The comment in the code gives acknowledgements
  and clear-to-send frames 10, but the masks \<open>0xff00\<close> and \<open>0x00E0\<close> have no bit in common, so that
  branch is dead; the possible lengths are those of the other branches.
\<close>

theorem control_header_length:
  "(WLAN_FC_GET_TYPE fc = WLAN_FC_TYPE_CTRL \<longrightarrow> ieee_frame_hdr_len tods fromds fc = 16) \<and>
     ieee_frame_hdr_len tods fromds fc \<in> {16, 24, 26, 28, 30, 32, 36}"
  using hdr_len_ctrl hdr_len_values by simp

theorem control_header_length_witness:
  "ieee_frame_hdr_len 0x100 0x200 0x00d4 = 16 \<and> ieee_frame_hdr_len 0x100 0x200 0x00c4 = 16"
  using control_header_length [of "0x00d4" "0x100" "0x200"] control_header_length [of "0x00c4" "0x100" "0x200"]
  by (simp add: WLAN_FC_GET_TYPE_def WLAN_FC_TYPE_CTRL_def drop_bit_eq_div)

text \<open>
  Copying a file line by line keeps its contents from the offset on, and ends them with a newline
  when they did not end with one: the copy of a readable file into a destination that can be opened
  succeeds and differs from its source by that newline only.
\<close>

theorem copy_file_contents:
  "copy_file (Some s) True off =
     (RETURN_OK, Some (let rest = drop off s
                       in if rest = [] \<or> last rest = newline then rest else rest @ [newline]))"
  by (auto simp: copy_file_def getlines_copy Let_def)

lemma dmcli_collect_short:
  "n + length (concat ps) < 1024 \<Longrightarrow> dmcli_collect n str ps = Some (str @ concat ps)"
  by (induction ps arbitrary: n str) auto

text \<open>
  The output of \<open>dmcli\<close> is collected in a buffer of 1024 bytes without a bound: the code writes
  behind the buffer exactly when the output goes on after more than 1024 bytes. An output that fits
  is searched whole, and the value stored is what follows its first \<open>value: \<close>.
\<close>

theorem dmcli_get_bounds:
  "(dmcli_get (Some chunks) n = None \<longleftrightarrow> (\<exists>k < length chunks. 1024 < length (concat (take k chunks)))) \<and>
   (length (concat chunks) < 1024 \<longrightarrow>
      dmcli_get (Some chunks) n =
        Some (case strstr (concat chunks) ''value: '' of
                None \<Rightarrow> (RETURN_ERR, None)
              | Some rest \<Rightarrow> (RETURN_OK, Some (take (n - 1)
                  (takeWhile (\<lambda>c. c \<noteq> CHR '' '' \<and> c \<noteq> newline \<and> c \<noteq> CHR 0x0D) (drop 7 rest))))))"
proof -
  have "dmcli_get (Some chunks) n = None \<longleftrightarrow> dmcli_collect 0 [] chunks = None"
    by (simp add: dmcli_get_def split: option.splits)
  then show ?thesis
    using dmcli_collect_None [of 0 "[]" chunks] dmcli_collect_short [of 0 chunks "[]"]
    by (simp add: dmcli_get_def dmcli_value_def snprintf_store_def split: option.splits)
qed

theorem dmcli_get_bounds_witness:
  "dmcli_get (Some [''type: string, value: 11'', '' ok'']) 8 = Some (RETURN_OK, Some ''11'')"
  using conjunct2 [OF dmcli_get_bounds [of "[''type: string, value: 11'', '' ok'']" 8]] by simp

text \<open>A time stamp as a number of nanoseconds; the fraction of a stamp is below a second.\<close>

definition nanoseconds :: "timespec \<Rightarrow> int" where
  "nanoseconds t = tv_sec t * 1000000000 + tv_nsec t"

definition timespec_ok :: "timespec \<Rightarrow> bool" where
  "timespec_ok t \<longleftrightarrow> 0 \<le> tv_nsec t \<and> tv_nsec t < 1000000000"

text \<open>
  Adding time stamps adds their nanoseconds and keeps the fraction below a second. A wait of up to
  a second ends after that many milliseconds; a longer one ends too early by the milliseconds that
  exceed the full seconds.
\<close>

theorem wait_until_early:
  assumes "timespec_ok a" and "timespec_ok b" and "0 \<le> ms"
  shows "nanoseconds (timespecadd a b) = nanoseconds a + nanoseconds b \<and> timespec_ok (timespecadd a b) \<and>
     timespec_ok (wait_until ms a) \<and>
     nanoseconds (wait_until ms a) = nanoseconds a + 1000000 * (if ms \<le> 1000 then ms else ms - ms mod 1000)"
proof (intro conjI)
  show "nanoseconds (timespecadd a b) = nanoseconds a + nanoseconds b" "timespec_ok (timespecadd a b)"
    using assms by (auto simp: timespecadd_def Let_def nanoseconds_def timespec_ok_def)
  show "timespec_ok (wait_until ms a)"
    using assms by (auto simp: wait_until_def Let_def timespec_ok_def)
  show "nanoseconds (wait_until ms a) = nanoseconds a + 1000000 * (if ms \<le> 1000 then ms else ms - ms mod 1000)"
  proof (cases "ms \<le> 1000")
    case True
    then show ?thesis
      using div_mult_mod_eq [of "tv_nsec a + ms * 1000000" 1000000000]
      by (simp add: wait_until_def Let_def nanoseconds_def algebra_simps)
  next
    case False
    moreover have "(ms div 1000) * 1000 = ms - ms mod 1000" by (simp add: minus_mod_eq_div_mult)
    ultimately show ?thesis by (simp add: wait_until_def nanoseconds_def)
  qed
qed

theorem wait_until_early_witness:
  "nanoseconds (wait_until 1999 \<lparr>tv_sec = 5, tv_nsec = 0\<rparr>) = 6000000000"
  using wait_until_early [of "\<lparr>tv_sec = 5, tv_nsec = 0\<rparr>" "\<lparr>tv_sec = 5, tv_nsec = 0\<rparr>" 1999]
  by (simp add: timespec_ok_def nanoseconds_def)

end
