(* ===== verification/Pcap_Frame_Types.thy ===== *)
theory Pcap_Frame_Types
  imports Emu_Types
begin

text \<open>
  The frame selection of a test step: \<open>frame_capture_request_t\<close> (\<open>inc/wlan_emu_common.h\<close>) keeps one
  flag per message type and per operation; \<open>decode_pcap_frame_type\<close> sets the flags of one printed
  frame type and \<open>encode_pcap_frame_type\<close> prints the types whose flags are set
  (\<open>common/wlan_common_utils.cpp\<close>). The properties say that the two agree.
\<close>

section \<open>Requests\<close>

record frame_capture_request =
  fc_msg_type :: u32
  fc_frm80211_ops :: u32
  fc_cfg80211_ops :: u32

definition msg_no :: "wlan_emu_msg_type \<Rightarrow> nat" where
  "msg_no t = position msg_types t"

definition frm_no :: "wlan_emu_frm80211_ops_type \<Rightarrow> nat" where
  "frm_no t = position frm80211_ops_types t"

definition cfg_no :: "wlan_emu_cfg80211_ops_type \<Rightarrow> nat" where
  "cfg_no t = position cfg80211_ops_types t"

definition empty_request :: frame_capture_request where
  "empty_request = \<lparr>fc_msg_type = 0, fc_frm80211_ops = 0, fc_cfg80211_ops = 0\<rparr>"

section \<open>Decoding and encoding\<close>

definition select_frm :: "wlan_emu_frm80211_ops_type \<Rightarrow> frame_capture_request \<Rightarrow> frame_capture_request" where
  "select_frm ops r = r\<lparr>fc_msg_type := fc_msg_type r OR flag (msg_no wlan_emu_msg_type_frm80211),
     fc_frm80211_ops := fc_frm80211_ops r OR flag (frm_no ops)\<rparr>"

definition select_beacon :: "frame_capture_request \<Rightarrow> frame_capture_request" where
  "select_beacon r = r\<lparr>fc_msg_type := fc_msg_type r OR flag (msg_no wlan_emu_msg_type_cfg80211),
     fc_cfg80211_ops := fc_cfg80211_ops r OR flag (cfg_no wlan_emu_cfg80211_ops_type_start_ap)\<rparr>"

definition decode_pcap_frame_type :: "string \<Rightarrow> frame_capture_request \<Rightarrow> int \<times> frame_capture_request" where
  "decode_pcap_frame_type s r =
     (if s = ''Beacon'' then (RETURN_OK, select_beacon r)
      else if s = ''ProbeResponse'' then (RETURN_OK, select_frm wlan_emu_frm80211_ops_type_prb_resp r)
      else if s = ''ProbeRequest'' then (RETURN_OK, select_frm wlan_emu_frm80211_ops_type_prb_req r)
      else if s = ''AssociationResponse'' then (RETURN_OK, select_frm wlan_emu_frm80211_ops_type_assoc_resp r)
      else if s = ''AssociationRequest'' then (RETURN_OK, select_frm wlan_emu_frm80211_ops_type_assoc_req r)
      else if s = ''Authentication'' then (RETURN_OK, select_frm wlan_emu_frm80211_ops_type_auth r)
      else if s = ''Deauthentication'' then (RETURN_OK, select_frm wlan_emu_frm80211_ops_type_deauth r)
      else if s = ''Disassociation'' then (RETURN_OK, select_frm wlan_emu_frm80211_ops_type_disassoc r)
      else if s = ''Eapol'' then (RETURN_OK, select_frm wlan_emu_frm80211_ops_type_eapol r)
      else if s = ''ReassociationRequest'' then (RETURN_OK, select_frm wlan_emu_frm80211_ops_type_reassoc_req r)
      else if s = ''ReassociationResponse'' then (RETURN_OK, select_frm wlan_emu_frm80211_ops_type_reassoc_resp r)
      else if s = ''Action'' then (RETURN_OK, select_frm wlan_emu_frm80211_ops_type_action r)
      else (RETURN_ERR, r))"

text \<open>
  One \<open>if\<close> of the encoder: when the flag is set a JSON object is created and appended with its type.
  \<open>objs\<close> are the results of the successive \<open>cJSON_CreateObject\<close> calls (\<open>True\<close>: an object); the first
  failure ends the function with \<open>RETURN_ERR\<close> and the array as it is.
\<close>

fun encode_frames :: "bool list \<Rightarrow> (bool \<times> string) list \<Rightarrow> int \<times> string list" where
  "encode_frames objs [] = (RETURN_OK, [])"
| "encode_frames objs ((b, name) # fs) =
     (if b
      then (case objs of
              True # objs' \<Rightarrow> (case encode_frames objs' fs of (r, a) \<Rightarrow> (r, name # a))
            | _ \<Rightarrow> (RETURN_ERR, []))
      else encode_frames objs fs)"

definition encode_pcap_frame_type :: "bool list \<Rightarrow> frame_capture_request \<Rightarrow> int \<times> string list" where
  "encode_pcap_frame_type objs r =
     (let cfg = has_flag (fc_msg_type r) (msg_no wlan_emu_msg_type_cfg80211);
          frm = has_flag (fc_msg_type r) (msg_no wlan_emu_msg_type_frm80211);
          ops = (\<lambda>t. frm \<and> has_flag (fc_frm80211_ops r) (frm_no t))
      in encode_frames objs
        [(cfg \<and> has_flag (fc_cfg80211_ops r) (cfg_no wlan_emu_cfg80211_ops_type_start_ap), ''Beacon''),
         (ops wlan_emu_frm80211_ops_type_prb_resp, ''ProbeResponse''),
         (ops wlan_emu_frm80211_ops_type_prb_req, ''ProbeRequest''),
         (ops wlan_emu_frm80211_ops_type_assoc_resp, ''AssociationResponse''),
         (ops wlan_emu_frm80211_ops_type_assoc_req, ''AssociationRequest''),
         (ops wlan_emu_frm80211_ops_type_auth, ''Authentication''),
         (ops wlan_emu_frm80211_ops_type_deauth, ''Deauthentication''),
         (ops wlan_emu_frm80211_ops_type_disassoc, ''Disassociation''),
         (ops wlan_emu_frm80211_ops_type_eapol, ''Eapol''),
         (ops wlan_emu_frm80211_ops_type_reassoc_req, ''ReassociationRequest''),
         (ops wlan_emu_frm80211_ops_type_reassoc_resp, ''ReassociationResponse''),
         (ops wlan_emu_frm80211_ops_type_action, ''Action'')])"

section \<open>Decoding a list of types\<close>

fun decode_all :: "string list \<Rightarrow> frame_capture_request \<Rightarrow> frame_capture_request option" where
  "decode_all [] r = Some r"
| "decode_all (s # ss) r =
     (case decode_pcap_frame_type s r of (rc, r') \<Rightarrow> if rc = RETURN_OK then decode_all ss r' else None)"

text \<open>The frame types in the order of the encoder, each with the operation it stands for.\<close>

definition frm_names :: "(wlan_emu_frm80211_ops_type \<times> string) list" where
  "frm_names =
     [(wlan_emu_frm80211_ops_type_prb_resp, ''ProbeResponse''),
      (wlan_emu_frm80211_ops_type_prb_req, ''ProbeRequest''),
      (wlan_emu_frm80211_ops_type_assoc_resp, ''AssociationResponse''),
      (wlan_emu_frm80211_ops_type_assoc_req, ''AssociationRequest''),
      (wlan_emu_frm80211_ops_type_auth, ''Authentication''),
      (wlan_emu_frm80211_ops_type_deauth, ''Deauthentication''),
      (wlan_emu_frm80211_ops_type_disassoc, ''Disassociation''),
      (wlan_emu_frm80211_ops_type_eapol, ''Eapol''),
      (wlan_emu_frm80211_ops_type_reassoc_req, ''ReassociationRequest''),
      (wlan_emu_frm80211_ops_type_reassoc_resp, ''ReassociationResponse''),
      (wlan_emu_frm80211_ops_type_action, ''Action'')]"

lemma frm_names_distinct: "distinct (map snd frm_names)" "''Beacon'' \<notin> snd ` set frm_names"
  by (simp_all add: frm_names_def)

lemma frm_no_inj: "frm_no a = frm_no b \<longleftrightarrow> a = b"
  by (metis frm_no_def nth_position frm80211_ops_complete)

lemma frm_no_less: "frm_no a < 32"
  using position_less [of a frm80211_ops_types]
  by (simp add: frm_no_def frm80211_ops_complete) (simp add: frm80211_ops_types_def)

lemma msg_nos: "msg_no wlan_emu_msg_type_cfg80211 = 2" "msg_no wlan_emu_msg_type_frm80211 = 4"
  by (simp_all add: msg_no_def msg_types_def)

lemma cfg_no_start_ap: "cfg_no wlan_emu_cfg80211_ops_type_start_ap = 4"
  by (simp add: cfg_no_def cfg80211_ops_types_def)

lemma decode_table:
  "decode_pcap_frame_type s r =
     (if s = ''Beacon'' then (RETURN_OK, select_beacon r)
      else case map_of (map (\<lambda>p. (snd p, fst p)) frm_names) s of
             Some t \<Rightarrow> (RETURN_OK, select_frm t r)
           | None \<Rightarrow> (RETURN_ERR, r))"
  unfolding decode_pcap_frame_type_def frm_names_def
  by (simp only: list.map fst_conv snd_conv map_of.simps fun_upd_apply option.case
      if_distrib [where f = "case_option (RETURN_ERR, r) (\<lambda>t. (RETURN_OK, select_frm t r))"])

lemma decode_cases:
  assumes "decode_pcap_frame_type s r = (RETURN_OK, r')"
  obtains "s = ''Beacon''" "r' = select_beacon r"
    | t where "(t, s) \<in> set frm_names" "r' = select_frm t r"
proof (cases "s = ''Beacon''")
  case True
  with assms show ?thesis by (intro that(1)) (simp_all add: decode_table)
next
  case False
  with assms obtain t where "map_of (map (\<lambda>p. (snd p, fst p)) frm_names) s = Some t" "r' = select_frm t r"
    by (auto simp: decode_table split: option.splits)
  moreover from this(1) have "(t, s) \<in> set frm_names" by (drule_tac map_of_SomeD) auto
  ultimately show ?thesis by (intro that(2))
qed

lemma frm_names_inj: "(t, s) \<in> set frm_names \<Longrightarrow> (u, s) \<in> set frm_names \<Longrightarrow> t = u"
  using frm_names_distinct(1) inj_onD [of snd "set frm_names" "(t, s)" "(u, s)"]
  by (simp add: distinct_map)

text \<open>The flags that are set after decoding a list.\<close>

lemma decode_all_flags:
  assumes "decode_all ss r = Some r'"
  shows "has_flag (fc_frm80211_ops r') (frm_no t)
      \<longleftrightarrow> has_flag (fc_frm80211_ops r) (frm_no t) \<or> (\<exists>s \<in> set ss. (t, s) \<in> set frm_names)"
    and "has_flag (fc_cfg80211_ops r') 4 \<longleftrightarrow> has_flag (fc_cfg80211_ops r) 4 \<or> ''Beacon'' \<in> set ss"
    and "has_flag (fc_msg_type r') 2 \<longleftrightarrow> has_flag (fc_msg_type r) 2 \<or> ''Beacon'' \<in> set ss"
    and "has_flag (fc_msg_type r') 4
      \<longleftrightarrow> has_flag (fc_msg_type r) 4 \<or> (\<exists>s \<in> set ss. s \<in> snd ` set frm_names)"
proof -
  have "(has_flag (fc_frm80211_ops r') (frm_no t)
      \<longleftrightarrow> has_flag (fc_frm80211_ops r) (frm_no t) \<or> (\<exists>s \<in> set ss. (t, s) \<in> set frm_names))
    \<and> (has_flag (fc_cfg80211_ops r') 4 \<longleftrightarrow> has_flag (fc_cfg80211_ops r) 4 \<or> ''Beacon'' \<in> set ss)
    \<and> (has_flag (fc_msg_type r') 2 \<longleftrightarrow> has_flag (fc_msg_type r) 2 \<or> ''Beacon'' \<in> set ss)
    \<and> (has_flag (fc_msg_type r') 4
      \<longleftrightarrow> has_flag (fc_msg_type r) 4 \<or> (\<exists>s \<in> set ss. s \<in> snd ` set frm_names))"
    using assms
  proof (induction ss arbitrary: r)
    case (Cons s ss)
    then obtain r1 where d: "decode_pcap_frame_type s r = (RETURN_OK, r1)" "decode_all ss r1 = Some r'"
      by (cases "decode_pcap_frame_type s r") (auto split: if_splits)
    note IH = Cons.IH [OF d(2)]
    from d(1) show ?case
    proof (cases rule: decode_cases)
      case 1
      moreover have "(t, ''Beacon'') \<notin> set frm_names" for t using frm_names_distinct(2) by force
      ultimately show ?thesis using IH frm_names_distinct(2)
        by (auto simp: select_beacon_def mask_simps msg_nos cfg_no_start_ap)
    next
      case (2 u)
      have "s \<noteq> ''Beacon''" "s \<in> snd ` set frm_names" using 2(1) frm_names_distinct(2) by force+
      moreover have "(t, s) \<in> set frm_names \<longleftrightarrow> t = u" for t
        using 2(1) by (auto dest: frm_names_inj)
      ultimately show ?thesis using IH 2(2)
        by (auto simp: select_frm_def mask_simps msg_nos frm_no_inj frm_no_less)
    qed
  qed simp
  then show "has_flag (fc_frm80211_ops r') (frm_no t)
      \<longleftrightarrow> has_flag (fc_frm80211_ops r) (frm_no t) \<or> (\<exists>s \<in> set ss. (t, s) \<in> set frm_names)"
    and "has_flag (fc_cfg80211_ops r') 4 \<longleftrightarrow> has_flag (fc_cfg80211_ops r) 4 \<or> ''Beacon'' \<in> set ss"
    and "has_flag (fc_msg_type r') 2 \<longleftrightarrow> has_flag (fc_msg_type r) 2 \<or> ''Beacon'' \<in> set ss"
    and "has_flag (fc_msg_type r') 4
      \<longleftrightarrow> has_flag (fc_msg_type r) 4 \<or> (\<exists>s \<in> set ss. s \<in> snd ` set frm_names)"
    by blast+
qed

lemma decode_all_known:
  "decode_all ss r = Some r' \<Longrightarrow> s \<in> set ss \<Longrightarrow> s = ''Beacon'' \<or> s \<in> snd ` set frm_names"
proof (induction ss arbitrary: r)
  case (Cons s' ss)
  then obtain r1 where d: "decode_pcap_frame_type s' r = (RETURN_OK, r1)" "decode_all ss r1 = Some r'"
    by (cases "decode_pcap_frame_type s' r") (auto split: if_splits)
  from d(1) have "s' = ''Beacon'' \<or> s' \<in> snd ` set frm_names"
    by (cases rule: decode_cases) force+
  with Cons.IH [OF d(2)] Cons.prems(2) show ?case by auto
qed simp

lemma frm_names_functional: "(t, s) \<in> set frm_names \<Longrightarrow> (t, s') \<in> set frm_names \<Longrightarrow> s = s'"
  by (cases t) (simp_all add: frm_names_def)

lemma encode_frames_ok:
  "length fs \<le> length objs \<Longrightarrow> list_all id objs \<Longrightarrow> encode_frames objs fs = (RETURN_OK, map snd (filter fst fs))"
proof (induction objs fs rule: encode_frames.induct)
  case (2 objs b name fs)
  then show ?case
    by (cases objs) (auto simp: Suc_le_length_iff)
qed simp

lemma encode_pcap_filter:
  assumes "12 \<le> length objs" "list_all id objs"
  shows "encode_pcap_frame_type objs r = (RETURN_OK,
      (if has_flag (fc_msg_type r) 2 \<and> has_flag (fc_cfg80211_ops r) 4 then [''Beacon''] else [])
      @ map snd (filter (\<lambda>p. has_flag (fc_msg_type r) 4 \<and> has_flag (fc_frm80211_ops r) (frm_no (fst p))) frm_names))"
proof -
  have eq: "encode_pcap_frame_type objs r = encode_frames objs
     ((has_flag (fc_msg_type r) 2 \<and> has_flag (fc_cfg80211_ops r) 4, ''Beacon'') #
      map (\<lambda>p. (has_flag (fc_msg_type r) 4 \<and> has_flag (fc_frm80211_ops r) (frm_no (fst p)), snd p)) frm_names)"
    by (simp add: encode_pcap_frame_type_def frm_names_def msg_nos cfg_no_start_ap Let_def)
  have "length frm_names = 11" by (simp add: frm_names_def)
  then have len: "length ((has_flag (fc_msg_type r) 2 \<and> has_flag (fc_cfg80211_ops r) 4, ''Beacon'') #
      map (\<lambda>p. (has_flag (fc_msg_type r) 4 \<and> has_flag (fc_frm80211_ops r) (frm_no (fst p)), snd p)) frm_names)
    \<le> length objs" using assms(1) by simp
  show ?thesis
    unfolding eq encode_frames_ok [OF len assms(2)] by (simp add: filter_map comp_def)
qed

section \<open>Properties\<close>

text \<open>
  C40. Printing undoes reading: when every name of a list was accepted, the request they build is
  printed as exactly these names, each of them once.
\<close>

theorem frame_types_round_trip:
  assumes "decode_all ss empty_request = Some r" "12 \<le> length objs" "list_all id objs"
  shows "fst (encode_pcap_frame_type objs r) = RETURN_OK
    \<and> set (snd (encode_pcap_frame_type objs r)) = set ss
    \<and> distinct (snd (encode_pcap_frame_type objs r))"
proof -
  note flags = decode_all_flags [OF assms(1)]
  note known = decode_all_known [OF assms(1)]
  let ?f = "filter (\<lambda>p. has_flag (fc_msg_type r) 4 \<and> has_flag (fc_frm80211_ops r) (frm_no (fst p))) frm_names"
  have "set (map snd ?f) = set ss - {''Beacon''}"
  proof (intro set_eqI iffI)
    fix s assume "s \<in> set (map snd ?f)"
    then obtain t where t: "(t, s) \<in> set frm_names" "has_flag (fc_frm80211_ops r) (frm_no t)" by auto
    then obtain s' where "s' \<in> set ss" "(t, s') \<in> set frm_names"
      using flags(1) by (auto simp: empty_request_def mask_simps)
    moreover have "s' = s" using t(1) \<open>(t, s') \<in> set frm_names\<close> by (rule frm_names_functional [symmetric])
    ultimately show "s \<in> set ss - {''Beacon''}" using t(1) frm_names_distinct(2) by force
  next
    fix s assume s: "s \<in> set ss - {''Beacon''}"
    then obtain t where t: "(t, s) \<in> set frm_names" using known by force
    then have "has_flag (fc_frm80211_ops r) (frm_no t)" "has_flag (fc_msg_type r) 4"
      using flags(1,4) s by force+
    with t show "s \<in> set (map snd ?f)" by force
  qed
  moreover have "has_flag (fc_msg_type r) 2 \<and> has_flag (fc_cfg80211_ops r) 4 \<longleftrightarrow> ''Beacon'' \<in> set ss"
    using flags(2,3) by (auto simp: empty_request_def mask_simps)
  moreover have "distinct (map snd ?f)" using frm_names_distinct(1) by (simp add: distinct_map_filter)
  moreover have "''Beacon'' \<notin> set (map snd ?f)" using frm_names_distinct(2) by auto
  ultimately show ?thesis by (auto simp: encode_pcap_filter [OF assms(2,3)])
qed

theorem frame_types_round_trip_witness:
  "\<exists>r. decode_all [''Eapol'', ''Beacon'', ''Eapol''] empty_request = Some r
    \<and> set (snd (encode_pcap_frame_type (replicate 12 True) r)) = {''Eapol'', ''Beacon''}"
proof -
  obtain r where r: "decode_all [''Eapol'', ''Beacon'', ''Eapol''] empty_request = Some r"
    by (simp add: decode_pcap_frame_type_def)
  have "set (snd (encode_pcap_frame_type (replicate 12 True) r)) = set [''Eapol'', ''Beacon'', ''Eapol'']"
    using frame_types_round_trip [OF r, of "replicate 12 True"] by (simp add: list_all_iff)
  then have "set (snd (encode_pcap_frame_type (replicate 12 True) r)) = {''Eapol'', ''Beacon''}" by auto
  with r show ?thesis by blast
qed

end
