(* ===== verification/Emu_Msg.thy ===== *)
theory Emu_Msg
  imports Msg_Codec Wifi_Utils
begin

text \<open>
  The message class, \<open>messages/wlan_emu_msg.cpp\<close>: the printed operation of a message and the name
  \<open>get_msgname_from_msgtype\<close> gives a captured frame, which for authentication and EAPOL frames is
  read out of the frame. The constants and field offsets of the hostap headers are a parameter.
\<close>

section \<open>Printed operations\<close>

definition cfg80211_ops_type_to_string :: "wlan_emu_msg_data \<Rightarrow> string" where
  "cfg80211_ops_type_to_string m =
     (case get_cfg80211_ops_type m of
        Some wlan_emu_cfg80211_ops_type_none \<Rightarrow> ''wlan_emu_cfg80211_ops_type_none''
      | Some wlan_emu_cfg80211_ops_type_add_intf \<Rightarrow> ''wlan_emu_cfg80211_ops_type_add_intf''
      | Some wlan_emu_cfg80211_ops_type_del_intf \<Rightarrow> ''wlan_emu_cfg80211_ops_type_del_intf''
      | Some wlan_emu_cfg80211_ops_type_change_intf \<Rightarrow> ''wlan_emu_cfg80211_ops_type_change_intf''
      | Some wlan_emu_cfg80211_ops_type_start_ap \<Rightarrow> ''wlan_emu_cfg80211_ops_type_start_ap''
      | Some wlan_emu_cfg80211_ops_type_change_beacon \<Rightarrow> ''wlan_emu_cfg80211_ops_type_change_beacon''
      | Some wlan_emu_cfg80211_ops_type_stop_ap \<Rightarrow> ''wlan_emu_cfg80211_ops_type_stop_ap''
      | _ \<Rightarrow> ''wlan_emu_cfg80211_ops_type_unknown'')"

definition mac80211_ops_type_to_string :: "wlan_emu_msg_data \<Rightarrow> string" where
  "mac80211_ops_type_to_string m =
     (case get_mac80211_ops_type m of
        Some wlan_emu_mac80211_ops_type_none \<Rightarrow> ''wlan_emu_mac80211_ops_type_none''
      | Some wlan_emu_mac80211_ops_type_tx \<Rightarrow> ''wlan_emu_mac80211_ops_type_tx''
      | Some wlan_emu_mac80211_ops_type_start \<Rightarrow> ''wlan_emu_mac80211_ops_type_start''
      | Some wlan_emu_mac80211_ops_type_stop \<Rightarrow> ''wlan_emu_mac80211_ops_type_stop''
      | Some wlan_emu_mac80211_ops_type_add_intf \<Rightarrow> ''wlan_emu_mac80211_ops_type_add_intf''
      | Some wlan_emu_mac80211_ops_type_change_intf \<Rightarrow> ''wlan_emu_mac80211_ops_type_change_intf''
      | Some wlan_emu_mac80211_ops_type_remove_intf \<Rightarrow> ''wlan_emu_mac80211_ops_type_remove_intf''
      | Some wlan_emu_mac80211_ops_type_config \<Rightarrow> ''wlan_emu_mac80211_ops_type_config''
      | Some wlan_emu_mac80211_ops_type_bss_info_changed \<Rightarrow> ''wlan_emu_mac80211_ops_type_bss_info_changed''
      | Some wlan_emu_mac80211_ops_type_start_ap \<Rightarrow> ''wlan_emu_mac80211_ops_type_start_ap''
      | Some wlan_emu_mac80211_ops_type_stop_ap \<Rightarrow> ''wlan_emu_mac80211_ops_type_stop_ap''
      | _ \<Rightarrow> ''wlan_emu_mac80211_ops_type_unknown'')"

definition emu80211_ops_type_to_string :: "wlan_emu_msg_data \<Rightarrow> string" where
  "emu80211_ops_type_to_string m =
     (case get_emu80211_ops_type m of
        Some wlan_emu_emu80211_ops_type_none \<Rightarrow> ''wlan_emu_emu80211_ops_type_none''
      | Some wlan_emu_emu80211_ops_type_tctrl \<Rightarrow> ''wlan_emu_emu80211_ops_type_tctrl''
      | Some wlan_emu_emu80211_ops_type_close \<Rightarrow> ''wlan_emu_emu80211_ops_type_close''
      | _ \<Rightarrow> ''wlan_emu_emu80211_ops_type_unknown'')"

definition get_ops_string_by_msg_type :: "wlan_emu_msg_data \<Rightarrow> string" where
  "get_ops_string_by_msg_type m =
     (case get_msg_type m of
        Some wlan_emu_msg_type_cfg80211 \<Rightarrow> cfg80211_ops_type_to_string m
      | Some wlan_emu_msg_type_mac80211 \<Rightarrow> mac80211_ops_type_to_string m
      | Some wlan_emu_msg_type_emu80211 \<Rightarrow> emu80211_ops_type_to_string m
      | Some wlan_emu_msg_type_webconfig \<Rightarrow> ''webconfig_update''
      | Some wlan_emu_msg_type_agent \<Rightarrow> ''external_agent''
      | _ \<Rightarrow> ''unknown'')"

section \<open>The name of a captured frame\<close>

text \<open>Constants and offsets of \<open>common/ieee802_11_defs.h\<close> and \<open>common/wpa_common.h\<close> (hostap).\<close>

record hostap =
  fc_tods :: u16
  fc_fromds :: u16
  key_info_key_type :: u16
  key_info_install :: u16
  key_info_ack :: u16
  key_info_mic :: u16
  key_info_secure :: u16
  auth_open :: u16
  auth_sae :: u16
  off_auth_alg :: nat
  off_auth_transaction :: nat
  off_auth_status_code :: nat
  off_bssid :: nat

text \<open>A 16-bit field of the frame, low byte first or high byte first; \<open>None\<close> is a read behind it.\<close>

definition le16_at :: "bytes \<Rightarrow> nat \<Rightarrow> u16 option" where
  "le16_at f k = (if k + 2 \<le> length f then Some (ucast (f ! k) + 256 * ucast (f ! (k + 1))) else None)"

definition be16_at :: "bytes \<Rightarrow> nat \<Rightarrow> u16 option" where
  "be16_at f k = (if k + 2 \<le> length f then Some (256 * ucast (f ! k) + ucast (f ! (k + 1))) else None)"

definition auth_name :: "hostap \<Rightarrow> u16 \<Rightarrow> u16 \<Rightarrow> u16 \<Rightarrow> string" where
  "auth_name c auth_alg auth_transaction status_code =
     (if auth_alg = auth_open c then
        (if auth_transaction = 1 \<and> status_code = 0 then ''auth-request''
         else if auth_transaction = 2 \<and> status_code = 0 then ''auth-response''
         else [])
      else if auth_alg = auth_sae c then
        (if auth_transaction = 1 then ''auth-commit''
         else if auth_transaction = 2 then ''auth-confirm''
         else [])
      else [])"

definition eapol_name :: "hostap \<Rightarrow> u16 \<Rightarrow> string" where
  "eapol_name c key_info =
     (let key = key_info_key_type c; install = key_info_install c; ack = key_info_ack c;
          mic = key_info_mic c; secure = key_info_secure c
      in if key_info AND key \<noteq> 0 then
           (if key_info AND (key OR install OR ack OR mic OR secure) = key OR install OR ack OR mic OR secure
            then ''eapol-msg3''
            else if key_info AND (key OR mic OR secure) = key OR mic OR secure then ''eapol-msg4''
            else if key_info AND (key OR mic) = key OR mic then ''eapol-msg2''
            else if key_info AND (ack OR key) = key OR ack then ''eapol-msg1''
            else [])
         else [])"

text \<open>The first read of the frame is its frame control; the header length is that of the frame.\<close>

definition frm_msgname :: "hostap \<Rightarrow> wlan_emu_frm80211_ops_type option \<Rightarrow> bytes \<Rightarrow> string option" where
  "frm_msgname c ops frame =
     do {
       frame_control \<leftarrow> le16_at frame 0;
       (case ops of
          Some wlan_emu_frm80211_ops_type_assoc_req \<Rightarrow> Some ''assoc-request''
        | Some wlan_emu_frm80211_ops_type_prb_req \<Rightarrow> Some ''probe-request''
        | Some wlan_emu_frm80211_ops_type_prb_resp \<Rightarrow> Some ''probe-response''
        | Some wlan_emu_frm80211_ops_type_assoc_resp \<Rightarrow> Some ''assoc-response''
        | Some wlan_emu_frm80211_ops_type_auth \<Rightarrow>
            do {
              auth_alg \<leftarrow> le16_at frame (off_auth_alg c);
              auth_transaction \<leftarrow> le16_at frame (off_auth_transaction c);
              status_code \<leftarrow> le16_at frame (off_auth_status_code c);
              Some (auth_name c auth_alg auth_transaction status_code)
            }
        | Some wlan_emu_frm80211_ops_type_deauth \<Rightarrow> Some ''deauthentication''
        | Some wlan_emu_frm80211_ops_type_disassoc \<Rightarrow> Some ''disassoc''
        | Some wlan_emu_frm80211_ops_type_eapol \<Rightarrow>
            do {
              key_info \<leftarrow> be16_at frame (ieee_frame_hdr_len (fc_tods c) (fc_fromds c) frame_control + 8 + 1 + 4);
              Some (eapol_name c key_info)
            }
        | Some wlan_emu_frm80211_ops_type_reassoc_req \<Rightarrow> Some ''reassoc-request''
        | Some wlan_emu_frm80211_ops_type_reassoc_resp \<Rightarrow> Some ''reassoc-response''
        | Some wlan_emu_frm80211_ops_type_action \<Rightarrow> Some ''action''
        | None \<Rightarrow> Some ''INVALID'')
     }"

text \<open>
  The result code with the name stored in \<open>msg_name\<close>. The frame is the one the message union holds;
  a union without a frame (its type was changed without one) is \<open>None\<close> as well.
\<close>

definition get_msgname_from_msgtype :: "hostap \<Rightarrow> wlan_emu_msg_data \<Rightarrow> (int \<times> string) option" where
  "get_msgname_from_msgtype c m =
     do {
       msg_name \<leftarrow>
         (if get_msg_type m = Some wlan_emu_msg_type_frm80211
          then (case md_u m of
                  U_frm80211 ops fr \<Rightarrow> frm_msgname c (get_frm80211_ops_type m) (frm_frame fr)
                | _ \<Rightarrow> None)
          else if get_msg_type m = Some wlan_emu_msg_type_cfg80211
          then (if get_cfg80211_ops_type m = Some wlan_emu_cfg80211_ops_type_start_ap
                then Some ''beacon'' else Some ''INVALID'')
          else Some ''INVALID'');
       Some (if msg_name = [] then RETURN_ERR else RETURN_OK, msg_name)
     }"

section \<open>The four-way handshake\<close>

text \<open>The documented values of the flags are five different bits.\<close>

definition key_flags_ok :: "hostap \<Rightarrow> bool" where
  "key_flags_ok c \<longleftrightarrow> distinct [key_info_key_type c, key_info_install c, key_info_ack c, key_info_mic c, key_info_secure c]
     \<and> (\<forall>f \<in> set [key_info_key_type c, key_info_install c, key_info_ack c, key_info_mic c, key_info_secure c].
          \<exists>n < 16. f = push_bit n 1)"

definition key_has :: "u16 \<Rightarrow> u16 \<Rightarrow> bool" where
  "key_has key_info f \<longleftrightarrow> key_info AND f = f"

lemma and_or_eq: "(k :: u16) AND (a OR b) = a OR b \<longleftrightarrow> k AND a = a \<and> k AND b = b"
  by (auto simp: bit_eq_iff bit_and_iff bit_or_iff)

lemma single_bit_and: "n < 16 \<Longrightarrow> (k :: u16) AND push_bit n 1 \<noteq> 0 \<longleftrightarrow> k AND push_bit n 1 = push_bit n 1"
proof -
  assume "n < 16"
  have "(k AND push_bit n 1 = 0) \<longleftrightarrow> \<not> bit k n" by (simp add: and_exp_eq_0_iff_not_bit push_bit_of_1)
  moreover have "k AND push_bit n 1 = push_bit n 1 \<longleftrightarrow> bit k n"
    using \<open>n < 16\<close>
    by (auto simp: bit_and_iff bit_exp_iff intro!: bit_word_eqI dest!: arg_cong [of _ _ "\<lambda>w. bit w n"])
  ultimately show ?thesis by simp
qed

lemma eapol_name_flags:
  assumes "key_flags_ok c"
  shows "eapol_name c k =
    (if key_has k (key_info_key_type c) then
       (if key_has k (key_info_mic c) then
          (if key_has k (key_info_secure c) then
             (if key_has k (key_info_install c) \<and> key_has k (key_info_ack c) then ''eapol-msg3'' else ''eapol-msg4'')
           else ''eapol-msg2'')
        else if key_has k (key_info_ack c) then ''eapol-msg1'' else [])
     else [])"
proof -
  obtain n where "n < 16" "key_info_key_type c = push_bit n 1"
    using assms by (auto simp: key_flags_ok_def)
  then have "k AND key_info_key_type c \<noteq> 0 \<longleftrightarrow> key_has k (key_info_key_type c)"
    using single_bit_and [of n k] by (simp add: key_has_def)
  moreover have "key_info_ack c OR key_info_key_type c = key_info_key_type c OR key_info_ack c"
    by (rule or.commute)
  ultimately show ?thesis by (simp add: eapol_name_def Let_def and_or_eq key_has_def)
qed

section \<open>Properties\<close>

text \<open>
  An EAPOL frame is named after its place in the four-way handshake: the key information read
  behind the 802.11, LLC and 802.1X headers has the pairwise flag in all four messages; without
  MIC it is message 1, with MIC and not secure message 2, and a secure one is message 3 exactly
  when the access point asks to install the key and wants an answer, else message 4. Any other
  EAPOL frame has no name and is refused with \<open>RETURN_ERR\<close>.
\<close>

theorem eapol_handshake_names:
  assumes "key_flags_ok c" "get_msg_type m = Some wlan_emu_msg_type_frm80211"
    and "get_frm80211_ops_type m = Some wlan_emu_frm80211_ops_type_eapol"
    and "md_u m = U_frm80211 ops fr" "le16_at (frm_frame fr) 0 = Some fc"
    and "be16_at (frm_frame fr) (ieee_frame_hdr_len (fc_tods c) (fc_fromds c) fc + 8 + 1 + 4) = Some k"
  shows "get_msgname_from_msgtype c m = Some
    (if key_has k (key_info_key_type c) \<and> key_has k (key_info_mic c) then
       (RETURN_OK,
        if \<not> key_has k (key_info_secure c) then ''eapol-msg2''
        else if key_has k (key_info_install c) \<and> key_has k (key_info_ack c) then ''eapol-msg3''
        else ''eapol-msg4'')
     else if key_has k (key_info_key_type c) \<and> key_has k (key_info_ack c) then (RETURN_OK, ''eapol-msg1'')
     else (RETURN_ERR, []))"
  using assms(2-)
  by (simp add: get_msgname_from_msgtype_def frm_msgname_def eapol_name_flags [OF assms(1)])

definition hostap_defaults :: hostap where
  "hostap_defaults = \<lparr>fc_tods = 0x100, fc_fromds = 0x200, key_info_key_type = 0x8, key_info_install = 0x40,
     key_info_ack = 0x80, key_info_mic = 0x100, key_info_secure = 0x200, auth_open = 0, auth_sae = 3,
     off_auth_alg = 24, off_auth_transaction = 26, off_auth_status_code = 28, off_bssid = 16\<rparr>"

lemma hostap_defaults_flags: "key_flags_ok hostap_defaults"
proof -
  have "(0x8 :: u16) = push_bit 3 1" "(0x40 :: u16) = push_bit 6 1" "(0x80 :: u16) = push_bit 7 1"
    "(0x100 :: u16) = push_bit 8 1" "(0x200 :: u16) = push_bit 9 1" by simp_all
  then have "\<exists>n < 16. (0x8 :: u16) = push_bit n 1" "\<exists>n < 16. (0x40 :: u16) = push_bit n 1"
    "\<exists>n < 16. (0x80 :: u16) = push_bit n 1" "\<exists>n < 16. (0x100 :: u16) = push_bit n 1"
    "\<exists>n < 16. (0x200 :: u16) = push_bit n 1" by (meson numeral_less_iff semiring_norm)+
  then show ?thesis by (simp add: key_flags_ok_def hostap_defaults_def)
qed

definition sample_eapol :: wlan_emu_msg_data where
  "sample_eapol = \<lparr>md_type = 4, md_u = U_frm80211 7 \<lparr>frm_frame = 0x08 # 0x02 # replicate 35 0 @ [0x01, 0x0a],
     frm_macaddr = [], frm_client_macaddr = []\<rparr>\<rparr>"

theorem eapol_handshake_names_witness:
  "get_msgname_from_msgtype hostap_defaults sample_eapol = Some (RETURN_OK, ''eapol-msg2'')"
  using eapol_handshake_names [OF hostap_defaults_flags, where m = sample_eapol and ops = 7 and fc = "0x208" and k = "0x10a"
      and fr = "\<lparr>frm_frame = 0x08 # 0x02 # replicate 35 0 @ [0x01, 0x0a], frm_macaddr = [], frm_client_macaddr = []\<rparr>"]
  by (simp add: sample_eapol_def hostap_defaults_def get_msg_type_def get_frm80211_ops_type_def enum_decode_def
      msg_types_def frm80211_ops_types_def le16_at_def be16_at_def ieee_frame_hdr_len_def WLAN_FC_GET_TYPE_def
      WLAN_FC_TYPE_DATA_def WLAN_FC_TYPE_MGMT_def WLAN_FC_TYPE_CTRL_def key_has_def nth_append)

end
