(* ===== verification/Test_Step.thy ===== *)
theory Test_Step
  imports Emu_Msg Emu_Queue Pcap_Frame_Types
begin

text \<open>
  What every test step shares: its record (\<open>test_step_params_t\<close>, \<open>inc/wlan_emu_test_params.h\<close>) with
  the parameters of its class, the part of the UI manager the steps use (\<open>ui/wlan_emu_ui_mgr.cpp\<close>:
  error code, file uploads, configuration files, bus), and the capture of a message into a file
  (\<open>wlan_emu_msg_t::dump\<close>). The answers of the operating system and of the libraries are the
  fields of an environment, one per call of a step; everything a step does to the outside is
  appended to the list \<open>w_fx\<close> of effects, in order.
\<close>

section \<open>Steps\<close>

datatype (plugins only: code size) webconfig_subdoc_type =
    webconfig_subdoc_type_unknown
  | webconfig_subdoc_type_private
  | webconfig_subdoc_type_null
  | webconfig_subdoc_type_home
  | webconfig_subdoc_type_xfinity
  | webconfig_subdoc_type_radio
  | webconfig_subdoc_type_mesh
  | webconfig_subdoc_type_mesh_backhaul
  | webconfig_subdoc_type_mesh_sta
  | webconfig_subdoc_type_lnf
  | webconfig_subdoc_type_dml
  | webconfig_subdoc_type_associated_clients
  | webconfig_subdoc_type_mac_filter
  | webconfig_subdoc_type_blaster
  | webconfig_subdoc_type_harvester
  | webconfig_subdoc_type_wifi_config
  | webconfig_subdoc_type_csi
  | webconfig_subdoc_type_stats_config
  | webconfig_subdoc_type_steering_config
  | webconfig_subdoc_type_steering_clients
  | webconfig_subdoc_type_vif_neighbors
  | webconfig_subdoc_type_mesh_backhaul_sta
  | webconfig_subdoc_type_levl
  | webconfig_subdoc_type_cac
  | webconfig_subdoc_type_radio_stats
  | webconfig_subdoc_type_neighbor_stats
  | webconfig_subdoc_type_assocdev_stats
  | webconfig_subdoc_type_radiodiag_stats
  | webconfig_subdoc_type_radio_temperature
  | webconfig_subdoc_type_wifiapiradio
  | webconfig_subdoc_type_wifiapivap
  | webconfig_subdoc_type_other nat

record log_redirect =
  lr_operation :: log_operation_type
  lr_redirect_filename :: string
  lr_stop_step_number :: int
  lr_redirect_fd :: int
  lr_result_file :: string

record mgmt_frame_capture =
  mf_radio_index :: u32
  mf_duration :: u32

record station_prototype_pcap =
  pp_fc_request :: frame_capture_request
  pp_file_location :: string

record station_prototype =
  sp_fc_request_summary :: frame_capture_request
  sp_fc_prototype_q :: "station_prototype_pcap option queue option"

text \<open>The station of a step; the configuration fills the members behind \<open>st_ap_vap_name\<close>.\<close>

record sta_test =
  st_connection_type :: wlan_emu_connection_type
  st_ap_vap_name :: string
  st_capture_sta_requests :: bool
  st_test_station_config :: string
  st_wait_connection :: bool
  st_is_station_prototype_enabled :: bool
  st_station_prototype :: station_prototype

datatype (plugins only: code size) sta_model_type =
    sta_model_type_iphone
  | sta_model_type_pixel
  | sta_model_type_android
  | sta_model_type_ios
  | sta_model_type_windows

text \<open>
  The kinds of statistics and the scan modes are constants of the hardware layer; \<open>None\<close> is the zero of a
  cleared structure.
\<close>

datatype (plugins only: code size) mon_stats_type =
    mon_stats_type_radio_channel_stats
  | mon_stats_type_neighbor_stats
  | mon_stats_type_associated_device_stats
  | mon_stats_type_radio_diagnostic_stats
  | mon_stats_type_radio_temperature

datatype (plugins only: code size) wifi_scan_mode =
    WIFI_RADIO_SCAN_MODE_ONCHAN
  | WIFI_RADIO_SCAN_MODE_OFFCHAN
  | WIFI_RADIO_SCAN_MODE_FULL
  | WIFI_RADIO_SCAN_MODE_SURVEY

record wifi_stats_get =
  sg_data_type :: "mon_stats_type option"
  sg_scan_mode :: "wifi_scan_mode option"
  sg_log_operation :: log_operation_type
  sg_timeout :: int
  sg_radio_index :: int
  sg_vap_index :: int
  sg_stop_log_step_number :: int
  sg_is_stat_response_type_set :: bool

record stat_set_config =
  sc_stats_duration :: int
  sc_input_file_json :: string

record wifi_stats_set =
  sw_data_type :: "mon_stats_type option"
  sw_stats_set_q :: "stat_set_config queue"
  sw_total_duration :: int
  sw_radio_index :: int
  sw_vap_index :: int

datatype (plugins only: code size) cmd_option = cmd_option_cpu | cmd_option_mem

record gw_performance =
  gp_result_file_name :: string
  gp_interval :: int
  gp_iteration :: int
  gp_cmd_option :: cmd_option
  gp_process_status :: "string queue"

record packet_generator =
  pg_vapname :: string
  pg_interval :: int
  pg_iteration :: int
  pg_pcap_queue :: "string queue"

text \<open>\<open>input_operation\<close> with the member of the union \<open>u\<close> it selects.\<close>

record iperf_server_start_conf =
  ips_interface_step_number :: u32
  ips_input_filename :: string
  ips_cmd_options :: string
  ips_connection_type :: wlan_emu_connection_type

datatype iperf_server =
    Iperf_server_invalid
  | Iperf_server_stop u32 wlan_emu_connection_type
  | Iperf_server_start iperf_server_start_conf

record iperf_client_start_conf =
  ipc_interface_step_number :: u32
  ipc_server_step_number :: u32
  ipc_input_filename :: string
  ipc_cmd_options :: string
  ipc_device_id :: string
  ipc_service_prefer :: string
  ipc_sta_type :: sta_model_type
  ipc_connection_type :: wlan_emu_connection_type

datatype iperf_client =
    Iperf_client_invalid
  | Iperf_client_stop u32
  | Iperf_client_start iperf_client_start_conf

record device_upgrade =
  du_build_name :: string
  du_is_logging_enabled :: bool
  du_logging_step_numbers :: "u32 queue option"
  du_is_fr_enabled :: bool

text \<open>
  The class of a step with the member of the union \<open>u\<close> that class uses; \<open>P_eth_lan_client\<close> has the
  duration of the ethernet client.
\<close>

datatype step_param =
    P_radio string
  | P_vap string
  | P_config_onewifi string
  | P_dml_reset string
  | P_timed_wait u32
  | P_command string string
  | P_dml_subdoc string
  | P_get_file string string bool
  | P_get_pattern_files string string bool
  | P_mgmt_frame_capture mgmt_frame_capture
  | P_log_redirect log_redirect
  | P_sta_management sta_test
  | P_stats_get wifi_stats_get
  | P_stats_set wifi_stats_set
  | P_gateway_performance gw_performance
  | P_packet_generator packet_generator
  | P_iperf_server iperf_server
  | P_iperf_client iperf_client
  | P_eth_lan_client int
  | P_upgrade_or_reboot device_upgrade

record test_step =
  ts_param :: step_param
  ts_test_case_name :: string
  ts_test_case_id :: string
  ts_step_number :: int
  ts_step_seq_num :: u32
  ts_is_step_initialized :: bool
  ts_capture_frames :: bool
  ts_frame_request :: frame_capture_request
  ts_subdoc_type :: webconfig_subdoc_type
  ts_test_state :: wlan_emu_tests_state
  ts_fork :: bool
  ts_execution_time :: int
  ts_timeout_count :: int

section \<open>The world of a step and its environment\<close>

datatype effect =
    Fx_write string string
  | Fx_command string
  | Fx_post string string
  | Fx_result_line string
  | Fx_remove string
  | Fx_bus_set string
  | Fx_pcap string bytes
  | Fx_thread_start int
  | Fx_thread_cancel int
  | Fx_close int
  | Fx_get string string

text \<open>The kinds of access points, by the macro of the hardware layer that is the prefix of their names.\<close>

datatype vap_prefix =
    VAP_PREFIX_PRIVATE | VAP_PREFIX_IOT | VAP_PREFIX_HOTSPOT | VAP_PREFIX_MESH_BACKHAUL | VAP_PREFIX_LNF

record world =
  w_error :: int
  w_test_results_dir :: string
  w_server_address :: string
  w_remote_results_loc :: string
  w_local_host :: bool
  w_enable_beacon_dump :: bool
  w_fx :: "effect list"

definition add_fx :: "effect \<Rightarrow> world \<Rightarrow> world" where
  "add_fx e w = w\<lparr>w_fx := w_fx w @ [e]\<rparr>"

text \<open>
  \<open>env_present\<close> is whether a file exists, \<open>env_file\<close> the contents it is read with (\<open>None\<close>: it cannot
  be opened or read), \<open>env_open_w\<close> whether it can be created, \<open>env_popen\<close> the output of a command
  (\<open>None\<close>: it cannot be started). \<open>env_radios\<close> are the radios of the web configuration with
  the BSSIDs of their access points, \<open>env_mac_str\<close> the hardware layer's printed MAC address,
  \<open>env_subdoc\<close> its numbering of the sub-documents.
\<close>

record environment =
  env_hostap :: hostap
  env_time :: "string option"
  env_malloc :: bool
  env_file :: "string \<Rightarrow> string option"
  env_present :: "string \<Rightarrow> bool"
  env_open_w :: "string \<Rightarrow> bool"
  env_popen :: "string \<Rightarrow> string option"
  env_curl_init :: bool
  env_curl_perform :: "string \<Rightarrow> string \<Rightarrow> bool"
  env_http_info :: bool
  env_remove_error :: bool
  env_is_regular :: "string \<Rightarrow> bool"
  env_directory :: "string \<Rightarrow> string list option"
  env_json :: "string \<Rightarrow> bool"
  env_find_subdoc :: "string \<Rightarrow> webconfig_subdoc_type"
  env_subdoc :: "u32 \<Rightarrow> webconfig_subdoc_type"
  env_bus_set :: "string \<Rightarrow> bool"
  env_bus_get :: "string option"
  env_webconfig_decode :: "string \<Rightarrow> bool"
  env_webconfig_encode :: "webconfig_subdoc_type \<Rightarrow> string option"
  env_open_fd :: "string \<Rightarrow> int"
  env_thread_create :: bool
  env_thread_detach :: bool
  env_radios :: "(u32 \<times> bytes list) list"
  env_mac_str :: "bytes \<Rightarrow> string"
  env_vap_names :: "vap_prefix \<Rightarrow> string list"
  env_vap :: "string \<Rightarrow> (u32 \<times> bytes) option"
  env_stamp_beacon :: "bytes \<Rightarrow> bytes"
  env_pcap_open :: bool
  env_pcap_dump_open :: "string \<Rightarrow> bool"

section \<open>The UI manager's services\<close>

definition https_post_file :: "environment \<Rightarrow> string \<Rightarrow> string \<Rightarrow> world \<Rightarrow> int \<times> world" where
  "https_post_file env post_url input_file w =
     (if w_local_host w then
        (case copy_file (env_file env input_file) (env_open_w env post_url) 0 of
           (rc, copied) \<Rightarrow>
             if rc \<noteq> RETURN_OK then (RETURN_ERR, w\<lparr>w_error := EFCOPY\<rparr>)
             else (RETURN_OK, case copied of None \<Rightarrow> w | Some c \<Rightarrow> add_fx (Fx_write post_url c) w))
      else
        (case get_last_substring_after_slash (Some input_file) 128 (w_error w) of
           (rc, file_name, err) \<Rightarrow>
             if rc \<noteq> RETURN_OK then (RETURN_ERR, w\<lparr>w_error := err\<rparr>)
             else if \<not> env_curl_init env then (RETURN_ERR, w)
             else if env_curl_perform env post_url input_file
             then (RETURN_OK, add_fx (Fx_post post_url input_file) w)
             else (RETURN_ERR, w\<lparr>w_error := ECURLPOST\<rparr>)))"

definition upload_file_to_server :: "environment \<Rightarrow> string \<Rightarrow> string \<Rightarrow> world \<Rightarrow> int \<times> world" where
  "upload_file_to_server env upload_file path w =
     (if upload_file = [] then (RETURN_ERR, w\<lparr>w_error := EFPRESENCE\<rparr>)
      else if path = [] then (RETURN_ERR, w\<lparr>w_error := EPUSHTSTRESFILE\<rparr>)
      else if \<not> env_http_info env then (RETURN_ERR, w\<lparr>w_error := EPUSHTSTRESFILE\<rparr>)
      else https_post_file env (snprintf_store 256 (w_server_address w @ path)) upload_file w)"

text \<open>A failing \<open>remove\<close> is only logged.\<close>

definition step_upload_files :: "environment \<Rightarrow> string \<Rightarrow> world \<Rightarrow> int \<times> world" where
  "step_upload_files env output_file w =
     (if output_file = [] then (RETURN_OK, w)
      else case upload_file_to_server env output_file (w_remote_results_loc w) w of
             (rc, w) \<Rightarrow>
               if rc \<noteq> RETURN_OK then (RETURN_ERR, w)
               else case get_last_substring_after_slash (Some output_file) 128 (w_error w) of
                      (rc, name, err) \<Rightarrow>
                        if rc \<noteq> RETURN_OK then (RETURN_ERR, w\<lparr>w_error := err\<rparr>)
                        else let w = (case name of None \<Rightarrow> w | Some n \<Rightarrow> add_fx (Fx_result_line n) w)
                             in (RETURN_OK, if w_local_host w then w else add_fx (Fx_remove output_file) w))"

text \<open>An empty file is refused like one that cannot be read.\<close>

definition read_config_file :: "environment \<Rightarrow> string \<Rightarrow> int \<times> string option" where
  "read_config_file env file_path =
     (case env_file env file_path of
        None \<Rightarrow> (RETURN_ERR, None)
      | Some content \<Rightarrow>
          if content = [] then (RETURN_ERR, None)
          else if \<not> env_malloc env then (RETURN_ERR, None)
          else (RETURN_OK, Some content))"

definition bus_send :: "environment \<Rightarrow> string \<Rightarrow> world \<Rightarrow> int \<times> world" where
  "bus_send env d w =
     (if env_bus_set env d then (RETURN_OK, add_fx (Fx_bus_set d) w) else (RETURN_ERR, w))"

fun get_radioindex_from_bssid :: "environment \<Rightarrow> bytes \<Rightarrow> (u32 \<times> bytes list) list \<Rightarrow> u32 option" where
  "get_radioindex_from_bssid env mac [] = None"
| "get_radioindex_from_bssid env mac ((radio_index, bssids) # radios) =
     (if list_ex (\<lambda>b. env_mac_str env mac = env_mac_str env b) bssids then Some radio_index
      else get_radioindex_from_bssid env mac radios)"

text \<open>A step of the queue by its number; a \<open>NULL\<close> element ends the search.\<close>

definition get_step_from_step_number :: "test_step queue \<Rightarrow> int \<Rightarrow> (nat \<times> test_step) option" where
  "get_step_from_step_number q n =
     (if queue_count q = 0 then None else queue_search (\<lambda>s. ts_step_number s = n) q)"

section \<open>Capturing a message\<close>

definition radio_tap_header :: bytes where
  "radio_tap_header = [0x00, 0x00, 0x3c, 0x00, 0x2f, 0x40, 0x10, 0xa0, 0x20, 0x08, 0x00, 0xa0, 0x20, 0x08,
     0x00, 0xa0, 0x20, 0x08, 0x00, 0xa0, 0x20, 0x08, 0x00, 0x00, 0x71, 0xa1, 0x64, 0x15, 0x00, 0x00, 0x00,
     0x00, 0x00, 0x0c, 0x3c, 0x14, 0x40, 0x01, 0xe4, 0x00, 0x00, 0x00, 0x00, 0x00, 0xc3, 0x00, 0xf6, 0x05,
     0x0c, 0x00, 0x00, 0x00, 0xe1, 0x00, 0xdb, 0x01, 0xd9, 0x02, 0xe0, 0x03]"

definition traffic_indication_map :: bytes where
  "traffic_indication_map = [0x05, 0x04, 0x00, 0x01, 0x00, 0x00]"

definition get_radio_index_from_vapname :: "environment \<Rightarrow> string \<Rightarrow> u32" where
  "get_radio_index_from_vapname env vap_name = (case env_vap env vap_name of None \<Rightarrow> 0 | Some (r, _) \<Rightarrow> r)"

text \<open>
  The radio in the name of the capture of a frame: 0 when the lookup fails. The station fields are
  read for every class but the frame capture; \<open>None\<close> is a class that keeps others there.
\<close>

definition dump_radio_index :: "environment \<Rightarrow> test_step \<Rightarrow> wlan_emu_frm80211_frm \<Rightarrow> u32 option" where
  "dump_radio_index env s fr =
     (case ts_param s of
        P_mgmt_frame_capture c \<Rightarrow> Some (mf_radio_index c)
      | P_sta_management t \<Rightarrow>
          let lookup = (\<lambda>mac old. case get_radioindex_from_bssid env mac (env_radios env) of
                                    Some r \<Rightarrow> r | None \<Rightarrow> old);
              real = (st_connection_type t = client_connection_type_real);
              named = get_radio_index_from_vapname env (st_ap_vap_name t);
              r1 = (if real then named else lookup (frm_macaddr fr) 0)
          in Some (if st_capture_sta_requests t
                   then (if real then named else lookup (frm_client_macaddr fr) r1)
                   else r1)
      | _ \<Rightarrow> None)"

definition capture_name :: "test_step \<Rightarrow> string \<Rightarrow> string \<Rightarrow> string \<Rightarrow> string \<Rightarrow> u32 \<Rightarrow> string" where
  "capture_name s timestamp mac client_mac msg_name radio_index =
     snprintf_store 248 (''/tmp/cci_res/'' @ ts_test_case_id s @ ''_'' @ show_int (ts_step_number s) @ ''_''
       @ timestamp @ ''_'' @ mac @ ''_'' @ client_mac @ ''_'' @ ts_test_case_name s @ ''-'' @ msg_name @ ''_''
       @ show_int (sint radio_index) @ ''.pcap'')"

text \<open>The file name and the bytes of a capture, or the result code of an early return; \<open>None\<close> is a bad read.\<close>

definition dump_content :: "environment \<Rightarrow> test_step \<Rightarrow> wlan_emu_msg_data \<Rightarrow> string \<Rightarrow> (int + string \<times> bytes) option" where
  "dump_content env s m timestamp =
     (case md_u m of
        U_frm80211 ops fr \<Rightarrow>
          if get_msg_type m \<noteq> Some wlan_emu_msg_type_frm80211 then None
          else do {
            radio_index \<leftarrow> dump_radio_index env s fr;
            (rc, msg_name) \<leftarrow> get_msgname_from_msgtype (env_hostap env) m;
            Some (if rc = RETURN_ERR then Inl RETURN_ERR
                  else Inr (capture_name s timestamp (mac_str_without_colon (frm_macaddr fr))
                         (mac_str_without_colon (frm_client_macaddr fr)) msg_name radio_index,
                       radio_tap_header @ frm_frame fr))
          }
      | U_cfg80211 ops (Cfg_start_ap a) \<Rightarrow>
          if get_msg_type m \<noteq> Some wlan_emu_msg_type_cfg80211 then None
          else do {
            (rc, msg_name) \<leftarrow> get_msgname_from_msgtype (env_hostap env) m;
            Some (if rc = RETURN_ERR then Inl RETURN_ERR
                  else Inr (capture_name s timestamp (mac_str_without_colon (sa_macaddr a)) ''NA'' msg_name
                         (case get_radioindex_from_bssid env (sa_macaddr a) (env_radios env) of
                            Some r \<Rightarrow> r | None \<Rightarrow> 0),
                       radio_tap_header @ env_stamp_beacon env (sa_beacon_head a) @ traffic_indication_map
                         @ sa_beacon_tail a))
          }
      | _ \<Rightarrow> None)"

definition dump :: "environment \<Rightarrow> wlan_emu_msg_data \<Rightarrow> test_step \<Rightarrow> world \<Rightarrow> (int \<times> test_step \<times> world) option" where
  "dump env m s w =
     (if \<not> env_malloc env then Some (- 1, s, w)
      else if \<not> env_pcap_open env then Some (RETURN_ERR, s, w)
      else case env_time env of
             None \<Rightarrow> Some (RETURN_ERR, s, w)
           | Some timestamp \<Rightarrow>
               (case dump_content env s m timestamp of
                  None \<Rightarrow> None
                | Some (Inl rc) \<Rightarrow> Some (rc, s, w)
                | Some (Inr (fname, content)) \<Rightarrow>
                    if \<not> env_pcap_dump_open env fname then Some (- 1, s, w)
                    else if 128 \<le> length fname then Some (RETURN_ERR, s, w)
                    else case step_upload_files env fname (add_fx (Fx_pcap fname content) w) of
                           (rc, w) \<Rightarrow>
                             if rc \<noteq> RETURN_OK
                             then Some (RETURN_ERR, s\<lparr>ts_test_state := wlan_emu_tests_state_cmd_abort\<rparr>, w)
                             else Some (RETURN_OK, s, w)))"

text \<open>The results of \<open>dump\<close> are dropped; only every second beacon is captured.\<close>

definition unload_cfg80211_start_ap :: "environment \<Rightarrow> wlan_emu_msg_data \<Rightarrow> test_step \<Rightarrow> world \<Rightarrow> (test_step \<times> world) option" where
  "unload_cfg80211_start_ap env m s w =
     (if get_cfg80211_ops_type m = Some wlan_emu_cfg80211_ops_type_start_ap
      then (if w_enable_beacon_dump w
            then map_option snd (dump env m s (w\<lparr>w_enable_beacon_dump := False\<rparr>))
            else Some (s, w\<lparr>w_enable_beacon_dump := True\<rparr>))
      else Some (s, w))"

definition unload_frm80211_msg :: "environment \<Rightarrow> wlan_emu_msg_data \<Rightarrow> test_step \<Rightarrow> world \<Rightarrow> (test_step \<times> world) option" where
  "unload_frm80211_msg env m s w = map_option snd (dump env m s w)"

end
