(* ===== verification/Step_Classes.thy ===== *)
theory Step_Classes
  imports Test_Step
begin

text \<open>
  The classes of test steps under \<open>src/tests\<close> (one \<open>wlan_emu_test_param_*.cpp\<close> each): constructor,
  \<open>step_execute\<close>, \<open>step_timeout\<close> and \<open>step_frame_filter\<close>. An operation gets the step and the world and
  returns the result code with both; an operation that can read through a pointer it must not returns
  an option, \<open>None\<close> being that read. The dispatch at the end is the virtual call; it works on the
  queue of steps because stopping a log changes the step that started it.
\<close>

section \<open>What the classes share\<close>

type_synonym step_result = "int \<times> test_step \<times> world"

abbreviation set_state :: "wlan_emu_tests_state \<Rightarrow> test_step \<Rightarrow> test_step" where
  "set_state st s \<equiv> s\<lparr>ts_test_state := st\<rparr>"

definition fail_step :: "int \<Rightarrow> test_step \<Rightarrow> world \<Rightarrow> step_result" where
  "fail_step err s w = (RETURN_ERR, set_state wlan_emu_tests_state_cmd_abort s, w\<lparr>w_error := err\<rparr>)"

definition abort_only :: "test_step \<Rightarrow> world \<Rightarrow> step_result" where
  "abort_only s w = (RETURN_ERR, set_state wlan_emu_tests_state_cmd_abort s, w)"

text \<open>The part of the constructors that is the same for every class.\<close>

definition new_step :: "int \<Rightarrow> test_step \<Rightarrow> test_step" where
  "new_step execution_time s =
     s\<lparr>ts_is_step_initialized := True, ts_execution_time := execution_time, ts_timeout_count := 0,
       ts_capture_frames := False\<rparr>"

text \<open>A constructor that allocates its parameters leaves early, uninitialized, without memory.\<close>

definition new_step_with :: "bool \<Rightarrow> step_param \<Rightarrow> test_step \<Rightarrow> test_step" where
  "new_step_with mem p s =
     (if mem then new_step 5 (s\<lparr>ts_param := p\<rparr>) else s\<lparr>ts_is_step_initialized := False\<rparr>)"

text \<open>The time-out of a step that waits for a message, and of one that is done when it was executed.\<close>

definition await_timeout :: "test_step \<Rightarrow> world \<Rightarrow> step_result" where
  "await_timeout s w =
     (if ts_test_state s \<noteq> wlan_emu_tests_state_cmd_results
      then let s = s\<lparr>ts_timeout_count := ts_timeout_count s + 1\<rparr>
           in if ts_timeout_count s < ts_execution_time s
              then (RETURN_OK, set_state wlan_emu_tests_state_cmd_continue s, w)
              else (RETURN_OK, set_state wlan_emu_tests_state_cmd_abort s, w\<lparr>w_error := ESTEPTIMEOUT\<rparr>)
      else (RETURN_OK, s, w))"

definition immediate_timeout :: "test_step \<Rightarrow> world \<Rightarrow> step_result" where
  "immediate_timeout s w =
     (if ts_test_state s \<noteq> wlan_emu_tests_state_cmd_results
      then (RETURN_OK, set_state wlan_emu_tests_state_cmd_abort s, w\<lparr>w_error := ESTEPTIMEOUT\<rparr>)
      else (RETURN_OK, s, w))"

text \<open>The filter of the classes that expect no message.\<close>

definition no_frames_filter :: "wlan_emu_msg_data \<Rightarrow> test_step \<Rightarrow> world \<Rightarrow> step_result" where
  "no_frames_filter m s w = (RETURN_UNHANDLED, s, w)"

text \<open>\<open>1 << n\<close> tested in the mask of a capture request; a shift by 32 or more is undefined.\<close>

definition mask_bit :: "u32 \<Rightarrow> u32 \<Rightarrow> bool option" where
  "mask_bit req n = (if n < 32 then Some (has_flag req (unat n)) else None)"

definition request_webconfig :: "webconfig_subdoc_type \<Rightarrow> test_step \<Rightarrow> test_step" where
  "request_webconfig subdoc s =
     s\<lparr>ts_frame_request := (ts_frame_request s)\<lparr>fc_msg_type :=
           fc_msg_type (ts_frame_request s) OR flag (msg_no wlan_emu_msg_type_webconfig)\<rparr>,
       ts_subdoc_type := subdoc\<rparr>"

definition webconfig_filter :: "environment \<Rightarrow> wlan_emu_msg_data \<Rightarrow> test_step \<Rightarrow> world \<Rightarrow> step_result" where
  "webconfig_filter env m s w =
     (if ts_subdoc_type s \<noteq> webconfig_subdoc_type_unknown \<and> ts_subdoc_type s = env_subdoc env (union_ops (md_u m))
      then (RETURN_HANDLED, set_state wlan_emu_tests_state_cmd_results s, w)
      else (RETURN_UNHANDLED, s, w))"

definition read_json :: "environment \<Rightarrow> string \<Rightarrow> string option" where
  "read_json env file_to_read =
     (case read_config_file env file_to_read of (rc, json_data) \<Rightarrow> if rc \<noteq> RETURN_OK then None else json_data)"

section \<open>Timed wait\<close>

definition timed_wait_new :: "bool \<Rightarrow> test_step \<Rightarrow> test_step" where
  "timed_wait_new mem s = new_step_with mem (P_timed_wait 0) s"

definition timed_wait_execute :: "u32 \<Rightarrow> test_step \<Rightarrow> world \<Rightarrow> step_result" where
  "timed_wait_execute seconds s w =
     (RETURN_OK, s\<lparr>ts_execution_time := sint seconds, ts_test_state := wlan_emu_tests_state_cmd_continue\<rparr>, w)"

definition timed_wait_timeout :: "test_step \<Rightarrow> world \<Rightarrow> step_result" where
  "timed_wait_timeout s w =
     (let s = s\<lparr>ts_timeout_count := ts_timeout_count s + 1\<rparr>
      in (RETURN_OK, if ts_execution_time s \<le> ts_timeout_count s
                     then set_state wlan_emu_tests_state_cmd_results s else s, w))"

section \<open>Command\<close>

definition command_new :: "bool \<Rightarrow> test_step \<Rightarrow> test_step" where
  "command_new mem s = new_step_with mem (P_command [] []) s"

text \<open>The name of a result file, printed into the 128 bytes that held the configured name.\<close>

definition result_file_name :: "world \<Rightarrow> test_step \<Rightarrow> string \<Rightarrow> string \<Rightarrow> string" where
  "result_file_name w s timestamp name =
     snprintf_store 128 (w_test_results_dir w @ ''/'' @ ts_test_case_id s @ ''_'' @ show_int (ts_step_number s)
       @ ''_'' @ timestamp @ ''_'' @ name)"

definition command_execute :: "environment \<Rightarrow> string \<Rightarrow> string \<Rightarrow> test_step \<Rightarrow> world \<Rightarrow> step_result" where
  "command_execute env cmd log_name s w =
     (let s = set_state wlan_emu_tests_state_cmd_continue s
      in case env_popen env cmd of
           None \<Rightarrow> fail_step EPOPEN s w
         | Some output \<Rightarrow>
             let w = add_fx (Fx_command cmd) w
             in if log_name = []
                then if \<not> env_malloc env then (RETURN_ERR, s, w)
                     else (RETURN_OK, set_state wlan_emu_tests_state_cmd_results s, w)
                else case env_time env of
                       None \<Rightarrow> (RETURN_ERR, s, w)
                     | Some timestamp \<Rightarrow>
                         let file = result_file_name w s timestamp log_name;
                             s = s\<lparr>ts_param := P_command cmd file\<rparr>
                         in if \<not> env_open_w env file then fail_step EFOPEN s w
                            else if \<not> env_malloc env then (RETURN_ERR, s, add_fx (Fx_write file []) w)
                            else case step_upload_files env file (add_fx (Fx_write file output) w) of
                                   (rc, w) \<Rightarrow>
                                     if rc \<noteq> RETURN_OK then abort_only s w
                                     else (RETURN_OK, set_state wlan_emu_tests_state_cmd_results s, w))"

definition command_timeout :: "test_step \<Rightarrow> world \<Rightarrow> step_result" where
  "command_timeout s w = immediate_timeout s w"

section \<open>Get file\<close>

definition get_file_new :: "bool \<Rightarrow> test_step \<Rightarrow> test_step" where
  "get_file_new mem s = new_step_with mem (P_get_file [] [] False) s"

definition get_file_execute :: "environment \<Rightarrow> string \<Rightarrow> string \<Rightarrow> bool \<Rightarrow> test_step \<Rightarrow> world \<Rightarrow> step_result" where
  "get_file_execute env src dst delete_source s w =
     (if \<not> env_present env src then fail_step EFPRESENCE s w
      else case copy_file (env_file env src) (env_open_w env dst) 0 of
             (rc, copied) \<Rightarrow>
               if rc \<noteq> RETURN_OK then fail_step EFCOPY s w
               else case step_upload_files env dst
                          (case copied of None \<Rightarrow> w | Some c \<Rightarrow> add_fx (Fx_write dst c) w) of
                      (rc, w) \<Rightarrow>
                        if rc \<noteq> RETURN_OK then fail_step EPUSHTSTRESFILE s w
                        else if delete_source \<and> env_remove_error env then fail_step EFDELETE s w
                        else (RETURN_OK, set_state wlan_emu_tests_state_cmd_results s,
                              if delete_source \<and> env_is_regular env src then add_fx (Fx_remove src) w else w))"

definition get_file_timeout :: "test_step \<Rightarrow> world \<Rightarrow> step_result" where
  "get_file_timeout s w = immediate_timeout s w"

section \<open>Get pattern files\<close>

definition get_pattern_files_new :: "bool \<Rightarrow> test_step \<Rightarrow> test_step" where
  "get_pattern_files_new mem s = new_step_with mem (P_get_pattern_files [] [] False) s"

text \<open>
  The loop over the directory. The path of a file is printed into a buffer of 256 bytes, which the two
  parts of 128 bytes do not bound when the file's name is longer than the pattern. An exception of the
  file system library while a file is removed ends the loop.
\<close>

fun pattern_files :: "environment \<Rightarrow> string \<Rightarrow> string \<Rightarrow> bool \<Rightarrow> string list \<Rightarrow> test_step \<Rightarrow> world \<Rightarrow> step_result" where
  "pattern_files env loc pattern delete [] s w =
     (RETURN_OK, set_state wlan_emu_tests_state_cmd_results s, w)"
| "pattern_files env loc pattern delete (name # names) s w =
     (let path = loc @ ''/'' @ name
      in if \<not> env_is_regular env path then pattern_files env loc pattern delete names s w
         else if take (length pattern) name \<noteq> pattern then pattern_files env loc pattern delete names s w
         else if \<not> env_malloc env then fail_step EMALLOC s w
         else let temp_file_info = snprintf_store 256 path
              in case step_upload_files env temp_file_info w of
                   (rc, w) \<Rightarrow>
                     if rc \<noteq> RETURN_OK then fail_step EPUSHTSTRESFILE s w
                     else if delete
                     then if env_remove_error env then fail_step ESYSOPS s w
                          else pattern_files env loc pattern delete names s (add_fx (Fx_remove temp_file_info) w)
                     else pattern_files env loc pattern delete names s w)"

definition get_pattern_files_execute :: "environment \<Rightarrow> string \<Rightarrow> string \<Rightarrow> bool \<Rightarrow> test_step \<Rightarrow> world \<Rightarrow> step_result" where
  "get_pattern_files_execute env loc pattern delete s w =
     (if \<not> env_present env loc then fail_step EFPRESENCE s w
      else if length pattern = 0 then fail_step ESTEP s w
      else case env_directory env loc of
             None \<Rightarrow> fail_step ESYSOPS s w
           | Some names \<Rightarrow> pattern_files env loc pattern delete names s w)"

definition get_pattern_files_timeout :: "test_step \<Rightarrow> world \<Rightarrow> step_result" where
  "get_pattern_files_timeout s w =
     (RETURN_OK, if ts_test_state s \<noteq> wlan_emu_tests_state_cmd_results
                 then set_state wlan_emu_tests_state_cmd_abort s else s, w)"

section \<open>Radio and access point configurations\<close>

definition CURRENT_CONFIGURATION :: string where
  "CURRENT_CONFIGURATION = ''PRESENT''"

definition radio_new :: "test_step \<Rightarrow> test_step" where
  "radio_new s = new_step 25 s"

definition radio_execute :: "environment \<Rightarrow> string \<Rightarrow> test_step \<Rightarrow> world \<Rightarrow> step_result" where
  "radio_execute env json_file s w =
     (if strncmp_eq json_file CURRENT_CONFIGURATION (length CURRENT_CONFIGURATION)
      then (RETURN_OK, set_state wlan_emu_tests_state_cmd_results s, w)
      else if 128 \<le> length json_file then fail_step ESNPRINTF s w
      else case read_json env json_file of
             Some json_data \<Rightarrow>
               (let s = request_webconfig (env_find_subdoc env json_data) s
                in case bus_send env json_data w of
                     (rc, w) \<Rightarrow>
                       if rc \<noteq> RETURN_OK then fail_step EBUS s w
                       else (RETURN_OK, set_state wlan_emu_tests_state_cmd_continue s, w))
           | None \<Rightarrow> fail_step EFREAD s w)"

definition radio_timeout :: "test_step \<Rightarrow> world \<Rightarrow> step_result" where
  "radio_timeout s w = await_timeout s w"

definition radio_filter :: "environment \<Rightarrow> wlan_emu_msg_data \<Rightarrow> test_step \<Rightarrow> world \<Rightarrow> step_result" where
  "radio_filter env m s w =
     (if get_msg_type m = Some wlan_emu_msg_type_webconfig then webconfig_filter env m s w
      else (RETURN_UNHANDLED, s, w))"

definition vap_new :: "test_step \<Rightarrow> test_step" where
  "vap_new s = new_step 25 s"

definition vap_execute :: "environment \<Rightarrow> string \<Rightarrow> test_step \<Rightarrow> world \<Rightarrow> step_result" where
  "vap_execute env json_file s w =
     (if strncmp_eq json_file CURRENT_CONFIGURATION (length CURRENT_CONFIGURATION)
      then (RETURN_OK, set_state wlan_emu_tests_state_cmd_results s, w)
      else if 128 \<le> length json_file then fail_step ESNPRINTF s w
      else case read_json env json_file of
             Some json_data \<Rightarrow>
               (let s = request_webconfig (env_find_subdoc env json_data) s;
                    s = (if ts_subdoc_type s = webconfig_subdoc_type_xfinity then s\<lparr>ts_execution_time := 40\<rparr> else s);
                    s = (if ts_subdoc_type s = webconfig_subdoc_type_cac then s\<lparr>ts_execution_time := 40\<rparr> else s)
                in case bus_send env json_data w of
                     (rc, w) \<Rightarrow>
                       if rc \<noteq> RETURN_OK then fail_step EBUS s w
                       else (RETURN_OK, set_state wlan_emu_tests_state_cmd_continue s, w))
           | None \<Rightarrow> fail_step EFREAD s w)"

definition vap_timeout :: "test_step \<Rightarrow> world \<Rightarrow> step_result" where
  "vap_timeout s w = await_timeout s w"

definition get_subdoc_string_from_type :: "webconfig_subdoc_type \<Rightarrow> vap_prefix option" where
  "get_subdoc_string_from_type t =
     (case t of
        webconfig_subdoc_type_private \<Rightarrow> Some VAP_PREFIX_PRIVATE
      | webconfig_subdoc_type_home \<Rightarrow> Some VAP_PREFIX_IOT
      | webconfig_subdoc_type_xfinity \<Rightarrow> Some VAP_PREFIX_HOTSPOT
      | webconfig_subdoc_type_cac \<Rightarrow> Some VAP_PREFIX_HOTSPOT
      | webconfig_subdoc_type_mesh_backhaul \<Rightarrow> Some VAP_PREFIX_MESH_BACKHAUL
      | webconfig_subdoc_type_lnf \<Rightarrow> Some VAP_PREFIX_LNF
      | _ \<Rightarrow> None)"

text \<open>
  The access points a beacon is compared with. The information of an access point that is not
  configured is a \<open>NULL\<close> pointer the code reads through.
\<close>

fun vap_beacon_loop :: "environment \<Rightarrow> wlan_emu_msg_data \<Rightarrow> bytes \<Rightarrow> string list \<Rightarrow> test_step \<Rightarrow> world \<Rightarrow> step_result option" where
  "vap_beacon_loop env m mac [] s w = Some (RETURN_UNHANDLED, s, w)"
| "vap_beacon_loop env m mac (name # names) s w =
     do {
       selected \<leftarrow> mask_bit (fc_cfg80211_ops (ts_frame_request s)) (union_ops (md_u m));
       if \<not> selected then Some (RETURN_UNHANDLED, s, w)
       else do {
         (radio, bssid) \<leftarrow> env_vap env name;
         if bssid = mac
         then do { (s, w) \<leftarrow> unload_cfg80211_start_ap env m s w; Some (RETURN_HANDLED, s, w) }
         else vap_beacon_loop env m mac names s w
       }
     }"

definition vap_filter :: "environment \<Rightarrow> wlan_emu_msg_data \<Rightarrow> test_step \<Rightarrow> world \<Rightarrow> step_result option" where
  "vap_filter env m s w =
     (if get_msg_type m = Some wlan_emu_msg_type_cfg80211 then
        do {
          selected \<leftarrow> mask_bit (fc_msg_type (ts_frame_request s)) (md_type m);
          if \<not> ts_capture_frames s \<or> \<not> selected then Some (RETURN_UNHANDLED, s, w)
          else case get_subdoc_string_from_type (ts_subdoc_type s) of
                 None \<Rightarrow> Some (RETURN_UNHANDLED, s, w)
               | Some subdoc_str \<Rightarrow>
                   (case md_u m of
                      U_cfg80211 ops (Cfg_start_ap a) \<Rightarrow>
                        vap_beacon_loop env m (sa_macaddr a) (env_vap_names env subdoc_str) s w
                    | _ \<Rightarrow> None)
        }
      else if get_msg_type m = Some wlan_emu_msg_type_webconfig then Some (webconfig_filter env m s w)
      else Some (RETURN_UNHANDLED, s, w))"

section \<open>OneWifi sub-documents\<close>

definition onewifi_subdoc_array :: "webconfig_subdoc_type list" where
  "onewifi_subdoc_array = [webconfig_subdoc_type_private, webconfig_subdoc_type_null,
     webconfig_subdoc_type_home, webconfig_subdoc_type_xfinity, webconfig_subdoc_type_radio,
     webconfig_subdoc_type_mesh, webconfig_subdoc_type_mesh_backhaul, webconfig_subdoc_type_mesh_sta,
     webconfig_subdoc_type_lnf, webconfig_subdoc_type_dml, webconfig_subdoc_type_associated_clients,
     webconfig_subdoc_type_mac_filter, webconfig_subdoc_type_blaster, webconfig_subdoc_type_harvester,
     webconfig_subdoc_type_wifi_config, webconfig_subdoc_type_csi, webconfig_subdoc_type_stats_config,
     webconfig_subdoc_type_steering_config, webconfig_subdoc_type_steering_clients,
     webconfig_subdoc_type_vif_neighbors, webconfig_subdoc_type_mesh_backhaul_sta,
     webconfig_subdoc_type_levl, webconfig_subdoc_type_cac]"

definition no_publish_subdoc_array :: "webconfig_subdoc_type list" where
  "no_publish_subdoc_array = [webconfig_subdoc_type_radio_stats, webconfig_subdoc_type_neighbor_stats,
     webconfig_subdoc_type_assocdev_stats, webconfig_subdoc_type_radiodiag_stats,
     webconfig_subdoc_type_radio_temperature, webconfig_subdoc_type_wifiapiradio,
     webconfig_subdoc_type_wifiapivap]"

text \<open>The constructor clears the capture request, which leaves the unknown sub-document, number 0.\<close>

definition config_onewifi_new :: "test_step \<Rightarrow> test_step" where
  "config_onewifi_new s =
     new_step 15 (s\<lparr>ts_frame_request := empty_request, ts_subdoc_type := webconfig_subdoc_type_unknown\<rparr>)"

definition config_onewifi_execute :: "environment \<Rightarrow> string \<Rightarrow> test_step \<Rightarrow> world \<Rightarrow> step_result" where
  "config_onewifi_execute env subdoc_file s w =
     (if 128 \<le> length subdoc_file then fail_step ESNPRINTF s w
      else case read_json env subdoc_file of
             Some json_data \<Rightarrow>
               if \<not> env_json env json_data then fail_step EJSONPARSE s w
               else let s = request_webconfig (env_find_subdoc env json_data) s
                    in if ts_subdoc_type s \<in> set no_publish_subdoc_array
                       then fail_step EUNSUPPORTEDSUBDOC s w
                       else (case bus_send env json_data w of
                               (rc, w) \<Rightarrow>
                                 if rc \<noteq> RETURN_OK then fail_step EBUS s w
                                 else (RETURN_OK, set_state wlan_emu_tests_state_cmd_continue s, w))
           | None \<Rightarrow> fail_step EFREAD s w)"

definition config_onewifi_timeout :: "test_step \<Rightarrow> world \<Rightarrow> step_result" where
  "config_onewifi_timeout s w = await_timeout s w"

definition config_onewifi_filter :: "environment \<Rightarrow> wlan_emu_msg_data \<Rightarrow> test_step \<Rightarrow> world \<Rightarrow> step_result" where
  "config_onewifi_filter env m s w =
     (if get_msg_type m = Some wlan_emu_msg_type_webconfig \<and> ts_subdoc_type s \<in> set onewifi_subdoc_array
      then webconfig_filter env m s w
      else (RETURN_UNHANDLED, s, w))"

section \<open>Resetting and dumping the data model\<close>

definition subdoc_array :: "webconfig_subdoc_type list" where
  "subdoc_array = [webconfig_subdoc_type_private, webconfig_subdoc_type_home, webconfig_subdoc_type_xfinity,
     webconfig_subdoc_type_mesh, webconfig_subdoc_type_mesh_backhaul, webconfig_subdoc_type_lnf,
     webconfig_subdoc_type_radio, webconfig_subdoc_type_cac]"

definition dml_reset_new :: "test_step \<Rightarrow> test_step" where
  "dml_reset_new s = new_step 5 s"

text \<open>The loop over the sub-documents; the count reaches the size of the array when it ends.\<close>

fun dml_reset_send :: "environment \<Rightarrow> webconfig_subdoc_type list \<Rightarrow> test_step \<Rightarrow> world \<Rightarrow> step_result" where
  "dml_reset_send env [] s w = (RETURN_OK, set_state wlan_emu_tests_state_cmd_results s, w)"
| "dml_reset_send env (subdoc # subdocs) s w =
     (case env_webconfig_encode env subdoc of
        None \<Rightarrow> fail_step EENCODE s w
      | Some json_data \<Rightarrow>
          (case bus_send env json_data w of
             (rc, w) \<Rightarrow> if rc \<noteq> RETURN_OK then fail_step EBUS s w else dml_reset_send env subdocs s w))"

definition dml_reset_execute :: "environment \<Rightarrow> string \<Rightarrow> test_step \<Rightarrow> world \<Rightarrow> step_result" where
  "dml_reset_execute env json_file s w =
     (if 128 \<le> length json_file then fail_step ESNPRINTF s w
      else case read_json env json_file of
             Some json_data \<Rightarrow>
               if \<not> env_webconfig_decode env json_data then fail_step EWEBDECODE s w
               else dml_reset_send env subdoc_array s w
           | None \<Rightarrow> fail_step EFREAD s w)"

definition dml_reset_timeout :: "test_step \<Rightarrow> world \<Rightarrow> step_result" where
  "dml_reset_timeout s w = immediate_timeout s w"

definition dml_subdoc_new :: "bool \<Rightarrow> test_step \<Rightarrow> test_step" where
  "dml_subdoc_new mem s = new_step_with mem (P_dml_subdoc []) s"

text \<open>\<open>env_bus_get\<close> is the value of the data model when it is a string; an empty one is refused.\<close>

definition dml_subdoc_execute :: "environment \<Rightarrow> string \<Rightarrow> test_step \<Rightarrow> world \<Rightarrow> step_result" where
  "dml_subdoc_execute env log_name s w =
     (let s = request_webconfig webconfig_subdoc_type_dml s
      in case env_bus_get env of
           None \<Rightarrow> fail_step EBUS s w
         | Some str \<Rightarrow>
             if str = [] then fail_step EBUS s w
             else if \<not> env_open_w env log_name then fail_step EFOPEN s w
             else case step_upload_files env log_name (add_fx (Fx_write log_name str) w) of
                    (rc, w) \<Rightarrow>
                      if rc \<noteq> RETURN_OK then fail_step EPUSHTSTRESFILE s w
                      else (RETURN_OK, set_state wlan_emu_tests_state_cmd_results s, w))"

definition dml_subdoc_timeout :: "test_step \<Rightarrow> world \<Rightarrow> step_result" where
  "dml_subdoc_timeout s w = immediate_timeout s w"

section \<open>Management frame capture\<close>

definition mgmt_frame_capture_new :: "bool \<Rightarrow> test_step \<Rightarrow> test_step" where
  "mgmt_frame_capture_new mem s = new_step_with mem (P_mgmt_frame_capture \<lparr>mf_radio_index = 0, mf_duration = 0\<rparr>) s"

definition mgmt_frame_capture_execute :: "mgmt_frame_capture \<Rightarrow> test_step \<Rightarrow> world \<Rightarrow> step_result" where
  "mgmt_frame_capture_execute c s w =
     (if \<not> ts_capture_frames s then fail_step EFRAMECAP s w
      else if 0 < mf_duration c
      then (RETURN_OK, s\<lparr>ts_execution_time := sint (mf_duration c), ts_test_state := wlan_emu_tests_state_cmd_continue\<rparr>, w)
      else (RETURN_OK, set_state wlan_emu_tests_state_cmd_results s, w))"

definition mgmt_frame_capture_timeout :: "test_step \<Rightarrow> world \<Rightarrow> step_result" where
  "mgmt_frame_capture_timeout s w =
     (if ts_test_state s \<noteq> wlan_emu_tests_state_cmd_results
      then let s = s\<lparr>ts_timeout_count := ts_timeout_count s + 1\<rparr>
           in (RETURN_OK, if ts_execution_time s = ts_timeout_count s
                          then set_state wlan_emu_tests_state_cmd_results s else s, w)
      else (RETURN_OK, s, w))"

definition on_radio :: "environment \<Rightarrow> mgmt_frame_capture \<Rightarrow> bytes \<Rightarrow> bool" where
  "on_radio env c mac \<longleftrightarrow> get_radioindex_from_bssid env mac (env_radios env) = Some (mf_radio_index c)"

text \<open>Whether a frame belongs to the captured radio; \<open>None\<close>: the operation is not captured at all.\<close>

definition frame_on_radio :: "environment \<Rightarrow> mgmt_frame_capture \<Rightarrow> u32 \<Rightarrow> wlan_emu_frm80211_frm \<Rightarrow> bool option" where
  "frame_on_radio env c ops fr =
     (case enum_decode frm80211_ops_types ops of
        Some t \<Rightarrow>
          if t = wlan_emu_frm80211_ops_type_prb_req then Some True
          else if t \<in> {wlan_emu_frm80211_ops_type_assoc_req, wlan_emu_frm80211_ops_type_reassoc_req,
                        wlan_emu_frm80211_ops_type_action}
          then Some (on_radio env c (frm_client_macaddr fr))
          else if t \<in> {wlan_emu_frm80211_ops_type_auth, wlan_emu_frm80211_ops_type_eapol,
                        wlan_emu_frm80211_ops_type_deauth, wlan_emu_frm80211_ops_type_disassoc}
          then Some (on_radio env c (frm_macaddr fr) \<or> on_radio env c (frm_client_macaddr fr))
          else if t \<in> {wlan_emu_frm80211_ops_type_prb_resp, wlan_emu_frm80211_ops_type_assoc_resp,
                        wlan_emu_frm80211_ops_type_reassoc_resp}
          then Some (on_radio env c (frm_macaddr fr))
          else None
      | None \<Rightarrow> None)"

text \<open>The radio of a beacon is read from the access point start whether or not it was decoded.\<close>

definition mgmt_frame_capture_filter ::
    "environment \<Rightarrow> mgmt_frame_capture \<Rightarrow> wlan_emu_msg_data \<Rightarrow> test_step \<Rightarrow> world \<Rightarrow> step_result option" where
  "mgmt_frame_capture_filter env c m s w =
     (if \<not> ts_capture_frames s then Some (RETURN_UNHANDLED, s, w)
      else do {
        selected \<leftarrow> mask_bit (fc_msg_type (ts_frame_request s)) (md_type m);
        if \<not> selected then Some (RETURN_UNHANDLED, s, w)
        else if get_msg_type m = Some wlan_emu_msg_type_cfg80211 then
          do {
            phy_index \<leftarrow> (case md_u m of
                U_cfg80211 ops (Cfg_start_ap a) \<Rightarrow> Some (sa_phy_index a)
              | U_cfg80211 ops (Cfg_start_ap_bad_ssid ifindex phy_index ssid_len) \<Rightarrow> Some phy_index
              | _ \<Rightarrow> None);
            if phy_index = mf_radio_index c
            then do { (s, w) \<leftarrow> unload_cfg80211_start_ap env m s w; Some (RETURN_HANDLED, s, w) }
            else Some (RETURN_UNHANDLED, s, w)
          }
        else if get_msg_type m = Some wlan_emu_msg_type_frm80211 then
          (case md_u m of
             U_frm80211 ops fr \<Rightarrow>
               do {
                 captured \<leftarrow> mask_bit (fc_frm80211_ops (ts_frame_request s)) ops;
                 if captured \<and> frame_on_radio env c ops fr = Some True
                 then do { (s, w) \<leftarrow> unload_frm80211_msg env m s w; Some (RETURN_HANDLED, s, w) }
                 else Some (RETURN_UNHANDLED, s, w)
               }
           | _ \<Rightarrow> None)
        else Some (RETURN_UNHANDLED, s, w)
      })"

section \<open>Log redirection\<close>

definition logredirect_new :: "bool \<Rightarrow> test_step \<Rightarrow> test_step" where
  "logredirect_new mem s =
     new_step_with mem (P_log_redirect \<lparr>lr_operation = log_operation_type_start, lr_redirect_filename = [],
       lr_stop_step_number = 0, lr_redirect_fd = 0, lr_result_file = []\<rparr>) s"

definition log_start :: "environment \<Rightarrow> log_redirect \<Rightarrow> test_step \<Rightarrow> world \<Rightarrow> step_result" where
  "log_start env l s w =
     (if ts_test_state s = wlan_emu_tests_state_cmd_start
      then let fd = env_open_fd env (lr_redirect_filename l);
               s = s\<lparr>ts_param := P_log_redirect (l\<lparr>lr_redirect_fd := fd\<rparr>)\<rparr>
           in if fd = - 1 then fail_step ESTEP s w
              else case env_time env of
                     None \<Rightarrow> (RETURN_ERR, s, w)
                   | Some timestamp \<Rightarrow>
                       let s = s\<lparr>ts_param := P_log_redirect (l\<lparr>lr_redirect_fd := fd,
                             lr_result_file := result_file_name w s timestamp (lr_result_file l)\<rparr>)\<rparr>
                       in if \<not> env_thread_create env then fail_step ETHREAD s w
                          else let w = add_fx (Fx_thread_start (ts_step_number s)) w
                               in if \<not> env_thread_detach env then (RETURN_ERR, s, w)
                                  else (RETURN_OK, set_state wlan_emu_tests_state_cmd_continue s, w)
      else (RETURN_ERR, s, w))"

text \<open>
  Stopping changes the step that started the log. The member of the union of that step is read without
  a look at its class; \<open>None\<close> is that read when the step is no log step.
\<close>

definition log_stop :: "environment \<Rightarrow> log_redirect \<Rightarrow> nat \<Rightarrow> test_step queue \<Rightarrow> world \<Rightarrow>
    (int \<times> test_step queue \<times> world) option" where
  "log_stop env l i q w =
     (case get_step_from_step_number q (lr_stop_step_number l) of
        None \<Rightarrow> (case fail_step ESTEPSTOPPED (q ! i) w of (rc, s, w) \<Rightarrow> Some (rc, q[i := s], w))
      | Some (j, log_step) \<Rightarrow>
          (case ts_param log_step of
             P_log_redirect k \<Rightarrow>
               let q = q[j := log_step\<lparr>ts_param := P_log_redirect (k\<lparr>lr_operation := log_operation_type_stop\<rparr>)\<rparr>];
                   w = add_fx (Fx_close (lr_redirect_fd k)) (add_fx (Fx_thread_cancel (ts_step_number log_step)) w)
               in (case step_upload_files env (lr_result_file k) w of
                     (rc, w) \<Rightarrow>
                       Some (if rc \<noteq> RETURN_OK
                             then (RETURN_ERR, q[i := set_state wlan_emu_tests_state_cmd_abort (q ! i)], w)
                             else (RETURN_OK, q[i := set_state wlan_emu_tests_state_cmd_results (q ! i)], w)))
           | _ \<Rightarrow> None))"

definition logredirect_timeout :: "test_step \<Rightarrow> world \<Rightarrow> step_result" where
  "logredirect_timeout s w =
     (if ts_test_state s = wlan_emu_tests_state_cmd_abort
      then (RETURN_OK, set_state wlan_emu_tests_state_cmd_abort s, w\<lparr>w_error := ESTEPTIMEOUT\<rparr>)
      else (RETURN_OK, set_state wlan_emu_tests_state_cmd_results s, w))"

section \<open>The virtual calls\<close>

text \<open>
  The operations of a class, on the step at an index of the queue. The classes that are not modelled
  (station management and the like) are an argument of the dispatch.
\<close>

type_synonym queue_result = "int \<times> test_step queue \<times> world"

record class_ops =
  co_execute :: "environment \<Rightarrow> nat \<Rightarrow> test_step queue \<Rightarrow> world \<Rightarrow> queue_result option"
  co_timeout :: "environment \<Rightarrow> nat \<Rightarrow> test_step queue \<Rightarrow> world \<Rightarrow> queue_result option"
  co_filter :: "environment \<Rightarrow> wlan_emu_msg_data \<Rightarrow> nat \<Rightarrow> test_step queue \<Rightarrow> world \<Rightarrow> queue_result option"

definition on_step :: "(test_step \<Rightarrow> world \<Rightarrow> step_result option) \<Rightarrow> nat \<Rightarrow> test_step queue \<Rightarrow> world \<Rightarrow> queue_result option" where
  "on_step f i q w = do { (rc, s, w) \<leftarrow> f (q ! i) w; Some (rc, q[i := s], w) }"

abbreviation pure_step :: "(test_step \<Rightarrow> world \<Rightarrow> step_result) \<Rightarrow> nat \<Rightarrow> test_step queue \<Rightarrow> world \<Rightarrow> queue_result option" where
  "pure_step f \<equiv> on_step (\<lambda>s w. Some (f s w))"

fun param_type :: "step_param \<Rightarrow> step_param_type" where
  "param_type (P_radio f) = step_param_type_radio"
| "param_type (P_vap f) = step_param_type_vap"
| "param_type (P_config_onewifi f) = step_param_type_config_onewifi"
| "param_type (P_dml_reset f) = step_param_type_dml_reset"
| "param_type (P_timed_wait n) = step_param_type_timed_wait"
| "param_type (P_command c f) = step_param_type_command"
| "param_type (P_dml_subdoc f) = step_param_type_dml_subdoc"
| "param_type (P_get_file a b d) = step_param_type_get_file"
| "param_type (P_get_pattern_files a b d) = step_param_type_get_pattern_files"
| "param_type (P_mgmt_frame_capture c) = step_param_type_mgmt_frame_capture"
| "param_type (P_log_redirect l) = step_param_type_log_redirection"
| "param_type (P_sta_management t) = step_param_type_station_management"
| "param_type (P_stats_get g) = step_param_type_stats_get"
| "param_type (P_stats_set g) = step_param_type_stats_set"
| "param_type (P_gateway_performance g) = step_param_type_gateway_performance"
| "param_type (P_packet_generator g) = step_param_type_packet_generator"
| "param_type (P_iperf_server g) = step_param_type_config_iperf_server"
| "param_type (P_iperf_client g) = step_param_type_config_iperf_client"
| "param_type (P_eth_lan_client d) = step_param_type_ethernet_lan_interface"
| "param_type (P_upgrade_or_reboot d) = step_param_type_upgrade_or_reboot"

text \<open>The classes whose operations are modelled here; those of the others are the argument \<open>others\<close>.\<close>

definition modelled_class :: "step_param_type \<Rightarrow> bool" where
  "modelled_class t \<longleftrightarrow> t \<in> {step_param_type_radio, step_param_type_vap, step_param_type_config_onewifi,
     step_param_type_dml_reset, step_param_type_timed_wait, step_param_type_command, step_param_type_dml_subdoc,
     step_param_type_get_file, step_param_type_get_pattern_files, step_param_type_mgmt_frame_capture,
     step_param_type_log_redirection}"

definition step_execute :: "class_ops \<Rightarrow> environment \<Rightarrow> nat \<Rightarrow> test_step queue \<Rightarrow> world \<Rightarrow> queue_result option" where
  "step_execute others env i q w =
     (case ts_param (q ! i) of
        P_radio f \<Rightarrow> pure_step (radio_execute env f) i q w
      | P_vap f \<Rightarrow> pure_step (vap_execute env f) i q w
      | P_config_onewifi f \<Rightarrow> pure_step (config_onewifi_execute env f) i q w
      | P_dml_reset f \<Rightarrow> pure_step (dml_reset_execute env f) i q w
      | P_timed_wait n \<Rightarrow> pure_step (timed_wait_execute n) i q w
      | P_command c f \<Rightarrow> pure_step (command_execute env c f) i q w
      | P_dml_subdoc f \<Rightarrow> pure_step (dml_subdoc_execute env f) i q w
      | P_get_file a b d \<Rightarrow> pure_step (get_file_execute env a b d) i q w
      | P_get_pattern_files a b d \<Rightarrow> pure_step (get_pattern_files_execute env a b d) i q w
      | P_mgmt_frame_capture c \<Rightarrow> pure_step (mgmt_frame_capture_execute c) i q w
      | P_log_redirect l \<Rightarrow>
          if lr_operation l = log_operation_type_start then pure_step (log_start env l) i q w
          else log_stop env l i q w
      | _ \<Rightarrow> co_execute others env i q w)"

definition step_timeout :: "class_ops \<Rightarrow> environment \<Rightarrow> nat \<Rightarrow> test_step queue \<Rightarrow> world \<Rightarrow> queue_result option" where
  "step_timeout others env i q w =
     (case ts_param (q ! i) of
        P_radio f \<Rightarrow> pure_step radio_timeout i q w
      | P_vap f \<Rightarrow> pure_step vap_timeout i q w
      | P_config_onewifi f \<Rightarrow> pure_step config_onewifi_timeout i q w
      | P_dml_reset f \<Rightarrow> pure_step dml_reset_timeout i q w
      | P_timed_wait n \<Rightarrow> pure_step timed_wait_timeout i q w
      | P_command c f \<Rightarrow> pure_step command_timeout i q w
      | P_dml_subdoc f \<Rightarrow> pure_step dml_subdoc_timeout i q w
      | P_get_file a b d \<Rightarrow> pure_step get_file_timeout i q w
      | P_get_pattern_files a b d \<Rightarrow> pure_step get_pattern_files_timeout i q w
      | P_mgmt_frame_capture c \<Rightarrow> pure_step mgmt_frame_capture_timeout i q w
      | P_log_redirect l \<Rightarrow> pure_step logredirect_timeout i q w
      | _ \<Rightarrow> co_timeout others env i q w)"

definition step_frame_filter :: "class_ops \<Rightarrow> environment \<Rightarrow> wlan_emu_msg_data \<Rightarrow> nat \<Rightarrow> test_step queue \<Rightarrow> world \<Rightarrow> queue_result option" where
  "step_frame_filter others env m i q w =
     (case ts_param (q ! i) of
        P_radio f \<Rightarrow> pure_step (radio_filter env m) i q w
      | P_vap f \<Rightarrow> on_step (vap_filter env m) i q w
      | P_config_onewifi f \<Rightarrow> pure_step (config_onewifi_filter env m) i q w
      | P_mgmt_frame_capture c \<Rightarrow> on_step (mgmt_frame_capture_filter env c m) i q w
      | _ \<Rightarrow>
          if modelled_class (param_type (ts_param (q ! i))) then pure_step (no_frames_filter m) i q w
          else co_filter others env m i q w)"

definition dispatch :: "class_ops \<Rightarrow> class_ops" where
  "dispatch others = \<lparr>co_execute = step_execute others, co_timeout = step_timeout others,
     co_filter = step_frame_filter others\<rparr>"

section \<open>The contract of a class\<close>

text \<open>
  What the scheduler relies on: an operation keeps the identity of every step, touches the state of its
  own step only, and leaves that state as it was or sets it to continue, results or abort.
\<close>

definition same_step :: "test_step \<Rightarrow> test_step \<Rightarrow> bool" where
  "same_step s s' \<longleftrightarrow> ts_step_number s' = ts_step_number s \<and> ts_step_seq_num s' = ts_step_seq_num s \<and>
     ts_fork s' = ts_fork s \<and> param_type (ts_param s') = param_type (ts_param s)"

definition next_state_ok :: "wlan_emu_tests_state \<Rightarrow> wlan_emu_tests_state \<Rightarrow> bool" where
  "next_state_ok st st' \<longleftrightarrow> st' = st \<or> st' \<in> {wlan_emu_tests_state_cmd_continue,
     wlan_emu_tests_state_cmd_results, wlan_emu_tests_state_cmd_abort}"

definition step_frame :: "nat \<Rightarrow> test_step queue \<Rightarrow> test_step queue \<Rightarrow> bool" where
  "step_frame i q q' \<longleftrightarrow> length q' = length q \<and>
     (\<forall>j < length q. same_step (q ! j) (q' ! j) \<and> (j \<noteq> i \<longrightarrow> ts_test_state (q' ! j) = ts_test_state (q ! j))) \<and>
     next_state_ok (ts_test_state (q ! i)) (ts_test_state (q' ! i))"

locale step_class =
  fixes ops :: class_ops
    and covers :: "step_param_type \<Rightarrow> bool"
  assumes execute_frame: "queue_ok q \<Longrightarrow> i < length q \<Longrightarrow> covers (param_type (ts_param (q ! i))) \<Longrightarrow>
      co_execute ops env i q w = Some (rc, q', w') \<Longrightarrow> step_frame i q q'"
    and timeout_frame: "i < length q \<Longrightarrow> covers (param_type (ts_param (q ! i))) \<Longrightarrow>
      co_timeout ops env i q w = Some (rc, q', w') \<Longrightarrow> step_frame i q q'"
    and filter_frame: "i < length q \<Longrightarrow> covers (param_type (ts_param (q ! i))) \<Longrightarrow>
      co_filter ops env m i q w = Some (rc, q', w') \<Longrightarrow> step_frame i q q'"
    and filter_code: "i < length q \<Longrightarrow> covers (param_type (ts_param (q ! i))) \<Longrightarrow>
      co_filter ops env m i q w = Some (rc, q', w') \<Longrightarrow> rc = RETURN_HANDLED \<or> rc = RETURN_UNHANDLED"

named_theorems step_laws "what an operation of a class keeps of its step"

definition keeps :: "test_step \<Rightarrow> step_result \<Rightarrow> bool" where
  "keeps s r \<longleftrightarrow> (case r of (rc, s', w') \<Rightarrow> same_step s s' \<and> next_state_ok (ts_test_state s) (ts_test_state s') \<and>
     (rc = RETURN_OK \<or> rc = RETURN_ERR))"

lemmas keep_defs = keeps_def same_step_def next_state_ok_def

lemma keeps_simps [step_laws]:
  "keeps s (rc, s, w) \<longleftrightarrow> rc = RETURN_OK \<or> rc = RETURN_ERR"
  "keeps s (fail_step err s' w) \<longleftrightarrow> same_step s s'"
  "keeps s (abort_only s' w) \<longleftrightarrow> same_step s s'"
  by (auto simp: keep_defs fail_step_def abort_only_def)

lemma same_step_refl [simp]: "same_step s s"
  by (simp add: same_step_def)

lemma next_state_ok_refl [simp]: "next_state_ok st st"
  by (simp add: next_state_ok_def)

lemma keeps_timeouts [step_laws]:
  "keeps s (await_timeout s w)" "keeps s (immediate_timeout s w)"
  "keeps s (timed_wait_timeout s w)" "keeps s (mgmt_frame_capture_timeout s w)"
  "keeps s (get_pattern_files_timeout s w)" "keeps s (logredirect_timeout s w)"
  by (auto simp: await_timeout_def immediate_timeout_def timed_wait_timeout_def logredirect_timeout_def
      mgmt_frame_capture_timeout_def get_pattern_files_timeout_def Let_def keep_defs)

lemma keeps_webconfig_filter [step_laws]: "keeps s (webconfig_filter env m s w)"
  by (auto simp: webconfig_filter_def keep_defs)

lemma same_step_request [step_laws]: "same_step s (request_webconfig t s)"
  by (simp add: request_webconfig_def same_step_def)

lemma keeps_tuple: "keeps s (rc, s', w) \<longleftrightarrow> same_step s s' \<and>
    next_state_ok (ts_test_state s) (ts_test_state s') \<and> (rc = RETURN_OK \<or> rc = RETURN_ERR)"
  by (simp add: keeps_def)

lemmas keep_rules = keeps_tuple same_step_def next_state_ok_def

lemma keeps_plain_executes [step_laws]:
  "keeps s (timed_wait_execute n s w)"
  "keeps s (mgmt_frame_capture_execute c s w)"
  by (auto simp: timed_wait_execute_def mgmt_frame_capture_execute_def step_laws keep_rules)

lemma keeps_dml_send [step_laws]: "keeps s (dml_reset_send env subdocs s w)"
  by (induction subdocs arbitrary: w)
    (auto simp: step_laws keep_rules split: option.splits prod.splits)

lemma keeps_dml_reset [step_laws]: "keeps s (dml_reset_execute env f s w)"
  by (auto simp: dml_reset_execute_def step_laws split: option.split)

lemma keeps_radio [step_laws]: "keeps s (radio_execute env f s w)"
  by (auto simp: radio_execute_def Let_def step_laws split: option.split prod.split)
    (auto simp: keep_rules request_webconfig_def)

lemma keeps_vap [step_laws]: "keeps s (vap_execute env f s w)"
  by (auto simp: vap_execute_def Let_def step_laws split: option.split prod.split)
    (auto simp: keep_rules request_webconfig_def)

lemma keeps_config_onewifi [step_laws]: "keeps s (config_onewifi_execute env f s w)"
  by (auto simp: config_onewifi_execute_def Let_def step_laws split: option.split prod.split)
    (auto simp: keep_rules request_webconfig_def)

lemma keeps_command [step_laws]:
  "param_type (ts_param s) = step_param_type_command \<Longrightarrow> keeps s (command_execute env c f s w)"
  by (auto simp: command_execute_def Let_def step_laws split: option.split prod.split)
    (auto simp: keep_rules)

lemma keeps_get_file [step_laws]: "keeps s (get_file_execute env a b d s w)"
  by (auto simp: get_file_execute_def Let_def step_laws split: option.split prod.split)
    (auto simp: keep_rules)

lemma keeps_pattern_files [step_laws]: "keeps s (pattern_files env a b d names s w)"
  by (induction names arbitrary: w)
    (auto simp: step_laws Let_def keep_rules split: prod.split)

lemma keeps_get_pattern_files [step_laws]: "keeps s (get_pattern_files_execute env a b d s w)"
  by (auto simp: get_pattern_files_execute_def step_laws split: option.split)

lemma keeps_dml_subdoc [step_laws]: "keeps s (dml_subdoc_execute env f s w)"
  by (auto simp: dml_subdoc_execute_def Let_def step_laws split: option.split prod.split)
    (auto simp: keep_rules request_webconfig_def)

lemma keeps_log_start [step_laws]:
  "param_type (ts_param s) = step_param_type_log_redirection \<Longrightarrow> keeps s (log_start env l s w)"
  by (auto simp: log_start_def Let_def step_laws split: option.split prod.split)
    (auto simp: keep_rules)

lemma dump_content_code: "dump_content env s m timestamp = Some (Inl rc) \<Longrightarrow> rc = RETURN_ERR"
  by (auto simp: dump_content_def split: msg_union.splits cfg80211_body.splits if_splits Option.bind_splits)

lemma keeps_dump: "dump env m s w = Some r \<Longrightarrow> keeps s r"
  by (auto simp: dump_def keep_defs split: if_splits option.splits sum.splits prod.splits
      dest: dump_content_code)

lemma keeps_unload:
  "unload_cfg80211_start_ap env m s w = Some (s', w') \<Longrightarrow> rc = RETURN_OK \<or> rc = RETURN_ERR \<Longrightarrow> keeps s (rc, s', w')"
  "unload_frm80211_msg env m s w = Some (s', w') \<Longrightarrow> rc = RETURN_OK \<or> rc = RETURN_ERR \<Longrightarrow> keeps s (rc, s', w')"
  by (auto simp: unload_cfg80211_start_ap_def unload_frm80211_msg_def keeps_def
      split: if_splits dest!: keeps_dump)

lemma keeps_vap_loop: "vap_beacon_loop env m mac names s w = Some r \<Longrightarrow> keeps s r"
  by (induction names)
    (auto simp: step_laws split: if_splits Option.bind_splits prod.splits intro: keeps_unload)

lemma keeps_vap_filter: "vap_filter env m s w = Some r \<Longrightarrow> keeps s r"
  by (auto simp: vap_filter_def step_laws split: if_splits Option.bind_splits option.splits msg_union.splits
      cfg80211_body.splits intro: keeps_vap_loop)

lemma keeps_mgmt_filter: "mgmt_frame_capture_filter env c m s w = Some r \<Longrightarrow> keeps s r"
  by (auto simp: mgmt_frame_capture_filter_def step_laws split: if_splits Option.bind_splits option.splits
      msg_union.splits cfg80211_body.splits intro: keeps_unload)


lemma step_frame_update:
  assumes "i < length q" and "keeps (q ! i) (rc, s', w')"
  shows "step_frame i q (q[i := s'])"
  using assms by (auto simp: step_frame_def keeps_tuple nth_list_update)

lemma on_step_frame:
  assumes i: "i < length q"
    and law: "\<And>r. f (q ! i) w = Some r \<Longrightarrow> keeps (q ! i) r"
    and res: "on_step f i q w = Some (rc, q', w')"
  shows "step_frame i q q' \<and> (rc = RETURN_OK \<or> rc = RETURN_ERR)"
proof -
  from res obtain s where "f (q ! i) w = Some (rc, s, w')" "q' = q[i := s]"
    by (auto simp: on_step_def split: Option.bind_splits)
  with law have k: "keeps (q ! i) (rc, s, w')" by simp
  with \<open>q' = q[i := s]\<close> step_frame_update [OF i k] show ?thesis by (simp add: keeps_tuple)
qed

lemma get_step_from_step_number_nth:
  "get_step_from_step_number q n = Some (j, s) \<Longrightarrow> queue_ok q \<Longrightarrow> j < length q \<and> q ! j = s"
  by (auto simp: get_step_from_step_number_def eq.index_search_Some split: if_splits)

lemma step_frame_trans: "step_frame i q q1 \<Longrightarrow> step_frame i q1 q2 \<Longrightarrow> step_frame i q q2"
  by (auto simp: step_frame_def same_step_def next_state_ok_def)

lemma log_stop_frame:
  assumes "queue_ok q" and "i < length q" and "log_stop env l i q w = Some (rc, q', w')"
  shows "step_frame i q q'"
proof (cases "get_step_from_step_number q (lr_stop_step_number l)")
  case None
  with assms(3) have "q' = q[i := set_state wlan_emu_tests_state_cmd_abort (q ! i)]"
    by (simp add: log_stop_def fail_step_def)
  then show ?thesis
    using assms(2) by (auto intro!: step_frame_update [where rc = 0 and w' = w] simp: keep_rules)
next
  case (Some p)
  obtain j log_step where p: "p = (j, log_step)" by (cases p)
  with Some assms(1) have j: "j < length q" "q ! j = log_step"
    by (auto dest: get_step_from_step_number_nth)
  let ?stop = "\<lambda>k. log_step\<lparr>ts_param := P_log_redirect (k\<lparr>lr_operation := log_operation_type_stop\<rparr>)\<rparr>"
  from Some p assms(3) obtain k st where k: "ts_param log_step = P_log_redirect k"
    and q': "q' = (q[j := ?stop k])[i := set_state st (q[j := ?stop k] ! i)]"
    and st: "st = wlan_emu_tests_state_cmd_abort \<or> st = wlan_emu_tests_state_cmd_results"
    by (auto simp: log_stop_def Let_def split: step_param.splits prod.splits if_splits)
  have "step_frame j q (q[j := ?stop k])"
    using j k by (auto intro!: step_frame_update [where rc = 0 and w' = w] simp: keep_rules)
  moreover have "ts_test_state (?stop k) = ts_test_state (q ! j)" using j by simp
  ultimately have "step_frame i q (q[j := ?stop k])"
    using j by (auto simp: step_frame_def next_state_ok_def nth_list_update)
  moreover have "step_frame i (q[j := ?stop k]) q'"
    unfolding q' using assms(2) st by (auto intro!: step_frame_update [where rc = 0 and w' = w] simp: keep_rules)
  ultimately show ?thesis by (rule step_frame_trans)
qed

lemma execute_frame_dispatch:
  assumes "queue_ok q" and i: "i < length q" and "modelled_class (param_type (ts_param (q ! i)))"
    and res: "step_execute others env i q w = Some (rc, q', w')"
  shows "step_frame i q q'"
proof -
  have pure: "step_frame i q q'" if "pure_step f i q w = Some (rc, q', w')" "keeps (q ! i) (f (q ! i) w)" for f
    using on_step_frame [OF i _ that(1)] that(2) by simp
  show ?thesis
    using res assms by (cases "ts_param (q ! i)")
      (auto simp: step_execute_def modelled_class_def step_laws split: if_splits intro: pure log_stop_frame)
qed

lemma timeout_frame_dispatch:
  assumes i: "i < length q" and "modelled_class (param_type (ts_param (q ! i)))"
    and res: "step_timeout others env i q w = Some (rc, q', w')"
  shows "step_frame i q q'"
proof -
  have pure: "step_frame i q q'" if "pure_step f i q w = Some (rc, q', w')" "keeps (q ! i) (f (q ! i) w)" for f
    using on_step_frame [OF i _ that(1)] that(2) by simp
  note timeouts = radio_timeout_def vap_timeout_def config_onewifi_timeout_def dml_reset_timeout_def
    command_timeout_def dml_subdoc_timeout_def get_file_timeout_def
  show ?thesis
    using res assms by (cases "ts_param (q ! i)")
      (auto simp: step_timeout_def modelled_class_def step_laws timeouts intro: pure)
qed

lemma filter_frame_dispatch:
  assumes i: "i < length q" and "modelled_class (param_type (ts_param (q ! i)))"
    and res: "step_frame_filter others env m i q w = Some (rc, q', w')"
  shows "step_frame i q q' \<and> (rc = RETURN_OK \<or> rc = RETURN_ERR)"
proof -
  have pure: "step_frame i q q' \<and> (rc = RETURN_OK \<or> rc = RETURN_ERR)"
    if "on_step f i q w = Some (rc, q', w')" "\<And>r. f (q ! i) w = Some r \<Longrightarrow> keeps (q ! i) r" for f
    using on_step_frame [OF i that(2) that(1)] by simp
  have none: "keeps (q ! i) (no_frames_filter m (q ! i) w)"
    by (simp add: no_frames_filter_def step_laws)
  have webconfig: "keeps (q ! i) (radio_filter env m (q ! i) w)" "keeps (q ! i) (config_onewifi_filter env m (q ! i) w)"
    by (auto simp: radio_filter_def config_onewifi_filter_def step_laws)
  show ?thesis
    using res assms none webconfig by (cases "ts_param (q ! i)")
      (auto simp: step_frame_filter_def modelled_class_def dest!: pure intro: keeps_vap_filter keeps_mgmt_filter)
qed

interpretation di: step_class "dispatch others" modelled_class for others
  by unfold_locales
    (auto simp: dispatch_def intro: execute_frame_dispatch timeout_frame_dispatch
      dest: filter_frame_dispatch)

end
