(* ===== verification/Step_Behaviour.thy ===== *)
theory Step_Behaviour
  imports Step_Classes
begin

text \<open>
  What the step classes of \<open>Step_Classes\<close> achieve over time: how long a step waits, what ends it, what
  it uploads, and the contract every class keeps towards the scheduler.
\<close>

section \<open>A concrete environment\<close>

text \<open>An environment in which every call succeeds, used where the theorems are applied to an input.\<close>

definition sample_environment :: environment where
  "sample_environment = \<lparr>env_hostap = hostap_defaults, env_time = Some ''20250101000000000001'',
     env_malloc = True, env_file = (\<lambda>_. Some ''{}''), env_present = (\<lambda>_. True), env_open_w = (\<lambda>_. True),
     env_popen = (\<lambda>_. Some ''done''), env_curl_init = True, env_curl_perform = (\<lambda>_ _. True),
     env_http_info = True, env_remove_error = False, env_is_regular = (\<lambda>_. True),
     env_directory = (\<lambda>_. Some []), env_json = (\<lambda>_. True),
     env_find_subdoc = (\<lambda>_. webconfig_subdoc_type_private),
     env_subdoc = (\<lambda>n. if n = 1 then webconfig_subdoc_type_private else webconfig_subdoc_type_unknown),
     env_bus_set = (\<lambda>_. True), env_bus_get = Some ''dml'', env_webconfig_decode = (\<lambda>_. True),
     env_webconfig_encode = (\<lambda>t. Some (if t = webconfig_subdoc_type_radio then ''radio'' else ''vap'')),
     env_open_fd = (\<lambda>_. 3), env_thread_create = True, env_thread_detach = True, env_radios = [],
     env_mac_str = mac_to_str, env_vap_names = (\<lambda>_. []), env_vap = (\<lambda>_. None),
     env_stamp_beacon = (\<lambda>b. b), env_pcap_open = True, env_pcap_dump_open = (\<lambda>_. True)\<rparr>"

definition sample_world :: world where
  "sample_world = \<lparr>w_error = ENONE, w_test_results_dir = ''/tmp/cci_res'', w_server_address = ''https://tda'',
     w_remote_results_loc = ''/results'', w_local_host = False, w_enable_beacon_dump = False, w_fx = []\<rparr>"

definition sample_step :: "step_param \<Rightarrow> test_step" where
  "sample_step p = \<lparr>ts_param = p, ts_test_case_name = ''case'', ts_test_case_id = ''1'', ts_step_number = 1,
     ts_step_seq_num = 0, ts_is_step_initialized = True, ts_capture_frames = True,
     ts_frame_request = empty_request, ts_subdoc_type = webconfig_subdoc_type_unknown,
     ts_test_state = wlan_emu_tests_state_cmd_start, ts_fork = False, ts_execution_time = 5,
     ts_timeout_count = 0\<rparr>"

lemmas sample_defs = sample_environment_def sample_world_def sample_step_def

section \<open>Uploading result files\<close>

text \<open>The lines a test writes into its list of result files.\<close>

fun result_line_of :: "effect \<Rightarrow> string list" where
  "result_line_of (Fx_result_line n) = [n]"
| "result_line_of _ = []"

definition result_lines :: "world \<Rightarrow> string list" where
  "result_lines w = concat (map result_line_of (w_fx w))"

lemma result_lines_add [simp]: "result_lines (add_fx e w) = result_lines w @ result_line_of e"
  by (simp add: result_lines_def add_fx_def)

lemma result_lines_error [simp]: "result_lines (w\<lparr>w_error := e\<rparr>) = result_lines w"
  by (simp add: result_lines_def)

lemma local_host_add [simp]: "w_local_host (add_fx e w) = w_local_host w"
  by (simp add: add_fx_def)

lemma upload_lines: "upload_file_to_server env f p w = (rc, w') \<Longrightarrow> result_lines w' = result_lines w"
  by (auto simp: upload_file_to_server_def https_post_file_def split: if_splits prod.splits option.splits)

lemma last_substring_code:
  "get_last_substring_after_slash (Some f) 128 e = (rc, name, e') \<Longrightarrow> rc = RETURN_OK \<Longrightarrow>
     \<exists>n d. name = Some n \<and> f = d @ ''/'' @ n \<and> CHR ''/'' \<notin> set n \<and> length n < 128"
proof -
  assume "get_last_substring_after_slash (Some f) 128 e = (rc, name, e')" and "rc = RETURN_OK"
  then obtain n where "after_last CHR ''/'' f = Some n" "name = Some n" "length n < 128"
    by (auto simp: get_last_substring_after_slash_def split: if_splits option.splits)
  with after_last_SomeD [of "CHR ''/''" f n] show ?thesis by simp
qed

text \<open>
  C8. A step's upload adds exactly one line to the list of result files when it succeeds, the name of the
  file without its directory, and no line when it fails; a step without a file has nothing to upload.
\<close>

theorem upload_adds_one_line:
  assumes "step_upload_files env f w = (rc, w')" and "f \<noteq> []"
  shows "(rc = RETURN_OK \<longrightarrow> (\<exists>d n. f = d @ ''/'' @ n \<and> CHR ''/'' \<notin> set n \<and> result_lines w' = result_lines w @ [n])) \<and>
     (rc \<noteq> RETURN_OK \<longrightarrow> rc = RETURN_ERR \<and> result_lines w' = result_lines w)"
proof -
  obtain rc1 w1 where up: "upload_file_to_server env f (w_remote_results_loc w) w = (rc1, w1)" by fastforce
  obtain rc2 name err where sub: "get_last_substring_after_slash (Some f) 128 (w_error w1) = (rc2, name, err)"
    using prod_cases3 by blast
  show ?thesis
    using assms up sub upload_lines [OF up] last_substring_code [OF sub]
    by (auto simp: step_upload_files_def Let_def split: if_splits)
qed

section \<open>Steps that wait\<close>

text \<open>A step that gets \<open>n\<close> time-outs in a row.\<close>

fun timeouts :: "(test_step \<Rightarrow> world \<Rightarrow> step_result) \<Rightarrow> nat \<Rightarrow> test_step \<times> world \<Rightarrow> test_step \<times> world" where
  "timeouts f 0 sw = sw"
| "timeouts f (Suc n) sw = (case timeouts f n sw of (s, w) \<Rightarrow> snd (f s w))"

definition waiting :: "test_step \<Rightarrow> bool" where
  "waiting s \<longleftrightarrow> ts_test_state s = wlan_emu_tests_state_cmd_continue \<and> ts_timeout_count s = 0 \<and>
     0 < ts_execution_time s"

lemma await_progress:
  "waiting s \<Longrightarrow> int k < ts_execution_time s \<Longrightarrow>
     timeouts await_timeout k (s, w) = (s\<lparr>ts_timeout_count := int k\<rparr>, w)"
proof (induction k)
  case (Suc k)
  then have IH: "timeouts await_timeout k (s, w) = (s\<lparr>ts_timeout_count := int k\<rparr>, w)" by simp
  from Suc.prems show ?case
    by (simp only: timeouts.simps IH prod.case) (simp add: await_timeout_def Let_def waiting_def)
qed (simp add: waiting_def)

lemma await_end:
  assumes "waiting s"
  shows "snd (timeouts await_timeout (nat (ts_execution_time s)) (s, w)) = w\<lparr>w_error := ESTEPTIMEOUT\<rparr> \<and>
    ts_test_state (fst (timeouts await_timeout (nat (ts_execution_time s)) (s, w))) = wlan_emu_tests_state_cmd_abort"
proof -
  obtain k where k: "nat (ts_execution_time s) = Suc k" using assms by (cases "nat (ts_execution_time s)") (auto simp: waiting_def)
  then have "timeouts await_timeout k (s, w) = (s\<lparr>ts_timeout_count := int k\<rparr>, w)"
    by (intro await_progress [OF assms]) linarith
  moreover have "ts_execution_time s = int k + 1" using k by linarith
  ultimately show ?thesis
    using assms unfolding k timeouts.simps by (simp add: await_timeout_def [of _ w] Let_def waiting_def)
qed

text \<open>
  C7. A configuration step (radio, access point, OneWifi) whose sub-document is not published waits for
  exactly its execution time: before that many time-outs it is still waiting and no error is set, with
  the last of them it aborts and sets the step time-out error.
\<close>

theorem configuration_step_times_out:
  assumes "waiting s" and "f \<in> {radio_timeout, vap_timeout, config_onewifi_timeout}"
  shows "(\<forall>k. int k < ts_execution_time s \<longrightarrow>
        ts_test_state (fst (timeouts f k (s, w))) = wlan_emu_tests_state_cmd_continue \<and> snd (timeouts f k (s, w)) = w) \<and>
     ts_test_state (fst (timeouts f (nat (ts_execution_time s)) (s, w))) = wlan_emu_tests_state_cmd_abort \<and>
     snd (timeouts f (nat (ts_execution_time s)) (s, w)) = w\<lparr>w_error := ESTEPTIMEOUT\<rparr>"
proof -
  have f: "f = await_timeout"
    using assms(2) by (auto simp: radio_timeout_def vap_timeout_def config_onewifi_timeout_def fun_eq_iff)
  show ?thesis
    unfolding f using await_progress [OF assms(1)] await_end [OF assms(1)] assms(1) by (simp add: waiting_def)
qed

lemma timed_wait_progress:
  "waiting s \<Longrightarrow> int k < ts_execution_time s \<Longrightarrow>
     timeouts timed_wait_timeout k (s, w) = (s\<lparr>ts_timeout_count := int k\<rparr>, w)"
proof (induction k)
  case (Suc k)
  then have IH: "timeouts timed_wait_timeout k (s, w) = (s\<lparr>ts_timeout_count := int k\<rparr>, w)" by simp
  from Suc.prems show ?case
    by (simp only: timeouts.simps IH prod.case) (simp add: timed_wait_timeout_def Let_def)
qed (simp add: waiting_def)

lemma capture_progress:
  "waiting s \<Longrightarrow> int k < ts_execution_time s \<Longrightarrow>
     timeouts mgmt_frame_capture_timeout k (s, w) = (s\<lparr>ts_timeout_count := int k\<rparr>, w)"
proof (induction k)
  case (Suc k)
  then have IH: "timeouts mgmt_frame_capture_timeout k (s, w) = (s\<lparr>ts_timeout_count := int k\<rparr>, w)" by simp
  from Suc.prems show ?case
    by (simp only: timeouts.simps IH prod.case) (simp add: mgmt_frame_capture_timeout_def Let_def waiting_def)
qed (simp add: waiting_def)

lemma timed_end:
  assumes "waiting s" and "f \<in> {timed_wait_timeout, mgmt_frame_capture_timeout}"
  shows "(\<forall>k. int k < ts_execution_time s \<longrightarrow> timeouts f k (s, w) = (s\<lparr>ts_timeout_count := int k\<rparr>, w)) \<and>
    timeouts f (nat (ts_execution_time s)) (s, w) =
      (set_state wlan_emu_tests_state_cmd_results (s\<lparr>ts_timeout_count := ts_execution_time s\<rparr>), w)"
proof -
  obtain k where k: "nat (ts_execution_time s) = Suc k" using assms by (cases "nat (ts_execution_time s)") (auto simp: waiting_def)
  then have e: "ts_execution_time s = int k + 1" by linarith
  show ?thesis
    using assms(2)
  proof (elim insertE)
    assume f: "f = timed_wait_timeout"
    have "timeouts f k (s, w) = (s\<lparr>ts_timeout_count := int k\<rparr>, w)"
      unfolding f by (rule timed_wait_progress [OF assms(1)]) (simp add: e)
    moreover have "\<forall>k. int k < ts_execution_time s \<longrightarrow> timeouts f k (s, w) = (s\<lparr>ts_timeout_count := int k\<rparr>, w)"
      unfolding f using timed_wait_progress [OF assms(1)] by blast
    ultimately show ?thesis unfolding k timeouts.simps
      by (simp add: f e timed_wait_timeout_def [of _ w] Let_def)
  next
    assume f: "f = mgmt_frame_capture_timeout"
    have "timeouts f k (s, w) = (s\<lparr>ts_timeout_count := int k\<rparr>, w)"
      unfolding f by (rule capture_progress [OF assms(1)]) (simp add: e)
    moreover have "\<forall>k. int k < ts_execution_time s \<longrightarrow> timeouts f k (s, w) = (s\<lparr>ts_timeout_count := int k\<rparr>, w)"
      unfolding f using capture_progress [OF assms(1)] by blast
    ultimately show ?thesis using assms(1) unfolding k timeouts.simps
      by (simp add: f e mgmt_frame_capture_timeout_def [of _ w] Let_def waiting_def)
  qed simp
qed

text \<open>
  A timed wait of \<open>n\<close> seconds and a frame capture of duration \<open>n\<close>, executed with a fresh time-out
  count, end with results at exactly the \<open>n\<close>-th time-out and wait until then, for every \<open>n\<close> that is
  positive as a signed number.
\<close>

theorem timed_steps_end_on_time:
  assumes "ts_timeout_count s = 0" and "0 < sint n"
    and "execute = timed_wait_execute n \<and> f = timed_wait_timeout \<or>
      execute = mgmt_frame_capture_execute \<lparr>mf_radio_index = r, mf_duration = n\<rparr> \<and>
      f = mgmt_frame_capture_timeout \<and> ts_capture_frames s"
    and "execute s w = (rc, s', w')"
  shows "rc = RETURN_OK \<and> w' = w \<and>
     (\<forall>k. int k < sint n \<longrightarrow> ts_test_state (fst (timeouts f k (s', w))) = wlan_emu_tests_state_cmd_continue) \<and>
     ts_test_state (fst (timeouts f (nat (sint n)) (s', w))) = wlan_emu_tests_state_cmd_results"
proof -
  have n: "0 < n" using assms(2) by (metis sint_0 word_gt_0 order_less_irrefl)
  have f: "f \<in> {timed_wait_timeout, mgmt_frame_capture_timeout}" using assms(3) by auto
  have s': "rc = RETURN_OK" "w' = w" "waiting s'" "ts_execution_time s' = sint n"
    using assms n by (auto simp: timed_wait_execute_def mgmt_frame_capture_execute_def waiting_def)
  show ?thesis using timed_end [OF s'(3) f, of w] s' by (simp add: waiting_def)
qed

theorem configuration_step_times_out_witness:
  "ts_test_state (fst (timeouts radio_timeout 5
     (set_state wlan_emu_tests_state_cmd_continue (sample_step (P_radio ''radio.json'')), sample_world)))
   = wlan_emu_tests_state_cmd_abort"
  using configuration_step_times_out [of "set_state wlan_emu_tests_state_cmd_continue (sample_step (P_radio ''radio.json''))"
      radio_timeout sample_world]
  by (simp add: waiting_def sample_step_def)

theorem timed_steps_end_on_time_witness:
  "ts_test_state (fst (timeouts timed_wait_timeout 3
     (fst (snd (timed_wait_execute 3 (sample_step (P_timed_wait 3)) sample_world)), sample_world)))
   = wlan_emu_tests_state_cmd_results"
  using timed_steps_end_on_time [of "sample_step (P_timed_wait 3)" 3 "timed_wait_execute 3" timed_wait_timeout 0
      sample_world]
  by (simp add: sample_step_def timed_wait_execute_def)

lemma sample_world_lines: "result_lines sample_world = []"
  by (simp add: result_lines_def sample_world_def)

lemma sample_upload:
  "step_upload_files sample_environment ''/tmp/a.log'' sample_world =
    (RETURN_OK, sample_world\<lparr>w_fx := [Fx_post ''https://tda/results'' ''/tmp/a.log'', Fx_result_line ''a.log'',
      Fx_remove ''/tmp/a.log'']\<rparr>)"
  by (simp add: step_upload_files_def upload_file_to_server_def https_post_file_def sample_defs
      get_last_substring_after_slash_def snprintf_store_def add_fx_def)

theorem upload_adds_one_line_witness:
  "\<exists>d n. ''/tmp/a.log'' = d @ ''/'' @ n \<and> CHR ''/'' \<notin> set n \<and>
     result_lines (snd (step_upload_files sample_environment ''/tmp/a.log'' sample_world)) = [n]"
  using upload_adds_one_line [OF sample_upload] by (simp add: sample_upload sample_world_lines)

section \<open>Configuration steps and published sub-documents\<close>

lemma configuration_sent:
  assumes "execute \<in> {radio_execute env f, vap_execute env f}"
    and "execute s w = (RETURN_OK, s', w')" and "ts_test_state s' = wlan_emu_tests_state_cmd_continue"
  obtains json where "env_file env f = Some json" "w_fx w' = w_fx w @ [Fx_bus_set json]"
    "ts_subdoc_type s' = env_find_subdoc env json"
proof -
  have "\<exists>json. env_file env f = Some json \<and> w_fx w' = w_fx w @ [Fx_bus_set json] \<and>
    ts_subdoc_type s' = env_find_subdoc env json"
    using assms
    by (auto simp: radio_execute_def vap_execute_def fail_step_def Let_def request_webconfig_def bus_send_def
        add_fx_def read_json_def read_config_file_def split: if_splits option.splits prod.splits)
  then show thesis using that by blast
qed

text \<open>
  A radio or access point step that sent its configuration is done with exactly the publication of
  the sub-document it sent: the first such message turns the waiting step into one with results and is
  reported as handled, every other web configuration message leaves it as it is.
\<close>

theorem configuration_acknowledged:
  assumes "execute = radio_execute env f \<and> flt = (\<lambda>m s w. Some (radio_filter env m s w)) \<or>
      execute = vap_execute env f \<and> flt = vap_filter env"
    and "execute s w = (RETURN_OK, s', w')" and "ts_test_state s' = wlan_emu_tests_state_cmd_continue"
    and "get_msg_type m = Some wlan_emu_msg_type_webconfig"
  shows "\<exists>json. env_file env f = Some json \<and> w_fx w' = w_fx w @ [Fx_bus_set json] \<and>
     flt m s' w' = Some (if env_find_subdoc env json \<noteq> webconfig_subdoc_type_unknown \<and>
           env_subdoc env (union_ops (md_u m)) = env_find_subdoc env json
         then (RETURN_HANDLED, set_state wlan_emu_tests_state_cmd_results s', w')
         else (RETURN_UNHANDLED, s', w'))"
proof -
  have "execute \<in> {radio_execute env f, vap_execute env f}" using assms(1) by auto
  from configuration_sent [OF this assms(2,3)] obtain json where
    "env_file env f = Some json" "w_fx w' = w_fx w @ [Fx_bus_set json]"
    "ts_subdoc_type s' = env_find_subdoc env json" .
  moreover have "flt m s' w' = Some (webconfig_filter env m s' w')"
    using assms(1,4) by (auto simp: radio_filter_def vap_filter_def)
  ultimately show ?thesis by (auto simp: webconfig_filter_def)
qed

theorem configuration_acknowledged_witness:
  "\<exists>s' w'. radio_execute sample_environment ''radio.json'' (sample_step (P_radio ''radio.json'')) sample_world
     = (RETURN_OK, s', w') \<and>
     fst (radio_filter sample_environment \<lparr>md_type = 5, md_u = U_webconfig 1\<rparr> s' w') = RETURN_HANDLED"
proof -
  let ?m = "\<lparr>md_type = 5, md_u = U_webconfig 1\<rparr>"
  let ?s = "set_state wlan_emu_tests_state_cmd_continue
    (request_webconfig webconfig_subdoc_type_private (sample_step (P_radio ''radio.json'')))"
  let ?w = "add_fx (Fx_bus_set ''{}'') sample_world"
  have sent: "radio_execute sample_environment ''radio.json'' (sample_step (P_radio ''radio.json'')) sample_world
    = (RETURN_OK, ?s, ?w)"
    by (simp add: radio_execute_def CURRENT_CONFIGURATION_def read_json_def read_config_file_def bus_send_def
        sample_environment_def)
  have "get_msg_type ?m = Some wlan_emu_msg_type_webconfig"
    by (simp add: get_msg_type_def enum_decode_def msg_types_def)
  from configuration_acknowledged [OF disjI1 [OF conjI [OF refl refl]] sent _ this]
  have "radio_filter sample_environment ?m ?s ?w = (RETURN_HANDLED, set_state wlan_emu_tests_state_cmd_results ?s, ?w)"
    by (simp add: sample_environment_def)
  with sent show ?thesis by simp
qed

section \<open>Resetting the data model\<close>

lemma dml_reset_send_ok:
  "dml_reset_send env ts s w = (RETURN_OK, s', w') \<Longrightarrow>
     ts_test_state s' = wlan_emu_tests_state_cmd_results \<and>
     (\<exists>docs. map (env_webconfig_encode env) ts = map Some docs \<and> w_fx w' = w_fx w @ map Fx_bus_set docs)"
proof (induction ts arbitrary: w)
  case (Cons t ts)
  from Cons.prems obtain json where json: "env_webconfig_encode env t = Some json" "env_bus_set env json"
    and rest: "dml_reset_send env ts s (add_fx (Fx_bus_set json) w) = (RETURN_OK, s', w')"
    by (auto simp: fail_step_def bus_send_def split: option.splits prod.splits if_splits)
  from Cons.IH [OF rest] obtain docs where
    "map (env_webconfig_encode env) ts = map Some docs" "w_fx w' = w_fx w @ Fx_bus_set json # map Fx_bus_set docs"
    "ts_test_state s' = wlan_emu_tests_state_cmd_results"
    by (auto simp: add_fx_def)
  with json show ?case by (intro conjI exI [of _ "json # docs"]) auto
qed auto

text \<open>
  C31. A reset of the data model has results only when all eight sub-documents were encoded from the
  given configuration and put on the bus, each once and in the order of the array.
\<close>

theorem dml_reset_sends_all:
  assumes "dml_reset_execute env f s w = (rc, s', w')" and "rc = RETURN_OK"
  shows "ts_test_state s' = wlan_emu_tests_state_cmd_results \<and>
     (\<exists>docs. map (env_webconfig_encode env) [webconfig_subdoc_type_private, webconfig_subdoc_type_home,
          webconfig_subdoc_type_xfinity, webconfig_subdoc_type_mesh, webconfig_subdoc_type_mesh_backhaul,
          webconfig_subdoc_type_lnf, webconfig_subdoc_type_radio, webconfig_subdoc_type_cac] = map Some docs \<and>
        w_fx w' = w_fx w @ map Fx_bus_set docs)"
  using assms dml_reset_send_ok [of env subdoc_array s w s' w']
  by (auto simp: dml_reset_execute_def subdoc_array_def fail_step_def simp del: dml_reset_send.simps
      split: if_splits option.splits)

theorem dml_reset_sends_all_witness:
  "\<exists>s' w'. dml_reset_execute sample_environment ''reset.json'' (sample_step (P_dml_reset ''reset.json'')) sample_world
     = (RETURN_OK, s', w') \<and> ts_test_state s' = wlan_emu_tests_state_cmd_results"
proof -
  have "\<exists>s' w'. dml_reset_execute sample_environment ''reset.json'' (sample_step (P_dml_reset ''reset.json'')) sample_world
     = (RETURN_OK, s', w')"
    by (simp add: dml_reset_execute_def subdoc_array_def read_json_def read_config_file_def bus_send_def
        sample_environment_def)
  then show ?thesis using dml_reset_sends_all by blast
qed

section \<open>Captures with long names\<close>

text \<open>
  A capture whose file name has 128 characters or more is lost without a trace: the name fits the
  buffer it is printed into but not the one it is copied to, so nothing is written or uploaded, the
  step goes on, and the frame still counts as handled.
\<close>

theorem long_capture_lost:
  assumes "env_time env = Some timestamp" and "dump_content env s m timestamp = Some (Inr (fname, content))"
    and "128 \<le> length fname"
  shows "unload_frm80211_msg env m s w = Some (s, w)"
  using assms by (auto simp: unload_frm80211_msg_def dump_def)

section \<open>The contract of the classes\<close>

text \<open>
  The operations of a modelled class stay local: executing, timing out or filtering on the step at
  index \<open>i\<close> keeps the number of steps, what identifies each step and the state of every other step
  (also when a log of another step is stopped), and moves its own state to continue, results or abort
  if at all; a filter reports handled or unhandled.
\<close>

theorem step_operations_local:
  assumes "queue_ok q" and "i < length q" and "modelled_class (param_type (ts_param (q ! i)))"
  shows "(step_execute others env i q w = Some (rc, q', w') \<longrightarrow> step_frame i q q') \<and>
     (step_timeout others env i q w = Some (rc, q', w') \<longrightarrow> step_frame i q q') \<and>
     (step_frame_filter others env m i q w = Some (rc, q', w') \<longrightarrow>
        step_frame i q q' \<and> rc \<in> {RETURN_HANDLED, RETURN_UNHANDLED})"
  using di.execute_frame [OF assms, of others env w rc q' w'] di.timeout_frame [OF assms(2,3), of others env w rc q' w']
    di.filter_frame [OF assms(2,3), of others env m w rc q' w'] di.filter_code [OF assms(2,3), of others env m w rc q' w']
  by (auto simp: dispatch_def)

definition no_other_classes :: class_ops where
  "no_other_classes = \<lparr>co_execute = (\<lambda>env i q w. None), co_timeout = (\<lambda>env i q w. None),
     co_filter = (\<lambda>env m i q w. None)\<rparr>"

theorem step_operations_local_witness:
  "\<exists>rc q' w'. step_timeout no_other_classes sample_environment 0
       [sample_step (P_command ''ls'' ''''), sample_step (P_timed_wait 3)] sample_world = Some (rc, q', w') \<and>
     step_frame 0 [sample_step (P_command ''ls'' ''''), sample_step (P_timed_wait 3)] q'"
proof -
  let ?q = "[sample_step (P_command ''ls'' ''''), sample_step (P_timed_wait 3)]"
  have "queue_ok ?q" "0 < length ?q" "modelled_class (param_type (ts_param (?q ! 0)))"
    by (simp_all add: queue_ok_def sample_step_def modelled_class_def)
  moreover obtain rc q' w' where res: "step_timeout no_other_classes sample_environment 0 ?q sample_world = Some (rc, q', w')"
    by (simp add: step_timeout_def on_step_def command_timeout_def immediate_timeout_def sample_step_def)
  ultimately have "step_frame 0 ?q q'" using step_operations_local [of ?q 0] by blast
  with res show ?thesis by blast
qed

definition long_named_step :: test_step where
  "long_named_step = sample_step (P_mgmt_frame_capture \<lparr>mf_radio_index = 0, mf_duration = 9\<rparr>)
     \<lparr>ts_test_case_name := replicate 100 CHR ''a''\<rparr>"

definition probe_request :: wlan_emu_msg_data where
  "probe_request = \<lparr>md_type = 4, md_u = U_frm80211 1 \<lparr>frm_frame = replicate 26 0, frm_macaddr = [1, 2, 3, 4, 5, 6],
     frm_client_macaddr = [1, 2, 3, 4, 5, 7]\<rparr>\<rparr>"

lemma probe_request_name:
  "get_msgname_from_msgtype hostap_defaults probe_request = Some (RETURN_OK, ''probe-request'')"
  by (simp add: get_msgname_from_msgtype_def probe_request_def get_msg_type_def get_frm80211_ops_type_def
      enum_decode_def msg_types_def frm80211_ops_types_def frm_msgname_def le16_at_def)

lemma long_name_content:
  "dump_content sample_environment long_named_step probe_request t = Some (Inr
     (capture_name long_named_step t (mac_str_without_colon [1, 2, 3, 4, 5, 6])
        (mac_str_without_colon [1, 2, 3, 4, 5, 7]) ''probe-request'' 0,
      radio_tap_header @ replicate 26 0))"
proof -
  have "env_hostap sample_environment = hostap_defaults" by (simp add: sample_environment_def)
  moreover have "get_msg_type probe_request = Some wlan_emu_msg_type_frm80211"
    by (simp add: probe_request_def get_msg_type_def enum_decode_def msg_types_def)
  ultimately show ?thesis
    using probe_request_name by (simp add: dump_content_def probe_request_def long_named_step_def sample_step_def
        dump_radio_index_def)
qed

lemma long_name_length: "length (capture_name long_named_step ''20250101000000000001'' a b c 0) \<ge> 128"
  by (simp add: capture_name_def snprintf_store_def long_named_step_def sample_step_def)

theorem long_capture_lost_witness:
  "unload_frm80211_msg sample_environment probe_request long_named_step sample_world
     = Some (long_named_step, sample_world)"
  by (rule long_capture_lost [OF _ long_name_content long_name_length]) (simp add: sample_environment_def)

end
