(* ===== verification/Test_Scheduler.thy ===== *)
theory Test_Scheduler
  imports Step_Classes
begin

text \<open>
  The thread that runs a test case (\<open>src/tests/wlan_emu_tests.cpp\<close>): its state, the choice of the next
  step, the delivery of messages to the steps, and one iteration of the loop of \<open>test_function\<close>. The
  queue of steps holds the first step at its end, so the step with sequence number \<open>k\<close> of \<open>n\<close> is at
  index \<open>n - k - 1\<close>. The operations of the step classes are an argument; the context of the locale
  \<open>step_class\<close> proves what the scheduler does for every class that keeps the contract, and the
  properties are stated for the classes of \<open>Step_Classes\<close>.
\<close>

section \<open>The state of a test\<close>

datatype test_event =
    Te_ctrl wlan_emu_emu80211_ctrl_type
  | Te_heartbeat
  | Te_wait int
  | Te_unsubscribe
  | Te_done
  | Te_fail

text \<open>
  The test object, its configuration and the local variables of the thread: \<open>t_step\<close> is the index of
  the step the thread points to, \<open>t_ref\<close> the time of the last heart beat, \<open>t_calls\<close> the number of
  calls into step classes so far, each of which meets its own environment.
\<close>

record emu_test =
  t_steps :: "test_step queue"
  t_pending :: u32
  t_current :: int
  t_config_state :: wlan_emu_tests_state
  t_case_name :: string
  t_case_id :: string
  t_results :: "wlan_emu_msg_data queue"
  t_reference :: "wlan_emu_msg_data queue"
  t_exit :: bool
  t_step :: nat
  t_ref :: int
  t_world :: world
  t_calls :: nat
  t_events :: "test_event list"

definition event :: "test_event \<Rightarrow> emu_test \<Rightarrow> emu_test" where
  "event e t = t\<lparr>t_events := t_events t @ [e]\<rparr>"

definition set_step_state :: "nat \<Rightarrow> wlan_emu_tests_state \<Rightarrow> emu_test \<Rightarrow> emu_test" where
  "set_step_state i st t = t\<lparr>t_steps := (t_steps t)[i := (t_steps t ! i)\<lparr>ts_test_state := st\<rparr>]\<rparr>"

definition set_error :: "int \<Rightarrow> emu_test \<Rightarrow> emu_test" where
  "set_error err t = t\<lparr>t_world := (t_world t)\<lparr>w_error := err\<rparr>\<rparr>"

abbreviation step_at :: "emu_test \<Rightarrow> nat \<Rightarrow> test_step" where
  "step_at t i \<equiv> t_steps t ! i"

abbreviation state_at :: "emu_test \<Rightarrow> nat \<Rightarrow> wlan_emu_tests_state" where
  "state_at t i \<equiv> ts_test_state (t_steps t ! i)"

section \<open>Choosing the next step\<close>

definition get_step_from_index :: "test_step queue \<Rightarrow> int \<Rightarrow> test_step option" where
  "get_step_from_index q i =
     (if sint (queue_count q) \<le> i \<or> i < 0 then None else queue_peek q (word_of_int i))"

definition get_current_step :: "emu_test \<Rightarrow> test_step option" where
  "get_current_step t = get_step_from_index (t_steps t) (t_current t)"

text \<open>A shift by 32 or more is undefined; the numbers of the steps of a test are smaller.\<close>

definition clear_pending_step :: "u32 \<Rightarrow> emu_test \<Rightarrow> emu_test" where
  "clear_pending_step step_seq_num t = t\<lparr>t_pending := clear_flag (t_pending t) (unat step_seq_num)\<rparr>"

definition seq_index :: "test_step queue \<Rightarrow> u32 \<Rightarrow> u32" where
  "seq_index q step_seq_num = queue_count q - step_seq_num - 1"

definition next_index :: "test_step queue \<Rightarrow> u32 \<Rightarrow> u32" where
  "next_index q i = (if i = 0 then queue_count q - 1 else i - 1)"

text \<open>What the out parameter \<open>next_step\<close> is set to.\<close>

datatype next_step = Next_kept | Next_null | Next_at u32

text \<open>
  The search of a forked step. The counter of the loop is unsigned, so its condition always holds and
  only the returns in the body leave the loop: \<open>None\<close> is a search that does not end.
\<close>

partial_function (option) fork_search :: "test_step queue \<Rightarrow> u32 \<Rightarrow> u32 \<Rightarrow> (int \<times> next_step) option" where
  [code]: "fork_search q pending_steps i =
     (let i = next_index q i
      in case get_step_from_index q (sint i) of
           None \<Rightarrow> Some (RETURN_ERR, Next_null)
         | Some s \<Rightarrow>
             if ts_test_state s \<noteq> wlan_emu_tests_state_cmd_results then Some (RETURN_OK, Next_at i)
             else if pending_steps = 0 then Some (RETURN_OK, Next_null)
             else fork_search q pending_steps i)"

text \<open>
  The step after a serial step is the next one in the order of the steps, whatever its state; the test
  behind it compares the address of the out parameter, so a missing step is not an error.
\<close>

definition get_next_pending_step :: "emu_test \<Rightarrow> (int \<times> next_step) option" where
  "get_next_pending_step t =
     (case get_current_step t of
        None \<Rightarrow> Some (RETURN_ERR, Next_kept)
      | Some cur_step \<Rightarrow>
          if t_pending t = 0 then Some (RETURN_OK, Next_null)
          else let i = seq_index (t_steps t) (ts_step_seq_num cur_step)
               in if \<not> ts_fork cur_step
                  then let j = next_index (t_steps t) i
                       in Some (RETURN_OK, case get_step_from_index (t_steps t) (sint j) of
                                             None \<Rightarrow> Next_null | Some s \<Rightarrow> Next_at j)
                  else fork_search (t_steps t) (t_pending t) i)"

section \<open>Delivering a message\<close>

type_synonym class_call = "environment \<Rightarrow> nat \<Rightarrow> test_step queue \<Rightarrow> world \<Rightarrow> queue_result option"

text \<open>A virtual call on the step at an index.\<close>

definition call :: "class_call \<Rightarrow> (nat \<Rightarrow> environment) \<Rightarrow> nat \<Rightarrow> emu_test \<Rightarrow> (int \<times> emu_test) option" where
  "call f env i t =
     (case f (env (t_calls t)) i (t_steps t) (t_world t) of
        None \<Rightarrow> None
      | Some (rc, q, w) \<Rightarrow> Some (rc, t\<lparr>t_steps := q, t_world := w, t_calls := Suc (t_calls t)\<rparr>))"

text \<open>A control message executes the current step; its own error code is overwritten when it fails.\<close>

definition wlan_emu_handle_emu80211_msg ::
    "class_ops \<Rightarrow> (nat \<Rightarrow> environment) \<Rightarrow> wlan_emu_msg_data \<Rightarrow> emu_test \<Rightarrow> emu_test option" where
  "wlan_emu_handle_emu80211_msg ops env m t =
     (if get_emu80211_ops_type m \<noteq> Some wlan_emu_emu80211_ops_type_tctrl then Some t
      else case md_u m of
             U_emu80211 _ (Emu_tctrl ctrl coverage type) \<Rightarrow>
               if uint coverage < wlan_emu_test_coverage_1 \<or> wlan_emu_test_coverage_max \<le> uint coverage then Some t
               else (case get_current_step t of
                       None \<Rightarrow> None
                     | Some curr_step \<Rightarrow>
                         if enum_decode emu80211_ctrl_types ctrl = Some wlan_emu_emu80211_ctrl_tstart
                         then (case call (co_execute ops) env (nat (t_current t)) t of
                                 None \<Rightarrow> None
                               | Some (rc, t) \<Rightarrow>
                                   Some (if rc \<noteq> RETURN_OK
                                         then set_step_state (nat (t_current t)) wlan_emu_tests_state_cmd_abort
                                                (set_error ESTEP t)
                                         else t))
                         else Some t)
           | _ \<Rightarrow> None)"

text \<open>
  The loop of \<open>run\<close> over the steps that were pending when it started, from the first to the last, until
  one of them handles the message. Another result code than the two of the filters would look at the
  same step again.
\<close>

partial_function (option) run_loop ::
    "class_ops \<Rightarrow> (nat \<Rightarrow> environment) \<Rightarrow> wlan_emu_msg_data \<Rightarrow> u32 \<Rightarrow> u32 \<Rightarrow> emu_test \<Rightarrow> emu_test option" where
  [code]: "run_loop ops env m pending_steps step_seq_number t =
     (if pending_steps = 0 then Some t
      else if \<not> has_flag pending_steps 0 then run_loop ops env m (drop_bit 1 pending_steps) (step_seq_number + 1) t
      else let i = seq_index (t_steps t) step_seq_number
           in case get_step_from_index (t_steps t) (sint i) of
                None \<Rightarrow> Some t
              | Some s \<Rightarrow>
                  if ts_test_state s = wlan_emu_tests_state_cmd_continue \<or> ts_test_state s = wlan_emu_tests_state_cmd_wait
                  then (case call (\<lambda>env. co_filter ops env m) env (nat (sint i)) t of
                          None \<Rightarrow> None
                        | Some (ret, t) \<Rightarrow>
                            if ret = RETURN_UNHANDLED
                            then run_loop ops env m (drop_bit 1 pending_steps) (step_seq_number + 1) t
                            else if ret = RETURN_HANDLED then Some t
                            else run_loop ops env m pending_steps step_seq_number t)
                  else run_loop ops env m (drop_bit 1 pending_steps) (step_seq_number + 1) t)"

definition run :: "class_ops \<Rightarrow> (nat \<Rightarrow> environment) \<Rightarrow> wlan_emu_msg_data \<Rightarrow> emu_test \<Rightarrow> emu_test option" where
  "run ops env m t =
     (if get_msg_type m = Some wlan_emu_msg_type_emu80211 then wlan_emu_handle_emu80211_msg ops env m t
      else run_loop ops env m (t_pending t) 0 t)"

text \<open>The loop that pops and runs every message; no message arrives while the lock is held.\<close>

fun drain :: "class_ops \<Rightarrow> (nat \<Rightarrow> environment) \<Rightarrow> nat \<Rightarrow> emu_test \<Rightarrow> emu_test option" where
  "drain ops env 0 t = Some t"
| "drain ops env (Suc n) t =
     (case queue_pop (t_results t) of
        (None, q) \<Rightarrow> Some t
      | (Some m, q) \<Rightarrow>
          (case run ops env m (t\<lparr>t_results := q\<rparr>) of None \<Rightarrow> None | Some t \<Rightarrow> drain ops env n t))"

section \<open>The thread\<close>

function detroy_reference_sequence :: "'a queue \<Rightarrow> 'a queue" where
  "detroy_reference_sequence q =
     (if queue_count q \<noteq> 0 then detroy_reference_sequence (snd (queue_pop q)) else q)"
  by pat_completeness auto
termination
proof (relation "measure length")
  fix q :: "'a queue"
  assume "queue_count q \<noteq> 0"
  then have "q \<noteq> []" by (auto simp: queue_count_def)
  then show "(snd (queue_pop q), q) \<in> measure length" by (simp add: queue_pop_def)
qed simp

declare detroy_reference_sequence.simps [simp del]

definition stop :: "emu_test \<Rightarrow> emu_test" where
  "stop t =
     (let t = event Te_unsubscribe (event (Te_ctrl wlan_emu_emu80211_ctrl_tstop) t)
      in t\<lparr>t_reference := detroy_reference_sequence (t_reference t), t_exit := True\<rparr>)"

definition IPERF_TEST_CASE :: string where
  "IPERF_TEST_CASE = ''PR0270''"

text \<open>The head of the loop: a step that is still requested is made the current one and started.\<close>

definition trigger_step :: "emu_test \<Rightarrow> emu_test" where
  "trigger_step t =
     (if state_at t (t_step t) = wlan_emu_tests_state_cmd_request
      then let s = (step_at t (t_step t))\<lparr>ts_test_case_name := snprintf_store 128 (t_case_name t),
                 ts_test_case_id := snprintf_store 8 (t_case_id t), ts_test_state := wlan_emu_tests_state_cmd_start\<rparr>;
               t = event (Te_ctrl wlan_emu_emu80211_ctrl_tstart)
                     (t\<lparr>t_current := sint (seq_index (t_steps t) (ts_step_seq_num s)),
                        t_steps := (t_steps t)[t_step t := s]\<rparr>)
           in if strncmp_eq (ts_test_case_id s) IPERF_TEST_CASE (length IPERF_TEST_CASE) \<and> ts_step_number s = 1
              then event (Te_wait 1000) t else t
      else t)"

definition heart_beat :: "int \<Rightarrow> int \<Rightarrow> emu_test \<Rightarrow> emu_test" where
  "heart_beat now later t = (if 15 \<le> now - t_ref t then (event Te_heartbeat t)\<lparr>t_ref := later\<rparr> else t)"

datatype thread_state = Thread_runs | Thread_exits

text \<open>
  What the thread does once the next step was looked for; the first argument is the error code of a
  failed search. Writing the state of a step that is \<open>NULL\<close> is a bad write.
\<close>

definition proceed :: "int \<Rightarrow> int \<times> next_step \<Rightarrow> emu_test \<Rightarrow> (thread_state \<times> emu_test) option" where
  "proceed err r t =
     (case r of
        (ret, next) \<Rightarrow>
          if ret = RETURN_ERR
          then if next = Next_null then None
               else Some (Thread_exits, (set_step_state (t_step t) wlan_emu_tests_state_cmd_abort (set_error err t))
                      \<lparr>t_config_state := wlan_emu_tests_state_cmd_abort\<rparr>)
          else (case next of
                  Next_null \<Rightarrow>
                    Some (Thread_exits, event Te_done (stop (t\<lparr>t_config_state := wlan_emu_tests_state_cmd_results\<rparr>)))
                | Next_at i \<Rightarrow>
                    Some (Thread_runs, t\<lparr>t_step := unat i,
                      t_current := sint (seq_index (t_steps t) (ts_step_seq_num (step_at t (unat i))))\<rparr>)
                | Next_kept \<Rightarrow>
                    Some (Thread_runs, t\<lparr>t_current := sint (seq_index (t_steps t) (ts_step_seq_num (step_at t (t_step t))))\<rparr>)))"

definition fail_test :: "emu_test \<Rightarrow> emu_test" where
  "fail_test t = (event Te_fail (stop t))\<lparr>t_config_state := wlan_emu_tests_state_cmd_abort\<rparr>"

text \<open>The branch of a signalled condition or a message in the queue.\<close>

definition on_message :: "class_ops \<Rightarrow> (nat \<Rightarrow> environment) \<Rightarrow> emu_test \<Rightarrow> (thread_state \<times> emu_test) option" where
  "on_message ops env t =
     (let st = state_at t (t_step t)
      in if st \<in> {wlan_emu_tests_state_cmd_start, wlan_emu_tests_state_cmd_wait, wlan_emu_tests_state_cmd_continue}
         then map_option (Pair Thread_runs) (drain ops env (length (t_results t)) t)
         else if st = wlan_emu_tests_state_cmd_results
         then let t = clear_pending_step (ts_step_seq_num (step_at t (t_step t))) t
              in (case get_next_pending_step t of None \<Rightarrow> None | Some r \<Rightarrow> proceed ESTEP r t)
         else Some (Thread_exits, fail_test t))"

text \<open>
  The time-outs of all steps, from the first to the last; the number of steps left counts down to the
  index. The flag says that a step aborted and the thread exits.
\<close>

fun timeout_loop :: "class_ops \<Rightarrow> (nat \<Rightarrow> environment) \<Rightarrow> nat \<Rightarrow> emu_test \<Rightarrow> (bool \<times> emu_test) option" where
  "timeout_loop ops env 0 t = Some (False, t)"
| "timeout_loop ops env (Suc i) t =
     (case get_step_from_index (t_steps t) (int i) of
        None \<Rightarrow> timeout_loop ops env i t
      | Some s \<Rightarrow>
          (case (if ts_test_state s = wlan_emu_tests_state_cmd_wait \<or> ts_test_state s = wlan_emu_tests_state_cmd_continue
                 then map_option snd (call (co_timeout ops) env i t) else Some t) of
             None \<Rightarrow> None
           | Some t \<Rightarrow>
               if state_at t i = wlan_emu_tests_state_cmd_abort then Some (True, fail_test t)
               else timeout_loop ops env i
                      (if state_at t i = wlan_emu_tests_state_cmd_results
                       then clear_pending_step (ts_step_seq_num (step_at t i)) t else t)))"

definition on_timeout :: "class_ops \<Rightarrow> (nat \<Rightarrow> environment) \<Rightarrow> emu_test \<Rightarrow> (thread_state \<times> emu_test) option" where
  "on_timeout ops env t =
     (case timeout_loop ops env (unat (queue_count (t_steps t))) t of
        None \<Rightarrow> None
      | Some (aborted, t) \<Rightarrow>
          if aborted then Some (Thread_exits, t)
          else let s = step_at t (t_step t)
               in if ts_test_state s = wlan_emu_tests_state_cmd_results \<or>
                     ts_fork s \<and> ts_test_state s \<noteq> wlan_emu_tests_state_cmd_continue
                  then (case get_next_pending_step t of None \<Rightarrow> None | Some r \<Rightarrow> proceed ESTEPSTOPPED r t)
                  else Some (Thread_runs, t))"

text \<open>
  What the thread meets in one iteration: the two readings of the clock and the result of the timed
  wait. The wait is signalled, times out, or fails with another error, after which the loop goes on.
\<close>

datatype wait_result = Wait_signalled | Wait_timed_out | Wait_failed

record wake =
  k_now :: int
  k_later :: int
  k_wait :: wait_result
  k_env :: "nat \<Rightarrow> environment"

definition test_iteration :: "class_ops \<Rightarrow> wake \<Rightarrow> emu_test \<Rightarrow> (thread_state \<times> emu_test) option" where
  "test_iteration ops k t =
     (let t = heart_beat (k_now k) (k_later k) (trigger_step t)
      in if k_wait k = Wait_signalled \<or> queue_count (t_results t) \<noteq> 0 then on_message ops (k_env k) t
         else if k_wait k = Wait_timed_out then on_timeout ops (k_env k) t
         else Some (Thread_runs, t))"

text \<open>The state the thread starts with.\<close>

definition test_start :: "test_step queue \<Rightarrow> string \<Rightarrow> string \<Rightarrow> world \<Rightarrow> int \<Rightarrow> emu_test" where
  "test_start steps name ident w now =
     \<lparr>t_steps = steps, t_pending = flag (unat (queue_count steps)) - 1, t_current = 0,
       t_config_state = wlan_emu_tests_state_cmd_request, t_case_name = name, t_case_id = ident,
       t_results = queue_create, t_reference = queue_create, t_exit = False,
       t_step = unat (queue_count steps - 1), t_ref = now, t_world = w, t_calls = 0, t_events = []\<rparr>"

end
