(* ===== verification/Scheduler_Facts.thy ===== *)
theory Scheduler_Facts
  imports Test_Scheduler
begin

text \<open>
  Facts about the scheduler of a test case (\<open>Test_Scheduler\<close>) that the properties of \<open>Test_Runs\<close> rest on:
  the arithmetic of the step numbers, the search for the next step, the shape of a test
  (\<open>test_wf\<close>, \<open>settled\<close>, \<open>test_ok\<close>), what delivering messages and time-outs keep of it (\<open>test_frame\<close>,
  \<open>timeout_frame\<close>), and how an iteration of the thread ends. The lemmas about the step classes are proved
  in the locale \<open>step_class\<close> of \<open>Step_Classes\<close>.
\<close>

section \<open>Indices\<close>

definition prev_index :: "nat \<Rightarrow> nat \<Rightarrow> nat" where
  "prev_index n i = (if i = 0 then n - 1 else i - 1)"

lemma prev_index_less: "i < n \<Longrightarrow> prev_index n i < n"
  by (auto simp: prev_index_def)

lemma sint_small: "i < 32 \<Longrightarrow> sint (of_nat i :: u32) = int i"
  by (simp add: signed_of_nat signed_take_bit_int_eq_self)

lemma unat_small: "i < 32 \<Longrightarrow> unat (of_nat i :: u32) = i"
  by (simp add: take_bit_nat_eq_self)

lemma small_queue_ok: "length q < 32 \<Longrightarrow> queue_ok q"
  by (simp add: queue_ok_def)

lemma get_step_from_index_nth: "length q < 32 \<Longrightarrow> i < length q \<Longrightarrow> get_step_from_index q (int i) = Some (q ! i)"
  by (auto simp: get_step_from_index_def queue_count_def sint_small queue_peek_nth small_queue_ok unat_small)

lemma get_step_from_index_out: "length q < 32 \<Longrightarrow> length q \<le> i \<Longrightarrow> get_step_from_index q (int i) = None"
  by (simp add: get_step_from_index_def queue_count_def sint_small)

text \<open>The sequence number of the step at index \<open>i\<close> of \<open>n\<close>.\<close>

definition seq_no :: "nat \<Rightarrow> nat \<Rightarrow> u32" where
  "seq_no n i = of_nat (n - Suc i)"

lemma unat_seq_no: "n < 32 \<Longrightarrow> unat (seq_no n i) = n - Suc i"
  unfolding seq_no_def by (rule unat_small) simp

lemma seq_index_of: "i < length q \<Longrightarrow> seq_index q (seq_no (length q) i) = of_nat i"
  by (simp add: seq_no_def seq_index_def queue_count_def of_nat_diff)

lemma next_index_of: "length q < 32 \<Longrightarrow> i < length q \<Longrightarrow> next_index q (of_nat i) = of_nat (prev_index (length q) i)"
proof -
  assume n: "length q < 32" "i < length q"
  have "(of_nat i :: u32) = 0 \<longleftrightarrow> i = 0" 
    using n unat_small [of i] unat_eq_0 [of "of_nat i :: u32"] by simp
  moreover have "(of_nat i :: u32) - 1 = of_nat (i - 1)" if "i \<noteq> 0" using that by (cases i) auto
  moreover have "(of_nat (length q) :: u32) - 1 = of_nat (length q - 1)" using n by (cases "length q") auto
  ultimately show ?thesis by (simp add: next_index_def prev_index_def queue_count_def)
qed

section \<open>The search of a forked step\<close>

lemma fork_search_step:
  assumes "length q < 32" "i < length q"
  shows "fork_search q p (of_nat i) =
    (if ts_test_state (q ! prev_index (length q) i) \<noteq> wlan_emu_tests_state_cmd_results
     then Some (RETURN_OK, Next_at (of_nat (prev_index (length q) i)))
     else if p = 0 then Some (RETURN_OK, Next_null)
     else fork_search q p (of_nat (prev_index (length q) i)))"
proof -
  let ?j = "prev_index (length q) i"
  have j: "?j < length q" using assms by (simp add: prev_index_less)
  have "next_index q (of_nat i) = of_nat ?j" using assms by (rule next_index_of)
  moreover have "get_step_from_index q (sint (of_nat ?j :: u32)) = Some (q ! ?j)"
    using assms j by (simp add: sint_small get_step_from_index_nth)
  ultimately show ?thesis by (subst fork_search.simps) (simp add: Let_def)
qed

definition all_results :: "test_step queue \<Rightarrow> bool" where
  "all_results q \<longleftrightarrow> (\<forall>s \<in> set q. ts_test_state s = wlan_emu_tests_state_cmd_results)"

lemma fork_search_finds:
  assumes "length q < 32"
  shows "i < length q \<Longrightarrow> ts_test_state (q ! ((prev_index (length q) ^^ Suc d) i)) \<noteq> wlan_emu_tests_state_cmd_results \<Longrightarrow>
    p \<noteq> 0 \<Longrightarrow> \<exists>j < length q. ts_test_state (q ! j) \<noteq> wlan_emu_tests_state_cmd_results \<and>
      fork_search q p (of_nat i) = Some (RETURN_OK, Next_at (of_nat j))"
proof (induction d arbitrary: i)
  case 0
  then show ?case using assms
    by (intro exI [of _ "prev_index (length q) i"]) (simp add: fork_search_step prev_index_less)
next
  case (Suc d)
  let ?j = "prev_index (length q) i"
  have j: "?j < length q" using Suc.prems(1) by (rule prev_index_less)
  show ?case
  proof (cases "ts_test_state (q ! ?j) = wlan_emu_tests_state_cmd_results")
    case True
    have "ts_test_state (q ! ((prev_index (length q) ^^ Suc d) ?j)) \<noteq> wlan_emu_tests_state_cmd_results"
      using Suc.prems(2) by (simp add: funpow_swap1)
    from Suc.IH [OF j this Suc.prems(3)] True Suc.prems show ?thesis
      using assms by (simp add: fork_search_step)
  next
    case False
    then show ?thesis using assms Suc.prems j by (intro exI [of _ ?j]) (simp add: fork_search_step)
  qed
qed

lemma prev_index_pow: "k \<le> i \<Longrightarrow> (prev_index n ^^ k) i = i - k"
  by (induction k) (auto simp: prev_index_def)

lemma prev_index_reach:
  assumes "i < n" "j < n"
  shows "\<exists>d. (prev_index n ^^ Suc d) i = j"
proof (cases "j < i")
  case True
  then have "(prev_index n ^^ Suc (i - j - 1)) i = j" using prev_index_pow [of "i - j" i n] by (simp add: Suc_diff_Suc)
  then show ?thesis by blast
next
  case False
  have "(prev_index n ^^ i) i = 0" by (simp add: prev_index_pow)
  then have "(prev_index n ^^ Suc i) i = n - 1" by (simp add: prev_index_def)
  moreover have "(prev_index n ^^ (n - 1 - j)) (n - 1) = j" using assms by (simp add: prev_index_pow)
  ultimately have "(prev_index n ^^ (n - 1 - j + Suc i)) i = j" by (metis comp_apply funpow_add)
  then have "(prev_index n ^^ Suc (n - 1 - j + i)) i = j" by simp
  then show ?thesis by blast
qed

lemma fork_search_open:
  assumes "length q < 32" "i < length q" "p \<noteq> 0" "\<not> all_results q"
  shows "\<exists>j < length q. ts_test_state (q ! j) \<noteq> wlan_emu_tests_state_cmd_results \<and>
      fork_search q p (of_nat i) = Some (RETURN_OK, Next_at (of_nat j))"
proof -
  obtain j where "j < length q" "ts_test_state (q ! j) \<noteq> wlan_emu_tests_state_cmd_results"
    using assms(4) by (auto simp: all_results_def in_set_conv_nth)
  with prev_index_reach [of i "length q" j] assms fork_search_finds [OF assms(1) assms(2) _ assms(3)] show ?thesis
    by metis
qed

text \<open>When every step has results and one is still marked as pending, the search never ends.\<close>

lemma fork_search_diverges:
  assumes "length q < 32" "i < length q" "p \<noteq> 0" "all_results q"
  shows "fork_search q p (of_nat i) = None"
proof -
  have "length q < 32 \<longrightarrow> p \<noteq> 0 \<longrightarrow> all_results q \<longrightarrow> (\<forall>i < length q. x \<noteq> of_nat i)"
    if "fork_search q p x = Some r" for x r
  proof (rule fork_search.raw_induct [OF _ that])
    fix search :: "test_step queue \<Rightarrow> u32 \<Rightarrow> u32 \<Rightarrow> (int \<times> next_step) option"
    fix q :: "test_step queue" and p x :: u32 and r
    assume IH: "\<And>q p x r. search q p x = Some r \<Longrightarrow>
        length q < 32 \<longrightarrow> p \<noteq> 0 \<longrightarrow> all_results q \<longrightarrow> (\<forall>i < length q. x \<noteq> of_nat i)"
      and body: "(let i = next_index q x in case get_step_from_index q (sint i) of
           None \<Rightarrow> Some (RETURN_ERR, Next_null)
         | Some s \<Rightarrow>
             if ts_test_state s \<noteq> wlan_emu_tests_state_cmd_results then Some (RETURN_OK, Next_at i)
             else if p = 0 then Some (RETURN_OK, Next_null) else search q p i) = Some r"
    show "length q < 32 \<longrightarrow> p \<noteq> 0 \<longrightarrow> all_results q \<longrightarrow> (\<forall>i < length q. x \<noteq> of_nat i)"
    proof (intro allI impI notI)
      fix i assume i: "length q < 32" "p \<noteq> 0" "all_results q" "i < length q" "x = of_nat i"
      let ?j = "prev_index (length q) i"
      have j: "?j < length q" using i(4) by (rule prev_index_less)
      have "next_index q x = of_nat ?j" using i by (simp add: next_index_of)
      moreover have "get_step_from_index q (sint (of_nat ?j :: u32)) = Some (q ! ?j)"
        using i j by (simp add: sint_small get_step_from_index_nth)
      moreover have "ts_test_state (q ! ?j) = wlan_emu_tests_state_cmd_results"
        using i j by (simp add: all_results_def)
      ultimately have "search q p (of_nat ?j) = Some r" using body i by (simp add: Let_def)
      from IH [OF this] i j show False by blast
    qed
  qed
  then show ?thesis using assms by (cases "fork_search q p (of_nat i)") auto
qed

section \<open>What a test keeps\<close>

text \<open>
  The shape of a test: fewer than 31 steps in one of the states of a step, numbered from the end of the queue, classes that keep the
  contract, marks for existing steps only, and a current step that is the one the thread points to
  once that was started. A test is settled when every step whose mark is cleared has results.
\<close>

definition all_covered :: "(step_param_type \<Rightarrow> bool) \<Rightarrow> test_step queue \<Rightarrow> bool" where
  "all_covered covers q \<longleftrightarrow> length q < 31 \<and> (\<forall>i < length q. covers (param_type (ts_param (q ! i))))"

definition numbered :: "test_step queue \<Rightarrow> bool" where
  "numbered q \<longleftrightarrow> (\<forall>i < length q. ts_step_seq_num (q ! i) = seq_no (length q) i)"

definition marked :: "emu_test \<Rightarrow> nat \<Rightarrow> bool" where
  "marked t i \<longleftrightarrow> has_flag (t_pending t) (length (t_steps t) - Suc i)"

definition test_wf :: "(step_param_type \<Rightarrow> bool) \<Rightarrow> emu_test \<Rightarrow> bool" where
  "test_wf covers t \<longleftrightarrow> all_covered covers (t_steps t) \<and> numbered (t_steps t) \<and> t_step t < length (t_steps t) \<and>
     (\<forall>k. has_flag (t_pending t) k \<longrightarrow> k < length (t_steps t)) \<and>
     (\<forall>i < length (t_steps t). state_at t i \<noteq> wlan_emu_tests_state_cmd_none) \<and>
     (state_at t (t_step t) = wlan_emu_tests_state_cmd_request \<or> t_current t = int (t_step t))"

definition settled :: "emu_test \<Rightarrow> bool" where
  "settled t \<longleftrightarrow> (\<forall>i < length (t_steps t). \<not> marked t i \<longrightarrow> state_at t i = wlan_emu_tests_state_cmd_results)"

text \<open>What running messages keeps: only the current step and steps that wait change their state.\<close>

definition waits :: "wlan_emu_tests_state \<Rightarrow> bool" where
  "waits st \<longleftrightarrow> st = wlan_emu_tests_state_cmd_wait \<or> st = wlan_emu_tests_state_cmd_continue"

definition step_kept :: "bool \<Rightarrow> test_step \<Rightarrow> test_step \<Rightarrow> bool" where
  "step_kept current s s' \<longleftrightarrow> same_step s s' \<and>
     (\<not> current \<and> \<not> waits (ts_test_state s) \<longrightarrow> ts_test_state s' = ts_test_state s) \<and>
     (ts_test_state s' = wlan_emu_tests_state_cmd_request \<longrightarrow> ts_test_state s = wlan_emu_tests_state_cmd_request) \<and>
     (ts_test_state s' = wlan_emu_tests_state_cmd_none \<longrightarrow> ts_test_state s = wlan_emu_tests_state_cmd_none) \<and>
     (ts_test_state s' = wlan_emu_tests_state_cmd_wait \<longrightarrow> ts_test_state s = wlan_emu_tests_state_cmd_wait)"

definition test_frame :: "emu_test \<Rightarrow> emu_test \<Rightarrow> bool" where
  "test_frame t t' \<longleftrightarrow> t_pending t' = t_pending t \<and> t_step t' = t_step t \<and> t_current t' = t_current t \<and>
     t_exit t' = t_exit t \<and> t_events t' = t_events t \<and> t_config_state t' = t_config_state t \<and>
     length (t_steps t') = length (t_steps t) \<and>
     (\<forall>j < length (t_steps t). step_kept (int j = t_current t) (step_at t j) (step_at t' j))"

lemma step_kept_refl [simp]: "step_kept c s s"
  by (simp add: step_kept_def)

lemma same_step_trans: "same_step s s1 \<Longrightarrow> same_step s1 s2 \<Longrightarrow> same_step s s2"
  unfolding same_step_def by metis

lemma step_kept_trans: "step_kept c s s1 \<Longrightarrow> step_kept c s1 s2 \<Longrightarrow> step_kept c s s2"
  unfolding step_kept_def using same_step_trans [of s s1 s2] by metis

lemma step_kept_request:
  "step_kept c s s' \<Longrightarrow> ts_test_state s \<noteq> wlan_emu_tests_state_cmd_request \<Longrightarrow>
     ts_test_state s' \<noteq> wlan_emu_tests_state_cmd_request"
  unfolding step_kept_def by blast

lemma step_kept_state:
  "step_kept c s s' \<Longrightarrow> \<not> c \<Longrightarrow> \<not> waits (ts_test_state s) \<Longrightarrow> ts_test_state s' = ts_test_state s"
  unfolding step_kept_def by blast

lemma step_kept_same: "step_kept c s s' \<Longrightarrow> same_step s s'"
  by (simp add: step_kept_def)

lemma test_frame_refl [simp]: "test_frame t t"
  by (simp add: test_frame_def)

lemma test_frame_simps:
  assumes "test_frame t t'"
  shows "t_pending t' = t_pending t" "t_step t' = t_step t" "t_current t' = t_current t" "t_exit t' = t_exit t"
    "t_events t' = t_events t" "t_config_state t' = t_config_state t" "length (t_steps t') = length (t_steps t)"
    "marked t' i = marked t i"
  using assms by (simp_all add: test_frame_def marked_def)

lemma test_frame_step:
  "test_frame t t' \<Longrightarrow> j < length (t_steps t) \<Longrightarrow> step_kept (int j = t_current t) (step_at t j) (step_at t' j)"
  by (simp add: test_frame_def)

lemma test_frame_trans: "test_frame t t1 \<Longrightarrow> test_frame t1 t2 \<Longrightarrow> test_frame t t2"
proof -
  assume a: "test_frame t t1" and b: "test_frame t1 t2"
  have "step_kept (int j = t_current t) (step_at t j) (step_at t2 j)" if j: "j < length (t_steps t)" for j
  proof -
    have "step_kept (int j = t_current t) (step_at t1 j) (step_at t2 j)"
      using test_frame_step [OF b, of j] j unfolding test_frame_simps(3,7) [OF a] by blast
    with test_frame_step [OF a j] show ?thesis by (rule step_kept_trans)
  qed
  then show ?thesis
    unfolding test_frame_def test_frame_simps(1-7) [OF b] test_frame_simps(1-7) [OF a] by blast
qed

lemma test_frame_results [simp]: "test_frame (t\<lparr>t_results := q\<rparr>) t' \<longleftrightarrow> test_frame t t'"
  by (simp add: test_frame_def)

lemma frame_covered: "test_frame t t' \<Longrightarrow> all_covered covers (t_steps t) \<Longrightarrow> all_covered covers (t_steps t')"
  using step_kept_same [OF test_frame_step] by (simp add: test_frame_simps(7) all_covered_def same_step_def)

lemma frame_numbered: "test_frame t t' \<Longrightarrow> numbered (t_steps t) \<Longrightarrow> numbered (t_steps t')"
  using step_kept_same [OF test_frame_step] by (simp add: test_frame_simps(7) numbered_def same_step_def)

lemma frame_wf:
  assumes f: "test_frame t t'" and w: "test_wf covers t" and s: "state_at t (t_step t) \<noteq> wlan_emu_tests_state_cmd_request"
  shows "test_wf covers t'"
proof -
  have "t_current t = int (t_step t)" using w s by (simp add: test_wf_def)
  moreover have "state_at t' i \<noteq> wlan_emu_tests_state_cmd_none" if "i < length (t_steps t)" for i
    using test_frame_step [OF f that] w that unfolding step_kept_def test_wf_def by blast
  ultimately show ?thesis
    using w frame_covered [OF f, of covers] frame_numbered [OF f] by (simp add: test_wf_def test_frame_simps [OF f])
qed

lemma frame_settled:
  assumes f: "test_frame t t'" and "settled t" and cur: "t_current t = int (t_step t)" "marked t (t_step t)"
  shows "settled t'"
  unfolding settled_def
proof (intro allI impI)
  fix i assume i: "i < length (t_steps t')" "\<not> marked t' i"
  then have i': "\<not> marked t i" "i < length (t_steps t)" by (simp_all add: test_frame_simps [OF f])
  then have "state_at t i = wlan_emu_tests_state_cmd_results" "i \<noteq> t_step t"
    using assms by (auto simp: settled_def)
  with test_frame_step [OF f i'(2)] cur(1) show "state_at t' i = wlan_emu_tests_state_cmd_results"
    by (simp add: step_kept_def waits_def)
qed

lemma get_step_from_index_Some:
  assumes "length q < 32" "get_step_from_index q i = Some s"
  shows "0 \<le> i \<and> nat i < length q \<and> s = q ! nat i"
proof -
  have "0 \<le> i" "i < int (length q)"
    using assms by (auto simp: get_step_from_index_def queue_count_def sint_small split: if_splits)
  moreover from this have "get_step_from_index q (int (nat i)) = Some (q ! nat i)"
    using assms(1) by (intro get_step_from_index_nth) auto
  ultimately show ?thesis using assms(2) by simp
qed

lemma current_step:
  assumes "test_wf covers t" "state_at t (t_step t) \<noteq> wlan_emu_tests_state_cmd_request"
  shows "get_current_step t = Some (step_at t (t_step t))" "t_current t = int (t_step t)"
  using assms by (auto simp: test_wf_def all_covered_def get_current_step_def get_step_from_index_nth)

lemma call_frame:
  assumes "step_frame i (t_steps t) q" "i < length (t_steps t)" "int i = t_current t \<or> waits (state_at t i)"
  shows "test_frame t (t\<lparr>t_steps := q, t_world := w, t_calls := c\<rparr>)"
proof -
  have "step_kept (int j = t_current t) (step_at t j) (q ! j)" if "j < length (t_steps t)" for j
    using assms that by (cases "j = i") (auto simp: step_frame_def step_kept_def next_state_ok_def)
  then show ?thesis using assms(1) by (simp add: test_frame_def step_frame_def)
qed

lemma abort_frame:
  assumes "int i = t_current t"
  shows "test_frame t (set_step_state i wlan_emu_tests_state_cmd_abort (set_error err t))"
proof -
  have "step_kept (int j = t_current t) (step_at t j)
      ((t_steps t)[i := set_state wlan_emu_tests_state_cmd_abort (step_at t i)] ! j)" if "j < length (t_steps t)" for j
    using assms that by (cases "j = i") (auto simp: step_kept_def same_step_def)
  then show ?thesis by (simp add: test_frame_def set_step_state_def set_error_def)
qed

context step_class
begin

lemma covered_class:
  "all_covered covers q \<Longrightarrow> i < length q \<Longrightarrow> queue_ok q \<and> covers (param_type (ts_param (q ! i)))"
  by (simp add: all_covered_def queue_ok_def)

lemma handle_frame:
  assumes "all_covered covers (t_steps t)" "wlan_emu_handle_emu80211_msg ops env m t = Some t'"
  shows "test_frame t t'"
proof (cases "t' = t")
  case False
  obtain s where cur: "get_current_step t = Some s"
    using assms(2) False by (cases "get_current_step t")
      (auto simp: wlan_emu_handle_emu80211_msg_def split: if_splits msg_union.splits emu80211_body.splits)
  obtain rc t1 where c: "call (co_execute ops) env (nat (t_current t)) t = Some (rc, t1)"
    using assms(2) False cur by (cases "call (co_execute ops) env (nat (t_current t)) t")
      (auto simp: wlan_emu_handle_emu80211_msg_def split: if_splits msg_union.splits emu80211_body.splits)
  have t': "t' = t1 \<or> t' = set_step_state (nat (t_current t1)) wlan_emu_tests_state_cmd_abort (set_error ESTEP t1)"
    using assms(2) False cur c by (auto simp: wlan_emu_handle_emu80211_msg_def
        split: if_splits msg_union.splits emu80211_body.splits)
  have i: "0 \<le> t_current t" "nat (t_current t) < length (t_steps t)"
    using get_step_from_index_Some [OF _ cur [unfolded get_current_step_def]] assms(1) by (simp_all add: all_covered_def)
  obtain q w where q: "co_execute ops (env (t_calls t)) (nat (t_current t)) (t_steps t) (t_world t) = Some (rc, q, w)"
    "t1 = t\<lparr>t_steps := q, t_world := w, t_calls := Suc (t_calls t)\<rparr>"
    using c by (auto simp: call_def split: option.splits)
  have "test_frame t t1"
    unfolding q(2) using execute_frame [OF _ i(2) _ q(1)] covered_class [OF assms(1) i(2)] i
    by (intro call_frame [where i = "nat (t_current t)"]) auto
  moreover have "t_current t1 = t_current t" by (simp add: q(2))
  ultimately show ?thesis
    using t' i(1) abort_frame [of "nat (t_current t)" t1] test_frame_trans by auto
qed simp

lemma run_loop_frame:
  assumes "run_loop ops env m p k t = Some t'" "all_covered covers (t_steps t)"
  shows "test_frame t t'"
proof -
  have "ops' = ops \<longrightarrow> all_covered covers (t_steps t) \<longrightarrow> test_frame t t'"
    if "run_loop ops' env m p k t = Some t'" for ops' env m p k t t'
  proof (rule run_loop.raw_induct [OF _ that])
    fix loop :: "class_ops \<Rightarrow> (nat \<Rightarrow> environment) \<Rightarrow> wlan_emu_msg_data \<Rightarrow> u32 \<Rightarrow> u32 \<Rightarrow> emu_test \<Rightarrow> emu_test option"
    fix ops' env m p k t t'
    assume IH: "\<And>ops' env m p k t t'. loop ops' env m p k t = Some t' \<Longrightarrow>
        ops' = ops \<longrightarrow> all_covered covers (t_steps t) \<longrightarrow> test_frame t t'"
      and body: "(if p = 0 then Some t
        else if \<not> has_flag p 0 then loop ops' env m (drop_bit 1 p) (k + 1) t
        else let i = seq_index (t_steps t) k
             in case get_step_from_index (t_steps t) (sint i) of
                  None \<Rightarrow> Some t
                | Some s \<Rightarrow>
                    if ts_test_state s = wlan_emu_tests_state_cmd_continue \<or> ts_test_state s = wlan_emu_tests_state_cmd_wait
                    then (case call (\<lambda>env. co_filter ops' env m) env (nat (sint i)) t of
                            None \<Rightarrow> None
                          | Some (ret, t) \<Rightarrow>
                              if ret = RETURN_UNHANDLED then loop ops' env m (drop_bit 1 p) (k + 1) t
                              else if ret = RETURN_HANDLED then Some t
                              else loop ops' env m p k t)
                    else loop ops' env m (drop_bit 1 p) (k + 1) t) = Some t'"
    show "ops' = ops \<longrightarrow> all_covered covers (t_steps t) \<longrightarrow> test_frame t t'"
    proof (intro impI)
      assume o: "ops' = ops" and cov: "all_covered covers (t_steps t)"
      let ?i = "nat (sint (seq_index (t_steps t) k))"
      have stay: "test_frame t t'" if "loop ops' env m p' k' t = Some t'" for p' k'
        using IH [OF that] o cov by simp
      show "test_frame t t'"
      proof (cases "p = 0 \<or> \<not> has_flag p 0")
        case True
        then show ?thesis using body stay by (auto split: if_splits)
      next
        case pending: False
        show ?thesis
        proof (cases "get_step_from_index (t_steps t) (sint (seq_index (t_steps t) k))")
          case None
          then show ?thesis using body pending by (simp add: Let_def)
        next
          case (Some s)
          then have i: "?i < length (t_steps t)" "s = step_at t ?i"
            using get_step_from_index_Some cov by (auto simp: all_covered_def)
          show ?thesis
          proof (cases "waits (ts_test_state s)")
            case False
            then show ?thesis using body pending Some stay by (auto simp: Let_def waits_def)
          next
            case True
            then obtain ret t1 where c: "call (\<lambda>env. co_filter ops env m) env ?i t = Some (ret, t1)"
              using body pending Some o by (auto simp: Let_def waits_def split: option.splits)
            have rest: "t' = t1 \<or> loop ops' env m (drop_bit 1 p) (k + 1) t1 = Some t' \<or> loop ops' env m p k t1 = Some t'"
              using body pending Some o True c by (auto simp: Let_def waits_def split: if_splits)
            from c obtain q w where q: "co_filter ops (env (t_calls t)) m ?i (t_steps t) (t_world t) = Some (ret, q, w)"
              "t1 = t\<lparr>t_steps := q, t_world := w, t_calls := Suc (t_calls t)\<rparr>"
              by (auto simp: call_def split: option.splits)
            have "test_frame t t1"
              unfolding q(2) using filter_frame [OF i(1) _ q(1)] covered_class [OF cov i(1)] i True
              by (intro call_frame [where i = ?i]) auto
            moreover from this have "t' = t1 \<or> test_frame t1 t'"
              using rest IH o frame_covered cov by blast
            ultimately show ?thesis using test_frame_trans by blast
          qed
        qed
      qed
    qed
  qed
  then show ?thesis using assms by blast
qed

lemma run_frame: "run ops env m t = Some t' \<Longrightarrow> all_covered covers (t_steps t) \<Longrightarrow> test_frame t t'"
  by (auto simp: run_def split: if_splits intro: handle_frame run_loop_frame)

lemma drain_frame: "drain ops env n t = Some t' \<Longrightarrow> all_covered covers (t_steps t) \<Longrightarrow> test_frame t t'"
proof (induction n arbitrary: t)
  case (Suc n)
  show ?case
  proof (cases "fst (queue_pop (t_results t))")
    case None
    with Suc.prems show ?thesis by (auto simp: split_beta split: prod.splits)
  next
    case (Some m)
    then obtain q where pop: "queue_pop (t_results t) = (Some m, q)" by (metis prod.collapse)
    with Suc.prems obtain t1 where r: "run ops env m (t\<lparr>t_results := q\<rparr>) = Some t1" "drain ops env n t1 = Some t'"
      by (auto split: option.splits)
    have "test_frame t t1" using run_frame [OF r(1)] Suc.prems by simp
    moreover from this have "test_frame t1 t'" using Suc.IH [OF r(2)] frame_covered Suc.prems by blast
    ultimately show ?thesis by (rule test_frame_trans)
  qed
qed simp

end

section \<open>One iteration\<close>

text \<open>The thread is at work on a step that was started.\<close>

definition test_ok :: "(step_param_type \<Rightarrow> bool) \<Rightarrow> emu_test \<Rightarrow> bool" where
  "test_ok covers t \<longleftrightarrow> test_wf covers t \<and> settled t"

definition at_work :: "(step_param_type \<Rightarrow> bool) \<Rightarrow> emu_test \<Rightarrow> bool" where
  "at_work covers t \<longleftrightarrow> test_ok covers t \<and> state_at t (t_step t) \<noteq> wlan_emu_tests_state_cmd_request"

lemma at_work_wf:
  assumes "at_work covers t"
  shows "test_wf covers t" "settled t" "state_at t (t_step t) \<noteq> wlan_emu_tests_state_cmd_request"
    "t_current t = int (t_step t)" "t_step t < length (t_steps t)" "length (t_steps t) < 31"
    "ts_step_seq_num (step_at t (t_step t)) = seq_no (length (t_steps t)) (t_step t)"
    "get_current_step t = Some (step_at t (t_step t))" "\<And>k. has_flag (t_pending t) k \<Longrightarrow> k < length (t_steps t)"
  using assms current_step [of covers t]
  by (auto simp: at_work_def test_ok_def test_wf_def all_covered_def numbered_def)

lemma seq_index_nth:
  "numbered q \<Longrightarrow> length q < 32 \<Longrightarrow> i < length q \<Longrightarrow> sint (seq_index q (ts_step_seq_num (q ! i))) = int i"
  by (simp add: numbered_def seq_index_of sint_small)

lemma event_simps [simp]:
  "t_steps (event e t) = t_steps t" "t_pending (event e t) = t_pending t" "t_current (event e t) = t_current t"
  "t_step (event e t) = t_step t" "t_results (event e t) = t_results t" "t_exit (event e t) = t_exit t"
  "t_events (event e t) = t_events t @ [e]" "t_config_state (event e t) = t_config_state t"
  "t_world (event e t) = t_world t" "t_calls (event e t) = t_calls t" "t_case_name (event e t) = t_case_name t"
  "t_case_id (event e t) = t_case_id t" "t_ref (event e t) = t_ref t"
  by (simp_all add: event_def)

lemma stop_simps [simp]:
  "t_steps (stop t) = t_steps t" "t_pending (stop t) = t_pending t" "t_exit (stop t)"
  "t_config_state (stop t) = t_config_state t"
  "t_events (stop t) = t_events t @ [Te_ctrl wlan_emu_emu80211_ctrl_tstop, Te_unsubscribe]"
  by (simp_all add: stop_def Let_def)

text \<open>What the head of the loop does: at most one step is started, everything else stays.\<close>

lemma trigger_shape:
  "trigger_step t = t \<and> state_at t (t_step t) \<noteq> wlan_emu_tests_state_cmd_request \<or> (\<exists>s' c es. trigger_step t = t\<lparr>t_current := c, t_steps := (t_steps t)[t_step t := s'],
       t_events := t_events t @ es\<rparr> \<and> state_at t (t_step t) = wlan_emu_tests_state_cmd_request \<and>
     same_step (step_at t (t_step t)) s' \<and> ts_test_state s' = wlan_emu_tests_state_cmd_start \<and>
     c = sint (seq_index (t_steps t) (ts_step_seq_num (step_at t (t_step t)))))"
proof (cases "state_at t (t_step t) = wlan_emu_tests_state_cmd_request")
  case True
  show ?thesis
    by (rule disjI2, rule exI [of _ "(step_at t (t_step t))\<lparr>ts_test_case_name := snprintf_store 128 (t_case_name t),
        ts_test_case_id := snprintf_store 8 (t_case_id t), ts_test_state := wlan_emu_tests_state_cmd_start\<rparr>"])
      (auto simp: trigger_step_def Let_def True event_def same_step_def)
qed (simp add: trigger_step_def)

lemma trigger_ok:
  assumes "test_ok covers t"
  shows "at_work covers (trigger_step t)"
    and "t_step (trigger_step t) = t_step t" "t_pending (trigger_step t) = t_pending t"
    and "length (t_steps (trigger_step t)) = length (t_steps t)"
    and "\<And>j. j < length (t_steps t) \<Longrightarrow> same_step (step_at t j) (step_at (trigger_step t) j)"
    and "\<And>j. j < length (t_steps t) \<Longrightarrow> state_at (trigger_step t) j =
      (if j = t_step t \<and> state_at t j = wlan_emu_tests_state_cmd_request then wlan_emu_tests_state_cmd_start else state_at t j)"
proof -
  have wf: "t_step t < length (t_steps t)" "length (t_steps t) < 31" "numbered (t_steps t)" "settled t"
    using assms by (simp_all add: test_ok_def test_wf_def all_covered_def)
  let ?goal = "at_work covers (trigger_step t) \<and> t_step (trigger_step t) = t_step t \<and>
    t_pending (trigger_step t) = t_pending t \<and> length (t_steps (trigger_step t)) = length (t_steps t) \<and>
    (\<forall>j < length (t_steps t). same_step (step_at t j) (step_at (trigger_step t) j) \<and> state_at (trigger_step t) j =
      (if j = t_step t \<and> state_at t j = wlan_emu_tests_state_cmd_request then wlan_emu_tests_state_cmd_start else state_at t j))"
  have ?goal
    using trigger_shape [of t]
  proof (elim disjE exE conjE)
    assume "trigger_step t = t" "state_at t (t_step t) \<noteq> wlan_emu_tests_state_cmd_request"
    then show ?goal using assms by (auto simp: at_work_def)
  next
    fix s' c es
    assume t': "trigger_step t = t\<lparr>t_current := c, t_steps := (t_steps t)[t_step t := s'], t_events := t_events t @ es\<rparr>"
      and r: "state_at t (t_step t) = wlan_emu_tests_state_cmd_request"
      and s': "same_step (step_at t (t_step t)) s'" "ts_test_state s' = wlan_emu_tests_state_cmd_start"
      and c: "c = sint (seq_index (t_steps t) (ts_step_seq_num (step_at t (t_step t))))"
    have "c = int (t_step t)" using wf by (simp add: c seq_index_nth)
    moreover have "marked t (t_step t)" using r wf by (auto simp: settled_def)
    ultimately show ?goal
      using assms r s' wf unfolding t'
      by (auto simp: at_work_def test_ok_def test_wf_def all_covered_def numbered_def settled_def marked_def
          same_step_def nth_list_update)
  qed
  then show "at_work covers (trigger_step t)"
    and "t_step (trigger_step t) = t_step t" "t_pending (trigger_step t) = t_pending t"
    and "length (t_steps (trigger_step t)) = length (t_steps t)"
    and "\<And>j. j < length (t_steps t) \<Longrightarrow> same_step (step_at t j) (step_at (trigger_step t) j)"
    and "\<And>j. j < length (t_steps t) \<Longrightarrow> state_at (trigger_step t) j =
      (if j = t_step t \<and> state_at t j = wlan_emu_tests_state_cmd_request then wlan_emu_tests_state_cmd_start else state_at t j)"
    by blast+
qed

text \<open>A heart beat only counts.\<close>

lemma heart_beat_simps [simp]:
  "t_steps (heart_beat a b t) = t_steps t" "t_pending (heart_beat a b t) = t_pending t"
  "t_step (heart_beat a b t) = t_step t" "t_current (heart_beat a b t) = t_current t"
  "t_results (heart_beat a b t) = t_results t" "t_config_state (heart_beat a b t) = t_config_state t"
  by (simp_all add: heart_beat_def)

lemma heart_beat_ok: "at_work covers t \<Longrightarrow> at_work covers (heart_beat a b t)"
  by (auto simp: at_work_def test_ok_def test_wf_def settled_def marked_def)

section \<open>The next step\<close>

lemma next_pending:
  assumes "at_work covers t"
  shows "get_next_pending_step t =
    (if t_pending t = 0 then Some (RETURN_OK, Next_null)
     else if \<not> ts_fork (step_at t (t_step t))
     then Some (RETURN_OK, Next_at (of_nat (prev_index (length (t_steps t)) (t_step t))))
     else fork_search (t_steps t) (t_pending t) (of_nat (t_step t)))"
proof -
  note w = at_work_wf [OF assms]
  have p: "prev_index (length (t_steps t)) (t_step t) < length (t_steps t)"
    using w(5) by (rule prev_index_less)
  have "seq_index (t_steps t) (ts_step_seq_num (step_at t (t_step t))) = of_nat (t_step t)"
    using w by (simp add: seq_index_of)
  then show ?thesis
    using w p by (simp add: get_next_pending_step_def Let_def next_index_of sint_small get_step_from_index_nth)
qed

lemma clear_settled:
  assumes n: "numbered (t_steps t)" "length (t_steps t) < 32" and i: "i < length (t_steps t)"
    and s: "settled t" "state_at t i = wlan_emu_tests_state_cmd_results"
  shows "settled (clear_pending_step (ts_step_seq_num (step_at t i)) t)"
    and "\<not> marked (clear_pending_step (ts_step_seq_num (step_at t i)) t) i"
proof -
  let ?t = "clear_pending_step (ts_step_seq_num (step_at t i)) t"
  have m: "marked ?t j \<longleftrightarrow> marked t j \<and> j \<noteq> i" if "j < length (t_steps t)" for j
    using n i that by (auto simp: marked_def clear_pending_step_def numbered_def has_flag_clear unat_seq_no)
  show "\<not> marked ?t i" using m [OF i] by simp
  show "settled ?t"
    unfolding settled_def
  proof (intro allI impI)
    fix j assume "j < length (t_steps ?t)" "\<not> marked ?t j"
    with m [of j] s show "state_at ?t j = wlan_emu_tests_state_cmd_results"
      by (auto simp: clear_pending_step_def settled_def)
  qed
qed

lemma clear_pending_ok:
  assumes "at_work covers t" "state_at t (t_step t) = wlan_emu_tests_state_cmd_results"
  shows "at_work covers (clear_pending_step (ts_step_seq_num (step_at t (t_step t))) t)"
proof -
  note w = at_work_wf [OF assms(1)]
  have "settled (clear_pending_step (ts_step_seq_num (step_at t (t_step t))) t)"
    using clear_settled [OF _ _ w(5,2) assms(2)] w(1,6) by (simp add: test_wf_def)
  with assms(1) show ?thesis
    by (auto simp: at_work_def test_ok_def test_wf_def clear_pending_step_def has_flag_clear)
qed

lemma no_marks_all_results:
  assumes "settled t" "t_pending t = 0"
  shows "all_results (t_steps t)"
  using assms by (auto simp: settled_def all_results_def marked_def in_set_conv_nth has_flag_zero)

text \<open>What the thread does after it looked for the next step.\<close>

definition test_done_with :: "emu_test \<Rightarrow> emu_test \<Rightarrow> bool" where
  "test_done_with t t' \<longleftrightarrow> t_steps t' = t_steps t \<and> all_results (t_steps t') \<and>
     t_config_state t' = wlan_emu_tests_state_cmd_results \<and> t_exit t' \<and>
     t_events t' = t_events t @ [Te_ctrl wlan_emu_emu80211_ctrl_tstop, Te_unsubscribe, Te_done]"

lemma proceed_cases:
  assumes w: "at_work covers t" and n: "get_next_pending_step t = Some r" and p: "proceed err r t = Some (ts, t')"
  obtains (over) "ts = Thread_exits" "t_pending t = 0" "test_done_with t t'"
    | (serial) "ts = Thread_runs" "t_pending t \<noteq> 0" "\<not> ts_fork (step_at t (t_step t))"
      "t' = t\<lparr>t_step := prev_index (length (t_steps t)) (t_step t),
        t_current := int (prev_index (length (t_steps t)) (t_step t))\<rparr>"
    | (forked) j where "ts = Thread_runs" "t_pending t \<noteq> 0" "j < length (t_steps t)"
      "state_at t j \<noteq> wlan_emu_tests_state_cmd_results" "t' = t\<lparr>t_step := j, t_current := int j\<rparr>"
proof -
  note wf = at_work_wf [OF w]
  have num: "numbered (t_steps t)" using wf(1) by (simp add: test_wf_def)
  have at: "proceed err (RETURN_OK, Next_at (of_nat j)) t = Some (Thread_runs, t\<lparr>t_step := j, t_current := int j\<rparr>)"
    if "j < length (t_steps t)" for j
    using that wf num by (simp add: proceed_def unat_small seq_index_nth)
  show thesis
  proof (cases "t_pending t = 0")
    case True
    then have "r = (RETURN_OK, Next_null)" using n next_pending [OF w] by simp
    then have "ts = Thread_exits"
      "t' = event Te_done (stop (t\<lparr>t_config_state := wlan_emu_tests_state_cmd_results\<rparr>))"
      using p by (simp_all add: proceed_def)
    with True no_marks_all_results [OF wf(2) True] show thesis by (intro over) (auto simp: test_done_with_def)
  next
    case pending: False
    show thesis
    proof (cases "ts_fork (step_at t (t_step t))")
      case False
      then have "r = (RETURN_OK, Next_at (of_nat (prev_index (length (t_steps t)) (t_step t))))"
        using n next_pending [OF w] pending by simp
      with at [OF prev_index_less [OF wf(5)]] p pending False show thesis by (intro serial) auto
    next
      case True
      then have fs: "fork_search (t_steps t) (t_pending t) (of_nat (t_step t)) = Some r"
        using n next_pending [OF w] pending by simp
      have "length (t_steps t) < 32" using wf(6) by simp
      moreover from this have "\<not> all_results (t_steps t)"
        using fork_search_diverges [OF _ wf(5) pending] fs by auto
      ultimately obtain j where "j < length (t_steps t)" "state_at t j \<noteq> wlan_emu_tests_state_cmd_results"
        "r = (RETURN_OK, Next_at (of_nat j))"
        using fork_search_open [OF _ wf(5) pending] fs by fastforce
      with at p pending show thesis by (intro forked) auto
    qed
  qed
qed

lemma move_ok:
  assumes "at_work covers t" "j < length (t_steps t)"
  shows "test_ok covers (t\<lparr>t_step := j, t_current := int j\<rparr>)"
  using assms by (auto simp: at_work_def test_ok_def test_wf_def settled_def marked_def)

definition test_failed_with :: "emu_test \<Rightarrow> emu_test \<Rightarrow> bool" where
  "test_failed_with t t' \<longleftrightarrow> t_steps t' = t_steps t \<and>
     (\<exists>i < length (t_steps t'). state_at t' i = wlan_emu_tests_state_cmd_abort) \<and>
     t_config_state t' = wlan_emu_tests_state_cmd_abort \<and> t_exit t' \<and>
     t_events t' = t_events t @ [Te_ctrl wlan_emu_emu80211_ctrl_tstop, Te_unsubscribe, Te_fail]"

lemma fail_test_with:
  "i < length (t_steps t) \<Longrightarrow> state_at t i = wlan_emu_tests_state_cmd_abort \<Longrightarrow> test_failed_with t (fail_test t)"
  by (auto simp: test_failed_with_def fail_test_def)

text \<open>What the time-outs of the steps keep: only steps that wait change, and marks are only cleared.\<close>

definition timeout_frame :: "emu_test \<Rightarrow> emu_test \<Rightarrow> bool" where
  "timeout_frame t t' \<longleftrightarrow> t_step t' = t_step t \<and> t_current t' = t_current t \<and> t_events t' = t_events t \<and>
     length (t_steps t') = length (t_steps t) \<and>
     (\<forall>j < length (t_steps t). step_kept False (step_at t j) (step_at t' j)) \<and>
     (\<forall>k. has_flag (t_pending t') k \<longrightarrow> has_flag (t_pending t) k)"

lemma timeout_frame_refl: "timeout_frame t t"
  by (simp add: timeout_frame_def)

lemma timeout_frame_simps:
  assumes "timeout_frame t t'"
  shows "t_step t' = t_step t" "t_current t' = t_current t" "t_events t' = t_events t"
    "length (t_steps t') = length (t_steps t)"
  using assms by (simp_all add: timeout_frame_def)

lemma timeout_frame_trans: "timeout_frame t t1 \<Longrightarrow> timeout_frame t1 t2 \<Longrightarrow> timeout_frame t t2"
proof -
  assume a: "timeout_frame t t1" and b: "timeout_frame t1 t2"
  have "step_kept False (step_at t j) (step_at t2 j)" if "j < length (t_steps t)" for j
    using a b that timeout_frame_simps(4) [OF a] step_kept_trans unfolding timeout_frame_def by metis
  moreover have "has_flag (t_pending t) k" if "has_flag (t_pending t2) k" for k
    using a b that unfolding timeout_frame_def by metis
  ultimately show ?thesis
    unfolding timeout_frame_def timeout_frame_simps [OF b] timeout_frame_simps [OF a] by blast
qed

lemma timeout_frame_clear: "timeout_frame t (clear_pending_step k t)"
  by (simp add: timeout_frame_def clear_pending_step_def has_flag_clear)

text \<open>The time-out branch and the message branch both end in one of these ways.\<close>

definition moved :: "emu_test \<Rightarrow> emu_test \<Rightarrow> bool" where
  "moved u t' \<longleftrightarrow> t_pending u \<noteq> 0 \<and> (\<exists>j < length (t_steps u). t' = u\<lparr>t_step := j, t_current := int j\<rparr> \<and>
     (if ts_fork (step_at u (t_step u)) then state_at u j \<noteq> wlan_emu_tests_state_cmd_results
      else j = prev_index (length (t_steps u)) (t_step u)))"

lemma proceed_ends:
  assumes "at_work covers u" "get_next_pending_step u = Some r" "proceed err r u = Some (ts, t')"
  shows "ts = Thread_exits \<and> t_pending u = 0 \<and> test_done_with u t' \<or>
    ts = Thread_runs \<and> moved u t' \<and> test_ok covers t'"
  using assms
proof (cases rule: proceed_cases)
  case serial
  have "prev_index (length (t_steps u)) (t_step u) < length (t_steps u)"
    using at_work_wf(5) [OF assms(1)] by (rule prev_index_less)
  with serial move_ok [OF assms(1) this] show ?thesis by (auto simp: moved_def)
next
  case (forked j)
  have "\<exists>j < length (t_steps u). t' = u\<lparr>t_step := j, t_current := int j\<rparr> \<and>
     (if ts_fork (step_at u (t_step u)) then state_at u j \<noteq> wlan_emu_tests_state_cmd_results
      else j = prev_index (length (t_steps u)) (t_step u))" if "ts_fork (step_at u (t_step u))"
    using forked that by auto
  show ?thesis
  proof (cases "ts_fork (step_at u (t_step u))")
    case True
    with forked move_ok [OF assms(1) forked(3)] show ?thesis by (auto simp: moved_def)
  next
    case False
    have p: "prev_index (length (t_steps u)) (t_step u) < length (t_steps u)"
      using at_work_wf(5) [OF assms(1)] by (rule prev_index_less)
    have "r = (RETURN_OK, Next_at (of_nat (prev_index (length (t_steps u)) (t_step u))))"
      using assms(2) next_pending [OF assms(1)] False forked by simp
    then have "ts = Thread_runs" "t_step t' = prev_index (length (t_steps u)) (t_step u)"
      using assms(3) p at_work_wf [OF assms(1)] by (auto simp: proceed_def unat_small)
    with forked move_ok [OF assms(1) forked(3)] False show ?thesis by (auto simp: moved_def)
  qed
qed auto

context step_class
begin

lemma on_message_ends:
  assumes w: "at_work covers t" and m: "on_message ops env t = Some (ts, t')"
  shows "ts = Thread_runs \<and> test_frame t t' \<and> at_work covers t' \<and>
      state_at t (t_step t) \<noteq> wlan_emu_tests_state_cmd_results \<or>
    state_at t (t_step t) = wlan_emu_tests_state_cmd_results \<and>
      (let u = clear_pending_step (ts_step_seq_num (step_at t (t_step t))) t
       in ts = Thread_exits \<and> t_pending u = 0 \<and> test_done_with u t' \<or>
          ts = Thread_runs \<and> moved u t' \<and> test_ok covers t') \<or>
    ts = Thread_exits \<and> test_failed_with t t'"
proof -
  note wf = at_work_wf [OF w]
  let ?st = "state_at t (t_step t)"
  consider "?st \<in> {wlan_emu_tests_state_cmd_start, wlan_emu_tests_state_cmd_wait, wlan_emu_tests_state_cmd_continue}"
    | "?st = wlan_emu_tests_state_cmd_results" | "?st = wlan_emu_tests_state_cmd_abort"
    using wf(1,3,5) by (cases ?st) (auto simp: test_wf_def)
  then show ?thesis
  proof cases
    case 1
    then have d: "drain ops env (length (t_results t)) t = Some t'" "ts = Thread_runs"
      using m by (auto simp: on_message_def)
    have f: "test_frame t t'" using drain_frame [OF d(1)] wf(1) by (simp add: test_wf_def)
    have "marked t (t_step t)" using 1 wf(2,5) by (auto simp: settled_def)
    then have "settled t'" using frame_settled [OF f] wf by simp
    moreover have "test_wf covers t'" using frame_wf [OF f wf(1)] wf(3) by simp
    moreover have "state_at t' (t_step t') \<noteq> wlan_emu_tests_state_cmd_request"
      using step_kept_request [OF test_frame_step [OF f wf(5)] wf(3)] by (simp add: test_frame_simps(2) [OF f])
    ultimately show ?thesis using d f 1 by (auto simp: at_work_def test_ok_def)
  next
    case 2
    let ?u = "clear_pending_step (ts_step_seq_num (step_at t (t_step t))) t"
    obtain r where "get_next_pending_step ?u = Some r" "proceed ESTEP r ?u = Some (ts, t')"
      using m 2 by (auto simp: on_message_def Let_def split: option.splits)
    with proceed_ends [OF clear_pending_ok [OF w 2]] 2 show ?thesis by (simp add: Let_def)
  next
    case 3
    then have "ts = Thread_exits" "t' = fail_test t" using m by (auto simp: on_message_def)
    with 3 fail_test_with [OF wf(5)] show ?thesis by simp
  qed
qed

lemma timeout_call:
  assumes "all_covered covers (t_steps t)" "i < length (t_steps t)" "call (co_timeout ops) env i t = Some (rc, t1)"
    "waits (state_at t i)"
  shows "timeout_frame t t1 \<and> t_pending t1 = t_pending t \<and>
    (\<forall>j < length (t_steps t). j \<noteq> i \<longrightarrow> state_at t1 j = state_at t j)"
proof -
  obtain q w where q: "co_timeout ops (env (t_calls t)) i (t_steps t) (t_world t) = Some (rc, q, w)"
    "t1 = t\<lparr>t_steps := q, t_world := w, t_calls := Suc (t_calls t)\<rparr>"
    using assms(3) by (auto simp: call_def split: option.splits)
  have f: "step_frame i (t_steps t) q"
    using timeout_frame [OF assms(2) _ q(1)] covered_class [OF assms(1,2)] by simp
  have "step_kept False (step_at t j) (q ! j)" if "j < length (t_steps t)" for j
    using f that assms(4) by (cases "j = i") (auto simp: step_frame_def step_kept_def next_state_ok_def)
  then show ?thesis using f by (simp add: q(2) timeout_frame_def step_frame_def)
qed

end

lemma timeout_frame_settled:
  assumes f: "timeout_frame t t'" and p: "t_pending t' = t_pending t" and s: "settled t"
  shows "settled t'"
  unfolding settled_def
proof (intro allI impI)
  fix i assume i: "i < length (t_steps t')" "\<not> marked t' i"
  then have "i < length (t_steps t)" "\<not> marked t i"
    by (simp_all add: timeout_frame_simps [OF f] p marked_def)
  then have "state_at t i = wlan_emu_tests_state_cmd_results" "step_kept False (step_at t i) (step_at t' i)"
    using s f by (simp_all add: settled_def timeout_frame_def)
  then show "state_at t' i = wlan_emu_tests_state_cmd_results" by (simp add: step_kept_def waits_def)
qed

lemma timeout_frame_work:
  assumes f: "timeout_frame t t'" and w: "at_work covers t" and s: "settled t'"
  shows "at_work covers t'"
proof -
  note wf = at_work_wf [OF w]
  have same: "same_step (step_at t j) (step_at t' j)" if "j < length (t_steps t)" for j
    using f that unfolding timeout_frame_def step_kept_def by blast
  have "all_covered covers (t_steps t)" "numbered (t_steps t)" using wf(1) by (simp_all add: test_wf_def)
  then have "all_covered covers (t_steps t')" "numbered (t_steps t')"
    using same unfolding all_covered_def numbered_def same_step_def timeout_frame_simps(4) [OF f] by metis+
  moreover have "state_at t' (t_step t) \<noteq> wlan_emu_tests_state_cmd_request"
    using f wf(3,5) unfolding timeout_frame_def step_kept_def by blast
  moreover have "state_at t' j \<noteq> wlan_emu_tests_state_cmd_none" if "j < length (t_steps t)" for j
    using f wf(1) that unfolding timeout_frame_def step_kept_def test_wf_def by blast
  moreover have "k < length (t_steps t)" if "has_flag (t_pending t') k" for k
    using f that wf(9) by (auto simp: timeout_frame_def)
  ultimately show ?thesis
    using s wf by (simp add: at_work_def test_ok_def test_wf_def timeout_frame_simps [OF f])
qed

context step_class
begin

lemma timeout_loop_ends:
  assumes "timeout_loop ops env n t = Some (b, t')" "at_work covers t" "n \<le> length (t_steps t)"
  shows "(b \<longrightarrow> (\<exists>t1. timeout_frame t t1 \<and> test_failed_with t1 t')) \<and>
    (\<not> b \<longrightarrow> timeout_frame t t' \<and> at_work covers t' \<and>
       (\<forall>i < n. state_at t' i \<noteq> wlan_emu_tests_state_cmd_abort \<and>
          (state_at t' i = wlan_emu_tests_state_cmd_results \<longrightarrow> \<not> marked t' i)) \<and>
       (\<forall>i < length (t_steps t). n \<le> i \<longrightarrow> state_at t' i = state_at t i))"
  using assms
proof (induction n arbitrary: t)
  case 0
  then show ?case by (auto simp: timeout_frame_refl)
next
  case (Suc i)
  note wf = at_work_wf [OF Suc.prems(2)]
  have i: "i < length (t_steps t)" using Suc.prems(3) by simp
  have step: "get_step_from_index (t_steps t) (int i) = Some (step_at t i)"
    using i wf(6) by (simp add: get_step_from_index_nth)
  let ?called = "if waits (state_at t i) then map_option snd (call (co_timeout ops) env i t) else Some t"
  obtain t1 where t1: "?called = Some t1"
    using Suc.prems(1) step by (auto simp: waits_def split: option.splits if_splits)
  have f1: "timeout_frame t t1 \<and> t_pending t1 = t_pending t \<and>
    (\<forall>j < length (t_steps t). j \<noteq> i \<longrightarrow> state_at t1 j = state_at t j)"
    using t1 timeout_call [of t i env] i wf(1) by (auto simp: test_wf_def timeout_frame_refl split: if_splits)
  then have s1: "settled t1" using timeout_frame_settled wf(2) by blast
  then have w1: "at_work covers t1" using timeout_frame_work f1 Suc.prems(2) by blast
  note wf1 = at_work_wf [OF w1]
  have i1: "i < length (t_steps t1)" using i timeout_frame_simps(4) [OF conjunct1 [OF f1]] by simp
  show ?case
  proof (cases "state_at t1 i = wlan_emu_tests_state_cmd_abort")
    case True
    then have "b" "t' = fail_test t1"
      using Suc.prems(1) step t1 by (auto simp: waits_def split: if_splits)
    with fail_test_with [OF i1 True] f1 show ?thesis by auto
  next
    case False
    let ?t2 = "if state_at t1 i = wlan_emu_tests_state_cmd_results
      then clear_pending_step (ts_step_seq_num (step_at t1 i)) t1 else t1"
    have rest: "timeout_loop ops env i ?t2 = Some (b, t')"
      using Suc.prems(1) step t1 False by (auto simp: waits_def split: if_splits)
    have f2: "timeout_frame t1 ?t2" by (simp add: timeout_frame_clear timeout_frame_refl)
    have num: "numbered (t_steps t1)" "length (t_steps t1) < 32"
      using wf1 by (simp_all add: test_wf_def)
    have "settled ?t2" using clear_settled [OF num i1 s1] s1 by simp
    then have w2: "at_work covers ?t2" using timeout_frame_work [OF f2 w1] by blast
    have "i \<le> length (t_steps ?t2)" using i1 by (simp add: timeout_frame_simps(4) [OF f2])
    note IH = Suc.IH [OF rest w2 this]
    have f: "timeout_frame t ?t2" using f1 f2 timeout_frame_trans by blast
    show ?thesis
    proof (intro conjI impI)
      assume b
      with IH obtain t3 where "timeout_frame ?t2 t3" "test_failed_with t3 t'" by blast
      with f timeout_frame_trans show "\<exists>t1. timeout_frame t t1 \<and> test_failed_with t1 t'" by blast
    next
      assume nb: "\<not> b"
      with IH have e: "timeout_frame ?t2 t'" "at_work covers t'"
        "\<forall>j < i. state_at t' j \<noteq> wlan_emu_tests_state_cmd_abort \<and>
          (state_at t' j = wlan_emu_tests_state_cmd_results \<longrightarrow> \<not> marked t' j)"
        "\<forall>j < length (t_steps t). i \<le> j \<longrightarrow> state_at t' j = state_at ?t2 j"
        by (simp_all add: timeout_frame_simps(4) [OF f])
      then show "timeout_frame t t'" "at_work covers t'" using f timeout_frame_trans by blast+
      have t2: "state_at ?t2 j = state_at t1 j" for j by (simp add: clear_pending_step_def)
      show "\<forall>j < length (t_steps t). Suc i \<le> j \<longrightarrow> state_at t' j = state_at t j"
        using e(4) f1 t2 by auto
      show "\<forall>j < Suc i. state_at t' j \<noteq> wlan_emu_tests_state_cmd_abort \<and>
          (state_at t' j = wlan_emu_tests_state_cmd_results \<longrightarrow> \<not> marked t' j)"
      proof (intro allI impI)
        fix j assume j: "j < Suc i"
        show "state_at t' j \<noteq> wlan_emu_tests_state_cmd_abort \<and>
          (state_at t' j = wlan_emu_tests_state_cmd_results \<longrightarrow> \<not> marked t' j)"
        proof (cases "j = i")
          case True
          have same: "state_at t' i = state_at t1 i" using e(4) i t2 by simp
          have "\<not> marked t' i" if "state_at t1 i = wlan_emu_tests_state_cmd_results"
          proof -
            have "\<not> marked ?t2 i" using clear_settled [OF num i1 s1] that by simp
            then show ?thesis
              using e(1) timeout_frame_simps(4) [OF e(1)] unfolding marked_def timeout_frame_def by metis
          qed
          then show ?thesis using same False unfolding True by simp
        qed (use j e in auto)
      qed
    qed
  qed
qed

end

end
