(* ===== verification/Test_Runs.thy ===== *)
theory Test_Runs
  imports Scheduler_Facts Step_Behaviour
begin

text \<open>
  Runs of a test case's thread: the verdict of an iteration, the reachable states (\<open>emu_run\<close>), and the
  properties of whole runs, obtained by the interpretation of \<open>step_class\<close> on the dispatch of the model.
\<close>

context step_class
begin

lemma on_timeout_ends:
  assumes w: "at_work covers t" and m: "on_timeout ops env t = Some (ts, t')"
  shows "\<exists>u. timeout_frame t u \<and> (ts = Thread_exits \<and> test_failed_with u t' \<or>
    at_work covers u \<and>
    (\<forall>i < length (t_steps u). state_at u i \<noteq> wlan_emu_tests_state_cmd_abort \<and>
       (state_at u i = wlan_emu_tests_state_cmd_results \<longrightarrow> \<not> marked u i)) \<and>
    (ts = Thread_runs \<and> t' = u \<or>
     (state_at u (t_step u) = wlan_emu_tests_state_cmd_results \<or>
      ts_fork (step_at u (t_step u)) \<and> state_at u (t_step u) \<noteq> wlan_emu_tests_state_cmd_continue) \<and>
     (ts = Thread_exits \<and> t_pending u = 0 \<and> test_done_with u t' \<or>
      ts = Thread_runs \<and> moved u t' \<and> test_ok covers t')))"
proof -
  note wf = at_work_wf [OF w]
  have len: "unat (queue_count (t_steps t)) = length (t_steps t)"
    using wf(6) small_queue_ok [of "t_steps t"] by simp
  obtain b u where l: "timeout_loop ops env (length (t_steps t)) t = Some (b, u)"
    using m len by (auto simp: on_timeout_def split: option.splits)
  note ends = timeout_loop_ends [OF l w order.refl]
  show ?thesis
  proof (cases b)
    case True
    then have "ts = Thread_exits" "t' = u" using m len l by (auto simp: on_timeout_def)
    with True ends show ?thesis by blast
  next
    case False
    with ends have u: "timeout_frame t u" "at_work covers u"
      "\<forall>i < length (t_steps t). state_at u i \<noteq> wlan_emu_tests_state_cmd_abort \<and>
         (state_at u i = wlan_emu_tests_state_cmd_results \<longrightarrow> \<not> marked u i)" by blast+
    let ?c = "state_at u (t_step u) = wlan_emu_tests_state_cmd_results \<or>
      ts_fork (step_at u (t_step u)) \<and> state_at u (t_step u) \<noteq> wlan_emu_tests_state_cmd_continue"
    have "ts = Thread_runs \<and> t' = u \<or> ?c \<and> (ts = Thread_exits \<and> t_pending u = 0 \<and> test_done_with u t' \<or>
      ts = Thread_runs \<and> moved u t' \<and> test_ok covers t')"
    proof (cases ?c)
      case True
      then obtain r where "get_next_pending_step u = Some r" "proceed ESTEPSTOPPED r u = Some (ts, t')"
        using m len l False by (auto simp: on_timeout_def Let_def split: option.splits)
      with proceed_ends [OF u(2)] True show ?thesis by blast
    next
      case nc: False
      then show ?thesis using m len l False by (auto simp: on_timeout_def Let_def)
    qed
    moreover have "\<forall>i < length (t_steps u). state_at u i \<noteq> wlan_emu_tests_state_cmd_abort \<and>
         (state_at u i = wlan_emu_tests_state_cmd_results \<longrightarrow> \<not> marked u i)"
      using u(3) timeout_frame_simps(4) [OF u(1)] by metis
    ultimately show ?thesis using u(1,2) by blast
  qed
qed

end

section \<open>The verdict of a test\<close>

definition verdicts :: "emu_test \<Rightarrow> test_event list" where
  "verdicts t = filter (\<lambda>e. e = Te_done \<or> e = Te_fail) (t_events t)"

definition passes :: "emu_test \<Rightarrow> emu_test \<Rightarrow> bool" where
  "passes t t' \<longleftrightarrow> all_results (t_steps t') \<and> t_config_state t' = wlan_emu_tests_state_cmd_results \<and>
     verdicts t' = verdicts t @ [Te_done]"

definition fails :: "emu_test \<Rightarrow> emu_test \<Rightarrow> bool" where
  "fails t t' \<longleftrightarrow> (\<exists>s \<in> set (t_steps t'). ts_test_state s = wlan_emu_tests_state_cmd_abort) \<and>
     t_config_state t' = wlan_emu_tests_state_cmd_abort \<and> verdicts t' = verdicts t @ [Te_fail]"

lemma verdicts_head: "verdicts (heart_beat a b (trigger_step t)) = verdicts t"
  by (auto simp: verdicts_def heart_beat_def trigger_step_def Let_def event_def)

lemma done_passes: "test_done_with u t' \<Longrightarrow> verdicts u = verdicts t \<Longrightarrow> passes t t'"
  by (auto simp: passes_def test_done_with_def verdicts_def)

lemma failed_fails: "test_failed_with u t' \<Longrightarrow> verdicts u = verdicts t \<Longrightarrow> fails t t'"
  by (auto simp: fails_def test_failed_with_def verdicts_def)

lemma moved_verdicts: "moved u t' \<Longrightarrow> verdicts t' = verdicts u"
  by (auto simp: moved_def verdicts_def)

lemma clear_verdicts [simp]: "verdicts (clear_pending_step k t) = verdicts t"
  by (simp add: verdicts_def clear_pending_step_def)

context step_class
begin

lemma iteration_verdict:
  assumes ok: "test_ok covers t" and it: "test_iteration ops k t = Some (ts, t')"
  shows "ts = Thread_runs \<and> test_ok covers t' \<and> verdicts t' = verdicts t \<or>
    ts = Thread_exits \<and> (passes t t' \<or> fails t t')"
proof -
  let ?t = "heart_beat (k_now k) (k_later k) (trigger_step t)"
  have w: "at_work covers ?t" using heart_beat_ok [OF trigger_ok(1) [OF ok]] .
  have v: "verdicts ?t = verdicts t" by (rule verdicts_head)
  consider "on_message ops (k_env k) ?t = Some (ts, t')" | "on_timeout ops (k_env k) ?t = Some (ts, t')"
    | "ts = Thread_runs" "t' = ?t"
    using it unfolding test_iteration_def Let_def by (metis option.inject prod.inject)
  then show ?thesis
  proof cases
    case 1
    from on_message_ends [OF w this] show ?thesis
    proof (elim disjE conjE)
      assume f: "ts = Thread_runs" "test_frame ?t t'" "at_work covers t'"
      have "verdicts t' = verdicts ?t" by (simp add: verdicts_def test_frame_simps(5) [OF f(2)])
      with f v show ?thesis by (simp add: at_work_def)
    next
      assume "ts = Thread_exits" "test_failed_with ?t t'"
      with failed_fails v show ?thesis by blast
    next
      assume "let u = clear_pending_step (ts_step_seq_num (step_at ?t (t_step ?t))) ?t
       in ts = Thread_exits \<and> t_pending u = 0 \<and> test_done_with u t' \<or>
          ts = Thread_runs \<and> moved u t' \<and> test_ok covers t'"
      then obtain u where "verdicts u = verdicts t"
        "ts = Thread_exits \<and> test_done_with u t' \<or> ts = Thread_runs \<and> moved u t' \<and> test_ok covers t'"
        using v clear_verdicts unfolding Let_def by metis
      with done_passes [of u t' t] moved_verdicts [of u t'] show ?thesis by auto
    qed
  next
    case 2
    from on_timeout_ends [OF w this] obtain u where u: "timeout_frame ?t u"
      and e: "ts = Thread_exits \<and> test_failed_with u t' \<or>
        at_work covers u \<and> (ts = Thread_runs \<and> t' = u \<or>
          ts = Thread_exits \<and> test_done_with u t' \<or> ts = Thread_runs \<and> moved u t' \<and> test_ok covers t')"
      by blast
    have "verdicts u = verdicts t" using v by (simp add: verdicts_def timeout_frame_simps(3) [OF u])
    with e done_passes [of u t' t] failed_fails [of u t' t] moved_verdicts [of u t'] show ?thesis
      by (auto simp: at_work_def)
  next
    case 3
    with w v show ?thesis by (simp add: at_work_def)
  qed
qed

end

section \<open>Runs of the thread\<close>

text \<open>
  A run: the message manager pushes messages between the iterations, and the thread goes on while it
  neither exits nor is told to.
\<close>

inductive emu_run :: "class_ops \<Rightarrow> emu_test \<Rightarrow> emu_test \<Rightarrow> bool" for ops where
  emu_run_start: "emu_run ops t t"
| emu_run_message: "emu_run ops t u \<Longrightarrow> emu_run ops t (u\<lparr>t_results := snd (queue_push mem (t_results u) m)\<rparr>)"
| emu_run_iteration: "emu_run ops t u \<Longrightarrow> \<not> t_exit u \<Longrightarrow> test_iteration ops k u = Some (Thread_runs, u') \<Longrightarrow>
    emu_run ops t u'"

inductive_cases emu_run_cases: "emu_run ops t u"

text \<open>The steps of a test case as they are configured: numbered, of a known class and requested.\<close>

definition fresh_steps :: "(step_param_type \<Rightarrow> bool) \<Rightarrow> test_step queue \<Rightarrow> bool" where
  "fresh_steps covers q \<longleftrightarrow> q \<noteq> [] \<and> all_covered covers q \<and> numbered q \<and>
     (\<forall>s \<in> set q. ts_test_state s = wlan_emu_tests_state_cmd_request)"

lemma low_flags_pending: "flag n - 1 = low_flags n"
  by (simp add: low_flags_def)

lemma test_start_ok:
  assumes "fresh_steps covers q"
  shows "test_ok covers (test_start q name ident w now)" "verdicts (test_start q name ident w now) = []"
proof -
  have n: "length q < 31" "q \<noteq> []" using assms by (simp_all add: fresh_steps_def all_covered_def)
  then have c: "unat (queue_count q) = length q" using small_queue_ok [of q] by simp
  have last: "unat (queue_count q - 1) = length q - 1"
    using n c small_queue_ok [of q] by (simp add: unat_minus_one)
  have all_marked: "marked (test_start q name ident w now) i" if "i < length q" for i
    using that n c by (simp add: marked_def test_start_def low_flags_pending has_flag_low)
  show "test_ok covers (test_start q name ident w now)"
    using assms n c last all_marked
    by (auto simp: test_ok_def test_wf_def settled_def fresh_steps_def test_start_def low_flags_pending has_flag_low)
  show "verdicts (test_start q name ident w now) = []"
    by (simp add: verdicts_def test_start_def)
qed

lemma test_ok_results [simp]: "test_ok covers (t\<lparr>t_results := q\<rparr>) \<longleftrightarrow> test_ok covers t"
  by (simp add: test_ok_def test_wf_def settled_def marked_def)

lemma verdicts_results [simp]: "verdicts (t\<lparr>t_results := q\<rparr>) = verdicts t"
  by (simp add: verdicts_def)

context step_class
begin

lemma emu_run_ok:
  "emu_run ops t u \<Longrightarrow> test_ok covers t \<Longrightarrow> test_ok covers u \<and> verdicts u = verdicts t"
proof (induction rule: emu_run.induct)
  case (emu_run_iteration t u k u')
  then show ?case using iteration_verdict by fastforce
qed auto

end

section \<open>Serial tests run their steps in order\<close>

definition serial :: "test_step queue \<Rightarrow> bool" where
  "serial q \<longleftrightarrow> (\<forall>i < length q. \<not> ts_fork (q ! i))"

text \<open>
  Steps before the current one (at higher indices) have results and no mark, steps behind it were not
  started.
\<close>

definition in_order :: "emu_test \<Rightarrow> bool" where
  "in_order t \<longleftrightarrow> (\<forall>i < length (t_steps t).
     (t_step t < i \<longrightarrow> state_at t i = wlan_emu_tests_state_cmd_results \<and> \<not> marked t i) \<and>
     (i < t_step t \<longrightarrow> state_at t i = wlan_emu_tests_state_cmd_request))"

text \<open>The step the thread points to is the same one or the next one, and then the old one has results.\<close>

definition advances :: "emu_test \<Rightarrow> emu_test \<Rightarrow> bool" where
  "advances t t' \<longleftrightarrow> t_step t' = t_step t \<or>
     Suc (t_step t') = t_step t \<and> state_at t' (t_step t) = wlan_emu_tests_state_cmd_results"

lemma in_order_frame:
  assumes o: "in_order t" and len: "length (t_steps t') = length (t_steps t)" and st: "t_step t' = t_step t"
    and keep: "\<And>i. i < length (t_steps t) \<Longrightarrow> i \<noteq> t_step t \<Longrightarrow> \<not> waits (state_at t i) \<Longrightarrow> state_at t' i = state_at t i"
    and mark: "\<And>k. has_flag (t_pending t') k \<Longrightarrow> has_flag (t_pending t) k"
  shows "in_order t'"
  unfolding in_order_def len st
proof (intro allI impI conjI)
  fix i assume i: "i < length (t_steps t)"
  { assume g: "t_step t < i"
    then have a: "state_at t i = wlan_emu_tests_state_cmd_results" "\<not> marked t i"
      using o i by (simp_all add: in_order_def)
    then show "state_at t' i = wlan_emu_tests_state_cmd_results" using keep [OF i] g by (simp add: waits_def)
    show "\<not> marked t' i" using a(2) mark unfolding marked_def len by blast }
  { assume g: "i < t_step t"
    then have "state_at t i = wlan_emu_tests_state_cmd_request" using o i by (simp add: in_order_def)
    then show "state_at t' i = wlan_emu_tests_state_cmd_request" using keep [OF i] g by (simp add: waits_def) }
qed

lemma test_frame_kept:
  assumes f: "test_frame t t'" "t_current t = int (t_step t)"
    and i: "i < length (t_steps t)" "i \<noteq> t_step t" "\<not> waits (state_at t i)"
  shows "state_at t' i = state_at t i"
proof -
  have "\<not> int i = t_current t" using f(2) i(2) by simp
  with test_frame_step [OF f(1) i(1)] show ?thesis using i(3) by (rule step_kept_state)
qed

lemma timeout_frame_kept:
  assumes f: "timeout_frame t t'" and i: "i < length (t_steps t)" "\<not> waits (state_at t i)"
  shows "state_at t' i = state_at t i"
proof -
  have "step_kept False (step_at t i) (step_at t' i)" using f i(1) by (simp add: timeout_frame_def)
  then show ?thesis using i(2) step_kept_state by blast
qed

lemma in_order_move:
  assumes w: "at_work covers u" and o: "in_order u" and s: "\<not> ts_fork (step_at u (t_step u))"
    and r: "state_at u (t_step u) = wlan_emu_tests_state_cmd_results" "\<not> marked u (t_step u)"
    and m: "moved u t'"
  shows "in_order t' \<and> Suc (t_step t') = t_step u \<and> t_steps t' = t_steps u"
proof -
  note wf = at_work_wf [OF w]
  have t': "t' = u\<lparr>t_step := prev_index (length (t_steps u)) (t_step u),
      t_current := int (prev_index (length (t_steps u)) (t_step u))\<rparr>" and p: "t_pending u \<noteq> 0"
    using m s by (auto simp: moved_def)
  obtain k where k: "has_flag (t_pending u) k" using p by (metis mask_eq_zero_iff)
  let ?i = "length (t_steps u) - Suc k"
  have i: "?i < length (t_steps u)" "marked u ?i" using k wf(9) [OF k] by (auto simp: marked_def)
  then have "\<not> t_step u < ?i" "?i \<noteq> t_step u" using o r(2) by (auto simp: in_order_def)
  then have prev: "prev_index (length (t_steps u)) (t_step u) = t_step u - 1" "0 < t_step u"
    by (auto simp: prev_index_def)
  have "in_order t'"
    unfolding in_order_def
  proof (intro allI impI)
    fix i assume i: "i < length (t_steps t')"
    have "(t_step u < i \<longrightarrow> state_at u i = wlan_emu_tests_state_cmd_results \<and> \<not> marked u i) \<and>
      (i < t_step u \<longrightarrow> state_at u i = wlan_emu_tests_state_cmd_request)"
      using o i by (simp add: in_order_def t')
    moreover have "marked t' i = marked u i" by (simp add: t' marked_def)
    moreover have "i = t_step u \<or> t_step u < i" if "t_step t' < i" using that prev by (auto simp: t')
    moreover have "i < t_step u" if "i < t_step t'" using that prev by (auto simp: t')
    ultimately show "(t_step t' < i \<longrightarrow> state_at t' i = wlan_emu_tests_state_cmd_results \<and> \<not> marked t' i) \<and>
      (i < t_step t' \<longrightarrow> state_at t' i = wlan_emu_tests_state_cmd_request)"
      using r by (auto simp: t')
  qed
  then show ?thesis using prev by (simp add: t')
qed

lemma serial_same: "serial q \<Longrightarrow> length q' = length q \<Longrightarrow> (\<And>i. i < length q \<Longrightarrow> same_step (q ! i) (q' ! i)) \<Longrightarrow> serial q'"
  by (simp add: serial_def same_step_def)

lemma clear_pending_simps [simp]:
  "t_steps (clear_pending_step k t) = t_steps t" "t_step (clear_pending_step k t) = t_step t"
  "t_current (clear_pending_step k t) = t_current t"
  by (simp_all add: clear_pending_step_def)

context step_class
begin

lemma serial_iteration:
  assumes ok: "test_ok covers t" and ser: "serial (t_steps t)" and ord: "in_order t"
    and it: "test_iteration ops k t = Some (Thread_runs, t')"
  shows "in_order t' \<and> serial (t_steps t') \<and> advances t t'"
proof -
  let ?t = "heart_beat (k_now k) (k_later k) (trigger_step t)"
  note tr = trigger_ok [OF ok]
  have w: "at_work covers ?t" using heart_beat_ok [OF tr(1)] .
  note wf = at_work_wf [OF w]
  have ser1: "serial (t_steps ?t)"
    by (rule serial_same [OF ser]) (use tr in simp_all)
  have ord1: "in_order ?t"
    by (rule in_order_frame [OF ord]) (use tr in simp_all)
  have st: "t_step ?t = t_step t" using tr(2) by simp
  have nofork: "\<not> ts_fork (step_at ?t (t_step ?t))" using ser1 wf(5) by (simp add: serial_def)
  consider (message) "on_message ops (k_env k) ?t = Some (Thread_runs, t')"
    | (timeout) "on_timeout ops (k_env k) ?t = Some (Thread_runs, t')" | (idle) "t' = ?t"
    using it unfolding test_iteration_def Let_def by (metis option.inject prod.inject)
  then show ?thesis
  proof cases
    case message
    from on_message_ends [OF w this] show ?thesis
    proof (elim disjE conjE)
      assume f: "test_frame ?t t'"
      have "in_order t'"
        using test_frame_kept [OF f wf(4)]
        by (intro in_order_frame [OF ord1]) (simp_all add: test_frame_simps [OF f])
      moreover have "serial (t_steps t')"
        by (rule serial_same [OF ser1]) (use f step_kept_same [OF test_frame_step [OF f]] in \<open>simp_all add: test_frame_simps\<close>)
      ultimately show ?thesis by (simp add: advances_def test_frame_simps [OF f] st [simplified])
    next
      assume r: "state_at ?t (t_step ?t) = wlan_emu_tests_state_cmd_results"
        and m: "let u = clear_pending_step (ts_step_seq_num (step_at ?t (t_step ?t))) ?t
          in Thread_runs = Thread_exits \<and> t_pending u = 0 \<and> test_done_with u t' \<or>
             Thread_runs = Thread_runs \<and> moved u t' \<and> test_ok covers t'"
      let ?u = "clear_pending_step (ts_step_seq_num (step_at ?t (t_step ?t))) ?t"
      have m: "moved ?u t'" using m by (simp add: Let_def)
      have wu: "at_work covers ?u" by (rule clear_pending_ok [OF w r])
      have ou: "in_order ?u"
        by (rule in_order_frame [OF ord1]) (simp_all add: clear_pending_step_def has_flag_clear)
      have cu: "\<not> marked ?u (t_step ?u)"
        using clear_settled(2) [OF _ _ wf(5,2) r] wf(1,6) by (simp add: test_wf_def)
      have "in_order t' \<and> Suc (t_step t') = t_step ?u \<and> t_steps t' = t_steps ?u"
        by (rule in_order_move [OF wu ou _ _ cu m]) (use nofork r in simp_all)
      with ser1 r st show ?thesis by (simp add: advances_def)
    next
      assume "Thread_runs = Thread_exits"
      then show ?thesis by simp
    qed
  next
    case timeout
    from on_timeout_ends [OF w this] obtain u where f: "timeout_frame ?t u" and wu: "at_work covers u"
      and clr: "\<forall>i < length (t_steps u). state_at u i = wlan_emu_tests_state_cmd_results \<longrightarrow> \<not> marked u i"
      and e: "t' = u \<or> (state_at u (t_step u) = wlan_emu_tests_state_cmd_results \<or> ts_fork (step_at u (t_step u))) \<and> moved u t'"
      by auto
    note wfu = at_work_wf [OF wu]
    have same: "same_step (step_at ?t i) (step_at u i)" if "i < length (t_steps ?t)" for i
      using f that unfolding timeout_frame_def step_kept_def by blast
    have seru: "serial (t_steps u)"
      by (rule serial_same [OF ser1 timeout_frame_simps(4) [OF f] same])
    have ou: "in_order u"
      by (rule in_order_frame [OF ord1 timeout_frame_simps(4,1) [OF f] timeout_frame_kept [OF f]])
        (use f in \<open>auto simp: timeout_frame_def\<close>)
    have nf: "\<not> ts_fork (step_at u (t_step u))" using seru wfu(5) by (simp add: serial_def)
    have stu: "t_step u = t_step t" using st timeout_frame_simps(1) [OF f] by simp
    show ?thesis
    proof (cases "t' = u")
      case True
      with ou seru stu show ?thesis by (simp add: advances_def)
    next
      case False
      with e nf have m: "moved u t'" and r: "state_at u (t_step u) = wlan_emu_tests_state_cmd_results" by auto
      have "in_order t' \<and> Suc (t_step t') = t_step u \<and> t_steps t' = t_steps u"
        by (rule in_order_move [OF wu ou nf r _ m]) (use clr r wfu(5) in simp)
      with seru r stu show ?thesis by (simp add: advances_def)
    qed
  next
    case idle
    with ord1 ser1 st show ?thesis by (simp add: advances_def)
  qed
qed

lemma serial_run:
  "emu_run ops t u \<Longrightarrow> test_ok covers t \<Longrightarrow> serial (t_steps t) \<Longrightarrow> in_order t \<Longrightarrow>
     serial (t_steps u) \<and> in_order u"
proof (induction rule: emu_run.induct)
  case (emu_run_message t u mem m)
  then show ?case by (simp add: in_order_def marked_def)
next
  case (emu_run_iteration t u k u')
  have "test_ok covers u" using emu_run_ok [OF emu_run_iteration.hyps(1)] emu_run_iteration.prems by blast
  then show ?case using serial_iteration [OF _ _ _ emu_run_iteration.hyps(3)] emu_run_iteration by blast
qed auto

end

lemma test_start_in_order:
  assumes "fresh_steps covers q"
  shows "in_order (test_start q name ident w now)"
proof -
  have n: "length q < 31" "q \<noteq> []" "queue_ok q"
    using assms small_queue_ok [of q] by (simp_all add: fresh_steps_def all_covered_def)
  then have "unat (queue_count q - 1) = length q - 1" by (simp add: unat_minus_one)
  with n assms show ?thesis by (auto simp: in_order_def test_start_def fresh_steps_def)
qed

section \<open>What a test case reports\<close>

text \<open>
  C1. A test case reports exactly one verdict: after any run of its thread over freshly configured steps,
  an iteration either goes on without having reported anything, or ends the thread with done, when every
  step has results, or with fail, when a step aborted.
\<close>

theorem test_reports_once:
  assumes "fresh_steps modelled_class steps"
    and "emu_run (dispatch others) (test_start steps name ident w now) u"
    and "test_iteration (dispatch others) k u = Some (ts, t')"
  shows "ts = Thread_runs \<and> verdicts t' = [] \<or>
    ts = Thread_exits \<and>
      (verdicts t' = [Te_done] \<and> all_results (t_steps t') \<and>
         t_config_state t' = wlan_emu_tests_state_cmd_results \<or>
       verdicts t' = [Te_fail] \<and> (\<exists>s \<in> set (t_steps t'). ts_test_state s = wlan_emu_tests_state_cmd_abort) \<and>
         t_config_state t' = wlan_emu_tests_state_cmd_abort)"
proof -
  note st = test_start_ok [OF assms(1), of name ident w now]
  have "test_ok modelled_class u" "verdicts u = []"
    using di.emu_run_ok [OF assms(2) st(1)] st(2) by simp_all
  with di.iteration_verdict [OF this(1) assms(3)] show ?thesis
    by (auto simp: passes_def fails_def)
qed

text \<open>A script of a run: the messages that arrive and what each iteration meets.\<close>

datatype happening = Arrives wlan_emu_msg_data | Wakes wake

fun play :: "class_ops \<Rightarrow> happening list \<Rightarrow> emu_test \<Rightarrow> emu_test option" where
  "play ops [] t = Some t"
| "play ops (Arrives m # hs) t = play ops hs (t\<lparr>t_results := snd (queue_push True (t_results t) m)\<rparr>)"
| "play ops (Wakes k # hs) t =
     (if t_exit t then None
      else case test_iteration ops k t of
             Some (Thread_runs, t') \<Rightarrow> play ops hs t'
           | _ \<Rightarrow> None)"

lemma play_run: "play ops hs t = Some u \<Longrightarrow> emu_run ops t0 t \<Longrightarrow> emu_run ops t0 u"
proof (induction ops hs t rule: play.induct)
  case (3 ops k hs t)
  then obtain t' where it: "test_iteration ops k t = Some (Thread_runs, t')" "\<not> t_exit t" "play ops hs t' = Some u"
    by (auto split: if_splits option.splits prod.splits thread_state.splits)
  show ?case by (rule "3.IH") (use it emu_run_iteration [OF "3.prems"(2) it(2,1)] in auto)
qed (auto intro: emu_run_message)

text \<open>A test case of two steps: it waits for one second, then for two.\<close>

definition two_steps :: "test_step queue" where
  "two_steps =
     [(sample_step (P_timed_wait 2))\<lparr>ts_step_number := 2, ts_step_seq_num := 1,
        ts_test_state := wlan_emu_tests_state_cmd_request\<rparr>,
      (sample_step (P_timed_wait 1))\<lparr>ts_test_state := wlan_emu_tests_state_cmd_request\<rparr>]"

definition no_class :: class_ops where
  "no_class = \<lparr>co_execute = (\<lambda>_ _ _ _. None), co_timeout = (\<lambda>_ _ _ _. None), co_filter = (\<lambda>_ _ _ _ _. None)\<rparr>"

definition two_start :: emu_test where
  "two_start = test_start two_steps ''case'' ''1'' sample_world 100"

definition a_second :: wake where
  "a_second = \<lparr>k_now = 101, k_later = 101, k_wait = Wait_timed_out, k_env = (\<lambda>_. sample_environment)\<rparr>"

definition a_signal :: wake where
  "a_signal = a_second\<lparr>k_wait := Wait_signalled\<rparr>"

definition start_message :: wlan_emu_msg_data where
  "start_message = \<lparr>md_type = enum_code msg_types wlan_emu_msg_type_emu80211,
     md_u = U_emu80211 (enum_code emu80211_ops_types wlan_emu_emu80211_ops_type_tctrl)
              (Emu_tctrl (enum_code emu80211_ctrl_types wlan_emu_emu80211_ctrl_tstart) 1 0)\<rparr>"

text \<open>The thread starts a step, the control message comes back and executes it, and seconds go by.\<close>

definition two_script :: "happening list" where
  "two_script = [Wakes a_second, Arrives start_message, Wakes a_signal, Wakes a_second,
     Wakes a_second, Arrives start_message, Wakes a_signal, Wakes a_second]"

lemma two_steps_fresh: "fresh_steps modelled_class two_steps"
  by (auto simp: fresh_steps_def all_covered_def numbered_def two_steps_def sample_step_def modelled_class_def seq_no_def
      less_Suc_eq numeral_2_eq_2 nth_Cons')

lemma two_script_ends:
  "map_option (\<lambda>u. map_option (\<lambda>r. (fst r, verdicts (snd r))) (test_iteration (dispatch no_class) a_second u))
     (play (dispatch no_class) two_script two_start) = Some (Some (Thread_exits, [Te_done]))"
  by code_simp


lemma two_script_run:
  obtains u t' where "emu_run (dispatch no_class) two_start u"
    "test_iteration (dispatch no_class) a_second u = Some (Thread_exits, t')" "verdicts t' = [Te_done]"
proof -
  obtain u r where u: "play (dispatch no_class) two_script two_start = Some u"
      "test_iteration (dispatch no_class) a_second u = Some r" and r: "fst r = Thread_exits" "verdicts (snd r) = [Te_done]"
    using two_script_ends by auto
  have "emu_run (dispatch no_class) two_start u" using play_run [OF u(1) emu_run_start] .
  moreover have "test_iteration (dispatch no_class) a_second u = Some (Thread_exits, snd r)"
    using u(2) r(1) by (cases r) simp
  ultimately show ?thesis using r(2) that by blast
qed

theorem test_reports_once_witness:
  "\<exists>u t'. test_iteration (dispatch no_class) a_second u = Some (Thread_exits, t') \<and> verdicts t' = [Te_done] \<and>
     all_results (t_steps t')"
proof (rule two_script_run)
  fix u t'
  assume u: "emu_run (dispatch no_class) two_start u"
    "test_iteration (dispatch no_class) a_second u = Some (Thread_exits, t')" "verdicts t' = [Te_done]"
  show ?thesis
    using test_reports_once [OF two_steps_fresh u(1) [unfolded two_start_def] u(2)] u by auto
qed

section \<open>The order of the steps\<close>

text \<open>
  C2. A test case without forked steps runs its steps one after the other: in every state its thread
  reaches, the steps before the current one have results and are no longer pending, the steps behind it
  were not started, and an iteration stays at the current step or moves to the next one once it has
  results.
\<close>

theorem serial_steps_in_order:
  assumes "fresh_steps modelled_class steps" and "serial steps"
    and "emu_run (dispatch others) (test_start steps name ident w now) u"
  shows "in_order u \<and> (test_iteration (dispatch others) k u = Some (Thread_runs, t') \<longrightarrow> advances u t' \<and> in_order t')"
proof -
  let ?t = "test_start steps name ident w now"
  have t: "test_ok modelled_class ?t" "in_order ?t" "serial (t_steps ?t)"
    using test_start_ok [OF assms(1)] test_start_in_order [OF assms(1)] assms(2) by (simp_all add: test_start_def)
  from di.serial_run [OF assms(3) t(1,3,2)] di.emu_run_ok [OF assms(3) t(1)] show ?thesis
    using di.serial_iteration by blast
qed

lemma two_script_moves:
  "map_option (\<lambda>r. (fst r, t_step (snd r))) (case play (dispatch no_class) (take 3 two_script) two_start of
       None \<Rightarrow> None | Some u \<Rightarrow> test_iteration (dispatch no_class) a_second u) = Some (Thread_runs, 0)"
  by code_simp

theorem serial_steps_in_order_witness:
  "\<exists>u t'. test_iteration (dispatch no_class) a_second u = Some (Thread_runs, t') \<and> t_step t' = 0 \<and>
     in_order u \<and> advances u t' \<and> in_order t'"
proof -
  obtain u r where u: "play (dispatch no_class) (take 3 two_script) two_start = Some u"
    "test_iteration (dispatch no_class) a_second u = Some r" "fst r = Thread_runs" "t_step (snd r) = 0"
    using two_script_moves by (auto split: option.splits)
  then have it: "test_iteration (dispatch no_class) a_second u = Some (Thread_runs, snd r)" by (cases r) simp
  have "serial two_steps" by (auto simp: serial_def two_steps_def sample_step_def nth_Cons')
  from serial_steps_in_order [OF two_steps_fresh this play_run [OF u(1) emu_run_start, unfolded two_start_def]] it u(4)
  show ?thesis by blast
qed

section \<open>The search for a pending step\<close>

text \<open>
  C33. The search for the next step ends, except in one case: the current step is forked, a step is marked
  as pending, and every step has results. The counter of the loop over the steps is unsigned, so the loop
  never gives up and the thread hangs.
\<close>

theorem next_step_search_hangs_iff:
  assumes "test_wf covers t" and "get_current_step t = Some s"
  shows "get_next_pending_step t = None \<longleftrightarrow> ts_fork s \<and> t_pending t \<noteq> 0 \<and> all_results (t_steps t)"
proof -
  have len: "length (t_steps t) < 31" and num: "numbered (t_steps t)"
    using assms(1) by (simp_all add: test_wf_def all_covered_def)
  obtain i where i: "i < length (t_steps t)" "s = t_steps t ! i"
    using get_step_from_index_Some [of "t_steps t" "t_current t" s] assms(2) len by (auto simp: get_current_step_def)
  have seq: "seq_index (t_steps t) (ts_step_seq_num s) = of_nat i"
    using num i len by (simp add: numbered_def seq_index_of)
  show ?thesis
  proof (cases "ts_fork s \<and> t_pending t \<noteq> 0")
    case True
    then have "get_next_pending_step t = fork_search (t_steps t) (t_pending t) (of_nat i)"
      using assms(2) seq by (simp add: get_next_pending_step_def)
    with True fork_search_diverges [of "t_steps t" i "t_pending t"] fork_search_open [of "t_steps t" i "t_pending t"]
    show ?thesis using len i(1) by fastforce
  next
    case False
    then show ?thesis using assms(2) by (auto simp: get_next_pending_step_def Let_def)
  qed
qed

definition stuck_test :: emu_test where
  "stuck_test = (test_start [(sample_step (P_timed_wait 1))\<lparr>ts_fork := True,
     ts_test_state := wlan_emu_tests_state_cmd_results\<rparr>] ''case'' ''1'' sample_world 0)"

lemma stuck_test_facts:
  "test_wf modelled_class stuck_test" "get_current_step stuck_test = Some (t_steps stuck_test ! 0)"
  "ts_fork (t_steps stuck_test ! 0)" "t_pending stuck_test = 1" "all_results (t_steps stuck_test)"
proof -
  have p: "t_pending stuck_test = 1" by code_simp
  have one: "has_flag (1 :: u32) k \<Longrightarrow> k = 0" for k by (auto simp: has_flag_iff_bit bit_1_iff)
  have c: "t_current stuck_test = 0" "t_step stuck_test = 0" by code_simp+
  have s: "t_steps stuck_test = [(sample_step (P_timed_wait 1))\<lparr>ts_fork := True,
     ts_test_state := wlan_emu_tests_state_cmd_results\<rparr>]" by (simp add: stuck_test_def test_start_def)
  show "t_pending stuck_test = 1" by (rule p)
  show "test_wf modelled_class stuck_test"
    by (simp add: test_wf_def p c s all_covered_def numbered_def modelled_class_def sample_step_def seq_no_def)
      (use one in blast)
  show "get_current_step stuck_test = Some (t_steps stuck_test ! 0)" by code_simp
  show "ts_fork (t_steps stuck_test ! 0)" "all_results (t_steps stuck_test)" by (simp_all add: s all_results_def)
qed

theorem next_step_search_hangs_iff_witness: "get_next_pending_step stuck_test = None"
  using next_step_search_hangs_iff [OF stuck_test_facts(1,2)] stuck_test_facts(3-5) by simp

end
