(* ===== verification/Ui_Mgr.thy ===== *)
theory Ui_Mgr
  imports Test_Step
begin

text \<open>
  The UI manager of the gateway (\<open>src/ui/wlan_emu_ui_mgr.cpp\<close>): its signals, the download of a test
  configuration, the upload of results and the reports to the controller. The state keeps the strings
  of the class, the pending signals, the queue of test cases and the \<open>world\<close> of \<open>Test_Step\<close>. What the
  outside answers is a record; the environment of the services of \<open>Test_Step\<close> is one per call.
\<close>

section \<open>State\<close>

record test_case =
  tc_coverage :: int
  tc_type :: wlan_emu_test_type
  tc_state :: wlan_emu_tests_state
  tc_name :: string
  tc_id :: string
  tc_steps :: "test_step queue"

text \<open>
  \<open>u_bound\<close> is whether the sockets of the signals were opened and \<open>u_pending\<close> counts the datagrams waiting
  in each of them. \<open>u_res_open\<close> is whether the list of result files is open. \<open>u_removed\<close> logs the steps
  that were removed, \<open>u_calls\<close> counts the calls that were given an environment, \<open>u_reports\<close> logs each
  report the manager was asked for with whether it was posted.
\<close>

record ui_mgr =
  u_tda_url :: string
  u_out_file_list :: string
  u_interface :: string
  u_version :: string
  u_subdoc_name :: string
  u_test_config_file :: string
  u_res_output_file :: string
  u_res_open :: bool
  u_bound :: bool
  u_pending :: "nat list"
  u_cases :: "test_case queue"
  u_log_offset :: nat
  u_reboot_executed :: bool
  u_simulated :: int
  u_last_executed_step_num :: u32
  u_paused_logging_steps :: "u32 list"
  u_removed :: "test_step list"
  u_calls :: nat
  u_reports :: "(tc_endpoint_type \<times> bool) list"
  u_world :: world

text \<open>
  \<open>ue_print\<close> prints an object of string members, \<open>ue_decode\<close> is the decoding of a configuration: its
  result code with the state it leaves. \<open>ue_reboot_url\<close> is the file of the reboot address (\<open>None\<close>: not
  there, \<open>Some None\<close>: no line in it). \<open>ue_select\<close> is whether \<open>select\<close> returns without an error.
\<close>

record ui_env =
  ue_env :: "nat \<Rightarrow> environment"
  ue_mac :: string
  ue_print :: "(string \<times> string) list \<Rightarrow> string"
  ue_decode :: "string \<Rightarrow> ui_mgr \<Rightarrow> int \<times> ui_mgr"
  ue_curl_get :: "string \<Rightarrow> bool"
  ue_open_append :: bool
  ue_reboot_url :: "string option option"
  ue_log_length :: "nat option"
  ue_select :: bool

definition set_ui_error :: "int \<Rightarrow> ui_mgr \<Rightarrow> ui_mgr" where
  "set_ui_error e u = u\<lparr>u_world := (u_world u)\<lparr>w_error := e\<rparr>\<rparr>"

text \<open>The error code that is kept when a function that failed has set one.\<close>

definition default_ui_error :: "int \<Rightarrow> ui_mgr \<Rightarrow> ui_mgr" where
  "default_ui_error e u = (if w_error (u_world u) = ENONE then set_ui_error e u else u)"

definition ui_effect :: "effect \<Rightarrow> ui_mgr \<Rightarrow> ui_mgr" where
  "ui_effect e u = u\<lparr>u_world := add_fx e (u_world u)\<rparr>"

text \<open>A call that gets the next environment.\<close>

definition on_world :: "ui_env \<Rightarrow> (environment \<Rightarrow> world \<Rightarrow> int \<times> world) \<Rightarrow> ui_mgr \<Rightarrow> int \<times> ui_mgr" where
  "on_world ue f u =
     (case f (ue_env ue (u_calls u)) (u_world u) of (rc, w) \<Rightarrow> (rc, u\<lparr>u_world := w, u_calls := Suc (u_calls u)\<rparr>))"

section \<open>Signals\<close>

text \<open>
  A signal is a datagram to the socket of its type. Before the first wait the sockets are not open, and
  the datagram is lost.
\<close>

definition sig_index :: "wlan_emu_sig_type \<Rightarrow> nat" where
  "sig_index s = position sig_types s"

definition send_signal :: "wlan_emu_sig_type \<Rightarrow> ui_mgr \<Rightarrow> ui_mgr" where
  "send_signal s u =
     (if u_bound u then u\<lparr>u_pending := (u_pending u)[sig_index s := Suc (u_pending u ! sig_index s)]\<rparr> else u)"

definition io_prep :: "ui_mgr \<Rightarrow> ui_mgr" where
  "io_prep u = u\<lparr>u_bound := True\<rparr>"

text \<open>The loop over the descriptors: the first with a datagram, in the order of the types.\<close>

fun first_pending :: "nat list \<Rightarrow> nat option" where
  "first_pending [] = None"
| "first_pending (n # ns) = (if n \<noteq> 0 then Some 0 else map_option Suc (first_pending ns))"

text \<open>
  The wait for a signal; \<open>None\<close> when it blocks. One datagram of the signalled type is read. After an
  error of \<open>select\<close> the type is the one behind the last.
\<close>

definition io_wait :: "ui_env \<Rightarrow> ui_mgr \<Rightarrow> (wlan_emu_sig_type \<times> ui_mgr) option" where
  "io_wait ue u =
     (let u = io_prep u;
          u = (if u_reboot_executed u then send_signal wlan_emu_sig_type_input (u\<lparr>u_reboot_executed := False\<rparr>) else u)
      in if \<not> ue_select ue then Some (wlan_emu_sig_type_max, u)
         else (case first_pending (u_pending u) of
                 None \<Rightarrow> None
               | Some i \<Rightarrow> Some (sig_types ! i, u\<lparr>u_pending := (u_pending u)[i := u_pending u ! i - 1]\<rparr>)))"

definition signal_test_done :: "int \<Rightarrow> ui_mgr \<Rightarrow> ui_mgr" where
  "signal_test_done coverage u =
     (if coverage = 1 then send_signal wlan_emu_sig_type_coverage_1 u
      else if coverage = 2 then send_signal wlan_emu_sig_type_coverage_2 u
      else if coverage = 3 then send_signal wlan_emu_sig_type_coverage_3 u
      else if coverage = 4 then send_signal wlan_emu_sig_type_coverage_4 u
      else if coverage = 5 then send_signal wlan_emu_sig_type_coverage_5 u
      else u)"

section \<open>Downloads\<close>

text \<open>A local address is copied like a file; a download that fails leaves the opened file behind.\<close>

definition https_get_file :: "ui_env \<Rightarrow> string \<Rightarrow> string \<Rightarrow> environment \<Rightarrow> world \<Rightarrow> int \<times> world" where
  "https_get_file ue url output_file env w =
     (if w_local_host w then
        (case copy_file (env_file env url) (env_open_w env output_file) 0 of
           (rc, copied) \<Rightarrow>
             if rc \<noteq> RETURN_OK then (RETURN_ERR, w\<lparr>w_error := EFCOPY\<rparr>)
             else (RETURN_OK, case copied of None \<Rightarrow> w | Some c \<Rightarrow> add_fx (Fx_write output_file c) w))
      else if \<not> env_open_w env output_file then (RETURN_ERR, w\<lparr>w_error := EFOPEN\<rparr>)
      else if \<not> env_curl_init env then (RETURN_ERR, w\<lparr>w_error := ECURLGET\<rparr>)
      else if ue_curl_get ue url then (RETURN_OK, add_fx (Fx_get url output_file) w)
      else (RETURN_ERR, w\<lparr>w_error := ECURLGET\<rparr>))"

text \<open>The name behind the last slash, printed into the caller's buffer of 64 bytes.\<close>

definition get_file_name_from_url :: "string \<Rightarrow> environment \<Rightarrow> world \<Rightarrow> (string option) \<times> world" where
  "get_file_name_from_url str env w =
     (if \<not> env_http_info env then (None, w\<lparr>w_error := ECURLGET\<rparr>)
      else case get_last_substring_after_slash (Some str) 64 (w_error w) of
             (rc, name, err) \<Rightarrow>
               if rc \<noteq> RETURN_OK then (None, w\<lparr>w_error := err\<rparr>)
               else (map_option (snprintf_store 64) name, w\<lparr>w_error := err\<rparr>))"

definition decode_config_file :: "ui_env \<Rightarrow> ui_mgr \<Rightarrow> int \<times> ui_mgr" where
  "decode_config_file ue u =
     (if u_test_config_file u = [] then (RETURN_ERR, u)
      else case read_config_file (ue_env ue (u_calls u)) (u_test_config_file u) of
             (rc, raw_data) \<Rightarrow>
               let u = u\<lparr>u_calls := Suc (u_calls u)\<rparr>
               in (case raw_data of
                     None \<Rightarrow> (RETURN_ERR, u)
                   | Some d \<Rightarrow>
                       (case ue_decode ue d u of
                          (rc, u) \<Rightarrow> if rc < 0 then (RETURN_ERR, u) else (RETURN_OK, u))))"

text \<open>A file of a step: its address is replaced by the path of the downloaded file, printed into \<open>n\<close> bytes.\<close>

definition download_file :: "ui_env \<Rightarrow> nat \<Rightarrow> string \<Rightarrow> environment \<Rightarrow> world \<Rightarrow> (int \<times> string) \<times> world" where
  "download_file ue n input env w =
     (if input = [] then ((RETURN_ERR, input), w\<lparr>w_error := EFPRESENCE\<rparr>)
      else case get_file_name_from_url input env w of
             (None, w) \<Rightarrow> ((RETURN_ERR, input), if w_error w = ENONE then w\<lparr>w_error := EDNLDTSTRESFILE\<rparr> else w)
           | (Some file_name, w) \<Rightarrow>
               let download = snprintf_store 128 (''/tmp/cci_res/'' @ file_name);
                   url = snprintf_store 256 (w_server_address w @ input)
               in if \<not> env_http_info env then ((RETURN_ERR, input), w\<lparr>w_error := EDNLDTSTRESFILE\<rparr>)
                  else (case https_get_file ue url download env w of
                          (rc, w) \<Rightarrow>
                            if rc \<noteq> RETURN_OK then ((RETURN_ERR, input), w)
                            else if n \<le> length download
                            then ((RETURN_ERR, snprintf_store n download), w\<lparr>w_error := ESNPRINTF\<rparr>)
                            else ((RETURN_OK, download), w)))"

text \<open>The files of the modelled classes; a station's file is \<open>None\<close> here, its class is not modelled.\<close>

definition step_file :: "step_param \<Rightarrow> string option" where
  "step_file p = (case p of P_radio f \<Rightarrow> Some f | P_vap f \<Rightarrow> Some f | P_dml_reset f \<Rightarrow> Some f
     | P_config_onewifi f \<Rightarrow> Some f | _ \<Rightarrow> None)"

definition with_step_file :: "step_param \<Rightarrow> string \<Rightarrow> step_param" where
  "with_step_file p g = (case p of P_radio f \<Rightarrow> P_radio g | P_vap f \<Rightarrow> P_vap g | P_dml_reset f \<Rightarrow> P_dml_reset g
     | P_config_onewifi f \<Rightarrow> P_config_onewifi g | _ \<Rightarrow> p)"

definition download_step_param_config :: "ui_env \<Rightarrow> test_step \<Rightarrow> environment \<Rightarrow> world \<Rightarrow> (int \<times> test_step) \<times> world" where
  "download_step_param_config ue s env w =
     (case step_file (ts_param s) of
        None \<Rightarrow> ((RETURN_OK, s), w)
      | Some f \<Rightarrow>
          (case download_file ue 128 f env w of
             ((rc, g), w) \<Rightarrow> ((if rc \<noteq> RETURN_OK then RETURN_ERR else RETURN_OK, s\<lparr>ts_param := with_step_file (ts_param s) g\<rparr>), w)))"


text \<open>
  The downloads of a test case go through its queue by index, the last step first; a step that fails
  keeps what was written to its file name.
\<close>

fun download_steps :: "ui_env \<Rightarrow> nat \<Rightarrow> nat \<Rightarrow> test_step queue \<Rightarrow> ui_mgr \<Rightarrow> (int \<times> test_step queue) \<times> ui_mgr" where
  "download_steps ue i 0 q u = ((RETURN_OK, q), u)"
| "download_steps ue i (Suc n) q u =
     (case download_step_param_config ue (q ! i) (ue_env ue (u_calls u)) (u_world u) of
        ((rc, s), w) \<Rightarrow>
          let q = q[i := s]; u = u\<lparr>u_world := w, u_calls := Suc (u_calls u)\<rparr>
          in if rc \<noteq> RETURN_OK then ((RETURN_ERR, q), u) else download_steps ue (Suc i) n q u)"

fun download_cases :: "ui_env \<Rightarrow> nat \<Rightarrow> nat \<Rightarrow> ui_mgr \<Rightarrow> int \<times> ui_mgr" where
  "download_cases ue i 0 u = (RETURN_OK, u)"
| "download_cases ue i (Suc n) u =
     (let cov = u_cases u ! i
      in if queue_count (tc_steps cov) = 0 then (RETURN_ERR, u)
         else (case download_steps ue 0 (length (tc_steps cov)) (tc_steps cov) u of
                 ((rc, q), u) \<Rightarrow>
                   let u = u\<lparr>u_cases := (u_cases u)[i := cov\<lparr>tc_steps := q\<rparr>]\<rparr>
                   in if rc \<noteq> RETURN_OK then (RETURN_ERR, u) else download_cases ue (Suc i) n u))"

definition download_test_files :: "ui_env \<Rightarrow> ui_mgr \<Rightarrow> int \<times> ui_mgr" where
  "download_test_files ue u =
     (if queue_count (u_cases u) = 0 then (RETURN_ERR, u) else download_cases ue 0 (length (u_cases u)) u)"

text \<open>A local address is what follows the first \<open>localhost\<close> in the configured one, which is overwritten with it.\<close>

definition local_host_url :: "ui_mgr \<Rightarrow> ui_mgr" where
  "local_host_url u =
     (case strstr (take 127 (u_tda_url u)) ''localhost'' of
        Some r \<Rightarrow> u\<lparr>u_tda_url := snprintf_store 128 (drop 9 r), u_world := (u_world u)\<lparr>w_local_host := True\<rparr>\<rparr>
      | None \<Rightarrow> u\<lparr>u_world := (u_world u)\<lparr>w_local_host := False\<rparr>\<rparr>)"

definition process_input_request :: "ui_env \<Rightarrow> ui_mgr \<Rightarrow> int \<times> ui_mgr" where
  "process_input_request ue u =
     (let u = local_host_url u
      in case get_file_name_from_url (u_tda_url u) (ue_env ue (u_calls u)) (u_world u) of
           (None, w) \<Rightarrow> (RETURN_ERR, default_ui_error EFREAD (u\<lparr>u_world := w, u_calls := Suc (u_calls u)\<rparr>))
         | (Some file_name, w) \<Rightarrow>
             let u = u\<lparr>u_world := w, u_calls := Suc (u_calls u),
                   u_test_config_file := snprintf_store 128 (''/tmp/cci_res/'' @ file_name)\<rparr>
             in if \<not> env_http_info (ue_env ue (u_calls u)) then (RETURN_ERR, set_ui_error ECURLGET u)
                else (case on_world ue (https_get_file ue (u_tda_url u) (u_test_config_file u)) u of
                        (rc, u) \<Rightarrow>
                          if rc \<noteq> RETURN_OK then (RETURN_ERR, u)
                          else (case decode_config_file ue u of
                                  (rc, u) \<Rightarrow>
                                    if rc \<noteq> RETURN_OK then (RETURN_ERR, default_ui_error EWEBDECODE u)
                                    else (case download_test_files ue u of
                                            (rc, u) \<Rightarrow>
                                              if rc \<noteq> RETURN_OK then (RETURN_ERR, default_ui_error EDNLDTSTRESFILE u)
                                              else (RETURN_OK, u)))))"

definition analyze_request :: "ui_env \<Rightarrow> ui_mgr \<Rightarrow> int \<times> ui_mgr" where
  "analyze_request ue u =
     (case process_input_request ue u of
        (rc, u) \<Rightarrow>
          if rc = RETURN_ERR then (RETURN_ERR, u)
          else if u_res_open u then (RETURN_OK, u)
          else let u = u\<lparr>u_res_output_file := snprintf_store 128 (''/tmp'' @ u_out_file_list u)\<rparr>
               in if \<not> ue_open_append ue then (RETURN_ERR, u) else (RETURN_OK, u\<lparr>u_res_open := True\<rparr>))"

section \<open>Results\<close>

definition CCI_LOG_FILE :: string where
  "CCI_LOG_FILE = ''/tmp/cciLog''"

text \<open>
  The log of a test case: a copy of it is uploaded and its name is written to the list of result files,
  which may not be open: \<open>None\<close> is the write through the null pointer.
\<close>

definition record_log :: "string \<Rightarrow> ui_mgr \<Rightarrow> (int \<times> ui_mgr) option" where
  "record_log log_copy u =
     (case get_last_substring_after_slash (Some log_copy) 128 (w_error (u_world u)) of
        (rc, name, err) \<Rightarrow>
          if rc \<noteq> RETURN_OK then Some (RETURN_ERR, set_ui_error err u)
          else if \<not> u_res_open u then None
          else Some (RETURN_OK, ui_effect (Fx_remove log_copy)
                 (case name of None \<Rightarrow> u | Some n \<Rightarrow> ui_effect (Fx_result_line n) u)))"

definition send_log :: "environment \<Rightarrow> string \<Rightarrow> ui_mgr \<Rightarrow> (int \<times> ui_mgr) option" where
  "send_log env log_copy u =
     (case upload_file_to_server env log_copy (w_remote_results_loc (u_world u)) (u_world u) of
        (rc, w) \<Rightarrow>
          if rc \<noteq> RETURN_OK then Some (RETURN_ERR, set_ui_error EPUSHTSTRESFILE (u\<lparr>u_world := w\<rparr>))
          else record_log log_copy (u\<lparr>u_world := w\<rparr>))"

definition upload_cci_log :: "environment \<Rightarrow> test_case \<Rightarrow> ui_mgr \<Rightarrow> (int \<times> ui_mgr) option" where
  "upload_cci_log env tc u =
     (if tc_id tc = [] \<or> tc_name tc = [] then Some (RETURN_ERR, set_ui_error EPUSHTSTRESFILE u)
      else case env_time env of
             None \<Rightarrow> Some (RETURN_ERR, set_ui_error ETIMESTAMP u)
           | Some timestamp \<Rightarrow>
               let log_copy = snprintf_store 128 (''/tmp/'' @ tc_id tc @ ''_'' @ timestamp @ ''_'' @ tc_name tc @ ''_CCILOG.txt'')
               in (case copy_file (env_file env CCI_LOG_FILE) (env_open_w env log_copy) (u_log_offset u) of
                     (rc, copied) \<Rightarrow>
                       if rc \<noteq> RETURN_OK then Some (RETURN_ERR, set_ui_error EFCOPY u)
                       else send_log env log_copy (case copied of None \<Rightarrow> u | Some c \<Rightarrow> ui_effect (Fx_write log_copy c) u)))"

text \<open>Every test case is popped, the oldest first; a log that cannot be uploaded is only reported.\<close>

fun upload_logs :: "ui_env \<Rightarrow> nat \<Rightarrow> ui_mgr \<Rightarrow> ui_mgr option" where
  "upload_logs ue 0 u = Some u"
| "upload_logs ue (Suc n) u =
     (case queue_pop (u_cases u) of
        (None, q) \<Rightarrow> Some u
      | (Some tc, q) \<Rightarrow>
          (case upload_cci_log (ue_env ue (u_calls u)) tc (u\<lparr>u_cases := q, u_calls := Suc (u_calls u)\<rparr>) of
             None \<Rightarrow> None
           | Some (rc, u) \<Rightarrow> upload_logs ue n u))"

definition upload_results :: "ui_env \<Rightarrow> ui_mgr \<Rightarrow> (int \<times> ui_mgr) option" where
  "upload_results ue u =
     (if queue_count (u_cases u) = 0 then Some (RETURN_ERR, u\<lparr>u_res_open := False\<rparr>)
      else case upload_logs ue (length (u_cases u)) u of
             None \<Rightarrow> None
           | Some u \<Rightarrow>
               Some (on_world ue (\<lambda>env w. upload_file_to_server env (u_res_output_file u) (w_remote_results_loc w) w)
                       (u\<lparr>u_res_open := False\<rparr>)))"


section \<open>Reports to the controller\<close>

definition endpoint_path :: "tc_endpoint_type \<Rightarrow> string" where
  "endpoint_path t =
     (case t of
        tc_endpoint_type_heartbeat \<Rightarrow> ''/heartbeat''
      | tc_endpoint_type_complete \<Rightarrow> ''/complete''
      | tc_endpoint_type_fail \<Rightarrow> ''/fail''
      | tc_endpoint_type_factory_reset \<Rightarrow> ''/factory_reset''
      | tc_endpoint_type_reboot \<Rightarrow> ''reboot''
      | tc_endpoint_type_pause \<Rightarrow> ''/pause''
      | tc_endpoint_type_resume \<Rightarrow> ''/resume''
      | tc_endpoint_type_conn_request \<Rightarrow> ''/real_client_conn_request''
      | tc_endpoint_type_disconn_request \<Rightarrow> ''/real_client_disconn_request''
      | tc_endpoint_type_iperf_request \<Rightarrow> ''/iperf_request'')"

text \<open>
  The address of a report; \<open>None\<close> when the file of the reboot address has no line, which ends the post
  without an error. A file that cannot be opened leaves the address empty.
\<close>

definition result_url :: "ui_env \<Rightarrow> tc_endpoint_type \<Rightarrow> world \<Rightarrow> string option" where
  "result_url ue t w =
     (if t = tc_endpoint_type_reboot
      then (case ue_reboot_url ue of
              None \<Rightarrow> Some []
            | Some None \<Rightarrow> None
            | Some (Some line) \<Rightarrow> Some (snprintf_store 128 (line @ endpoint_path t)))
      else Some (snprintf_store 128 (w_server_address w @ endpoint_path t)))"

definition post_res_file :: string where
  "post_res_file = ''/tmp/cci_post_file.json''"

definition cci_post_result_to_tda :: "ui_env \<Rightarrow> tc_endpoint_type \<Rightarrow> string \<Rightarrow> environment \<Rightarrow> world \<Rightarrow> int \<times> world" where
  "cci_post_result_to_tda ue t str env w =
     (case result_url ue t w of
        None \<Rightarrow> (RETURN_OK, w)
      | Some url \<Rightarrow>
          if \<not> env_open_w env post_res_file then (RETURN_ERR, w\<lparr>w_error := EFOPEN\<rparr>)
          else let w = add_fx (Fx_write post_res_file str) w
               in if \<not> env_http_info env then (RETURN_ERR, w\<lparr>w_error := ECURLPOST\<rparr>)
                  else (case https_post_file env url post_res_file w of
                          (rc, w) \<Rightarrow> (if rc \<noteq> RETURN_OK then RETURN_ERR else RETURN_OK, w)))"

text \<open>The document every report consists of, and its post.\<close>

definition report_document :: "ui_env \<Rightarrow> string \<Rightarrow> string \<Rightarrow> string \<Rightarrow> string \<Rightarrow> string" where
  "report_document ue result_file status error_code timestamp =
     ue_print ue [(''cm_mac'', ue_mac ue), (''result_file'', result_file), (''status'', status),
       (''error_code'', error_code), (''timestamp'', timestamp)]"

definition post_report :: "ui_env \<Rightarrow> tc_endpoint_type \<Rightarrow> string \<Rightarrow> string \<Rightarrow> string \<Rightarrow> environment \<Rightarrow> world \<Rightarrow> int \<times> world" where
  "post_report ue t result_file status error_code env w =
     (case env_time env of
        None \<Rightarrow> (RETURN_ERR, w)
      | Some timestamp \<Rightarrow>
          (case cci_post_result_to_tda ue t (report_document ue result_file status error_code timestamp) env w of
             (rc, w) \<Rightarrow> (if rc \<noteq> RETURN_OK then RETURN_ERR else RETURN_OK, w)))"

text \<open>
  With a local host nothing is posted, and the report succeeds. The log of the reports says which were
  posted: those that got as far as the post and whose post succeeded.
\<close>

definition log_report :: "tc_endpoint_type \<Rightarrow> bool \<Rightarrow> ui_mgr \<Rightarrow> ui_mgr" where
  "log_report t posted u = u\<lparr>u_reports := u_reports u @ [(t, posted)]\<rparr>"

definition report_to_tda :: "ui_env \<Rightarrow> tc_endpoint_type \<Rightarrow> string \<Rightarrow> string \<Rightarrow> string \<Rightarrow> ui_mgr \<Rightarrow> int \<times> ui_mgr" where
  "report_to_tda ue t result_file status error_code u =
     (if w_local_host (u_world u) then (RETURN_OK, log_report t False u)
      else case on_world ue (post_report ue t result_file status error_code) u of
             (rc, u) \<Rightarrow> (rc, log_report t (rc = RETURN_OK) u))"

definition cci_report_resume_to_tda :: "ui_env \<Rightarrow> ui_mgr \<Rightarrow> int \<times> ui_mgr" where
  "cci_report_resume_to_tda ue u = report_to_tda ue tc_endpoint_type_resume (u_out_file_list u) ''resume'' ''0'' u"

definition cci_report_complete_to_tda :: "ui_env \<Rightarrow> ui_mgr \<Rightarrow> int \<times> ui_mgr" where
  "cci_report_complete_to_tda ue u = report_to_tda ue tc_endpoint_type_complete (u_out_file_list u) ''complete'' ''0'' u"

definition cci_report_heartbeat_to_tda :: "ui_env \<Rightarrow> ui_mgr \<Rightarrow> int \<times> ui_mgr" where
  "cci_report_heartbeat_to_tda ue u = report_to_tda ue tc_endpoint_type_heartbeat ''NA'' ''heartbeat'' ''0'' u"

text \<open>The report of a reboot is posted with a local host as well, but not without a line in the file of its address.\<close>

definition cci_report_reboot_to_tda :: "ui_env \<Rightarrow> ui_mgr \<Rightarrow> int \<times> ui_mgr" where
  "cci_report_reboot_to_tda ue u =
     (case on_world ue (post_report ue tc_endpoint_type_reboot ''NA'' ''running'' ''1'') u of
        (rc, v) \<Rightarrow>
          (rc, log_report tc_endpoint_type_reboot
                 (rc = RETURN_OK \<and> result_url ue tc_endpoint_type_reboot (u_world u) \<noteq> None) v))"

text \<open>The queues of the test cases and of their steps are emptied from the oldest element on.\<close>

fun remove_steps :: "nat \<Rightarrow> test_step queue \<Rightarrow> test_step list" where
  "remove_steps 0 q = []"
| "remove_steps (Suc n) q = (case queue_pop q of (None, q) \<Rightarrow> [] | (Some s, q) \<Rightarrow> s # remove_steps n q)"

fun remove_cases :: "nat \<Rightarrow> ui_mgr \<Rightarrow> ui_mgr" where
  "remove_cases 0 u = u"
| "remove_cases (Suc n) u =
     (case queue_pop (u_cases u) of
        (None, q) \<Rightarrow> remove_cases n u
      | (Some tc, q) \<Rightarrow>
          remove_cases n (u\<lparr>u_cases := q, u_removed := u_removed u @ remove_steps (length (tc_steps tc)) (tc_steps tc)\<rparr>))"

definition cci_report_failure_to_tda :: "ui_env \<Rightarrow> ui_mgr \<Rightarrow> int \<times> ui_mgr" where
  "cci_report_failure_to_tda ue u =
     (case report_to_tda ue tc_endpoint_type_fail (u_out_file_list u) ''fail'' (show_int (w_error (u_world u))) u of
        (rc, u) \<Rightarrow>
          if rc \<noteq> RETURN_OK then (RETURN_ERR, u)
          else (RETURN_OK, remove_cases (length (u_cases u)) u))"

text \<open>The configuration of a test that goes on after the reboot names the list of results.\<close>

definition REBOOT_STEP_CONFIG :: string where
  "REBOOT_STEP_CONFIG = ''/nvram/upgrade_step_config.json''"

definition paused_result_file :: "ui_env \<Rightarrow> ui_mgr \<Rightarrow> string" where
  "paused_result_file ue u =
     (if env_present (ue_env ue (u_calls u)) REBOOT_STEP_CONFIG then u_out_file_list u else ''NA'')"

definition cci_report_pause_to_tda :: "ui_env \<Rightarrow> ui_mgr \<Rightarrow> int \<times> ui_mgr" where
  "cci_report_pause_to_tda ue u =
     (case report_to_tda ue tc_endpoint_type_pause (paused_result_file ue u) ''pause'' ''0'' u of
        (rc, u) \<Rightarrow>
          if rc \<noteq> RETURN_OK then (RETURN_ERR, u)
          else (RETURN_OK, remove_cases (length (u_cases u)) u))"

section \<open>The address file and the log\<close>

text \<open>\<open>std::string::find\<close>: what precedes the first occurrence and the rest from it on.\<close>

fun find_split :: "string \<Rightarrow> string \<Rightarrow> (string \<times> string) option" where
  "find_split pat [] = (if pat = [] then Some ([], []) else None)"
| "find_split pat (c # s) =
     (if take (length pat) (c # s) = pat then Some ([], c # s)
      else map_option (\<lambda>(p, r). (c # p, r)) (find_split pat s))"

text \<open>Scheme and host of an address, with the slash behind them.\<close>

definition url_base :: "string \<Rightarrow> string option" where
  "url_base url =
     (case find_split ''://'' url of
        None \<Rightarrow> None
      | Some (scheme, r) \<Rightarrow>
          (case find_split ''/'' (drop 3 r) of
             None \<Rightarrow> None
           | Some (host, _) \<Rightarrow> Some (scheme @ ''://'' @ host @ ''/'')))"

definition reboot_url_file :: string where
  "reboot_url_file = ''/nvram/cci_reboot_url_file.txt''"

definition update_tda_url_to_file :: "ui_env \<Rightarrow> ui_mgr \<Rightarrow> int \<times> ui_mgr" where
  "update_tda_url_to_file ue u =
     (case url_base (u_tda_url u) of
        None \<Rightarrow> (RETURN_ERR, u)
      | Some base \<Rightarrow>
          let env = ue_env ue (u_calls u); u = u\<lparr>u_calls := Suc (u_calls u)\<rparr>
          in if \<not> env_open_w env reboot_url_file then (RETURN_ERR, u)
             else (RETURN_OK, ui_effect (Fx_write reboot_url_file base) u))"

definition update_log_file_offset :: "ui_env \<Rightarrow> ui_mgr \<Rightarrow> ui_mgr" where
  "update_log_file_offset ue u = (case ue_log_length ue of None \<Rightarrow> u | Some n \<Rightarrow> u\<lparr>u_log_offset := n\<rparr>)"

end
