(* ===== verification/Gateway.thy ===== *)
theory Gateway
  imports Ui_Mgr Test_Runs
begin

text \<open>
  The gateway process (\<open>src/gateway_cci/wlan_emu.cpp\<close>): its state machine over the signals of the UI
  manager, the start of the test cases, and the data model through which a test is requested.
\<close>

section \<open>State\<close>

datatype wlan_emu_dml_tests_state =
    wlan_emu_dml_tests_state_idle
  | wlan_emu_dml_tests_state_running
  | wlan_emu_dml_tests_state_complete_success
  | wlan_emu_dml_tests_state_complete_failure

record gateway =
  g_state :: wlan_emu_tests_state
  g_dml :: wlan_emu_dml_tests_state
  g_ui :: ui_mgr

text \<open>
  How the thread of a test case ends: it reports that the test is done or failed, it exits without a
  report, or it could not be started. \<open>None\<close> is a thread that never ends, for which the join waits.
\<close>

datatype test_outcome = Reports_done | Reports_fail | Exits_silently | Not_started

record gateway_env =
  ge_ui :: ui_env
  ge_agents :: bool
  ge_run :: "nat \<Rightarrow> test_case \<Rightarrow> test_outcome option"

definition update_state_io_wait_done :: "wlan_emu_sig_type \<Rightarrow> wlan_emu_tests_state" where
  "update_state_io_wait_done val =
     (case val of
        wlan_emu_sig_type_fail \<Rightarrow> wlan_emu_tests_state_cmd_abort
      | wlan_emu_sig_type_max \<Rightarrow> wlan_emu_tests_state_cmd_abort
      | wlan_emu_sig_type_input \<Rightarrow> wlan_emu_tests_state_cmd_request
      | wlan_emu_sig_type_analysis \<Rightarrow> wlan_emu_tests_state_cmd_start
      | wlan_emu_sig_type_coverage_1 \<Rightarrow> wlan_emu_tests_state_cmd_results
      | wlan_emu_sig_type_coverage_2 \<Rightarrow> wlan_emu_tests_state_cmd_results
      | wlan_emu_sig_type_coverage_3 \<Rightarrow> wlan_emu_tests_state_cmd_results
      | wlan_emu_sig_type_coverage_4 \<Rightarrow> wlan_emu_tests_state_cmd_results
      | wlan_emu_sig_type_coverage_5 \<Rightarrow> wlan_emu_tests_state_cmd_results
      | wlan_emu_sig_type_results \<Rightarrow> wlan_emu_tests_state_cmd_wait)"

section \<open>Starting the test cases\<close>

text \<open>The class of a test case is chosen by its type; the constructor of the class gives it its name.\<close>

definition nc1_class_name :: "wlan_emu_test_type \<Rightarrow> string option" where
  "nc1_class_name t =
     (case t of
        wlan_emu_test_1_subtype_ns_private \<Rightarrow> Some ''NC1-Private''
      | wlan_emu_test_1_subtype_radio \<Rightarrow> Some ''NC1-Radio''
      | wlan_emu_test_1_subtype_ns_public_xfinity_open \<Rightarrow> Some ''NC1-Xfinity-Open''
      | wlan_emu_test_1_subtype_ns_public_xfinity_secure \<Rightarrow> Some ''NC1-Xfinity-Secure''
      | wlan_emu_test_1_subtype_ns_managed_xhs \<Rightarrow> Some ''NC1-Xhs''
      | wlan_emu_test_1_subtype_ns_managed_lnf_enterprise \<Rightarrow> Some ''NC1-Lnf-Enterprise''
      | wlan_emu_test_1_subtype_ns_managed_lnf_secure \<Rightarrow> Some ''NC1-Lnf-Secure''
      | _ \<Rightarrow> None)"

definition cc1_class_name :: "wlan_emu_test_type \<Rightarrow> string option" where
  "cc1_class_name t =
     (case t of
        wlan_emu_test_1_subtype_ns_managed_mesh_backhaul \<Rightarrow> Some ''NC1-Mesh-Backhaul''
      | wlan_emu_test_1_subtype_ns_managed_mesh_client \<Rightarrow> Some ''NC1-Mesh-Client''
      | wlan_emu_test_1_subtype_cc_probe_response \<Rightarrow> Some ''CC1-Probe-Response''
      | wlan_emu_test_1_subtype_cc_authentication \<Rightarrow> Some ''CC1-Authentication''
      | _ \<Rightarrow> None)"

definition cc2_control_class_name :: "wlan_emu_test_type \<Rightarrow> string option" where
  "cc2_control_class_name t =
     (case t of
        wlan_emu_test_2_subtype_af_connection_admission \<Rightarrow> Some ''CC2-Conn-Admsn''
      | wlan_emu_test_2_subtype_af_access_control \<Rightarrow> Some ''CC2-Access-Cntrl''
      | wlan_emu_test_2_subtype_af_stats_manager \<Rightarrow> Some ''CC2-Stats-Mngr''
      | wlan_emu_test_2_subtype_af_steering_manager \<Rightarrow> Some ''CC2-Steering-Mngr''
      | wlan_emu_test_2_subtype_af_optimization \<Rightarrow> Some ''CC2-Optimization''
      | wlan_emu_test_2_subtype_af_grey_listing \<Rightarrow> Some ''CC2-Greylisting''
      | wlan_emu_test_2_subtype_af_active_passive_msrmnts \<Rightarrow> Some ''CC2-Act-Psv-Msrmt''
      | _ \<Rightarrow> None)"

definition cc2_feature_class_name :: "wlan_emu_test_type \<Rightarrow> string option" where
  "cc2_feature_class_name t =
     (case t of
        wlan_emu_test_2_subtype_af_whix \<Rightarrow> Some ''CC2-Whix''
      | wlan_emu_test_2_subtype_af_blaster \<Rightarrow> Some ''CC2-Blaster''
      | wlan_emu_test_2_subtype_af_motion \<Rightarrow> Some ''CC2-Motion''
      | wlan_emu_test_2_subtype_af_finger_printing \<Rightarrow> Some ''CC2-Fingerprint''
      | wlan_emu_test_2_subtype_af_tr_181 \<Rightarrow> Some ''CC2-TR-181''
      | wlan_emu_test_2_subtype_af_webconfig \<Rightarrow> Some ''CC2-webconfig''
      | wlan_emu_test_2_subtype_af_webpa \<Rightarrow> Some ''CC2-Webpa''
      | _ \<Rightarrow> None)"

definition cc3_class_name :: "wlan_emu_test_type \<Rightarrow> string option" where
  "cc3_class_name t =
     (case t of
        wlan_emu_test_3_subtype_pm_stats_get \<Rightarrow> Some ''CC3-Stats-Get''
      | wlan_emu_test_3_subtype_pm_stats_set \<Rightarrow> Some ''CC3-Stats-Set''
      | _ \<Rightarrow> None)"

fun first_some :: "'a option list \<Rightarrow> 'a option" where
  "first_some [] = None"
| "first_some (x # xs) = (case x of Some y \<Rightarrow> Some y | None \<Rightarrow> first_some xs)"

definition test_class_name :: "wlan_emu_test_type \<Rightarrow> string option" where
  "test_class_name t =
     first_some [nc1_class_name t, cc1_class_name t, cc2_control_class_name t, cc2_feature_class_name t, cc3_class_name t]"

text \<open>
  The tests run one after the other, since the start joins the thread; what a thread reports is a signal
  that waits. A type without a class is skipped.
\<close>

definition end_of_test :: "test_outcome \<Rightarrow> test_case \<Rightarrow> ui_mgr \<Rightarrow> ui_mgr" where
  "end_of_test out tc u =
     (case out of
        Reports_done \<Rightarrow> signal_test_done (tc_coverage tc) u
      | Reports_fail \<Rightarrow> send_signal wlan_emu_sig_type_fail u
      | _ \<Rightarrow> u)"

definition state_after :: "test_outcome \<Rightarrow> test_case \<Rightarrow> test_case" where
  "state_after out tc =
     (case out of
        Reports_done \<Rightarrow> tc\<lparr>tc_state := wlan_emu_tests_state_cmd_results\<rparr>
      | Not_started \<Rightarrow> tc
      | _ \<Rightarrow> tc\<lparr>tc_state := wlan_emu_tests_state_cmd_abort\<rparr>)"

fun start_tests :: "(nat \<Rightarrow> test_case \<Rightarrow> test_outcome option) \<Rightarrow> nat \<Rightarrow> nat \<Rightarrow> ui_mgr \<Rightarrow> ui_mgr option" where
  "start_tests thread i 0 u = Some u"
| "start_tests thread i (Suc n) u =
     (let tc = (u_cases u ! i)\<lparr>tc_state := wlan_emu_tests_state_cmd_start\<rparr>
      in case test_class_name (tc_type tc) of
           None \<Rightarrow> start_tests thread (Suc i) n (u\<lparr>u_cases := (u_cases u)[i := tc]\<rparr>)
         | Some name \<Rightarrow>
             let tc = tc\<lparr>tc_name := name\<rparr>
             in (case thread i tc of
                   None \<Rightarrow> None
                 | Some out \<Rightarrow>
                     start_tests thread (Suc i) n
                       (end_of_test out tc (u\<lparr>u_cases := (u_cases u)[i := state_after out tc]\<rparr>))))"

definition start_test :: "(nat \<Rightarrow> test_case \<Rightarrow> test_outcome option) \<Rightarrow> ui_mgr \<Rightarrow> (int \<times> ui_mgr) option" where
  "start_test thread u =
     (if queue_count (u_cases u) = 0 then Some (RETURN_ERR, u)
      else map_option (Pair RETURN_OK) (start_tests thread 0 (length (u_cases u)) u))"

definition abort_test :: "ui_env \<Rightarrow> ui_mgr \<Rightarrow> ui_mgr" where
  "abort_test ue u = snd (cci_report_failure_to_tda ue u)"

section \<open>The state machine\<close>

definition on_request :: "gateway_env \<Rightarrow> gateway \<Rightarrow> gateway" where
  "on_request ge g =
     (let failed = (\<lambda>u. g\<lparr>g_ui := send_signal wlan_emu_sig_type_fail u,
            g_dml := wlan_emu_dml_tests_state_complete_failure\<rparr>)
      in if strstr (u_tda_url (g_ui g)) IPERF_TEST_CASE \<noteq> None \<and> \<not> ge_agents ge then failed (g_ui g)
         else case analyze_request (ge_ui ge) (g_ui g) of
                (rc, u) \<Rightarrow>
                  if rc = RETURN_OK
                  then g\<lparr>g_ui := send_signal wlan_emu_sig_type_analysis u, g_dml := wlan_emu_dml_tests_state_running\<rparr>
                  else failed u)"

definition on_start :: "gateway_env \<Rightarrow> gateway \<Rightarrow> gateway option" where
  "on_start ge g =
     (case start_test (ge_run ge) (g_ui g) of
        None \<Rightarrow> None
      | Some (rc, u) \<Rightarrow>
          Some (if rc = RETURN_OK
                then g\<lparr>g_ui := u, g_state := wlan_emu_tests_state_cmd_wait, g_dml := wlan_emu_dml_tests_state_running\<rparr>
                else g\<lparr>g_ui := send_signal wlan_emu_sig_type_fail u,
                       g_dml := wlan_emu_dml_tests_state_complete_failure\<rparr>))"

definition clean_results :: "ui_mgr \<Rightarrow> ui_mgr" where
  "clean_results u = ui_effect (Fx_command ''rm -rf /tmp/cci_res/*'') u"

definition on_results :: "gateway_env \<Rightarrow> gateway \<Rightarrow> gateway option" where
  "on_results ge g =
     (case upload_results (ge_ui ge) (g_ui g) of
        None \<Rightarrow> None
      | Some (rc, u) \<Rightarrow>
          Some (if rc = RETURN_OK
                then let u = snd (cci_report_complete_to_tda (ge_ui ge) (send_signal wlan_emu_sig_type_results u))
                     in g\<lparr>g_ui := clean_results (update_log_file_offset (ge_ui ge) u),
                          g_dml := wlan_emu_dml_tests_state_complete_success\<rparr>
                else let u = snd (cci_report_failure_to_tda (ge_ui ge) u)
                     in g\<lparr>g_ui := clean_results u, g_state := wlan_emu_tests_state_cmd_wait,
                          g_dml := wlan_emu_dml_tests_state_complete_failure\<rparr>))"

definition on_abort :: "gateway_env \<Rightarrow> gateway \<Rightarrow> gateway option" where
  "on_abort ge g =
     (case upload_results (ge_ui ge) (g_ui g) of
        None \<Rightarrow> None
      | Some (rc, u) \<Rightarrow>
          Some (g\<lparr>g_ui := clean_results (update_log_file_offset (ge_ui ge) (abort_test (ge_ui ge) u)),
                  g_state := wlan_emu_tests_state_cmd_wait, g_dml := wlan_emu_dml_tests_state_complete_failure\<rparr>))"

text \<open>One iteration of the loop of \<open>run\<close> up to the wait; \<open>None\<close> is a crash or a test that never ends.\<close>

definition handle_state :: "gateway_env \<Rightarrow> gateway \<Rightarrow> gateway option" where
  "handle_state ge g =
     (case g_state g of
        wlan_emu_tests_state_cmd_wait \<Rightarrow> Some (g\<lparr>g_dml := wlan_emu_dml_tests_state_idle\<rparr>)
      | wlan_emu_tests_state_cmd_request \<Rightarrow> Some (on_request ge g)
      | wlan_emu_tests_state_cmd_start \<Rightarrow> on_start ge g
      | wlan_emu_tests_state_cmd_results \<Rightarrow> on_results ge g
      | wlan_emu_tests_state_cmd_abort \<Rightarrow> on_abort ge g
      | _ \<Rightarrow> Some g)"

text \<open>The wait for the next signal; \<open>None\<close> while it blocks.\<close>

definition take_signal :: "gateway_env \<Rightarrow> gateway \<Rightarrow> gateway option" where
  "take_signal ge g =
     (case io_wait (ge_ui ge) (g_ui g) of
        None \<Rightarrow> None
      | Some (val, u) \<Rightarrow> Some (g\<lparr>g_ui := u, g_state := update_state_io_wait_done val\<rparr>))"


section \<open>The data model\<close>

text \<open>
  A value of the bus and the answer of a handler. A write of a string copies \<open>STR_LEN\<close> bytes into the
  buffer of the manager; \<open>None\<close> is a copy that leaves the buffer without a terminator or writes behind it.
\<close>

datatype raw_data = Raw_string "string option" | Raw_uint32 u32 | Raw_boolean bool | Raw_none | Raw_other

datatype bus_answer = bus_error_success | bus_error_invalid_input

definition STR_LEN :: nat where
  "STR_LEN = 128"

definition copy_string :: "nat \<Rightarrow> string option \<Rightarrow> nat \<Rightarrow> string option" where
  "copy_string room source len =
     (case source of
        None \<Rightarrow> Some []
      | Some s \<Rightarrow> if room < len \<or> len \<le> length s then None else Some s)"

text \<open>
  \<open>sscanf\<close> with the prefix of the test parameters and a field of at most \<open>width\<close> characters: the empty
  string when the prefix does not match.
\<close>

definition scan_parameter :: "nat \<Rightarrow> string \<Rightarrow> string" where
  "scan_parameter width event_name =
     (let p = ''Device.WiFi.Tests.''
      in if take (length p) event_name = p
         then take width (takeWhile (\<lambda>c. \<not> is_blank c) (dropWhile is_blank (drop (length p) event_name)))
         else [])"

definition set_simulated_clients :: "u32 \<Rightarrow> gateway \<Rightarrow> bus_answer \<times> gateway" where
  "set_simulated_clients n g =
     (let count = sint n
      in if count \<le> 0 \<or> 300 < count then (bus_error_invalid_input, g)
         else (bus_error_success, g\<lparr>g_ui := ui_effect (Fx_write ''onewifi_suite_sim_cli_count'' (show_int count))
                 ((g_ui g)\<lparr>u_simulated := count\<rparr>)\<rparr>))"

definition set_cci_handler :: "ui_env \<Rightarrow> string option \<Rightarrow> raw_data \<Rightarrow> gateway \<Rightarrow> (bus_answer \<times> gateway) option" where
  "set_cci_handler ue event_name data g =
     (if g_dml g = wlan_emu_dml_tests_state_running then Some (bus_error_invalid_input, g)
      else case event_name of
             None \<Rightarrow> Some (bus_error_invalid_input, g)
           | Some name \<Rightarrow>
               let p = scan_parameter 200 name
               in if 128 \<le> length p then None
                  else if strstr p ''TestConfigURL'' \<noteq> None then
                    (case data of
                       Raw_string s \<Rightarrow>
                         map_option (\<lambda>s. (bus_error_success, g\<lparr>g_ui := snd (update_tda_url_to_file ue ((g_ui g)\<lparr>u_tda_url := s\<rparr>))\<rparr>))
                           (copy_string 128 s STR_LEN)
                     | _ \<Rightarrow> Some (bus_error_invalid_input, g))
                  else if strstr p ''ResultsFileName'' \<noteq> None then
                    (case data of
                       Raw_string s \<Rightarrow>
                         map_option (\<lambda>s. (bus_error_success, g\<lparr>g_ui := (g_ui g)\<lparr>u_out_file_list := s\<rparr>\<rparr>))
                           (copy_string 128 s STR_LEN)
                     | _ \<Rightarrow> Some (bus_error_invalid_input, g))
                  else if strstr p ''Interface'' \<noteq> None then
                    (case data of
                       Raw_string s \<Rightarrow>
                         map_option (\<lambda>s. (bus_error_success, g\<lparr>g_ui := (g_ui g)\<lparr>u_interface := s\<rparr>\<rparr>))
                           (copy_string 16 s STR_LEN)
                     | _ \<Rightarrow> Some (bus_error_invalid_input, g))
                  else if strstr p ''SimulatedClientDevices'' \<noteq> None then
                    (case data of
                       Raw_uint32 n \<Rightarrow> Some (set_simulated_clients n g)
                     | _ \<Rightarrow> Some (bus_error_invalid_input, g))
                  else if strstr p ''Start'' \<noteq> None then
                    (case data of
                       Raw_boolean start \<Rightarrow>
                         Some (bus_error_success,
                           if start then g\<lparr>g_ui := send_signal wlan_emu_sig_type_input (g_ui g)\<rparr> else g)
                     | _ \<Rightarrow> Some (bus_error_invalid_input, g))
                  else Some (bus_error_success, g))"

definition dml_value :: "wlan_emu_dml_tests_state \<Rightarrow> u32" where
  "dml_value d =
     (case d of
        wlan_emu_dml_tests_state_idle \<Rightarrow> 0
      | wlan_emu_dml_tests_state_running \<Rightarrow> 1
      | wlan_emu_dml_tests_state_complete_success \<Rightarrow> 2
      | wlan_emu_dml_tests_state_complete_failure \<Rightarrow> 3)"

text \<open>What a read of a string parameter returns: the default when it is empty, else as much as fits.\<close>

definition shown_string :: "string \<Rightarrow> nat \<Rightarrow> string \<Rightarrow> string" where
  "shown_string def n s = (if s = [] then def else take n s)"

definition get_cci_handler :: "string \<Rightarrow> gateway \<Rightarrow> raw_data" where
  "get_cci_handler event_name g =
     (let e = scan_parameter 63 event_name; u = g_ui g
      in if strstr e ''TestConfigURL'' \<noteq> None then Raw_string (Some (shown_string [] 127 (u_tda_url u)))
         else if strstr e ''ResultsFileName'' \<noteq> None then Raw_string (Some (shown_string ''results.txt'' 63 (u_out_file_list u)))
         else if strstr e ''Interface'' \<noteq> None then Raw_string (Some (shown_string ''erouter0'' 15 (u_interface u)))
         else if strstr e ''SimulatedClientDevices'' \<noteq> None then Raw_uint32 (word_of_int (u_simulated u))
         else if strstr e ''Start'' \<noteq> None then Raw_boolean False
         else if strstr e ''Status'' \<noteq> None then Raw_uint32 (dml_value (g_dml g))
         else Raw_none)"

section \<open>Start-up\<close>

text \<open>
  What the system answers at start-up: the stored number of clients, the hardware layer, the parts of
  the UI manager's initialisation, the station managers and the configuration left by a reboot.
\<close>

record boot_env =
  be_ui :: ui_env
  be_sim_clients :: "string option"
  be_malloc :: bool
  be_hal :: bool
  be_interface_map :: bool
  be_time :: bool
  be_bus :: bool
  be_mtls :: bool
  be_heartbeat :: bool
  be_detach :: bool
  be_stations :: bool
  be_agents :: bool
  be_reboot_config :: bool
  be_decode_reboot :: "ui_mgr \<Rightarrow> int \<times> ui_mgr"
  be_remove :: bool

text \<open>The UI manager's own start; a failure of a step leaves the rest undone.\<close>

definition ui_init :: "boot_env \<Rightarrow> ui_mgr \<Rightarrow> int \<times> ui_mgr" where
  "ui_init be u =
     (let u = u\<lparr>u_log_offset := 0, u_interface := ''erouter0''\<rparr>
      in if \<not> be_time be then (RETURN_ERR, u)
         else let u = u\<lparr>u_world := (u_world u)\<lparr>w_test_results_dir := ''/tmp/cci_res''\<rparr>, u_bound := False\<rparr>
              in if \<not> be_bus be then (RETURN_ERR, u)
                 else if \<not> be_mtls be then (RETURN_ERR, u)
                 else let u = u\<lparr>u_world := (u_world u)\<lparr>w_local_host := False\<rparr>\<rparr>
                      in if \<not> be_heartbeat be then (- 1, u)
                         else if \<not> be_detach be then (RETURN_ERR, u)
                         else (0, snd (cci_report_reboot_to_tda (be_ui be) u)))"

text \<open>The number of simulated clients: three unless the stored number is between 1 and 300.\<close>

definition simulated_client_count :: "string option \<Rightarrow> int" where
  "simulated_client_count stored =
     (let n = (case stored of None \<Rightarrow> 0 | Some s \<Rightarrow> atoi s)
      in if n \<le> 0 \<or> 300 < n then 3 else n)"

definition gateway_init :: "boot_env \<Rightarrow> gateway \<Rightarrow> int \<times> gateway" where
  "gateway_init be g =
     (let n = simulated_client_count (be_sim_clients be);
          u = ui_effect (Fx_write ''onewifi_suite_sim_cli_count'' (show_int n)) ((g_ui g)\<lparr>u_simulated := n\<rparr>);
          stop = (\<lambda>u. (RETURN_ERR, g\<lparr>g_ui := u\<rparr>))
      in if \<not> be_malloc be \<or> \<not> be_hal be \<or> \<not> be_interface_map be then stop u
         else let u = snd (ui_init be u)
              in if \<not> be_stations be \<or> \<not> be_agents be then stop u
                 else if \<not> be_reboot_config be then (0, g\<lparr>g_ui := u\<rparr>)
                 else (case be_decode_reboot be u of
                         (rc, u) \<Rightarrow>
                           if rc \<noteq> RETURN_OK then stop u
                           else (case cci_report_resume_to_tda (be_ui be) u of
                                   (rc, u) \<Rightarrow>
                                     if rc \<noteq> RETURN_OK then stop u
                                     else if \<not> be_remove be then stop u
                                     else (0, g\<lparr>g_ui := (ui_effect (Fx_remove REBOOT_STEP_CONFIG) u)\<lparr>u_reboot_executed := True\<rparr>\<rparr>))))"

end
