(* ===== verification/Gateway_Facts.thy ===== *)
theory Gateway_Facts
  imports Gateway
begin

text \<open>
  Facts about the gateway that the properties of \<open>Gateway_Runs\<close> rest on: which fields the functions of
  the UI manager leave alone (\<open>sig_part\<close>, \<open>ui_keeps\<close>), the order in which pending signals are taken
  (\<open>waits_for\<close>), what the start of the test cases signals, and the rounds of a session.
\<close>

section \<open>What the functions of the UI manager leave alone\<close>

named_theorems ui_frame "fields a function of the UI manager keeps"

text \<open>The signals and the log of reports.\<close>

definition sig_part :: "ui_mgr \<Rightarrow> bool \<times> nat list \<times> bool \<times> (tc_endpoint_type \<times> bool) list" where
  "sig_part u = (u_bound u, u_pending u, u_reboot_executed u, u_reports u)"

lemma sig_part_simps [simp]:
  "sig_part (set_ui_error e u) = sig_part u" "sig_part (default_ui_error e u) = sig_part u"
  "sig_part (ui_effect x u) = sig_part u" "sig_part (u\<lparr>u_world := w\<rparr>) = sig_part u"
  "sig_part (u\<lparr>u_cases := q\<rparr>) = sig_part u" "sig_part (u\<lparr>u_calls := n\<rparr>) = sig_part u"
  "sig_part (u\<lparr>u_res_open := b\<rparr>) = sig_part u" "sig_part (update_log_file_offset ue u) = sig_part u"
  "sig_part (clean_results u) = sig_part u" "sig_part (u\<lparr>u_removed := rs\<rparr>) = sig_part u"
  by (simp_all add: sig_part_def set_ui_error_def default_ui_error_def ui_effect_def update_log_file_offset_def
      clean_results_def split: option.splits)

lemma on_world_sig: "sig_part (snd (on_world ue f u)) = sig_part u"
  by (simp add: on_world_def sig_part_def split: prod.splits)

lemma on_world_keeps [simp]:
  "u_cases (snd (on_world ue f u)) = u_cases u" "u_res_open (snd (on_world ue f u)) = u_res_open u"
  by (simp_all add: on_world_def split: prod.splits)

text \<open>A function that leaves signals, test cases and the list of result files alone.\<close>

definition ui_keeps :: "ui_mgr \<Rightarrow> ui_mgr \<Rightarrow> bool" where
  "ui_keeps u u' \<longleftrightarrow> sig_part u' = sig_part u \<and> u_cases u' = u_cases u \<and> u_res_open u' = u_res_open u"

lemma ui_keeps_refl [simp]: "ui_keeps u u"
  by (simp add: ui_keeps_def)

lemma ui_keeps_steps [simp]:
  "ui_keeps u (set_ui_error e v) \<longleftrightarrow> ui_keeps u v" "ui_keeps u (ui_effect x v) \<longleftrightarrow> ui_keeps u v"
  "ui_keeps u (v\<lparr>u_world := w\<rparr>) \<longleftrightarrow> ui_keeps u v"
  by (simp_all add: ui_keeps_def set_ui_error_def ui_effect_def sig_part_def)

lemma ui_keeps_trans: "ui_keeps u v \<Longrightarrow> ui_keeps v w \<Longrightarrow> ui_keeps u w"
  by (simp add: ui_keeps_def)

text \<open>An upload of a log keeps them, and it crashes only when the list of result files is not open.\<close>

definition log_ok :: "ui_mgr \<Rightarrow> (int \<times> ui_mgr) option \<Rightarrow> bool" where
  "log_ok u r \<longleftrightarrow> (case r of None \<Rightarrow> \<not> u_res_open u | Some (rc, u') \<Rightarrow> ui_keeps u u')"

lemma log_ok_simps [simp]:
  "log_ok u None \<longleftrightarrow> \<not> u_res_open u" "log_ok u (Some (rc, u')) \<longleftrightarrow> ui_keeps u u'"
  by (simp_all add: log_ok_def)

lemma log_ok_from: "log_ok v r \<Longrightarrow> ui_keeps u v \<Longrightarrow> log_ok u r"
  using ui_keeps_trans by (auto simp: log_ok_def ui_keeps_def split: option.splits)

lemma record_log_ok: "log_ok u (record_log f u)"
  by (auto simp: record_log_def split: prod.splits option.splits)

lemma send_log_ok: "log_ok u (send_log env f u)"
proof -
  obtain rc w where up: "upload_file_to_server env f (w_remote_results_loc (u_world u)) (u_world u) = (rc, w)" by fastforce
  show ?thesis using log_ok_from [OF record_log_ok, of u "u\<lparr>u_world := w\<rparr>"] by (simp add: send_log_def up)
qed

lemma upload_cci_log_ok: "log_ok u (upload_cci_log env tc u)"
  using send_log_ok [of u] log_ok_from [OF send_log_ok, of u]
  by (auto simp: upload_cci_log_def Let_def split: option.splits prod.splits)

lemma upload_cci_log_sig: "upload_cci_log env tc u = Some (rc, u') \<Longrightarrow> ui_keeps u u'"
  using upload_cci_log_ok [of u env tc] by simp

lemma upload_cci_log_open: "u_res_open u \<Longrightarrow> upload_cci_log env tc u \<noteq> None"
  using upload_cci_log_ok [of u env tc] by (metis log_ok_simps(1))

lemma upload_logs_sig:
  "u_res_open u \<Longrightarrow> length (u_cases u) \<le> n \<Longrightarrow>
     \<exists>u'. upload_logs ue n u = Some u' \<and> sig_part u' = sig_part u \<and> u_cases u' = []"
proof (induction n arbitrary: u)
  case (Suc n)
  show ?case
  proof (cases "u_cases u = []")
    case True
    then show ?thesis by (simp add: queue_pop_def)
  next
    case False
    let ?v = "u\<lparr>u_cases := butlast (u_cases u), u_calls := Suc (u_calls u)\<rparr>"
    obtain rc v where v: "upload_cci_log (ue_env ue (u_calls u)) (last (u_cases u)) ?v = Some (rc, v)"
      using upload_cci_log_open [of ?v] Suc.prems(1) by fastforce
    from upload_cci_log_sig [OF v] have keep: "sig_part v = sig_part u" "u_cases v = butlast (u_cases u)" "u_res_open v"
      using Suc.prems(1) by (simp_all add: ui_keeps_def)
    have "length (u_cases v) \<le> n" using keep(2) Suc.prems(2) by simp
    with Suc.IH [OF keep(3)] keep(1) obtain u' where "upload_logs ue n v = Some u'" "sig_part u' = sig_part u" "u_cases u' = []"
      by auto
    then show ?thesis using False v by (simp add: queue_pop_def)
  qed
qed simp

text \<open>No more test cases than a queue can count.\<close>

lemma upload_results_sig:
  assumes "u_res_open u \<or> u_cases u = []" and "queue_ok (u_cases u)"
  shows "\<exists>rc u'. upload_results ue u = Some (rc, u') \<and> sig_part u' = sig_part u \<and> u_cases u' = [] \<and>
    (u_cases u = [] \<longrightarrow> rc = RETURN_ERR)"
proof (cases "u_cases u = []")
  case True
  then show ?thesis by (simp add: upload_results_def queue_count_def)
next
  case False
  then obtain v where v: "upload_logs ue (length (u_cases u)) u = Some v" "sig_part v = sig_part u" "u_cases v = []"
    using upload_logs_sig [of u] assms(1) by blast
  let ?r = "on_world ue (\<lambda>env w. upload_file_to_server env (u_res_output_file v) (w_remote_results_loc w) w) (v\<lparr>u_res_open := False\<rparr>)"
  have "queue_count (u_cases u) \<noteq> 0" using False assms(2) by simp
  then have "upload_results ue u = Some ?r" unfolding upload_results_def v(1) by simp
  moreover have "sig_part (snd ?r) = sig_part u" "u_cases (snd ?r) = []"
    using v by (simp_all add: on_world_sig)
  ultimately show ?thesis using False by (cases ?r) simp
qed

text \<open>Whether the test address is a local one is decided by the request and stays.\<close>

definition local_ui :: "ui_mgr \<Rightarrow> bool" where
  "local_ui u = w_local_host (u_world u)"

lemma local_ui_simps [simp]:
  "local_ui (set_ui_error e u) = local_ui u" "local_ui (ui_effect x u) = local_ui u"
  "local_ui (u\<lparr>u_cases := q, u_calls := n\<rparr>) = local_ui u" "local_ui (u\<lparr>u_cases := q\<rparr>) = local_ui u"
  "local_ui (u\<lparr>u_res_open := b\<rparr>) = local_ui u" "local_ui (update_log_file_offset ue u) = local_ui u"
  "local_ui (clean_results u) = local_ui u" "local_ui (send_signal s u) = local_ui u"
  "local_ui (log_report t p u) = local_ui u"
  by (simp_all add: local_ui_def set_ui_error_def ui_effect_def add_fx_def update_log_file_offset_def clean_results_def
      send_signal_def log_report_def split: option.splits)

lemma https_post_file_local: "w_local_host (snd (https_post_file env url f w)) = w_local_host w"
  by (simp add: https_post_file_def add_fx_def split: prod.splits option.splits)

lemma upload_file_local: "w_local_host (snd (upload_file_to_server env f p w)) = w_local_host w"
  by (simp add: upload_file_to_server_def https_post_file_local)

lemma record_log_local: "record_log f u = Some (rc, u') \<Longrightarrow> local_ui u' = local_ui u"
  by (auto simp: record_log_def split: prod.splits option.splits if_splits)

lemma send_log_local:
  assumes "send_log env f u = Some (rc, u')"
  shows "local_ui u' = local_ui u"
proof -
  obtain r w where up: "upload_file_to_server env f (w_remote_results_loc (u_world u)) (u_world u) = (r, w)" by fastforce
  then have "local_ui (u\<lparr>u_world := w\<rparr>) = local_ui u"
    using upload_file_local [of env f "w_remote_results_loc (u_world u)" "u_world u"] by (simp add: local_ui_def)
  then show ?thesis
    using assms record_log_local [of f "u\<lparr>u_world := w\<rparr>" rc u'] by (auto simp: send_log_def up split: if_splits)
qed

lemma upload_cci_log_local: "upload_cci_log env tc u = Some (rc, u') \<Longrightarrow> local_ui u' = local_ui u"
  by (auto simp: upload_cci_log_def Let_def dest!: send_log_local split: option.splits prod.splits if_splits)

lemma upload_logs_local: "upload_logs ue n u = Some u' \<Longrightarrow> local_ui u' = local_ui u"
  by (induction n arbitrary: u) (auto dest!: upload_cci_log_local split: option.splits prod.splits)

lemma upload_results_local:
  assumes "upload_results ue u = Some (rc, u')"
  shows "local_ui u' = local_ui u"
proof (cases "queue_count (u_cases u) = 0")
  case True
  with assms show ?thesis by (auto simp: upload_results_def)
next
  case False
  with assms obtain v where v: "upload_logs ue (length (u_cases u)) u = Some v"
    and u': "on_world ue (\<lambda>env w. upload_file_to_server env (u_res_output_file v) (w_remote_results_loc w) w)
      (v\<lparr>u_res_open := False\<rparr>) = (rc, u')"
    by (auto simp: upload_results_def split: option.splits)
  have "local_ui u' = local_ui v"
    using u' upload_file_local [of "ue_env ue (u_calls v)" "u_res_output_file v" "w_remote_results_loc (u_world v)" "u_world v"]
    by (auto simp: on_world_def local_ui_def split: prod.splits)
  with upload_logs_local [OF v] show ?thesis by simp
qed

text \<open>
  An environment in which a report can be posted, and what the log says of a report: with a local address
  it was not posted, otherwise it was, if all environments let it.
\<close>

definition posts_work :: "environment \<Rightarrow> bool" where
  "posts_work env \<longleftrightarrow> env_time env \<noteq> None \<and> env_open_w env post_res_file \<and> env_http_info env \<and> env_curl_init env \<and>
     (\<forall>url f. env_curl_perform env url f)"

definition posted_as :: "ui_env \<Rightarrow> bool \<Rightarrow> bool \<Rightarrow> bool" where
  "posted_as ue host p \<longleftrightarrow> ((\<forall>n. posts_work (ue_env ue n)) \<or> host \<longrightarrow> p = (\<not> host))"

lemma post_report_works:
  assumes "posts_work env" "\<not> w_local_host w" "t \<noteq> tc_endpoint_type_reboot"
  shows "fst (post_report ue t f st e env w) = RETURN_OK"
proof -
  have "fst (get_last_substring_after_slash (Some post_res_file) 128 x) = RETURN_OK" for x
    by (simp add: post_res_file_def get_last_substring_after_slash_def)
  then have "fst (https_post_file env url post_res_file v) = RETURN_OK" if "\<not> w_local_host v" for url v
    using assms(1) that by (auto simp: https_post_file_def posts_work_def split: prod.splits) (metis fst_conv)
  from this [of "add_fx x w" for x] assms show ?thesis
    by (auto simp: post_report_def cci_post_result_to_tda_def result_url_def posts_work_def add_fx_def Let_def
        split: option.splits prod.splits) (metis fst_conv)
qed

lemma post_report_local: "w_local_host (snd (post_report ue t f st e env w)) = w_local_host w"
proof -
  have "w_local_host (snd (cci_post_result_to_tda ue t d env w)) = w_local_host w" for d
    using https_post_file_local [of env _ post_res_file "add_fx (Fx_write post_res_file d) w"]
    by (auto simp: cci_post_result_to_tda_def add_fx_def Let_def split: option.splits prod.splits) (metis snd_conv)+
  then show ?thesis by (auto simp: post_report_def split: option.splits prod.splits) (metis snd_conv)+
qed

lemma send_report:
  assumes "t \<noteq> tc_endpoint_type_reboot"
  shows "\<exists>p. sig_part (snd (report_to_tda ue t f st e u)) = sig_part (log_report t p u) \<and> posted_as ue (local_ui u) p \<and>
    u_cases (snd (report_to_tda ue t f st e u)) = u_cases u \<and> local_ui (snd (report_to_tda ue t f st e u)) = local_ui u"
proof (cases "w_local_host (u_world u)")
  case True
  then show ?thesis
    by (intro exI [of _ False]) (simp add: report_to_tda_def posted_as_def local_ui_def log_report_def)
next
  case False
  let ?env = "ue_env ue (u_calls u)"
  obtain rc w where r: "post_report ue t f st e ?env (u_world u) = (rc, w)" by fastforce
  have "posted_as ue (local_ui u) (rc = RETURN_OK)"
    using post_report_works [of ?env "u_world u" t ue f st e] False assms r by (simp add: posted_as_def local_ui_def)
  moreover have "w_local_host w = w_local_host (u_world u)" using post_report_local [of ue t f st e ?env "u_world u"] r by simp
  ultimately show ?thesis
    using False r by (intro exI [of _ "rc = RETURN_OK"])
      (simp add: report_to_tda_def on_world_def local_ui_def log_report_def sig_part_def)
qed

lemma failure_report:
  "u_cases u = [] \<Longrightarrow>
     \<exists>p. sig_part (snd (cci_report_failure_to_tda ue u)) = sig_part (log_report tc_endpoint_type_fail p u) \<and>
       posted_as ue (local_ui u) p \<and> u_cases (snd (cci_report_failure_to_tda ue u)) = [] \<and>
       local_ui (snd (cci_report_failure_to_tda ue u)) = local_ui u"
  using send_report [of tc_endpoint_type_fail ue "u_out_file_list u" "''fail''" "show_int (w_error (u_world u))" u]
  by (auto simp: cci_report_failure_to_tda_def split: prod.splits)

lemma complete_report:
  "u_cases u = [] \<Longrightarrow>
     \<exists>p. sig_part (snd (cci_report_complete_to_tda ue u)) = sig_part (log_report tc_endpoint_type_complete p u) \<and>
       posted_as ue (local_ui u) p \<and> u_cases (snd (cci_report_complete_to_tda ue u)) = [] \<and>
       local_ui (snd (cci_report_complete_to_tda ue u)) = local_ui u"
  using send_report [of tc_endpoint_type_complete ue "u_out_file_list u" "''complete''" "''0''" u]
  by (auto simp: cci_report_complete_to_tda_def)

section \<open>Sessions\<close>

text \<open>
  The rounds of the gateway from a wait on: a signal is taken and the state it leads to is handled, until
  the wait blocks. The number bounds the rounds.
\<close>

fun session :: "gateway_env \<Rightarrow> nat \<Rightarrow> gateway \<Rightarrow> gateway option" where
  "session ge 0 g = Some g"
| "session ge (Suc n) g =
     (case take_signal ge g of
        None \<Rightarrow> Some g
      | Some g \<Rightarrow> (case handle_state ge g of None \<Rightarrow> None | Some g \<Rightarrow> session ge n g))"

text \<open>Pending signals: of a request, of an analysis, of the coverages together, of results and of failures.\<close>

definition waits_for :: "ui_mgr \<Rightarrow> nat \<Rightarrow> nat \<Rightarrow> nat \<Rightarrow> nat \<Rightarrow> nat \<Rightarrow> bool" where
  "waits_for u a b c r f \<longleftrightarrow> u_bound u \<and> \<not> u_reboot_executed u \<and>
     (\<exists>cs. u_pending u = a # b # cs @ [r, f] \<and> length cs = 5 \<and> sum_list cs = c)"

lemma waits_for_sig: "sig_part u' = sig_part u \<Longrightarrow> waits_for u' a b c r f \<longleftrightarrow> waits_for u a b c r f"
  by (simp add: waits_for_def sig_part_def)

lemma waits_for_cases:
  assumes "waits_for u a b c r f"
  obtains c1 c2 c3 c4 c5 where "u_bound u" "\<not> u_reboot_executed u" "u_pending u = [a, b, c1, c2, c3, c4, c5, r, f]"
    "c = c1 + c2 + c3 + c4 + c5"
proof -
  obtain cs where cs: "u_pending u = a # b # cs @ [r, f]" "length cs = 5" "sum_list cs = c"
    using assms by (auto simp: waits_for_def)
  then obtain c1 c2 c3 c4 c5 where "cs = [c1, c2, c3, c4, c5]"
    by (auto simp: numeral_eq_Suc length_Suc_conv)
  with cs assms that show thesis by (auto simp: waits_for_def)
qed

lemma waits_for_listI:
  "u_bound u \<Longrightarrow> \<not> u_reboot_executed u \<Longrightarrow> u_pending u = [a, b, c1, c2, c3, c4, c5, r, f] \<Longrightarrow>
     waits_for u a b (c1 + c2 + c3 + c4 + c5) r f"
  unfolding waits_for_def by (intro conjI exI [of _ "[c1, c2, c3, c4, c5]"]) simp_all

lemmas sig_index_simps = sig_index_def sig_types_def

lemma send_signal_keeps [simp]:
  "u_bound (send_signal s u) = u_bound u" "u_reboot_executed (send_signal s u) = u_reboot_executed u"
  "u_reports (send_signal s u) = u_reports u" "u_cases (send_signal s u) = u_cases u"
  "u_res_open (send_signal s u) = u_res_open u"
  by (simp_all add: send_signal_def)

lemma signalled:
  assumes "waits_for u a b c r f"
  shows "waits_for (send_signal wlan_emu_sig_type_analysis u) a (Suc b) c r f"
    and "waits_for (send_signal wlan_emu_sig_type_results u) a b c (Suc r) f"
    and "waits_for (send_signal wlan_emu_sig_type_fail u) a b c r (Suc f)"
    and "coverage \<in> {1..5} \<Longrightarrow> waits_for (signal_test_done coverage u) a b (Suc c) r f"
proof -
  obtain c1 c2 c3 c4 c5 where u: "u_bound u" "\<not> u_reboot_executed u" "u_pending u = [a, b, c1, c2, c3, c4, c5, r, f]"
    and c: "c = c1 + c2 + c3 + c4 + c5"
    using waits_for_cases [OF assms] by blast
  have p: "u_pending (send_signal s u) = (u_pending u)[sig_index s := Suc (u_pending u ! sig_index s)]" for s
    using u by (simp add: send_signal_def)
  show "waits_for (send_signal wlan_emu_sig_type_analysis u) a (Suc b) c r f"
    unfolding c by (rule waits_for_listI) (use u p in \<open>simp_all add: sig_index_simps\<close>)
  show "waits_for (send_signal wlan_emu_sig_type_results u) a b c (Suc r) f"
    unfolding c by (rule waits_for_listI) (use u p in \<open>simp_all add: sig_index_simps\<close>)
  show "waits_for (send_signal wlan_emu_sig_type_fail u) a b c r (Suc f)"
    unfolding c by (rule waits_for_listI) (use u p in \<open>simp_all add: sig_index_simps\<close>)
  assume "coverage \<in> {1..5}"
  then consider "coverage = 1" | "coverage = 2" | "coverage = 3" | "coverage = 4" | "coverage = 5" by force
  then show "waits_for (signal_test_done coverage u) a b (Suc c) r f"
  proof cases
    case 1
    then show ?thesis using waits_for_listI [of "signal_test_done coverage u" a b "Suc c1" c2 c3 c4 c5 r f] u p c
      by (simp add: signal_test_done_def sig_index_simps)
  next
    case 2
    then show ?thesis using waits_for_listI [of "signal_test_done coverage u" a b c1 "Suc c2" c3 c4 c5 r f] u p c
      by (simp add: signal_test_done_def sig_index_simps)
  next
    case 3
    then show ?thesis using waits_for_listI [of "signal_test_done coverage u" a b c1 c2 "Suc c3" c4 c5 r f] u p c
      by (simp add: signal_test_done_def sig_index_simps)
  next
    case 4
    then show ?thesis using waits_for_listI [of "signal_test_done coverage u" a b c1 c2 c3 "Suc c4" c5 r f] u p c
      by (simp add: signal_test_done_def sig_index_simps)
  next
    case 5
    then show ?thesis using waits_for_listI [of "signal_test_done coverage u" a b c1 c2 c3 c4 "Suc c5" r f] u p c
      by (simp add: signal_test_done_def sig_index_simps)
  qed
qed

text \<open>The wait takes the signals in the order request, analysis, coverage, results, failure.\<close>

definition only_pending :: "ui_mgr \<Rightarrow> ui_mgr \<Rightarrow> bool" where
  "only_pending u u' \<longleftrightarrow> (\<exists>p. u' = u\<lparr>u_pending := p\<rparr>)"

lemma io_prep_bound: "u_bound u \<Longrightarrow> io_prep u = u"
  by (simp add: io_prep_def)

lemma io_wait_pending:
  "u_bound u \<Longrightarrow> \<not> u_reboot_executed u \<Longrightarrow> ue_select ue \<Longrightarrow>
     io_wait ue u = (case first_pending (u_pending u) of None \<Rightarrow> None
       | Some i \<Rightarrow> Some (sig_types ! i, u\<lparr>u_pending := (u_pending u)[i := u_pending u ! i - 1]\<rparr>))"
  by (simp add: io_wait_def io_prep_bound)

lemma io_wait_takes:
  assumes w: "waits_for u a b c r f" and s: "ue_select ue"
  shows "a \<noteq> 0 \<Longrightarrow> \<exists>u'. io_wait ue u = Some (wlan_emu_sig_type_input, u') \<and> only_pending u u' \<and> waits_for u' (a - 1) b c r f"
    and "a = 0 \<Longrightarrow> b \<noteq> 0 \<Longrightarrow> \<exists>u'. io_wait ue u = Some (wlan_emu_sig_type_analysis, u') \<and> only_pending u u' \<and> waits_for u' a (b - 1) c r f"
    and "a = 0 \<Longrightarrow> b = 0 \<Longrightarrow> c \<noteq> 0 \<Longrightarrow> \<exists>t u'. io_wait ue u = Some (t, u') \<and> only_pending u u' \<and> waits_for u' a b (c - 1) r f \<and>
          update_state_io_wait_done t = wlan_emu_tests_state_cmd_results"
    and "a = 0 \<Longrightarrow> b = 0 \<Longrightarrow> c = 0 \<Longrightarrow> r \<noteq> 0 \<Longrightarrow> \<exists>u'. io_wait ue u = Some (wlan_emu_sig_type_results, u') \<and> only_pending u u' \<and> waits_for u' a b c (r - 1) f"
    and "a = 0 \<Longrightarrow> b = 0 \<Longrightarrow> c = 0 \<Longrightarrow> r = 0 \<Longrightarrow> f \<noteq> 0 \<Longrightarrow> \<exists>u'. io_wait ue u = Some (wlan_emu_sig_type_fail, u') \<and> only_pending u u' \<and> waits_for u' a b c r (f - 1)"
    and "a = 0 \<Longrightarrow> b = 0 \<Longrightarrow> c = 0 \<Longrightarrow> r = 0 \<Longrightarrow> f = 0 \<Longrightarrow> io_wait ue u = None"
proof -
  obtain c1 c2 c3 c4 c5 where u: "u_bound u" "\<not> u_reboot_executed u" "u_pending u = [a, b, c1, c2, c3, c4, c5, r, f]"
    and c: "c = c1 + c2 + c3 + c4 + c5"
    using waits_for_cases [OF w] by blast
  note io = io_wait_pending [OF u(1,2) s] u(3)
  have make: "only_pending u (u\<lparr>u_pending := [a', b', d1, d2, d3, d4, d5, r', f']\<rparr>) \<and>
      waits_for (u\<lparr>u_pending := [a', b', d1, d2, d3, d4, d5, r', f']\<rparr>) a' b' n r' f'"
    if "n = d1 + d2 + d3 + d4 + d5" for a' b' d1 d2 d3 d4 d5 r' f' n
    using waits_for_listI [of "u\<lparr>u_pending := [a', b', d1, d2, d3, d4, d5, r', f']\<rparr>"] u that
    by (auto simp: only_pending_def)
  { assume z: "a \<noteq> 0"
    have "io_wait ue u = Some (wlan_emu_sig_type_input, u\<lparr>u_pending := [a - 1, b, c1, c2, c3, c4, c5, r, f]\<rparr>)"
      using z by (simp add: io sig_types_def)
    with make [OF c] show "\<exists>u'. io_wait ue u = Some (wlan_emu_sig_type_input, u') \<and> only_pending u u' \<and> waits_for u' (a - 1) b c r f"
      by blast }
  { assume z: "a = 0" "b \<noteq> 0"
    have "io_wait ue u = Some (wlan_emu_sig_type_analysis, u\<lparr>u_pending := [a, b - 1, c1, c2, c3, c4, c5, r, f]\<rparr>)"
      using z by (simp add: io sig_types_def)
    with make [OF c] show "\<exists>u'. io_wait ue u = Some (wlan_emu_sig_type_analysis, u') \<and> only_pending u u' \<and> waits_for u' a (b - 1) c r f"
      by blast }
  { assume z: "a = 0" "b = 0" "c \<noteq> 0"
    have take: "\<exists>t u'. io_wait ue u = Some (t, u') \<and> only_pending u u' \<and> waits_for u' a b (c - 1) r f \<and>
        update_state_io_wait_done t = wlan_emu_tests_state_cmd_results"
      if "io_wait ue u = Some (t, u\<lparr>u_pending := [a, b, d1, d2, d3, d4, d5, r, f]\<rparr>)"
        "c - 1 = d1 + d2 + d3 + d4 + d5" "update_state_io_wait_done t = wlan_emu_tests_state_cmd_results" for t d1 d2 d3 d4 d5
      using that make [OF that(2)] by blast
    consider "c1 \<noteq> 0" | "c1 = 0" "c2 \<noteq> 0" | "c1 = 0" "c2 = 0" "c3 \<noteq> 0" | "c1 = 0" "c2 = 0" "c3 = 0" "c4 \<noteq> 0"
      | "c1 = 0" "c2 = 0" "c3 = 0" "c4 = 0" "c5 \<noteq> 0"
      using z c by blast
    then show "\<exists>t u'. io_wait ue u = Some (t, u') \<and> only_pending u u' \<and> waits_for u' a b (c - 1) r f \<and>
        update_state_io_wait_done t = wlan_emu_tests_state_cmd_results"
    proof cases
      case 1
      show ?thesis
        by (rule take [of wlan_emu_sig_type_coverage_1 "c1 - 1" c2 c3 c4 c5])
          (use z c 1 in \<open>simp_all add: io sig_types_def update_state_io_wait_done_def\<close>)
    next
      case 2
      show ?thesis
        by (rule take [of wlan_emu_sig_type_coverage_2 c1 "c2 - 1" c3 c4 c5])
          (use z c 2 in \<open>simp_all add: io sig_types_def update_state_io_wait_done_def\<close>)
    next
      case 3
      show ?thesis
        by (rule take [of wlan_emu_sig_type_coverage_3 c1 c2 "c3 - 1" c4 c5])
          (use z c 3 in \<open>simp_all add: io sig_types_def update_state_io_wait_done_def\<close>)
    next
      case 4
      show ?thesis
        by (rule take [of wlan_emu_sig_type_coverage_4 c1 c2 c3 "c4 - 1" c5])
          (use z c 4 in \<open>simp_all add: io sig_types_def update_state_io_wait_done_def\<close>)
    next
      case 5
      show ?thesis
        by (rule take [of wlan_emu_sig_type_coverage_5 c1 c2 c3 c4 "c5 - 1"])
          (use z c 5 in \<open>simp_all add: io sig_types_def update_state_io_wait_done_def\<close>)
    qed }
  { assume z: "a = 0" "b = 0" "c = 0" "r \<noteq> 0"
    have "io_wait ue u = Some (wlan_emu_sig_type_results, u\<lparr>u_pending := [a, b, c1, c2, c3, c4, c5, r - 1, f]\<rparr>)"
      using z c by (simp add: io sig_types_def)
    with make [OF c] show "\<exists>u'. io_wait ue u = Some (wlan_emu_sig_type_results, u') \<and> only_pending u u' \<and> waits_for u' a b c (r - 1) f"
      by blast }
  { assume z: "a = 0" "b = 0" "c = 0" "r = 0" "f \<noteq> 0"
    have "io_wait ue u = Some (wlan_emu_sig_type_fail, u\<lparr>u_pending := [a, b, c1, c2, c3, c4, c5, r, f - 1]\<rparr>)"
      using z c by (simp add: io sig_types_def)
    with make [OF c] show "\<exists>u'. io_wait ue u = Some (wlan_emu_sig_type_fail, u') \<and> only_pending u u' \<and> waits_for u' a b c r (f - 1)"
      by blast }
  { assume "a = 0" "b = 0" "c = 0" "r = 0" "f = 0"
    then show "io_wait ue u = None" using c by (simp add: io) }
qed

section \<open>Starting the test cases of a session\<close>

text \<open>The test case as its thread gets it.\<close>

definition started :: "test_case \<Rightarrow> test_case" where
  "started tc = tc\<lparr>tc_state := wlan_emu_tests_state_cmd_start,
     tc_name := (case test_class_name (tc_type tc) of None \<Rightarrow> tc_name tc | Some name \<Rightarrow> name)\<rparr>"

definition runnable :: "test_case \<Rightarrow> bool" where
  "runnable tc \<longleftrightarrow> test_class_name (tc_type tc) \<noteq> None \<and> tc_coverage tc \<in> {1..5}"

definition reports_outcome :: "(nat \<Rightarrow> test_case \<Rightarrow> test_outcome option) \<Rightarrow> bool" where
  "reports_outcome thread \<longleftrightarrow> (\<forall>i tc. thread i tc = Some Reports_done \<or> thread i tc = Some Reports_fail)"

definition done_at :: "(nat \<Rightarrow> test_case \<Rightarrow> test_outcome option) \<Rightarrow> test_case queue \<Rightarrow> nat \<Rightarrow> bool" where
  "done_at thread q i \<longleftrightarrow> thread i (started (q ! i)) = Some Reports_done"

lemma start_tests_step:
  assumes "test_class_name (tc_type (u_cases u ! i)) \<noteq> None" "thread i (started (u_cases u ! i)) = Some out"
  shows "start_tests thread i (Suc n) u =
    start_tests thread (Suc i) n (end_of_test out (started (u_cases u ! i))
      (u\<lparr>u_cases := (u_cases u)[i := state_after out (started (u_cases u ! i))]\<rparr>))"
  using assms by (auto simp: started_def Let_def)

lemma started_coverage [simp]: "tc_coverage (started tc) = tc_coverage tc"
  by (simp add: started_def)

lemma waits_for_cases_field [simp]: "waits_for (u\<lparr>u_cases := q\<rparr>) a b c r f \<longleftrightarrow> waits_for u a b c r f"
  by (simp add: waits_for_def)

lemma signal_test_done_keeps [simp]:
  "u_cases (signal_test_done k u) = u_cases u" "u_res_open (signal_test_done k u) = u_res_open u"
  "u_reports (signal_test_done k u) = u_reports u"
  by (simp_all add: signal_test_done_def)

lemma start_tests_signals:
  assumes "reports_outcome thread"
  shows "waits_for u a b c r f \<Longrightarrow> i + n \<le> length (u_cases u) \<Longrightarrow> (\<And>j. i \<le> j \<Longrightarrow> j < i + n \<Longrightarrow> runnable (u_cases u ! j)) \<Longrightarrow>
    \<exists>u'. start_tests thread i n u = Some u' \<and> length (u_cases u') = length (u_cases u) \<and> u_res_open u' = u_res_open u \<and>
      u_reports u' = u_reports u \<and>
      waits_for u' a b (c + length (filter (done_at thread (u_cases u)) [i..<i + n])) r
        (f + (n - length (filter (done_at thread (u_cases u)) [i..<i + n])))"
proof (induction n arbitrary: u i c f)
  case 0
  then show ?case by simp
next
  case (Suc n)
  let ?q = "u_cases u" and ?tc = "started (u_cases u ! i)"
  have run: "runnable (?q ! i)" "i < length ?q" using Suc.prems by auto
  obtain out where out: "thread i ?tc = Some out" "out = Reports_done \<or> out = Reports_fail"
    using assms by (auto simp: reports_outcome_def)
  let ?u = "u\<lparr>u_cases := ?q[i := state_after out ?tc]\<rparr>"
  define v where "v = end_of_test out ?tc ?u"
  have step: "start_tests thread i (Suc n) u = start_tests thread (Suc i) n v"
    unfolding v_def by (rule start_tests_step) (use run out in \<open>simp_all add: runnable_def\<close>)
  have same: "u_cases v = ?q[i := state_after out ?tc]" "u_res_open v = u_res_open u" "u_reports v = u_reports u"
    using out(2) by (auto simp: v_def end_of_test_def)
  define D where "D = length (filter (done_at thread ?q) [Suc i..<Suc i + n])"
  have flt: "length (filter (done_at thread (u_cases v)) [Suc i..<Suc i + n]) = D"
    unfolding D_def by (rule arg_cong [where f = length], rule filter_cong) (auto simp: same done_at_def)
  have len: "D \<le> n" unfolding D_def by (rule order_trans [OF length_filter_le]) simp
  have "[i..<i + Suc n] = i # [Suc i..<Suc i + n]" by (simp add: upt_conv_Cons)
  then have all: "length (filter (done_at thread ?q) [i..<i + Suc n]) = (if out = Reports_done then Suc D else D)"
    using out(1) by (simp add: D_def done_at_def del: upt_Suc)
  have pre: "Suc i + n \<le> length (u_cases v)" "\<And>j. Suc i \<le> j \<Longrightarrow> j < Suc i + n \<Longrightarrow> runnable (u_cases v ! j)"
    using Suc.prems(2,3) by (simp_all add: same)
  have base: "waits_for ?u a b c r f" using Suc.prems(1) by simp
  from out(2) show ?case
  proof
    assume d: "out = Reports_done"
    have "waits_for v a b (Suc c) r f"
      using signalled(4) [OF base, of "tc_coverage ?tc"] run(1) by (simp add: v_def end_of_test_def d runnable_def)
    from Suc.IH [OF this pre] show ?thesis
      unfolding step flt all using d by (simp add: same)
  next
    assume d: "out = Reports_fail"
    have "waits_for v a b c r (Suc f)"
      using signalled(3) [OF base] by (simp add: v_def end_of_test_def d)
    from Suc.IH [OF this pre] show ?thesis
      unfolding step flt all using d len by (simp add: same Suc_diff_le)
  qed
qed

section \<open>The rounds after the tests\<close>

definition after_tests :: "gateway \<Rightarrow> nat \<Rightarrow> nat \<Rightarrow> nat \<Rightarrow> bool" where
  "after_tests g c r f \<longleftrightarrow> waits_for (g_ui g) 0 0 c r f \<and> queue_ok (u_cases (g_ui g)) \<and>
     (u_res_open (g_ui g) \<or> u_cases (g_ui g) = [])"

definition reports :: "gateway \<Rightarrow> (tc_endpoint_type \<times> bool) list" where
  "reports g = u_reports (g_ui g)"

text \<open>Whether the results of the test cases in the queue can be uploaded.\<close>

definition results_uploaded :: "gateway_env \<Rightarrow> gateway \<Rightarrow> bool" where
  "results_uploaded ge g \<longleftrightarrow> map_option fst (upload_results (ge_ui ge) (g_ui g)) = Some RETURN_OK"

text \<open>The reports \<open>rs\<close> were made from \<open>g\<close> to \<open>g'\<close>, each posted as the address and the environments let it.\<close>

definition adds_reports :: "gateway_env \<Rightarrow> tc_endpoint_type list \<Rightarrow> gateway \<Rightarrow> gateway \<Rightarrow> bool" where
  "adds_reports ge ts g g' \<longleftrightarrow> local_ui (g_ui g') = local_ui (g_ui g) \<and>
     (\<exists>rs. reports g' = reports g @ rs \<and> map fst rs = ts \<and> (\<forall>r \<in> set rs. posted_as (ge_ui ge) (local_ui (g_ui g)) (snd r)))"

lemma adds_reports_none: "local_ui (g_ui g') = local_ui (g_ui g) \<Longrightarrow> reports g' = reports g \<Longrightarrow> adds_reports ge [] g g'"
  by (simp add: adds_reports_def)

lemma adds_reports_one:
  "local_ui (g_ui g') = local_ui (g_ui g) \<Longrightarrow> reports g' = reports g @ [(t, p)] \<Longrightarrow> posted_as (ge_ui ge) (local_ui (g_ui g)) p \<Longrightarrow>
     adds_reports ge [t] g g'"
  by (simp add: adds_reports_def)

lemma adds_reports_append:
  assumes "adds_reports ge ts g h" "adds_reports ge us h k"
  shows "adds_reports ge (ts @ us) g k"
proof -
  obtain rs where rs: "reports h = reports g @ rs" "map fst rs = ts" "\<forall>r \<in> set rs. posted_as (ge_ui ge) (local_ui (g_ui g)) (snd r)"
    using assms(1) by (auto simp: adds_reports_def)
  obtain qs where qs: "reports k = reports h @ qs" "map fst qs = us" "\<forall>r \<in> set qs. posted_as (ge_ui ge) (local_ui (g_ui h)) (snd r)"
    using assms(2) by (auto simp: adds_reports_def)
  have l: "local_ui (g_ui h) = local_ui (g_ui g)" "local_ui (g_ui k) = local_ui (g_ui g)"
    using assms by (simp_all add: adds_reports_def)
  have "\<forall>r \<in> set (rs @ qs). posted_as (ge_ui ge) (local_ui (g_ui g)) (snd r)" using rs(3) qs(3) l(1) by auto
  then show ?thesis using rs(1,2) qs(1,2) l(2) unfolding adds_reports_def by (intro conjI exI [of _ "rs @ qs"]) simp_all
qed

lemma adds_reports_from:
  "adds_reports ge ts h k \<Longrightarrow> local_ui (g_ui h) = local_ui (g_ui g) \<Longrightarrow> reports h = reports g \<Longrightarrow> adds_reports ge ts g k"
  by (simp add: adds_reports_def)

lemma take_signal_ui:
  "io_wait (ge_ui ge) (g_ui g) = Some (t, u') \<Longrightarrow> take_signal ge g = Some (g\<lparr>g_ui := u', g_state := update_state_io_wait_done t\<rparr>)"
  by (simp add: take_signal_def)

lemma only_pending_simps:
  assumes "only_pending u u'"
  shows "u_cases u' = u_cases u" "u_res_open u' = u_res_open u" "u_reports u' = u_reports u" "u_tda_url u' = u_tda_url u"
    "local_ui u' = local_ui u"
  using assms by (auto simp: only_pending_def local_ui_def)

lemma failure_report_waits:
  assumes "waits_for u a b c r f" "u_cases u = []"
  obtains p v where "snd (cci_report_failure_to_tda ue u) = v" "waits_for v a b c r f" "u_cases v = []"
    "local_ui v = local_ui u" "u_reports v = u_reports u @ [(tc_endpoint_type_fail, p)]" "posted_as ue (local_ui u) p"
  using failure_report [OF assms(2), of ue] assms(1) that
  by (auto simp: sig_part_def waits_for_def log_report_def)

lemma complete_report_waits:
  assumes "waits_for u a b c r f" "u_cases u = []"
  obtains p v where "snd (cci_report_complete_to_tda ue u) = v" "waits_for v a b c r f" "u_cases v = []"
    "local_ui v = local_ui u" "u_reports v = u_reports u @ [(tc_endpoint_type_complete, p)]" "posted_as ue (local_ui u) p"
  using complete_report [OF assms(2), of ue] assms(1) that
  by (auto simp: sig_part_def waits_for_def log_report_def)

lemma finish_ui [simp]:
  "waits_for (clean_results u) a b c r f \<longleftrightarrow> waits_for u a b c r f"
  "waits_for (update_log_file_offset ue u) a b c r f \<longleftrightarrow> waits_for u a b c r f"
  "u_reports (clean_results u) = u_reports u" "u_reports (update_log_file_offset ue u) = u_reports u"
  "u_cases (clean_results u) = u_cases u" "u_cases (update_log_file_offset ue u) = u_cases u"
  by (simp_all add: waits_for_def clean_results_def ui_effect_def update_log_file_offset_def split: option.splits)

text \<open>
  A round of results makes one report: a success exactly if the results were uploaded, which they never
  are once the queue of test cases is empty.
\<close>

lemma results_round:
  assumes a: "after_tests g c r f"
  shows "\<exists>g'. on_results ge g = Some g' \<and> u_cases (g_ui g') = [] \<and> (results_uploaded ge g \<longrightarrow> u_cases (g_ui g) \<noteq> []) \<and>
    adds_reports ge [if results_uploaded ge g then tc_endpoint_type_complete else tc_endpoint_type_fail] g g' \<and>
    after_tests g' c (if results_uploaded ge g then Suc r else r) f"
proof -
  let ?u = "g_ui g"
  obtain rc u' where up: "upload_results (ge_ui ge) ?u = Some (rc, u')" "sig_part u' = sig_part ?u" "u_cases u' = []"
    "u_cases ?u = [] \<longrightarrow> rc = RETURN_ERR"
    using upload_results_sig [of ?u "ge_ui ge"] a by (auto simp: after_tests_def)
  have ok: "results_uploaded ge g \<longleftrightarrow> rc = RETURN_OK" using up(1) by (simp add: results_uploaded_def)
  have l: "local_ui u' = local_ui ?u" by (rule upload_results_local [OF up(1)])
  have w: "waits_for u' 0 0 c r f" using a waits_for_sig [OF up(2)] by (simp add: after_tests_def)
  have rep: "u_reports u' = u_reports ?u" using up(2) by (simp add: sig_part_def)
  show ?thesis
  proof (cases "rc = RETURN_OK")
    case True
    let ?v = "send_signal wlan_emu_sig_type_results u'"
    have "waits_for ?v 0 0 c (Suc r) f" "u_cases ?v = []" using signalled(2) [OF w] up(3) by simp_all
    then obtain p v where v: "snd (cci_report_complete_to_tda (ge_ui ge) ?v) = v" "waits_for v 0 0 c (Suc r) f" "u_cases v = []"
      "local_ui v = local_ui ?v" "u_reports v = u_reports ?v @ [(tc_endpoint_type_complete, p)]" "posted_as (ge_ui ge) (local_ui ?v) p"
      by (rule complete_report_waits)
    let ?g = "g\<lparr>g_ui := clean_results (update_log_file_offset (ge_ui ge) v), g_dml := wlan_emu_dml_tests_state_complete_success\<rparr>"
    have "on_results ge g = Some ?g" using up(1) True v(1) by (simp add: on_results_def)
    moreover have "adds_reports ge [tc_endpoint_type_complete] g ?g"
      using v(4-6) l rep by (intro adds_reports_one [where p = p]) (simp_all add: reports_def)
    ultimately show ?thesis using ok True v(2,3) up(4) by (auto simp: after_tests_def)
  next
    case False
    obtain p v where v: "snd (cci_report_failure_to_tda (ge_ui ge) u') = v" "waits_for v 0 0 c r f" "u_cases v = []"
      "local_ui v = local_ui u'" "u_reports v = u_reports u' @ [(tc_endpoint_type_fail, p)]" "posted_as (ge_ui ge) (local_ui u') p"
      by (rule failure_report_waits [OF w up(3)])
    let ?g = "g\<lparr>g_ui := clean_results v, g_state := wlan_emu_tests_state_cmd_wait, g_dml := wlan_emu_dml_tests_state_complete_failure\<rparr>"
    have "on_results ge g = Some ?g" using up(1) False v(1) by (simp add: on_results_def)
    moreover have "adds_reports ge [tc_endpoint_type_fail] g ?g"
      using v(4-6) l rep by (intro adds_reports_one [where p = p]) (simp_all add: reports_def)
    ultimately show ?thesis using ok False v(2,3) by (auto simp: after_tests_def)
  qed
qed

lemma abort_round:
  assumes a: "after_tests g c r f"
  shows "\<exists>g'. on_abort ge g = Some g' \<and> u_cases (g_ui g') = [] \<and> adds_reports ge [tc_endpoint_type_fail] g g' \<and> after_tests g' c r f"
proof -
  let ?u = "g_ui g"
  obtain rc u' where up: "upload_results (ge_ui ge) ?u = Some (rc, u')" "sig_part u' = sig_part ?u" "u_cases u' = []"
    using upload_results_sig [of ?u "ge_ui ge"] a by (auto simp: after_tests_def)
  have l: "local_ui u' = local_ui ?u" by (rule upload_results_local [OF up(1)])
  have w: "waits_for u' 0 0 c r f" using a waits_for_sig [OF up(2)] by (simp add: after_tests_def)
  obtain p v where v: "snd (cci_report_failure_to_tda (ge_ui ge) u') = v" "waits_for v 0 0 c r f" "u_cases v = []"
    "local_ui v = local_ui u'" "u_reports v = u_reports u' @ [(tc_endpoint_type_fail, p)]" "posted_as (ge_ui ge) (local_ui u') p"
    by (rule failure_report_waits [OF w up(3)])
  let ?g = "g\<lparr>g_ui := clean_results (update_log_file_offset (ge_ui ge) v), g_state := wlan_emu_tests_state_cmd_wait,
    g_dml := wlan_emu_dml_tests_state_complete_failure\<rparr>"
  have "u_reports u' = u_reports ?u" using up(2) by (simp add: sig_part_def)
  then have "adds_reports ge [tc_endpoint_type_fail] g ?g"
    using v(4-6) l by (intro adds_reports_one [where p = p]) (simp_all add: reports_def)
  moreover have "on_abort ge g = Some ?g" using up(1) v(1) by (simp add: on_abort_def abort_test_def)
  ultimately show ?thesis using v(2,3) by (auto simp: after_tests_def)
qed


text \<open>The rounds left once the test cases were handed in only report failures.\<close>

definition session_over :: "gateway_env \<Rightarrow> gateway \<Rightarrow> bool" where
  "session_over ge g \<longleftrightarrow> take_signal ge g = None \<and> u_cases (g_ui g) = []"

text \<open>One round of the session and the rounds after it.\<close>

lemma session_round:
  assumes "take_signal ge g = Some h" "handle_state ge h = Some g1" "adds_reports ge ts h g1"
    and "local_ui (g_ui h) = local_ui (g_ui g)" "reports h = reports g"
    and "session ge n g1 = Some g'" "adds_reports ge us g1 g'"
  shows "session ge (Suc n) g = Some g'" "adds_reports ge (ts @ us) g g'"
  using assms adds_reports_from [OF adds_reports_append [OF assms(3,7)] assms(4,5)] by simp_all

lemma replicate_first: "k \<noteq> 0 \<Longrightarrow> [x] @ replicate (k - 1) x = replicate k x"
  by (cases k) simp_all

lemma rounds_after:
  assumes s: "ue_select (ge_ui ge)"
  shows "after_tests g c r f \<Longrightarrow> u_cases (g_ui g) = [] \<Longrightarrow> c + r + f < n \<Longrightarrow>
    \<exists>g'. session ge n g = Some g' \<and> session_over ge g' \<and> adds_reports ge (replicate (c + f) tc_endpoint_type_fail) g g'"
proof (induction n arbitrary: g c r f)
  case (Suc n)
  have w: "waits_for (g_ui g) 0 0 c r f" using Suc.prems(1) by (simp add: after_tests_def)
  note io = io_wait_takes [OF w s]
  have taken: "take_signal ge g = Some (g\<lparr>g_ui := u', g_state := update_state_io_wait_done t\<rparr>)"
      "after_tests (g\<lparr>g_ui := u', g_state := st\<rparr>) c' r' f'" "u_cases u' = []" "u_reports u' = reports g" "local_ui u' = local_ui (g_ui g)"
    if "io_wait (ge_ui ge) (g_ui g) = Some (t, u')" "only_pending (g_ui g) u'" "waits_for u' 0 0 c' r' f'" for t u' st c' r' f'
    using that Suc.prems(1,2) by (auto simp: after_tests_def only_pending_simps reports_def take_signal_def)
  consider (coverage) "c \<noteq> 0" | (results) "c = 0" "r \<noteq> 0" | (failure) "c = 0" "r = 0" "f \<noteq> 0"
    | (over) "c = 0" "r = 0" "f = 0"
    by blast
  then show ?case
  proof cases
    case coverage
    obtain t u' where u: "io_wait (ge_ui ge) (g_ui g) = Some (t, u')" "only_pending (g_ui g) u'" "waits_for u' 0 0 (c - 1) r f"
      "update_state_io_wait_done t = wlan_emu_tests_state_cmd_results"
      using io(3) coverage by blast
    note tk = taken [OF u(1-3)]
    let ?g = "g\<lparr>g_ui := u', g_state := wlan_emu_tests_state_cmd_results\<rparr>"
    obtain g1 where g1: "on_results ge ?g = Some g1" "u_cases (g_ui g1) = []"
      "adds_reports ge [tc_endpoint_type_fail] ?g g1" "after_tests g1 (c - 1) r f"
      using results_round [OF tk(2) [of wlan_emu_tests_state_cmd_results], of ge] tk(3) by (auto split: if_splits)
    have "c - 1 + r + f < n" using Suc.prems(3) coverage by simp
    then obtain g' where g': "session ge n g1 = Some g'" "session_over ge g'"
      "adds_reports ge (replicate (c - 1 + f) tc_endpoint_type_fail) g1 g'"
      using Suc.IH [OF g1(4,2)] by blast
    have h: "handle_state ge ?g = Some g1" "c + f \<noteq> 0" "c - 1 + f = c + f - 1" using g1(1) coverage by (simp_all add: handle_state_def)
    have "session ge (Suc n) g = Some g'" "adds_reports ge (replicate (c + f) tc_endpoint_type_fail) g g'"
      using session_round [OF tk(1) _ _ _ _ g'(1), unfolded u(4), OF h(1) g1(3) _ _ g'(3)[unfolded h(3)]] tk(4,5)
      unfolding replicate_first [OF h(2)] by (simp_all add: reports_def)
    with g'(2) show ?thesis by blast
  next
    case results
    obtain u' where u: "io_wait (ge_ui ge) (g_ui g) = Some (wlan_emu_sig_type_results, u')"
      "only_pending (g_ui g) u'" "waits_for u' 0 0 c (r - 1) f"
      using io(4) results by blast
    note tk = taken [OF u]
    let ?g = "g\<lparr>g_ui := u', g_state := wlan_emu_tests_state_cmd_wait\<rparr>"
    let ?g1 = "?g\<lparr>g_dml := wlan_emu_dml_tests_state_idle\<rparr>"
    have g1: "u_cases (g_ui ?g1) = []" "after_tests ?g1 c (r - 1) f" "adds_reports ge [] ?g ?g1"
      using tk(2) [of wlan_emu_tests_state_cmd_wait] tk(3) by (simp_all add: after_tests_def adds_reports_none reports_def)
    have "c + (r - 1) + f < n" using Suc.prems(3) results by simp
    then obtain g' where g': "session ge n ?g1 = Some g'" "session_over ge g'"
      "adds_reports ge (replicate (c + f) tc_endpoint_type_fail) ?g1 g'"
      using Suc.IH [OF g1(2,1)] by metis
    have v: "update_state_io_wait_done wlan_emu_sig_type_results = wlan_emu_tests_state_cmd_wait"
      "handle_state ge ?g = Some ?g1" by (simp_all add: update_state_io_wait_done_def handle_state_def)
    have "session ge (Suc n) g = Some g'" "adds_reports ge (replicate (c + f) tc_endpoint_type_fail) g g'"
      using session_round [OF tk(1) _ _ _ _ g'(1), unfolded v(1), OF v(2) g1(3) _ _ g'(3)] tk(4,5)
      by (simp_all add: reports_def)
    with g'(2) show ?thesis by blast
  next
    case failure
    obtain u' where u: "io_wait (ge_ui ge) (g_ui g) = Some (wlan_emu_sig_type_fail, u')"
      "only_pending (g_ui g) u'" "waits_for u' 0 0 c r (f - 1)"
      using io(5) failure by blast
    note tk = taken [OF u]
    let ?g = "g\<lparr>g_ui := u', g_state := wlan_emu_tests_state_cmd_abort\<rparr>"
    obtain g1 where g1: "on_abort ge ?g = Some g1" "u_cases (g_ui g1) = []"
      "adds_reports ge [tc_endpoint_type_fail] ?g g1" "after_tests g1 c r (f - 1)"
      using abort_round [OF tk(2) [of wlan_emu_tests_state_cmd_abort], of ge] by blast
    have "c + r + (f - 1) < n" using Suc.prems(3) failure by simp
    then obtain g' where g': "session ge n g1 = Some g'" "session_over ge g'"
      "adds_reports ge (replicate (c + (f - 1)) tc_endpoint_type_fail) g1 g'"
      using Suc.IH [OF g1(4,2)] by blast
    have v: "update_state_io_wait_done wlan_emu_sig_type_fail = wlan_emu_tests_state_cmd_abort"
      "handle_state ge ?g = Some g1" "c + f \<noteq> 0" "c + (f - 1) = c + f - 1"
      using g1(1) failure by (simp_all add: update_state_io_wait_done_def handle_state_def)
    have "session ge (Suc n) g = Some g'" "adds_reports ge (replicate (c + f) tc_endpoint_type_fail) g g'"
      using session_round [OF tk(1) _ _ _ _ g'(1), unfolded v(1), OF v(2) g1(3) _ _ g'(3)[unfolded v(4)]] tk(4,5)
      unfolding replicate_first [OF v(3)] by (simp_all add: reports_def)
    with g'(2) show ?thesis by blast
  next
    case over
    then have "take_signal ge g = None" using io(6) by (simp add: take_signal_def)
    then show ?thesis using over Suc.prems(2) by (simp add: session_over_def adds_reports_none)
  qed
qed simp

section \<open>Requests\<close>

text \<open>What the gateway relies on of the decoding of a configuration: it sends no signals and no reports.\<close>

definition decode_keeps_signals :: "ui_env \<Rightarrow> bool" where
  "decode_keeps_signals ue \<longleftrightarrow> (\<forall>d u. sig_part (snd (ue_decode ue d u)) = sig_part u)"

lemma sig_part_tda [simp]:
  "sig_part (u\<lparr>u_tda_url := x\<rparr>) = sig_part u" "sig_part (u\<lparr>u_test_config_file := x\<rparr>) = sig_part u"
  "sig_part (u\<lparr>u_res_output_file := x\<rparr>) = sig_part u"
  by (simp_all add: sig_part_def)

lemma local_host_sig [simp]: "sig_part (local_host_url u) = sig_part u"
  by (simp add: local_host_url_def sig_part_def split: option.splits)

lemma download_steps_sig: "sig_part (snd (download_steps ue i n q u)) = sig_part u"
proof (induction n arbitrary: i q u)
  case (Suc n)
  obtain rc s w where d: "download_step_param_config ue (q ! i) (ue_env ue (u_calls u)) (u_world u) = ((rc, s), w)"
    by (metis surj_pair)
  let ?u = "u\<lparr>u_world := w, u_calls := Suc (u_calls u)\<rparr>"
  have "sig_part ?u = sig_part u" by (simp add: sig_part_def)
  then show ?case using Suc.IH [of "Suc i" "q[i := s]" ?u] by (simp add: d Let_def)
qed simp

lemma download_cases_sig: "sig_part (snd (download_cases ue i n u)) = sig_part u"
proof (induction n arbitrary: i u)
  case (Suc n)
  let ?tc = "u_cases u ! i"
  obtain rc q v where d: "download_steps ue 0 (length (tc_steps ?tc)) (tc_steps ?tc) u = ((rc, q), v)"
    by (metis surj_pair)
  then have "sig_part v = sig_part u" using download_steps_sig [of ue 0 "length (tc_steps ?tc)" "tc_steps ?tc" u] by simp
  then show ?case using Suc.IH [of "Suc i" "v\<lparr>u_cases := (u_cases v)[i := ?tc\<lparr>tc_steps := q\<rparr>]\<rparr>"]
    by (simp add: d Let_def)
qed simp

lemma download_test_files_sig: "sig_part (snd (download_test_files ue u)) = sig_part u"
  by (simp add: download_test_files_def download_cases_sig)

lemma decode_config_file_sig:
  assumes "decode_keeps_signals ue"
  shows "sig_part (snd (decode_config_file ue u)) = sig_part u"
proof -
  have "sig_part (snd (case ue_decode ue d v of (rc, u) \<Rightarrow> if rc < 0 then (RETURN_ERR, u) else (RETURN_OK, u))) = sig_part v" for d v
    using assms by (simp add: decode_keeps_signals_def split: prod.splits) (metis snd_conv)
  then show ?thesis by (simp add: decode_config_file_def Let_def split: prod.splits option.splits)
qed

lemma process_input_request_sig:
  assumes "decode_keeps_signals ue"
  shows "sig_part (snd (process_input_request ue u)) = sig_part u"
proof -
  have files: "sig_part (snd (case download_test_files ue v of (rc, u) \<Rightarrow>
      if rc \<noteq> RETURN_OK then (RETURN_ERR, default_ui_error EDNLDTSTRESFILE u) else (RETURN_OK, u))) = sig_part v" for v
    using download_test_files_sig [of ue v] by (cases "download_test_files ue v") simp
  have config: "sig_part (snd (case decode_config_file ue v of (rc, u) \<Rightarrow>
      if rc \<noteq> RETURN_OK then (RETURN_ERR, default_ui_error EWEBDECODE u)
      else case download_test_files ue u of (rc, u) \<Rightarrow>
        if rc \<noteq> RETURN_OK then (RETURN_ERR, default_ui_error EDNLDTSTRESFILE u) else (RETURN_OK, u))) = sig_part v" for v
    using decode_config_file_sig [OF assms, of v] files by (cases "decode_config_file ue v") simp
  have get: "sig_part (snd (case on_world ue f v of (rc, u) \<Rightarrow>
      if rc \<noteq> RETURN_OK then (RETURN_ERR, u)
      else case decode_config_file ue u of (rc, u) \<Rightarrow>
      if rc \<noteq> RETURN_OK then (RETURN_ERR, default_ui_error EWEBDECODE u)
      else case download_test_files ue u of (rc, u) \<Rightarrow>
        if rc \<noteq> RETURN_OK then (RETURN_ERR, default_ui_error EDNLDTSTRESFILE u) else (RETURN_OK, u))) = sig_part v" for f v
    using on_world_sig [of ue f v] config by (cases "on_world ue f v") simp
  show ?thesis
    unfolding process_input_request_def Let_def using get local_host_sig
    by (simp split: prod.splits option.splits)
qed

lemma analyze_request_sig:
  assumes "decode_keeps_signals ue"
  shows "sig_part (snd (analyze_request ue u)) = sig_part u"
    and "fst (analyze_request ue u) = RETURN_OK \<Longrightarrow> u_res_open (snd (analyze_request ue u))"
  using process_input_request_sig [OF assms, of u]
  by (auto simp: analyze_request_def Let_def split: prod.splits)


section \<open>The reports of a session\<close>

text \<open>
  A gateway that waits, with nothing pending, and the request for a test in its data model.
\<close>

definition gateway_idle :: "gateway \<Rightarrow> bool" where
  "gateway_idle g \<longleftrightarrow> waits_for (g_ui g) 0 0 0 0 0 \<and> u_cases (g_ui g) = [] \<and> g_dml g \<noteq> wlan_emu_dml_tests_state_running"

definition press_start :: "ui_env \<Rightarrow> gateway \<Rightarrow> (bus_answer \<times> gateway) option" where
  "press_start ue g = set_cci_handler ue (Some ''Device.WiFi.Tests.Start'') (Raw_boolean True) g"

lemma press_start_idle:
  assumes "gateway_idle g"
  shows "press_start ue g = Some (bus_error_success, g\<lparr>g_ui := send_signal wlan_emu_sig_type_input (g_ui g)\<rparr>)"
proof -
  have scan: "scan_parameter 200 ''Device.WiFi.Tests.Start'' = ''Start''" by code_simp
  have "strstr ''Start'' ''TestConfigURL'' = None" "strstr ''Start'' ''ResultsFileName'' = None"
    "strstr ''Start'' ''Interface'' = None" "strstr ''Start'' ''SimulatedClientDevices'' = None"
    "strstr ''Start'' ''Start'' \<noteq> None"
    by code_simp+
  then show ?thesis using assms by (simp add: press_start_def set_cci_handler_def scan gateway_idle_def Let_def)
qed

text \<open>The gateway once the request was taken from its signals.\<close>

definition requested :: "gateway \<Rightarrow> gateway" where
  "requested g = g\<lparr>g_state := wlan_emu_tests_state_cmd_request\<rparr>"

lemma request_taken:
  assumes "gateway_idle g" "ue_select (ge_ui ge)"
  shows "take_signal ge (g\<lparr>g_ui := send_signal wlan_emu_sig_type_input (g_ui g)\<rparr>) = Some (requested g)"
proof -
  obtain c1 c2 c3 c4 c5 where p: "u_bound (g_ui g)" "\<not> u_reboot_executed (g_ui g)" "0 = c1 + c2 + c3 + c4 + c5"
    "u_pending (g_ui g) = [0, 0, c1, c2, c3, c4, c5, 0, 0]"
    by (rule waits_for_cases [OF conjunct1 [OF assms(1) [unfolded gateway_idle_def]]]) (rule that)
  have "c1 = 0 \<and> c2 = 0 \<and> c3 = 0 \<and> c4 = 0 \<and> c5 = 0" using p(3) by linarith
  then have z: "u_pending (g_ui g) = replicate 9 0" using p(4) by (simp add: numeral_eq_Suc)
  let ?u = "(g_ui g)\<lparr>u_pending := (replicate 9 0)[0 := Suc 0]\<rparr>"
  have s: "send_signal wlan_emu_sig_type_input (g_ui g) = ?u"
    using p(1) z by (simp add: send_signal_def sig_index_simps)
  have "io_wait (ge_ui ge) ?u = Some (wlan_emu_sig_type_input, ?u\<lparr>u_pending := replicate 9 0\<rparr>)"
    using p(1,2) assms(2) by (subst io_wait_pending) (simp_all add: sig_types_def numeral_eq_Suc)
  moreover have "?u\<lparr>u_pending := replicate 9 0\<rparr> = g_ui g" unfolding z [symmetric] by simp
  ultimately have "io_wait (ge_ui ge) ?u = Some (wlan_emu_sig_type_input, g_ui g)" by simp
  then show ?thesis unfolding s by (simp add: take_signal_def update_state_io_wait_done_def requested_def)
qed

text \<open>
  The test cases of a request: the analysis succeeds with the queue \<open>q\<close> of cases that can run.
\<close>

definition request_gives :: "gateway_env \<Rightarrow> gateway \<Rightarrow> test_case queue \<Rightarrow> bool" where
  "request_gives ge g q \<longleftrightarrow>
     (strstr (u_tda_url (g_ui g)) IPERF_TEST_CASE = None \<or> ge_agents ge) \<and>
     fst (analyze_request (ge_ui ge) (g_ui g)) = RETURN_OK \<and> u_cases (snd (analyze_request (ge_ui ge) (g_ui g))) = q \<and>
     q \<noteq> [] \<and> queue_ok q \<and> (\<forall>tc \<in> set q. runnable tc)"

lemma tests_handed_over:
  assumes idle: "gateway_idle g" and env: "ue_select (ge_ui ge)" "decode_keeps_signals (ge_ui ge)" "reports_outcome (ge_run ge)"
    and q: "request_gives ge g q"
    and d: "d = length (filter (done_at (ge_run ge) q) [0..<length q])"
  shows "\<exists>g1 g2. handle_state ge (requested g) = Some g1 \<and>
    take_signal ge g1 = Some (g2\<lparr>g_state := wlan_emu_tests_state_cmd_start\<rparr>) \<and>
    (\<exists>g3. handle_state ge (g2\<lparr>g_state := wlan_emu_tests_state_cmd_start\<rparr>) = Some g3 \<and>
      after_tests g3 d 0 (length q - d) \<and> u_cases (g_ui g3) \<noteq> [] \<and> reports g3 = reports g)"
proof -
  let ?ue = "ge_ui ge"
  obtain rc u where an: "analyze_request ?ue (g_ui g) = (RETURN_OK, u)" "u_cases u = q"
    using q unfolding request_gives_def by (metis prod.collapse)
  have op: "u_res_open u" and sg: "sig_part u = sig_part (g_ui g)"
    using analyze_request_sig [OF env(2), of "g_ui g"] an by simp_all
  have w: "waits_for u 0 0 0 0 0" using idle waits_for_sig [OF sg] by (simp add: gateway_idle_def)
  let ?u = "send_signal wlan_emu_sig_type_analysis u"
  let ?g1 = "requested g\<lparr>g_ui := ?u, g_dml := wlan_emu_dml_tests_state_running\<rparr>"
  have h1: "handle_state ge (requested g) = Some ?g1"
    using q an by (auto simp: handle_state_def requested_def on_request_def request_gives_def Let_def)
  have w1: "waits_for ?u 0 (Suc 0) 0 0 0" using signalled(1) [OF w] by simp
  obtain u2 where u2: "io_wait ?ue ?u = Some (wlan_emu_sig_type_analysis, u2)" "only_pending ?u u2" "waits_for u2 0 0 0 0 0"
    using io_wait_takes(2) [OF w1 env(1)] by auto
  let ?g2 = "?g1\<lparr>g_ui := u2\<rparr>"
  have t: "take_signal ge ?g1 = Some (?g2\<lparr>g_state := wlan_emu_tests_state_cmd_start\<rparr>)"
    using u2(1) by (simp add: take_signal_def update_state_io_wait_done_def)
  have u2q: "u_cases u2 = q" "u_res_open u2" "u_reports u2 = u_reports (g_ui g)"
    using only_pending_simps [OF u2(2)] an(2) op sg by (simp_all add: sig_part_def)
  have run: "runnable (u_cases u2 ! j)" if "j < 0 + length q" for j
    using q that by (simp add: u2q request_gives_def)
  obtain u3 where u3: "start_tests (ge_run ge) 0 (length q) u2 = Some u3" "length (u_cases u3) = length q"
      "u_res_open u3" "u_reports u3 = u_reports (g_ui g)" "waits_for u3 0 0 d 0 (length q - d)"
    using start_tests_signals [OF env(3) u2(3), of 0 "length q"] run u2q d by (auto simp: u2q)
  let ?g3 = "?g2\<lparr>g_ui := u3, g_state := wlan_emu_tests_state_cmd_wait, g_dml := wlan_emu_dml_tests_state_running\<rparr>"
  have qn: "q \<noteq> []" "queue_ok q" using q by (simp_all add: request_gives_def)
  have "start_test (ge_run ge) u2 = Some (RETURN_OK, u3)" using qn u3(1) by (simp add: start_test_def u2q)
  then have h3: "handle_state ge (?g2\<lparr>g_state := wlan_emu_tests_state_cmd_start\<rparr>) = Some ?g3"
    by (simp add: handle_state_def on_start_def)
  have "after_tests ?g3 d 0 (length q - d)" "u_cases (g_ui ?g3) \<noteq> []" "reports ?g3 = reports g"
    using u3 qn by (auto simp: after_tests_def reports_def queue_ok_def)
  with h1 t h3 show ?thesis by blast
qed

end
