(* ===== verification/Gateway_Runs.thy ===== *)
theory Gateway_Runs
  imports Gateway_Facts
begin

text \<open>
  Sessions of the gateway: the reports a request leads to, the crash of a request whose files cannot be
  downloaded, and the data model.
\<close>

section \<open>Reports\<close>

lemma adds_reports_posted:
  assumes "adds_reports ge ts g g'" "(\<forall>n. posts_work (ue_env (ge_ui ge) n)) \<or> local_ui (g_ui g')"
  shows "reports g' = reports g @ map (\<lambda>t. (t, \<not> local_ui (g_ui g'))) ts"
proof -
  obtain rs where rs: "reports g' = reports g @ rs" "map fst rs = ts" "local_ui (g_ui g') = local_ui (g_ui g)"
    "\<forall>r \<in> set rs. posted_as (ge_ui ge) (local_ui (g_ui g)) (snd r)"
    using assms(1) by (auto simp: adds_reports_def)
  have "\<forall>r \<in> set rs. snd r = (\<not> local_ui (g_ui g'))" using rs(3,4) assms(2) by (auto simp: posted_as_def)
  then have "rs = map (\<lambda>t. (t, \<not> local_ui (g_ui g'))) (map fst rs)" by (induction rs) auto
  then show ?thesis using rs(1,2) by simp
qed

lemma adds_reports_types: "adds_reports ge ts g g' \<Longrightarrow> map fst (reports g') = map fst (reports g) @ ts"
  by (auto simp: adds_reports_def)

text \<open>
  C9. A session makes one report per test case. With the request of a test pressed on an idle gateway, an
  analysis that yields test cases that can run, and threads that report done or fail, the gateway comes
  to rest again without a crash after the analysis, the start and one round per test case. The first
  report is a success exactly if a test was done and the results were uploaded in the third round
  (\<open>h'\<close> is the gateway before it); every other report is a failure, since the first upload empties the
  queue of test cases. With a local address none of the reports is posted; with another address all
  are, if the environments of the posts let them.
\<close>

theorem session_reports:
  assumes "gateway_idle g" and "press_start ue g = Some (answer, g1)"
    and "ue_select (ge_ui ge)" and "decode_keeps_signals (ge_ui ge)" and "reports_outcome (ge_run ge)"
    and "request_gives ge g q" and "d = length (filter (done_at (ge_run ge) q) [0..<length q])"
    and "ts = (if d = 0 then tc_endpoint_type_fail
               else if \<exists>h h'. session ge 2 g1 = Some h \<and> take_signal ge h = Some h' \<and> results_uploaded ge h'
               then tc_endpoint_type_complete else tc_endpoint_type_fail) # replicate (length q - 1) tc_endpoint_type_fail"
  shows "\<exists>g'. session ge (length q + 5) g1 = Some g' \<and> session_over ge g' \<and>
    map fst (reports g') = map fst (reports g) @ ts \<and>
    ((\<forall>n. posts_work (ue_env (ge_ui ge) n)) \<or> local_ui (g_ui g') \<longrightarrow>
       reports g' = reports g @ map (\<lambda>t. (t, \<not> local_ui (g_ui g'))) ts)"
proof -
  let ?n = "length q" and ?fail = tc_endpoint_type_fail
  have g1: "g1 = g\<lparr>g_ui := send_signal wlan_emu_sig_type_input (g_ui g)\<rparr>"
    using press_start_idle [OF assms(1), of ue] assms(2) by simp
  have t1: "take_signal ge g1 = Some (requested g)" unfolding g1 by (rule request_taken [OF assms(1,3)])
  obtain h1 h2 h3 where h: "handle_state ge (requested g) = Some h1" "take_signal ge h1 = Some h2"
      "handle_state ge h2 = Some h3" "after_tests h3 d 0 (?n - d)" "u_cases (g_ui h3) \<noteq> []" "reports h3 = reports g"
    using tests_handed_over [OF assms(1,3-7)] by blast
  have run: "session ge (?n + 5) g1 = session ge (Suc (?n + 2)) h3" and two: "session ge 2 g1 = Some h3"
    by (simp_all add: numeral_eq_Suc t1 h(1-3))
  have n: "0 < ?n" "d \<le> ?n" using assms(6,7) by (auto simp: request_gives_def intro!: order_trans [OF length_filter_le])
  have w: "waits_for (g_ui h3) 0 0 d 0 (?n - d)" using h(4) by (simp add: after_tests_def)
  note io = io_wait_takes [OF w assms(3)]
  obtain t u' c f where u: "io_wait (ge_ui ge) (g_ui h3) = Some (t, u')" "only_pending (g_ui h3) u'" "waits_for u' 0 0 c 0 f"
    and t: "if d = 0 then t = wlan_emu_sig_type_fail else update_state_io_wait_done t = wlan_emu_tests_state_cmd_results"
    and cf: "c = d - 1" "f = (if d = 0 then ?n - 1 else ?n - d)"
  proof (cases "d = 0")
    case True
    then show thesis using io(5) n that [of wlan_emu_sig_type_fail _ 0 "?n - 1"] by auto
  next
    case False
    then show thesis using io(3) that [of _ _ "d - 1" "?n - d"] by auto
  qed
  let ?h = "h3\<lparr>g_ui := u', g_state := update_state_io_wait_done t\<rparr>"
  have tk: "take_signal ge h3 = Some ?h" by (rule take_signal_ui [OF u(1)])
  have after: "after_tests ?h c 0 f" "reports ?h = reports g" "local_ui (g_ui ?h) = local_ui (g_ui h3)"
    using u(2,3) h(4,6) by (simp_all add: after_tests_def only_pending_simps reports_def)
  have ts: "ts = hd ts # replicate (?n - 1) ?fail"
    "hd ts = (if d \<noteq> 0 \<and> results_uploaded ge ?h then tc_endpoint_type_complete else ?fail)"
    unfolding assms(8) using two tk by auto
  obtain g4 r where g4: "handle_state ge ?h = Some g4" "u_cases (g_ui g4) = []" "adds_reports ge [hd ts] ?h g4"
    "after_tests g4 c r f" "r \<le> 1"
  proof (cases "d = 0")
    case True
    then have "g_state ?h = wlan_emu_tests_state_cmd_abort" using t by (simp add: update_state_io_wait_done_def)
    then show thesis using abort_round [OF after(1), of ge] True ts(2) that by (auto simp: handle_state_def)
  next
    case False
    then show thesis using results_round [OF after(1), of ge] t ts(2) that by (auto simp: handle_state_def split: if_splits)
  qed
  have "c + r + f < ?n + 2" "c + f = ?n - 1" using g4(5) cf n by (auto split: if_splits)
  with rounds_after [OF assms(3) g4(4,2)] obtain g' where g': "session ge (?n + 2) g4 = Some g'" "session_over ge g'"
    "adds_reports ge (replicate (?n - 1) ?fail) g4 g'"
    by metis
  have "session ge (?n + 5) g1 = Some g'" unfolding run using tk g4(1) g'(1) by simp
  moreover have a: "adds_reports ge ts h3 g'"
    using session_round(2) [OF tk g4(1,3) after(3) _ g'(1,3)] after(2) h(6) ts(1) by simp
  ultimately show ?thesis
    using g'(2) adds_reports_types [OF a] adds_reports_posted [OF a] unfolding h(6) by blast
qed

section \<open>An idle gateway and its environment\<close>

definition sample_ui_env :: "test_case queue \<Rightarrow> ui_env" where
  "sample_ui_env q = \<lparr>ue_env = (\<lambda>_. sample_environment), ue_mac = ''aa:bb'', ue_print = concat \<circ> map snd,
     ue_decode = (\<lambda>d u. (0, u\<lparr>u_cases := q\<rparr>)), ue_curl_get = (\<lambda>_. True), ue_open_append = True,
     ue_reboot_url = None, ue_log_length = Some 0, ue_select = True\<rparr>"

definition sample_case :: "test_step queue \<Rightarrow> test_case" where
  "sample_case q = \<lparr>tc_coverage = 1, tc_type = wlan_emu_test_1_subtype_radio, tc_state = wlan_emu_tests_state_cmd_request,
     tc_name = ''case'', tc_id = ''1'', tc_steps = q\<rparr>"

definition sample_ui :: ui_mgr where
  "sample_ui = \<lparr>u_tda_url = ''https://tda/test.json'', u_out_file_list = ''/res.txt'', u_interface = ''erouter0'', u_version = [], u_subdoc_name = [],
     u_test_config_file = [], u_res_output_file = [], u_res_open = False, u_bound = True, u_pending = replicate 9 0,
     u_cases = [], u_log_offset = 0, u_reboot_executed = False, u_simulated = 3, u_last_executed_step_num = 0, u_paused_logging_steps = [], u_removed = [], u_calls = 0,
     u_reports = [], u_world = sample_world\<rparr>"

definition sample_gateway :: gateway where
  "sample_gateway = \<lparr>g_state = wlan_emu_tests_state_cmd_wait, g_dml = wlan_emu_dml_tests_state_idle, g_ui = sample_ui\<rparr>"

lemma sample_gateway_idle: "gateway_idle sample_gateway"
  by (simp add: gateway_idle_def sample_gateway_def sample_ui_def waits_for_def numeral_eq_Suc)

text \<open>Two test cases whose threads report that they are done.\<close>

definition two_cases :: "test_case queue" where
  "two_cases = replicate 2 (sample_case [sample_step (P_timed_wait 1)])"

definition two_cases_env :: gateway_env where
  "two_cases_env = \<lparr>ge_ui = sample_ui_env two_cases, ge_agents = True, ge_run = (\<lambda>_ _. Some Reports_done)\<rparr>"

lemma two_cases_request: "request_gives two_cases_env sample_gateway two_cases"
proof -
  have a: "fst (analyze_request (sample_ui_env two_cases) sample_ui) = RETURN_OK" by code_simp
  have u: "u_tda_url sample_ui = ''https://tda/test.json''" by (simp add: sample_ui_def)
  have i: "strstr ''https://tda/test.json'' IPERF_TEST_CASE = None" by code_simp
  have b: "u_cases (snd (analyze_request (sample_ui_env q) sample_ui)) = q" if "q = two_cases" for q
    unfolding that by code_simp
  have r: "\<forall>tc \<in> set two_cases. runnable tc"
    by (simp add: two_cases_def runnable_def sample_case_def test_class_name_def nc1_class_name_def)
  show ?thesis
    using a b [OF refl] r by (simp add: request_gives_def two_cases_env_def sample_gateway_def u i two_cases_def queue_ok_def)
qed


lemma sample_env_ok: "ue_select (sample_ui_env q)" "decode_keeps_signals (sample_ui_env q)"
  by (simp_all add: sample_ui_env_def decode_keeps_signals_def)

lemma two_cases_environments: "posts_work (ue_env (ge_ui two_cases_env) n)"
  by (simp add: two_cases_env_def sample_ui_env_def posts_work_def sample_environment_def)

lemma two_cases_session:
  assumes "press_start (sample_ui_env two_cases) sample_gateway = Some (bus_error_success, g1)"
  shows "\<exists>h h'. session two_cases_env 2 g1 = Some h \<and> take_signal two_cases_env h = Some h' \<and>
    results_uploaded two_cases_env h'"
    "map_option (\<lambda>g. local_ui (g_ui g)) (session two_cases_env 7 g1) = Some False"
proof -
  have g1: "g1 = snd (the (press_start (sample_ui_env two_cases) sample_gateway))" using assms by simp
  have "(case session two_cases_env 2 (snd (the (press_start (sample_ui_env two_cases) sample_gateway))) of None \<Rightarrow> False
    | Some h \<Rightarrow> (case take_signal two_cases_env h of None \<Rightarrow> False | Some h' \<Rightarrow> results_uploaded two_cases_env h'))"
    by code_simp
  then show "\<exists>h h'. session two_cases_env 2 g1 = Some h \<and> take_signal two_cases_env h = Some h' \<and>
    results_uploaded two_cases_env h'"
    unfolding g1 by (auto split: option.splits)
  show "map_option (\<lambda>g. local_ui (g_ui g)) (session two_cases_env 7 g1) = Some False"
    unfolding g1 by code_simp
qed

theorem session_reports_witness:
  "\<exists>g1 g'. press_start (sample_ui_env two_cases) sample_gateway = Some (bus_error_success, g1) \<and>
     session two_cases_env 7 g1 = Some g' \<and> reports g' = [(tc_endpoint_type_complete, True), (tc_endpoint_type_fail, True)]"
proof -
  let ?g = "sample_gateway\<lparr>g_ui := send_signal wlan_emu_sig_type_input (g_ui sample_gateway)\<rparr>"
  note p = press_start_idle [OF sample_gateway_idle, of "sample_ui_env two_cases"]
  have e: "ue_select (ge_ui two_cases_env)" "decode_keeps_signals (ge_ui two_cases_env)" "reports_outcome (ge_run two_cases_env)"
    using sample_env_ok by (simp_all add: two_cases_env_def reports_outcome_def)
  have d: "length (filter (done_at (ge_run two_cases_env) two_cases) [0..<length two_cases]) = 2"
    by (simp add: two_cases_env_def done_at_def two_cases_def numeral_2_eq_2)
  have n: "length two_cases = 2" "reports sample_gateway = []" "replicate (2 - 1) x = [x]" for x :: tc_endpoint_type
    by (simp_all add: two_cases_def reports_def sample_gateway_def sample_ui_def)
  note s = two_cases_session [OF p]
  from session_reports [OF sample_gateway_idle p e two_cases_request d [symmetric] refl] s(1)
  obtain g' where "session two_cases_env 7 ?g = Some g'"
    "(\<forall>n. posts_work (ue_env (ge_ui two_cases_env) n)) \<longrightarrow>
       reports g' = map (\<lambda>t. (t, \<not> local_ui (g_ui g'))) [tc_endpoint_type_complete, tc_endpoint_type_fail]"
    unfolding n by auto
  moreover from this s(2) have "\<not> local_ui (g_ui g')" by simp
  ultimately show ?thesis using p two_cases_environments by auto
qed

section \<open>A request whose files cannot be downloaded\<close>

text \<open>An environment in which a log can be copied and uploaded.\<close>

definition uploads_work :: "environment \<Rightarrow> bool" where
  "uploads_work env \<longleftrightarrow> env_time env \<noteq> None \<and> env_file env CCI_LOG_FILE \<noteq> None \<and> (\<forall>f. env_open_w env f) \<and>
     env_http_info env \<and> env_curl_init env \<and> (\<forall>url f. env_curl_perform env url f)"

lemma after_last_prefix: "\<exists>t. after_last c (p @ c # s) = Some t \<and> length t \<le> length s"
proof (induction p)
  case Nil
  show ?case
  proof (cases "after_last c s")
    case (Some t)
    with after_last_SomeD [OF Some] show ?thesis by auto
  qed simp
next
  case (Cons d p)
  then show ?case by auto
qed

lemma log_name_found:
  "\<exists>t. get_last_substring_after_slash (Some (snprintf_store 128 (''/tmp/'' @ s))) 128 e = (RETURN_OK, Some t, e)"
proof -
  have eq: "snprintf_store 128 (''/tmp/'' @ s) = ''/tmp'' @ CHR ''/'' # take 122 s"
    by (simp add: snprintf_store_def)
  obtain t where "after_last CHR ''/'' (''/tmp'' @ CHR ''/'' # take 122 s) = Some t" "length t \<le> length (take 122 s)"
    using after_last_prefix by blast
  then show ?thesis unfolding eq by (auto simp: get_last_substring_after_slash_def)
qed

lemma upload_log_works:
  assumes "uploads_work env" "w_remote_results_loc w \<noteq> []" "\<not> w_local_host w"
  shows "\<exists>w'. upload_file_to_server env (snprintf_store 128 (''/tmp/'' @ s)) (w_remote_results_loc w) w = (RETURN_OK, w') \<and>
    w_error w' = w_error w"
proof -
  obtain t where "get_last_substring_after_slash (Some (snprintf_store 128 (''/tmp/'' @ s))) 128 (w_error w) = (RETURN_OK, Some t, w_error w)"
    using log_name_found by blast
  with assms show ?thesis
    by (simp add: upload_file_to_server_def https_post_file_def uploads_work_def add_fx_def snprintf_store_def)
qed

lemma copy_file_ok: "src \<noteq> None \<Longrightarrow> \<exists>c. copy_file src True n = (RETURN_OK, Some c)"
  by (auto simp: copy_file_def)

text \<open>The upload of a log writes through the null pointer when the list of result files is not open.\<close>

lemma upload_log_crashes:
  assumes "uploads_work env" "\<not> u_res_open u" "tc_id tc \<noteq> []" "tc_name tc \<noteq> []"
    and "w_remote_results_loc (u_world u) \<noteq> []" "\<not> w_local_host (u_world u)"
  shows "upload_cci_log env tc u = None"
proof -
  obtain ts where ts: "env_time env = Some ts" using assms(1) by (auto simp: uploads_work_def)
  let ?s = "tc_id tc @ ''_'' @ ts @ ''_'' @ tc_name tc @ ''_CCILOG.txt''"
  define f where "f = snprintf_store 128 (''/tmp/'' @ ?s)"
  obtain c where c: "copy_file (env_file env CCI_LOG_FILE) True (u_log_offset u) = (RETURN_OK, Some c)"
    using copy_file_ok assms(1) unfolding uploads_work_def by blast
  let ?u = "ui_effect (Fx_write f c) u"
  have w: "w_remote_results_loc (u_world ?u) \<noteq> []" "\<not> w_local_host (u_world ?u)" "\<not> u_res_open ?u"
    using assms by (simp_all add: ui_effect_def add_fx_def)
  obtain w' where up: "upload_file_to_server env f (w_remote_results_loc (u_world ?u)) (u_world ?u) = (RETURN_OK, w')"
    using upload_log_works [OF assms(1) w(1,2)] unfolding f_def by blast
  obtain t where t: "get_last_substring_after_slash (Some f) 128 (w_error w') = (RETURN_OK, Some t, w_error w')"
    using log_name_found unfolding f_def by blast
  have "record_log f (?u\<lparr>u_world := w'\<rparr>) = None" using w(3) by (simp add: record_log_def t)
  then have "send_log env f ?u = None" by (simp add: send_log_def up)
  moreover have "upload_cci_log env tc u = send_log env f ?u"
    using assms(1,3,4) c by (simp add: upload_cci_log_def ts uploads_work_def Let_def flip: f_def [simplified])
  ultimately show ?thesis by simp
qed

text \<open>
  C23. A request that fails after its test cases were decoded crashes the gateway. When the analysis fails
  and leaves test cases in the queue, as a failing download of their files does, the list of result
  files was never opened; the failure is handled by uploading the logs of those test cases, and the
  first upload that succeeds writes its name through the null pointer.
\<close>

theorem failed_request_crashes:
  assumes "gateway_idle g" and "press_start ue g = Some (answer, g1)"
    and "ue_select (ge_ui ge)" and "decode_keeps_signals (ge_ui ge)"
    and "strstr (u_tda_url (g_ui g)) IPERF_TEST_CASE = None"
    and "analyze_request (ge_ui ge) (g_ui g) = (RETURN_ERR, u)" and "\<not> u_res_open u"
    and "u_cases u \<noteq> []" and "queue_ok (u_cases u)" and "tc_id (last (u_cases u)) \<noteq> []" and "tc_name (last (u_cases u)) \<noteq> []"
    and "w_remote_results_loc (u_world u) \<noteq> []" and "\<not> w_local_host (u_world u)" and "\<forall>n. uploads_work (ue_env (ge_ui ge) n)"
  shows "session ge 2 g1 = None"
proof -
  have g1: "g1 = g\<lparr>g_ui := send_signal wlan_emu_sig_type_input (g_ui g)\<rparr>"
    using press_start_idle [OF assms(1), of ue] assms(2) by simp
  have t1: "take_signal ge g1 = Some (requested g)" unfolding g1 by (rule request_taken [OF assms(1,3)])
  let ?u = "send_signal wlan_emu_sig_type_fail u"
  let ?g1 = "requested g\<lparr>g_ui := ?u, g_dml := wlan_emu_dml_tests_state_complete_failure\<rparr>"
  have h1: "handle_state ge (requested g) = Some ?g1"
    using assms(5,6) by (simp add: handle_state_def requested_def on_request_def Let_def)
  have sg: "sig_part u = sig_part (g_ui g)" using analyze_request_sig(1) [OF assms(4), of "g_ui g"] assms(6) by simp
  have "waits_for u 0 0 0 0 0" using assms(1) waits_for_sig [OF sg] by (simp add: gateway_idle_def)
  from signalled(3) [OF this] have w: "waits_for ?u 0 0 0 0 (Suc 0)" by simp
  obtain u2 where u2: "io_wait (ge_ui ge) ?u = Some (wlan_emu_sig_type_fail, u2)" "only_pending ?u u2"
    using io_wait_takes(5) [OF w assms(3)] by auto
  let ?g2 = "?g1\<lparr>g_ui := u2, g_state := wlan_emu_tests_state_cmd_abort\<rparr>"
  have t2: "take_signal ge ?g1 = Some ?g2"
    using u2(1) by (simp add: take_signal_def update_state_io_wait_done_def)
  have "u_world ?u = u_world u" by (simp add: send_signal_def)
  with u2(2) have q: "u_cases u2 = u_cases u" "u_res_open u2 = u_res_open u" "u_world u2 = u_world u"
    by (auto simp: only_pending_def)
  let ?v = "u2\<lparr>u_cases := butlast (u_cases u), u_calls := Suc (u_calls u2)\<rparr>"
  have "upload_cci_log (ue_env (ge_ui ge) (u_calls u2)) (last (u_cases u)) ?v = None"
    using assms q by (intro upload_log_crashes) simp_all
  then have "upload_logs (ge_ui ge) (Suc n) u2 = None" for n
    using assms(8) q(1) by (simp add: queue_pop_def)
  moreover obtain m where "length (u_cases u2) = Suc m" using assms(8) q(1) by (cases "length (u_cases u2)") simp_all
  ultimately have "upload_logs (ge_ui ge) (length (u_cases u2)) u2 = None" by metis
  then have "upload_results (ge_ui ge) u2 = None" using assms(8,9) q(1) by (simp add: upload_results_def)
  then have "handle_state ge ?g2 = None" by (simp add: handle_state_def on_abort_def)
  then show ?thesis by (simp add: numeral_2_eq_2 t1 h1 t2)
qed


text \<open>A test case with a step whose file has no address behind a slash.\<close>

definition bad_case :: "test_case queue" where
  "bad_case = [sample_case [sample_step (P_radio ''radio.json'')]]"

definition bad_env :: gateway_env where
  "bad_env = \<lparr>ge_ui = sample_ui_env bad_case, ge_agents = True, ge_run = (\<lambda>_ _. None)\<rparr>"

lemma bad_request:
  "fst (analyze_request (ge_ui bad_env) sample_ui) = RETURN_ERR"
  "(let u = snd (analyze_request (ge_ui bad_env) sample_ui)
    in \<not> u_res_open u \<and> map (\<lambda>t. (tc_id t, tc_name t)) (u_cases u) = [(''1'', ''case'')] \<and>
       w_remote_results_loc (u_world u) = ''/results'' \<and> \<not> w_local_host (u_world u))"
  by code_simp+

theorem failed_request_crashes_witness:
  "\<exists>g1. press_start (sample_ui_env bad_case) sample_gateway = Some (bus_error_success, g1) \<and> session bad_env 2 g1 = None"
proof -
  obtain u where an: "analyze_request (ge_ui bad_env) (g_ui sample_gateway) = (RETURN_ERR, u)"
    and u: "\<not> u_res_open u" "map (\<lambda>t. (tc_id t, tc_name t)) (u_cases u) = [(''1'', ''case'')]"
      "w_remote_results_loc (u_world u) \<noteq> []" "\<not> w_local_host (u_world u)"
    using bad_request by (cases "analyze_request (ge_ui bad_env) sample_ui") (auto simp: Let_def sample_gateway_def)
  then obtain tc where tc: "u_cases u = [tc]" "tc_id tc \<noteq> []" "tc_name tc \<noteq> []" by auto
  have e: "ue_select (ge_ui bad_env)" "decode_keeps_signals (ge_ui bad_env)"
    "\<forall>n. uploads_work (ue_env (ge_ui bad_env) n)"
    using sample_env_ok by (simp_all add: bad_env_def sample_ui_env_def uploads_work_def sample_environment_def)
  have i: "strstr (u_tda_url (g_ui sample_gateway)) IPERF_TEST_CASE = None" by code_simp
  note p = press_start_idle [OF sample_gateway_idle, of "sample_ui_env bad_case"]
  have "session bad_env 2 (sample_gateway\<lparr>g_ui := send_signal wlan_emu_sig_type_input (g_ui sample_gateway)\<rparr>) = None"
    using tc u(3,4)
    by (intro failed_request_crashes [OF sample_gateway_idle p e(1,2) i an u(1)]) (simp_all add: queue_ok_def e(3))
  with p show ?thesis by blast
qed

section \<open>The data model\<close>

text \<open>A name of the data model that is scanned to \<open>p\<close>, for a handler that scans at most \<open>width\<close> characters.\<close>

lemma scan_names:
  "scan_parameter 200 ''Device.WiFi.Tests.TestConfigURL'' = ''TestConfigURL''"
  "scan_parameter 200 ''Device.WiFi.Tests.ResultsFileName'' = ''ResultsFileName''"
  "scan_parameter 200 ''Device.WiFi.Tests.Interface'' = ''Interface''"
  "scan_parameter 200 ''Device.WiFi.Tests.SimulatedClientDevices'' = ''SimulatedClientDevices''"
  "scan_parameter 63 ''Device.WiFi.Tests.TestConfigURL'' = ''TestConfigURL''"
  "scan_parameter 63 ''Device.WiFi.Tests.ResultsFileName'' = ''ResultsFileName''"
  "scan_parameter 63 ''Device.WiFi.Tests.SimulatedClientDevices'' = ''SimulatedClientDevices''"
  by code_simp+

lemma search_names:
  "strstr ''TestConfigURL'' ''TestConfigURL'' \<noteq> None"
  "strstr ''ResultsFileName'' ''TestConfigURL'' = None" "strstr ''ResultsFileName'' ''ResultsFileName'' \<noteq> None"
  "strstr ''Interface'' ''TestConfigURL'' = None" "strstr ''Interface'' ''ResultsFileName'' = None"
  "strstr ''Interface'' ''Interface'' \<noteq> None"
  "strstr ''SimulatedClientDevices'' ''TestConfigURL'' = None" "strstr ''SimulatedClientDevices'' ''ResultsFileName'' = None"
  "strstr ''SimulatedClientDevices'' ''Interface'' = None"
  "strstr ''SimulatedClientDevices'' ''SimulatedClientDevices'' \<noteq> None"
  by code_simp+

lemma update_url_keeps: "u_tda_url (snd (update_tda_url_to_file ue u)) = u_tda_url u"
  by (simp add: update_tda_url_to_file_def ui_effect_def Let_def split: option.splits)

lemma write_url:
  assumes "g_dml g \<noteq> wlan_emu_dml_tests_state_running" "length url < 128"
  shows "\<exists>g1. set_cci_handler ue (Some ''Device.WiFi.Tests.TestConfigURL'') (Raw_string (Some url)) g = Some (bus_error_success, g1) \<and>
    get_cci_handler ''Device.WiFi.Tests.TestConfigURL'' g1 = Raw_string (Some url)"
  using assms
  by (simp add: set_cci_handler_def get_cci_handler_def scan_names search_names copy_string_def STR_LEN_def update_url_keeps
      shown_string_def Let_def)

lemma write_results_name:
  assumes "g_dml g \<noteq> wlan_emu_dml_tests_state_running" "length name < 128" "name \<noteq> []"
  shows "\<exists>g1. set_cci_handler ue (Some ''Device.WiFi.Tests.ResultsFileName'') (Raw_string (Some name)) g = Some (bus_error_success, g1) \<and>
    get_cci_handler ''Device.WiFi.Tests.ResultsFileName'' g1 = Raw_string (Some (take 63 name))"
  using assms
  by (simp add: set_cci_handler_def get_cci_handler_def scan_names search_names copy_string_def STR_LEN_def shown_string_def Let_def)

lemma write_clients:
  assumes "g_dml g \<noteq> wlan_emu_dml_tests_state_running"
  shows "if 0 < sint n \<and> sint n \<le> 300
    then \<exists>g1. set_cci_handler ue (Some ''Device.WiFi.Tests.SimulatedClientDevices'') (Raw_uint32 n) g = Some (bus_error_success, g1) \<and>
      get_cci_handler ''Device.WiFi.Tests.SimulatedClientDevices'' g1 = Raw_uint32 n
    else set_cci_handler ue (Some ''Device.WiFi.Tests.SimulatedClientDevices'') (Raw_uint32 n) g = Some (bus_error_invalid_input, g)"
  using assms
  by (auto simp: set_cci_handler_def get_cci_handler_def scan_names search_names set_simulated_clients_def ui_effect_def Let_def)

text \<open>
  What is written to the data model is read back while no test runs: a test address of fewer than 128
  characters whole, a name of results as far as the 64 bytes of the read go, and a number of clients
  from 1 to 300, of which every other number is refused and changes nothing.
\<close>

theorem data_model_round_trip:
  assumes "g_dml g \<noteq> wlan_emu_dml_tests_state_running" and "length url < 128" and "length name < 128" and "name \<noteq> []"
  shows "(\<exists>g1. set_cci_handler ue (Some ''Device.WiFi.Tests.TestConfigURL'') (Raw_string (Some url)) g = Some (bus_error_success, g1) \<and>
      get_cci_handler ''Device.WiFi.Tests.TestConfigURL'' g1 = Raw_string (Some url)) \<and>
    (\<exists>g1. set_cci_handler ue (Some ''Device.WiFi.Tests.ResultsFileName'') (Raw_string (Some name)) g = Some (bus_error_success, g1) \<and>
      get_cci_handler ''Device.WiFi.Tests.ResultsFileName'' g1 = Raw_string (Some (take 63 name))) \<and>
    (if 0 < sint n \<and> sint n \<le> 300
     then \<exists>g1. set_cci_handler ue (Some ''Device.WiFi.Tests.SimulatedClientDevices'') (Raw_uint32 n) g = Some (bus_error_success, g1) \<and>
       get_cci_handler ''Device.WiFi.Tests.SimulatedClientDevices'' g1 = Raw_uint32 n
     else set_cci_handler ue (Some ''Device.WiFi.Tests.SimulatedClientDevices'') (Raw_uint32 n) g = Some (bus_error_invalid_input, g))"
  using write_url [OF assms(1,2)] write_results_name [OF assms(1,3,4)] write_clients [OF assms(1)] by blast

theorem data_model_round_trip_witness:
  "\<exists>g1. set_cci_handler (sample_ui_env []) (Some ''Device.WiFi.Tests.SimulatedClientDevices'') (Raw_uint32 300) sample_gateway = Some (bus_error_success, g1) \<and>
     get_cci_handler ''Device.WiFi.Tests.SimulatedClientDevices'' g1 = Raw_uint32 300"
proof -
  have "g_dml sample_gateway \<noteq> wlan_emu_dml_tests_state_running" by (simp add: sample_gateway_def)
  from data_model_round_trip [OF this, of "''url''" "''name''" "sample_ui_env []" 300] show ?thesis by simp
qed

text \<open>
  Writing the interface of the data model always writes behind its buffer: 128 bytes are copied into
  16, which zeroes the fields behind it even for a short name.
\<close>

theorem interface_write_overflows:
  assumes "g_dml g \<noteq> wlan_emu_dml_tests_state_running"
  shows "set_cci_handler ue (Some ''Device.WiFi.Tests.Interface'') (Raw_string (Some s)) g = None"
  using assms by (simp add: set_cci_handler_def scan_names search_names copy_string_def STR_LEN_def Let_def)

theorem interface_write_overflows_witness:
  "set_cci_handler (sample_ui_env []) (Some ''Device.WiFi.Tests.Interface'') (Raw_string (Some ''eth0'')) sample_gateway = None"
  using interface_write_overflows [of sample_gateway] by (simp add: sample_gateway_def)

lemma strstr_length: "strstr s n = Some r \<Longrightarrow> length r \<le> length s"
  by (induction s) (auto split: if_splits)

text \<open>
  A local test address works once. The first request cuts the address down to the path behind
  \<open>localhost\<close> and copies files; the next request with the address as it was left treats the same path
  as a remote one.
\<close>

theorem local_address_works_once:
  assumes "strstr (take 127 (u_tda_url u)) ''localhost'' = Some r" and "strstr (drop 9 r) ''localhost'' = None"
  shows "w_local_host (u_world (local_host_url u)) \<and> u_tda_url (local_host_url u) = drop 9 r \<and>
    \<not> w_local_host (u_world (local_host_url (local_host_url u))) \<and>
    u_tda_url (local_host_url (local_host_url u)) = drop 9 r"
proof -
  have "length r \<le> 127" using strstr_length [OF assms(1)] by simp
  then have "snprintf_store 128 (drop 9 r) = drop 9 r" "take 127 (drop 9 r) = drop 9 r"
    by (simp_all add: snprintf_store_def)
  then show ?thesis using assms by (simp add: local_host_url_def)
qed

theorem local_address_works_once_witness:
  "let u = sample_ui\<lparr>u_tda_url := ''localhost/nvram/test.json''\<rparr>
   in w_local_host (u_world (local_host_url u)) \<and> \<not> w_local_host (u_world (local_host_url (local_host_url u)))"
proof -
  have "strstr (take 127 (u_tda_url (sample_ui\<lparr>u_tda_url := ''localhost/nvram/test.json''\<rparr>))) ''localhost'' =
      Some ''localhost/nvram/test.json''"
    "strstr (drop 9 ''localhost/nvram/test.json'') ''localhost'' = None"
    by code_simp+
  from local_address_works_once [OF this] show ?thesis by (simp add: Let_def)
qed

end
