(* ===== verification/Sta_Mgr.thy ===== *)
theory Sta_Mgr
  imports Emu_Hash_Map Test_Step "HOL-Library.Monad_Syntax"
begin

text \<open>
  The manager of the simulated stations (\<open>src/sta/wlan_emu_sta_mgr.cpp\<close>, \<open>inc/wlan_emu_sta_mgr.h\<close>) and
  the station objects (\<open>src/sta/wlan_emu_sta.cpp\<close>). Its state is the inventory of the radio devices,
  a queue of \<open>sta_info\<close> indexed by the device number, and the hash map from keys
  \<open>test-device\<close> to station objects. The objects live in a heap, so that a leaked station and a
  pointer to a deleted one can be told apart from a live one. What the hardware layer, the shell,
  the capture library and \<open>malloc\<close> answer is the record \<open>sta_env\<close>; an answer may depend on all that
  the manager did before, the list of its effects. A result \<open>None\<close> is a null or dangling pointer
  that is followed, or the \<open>assert(0)\<close> of \<open>add_sta\<close>.
\<close>

section \<open>Data\<close>

record sta_info =
  si_phy_index :: u32
  si_rdk_radio_index :: u32
  si_interface_name :: string
  si_bridge_name :: string
  si_vlan_id :: int
  si_index :: u32
  si_vap_name :: string
  si_mac :: bytes
  si_status :: sta_state

text \<open>The members of the hardware layer's structures that the manager reads or writes.\<close>

record vap_info =
  vi_vap_index :: u32
  vi_radio_index :: u32
  vi_bridge_name :: string
  vi_mac :: bytes
  vi_ssid :: string
  vi_bssid :: bytes

record radio_oper =
  ro_band :: int
  ro_channel :: u32

record bss_info =
  bs_freq :: int
  bs_ssid :: string
  bs_bssid :: bytes
  bs_band :: int

record interface_map =
  im_vap_name :: string
  im_phy_index :: u32
  im_rdk_radio_index :: u32
  im_interface_name :: string
  im_bridge_name :: string
  im_vlan_id :: int
  im_index :: u32

record heart_beat_data =
  hb_mac :: bytes
  hb_rssi :: int
  hb_noise :: int
  hb_bitrate :: int

record mac_update =
  mu_old_mac :: bytes
  mu_new_mac :: bytes
  mu_op_modes :: int
  mu_bridge_name :: string

record client_info =
  ci_sta_mac :: bytes
  ci_key :: string
  ci_is_station_associated :: bool
  ci_is_disconnection_sent :: bool
  ci_reconnect_timer :: u32

text \<open>
  The station part of a step as the manager sees it; \<open>sc_pre_assoc_stats\<close> are signal, noise and bit
  rate before the association, \<open>None\<close> is the null pointer.
\<close>

record sta_config =
  sc_test_id :: u32
  sc_phy_index :: u32
  sc_sta_type :: sta_model_type
  sc_vap :: vap_info
  sc_radio :: radio_oper
  sc_profile :: "int \<times> int"
  sc_is_station_prototype_enabled :: bool
  sc_station_prototype :: "station_prototype option"
  sc_custom_mac :: bytes
  sc_client_count :: u32
  sc_connected_client_info_q :: "client_info queue option"
  sc_pre_assoc_stats :: "(int \<times> int \<times> int) option"
  sc_op_modes :: int

text \<open>A station object; \<open>es_vap\<close> is \<open>None\<close> while \<open>m_sta\<close> is uninitialised.\<close>

record emu_sta =
  es_model :: sta_model_type
  es_oui :: bytes
  es_vendor_type :: u8
  es_vendor_len :: u8
  es_vendor_val :: bytes
  es_dev :: u32
  es_test :: u32
  es_profile :: "int \<times> int"
  es_vap :: "vap_info option"

datatype sta_fx =
    Sx_popen string
  | Sx_ctrl wlan_emu_emu80211_cmd_type bytes u32
  | Sx_raw_packet string
  | Sx_disconnect u32
  | Sx_connect u32 bss_info
  | Sx_sm_deinit u32
  | Sx_set_radio u32 radio_oper
  | Sx_create_vap u32 vap_info
  | Sx_scan u32 u32
  | Sx_vap_map u32
  | Sx_sleep int

record sim_sta_mgr =
  sm_sta_map :: "nat hash_map"
  sm_sta_info_map :: "sta_info queue"
  sm_sta_info_count :: u32
  sm_heap :: "nat \<rightharpoonup> emu_sta"
  sm_fresh :: nat
  sm_fx :: "sta_fx list"

text \<open>
  \<open>se_key_size\<close> is \<open>sizeof(sta_key_t)\<close>, \<open>se_popen\<close> the output of a command or \<open>None\<close> if it cannot be
  started, \<open>se_uninit_mac\<close> the address in fresh memory, \<open>se_capture\<close> the first packet of a capture file with its recorded length, and \<open>se_radiotap\<close>
  the flag fields the iterator of the capture library finds in its radio tap header.
\<close>

record sta_env =
  se_key_size :: nat
  se_popen :: "sta_fx list \<Rightarrow> string \<Rightarrow> string option"
  se_malloc :: "sta_fx list \<Rightarrow> nat \<Rightarrow> bool"
  se_uninit_mac :: bytes
  se_rand :: "sta_fx list \<Rightarrow> nat \<Rightarrow> u32"
  se_disconnect :: "sta_fx list \<Rightarrow> u32 \<Rightarrow> int"
  se_connect :: "sta_fx list \<Rightarrow> u32 \<Rightarrow> bss_info \<Rightarrow> int"
  se_sm_deinit :: "sta_fx list \<Rightarrow> u32 \<Rightarrow> int"
  se_set_radio :: "sta_fx list \<Rightarrow> u32 \<Rightarrow> radio_oper \<Rightarrow> int"
  se_create_vap :: "sta_fx list \<Rightarrow> u32 \<Rightarrow> vap_info \<Rightarrow> int"
  se_vap_map :: "sta_fx list \<Rightarrow> u32 \<Rightarrow> vap_info list option"
  se_freq :: "int \<Rightarrow> u32 \<Rightarrow> int"
  se_pcap_open :: "string \<Rightarrow> bool"
  se_capture :: "string \<Rightarrow> (bytes \<times> u32) option"
  se_radiotap :: "bytes \<Rightarrow> u8 list option"

definition sta_effect :: "sta_fx \<Rightarrow> sim_sta_mgr \<Rightarrow> sim_sta_mgr" where
  "sta_effect e m = m\<lparr>sm_fx := sm_fx m @ [e]\<rparr>"

section \<open>Keys\<close>

text \<open>\<open>%d\<close> prints the unsigned numbers as signed ones, and \<open>sscanf\<close> reads them back the same way.\<close>

definition create_key :: "sta_env \<Rightarrow> u32 \<Rightarrow> u32 \<Rightarrow> string" where
  "create_key se dev_id test_id =
     snprintf_store (se_key_size se) (show_int (sint test_id) @ ''-'' @ show_int (sint dev_id))"

text \<open>\<open>sscanf(key, "%d-%d", ...)\<close>; \<open>None\<close> for a variable that stays uninitialised.\<close>

definition scan_key :: "string \<Rightarrow> u32 option \<times> u32 option" where
  "scan_key key =
     (case scan_int key of
        None \<Rightarrow> (None, None)
      | Some (t, rest) \<Rightarrow>
          (case rest of
             [] \<Rightarrow> (Some (word_of_int t), None)
           | c # r \<Rightarrow>
               if c = CHR ''-''
               then (Some (word_of_int t), map_option (\<lambda>(d, _). word_of_int d) (scan_int r))
               else (Some (word_of_int t), None)))"

definition get_test_id_from_key :: "string \<Rightarrow> u32 option" where
  "get_test_id_from_key key = fst (scan_key key)"

definition get_dev_id_from_key :: "string \<Rightarrow> u32 option" where
  "get_dev_id_from_key key = snd (scan_key key)"

section \<open>The inventory of devices\<close>

fun free_dev_from :: "sta_info queue \<Rightarrow> nat \<Rightarrow> nat \<Rightarrow> int option" where
  "free_dev_from q i 0 = Some (- 1)"
| "free_dev_from q i (Suc n) =
     (case queue_peek q (of_nat i) of
        None \<Rightarrow> None
      | Some s \<Rightarrow> if si_status s = sta_state_free then Some (int i) else free_dev_from q (Suc i) n)"

definition find_first_free_dev :: "sim_sta_mgr \<Rightarrow> int option" where
  "find_first_free_dev m = free_dev_from (sm_sta_info_map m) 0 (unat (sm_sta_info_count m))"

definition get_devid_sta_info :: "sim_sta_mgr \<Rightarrow> u32 \<Rightarrow> sta_info option" where
  "get_devid_sta_info m dev_id = queue_peek (sm_sta_info_map m) dev_id"

text \<open>A write through the pointer \<open>queue_peek\<close> returns.\<close>

definition on_device :: "(sta_info \<Rightarrow> sta_info) \<Rightarrow> u32 \<Rightarrow> sim_sta_mgr \<Rightarrow> sim_sta_mgr option" where
  "on_device f dev_id m =
     (case queue_peek (sm_sta_info_map m) dev_id of
        None \<Rightarrow> None
      | Some s \<Rightarrow> Some (m\<lparr>sm_sta_info_map := (sm_sta_info_map m)[unat dev_id := f s]\<rparr>))"

definition set_dev_busy :: "u32 \<Rightarrow> sim_sta_mgr \<Rightarrow> sim_sta_mgr option" where
  "set_dev_busy = on_device (si_status_update (\<lambda>_. sta_state_in_use))"

definition set_dev_free :: "u32 \<Rightarrow> sim_sta_mgr \<Rightarrow> sim_sta_mgr option" where
  "set_dev_free = on_device (si_status_update (\<lambda>_. sta_state_free))"

section \<open>Bridges\<close>

text \<open>\<open>popen\<close> and \<open>pclose\<close> of a command that is cut to the buffer it is printed to.\<close>

definition run_command :: "sta_env \<Rightarrow> nat \<Rightarrow> string \<Rightarrow> sim_sta_mgr \<Rightarrow> string option \<times> sim_sta_mgr" where
  "run_command se n cmd m =
     (let c = snprintf_store n cmd in (se_popen se (sm_fx m) c, sta_effect (Sx_popen c) m))"

definition BUFSIZ :: nat where "BUFSIZ = 8192"

definition ovs_fdb_flush :: "sta_env \<Rightarrow> string \<Rightarrow> sim_sta_mgr \<Rightarrow> sim_sta_mgr" where
  "ovs_fdb_flush se bridge_name m = snd (run_command se 64 (''ovs-appctl fdb/flush '' @ bridge_name) m)"

definition add_to_bridge :: "sta_env \<Rightarrow> string \<Rightarrow> string \<Rightarrow> sim_sta_mgr \<Rightarrow> sim_sta_mgr" where
  "add_to_bridge se interface bridge m =
     snd (run_command se BUFSIZ (''ovs-vsctl add-port '' @ bridge @ '' '' @ interface) m)"

definition remove_from_bridge :: "sta_env \<Rightarrow> string \<Rightarrow> string \<Rightarrow> sim_sta_mgr \<Rightarrow> sim_sta_mgr" where
  "remove_from_bridge se interface bridge m =
     snd (run_command se BUFSIZ (''ovs-vsctl del-port '' @ bridge @ '' '' @ interface) m)"

text \<open>
  The address is all that \<open>ifconfig\<close> prints behind \<open>HWaddr\<close>: the rest of the output is not cut off.
\<close>

definition set_bridge_mac :: "sta_env \<Rightarrow> string \<Rightarrow> sim_sta_mgr \<Rightarrow> sim_sta_mgr" where
  "set_bridge_mac se bridge_name m =
     (case run_command se BUFSIZ (''ifconfig '' @ bridge_name) m of
        (None, m) \<Rightarrow> m
      | (Some out, m) \<Rightarrow>
          (case strstr (take (BUFSIZ - 1) out) ''HWaddr '' of
             None \<Rightarrow> m
           | Some t \<Rightarrow>
               snd (run_command se BUFSIZ
                 (''ovs-vsctl set bridge '' @ bridge_name @ '' other_config:hwaddr='' @ drop (length ''HWaddr '') t) m)))"

section \<open>Station objects\<close>

text \<open>An \<open>int\<close> as the four bytes that \<open>memcpy\<close> takes, and a string in a buffer of \<open>n\<close> bytes.\<close>

definition int_bytes :: "int \<Rightarrow> bytes" where
  "int_bytes i = [word_of_int i, word_of_int (i div 256), word_of_int (i div 65536), word_of_int (i div 16777216)]"

definition buffer_bytes :: "nat \<Rightarrow> string \<Rightarrow> bytes" where
  "buffer_bytes n s = take n (map of_char s @ replicate n 0)"

text \<open>
  \<open>send_ctrl_msg\<close>: the bytes of the caller that reach the buffer of the message, and their number. The
  code always copies 1024 bytes, so what follows a shorter text is what lies behind the caller's buffer.
\<close>

definition send_ctrl_msg :: "bytes \<Rightarrow> wlan_emu_emu80211_cmd_type \<Rightarrow> sim_sta_mgr \<Rightarrow> sim_sta_mgr" where
  "send_ctrl_msg buff ctrl m = sta_effect (Sx_ctrl ctrl (take 1024 buff) (of_nat (length buff))) m"

definition send_radio_tap_header :: "heart_beat_data \<Rightarrow> sim_sta_mgr \<Rightarrow> sim_sta_mgr" where
  "send_radio_tap_header hb = send_ctrl_msg
     (hb_mac hb @ int_bytes (hb_rssi hb) @ int_bytes (hb_noise hb) @ int_bytes (hb_bitrate hb))
     wlan_emu_emu80211_cmd_radiotap"

definition handle_heart_beat :: "heart_beat_data \<Rightarrow> sim_sta_mgr \<Rightarrow> sim_sta_mgr" where
  "handle_heart_beat hb = send_radio_tap_header hb"

definition send_mac_update :: "mac_update \<Rightarrow> sim_sta_mgr \<Rightarrow> sim_sta_mgr" where
  "send_mac_update mu = send_ctrl_msg
     (mu_old_mac mu @ mu_new_mac mu @ int_bytes (mu_op_modes mu) @ buffer_bytes 32 (mu_bridge_name mu))
     wlan_emu_emu80211_cmd_mac_update"

definition dev_mac_tail :: "u32 \<Rightarrow> bytes" where
  "dev_mac_tail dev_id = (let d = dev_id + 2
     in [ucast (drop_bit 16 d), ucast (drop_bit 8 d), ucast d])"

definition iphone_dev_mac :: "u32 \<Rightarrow> bytes" where
  "iphone_dev_mac dev_id = [0x00, 0x17, 0xf2] @ dev_mac_tail dev_id"

definition pixel_dev_mac :: "u32 \<Rightarrow> bytes" where
  "pixel_dev_mac dev_id = [0xb8, 0xdb, 0x38] @ dev_mac_tail dev_id"

text \<open>
  The constructors return the object and the access point's configuration, whose address they set
  unless a custom one is in use.
\<close>

definition new_iphone :: "u32 \<Rightarrow> u32 \<Rightarrow> vap_info \<Rightarrow> int \<times> int \<Rightarrow> bool \<Rightarrow> emu_sta \<times> vap_info" where
  "new_iphone dev_id test_id vap profile custom =
     (\<lparr>es_model = sta_model_type_iphone, es_oui = [0x00, 0x17, 0xf2], es_vendor_type = 0xdd, es_vendor_len = 0x0b,
       es_vendor_val = [0x00, 0x17, 0xf2] @ [0x0a, 0x00, 0x01, 0x04, 0x00, 0x00, 0x00, 0x00],
       es_dev = dev_id, es_test = test_id, es_profile = profile, es_vap = None\<rparr>,
      if custom then vap else vap\<lparr>vi_mac := iphone_dev_mac dev_id\<rparr>)"

definition new_pixel :: "u32 \<Rightarrow> u32 \<Rightarrow> vap_info \<Rightarrow> int \<times> int \<Rightarrow> bool \<Rightarrow> emu_sta \<times> vap_info" where
  "new_pixel dev_id test_id vap profile custom =
     (\<lparr>es_model = sta_model_type_pixel, es_oui = [0xc8, 0x2a, 0xdd], es_vendor_type = 0xdd, es_vendor_len = 0x00,
       es_vendor_val = [0xc8, 0x2a, 0xdd] @ [0x0a, 0x00, 0x01, 0x04, 0x00, 0x00, 0x00, 0x00],
       es_dev = dev_id, es_test = test_id, es_profile = profile, es_vap = None\<rparr>,
      if custom then vap else vap\<lparr>vi_mac := pixel_dev_mac dev_id\<rparr>)"

text \<open>\<open>new\<close> at a fresh address, and \<open>delete\<close>.\<close>

definition alloc_sta :: "emu_sta \<Rightarrow> sim_sta_mgr \<Rightarrow> nat \<times> sim_sta_mgr" where
  "alloc_sta s m = (sm_fresh m, m\<lparr>sm_heap := (sm_heap m)(sm_fresh m \<mapsto> s), sm_fresh := Suc (sm_fresh m)\<rparr>)"

definition delete_sta :: "nat \<Rightarrow> sim_sta_mgr \<Rightarrow> sim_sta_mgr" where
  "delete_sta a m = m\<lparr>sm_heap := (sm_heap m)(a := None)\<rparr>"


section \<open>Prototype frames\<close>

text \<open>
  The loop over the queue does not advance behind an element without data: \<open>None\<close> is this endless
  loop. The elements are visited from the head of the queue on.
\<close>

fun proto_pcap_loop :: "u32 \<Rightarrow> station_prototype_pcap option list \<Rightarrow> station_prototype_pcap option option" where
  "proto_pcap_loop type [] = Some None"
| "proto_pcap_loop type (None # q) = None"
| "proto_pcap_loop type (Some p # q) =
     (if fc_msg_type (pp_fc_request p) = flag (msg_no wlan_emu_msg_type_frm80211)
        \<and> fc_frm80211_ops (pp_fc_request p) = type
      then Some (Some p) else proto_pcap_loop type q)"

definition get_frm80211_proto_pcap :: "station_prototype option \<Rightarrow> u32 \<Rightarrow> station_prototype_pcap option option" where
  "get_frm80211_proto_pcap sp type =
     (case sp of
        None \<Rightarrow> Some None
      | Some p \<Rightarrow> (case sp_fc_prototype_q p of None \<Rightarrow> Some None | Some q \<Rightarrow> proto_pcap_loop type q))"

definition IEEE80211_RADIOTAP_F_FCS :: u8 where "IEEE80211_RADIOTAP_F_FCS = 0x10"

text \<open>
  The frame behind the radio tap header of the first captured packet, without its check sum, is sent
  with the address in front. \<open>None\<close> is a read behind the packet; the length is computed in 32 bits.
\<close>

definition send_proto_pcap :: "sta_env \<Rightarrow> wlan_emu_emu80211_cmd_type \<Rightarrow> bytes \<Rightarrow> string \<Rightarrow> sim_sta_mgr \<Rightarrow> (int \<times> sim_sta_mgr) option" where
  "send_proto_pcap se cmd_type mac_addr proto_file m =
     (if \<not> se_pcap_open se proto_file then Some (- 1, m)
      else case se_capture se proto_file of
        None \<Rightarrow> Some (- 1, m)
      | Some (packet, header_len) \<Rightarrow>
          (case le16_at packet 2 of
             None \<Rightarrow> None
           | Some radiotap_len \<Rightarrow>
               (case se_radiotap se packet of
                  None \<Rightarrow> Some (- 1, m)
                | Some flags \<Rightarrow>
                    let fcs = list_ex (\<lambda>f. f AND IEEE80211_RADIOTAP_F_FCS \<noteq> 0) flags;
                        buff_len = header_len - ucast radiotap_len - (if fcs then 4 else 0)
                    in if unat radiotap_len + unat buff_len \<le> length packet
                       then Some (0, send_ctrl_msg (mac_addr @ take (unat buff_len) (drop (unat radiotap_len) packet)) cmd_type m)
                       else None)))"

definition send_proto_of :: "sta_env \<Rightarrow> sta_config \<Rightarrow> wlan_emu_emu80211_cmd_type \<Rightarrow> u32 \<Rightarrow> sim_sta_mgr \<Rightarrow> (int \<times> sim_sta_mgr) option" where
  "send_proto_of se sc cmd_type type m =
     (case get_frm80211_proto_pcap (sc_station_prototype sc) type of
        None \<Rightarrow> None
      | Some None \<Rightarrow> Some (RETURN_ERR, m)
      | Some (Some p) \<Rightarrow> send_proto_pcap se cmd_type (vi_mac (sc_vap sc)) (pp_file_location p) m)"

definition frm_op_flag :: "wlan_emu_frm80211_ops_type \<Rightarrow> u32" where
  "frm_op_flag t = flag (frm_no t)"

definition configure_proto_types_on_sta :: "sta_env \<Rightarrow> sta_config \<Rightarrow> sim_sta_mgr \<Rightarrow> (int \<times> sim_sta_mgr) option" where
  "configure_proto_types_on_sta se sc m =
     (case sc_station_prototype sc of
        None \<Rightarrow> Some (RETURN_ERR, m)
      | Some sp \<Rightarrow>
          if sp_fc_prototype_q sp = None then Some (RETURN_ERR, m)
          else if \<not> has_flag (fc_msg_type (sp_fc_request_summary sp)) (msg_no wlan_emu_msg_type_frm80211)
          then Some (RETURN_ERR, m)
          else do {
            (rc, m) \<leftarrow> (if has_flag (fc_frm80211_ops (sp_fc_request_summary sp)) (frm_no wlan_emu_frm80211_ops_type_auth)
               then send_proto_of se sc wlan_emu_emu80211_cmd_frame_auth_req (frm_op_flag wlan_emu_frm80211_ops_type_auth) m
               else Some (RETURN_ERR, m));
            if has_flag (fc_frm80211_ops (sp_fc_request_summary sp)) (frm_no wlan_emu_frm80211_ops_type_auth) \<and> rc = RETURN_ERR
            then Some (RETURN_ERR, m)
            else if has_flag (fc_frm80211_ops (sp_fc_request_summary sp)) (frm_no wlan_emu_frm80211_ops_type_assoc_req)
            then send_proto_of se sc wlan_emu_emu80211_cmd_frame_assoc_req (frm_op_flag wlan_emu_frm80211_ops_type_assoc_req) m
            else Some (rc, m) })"

section \<open>Adding stations\<close>

text \<open>\<open>rand() & 0xFF\<close> six times; the first byte is made a local unicast address.\<close>

definition generate_client_mac :: "sta_env \<Rightarrow> sim_sta_mgr \<Rightarrow> bytes" where
  "generate_client_mac se m =
     (let mac = map (\<lambda>i. ucast (se_rand se (sm_fx m) i AND 0xFF) :: u8) [0, 1, 2, 3, 4, 5]
      in mac[0 := (mac ! 0 AND 0xFE) OR 0x02])"

text \<open>What the first phase keeps of a prepared client for the second.\<close>

record sta_prep_ctx =
  pc_dev_id :: u32
  pc_vap_index :: u32
  pc_key :: string
  pc_sta :: nat
  pc_bss :: bss_info

definition bss_of :: "sta_env \<Rightarrow> sta_config \<Rightarrow> bss_info" where
  "bss_of se sc =
     \<lparr>bs_freq = se_freq se (ro_band (sc_radio sc)) (ro_channel (sc_radio sc)),
      bs_ssid = vi_ssid (sc_vap sc), bs_bssid = vi_bssid (sc_vap sc), bs_band = ro_band (sc_radio sc)\<rparr>"

text \<open>The device's numbers and the address of the client are written to the configuration.\<close>

definition claim_device :: "sta_info \<Rightarrow> sta_config \<Rightarrow> sta_config" where
  "claim_device si sc = sc\<lparr>sc_vap := (sc_vap sc)\<lparr>vi_vap_index := si_index si, vi_radio_index := si_rdk_radio_index si\<rparr>,
     sc_phy_index := si_phy_index si\<rparr>"

definition choose_mac :: "sta_env \<Rightarrow> sim_sta_mgr \<Rightarrow> sta_config \<Rightarrow> sta_config" where
  "choose_mac se m sc = sc\<lparr>sc_vap := (sc_vap sc)\<lparr>vi_mac :=
     (if is_zero_mac (sc_custom_mac sc) then generate_client_mac se m else sc_custom_mac sc)\<rparr>\<rparr>"

definition new_sta :: "u32 \<Rightarrow> sta_config \<Rightarrow> (emu_sta \<times> vap_info) option" where
  "new_sta dev_id sc =
     (case sc_sta_type sc of
        sta_model_type_iphone \<Rightarrow> Some (new_iphone dev_id (sc_test_id sc) (sc_vap sc) (sc_profile sc) True)
      | sta_model_type_pixel \<Rightarrow> Some (new_pixel dev_id (sc_test_id sc) (sc_vap sc) (sc_profile sc) True)
      | _ \<Rightarrow> None)"

definition pre_assoc_beat :: "sta_config \<Rightarrow> heart_beat_data option" where
  "pre_assoc_beat sc = map_option (\<lambda>(rssi, noise, bitrate).
     \<lparr>hb_mac = vi_mac (sc_vap sc), hb_rssi = rssi, hb_noise = noise, hb_bitrate = bitrate\<rparr>) (sc_pre_assoc_stats sc)"

text \<open>
  The hardware layer's part for the station at address \<open>a\<close>: heart beat, radio parameters, access
  point, the new address. A result code other than 0 means that the station was deleted.
\<close>

definition setup_radio :: "sta_env \<Rightarrow> sta_config \<Rightarrow> u32 \<Rightarrow> nat \<Rightarrow> sim_sta_mgr \<Rightarrow> (int \<times> sim_sta_mgr) option" where
  "setup_radio se sc radio a m =
     (let rc = se_set_radio se (sm_fx m) radio (sc_radio sc); m = sta_effect (Sx_set_radio radio (sc_radio sc)) m
      in if rc \<noteq> RETURN_OK then Some (RETURN_ERR, delete_sta a m)
         else let rc = se_create_vap se (sm_fx m) radio (sc_vap sc); m = sta_effect (Sx_create_vap radio (sc_vap sc)) m
           in if rc \<noteq> RETURN_OK then Some (RETURN_ERR, delete_sta a m)
              else Some (RETURN_OK, m\<lparr>sm_heap := (sm_heap m)(a := map_option (es_vap_update (\<lambda>_. Some (sc_vap sc))) (sm_heap m a))\<rparr>))"

definition announce_mac :: "sta_config \<Rightarrow> u32 \<Rightarrow> sim_sta_mgr \<Rightarrow> sim_sta_mgr option" where
  "announce_mac sc dev_id m =
     (case get_devid_sta_info m dev_id of
        None \<Rightarrow> None
      | Some si \<Rightarrow> map_option (send_mac_update
            \<lparr>mu_old_mac = si_mac si, mu_new_mac = vi_mac (sc_vap sc), mu_op_modes = sc_op_modes sc,
             mu_bridge_name = vi_bridge_name (sc_vap sc)\<rparr>)
          (on_device (si_mac_update (\<lambda>_. vi_mac (sc_vap sc))) dev_id m))"

definition configure_station :: "sta_env \<Rightarrow> sta_config \<Rightarrow> u32 \<Rightarrow> u32 \<Rightarrow> nat \<Rightarrow> sim_sta_mgr \<Rightarrow> (int \<times> sim_sta_mgr) option" where
  "configure_station se sc dev_id radio a m =
     (if \<not> se_malloc se (sm_fx m) 0 then Some (RETURN_ERR, delete_sta a m)
      else do {
        hb \<leftarrow> pre_assoc_beat sc;
        if \<not> se_malloc se (sm_fx m) 1 then Some (RETURN_ERR, delete_sta a m)
        else do {
          (rc, m) \<leftarrow> setup_radio se sc radio a (handle_heart_beat hb m);
          if rc \<noteq> RETURN_OK then Some (rc, m)
          else do {
            m \<leftarrow> announce_mac sc dev_id m;
            if \<not> sc_is_station_prototype_enabled sc then Some (RETURN_OK, m)
            else do {
              (rc, m) \<leftarrow> configure_proto_types_on_sta se sc m;
              if rc = RETURN_ERR then Some (RETURN_ERR, delete_sta a m) else Some (RETURN_OK, m) } } } })"

text \<open>One round of the first phase: a result code other than 0 leaves \<open>add_sta\<close>.\<close>

definition prepare_device :: "sta_env \<Rightarrow> u32 \<Rightarrow> sta_info \<Rightarrow> sta_config \<Rightarrow> sim_sta_mgr \<Rightarrow> ((int + sta_prep_ctx) \<times> sta_config \<times> sim_sta_mgr) option" where
  "prepare_device se dev_id si sc m =
     (let sc = claim_device si sc;
          m = set_bridge_mac se (vi_bridge_name (sc_vap sc)) (add_to_bridge se (si_interface_name si) (vi_bridge_name (sc_vap sc)) m);
          sc = choose_mac se m sc
      in case new_sta dev_id sc of
           None \<Rightarrow> None
         | Some (s, vap) \<Rightarrow>
             (case alloc_sta s m of
                (a, m) \<Rightarrow>
                  (case configure_station se sc dev_id (si_rdk_radio_index si) a m of
                     None \<Rightarrow> None
                   | Some (rc, m) \<Rightarrow>
                       if rc \<noteq> RETURN_OK then Some (Inl RETURN_ERR, sc, m)
                       else Some (Inr \<lparr>pc_dev_id = dev_id, pc_vap_index = vi_vap_index (sc_vap sc),
                                    pc_key = create_key se dev_id (sc_test_id sc), pc_sta = a, pc_bss = bss_of se sc\<rparr>,
                                  sc, sta_effect (Sx_sleep 500)
                                        (sta_effect (Sx_scan (si_rdk_radio_index si) (ro_channel (sc_radio sc))) m)))))"

definition prepare_client :: "sta_env \<Rightarrow> sta_config \<Rightarrow> sim_sta_mgr \<Rightarrow> ((int + sta_prep_ctx) \<times> sta_config \<times> sim_sta_mgr) option" where
  "prepare_client se sc m =
     (case find_first_free_dev m of
        None \<Rightarrow> None
      | Some dev \<Rightarrow>
          if dev = - 1 then Some (Inl (- 1), sc, m)
          else do {
            m \<leftarrow> set_dev_busy (word_of_int dev) m;
            case get_devid_sta_info m (word_of_int dev) of
              None \<Rightarrow> Some (Inl (- 1), sc, m)
            | Some si \<Rightarrow> prepare_device se (word_of_int dev) si sc m })"

text \<open>The first phase for \<open>n\<close> clients.\<close>

fun prepare_clients :: "sta_env \<Rightarrow> nat \<Rightarrow> sta_config \<Rightarrow> sim_sta_mgr \<Rightarrow> ((int + sta_prep_ctx list) \<times> sta_config \<times> sim_sta_mgr) option" where
  "prepare_clients se 0 sc m = Some (Inr [], sc, m)"
| "prepare_clients se (Suc n) sc m =
     (case prepare_client se sc m of
        None \<Rightarrow> None
      | Some (Inl rc, sc, m) \<Rightarrow> Some (Inl rc, sc, m)
      | Some (Inr c, sc, m) \<Rightarrow>
          (case prepare_clients se n sc m of
             None \<Rightarrow> None
           | Some (Inl rc, r) \<Rightarrow> Some (Inl rc, r)
           | Some (Inr cs, r) \<Rightarrow> Some (Inr (c # cs), r)))"

text \<open>A connected client is entered in the step's queue and in the manager's map.\<close>

definition enter_client :: "sta_env \<Rightarrow> sta_prep_ctx \<Rightarrow> client_info queue \<Rightarrow> sta_config \<Rightarrow> sim_sta_mgr \<Rightarrow> (sta_config \<times> sim_sta_mgr) option" where
  "enter_client se c q sc m =
     (case get_devid_sta_info m (pc_dev_id c) of
        None \<Rightarrow> None
      | Some si \<Rightarrow>
          let info = \<lparr>ci_sta_mac = si_mac si, ci_key = pc_key c, ci_is_station_associated = True,
                      ci_is_disconnection_sent = False, ci_reconnect_timer = 0\<rparr>
          in Some (sc\<lparr>sc_connected_client_info_q := Some (snd (queue_push (se_malloc se (sm_fx m) 1) q info))\<rparr>,
                   sta_effect (Sx_sleep 2000)
                     (m\<lparr>sm_sta_map := snd (hash_map_put (se_malloc se (sm_fx m) 2) (se_malloc se (sm_fx m) 3) (sm_sta_map m) (pc_key c) (pc_sta c))\<rparr>)))"

definition connect_client :: "sta_env \<Rightarrow> sta_prep_ctx \<Rightarrow> sta_config \<Rightarrow> sim_sta_mgr \<Rightarrow> (int \<times> sta_config \<times> sim_sta_mgr) option" where
  "connect_client se c sc m =
     (let rc = se_connect se (sm_fx m) (pc_vap_index c) (pc_bss c); m = sta_effect (Sx_connect (pc_vap_index c) (pc_bss c)) m
      in if rc \<noteq> RETURN_OK then Some (RETURN_OK, sc, delete_sta (pc_sta c) m)
         else case sc_connected_client_info_q sc of
                None \<Rightarrow> Some (RETURN_ERR, sc, delete_sta (pc_sta c) m)
              | Some q \<Rightarrow>
                  if \<not> se_malloc se (sm_fx m) 0 then Some (RETURN_ERR, sc, delete_sta (pc_sta c) m)
                  else map_option (\<lambda>r. (RETURN_OK, r)) (enter_client se c q sc m))"

fun connect_clients :: "sta_env \<Rightarrow> sta_prep_ctx list \<Rightarrow> sta_config \<Rightarrow> sim_sta_mgr \<Rightarrow> (int \<times> sta_config \<times> sim_sta_mgr) option" where
  "connect_clients se [] sc m = Some (0, sc, m)"
| "connect_clients se (c # cs) sc m =
     (case connect_client se c sc m of
        None \<Rightarrow> None
      | Some (rc, sc, m) \<Rightarrow> if rc \<noteq> RETURN_OK then Some (rc, sc, m) else connect_clients se cs sc m)"

definition add_sta :: "sta_env \<Rightarrow> sta_config \<Rightarrow> sim_sta_mgr \<Rightarrow> (int \<times> sta_config \<times> sim_sta_mgr) option" where
  "add_sta se sc m =
     (case prepare_clients se (unat (sc_client_count sc)) sc m of
        None \<Rightarrow> None
      | Some (Inl rc, r) \<Rightarrow> Some (rc, r)
      | Some (Inr cs, sc, m) \<Rightarrow> connect_clients se cs sc m)"


section \<open>Removing, disconnecting and reconnecting stations\<close>

text \<open>
  The next station is taken before the current one is removed, and the inventory entry is looked up
  with the device number of this next station.
\<close>

definition disconnect_one :: "sta_env \<Rightarrow> nat \<Rightarrow> emu_sta \<Rightarrow> sta_info \<Rightarrow> u32 \<Rightarrow> sim_sta_mgr \<Rightarrow> sim_sta_mgr option" where
  "disconnect_one se a t si test_id m =
     do { vap \<leftarrow> es_vap t;
          m \<leftarrow> Some (sta_effect (Sx_disconnect (vi_vap_index vap)) m);
          m \<leftarrow> Some (ovs_fdb_flush se (vi_bridge_name vap) (remove_from_bridge se (si_interface_name si) (vi_bridge_name vap) m));
          m \<leftarrow> set_dev_free (es_dev t) m;
          (_, map') \<leftarrow> hash_map_remove (sm_sta_map m) (create_key se (es_dev t) test_id);
          Some (delete_sta a (m\<lparr>sm_sta_map := map'\<rparr>)) }"

partial_function (option) remove_all_from :: "sta_env \<Rightarrow> u32 \<Rightarrow> nat option \<Rightarrow> sim_sta_mgr \<Rightarrow> sim_sta_mgr option" where
  [code]: "remove_all_from se test_id sta m =
     (case sta of
        None \<Rightarrow> Some m
      | Some tmp \<Rightarrow>
          (case sm_heap m tmp of
             None \<Rightarrow> None
           | Some t \<Rightarrow>
               if es_test t = test_id
               then (case hash_map_get_next (sm_sta_map m) tmp of
                       None \<Rightarrow> None
                     | Some a \<Rightarrow>
                         (case sm_heap m a of
                            None \<Rightarrow> None
                          | Some s \<Rightarrow>
                              (case get_devid_sta_info m (es_dev s) of
                                 None \<Rightarrow> Some m
                               | Some si \<Rightarrow>
                                   (case disconnect_one se tmp t si test_id m of
                                      None \<Rightarrow> None
                                    | Some m' \<Rightarrow> remove_all_from se test_id (Some a) m'))))
               else remove_all_from se test_id (hash_map_get_next (sm_sta_map m) tmp) m))"

definition remove_all_sta :: "sta_env \<Rightarrow> u32 \<Rightarrow> sim_sta_mgr \<Rightarrow> sim_sta_mgr option" where
  "remove_all_sta se test_id m = remove_all_from se test_id (hash_map_get_first (sm_sta_map m)) m"

text \<open>The station object is taken out of the map but not deleted.\<close>

definition remove_sta :: "sta_env \<Rightarrow> sta_config option \<Rightarrow> client_info \<Rightarrow> sim_sta_mgr \<Rightarrow> (client_info \<times> sim_sta_mgr) option" where
  "remove_sta se sta_test client m =
     (if sta_test = None \<or> ci_key client = [] then Some (client, m)
      else case hash_map_get (sm_sta_map m) (ci_key client) of
             None \<Rightarrow> Some (client, m)
           | Some a \<Rightarrow>
               do { s \<leftarrow> sm_heap m a;
                    case get_devid_sta_info m (es_dev s) of
                      None \<Rightarrow> Some (client, m)
                    | Some si \<Rightarrow>
                        do { m \<leftarrow> set_dev_free (es_dev s)
                               (ovs_fdb_flush se (si_bridge_name si)
                                 (remove_from_bridge se (si_interface_name si) (si_bridge_name si)
                                   (sta_effect (Sx_disconnect (si_index si)) m)));
                             (_, map') \<leftarrow> hash_map_remove (sm_sta_map m) (ci_key client);
                             Some (client\<lparr>ci_is_disconnection_sent := True\<rparr>, m\<lparr>sm_sta_map := map'\<rparr>) } })"

definition clear_interface_data :: "sta_env \<Rightarrow> sta_config \<Rightarrow> sim_sta_mgr \<Rightarrow> int \<times> sim_sta_mgr" where
  "clear_interface_data se sc m =
     (if se_sm_deinit se (sm_fx m) (vi_vap_index (sc_vap sc)) \<noteq> RETURN_OK then RETURN_ERR else RETURN_OK,
      sta_effect (Sx_sm_deinit (vi_vap_index (sc_vap sc))) m)"

text \<open>What \<open>disconnect_sta\<close> and \<open>reconnect_sta\<close> look up first: \<open>Inl\<close> is the early return.\<close>

definition lookup_client :: "sta_config option \<Rightarrow> client_info \<Rightarrow> sim_sta_mgr \<Rightarrow> (int + sta_config \<times> nat \<times> u32 \<times> sta_info) option" where
  "lookup_client sta_test client m =
     (case sta_test of
        None \<Rightarrow> Some (Inl RETURN_ERR)
      | Some sc \<Rightarrow>
          if ci_key client = [] then Some (Inl RETURN_ERR)
          else case hash_map_get (sm_sta_map m) (ci_key client) of
                 None \<Rightarrow> Some (Inl RETURN_ERR)
               | Some a \<Rightarrow>
                   (case get_dev_id_from_key (ci_key client) of
                      None \<Rightarrow> None
                    | Some dev \<Rightarrow>
                        (case get_devid_sta_info m dev of
                           None \<Rightarrow> Some (Inl RETURN_ERR)
                         | Some si \<Rightarrow> Some (Inr (sc, a, dev, si)))))"

definition disconnect_sta :: "sta_env \<Rightarrow> sta_config option \<Rightarrow> client_info \<Rightarrow> sim_sta_mgr \<Rightarrow> (int \<times> client_info \<times> sim_sta_mgr) option" where
  "disconnect_sta se sta_test client m =
     (case lookup_client sta_test client m of
        None \<Rightarrow> None
      | Some (Inl rc) \<Rightarrow> Some (rc, client, m)
      | Some (Inr (sc, a, dev, si)) \<Rightarrow>
          let rc = se_disconnect se (sm_fx m) (si_index si); m = sta_effect (Sx_disconnect (si_index si)) m
          in if rc \<noteq> RETURN_OK then Some (RETURN_ERR, client, m)
             else Some (RETURN_OK, client\<lparr>ci_is_disconnection_sent := True\<rparr>,
                    ovs_fdb_flush se (vi_bridge_name (sc_vap sc))
                      (remove_from_bridge se (si_interface_name si) (vi_bridge_name (sc_vap sc)) m)))"

text \<open>The frames, the radio and the address of a client that is connected again.\<close>

definition reconnect_frames :: "sta_env \<Rightarrow> sta_config \<Rightarrow> sim_sta_mgr \<Rightarrow> (int \<times> sim_sta_mgr) option" where
  "reconnect_frames se sc m =
     (if sc_is_station_prototype_enabled sc then configure_proto_types_on_sta se sc m else Some (RETURN_OK, m))"

definition reconnect_device :: "sta_env \<Rightarrow> sta_config \<Rightarrow> client_info \<Rightarrow> u32 \<Rightarrow> sta_info \<Rightarrow> sim_sta_mgr \<Rightarrow> (int \<times> sta_config \<times> sim_sta_mgr) option" where
  "reconnect_device se sc client dev si m =
     do { let bridge = vi_bridge_name (sc_vap sc);
          let m = set_bridge_mac se bridge (add_to_bridge se (si_interface_name si) bridge m);
          m' \<leftarrow> on_device (si_mac_update (\<lambda>_. ci_sta_mac client)) dev m;
          if \<not> se_malloc se (sm_fx m) 0 then Some (RETURN_ERR, sc, m')
          else do {
            let sc = sc\<lparr>sc_vap := (sc_vap sc)\<lparr>vi_mac := ci_sta_mac client\<rparr>\<rparr>;
            (rc, m) \<leftarrow> reconnect_frames se sc (send_mac_update
               \<lparr>mu_old_mac = si_mac si, mu_new_mac = ci_sta_mac client, mu_op_modes = sc_op_modes sc, mu_bridge_name = bridge\<rparr> m');
            if rc = RETURN_ERR then Some (RETURN_ERR, sc, m)
            else do {
              let rc = se_connect se (sm_fx m) (vi_vap_index (sc_vap sc)) (bss_of se sc);
              let m = sta_effect (Sx_connect (vi_vap_index (sc_vap sc)) (bss_of se sc)) m;
              if rc \<noteq> RETURN_OK then Some (RETURN_ERR, sc, m) else Some (0, sc, sta_effect (Sx_sleep 2000) m) } } }"

definition reconnect_sta :: "sta_env \<Rightarrow> sta_config option \<Rightarrow> client_info \<Rightarrow> sim_sta_mgr \<Rightarrow> (int \<times> sta_config option \<times> sim_sta_mgr) option" where
  "reconnect_sta se sta_test client m =
     (case lookup_client sta_test client m of
        None \<Rightarrow> None
      | Some (Inl rc) \<Rightarrow> Some (rc, sta_test, m)
      | Some (Inr (sc, a, dev, si)) \<Rightarrow>
          let sc = claim_device si sc
          in case clear_interface_data se sc m of
               (rc, m) \<Rightarrow>
                 if rc \<noteq> RETURN_OK then Some (RETURN_ERR, Some sc, m)
                 else if sm_heap m a = None then None
                 else map_option (\<lambda>(rc, sc, m). (rc, Some sc, m)) (reconnect_device se sc client dev si m))"

definition send_heart_beat :: "string \<Rightarrow> heart_beat_data \<Rightarrow> sim_sta_mgr \<Rightarrow> sim_sta_mgr option" where
  "send_heart_beat key hb m =
     (case get_dev_id_from_key key of
        None \<Rightarrow> None
      | Some dev \<Rightarrow>
          (case get_devid_sta_info m dev of
             None \<Rightarrow> Some m
           | Some si \<Rightarrow>
               (case hash_map_get (sm_sta_map m) key of
                  None \<Rightarrow> Some m
                | Some a \<Rightarrow>
                    if sm_heap m a = None then None
                    else Some (sta_effect (Sx_raw_packet (si_interface_name si)) (handle_heart_beat hb m)))))"

section \<open>Initialisation\<close>

definition sta_info_of :: "sta_env \<Rightarrow> interface_map \<Rightarrow> vap_info list \<Rightarrow> sta_info" where
  "sta_info_of se im vaps =
     \<lparr>si_phy_index = im_phy_index im, si_rdk_radio_index = im_rdk_radio_index im,
      si_interface_name = im_interface_name im, si_bridge_name = im_bridge_name im, si_vlan_id = im_vlan_id im,
      si_index = im_index im, si_vap_name = im_vap_name im,
      si_mac = fold (\<lambda>v mac. if vi_vap_index v = im_index im then vi_mac v else mac) vaps (se_uninit_mac se),
      si_status = sta_state_free\<rparr>"

fun init_devices :: "sta_env \<Rightarrow> interface_map list \<Rightarrow> sim_sta_mgr \<Rightarrow> int \<times> sim_sta_mgr" where
  "init_devices se [] m = (0, m)"
| "init_devices se (im # ims) m =
     (if im_vap_name im = [] then init_devices se ims m
      else if \<not> se_malloc se (sm_fx m) 0 then (RETURN_ERR, m)
      else case se_vap_map se (sm_fx m) (im_rdk_radio_index im) of
             None \<Rightarrow> (RETURN_ERR, sta_effect (Sx_vap_map (im_rdk_radio_index im)) m)
           | Some vaps \<Rightarrow>
               init_devices se ims (sta_effect (Sx_vap_map (im_rdk_radio_index im))
                 (m\<lparr>sm_sta_info_count := sm_sta_info_count m + 1,
                    sm_sta_info_map := snd (queue_push (se_malloc se (sm_fx m) 9) (sm_sta_info_map m) (sta_info_of se im vaps))\<rparr>)))"

text \<open>The flags are whether \<open>hash_map_create\<close>, \<open>queue_create\<close> and \<open>malloc\<close> get memory.\<close>

definition sta_mgr_init :: "sta_env \<Rightarrow> bool \<Rightarrow> bool \<Rightarrow> bool \<Rightarrow> interface_map list \<Rightarrow> sim_sta_mgr \<Rightarrow> int \<times> sim_sta_mgr" where
  "sta_mgr_init se mem_h mem_q mem_v if_map m =
     (let m = m\<lparr>sm_sta_map := hash_map_create, sm_sta_info_map := queue_create\<rparr>
      in if \<not> (mem_h \<and> mem_q) then (RETURN_ERR, m)
         else if \<not> mem_v then (RETURN_ERR, m)
         else init_devices se if_map m)"

definition new_sta_mgr :: sim_sta_mgr where
  "new_sta_mgr = \<lparr>sm_sta_map = [], sm_sta_info_map = [], sm_sta_info_count = 0, sm_heap = Map.empty, sm_fresh = 0, sm_fx = []\<rparr>"

end
