(* ===== verification/Sta_Mgr_Facts.thy ===== *)
theory Sta_Mgr_Facts
  imports Sta_Mgr
begin

text \<open>
  What the operations of the manager of the simulated stations do to its inventory, its map and the
  heap of station objects. \<open>quiet\<close> relates two states that differ only in the effects, in addresses and
  in what the hardware layer was told; \<open>owns m as\<close> says that the stations at the addresses \<open>as\<close> are live
  and hold devices of their own. The invariant of the manager is that it owns the stations of its
  map; during \<open>add_sta\<close> it also owns the prepared ones.
\<close>

section \<open>The inventory\<close>

abbreviation dev_states :: "sim_sta_mgr \<Rightarrow> sta_state list" where
  "dev_states m \<equiv> map si_status (sm_sta_info_map m)"

definition dev_in_use :: "sim_sta_mgr \<Rightarrow> u32 \<Rightarrow> bool" where
  "dev_in_use m d \<longleftrightarrow> unat d < length (dev_states m) \<and> dev_states m ! unat d = sta_state_in_use"

definition inventory_ok :: "sim_sta_mgr \<Rightarrow> bool" where
  "inventory_ok m \<longleftrightarrow> unat (sm_sta_info_count m) = length (sm_sta_info_map m) \<and> length (sm_sta_info_map m) < 2 ^ 31"

definition free_devs_of :: "sta_state list \<Rightarrow> nat list" where
  "free_devs_of xs = filter (\<lambda>i. xs ! i = sta_state_free) [0..<length xs]"

abbreviation free_devs :: "sim_sta_mgr \<Rightarrow> nat list" where
  "free_devs m \<equiv> free_devs_of (dev_states m)"

lemma inventory_queue_ok: "inventory_ok m \<Longrightarrow> queue_ok (sm_sta_info_map m)"
  by (simp add: inventory_ok_def queue_ok_def)

lemma free_dev_from_filter:
  assumes "i + n = length q" "length q < 2 ^ 31"
  shows "free_dev_from q i n =
    Some (case filter (\<lambda>i. si_status (q ! i) = sta_state_free) [i..<length q] of [] \<Rightarrow> - 1 | d # _ \<Rightarrow> int d)"
  using assms(1)
proof (induction n arbitrary: i)
  case (Suc n)
  then have i: "i < length q" by simp
  moreover have "queue_ok q" using assms(2) by (simp add: queue_ok_def)
  moreover have "unat (of_nat i :: u32) = i" using i assms(2) by simp
  ultimately show ?case using Suc.IH [of "Suc i"] Suc.prems
    by (simp add: queue_peek_nth upt_conv_Cons)
qed simp

lemma find_first_free_dev_eq:
  "inventory_ok m \<Longrightarrow> find_first_free_dev m = Some (case free_devs m of [] \<Rightarrow> - 1 | d # _ \<Rightarrow> int d)"
proof -
  assume "inventory_ok m"
  moreover have "free_devs m = filter (\<lambda>i. si_status (sm_sta_info_map m ! i) = sta_state_free) [0..<length (sm_sta_info_map m)]"
    unfolding free_devs_of_def length_map by (rule filter_cong) auto
  ultimately show ?thesis
    by (simp add: find_first_free_dev_def inventory_ok_def free_dev_from_filter)
qed

lemma free_devs_bound: "d \<in> set (free_devs_of xs) \<Longrightarrow> d < length xs \<and> xs ! d = sta_state_free"
  by (simp add: free_devs_of_def)

lemma sorted_distinct_upt_filter: "filter P [i..<n] = d # ds \<Longrightarrow> d < n \<and> P d \<and> ds = filter P [Suc d..<n] \<and> i \<le> d"
proof (induction "n - i" arbitrary: i)
  case (Suc k)
  then have "i < n" by simp
  then show ?case using Suc.prems Suc.hyps(1) [of "Suc i"] Suc.hyps(2)
    by (cases "P i") (fastforce simp: upt_conv_Cons)+
qed simp

lemma free_devs_claim:
  assumes "free_devs_of xs = d # ds"
  shows "free_devs_of (xs[d := sta_state_in_use]) = ds"
proof -
  have d: "d < length xs" "ds = filter (\<lambda>i. xs ! i = sta_state_free) [Suc d..<length xs]"
    using sorted_distinct_upt_filter [OF assms [unfolded free_devs_of_def]] by auto
  have split: "[0..<length xs] = [0..<d] @ d # [Suc d..<length xs]"
    using d(1) using upt_add_eq_append [of 0 d "length xs - d"] by (simp add: upt_conv_Cons)
  have "filter (\<lambda>i. xs ! i = sta_state_free) [0..<d] = []"
    using assms sorted_distinct_upt_filter [OF assms [unfolded free_devs_of_def]]
    unfolding free_devs_of_def split by (auto simp: filter_eq_Cons_iff append_eq_Cons_conv)
  then have "filter (\<lambda>i. xs[d := sta_state_in_use] ! i = sta_state_free) [0..<d] = []"
    by (auto simp: filter_empty_conv)
  moreover have "filter (\<lambda>i. xs[d := sta_state_in_use] ! i = sta_state_free) [Suc d..<length xs] = ds"
    unfolding d(2) by (rule filter_cong) auto
  ultimately show ?thesis using d(1) unfolding free_devs_of_def by (simp add: split)
qed

section \<open>Quiet steps\<close>

definition quiet :: "sim_sta_mgr \<Rightarrow> sim_sta_mgr \<Rightarrow> bool" where
  "quiet m m' \<longleftrightarrow> sm_sta_map m' = sm_sta_map m \<and> sm_heap m' = sm_heap m \<and> sm_fresh m' = sm_fresh m \<and>
     sm_sta_info_count m' = sm_sta_info_count m \<and> dev_states m' = dev_states m"

named_theorems quiet_steps "operations that leave inventory, map and heap alone"

lemma quiet_refl [quiet_steps]: "quiet m m"
  by (simp add: quiet_def)

lemma quiet_trans: "quiet m m' \<Longrightarrow> quiet m' m'' \<Longrightarrow> quiet m m''"
  by (simp add: quiet_def)

lemma quiet_effect [quiet_steps]: "quiet m (sta_effect e m)"
  by (simp add: quiet_def sta_effect_def)

lemma quiet_run_command [quiet_steps]: "quiet m (snd (run_command se n cmd m))"
  by (simp add: run_command_def Let_def quiet_steps)

lemma quiet_bridges [quiet_steps]:
  "quiet m (ovs_fdb_flush se b m)" "quiet m (add_to_bridge se i b m)" "quiet m (remove_from_bridge se i b m)"
  by (simp_all add: ovs_fdb_flush_def add_to_bridge_def remove_from_bridge_def quiet_steps)

lemma quiet_set_bridge_mac [quiet_steps]: "quiet m (set_bridge_mac se b m)"
proof -
  obtain out m1 where c: "run_command se BUFSIZ (''ifconfig '' @ b) m = (out, m1)" by (rule prod.exhaust)
  with quiet_run_command [of m se BUFSIZ "''ifconfig '' @ b"] have m1: "quiet m m1" by simp
  then show ?thesis
    using c by (auto simp: set_bridge_mac_def split: option.split intro: quiet_trans [OF m1 quiet_run_command])
qed

lemma quiet_messages [quiet_steps]:
  "quiet m (send_ctrl_msg b t m)" "quiet m (handle_heart_beat hb m)" "quiet m (send_mac_update mu m)"
  by (simp_all add: send_ctrl_msg_def handle_heart_beat_def send_radio_tap_header_def send_mac_update_def quiet_effect)

lemma quiet_proto_pcap: "send_proto_pcap se t mac f m = Some (rc, m') \<Longrightarrow> quiet m m'"
  by (auto simp: send_proto_pcap_def Let_def quiet_steps split: if_splits option.splits)

lemma quiet_proto_of: "send_proto_of se sc t type m = Some (rc, m') \<Longrightarrow> quiet m m'"
  by (auto simp: send_proto_of_def quiet_steps split: option.splits dest: quiet_proto_pcap)

lemma quiet_configure_proto: "configure_proto_types_on_sta se sc m = Some (rc, m') \<Longrightarrow> quiet m m'"
  by (auto simp: configure_proto_types_on_sta_def quiet_steps bind_eq_Some_conv split: option.splits if_splits
      dest: quiet_proto_of intro: quiet_trans)

lemma quiet_mac: "on_device (si_mac_update f) d m = Some m' \<Longrightarrow> quiet m m'"
proof -
  assume "on_device (si_mac_update f) d m = Some m'"
  then obtain s where s: "queue_peek (sm_sta_info_map m) d = Some s"
      "m' = m\<lparr>sm_sta_info_map := (sm_sta_info_map m)[unat d := si_mac_update f s]\<rparr>"
    by (auto simp: on_device_def split: option.splits)
  then have "unat d < length (sm_sta_info_map m)" "sm_sta_info_map m ! unat d = s"
    by (auto simp: queue_peek_def split: if_splits)
  then have "map si_status ((sm_sta_info_map m)[unat d := si_mac_update f s]) = dev_states m"
    by (auto simp: map_update intro: list_update_same_conv [THEN iffD2])
  then show ?thesis using s(2) by (simp add: quiet_def)
qed

lemma quiet_announce: "announce_mac sc d m = Some m' \<Longrightarrow> quiet m m'"
  by (auto simp: announce_mac_def split: option.splits intro: quiet_trans [OF quiet_mac quiet_messages(3)])


section \<open>Stations that hold devices\<close>

definition dev_at :: "sim_sta_mgr \<Rightarrow> nat \<Rightarrow> u32" where
  "dev_at m a = es_dev (the (sm_heap m a))"

definition owns :: "sim_sta_mgr \<Rightarrow> nat list \<Rightarrow> bool" where
  "owns m as \<longleftrightarrow> inventory_ok m \<and> (\<forall>a \<ge> sm_fresh m. sm_heap m a = None) \<and>
     (\<forall>a \<in> set as. sm_heap m a \<noteq> None \<and> dev_in_use m (dev_at m a)) \<and> distinct (map (dev_at m) as)"

abbreviation stations :: "sim_sta_mgr \<Rightarrow> nat list" where
  "stations m \<equiv> map snd (sm_sta_map m)"

lemma quiet_inventory: "quiet m m' \<Longrightarrow> inventory_ok m' = inventory_ok m"
  by (metis (mono_tags, lifting) quiet_def inventory_ok_def length_map)

lemma quiet_dev_in_use: "quiet m m' \<Longrightarrow> dev_in_use m' d = dev_in_use m d"
  by (simp add: quiet_def dev_in_use_def)

lemma quiet_dev_at: "quiet m m' \<Longrightarrow> dev_at m' = dev_at m"
  by (simp add: quiet_def dev_at_def fun_eq_iff)

lemma quiet_owns: "quiet m m' \<Longrightarrow> owns m' as = owns m as"
  by (simp add: owns_def quiet_inventory quiet_dev_in_use quiet_dev_at) (simp add: quiet_def)

lemma owns_perm: "set as = set bs \<Longrightarrow> length as = length bs \<Longrightarrow> owns m as = owns m bs"
  by (auto simp: owns_def distinct_map) (metis card_distinct distinct_card)+

lemma owns_sub: "owns m (a # as) \<Longrightarrow> owns m as"
  by (simp add: owns_def)

lemma on_status_states:
  assumes "inventory_ok m" "unat d < length (sm_sta_info_map m)"
  obtains m' where "on_device (si_status_update (\<lambda>_. st)) d m = Some m'" "dev_states m' = (dev_states m)[unat d := st]"
    "sm_sta_map m' = sm_sta_map m" "sm_heap m' = sm_heap m" "sm_fresh m' = sm_fresh m" "inventory_ok m'" "sm_fx m' = sm_fx m"
proof -
  have "queue_peek (sm_sta_info_map m) d = Some (sm_sta_info_map m ! unat d)"
    using assms inventory_queue_ok by (simp add: queue_peek_nth)
  then show thesis using assms
    by (intro that [of "m\<lparr>sm_sta_info_map := (sm_sta_info_map m)[unat d := (sm_sta_info_map m ! unat d)\<lparr>si_status := st\<rparr>]\<rparr>"])
      (auto simp: on_device_def map_update inventory_ok_def)
qed

lemma delete_owns: "owns m (a # as) \<Longrightarrow> owns (delete_sta a m) as"
  by (auto simp: owns_def delete_sta_def inventory_ok_def dev_in_use_def dev_at_def distinct_map inj_on_def image_iff
      intro!: arg_cong [where f = the])

lemma delete_fresh: "sm_heap m a = None \<Longrightarrow> sm_heap m' = (sm_heap m)(a \<mapsto> s) \<Longrightarrow> sm_heap (delete_sta a m') = sm_heap m"
  by (simp add: delete_sta_def fun_upd_idem)

text \<open>Claiming the first free device for a station at a fresh address.\<close>

lemma claim_owns:
  assumes "owns m as" "free_devs m = d # ds"
    and "dev_states m' = (dev_states m)[d := sta_state_in_use]" "inventory_ok m'"
    and "sm_heap m' = (sm_heap m)(sm_fresh m \<mapsto> s)" "sm_fresh m' = Suc (sm_fresh m)" "es_dev s = of_nat d"
  shows "owns m' (sm_fresh m # as)"
proof -
  have d: "d < length (dev_states m)" "dev_states m ! d = sta_state_free"
    using assms(2) free_devs_bound [of d "dev_states m"] by auto
  have small: "unat (of_nat d :: u32) = d" using d(1) assms(1) by (simp add: owns_def inventory_ok_def)
  have "a \<noteq> sm_fresh m" "sm_heap m a \<noteq> None" "dev_in_use m (dev_at m a)" if "a \<in> set as" for a
    using assms(1) that by (auto simp: owns_def)
  moreover from this have "dev_at m a \<noteq> of_nat d" if "a \<in> set as" for a
    using that d(2) small by (metis dev_in_use_def sta_state.distinct(1))
  ultimately show ?thesis
    using assms(1,3-7) d small unfolding owns_def
    by (auto simp: dev_in_use_def dev_at_def nth_list_update cong: map_cong)
qed


section \<open>The first phase of adding stations\<close>

definition steady :: "sim_sta_mgr \<Rightarrow> sim_sta_mgr \<Rightarrow> bool" where
  "steady m m' \<longleftrightarrow> sm_sta_map m' = sm_sta_map m \<and> sm_fresh m' = sm_fresh m \<and>
     sm_sta_info_count m' = sm_sta_info_count m \<and> dev_states m' = dev_states m"

text \<open>What the set-up of the station at \<open>a\<close> does: it keeps its numbers, or it is deleted.\<close>

definition set_up :: "nat \<Rightarrow> sim_sta_mgr \<Rightarrow> int \<Rightarrow> sim_sta_mgr \<Rightarrow> bool" where
  "set_up a m rc m' \<longleftrightarrow> steady m m' \<and>
     (if rc = RETURN_OK then \<exists>s s'. sm_heap m a = Some s \<and> sm_heap m' = (sm_heap m)(a \<mapsto> s') \<and>
        es_dev s' = es_dev s \<and> es_test s' = es_test s
      else sm_heap m' = (sm_heap m)(a := None))"

lemma quiet_set_up: "quiet m m1 \<Longrightarrow> set_up a m1 rc m2 \<Longrightarrow> set_up a m rc m2"
  by (cases "rc = RETURN_OK") (auto simp: quiet_def set_up_def steady_def)

lemma set_up_quiet: "set_up a m rc m1 \<Longrightarrow> quiet m1 m2 \<Longrightarrow> set_up a m rc m2"
  by (cases "rc = RETURN_OK") (auto simp: quiet_def set_up_def steady_def)

lemma delete_set_up: "rc \<noteq> RETURN_OK \<Longrightarrow> set_up a m rc (delete_sta a m)"
  by (simp add: set_up_def steady_def delete_sta_def)

lemma set_up_delete: "set_up a m RETURN_OK m1 \<Longrightarrow> set_up a m RETURN_ERR (delete_sta a m1)"
  by (auto simp: set_up_def steady_def delete_sta_def)

lemma setup_radio_set_up:
  assumes "sm_heap m a = Some s" "setup_radio se sc radio a m = Some (rc, m')"
  shows "set_up a m rc m'"
proof -
  define m1 where "m1 = sta_effect (Sx_set_radio radio (sc_radio sc)) m"
  define m2 where "m2 = sta_effect (Sx_create_vap radio (sc_vap sc)) m1"
  have q: "quiet m m1" "quiet m m2" unfolding m1_def m2_def by (rule quiet_effect quiet_trans [OF quiet_effect quiet_effect])+
  have h: "sm_heap m2 a = Some s" using q(2) assms(1) by (simp add: quiet_def)
  consider "rc = RETURN_ERR \<and> m' = delete_sta a m1" | "rc = RETURN_ERR \<and> m' = delete_sta a m2"
    | "rc = RETURN_OK \<and> m' = m2\<lparr>sm_heap := (sm_heap m2)(a \<mapsto> es_vap_update (\<lambda>_. Some (sc_vap sc)) s)\<rparr>"
    using assms(2) h by (auto simp: setup_radio_def Let_def m1_def m2_def split: if_splits)
  then show ?thesis
  proof cases
    case 3
    then have "set_up a m2 rc m'" using h by (auto simp: set_up_def steady_def)
    then show ?thesis by (rule quiet_set_up [OF q(2)])
  qed (auto intro: quiet_set_up [OF q(1) delete_set_up] quiet_set_up [OF q(2) delete_set_up])
qed

lemma configure_station_set_up:
  assumes "sm_heap m a = Some s" "configure_station se sc d radio a m = Some (rc, m')"
  shows "set_up a m rc m'"
proof (cases "se_malloc se (sm_fx m) 0")
  case False
  then show ?thesis using assms(2) by (auto simp: configure_station_def intro: delete_set_up)
next
  case True
  then obtain hb where hb: "pre_assoc_beat sc = Some hb"
    using assms(2) by (auto simp: configure_station_def bind_eq_Some_conv)
  show ?thesis
  proof (cases "se_malloc se (sm_fx m) 1")
    case False
    then show ?thesis using assms(2) True hb by (auto simp: configure_station_def intro: delete_set_up)
  next
    case m1: True
    obtain rc1 m1 where r: "setup_radio se sc radio a (handle_heart_beat hb m) = Some (rc1, m1)"
      using assms(2) True m1 hb by (auto simp: configure_station_def bind_eq_Some_conv)
    have q: "quiet m (handle_heart_beat hb m)" by (rule quiet_messages)
    then have "sm_heap (handle_heart_beat hb m) a = Some s" using assms(1) by (simp add: quiet_def)
    then have u: "set_up a m rc1 m1" using setup_radio_set_up [OF _ r] quiet_set_up [OF q] by blast
    show ?thesis
    proof (cases "rc1 = RETURN_OK")
      case False
      then show ?thesis using assms(2) True m1 hb r u by (auto simp: configure_station_def)
    next
      case ok: True
      obtain m2 where m2: "announce_mac sc d m1 = Some m2"
        using assms(2) True m1 hb r ok by (auto simp: configure_station_def bind_eq_Some_conv)
      have u2: "set_up a m RETURN_OK m2" using set_up_quiet [OF _ quiet_announce [OF m2]] u ok by simp
      show ?thesis
      proof (cases "sc_is_station_prototype_enabled sc")
        case False
        then show ?thesis using assms(2) True m1 hb r ok m2 u2 by (auto simp: configure_station_def)
      next
        case pr: True
        obtain rc3 m3 where c: "configure_proto_types_on_sta se sc m2 = Some (rc3, m3)"
          using assms(2) True m1 hb r ok m2 pr by (auto simp: configure_station_def bind_eq_Some_conv)
        have u3: "set_up a m RETURN_OK m3" by (rule set_up_quiet [OF u2 quiet_configure_proto [OF c]])
        show ?thesis using assms(2) True m1 hb r ok m2 pr c u3 set_up_delete [OF u3]
          by (auto simp: configure_station_def split: if_splits)
      qed
    qed
  qed
qed

text \<open>One device prepared: a fresh station that holds it, or nothing but the device taken.\<close>

lemma prepare_device_outcome:
  assumes "prepare_device se d si sc m = Some (r, sc', m')" and "\<And>a. sm_fresh m \<le> a \<Longrightarrow> sm_heap m a = None"
  shows "sm_sta_map m' = sm_sta_map m \<and> sm_sta_info_count m' = sm_sta_info_count m \<and> dev_states m' = dev_states m \<and>
    sm_fresh m' = Suc (sm_fresh m) \<and>
    (case r of Inl rc \<Rightarrow> rc = RETURN_ERR \<and> sm_heap m' = sm_heap m
     | Inr c \<Rightarrow> pc_dev_id c = d \<and> pc_sta c = sm_fresh m \<and> pc_key c = create_key se d (sc_test_id sc) \<and>
         (\<exists>s. sm_heap m' = (sm_heap m)(sm_fresh m \<mapsto> s) \<and> es_dev s = d \<and> es_test s = sc_test_id sc))"
proof -
  define sc1 where "sc1 = claim_device si sc"
  define m1 where "m1 = set_bridge_mac se (vi_bridge_name (sc_vap sc1)) (add_to_bridge se (si_interface_name si) (vi_bridge_name (sc_vap sc1)) m)"
  define sc2 where "sc2 = choose_mac se m1 sc1"
  have q: "quiet m m1" unfolding m1_def by (rule quiet_trans [OF quiet_bridges(2) quiet_set_bridge_mac])
  have t: "sc_test_id sc2 = sc_test_id sc" by (simp add: sc2_def sc1_def choose_mac_def claim_device_def)
  obtain s vap where s: "new_sta d sc2 = Some (s, vap)" "es_dev s = d" "es_test s = sc_test_id sc"
    using assms(1) t unfolding prepare_device_def Let_def sc1_def [symmetric] m1_def [symmetric] sc2_def [symmetric]
    by (auto simp: new_sta_def new_iphone_def new_pixel_def split: option.splits sta_model_type.splits)
  define a where "a = sm_fresh m1"
  define m2 where "m2 = snd (alloc_sta s m1)"
  have al: "alloc_sta s m1 = (a, m2)" by (simp add: a_def m2_def alloc_sta_def)
  have m2: "sm_heap m2 = (sm_heap m)(sm_fresh m \<mapsto> s)" "a = sm_fresh m" "sm_fresh m2 = Suc (sm_fresh m)"
      "sm_sta_map m2 = sm_sta_map m" "sm_sta_info_count m2 = sm_sta_info_count m" "dev_states m2 = dev_states m"
    using q by (auto simp: a_def m2_def alloc_sta_def quiet_def)
  obtain rc m3 where c: "configure_station se sc2 d (si_rdk_radio_index si) a m2 = Some (rc, m3)"
    using assms(1) s(1) al unfolding prepare_device_def Let_def sc1_def [symmetric] m1_def [symmetric] sc2_def [symmetric]
    by (auto split: option.splits)
  have u: "set_up a m2 rc m3" using configure_station_set_up [OF _ c, of s] m2 by simp
  have none: "sm_heap m (sm_fresh m) = None" using assms(2) by simp
  show ?thesis
  proof (cases "rc = RETURN_OK")
    case True
    have "r = Inr \<lparr>pc_dev_id = d, pc_vap_index = vi_vap_index (sc_vap sc2),
            pc_key = create_key se d (sc_test_id sc2), pc_sta = a, pc_bss = bss_of se sc2\<rparr>"
        "m' = sta_effect (Sx_sleep 500) (sta_effect (Sx_scan (si_rdk_radio_index si) (ro_channel (sc_radio sc2))) m3)"
      using assms(1) s(1) al c True unfolding prepare_device_def Let_def sc1_def [symmetric] m1_def [symmetric] sc2_def [symmetric]
      by auto
    then show ?thesis using u True m2 s t by (auto simp: set_up_def steady_def sta_effect_def)
  next
    case False
    have "r = Inl RETURN_ERR" "m' = m3"
      using assms(1) s(1) al c False unfolding prepare_device_def Let_def sc1_def [symmetric] m1_def [symmetric] sc2_def [symmetric]
      by auto
    then show ?thesis using u False m2 none by (auto simp: set_up_def steady_def fun_upd_idem)
  qed
qed


text \<open>One round of the first phase.\<close>

lemma prepare_client_outcome:
  assumes "owns m as" "prepare_client se sc m = Some (r, sc', m')"
  shows "case free_devs m of
      [] \<Rightarrow> r = Inl (- 1) \<and> m' = m \<and> sc' = sc
    | d # ds \<Rightarrow> sm_sta_map m' = sm_sta_map m \<and> free_devs m' = ds \<and> sm_heap m \<subseteq>\<^sub>m sm_heap m' \<and>
        (case r of Inl rc \<Rightarrow> rc = RETURN_ERR \<and> owns m' as
         | Inr c \<Rightarrow> pc_dev_id c = of_nat d \<and> pc_key c = create_key se (of_nat d) (sc_test_id sc) \<and>
             owns m' (pc_sta c # as) \<and> dev_at m' (pc_sta c) = of_nat d)"
proof (cases "free_devs m")
  case Nil
  then show ?thesis using assms by (simp add: prepare_client_def find_first_free_dev_eq owns_def)
next
  case (Cons d ds)
  have inv: "inventory_ok m" using assms(1) by (simp add: owns_def)
  have d: "d < length (sm_sta_info_map m)" using free_devs_bound [of d "dev_states m"] Cons by simp
  then have small: "unat (of_nat d :: u32) = d" using inv by (simp add: inventory_ok_def)
  have first: "find_first_free_dev m = Some (int d)" using find_first_free_dev_eq [OF inv] Cons by simp
  obtain m1 where m1: "set_dev_busy (of_nat d) m = Some m1" "dev_states m1 = (dev_states m)[d := sta_state_in_use]"
      "sm_sta_map m1 = sm_sta_map m" "sm_heap m1 = sm_heap m" "sm_fresh m1 = sm_fresh m" "inventory_ok m1"
    using on_status_states [OF inv, of "of_nat d" sta_state_in_use] d small unfolding set_dev_busy_def by metis
  have "length (sm_sta_info_map m1) = length (dev_states m1)" by simp
  then have "length (sm_sta_info_map m1) = length (sm_sta_info_map m)" by (simp only: m1(2) length_list_update length_map)
  then obtain si where si: "get_devid_sta_info m1 (of_nat d) = Some si"
    using m1(6) d small inventory_queue_ok [OF m1(6)] by (simp add: get_devid_sta_info_def queue_peek_nth)
  have dev: "prepare_device se (of_nat d) si sc m1 = Some (r, sc', m')"
    using assms(2) first m1(1) si by (simp add: prepare_client_def)
  have nil: "sm_heap m1 a = None" if "sm_fresh m1 \<le> a" for a using assms(1) that m1(4,5) by (simp add: owns_def)
  note out = prepare_device_outcome [OF dev nil]
  have fr: "free_devs m' = ds"
    using out m1(2) free_devs_claim [OF Cons] by simp
  have st: "dev_states m' = (dev_states m)[d := sta_state_in_use]" using out m1(2) by simp
  have "length (sm_sta_info_map m') = length (sm_sta_info_map m1)"
    using out by (metis length_map)
  then have ok: "inventory_ok m'" using m1(6) out by (simp add: inventory_ok_def)
  have le: "sm_heap m \<subseteq>\<^sub>m sm_heap m'"
    using out m1(4) nil by (auto simp: map_le_def dom_def m1(5) split: sum.splits)
  show ?thesis
  proof (cases r)
    case (Inl rc)
    have "dev_in_use m' e" if "dev_in_use m e" for e
      using that st unfolding dev_in_use_def by (cases "unat e = d") (auto simp: nth_list_update)
    moreover have "dev_at m' = dev_at m" using out Inl m1(4) by (simp add: dev_at_def fun_eq_iff)
    ultimately have "owns m' as"
      using assms(1) ok out Inl m1(4,5) by (auto simp: owns_def)
    then show ?thesis using Cons Inl out fr m1(3) le by simp
  next
    case (Inr c)
    then obtain s where s: "sm_heap m' = (sm_heap m)(sm_fresh m \<mapsto> s)" "es_dev s = of_nat d" "pc_sta c = sm_fresh m"
      using out m1(4,5) by auto
    have "owns m' (sm_fresh m # as)"
      by (rule claim_owns [OF assms(1) Cons st ok s(1) _ s(2)]) (use out m1(5) in simp)
    then show ?thesis using Cons Inr out fr m1(3) s le by (simp add: dev_at_def)
  qed
qed

lemma prepare_device_config:
  "prepare_device se d si sc m = Some (r, sc', m') \<Longrightarrow> \<exists>m1. sc' = choose_mac se m1 (claim_device si sc)"
  unfolding prepare_device_def Let_def by (auto split: option.splits prod.splits if_splits)

lemma prepare_client_config:
  assumes "prepare_client se sc m = Some (r, sc', m')"
  shows "sc_test_id sc' = sc_test_id sc \<and> sc_connected_client_info_q sc' = sc_connected_client_info_q sc"
proof -
  have "sc' = sc \<or> (\<exists>d si m1. prepare_device se d si sc m1 = Some (r, sc', m'))"
    using assms unfolding prepare_client_def
    by (auto simp: bind_eq_Some_conv split: option.splits if_splits)
  then show ?thesis by (auto dest: prepare_device_config simp: choose_mac_def claim_device_def)
qed

text \<open>All rounds of the first phase.\<close>

lemma map_le_dev_at: "sm_heap m \<subseteq>\<^sub>m sm_heap m' \<Longrightarrow> sm_heap m a \<noteq> None \<Longrightarrow> dev_at m' a = dev_at m a"
  by (auto simp: map_le_def dom_def dev_at_def)

lemma prepare_clients_outcome:
  assumes "owns m as" "prepare_clients se n sc m = Some (r, sc', m')"
  shows "sm_sta_map m' = sm_sta_map m \<and> sc_connected_client_info_q sc' = sc_connected_client_info_q sc \<and>
    sm_heap m \<subseteq>\<^sub>m sm_heap m' \<and>
    (case r of Inl rc \<Rightarrow> rc = RETURN_ERR \<and> owns m' as
     | Inr cs \<Rightarrow> n \<le> length (free_devs m) \<and> free_devs m' = drop n (free_devs m) \<and>
         map pc_dev_id cs = map of_nat (take n (free_devs m)) \<and>
         map pc_key cs = map (\<lambda>d. create_key se (of_nat d) (sc_test_id sc)) (take n (free_devs m)) \<and>
         map (dev_at m') (map pc_sta cs) = map of_nat (take n (free_devs m)) \<and>
         owns m' (map pc_sta cs @ as))"
  using assms
proof (induction n arbitrary: m as sc r sc' m')
  case (Suc n)
  obtain r1 sc1 m1 where p: "prepare_client se sc m = Some (r1, sc1, m1)"
    using Suc.prems(2) by (auto split: option.splits)
  note out = prepare_client_outcome [OF Suc.prems(1) p]
  note keep = prepare_client_config [OF p]
  show ?case
  proof (cases r1)
    case (Inl rc)
    then have "r = Inl rc" "sc' = sc1" "m' = m1" using Suc.prems(2) p by auto
    then show ?thesis using out Inl keep Suc.prems(1) by (auto split: list.splits)
  next
    case (Inr c)
    then obtain d ds where f: "free_devs m = d # ds" using out by (auto split: list.splits)
    have c: "sm_sta_map m1 = sm_sta_map m" "free_devs m1 = ds" "pc_dev_id c = of_nat d"
        "pc_key c = create_key se (of_nat d) (sc_test_id sc)" "owns m1 (pc_sta c # as)" "dev_at m1 (pc_sta c) = of_nat d"
        "sm_heap m \<subseteq>\<^sub>m sm_heap m1"
      using out f Inr by auto
    obtain r2 sc2 m2 where r2: "prepare_clients se n sc1 m1 = Some (r2, sc2, m2)"
      using Suc.prems(2) p Inr by (auto split: option.splits)
    note IH = Suc.IH [OF c(5) r2]
    have le: "sm_heap m \<subseteq>\<^sub>m sm_heap m2" using IH c(7) by (blast intro: map_le_trans)
    show ?thesis
    proof (cases r2)
      case (Inl rc)
      then have e: "r = Inl rc" "sc' = sc2" "m' = m2" using Suc.prems(2) p Inr r2 by auto
      then have "owns m' (pc_sta c # as)" "rc = RETURN_ERR" "sm_sta_map m' = sm_sta_map m"
        using IH Inl c(1) by auto
      then show ?thesis using e IH Inl keep le by (auto dest: owns_sub)
    next
      case (Inr cs)
      then have e: "r = Inr (c # cs)" "sc' = sc2" "m' = m2" using Suc.prems(2) p \<open>r1 = Inr c\<close> r2 by auto
      have t: "sc_test_id sc1 = sc_test_id sc" using keep by simp
      have i: "sm_sta_map m2 = sm_sta_map m" "n \<le> length ds" "free_devs m2 = drop n ds"
          "map pc_dev_id cs = map of_nat (take n ds)"
          "map pc_key cs = map (\<lambda>d. create_key se (of_nat d) (sc_test_id sc)) (take n ds)"
          "map (dev_at m2) (map pc_sta cs) = map of_nat (take n ds)" "owns m2 (map pc_sta cs @ pc_sta c # as)"
        using IH Inr c(1,2) t by auto
      have "dev_at m2 (pc_sta c) = of_nat d"
        using map_le_dev_at [of m1 m2 "pc_sta c"] IH c(5,6) by (simp add: owns_def)
      moreover have "owns m2 (map pc_sta (c # cs) @ as)"
        using i(7) by (rule owns_perm [THEN iffD1, rotated 2]) auto
      ultimately show ?thesis using e i f c keep IH le by simp
    qed
  qed
qed auto


section \<open>The second phase\<close>

definition sta_mgr_ok :: "sim_sta_mgr \<Rightarrow> bool" where
  "sta_mgr_ok m \<longleftrightarrow> owns m (stations m)"

text \<open>A step that changes only the map and the effects.\<close>

lemma remap_owns: "owns (m\<lparr>sm_sta_map := x, sm_fx := y\<rparr>) as = owns m as"
  by (simp add: owns_def inventory_ok_def dev_in_use_def dev_at_def [abs_def])

lemma remap_effect: "owns (sta_effect e (m\<lparr>sm_sta_map := x\<rparr>)) as = owns m as"
  using remap_owns [where m = m and x = x and y = "sm_fx m @ [e]" and as = as] by (simp add: sta_effect_def)

lemma connect_client_owns:
  assumes "owns m (pc_sta c # as @ stations m)" "connect_client se c sc m = Some (rc, sc', m')"
  shows "owns m' (as @ stations m')"
proof -
  define m1 where "m1 = sta_effect (Sx_connect (pc_vap_index c) (pc_bss c)) m"
  have q: "quiet m m1" unfolding m1_def by (rule quiet_effect)
  have m1: "owns m1 (pc_sta c # as @ stations m)" "sm_sta_map m1 = sm_sta_map m"
    using assms(1) quiet_owns [OF q] q by (simp_all add: quiet_def)
  have del: "owns (delete_sta (pc_sta c) m1) (as @ stations (delete_sta (pc_sta c) m1))"
    using delete_owns [OF m1(1)] m1(2) by (simp add: delete_sta_def)
  consider "m' = delete_sta (pc_sta c) m1" | q where "enter_client se c q sc m1 = Some (sc', m')"
    using assms(2) by (auto simp: connect_client_def Let_def m1_def split: if_splits option.splits)
  then show ?thesis
  proof cases
    case 2
    then obtain x where "m' = sta_effect (Sx_sleep 2000) (m1\<lparr>sm_sta_map := x\<rparr>)"
        "x = sm_sta_map m1 \<or> x = (pc_key c, pc_sta c) # sm_sta_map m1"
      by (auto simp: enter_client_def Let_def hash_map_put_def queue_push_def split: option.splits)
    moreover from this have "owns m' (pc_sta c # as @ stations m)" using m1(1) by (simp add: remap_effect)
    moreover have "owns m' (as @ pc_sta c # stations m)"
      using calculation(3) by (rule owns_perm [THEN iffD1, rotated 2]) auto
    ultimately show ?thesis using m1(2) by (auto simp: sta_effect_def dest: owns_sub)
  qed (use del in simp)
qed

lemma connect_clients_owns:
  "owns m (map pc_sta cs @ stations m) \<Longrightarrow> connect_clients se cs sc m = Some (rc, sc', m') \<Longrightarrow> sta_mgr_ok m'"
proof (induction cs arbitrary: m sc)
  case (Cons c cs)
  obtain rc1 sc1 m1 where c: "connect_client se c sc m = Some (rc1, sc1, m1)"
    using Cons.prems(2) by (auto split: option.splits)
  have o: "owns m1 (map pc_sta cs @ stations m1)"
    using connect_client_owns [OF _ c] Cons.prems(1) by simp
  moreover have "owns m1 (stations m1)"
    using o by (auto simp: owns_def)
  ultimately show ?case using Cons.prems(2) c Cons.IH [OF o] by (auto simp: sta_mgr_ok_def split: if_splits)
qed (simp add: sta_mgr_ok_def)

lemma add_sta_ok: "sta_mgr_ok m \<Longrightarrow> add_sta se sc m = Some (rc, sc', m') \<Longrightarrow> sta_mgr_ok m'"
proof -
  assume m: "sta_mgr_ok m" and a: "add_sta se sc m = Some (rc, sc', m')"
  have o: "owns m (stations m)" using m by (simp add: sta_mgr_ok_def)
  obtain r sc1 m1 where p: "prepare_clients se (unat (sc_client_count sc)) sc m = Some (r, sc1, m1)"
    using a by (auto simp: add_sta_def split: option.splits)
  note out = prepare_clients_outcome [OF o p]
  show "sta_mgr_ok m'"
  proof (cases r)
    case (Inl rc1)
    then show ?thesis using a p out by (auto simp: add_sta_def sta_mgr_ok_def)
  next
    case (Inr cs)
    then have "owns m1 (map pc_sta cs @ stations m1)" "connect_clients se cs sc1 m1 = Some (rc, sc', m')"
      using a p out by (auto simp: add_sta_def)
    then show ?thesis by (rule connect_clients_owns)
  qed
qed

section \<open>Removing a station\<close>

lemma remove_first_other:
  "distinct (map f q) \<Longrightarrow> find P q = Some e \<Longrightarrow> e' \<in> set (remove_first P q) \<Longrightarrow> f e' \<noteq> f e"
proof (induction q)
  case (Cons x q)
  show ?case
  proof (cases "P x")
    case False
    then have "find P q = Some e" using Cons.prems(2) by simp
    moreover from this have "e \<in> set q" by (auto simp: find_Some_iff)
    ultimately show ?thesis using Cons False by (auto simp: image_iff)
  qed (use Cons.prems in \<open>auto simp: image_iff\<close>)
qed simp

lemma remove_first_owns:
  assumes "sta_mgr_ok m" "find (key_match k) (sm_sta_map m) = Some (k', a)"
    and "dev_states m' = (dev_states m)[unat (dev_at m a) := sta_state_free]" "sm_heap m' = sm_heap m" "sm_fresh m' = sm_fresh m"
    and "inventory_ok m'" "sm_sta_map m' = remove_first (key_match k) (sm_sta_map m)"
  shows "sta_mgr_ok m'"
proof -
  let ?f = "\<lambda>e. dev_at m (snd e)"
  have dist: "distinct (map ?f (sm_sta_map m))"
    using assms(1) by (simp add: sta_mgr_ok_def owns_def comp_def)
  have rest: "set (sm_sta_map m') \<subseteq> set (sm_sta_map m)"
    unfolding assms(7) by (rule set_remove_first)
  have other: "dev_at m b \<noteq> dev_at m a" if "b \<in> snd ` set (sm_sta_map m')" for b
    using that remove_first_other [OF dist assms(2)] assms(7) by auto
  have "dev_in_use m' (dev_at m b)" if b: "b \<in> snd ` set (sm_sta_map m')" for b
  proof -
    have "dev_in_use m (dev_at m b)" using b rest assms(1) by (auto simp: sta_mgr_ok_def owns_def)
    moreover have "unat (dev_at m b) \<noteq> unat (dev_at m a)" using other [OF b] by (simp add: word_unat_eq_iff)
    ultimately show ?thesis by (simp add: dev_in_use_def assms(3))
  qed
  moreover have "dev_at m' = dev_at m" by (simp add: dev_at_def fun_eq_iff assms(4))
  moreover have "sm_heap m b \<noteq> None" if "b \<in> snd ` set (sm_sta_map m')" for b
    using that rest assms(1) by (auto simp: sta_mgr_ok_def owns_def)
  moreover have "distinct (map ?f (sm_sta_map m'))"
    unfolding assms(7) by (rule distinct_remove_first [OF dist])
  ultimately show ?thesis
    using assms(1,4-6) by (auto simp: sta_mgr_ok_def owns_def comp_def)
qed


lemma stations_queue_ok:
  assumes "sta_mgr_ok m"
  shows "queue_ok (sm_sta_map m)"
proof -
  let ?ds = "map (unat o dev_at m) (stations m)"
  have "distinct ?ds"
    using assms by (simp add: sta_mgr_ok_def owns_def distinct_map inj_on_def word_unat_eq_iff)
  then have "length ?ds = card (set ?ds)" by (rule distinct_card [symmetric])
  also have "\<dots> \<le> card {..<length (sm_sta_info_map m)}"
    using assms by (intro card_mono) (auto simp: sta_mgr_ok_def owns_def dev_in_use_def)
  finally show ?thesis using assms by (simp add: sta_mgr_ok_def owns_def inventory_ok_def queue_ok_def)
qed

lemma remove_sta_found:
  assumes "sta_mgr_ok m" "ci_key client \<noteq> []" "hash_map_get (sm_sta_map m) (ci_key client) = Some a"
  shows "\<exists>m'. remove_sta se (Some sc) client m = Some (client\<lparr>ci_is_disconnection_sent := True\<rparr>, m') \<and>
    dev_states m' = (dev_states m)[unat (dev_at m a) := sta_state_free] \<and>
    sm_sta_map m' = remove_first (key_match (ci_key client)) (sm_sta_map m) \<and> sm_heap m' = sm_heap m \<and> sta_mgr_ok m'"
proof -
  note qok = stations_queue_ok [OF assms(1)]
  obtain k where f: "find (key_match (ci_key client)) (sm_sta_map m) = Some (k, a)"
    using assms(3) hash_map_get_find [OF qok] by auto
  then have "(k, a) \<in> set (sm_sta_map m)" by (auto simp: find_Some_iff)
  then have a: "a \<in> set (stations m)" by force
  obtain s where s: "sm_heap m a = Some s" "dev_in_use m (es_dev s)" "dev_at m a = es_dev s"
    using assms(1) a by (auto simp: sta_mgr_ok_def owns_def dev_at_def)
  have inv: "inventory_ok m" using assms(1) by (simp add: sta_mgr_ok_def owns_def)
  obtain si where si: "get_devid_sta_info m (es_dev s) = Some si"
    using s(2) inventory_queue_ok [OF inv] by (simp add: get_devid_sta_info_def queue_peek_nth dev_in_use_def)
  define m1 where "m1 = ovs_fdb_flush se (si_bridge_name si) (remove_from_bridge se (si_interface_name si)
    (si_bridge_name si) (sta_effect (Sx_disconnect (si_index si)) m))"
  have q: "quiet m m1" unfolding m1_def by (intro quiet_trans [OF quiet_trans [OF quiet_effect quiet_bridges(3)] quiet_bridges(1)])
  have "unat (es_dev s) < length (sm_sta_info_map m1)"
    using s(2) q unfolding dev_in_use_def quiet_def by (metis length_map)
  then obtain m2 where m2: "set_dev_free (es_dev s) m1 = Some m2"
      "dev_states m2 = (dev_states m1)[unat (es_dev s) := sta_state_free]" "sm_sta_map m2 = sm_sta_map m1"
      "sm_heap m2 = sm_heap m1" "sm_fresh m2 = sm_fresh m1" "inventory_ok m2"
    using on_status_states [of m1 "es_dev s" sta_state_free] quiet_inventory [OF q] inv unfolding set_dev_free_def by metis
  define m3 where "m3 = m2\<lparr>sm_sta_map := remove_first (key_match (ci_key client)) (sm_sta_map m)\<rparr>"
  have "remove_sta se (Some sc) client m = Some (client\<lparr>ci_is_disconnection_sent := True\<rparr>, m3)"
    using assms(2,3) s si m2(1,3) q hash_map_remove_first [OF qok]
    by (simp add: remove_sta_def m1_def [symmetric] m3_def quiet_def)
  moreover have "dev_states m3 = (dev_states m)[unat (dev_at m a) := sta_state_free]"
    using m2(2) q s(3) by (simp add: m3_def quiet_def)
  moreover have "sm_heap m3 = sm_heap m" "sm_fresh m3 = sm_fresh m" "inventory_ok m3"
    using m2(4-6) q by (simp_all add: m3_def quiet_def inventory_ok_def)
  moreover from calculation have "sta_mgr_ok m3"
    by (intro remove_first_owns [OF assms(1) f]) (simp_all add: m3_def)
  ultimately show ?thesis by (auto simp: m3_def)
qed

lemma remove_sta_ok: "sta_mgr_ok m \<Longrightarrow> remove_sta se sc client m = Some (client', m') \<Longrightarrow> sta_mgr_ok m'"
proof -
  assume m: "sta_mgr_ok m" and r: "remove_sta se sc client m = Some (client', m')"
  show ?thesis
  proof (cases "sc = None \<or> ci_key client = [] \<or> hash_map_get (sm_sta_map m) (ci_key client) = None")
    case True
    then show ?thesis using m r by (auto simp: remove_sta_def split: if_splits)
  next
    case False
    then obtain t a where "sc = Some t" "ci_key client \<noteq> []" "hash_map_get (sm_sta_map m) (ci_key client) = Some a"
      by auto
    then show ?thesis using r remove_sta_found [OF m, where client = client and a = a and se = se and sc = t] by auto
  qed
qed

section \<open>Disconnecting, reconnecting, heart beats\<close>

lemma quiet_disconnect: "disconnect_sta se sc client m = Some (rc, client', m') \<Longrightarrow> quiet m m'"
  unfolding disconnect_sta_def Let_def
  by (auto split: option.splits sum.splits if_splits
      intro: quiet_refl quiet_effect quiet_trans [OF quiet_trans [OF quiet_effect quiet_bridges(3)] quiet_bridges(1)])

lemma quiet_reconnect_device:
  assumes "reconnect_device se sc client d si m = Some (rc, sc', m')"
  shows "quiet m m'"
proof -
  define m1 where "m1 = set_bridge_mac se (vi_bridge_name (sc_vap sc)) (add_to_bridge se (si_interface_name si) (vi_bridge_name (sc_vap sc)) m)"
  have q: "quiet m m1" unfolding m1_def by (rule quiet_trans [OF quiet_bridges(2) quiet_set_bridge_mac])
  obtain m2 where m2: "on_device (si_mac_update (\<lambda>_. ci_sta_mac client)) d m1 = Some m2"
    using assms by (auto simp: reconnect_device_def Let_def m1_def bind_eq_Some_conv)
  have q2: "quiet m m2" by (rule quiet_trans [OF q quiet_mac [OF m2]])
  show ?thesis
  proof (cases "se_malloc se (sm_fx m1) 0")
    case False
    then show ?thesis using assms m2 q2 by (simp add: reconnect_device_def Let_def flip: m1_def)
  next
    case True
    obtain rc1 m3 where f: "reconnect_frames se (sc\<lparr>sc_vap := (sc_vap sc)\<lparr>vi_mac := ci_sta_mac client\<rparr>\<rparr>)
         (send_mac_update \<lparr>mu_old_mac = si_mac si, mu_new_mac = ci_sta_mac client, mu_op_modes = sc_op_modes sc,
            mu_bridge_name = vi_bridge_name (sc_vap sc)\<rparr> m2) = Some (rc1, m3)"
      using assms True m2 by (auto simp: reconnect_device_def Let_def bind_eq_Some_conv simp flip: m1_def)
    have q3: "quiet m m3"
      using f by (auto simp: reconnect_frames_def split: if_splits
          intro: quiet_trans [OF q2 quiet_trans [OF quiet_messages(3) quiet_configure_proto]] quiet_trans [OF q2 quiet_messages(3)])
    show ?thesis
      using assms True m2 f q3 by (auto simp: reconnect_device_def Let_def simp flip: m1_def split: if_splits
          intro: quiet_trans [OF q3 quiet_effect] quiet_trans [OF q3 quiet_trans [OF quiet_effect quiet_effect]])
  qed
qed

lemma quiet_reconnect:
  assumes "reconnect_sta se sta_test client m = Some (rc, sta_test', m')"
  shows "quiet m m'"
proof -
  obtain r where l: "lookup_client sta_test client m = Some r"
    using assms by (auto simp: reconnect_sta_def split: option.splits)
  show ?thesis
  proof (cases r)
    case (Inl rc1)
    then show ?thesis using assms l by (simp add: reconnect_sta_def quiet_refl)
  next
    case (Inr x)
    obtain sc a d si where x: "x = (sc, a, d, si)" by (cases x) auto
    obtain rc1 m1 where c: "clear_interface_data se (claim_device si sc) m = (rc1, m1)" by (rule prod.exhaust)
    then have q: "quiet m m1" by (auto simp: clear_interface_data_def quiet_effect)
    show ?thesis
      using assms l Inr x c q
      by (auto simp: reconnect_sta_def Let_def split: if_splits dest!: quiet_reconnect_device intro: quiet_trans [OF q])
  qed
qed

lemma quiet_heart_beat: "send_heart_beat key hb m = Some m' \<Longrightarrow> quiet m m'"
  unfolding send_heart_beat_def
  by (auto split: option.splits if_splits intro: quiet_refl quiet_trans [OF quiet_messages(2) quiet_effect])


section \<open>Reachable states\<close>

text \<open>
  The states of a manager that was initialised with the devices \<open>ims\<close> (with memory for its queue) and
  then used by the steps, in any environment. \<open>remove_all_sta\<close> has no caller.
\<close>

inductive sta_reach :: "interface_map list \<Rightarrow> sim_sta_mgr \<Rightarrow> bool" for ims where
  sta_start: "(\<forall>fx. se_malloc se fx 9) \<Longrightarrow> sta_mgr_init se True True True ims new_sta_mgr = (rc, m) \<Longrightarrow> sta_reach ims m"
| sta_add: "sta_reach ims m \<Longrightarrow> add_sta se sc m = Some (rc, sc', m') \<Longrightarrow> sta_reach ims m'"
| sta_remove: "sta_reach ims m \<Longrightarrow> remove_sta se sta_test client m = Some (client', m') \<Longrightarrow> sta_reach ims m'"
| sta_disconnect: "sta_reach ims m \<Longrightarrow> disconnect_sta se sta_test client m = Some (rc, client', m') \<Longrightarrow> sta_reach ims m'"
| sta_reconnect: "sta_reach ims m \<Longrightarrow> reconnect_sta se sta_test client m = Some (rc, sta_test', m') \<Longrightarrow> sta_reach ims m'"
| sta_beat: "sta_reach ims m \<Longrightarrow> send_heart_beat key hb m = Some m' \<Longrightarrow> sta_reach ims m'"

lemma init_devices_ok:
  assumes "\<forall>fx. se_malloc se fx 9" "inventory_ok m" "length (sm_sta_info_map m) + length ims < 2 ^ 31"
  shows "inventory_ok (snd (init_devices se ims m)) \<and> sm_sta_map (snd (init_devices se ims m)) = sm_sta_map m
    \<and> sm_heap (snd (init_devices se ims m)) = sm_heap m"
  using assms(2,3)
proof (induction ims arbitrary: m)
  case (Cons im ims)
  show ?case
  proof (cases "im_vap_name im = [] \<or> \<not> se_malloc se (sm_fx m) 0 \<or> se_vap_map se (sm_fx m) (im_rdk_radio_index im) = None")
    case True
    then show ?thesis using Cons by (auto simp: sta_effect_def inventory_ok_def)
  next
    case False
    then obtain vaps where v: "im_vap_name im \<noteq> []" "se_malloc se (sm_fx m) 0"
        "se_vap_map se (sm_fx m) (im_rdk_radio_index im) = Some vaps" by auto
    define m1 where "m1 = sta_effect (Sx_vap_map (im_rdk_radio_index im))
       (m\<lparr>sm_sta_info_count := sm_sta_info_count m + 1, sm_sta_info_map := sta_info_of se im vaps # sm_sta_info_map m\<rparr>)"
    have e: "init_devices se (im # ims) m = init_devices se ims m1"
      using v assms(1) by (simp add: m1_def queue_push_def)
    have "unat (sm_sta_info_count m + 1) = Suc (length (sm_sta_info_map m))"
      using Cons.prems by (simp add: inventory_ok_def unat_word_ariths)
    then have "inventory_ok m1" "length (sm_sta_info_map m1) + length ims < 2 ^ 31"
      using Cons.prems by (simp_all add: m1_def sta_effect_def inventory_ok_def)
    from Cons.IH [OF this] show ?thesis unfolding e by (simp add: m1_def sta_effect_def)
  qed
qed simp

lemma quiet_sta_mgr_ok: "quiet m m' \<Longrightarrow> sta_mgr_ok m' = sta_mgr_ok m"
  by (simp add: sta_mgr_ok_def quiet_owns) (simp add: quiet_def)

lemma reach_sta_mgr_ok: "sta_reach ims m \<Longrightarrow> length ims < 2 ^ 31 \<Longrightarrow> sta_mgr_ok m"
proof (induction rule: sta_reach.induct)
  case (sta_start se rc m)
  define m0 where "m0 = new_sta_mgr\<lparr>sm_sta_map := hash_map_create, sm_sta_info_map := queue_create\<rparr>"
  have m: "m = snd (init_devices se ims m0)"
    using sta_start(2) by (simp add: sta_mgr_init_def Let_def m0_def)
  have "inventory_ok m0" "sm_sta_map m0 = []" "sm_heap m0 = Map.empty" "sm_sta_info_map m0 = []"
    by (simp_all add: m0_def new_sta_mgr_def hash_map_create_def queue_create_def inventory_ok_def)
  then show ?case using init_devices_ok [OF sta_start(1), of m0 ims] sta_start(3)
    unfolding m by (simp add: sta_mgr_ok_def owns_def)
qed (auto dest: add_sta_ok remove_sta_ok quiet_disconnect quiet_reconnect quiet_heart_beat simp: quiet_sta_mgr_ok)

section \<open>Adding stations when the outside works\<close>

definition sta_env_works :: "sta_env \<Rightarrow> bool" where
  "sta_env_works se \<longleftrightarrow> (\<forall>fx i. se_malloc se fx i) \<and> (\<forall>fx r p. se_set_radio se fx r p = RETURN_OK) \<and>
     (\<forall>fx r v. se_create_vap se fx r v = RETURN_OK) \<and> (\<forall>fx i b. se_connect se fx i b = RETURN_OK)"

definition client_config_ok :: "sta_config \<Rightarrow> bool" where
  "client_config_ok sc \<longleftrightarrow> sc_sta_type sc \<in> {sta_model_type_iphone, sta_model_type_pixel} \<and>
     sc_pre_assoc_stats sc \<noteq> None \<and> \<not> sc_is_station_prototype_enabled sc"

lemma configure_station_works:
  assumes "sta_env_works se" "client_config_ok sc" "unat d < length (sm_sta_info_map m)" "inventory_ok m"
  shows "\<exists>m'. configure_station se sc d radio a m = Some (RETURN_OK, m')"
proof -
  obtain hb where hb: "pre_assoc_beat sc = Some hb"
    using assms(2) by (auto simp: client_config_ok_def pre_assoc_beat_def)
  obtain m1 where m1: "setup_radio se sc radio a (handle_heart_beat hb m) = Some (RETURN_OK, m1)"
      "sm_sta_info_map m1 = sm_sta_info_map m"
    using assms(1) by (auto simp: setup_radio_def Let_def sta_env_works_def sta_effect_def handle_heart_beat_def
        send_radio_tap_header_def send_ctrl_msg_def)
  have "queue_peek (sm_sta_info_map m1) d = Some (sm_sta_info_map m ! unat d)"
    using assms(3) inventory_queue_ok [OF assms(4)] m1(2) by (simp add: queue_peek_nth)
  then obtain m2 where "announce_mac sc d m1 = Some m2"
    by (simp add: announce_mac_def get_devid_sta_info_def on_device_def)
  then show ?thesis
    using assms(1,2) hb m1(1) by (simp add: configure_station_def sta_env_works_def client_config_ok_def)
qed

lemma prepare_client_works:
  assumes "owns m as" "sta_env_works se" "client_config_ok sc"
  shows "\<exists>r sc' m'. prepare_client se sc m = Some (r, sc', m') \<and> client_config_ok sc' \<and>
    (free_devs m \<noteq> [] \<longrightarrow> (\<exists>c. r = Inr c))"
proof (cases "free_devs m")
  case Nil
  then show ?thesis using assms by (auto simp: prepare_client_def find_first_free_dev_eq owns_def)
next
  case (Cons d ds)
  have inv: "inventory_ok m" using assms(1) by (simp add: owns_def)
  have d: "d < length (sm_sta_info_map m)" using free_devs_bound [of d "dev_states m"] Cons by simp
  then have small: "unat (of_nat d :: u32) = d" using inv by (simp add: inventory_ok_def)
  have first: "find_first_free_dev m = Some (int d)" using find_first_free_dev_eq [OF inv] Cons by simp
  obtain m1 where m1: "set_dev_busy (of_nat d) m = Some m1" "dev_states m1 = (dev_states m)[d := sta_state_in_use]" "inventory_ok m1"
    using on_status_states [OF inv, of "of_nat d" sta_state_in_use] d small unfolding set_dev_busy_def by metis
  have len: "length (sm_sta_info_map m1) = length (sm_sta_info_map m)"
    using arg_cong [OF m1(2), of length] by simp
  then obtain si where si: "get_devid_sta_info m1 (of_nat d) = Some si"
    using m1(3) d small inventory_queue_ok [OF m1(3)] by (simp add: get_devid_sta_info_def queue_peek_nth)
  define sc1 where "sc1 = claim_device si sc"
  define m2 where "m2 = set_bridge_mac se (vi_bridge_name (sc_vap sc1)) (add_to_bridge se (si_interface_name si) (vi_bridge_name (sc_vap sc1)) m1)"
  define sc2 where "sc2 = choose_mac se m2 sc1"
  have c2: "client_config_ok sc2" using assms(3) by (simp add: sc2_def sc1_def choose_mac_def claim_device_def client_config_ok_def)
  then obtain s vap where s: "new_sta (of_nat d) sc2 = Some (s, vap)"
    by (auto simp: client_config_ok_def new_sta_def new_iphone_def new_pixel_def)
  have q: "quiet m1 m2" unfolding m2_def by (rule quiet_trans [OF quiet_bridges(2) quiet_set_bridge_mac])
  obtain a m3 where m3: "alloc_sta s m2 = (a, m3)" "sm_sta_info_map m3 = sm_sta_info_map m2" "inventory_ok m3"
    using quiet_inventory [OF q] m1(3) by (simp add: alloc_sta_def inventory_ok_def)
  have "length (sm_sta_info_map m3) = length (sm_sta_info_map m)"
    using q m3(2) len unfolding quiet_def by (metis length_map)
  then obtain m4 where m4: "configure_station se sc2 (of_nat d) (si_rdk_radio_index si) a m3 = Some (RETURN_OK, m4)"
    using configure_station_works [OF assms(2) c2 _ m3(3)] d small by metis
  have "\<exists>c m'. prepare_device se (of_nat d) si sc m1 = Some (Inr c, sc2, m')"
    unfolding prepare_device_def Let_def sc1_def [symmetric] m2_def [symmetric] sc2_def [symmetric]
    using s m3(1) m4 by simp
  then show ?thesis using first m1(1) si c2 by (auto simp: prepare_client_def)
qed

end
