(* ===== verification/Sta_Runs.thy ===== *)
theory Sta_Runs
  imports Sta_Mgr_Facts
begin

text \<open>
  Properties of the manager of the simulated stations: its invariant over all the states the steps
  can bring it to, what \<open>add_sta\<close> does with enough and with too few free devices, what \<open>remove_sta\<close>
  gives back, and the keys.
\<close>

section \<open>Both phases when the outside works\<close>

lemma prepare_clients_works:
  assumes "owns m as" "sta_env_works se" "client_config_ok sc"
  shows "\<exists>r sc' m'. prepare_clients se n sc m = Some (r, sc', m') \<and>
    (if n \<le> length (free_devs m) then \<exists>cs. r = Inr cs else r = Inl RETURN_ERR \<and> free_devs m' = [])"
  using assms(1,3)
proof (induction n arbitrary: m as sc)
  case (Suc n)
  obtain r1 sc1 m1 where p: "prepare_client se sc m = Some (r1, sc1, m1)" "client_config_ok sc1"
      "free_devs m \<noteq> [] \<longrightarrow> (\<exists>c. r1 = Inr c)"
    using prepare_client_works [OF Suc.prems(1) assms(2) Suc.prems(2)] by auto
  note out = prepare_client_outcome [OF Suc.prems(1) p(1)]
  show ?case
  proof (cases "free_devs m")
    case Nil
    then show ?thesis using out p(1) by auto
  next
    case (Cons d ds)
    then obtain c where r1: "r1 = Inr c" using p(3) by auto
    then have o: "owns m1 (pc_sta c # as)" "free_devs m1 = ds" using out Cons by auto
    show ?thesis using Suc.IH [OF o(1) p(2)] p(1) r1 o(2) Cons by (auto split: if_splits)
  qed
qed auto

lemma connect_clients_works:
  assumes "sta_env_works se" "inventory_ok m" "\<forall>c \<in> set cs. unat (pc_dev_id c) < length (sm_sta_info_map m)"
    and "sc_connected_client_info_q sc = Some q"
  shows "\<exists>sc' m' q'. connect_clients se cs sc m = Some (0, sc', m') \<and>
    sm_sta_map m' = rev (map (\<lambda>c. (pc_key c, pc_sta c)) cs) @ sm_sta_map m \<and>
    sm_sta_info_map m' = sm_sta_info_map m \<and> sm_heap m' = sm_heap m \<and>
    sc_connected_client_info_q sc' = Some (q' @ q) \<and> map ci_key q' = rev (map pc_key cs) \<and>
    map ci_sta_mac q' = rev (map (\<lambda>c. si_mac (sm_sta_info_map m ! unat (pc_dev_id c))) cs)"
  using assms(2-4)
proof (induction cs arbitrary: m sc q)
  case (Cons c cs)
  define m1 where "m1 = sta_effect (Sx_connect (pc_vap_index c) (pc_bss c)) m"
  have same: "sm_sta_info_map m1 = sm_sta_info_map m" "sm_sta_map m1 = sm_sta_map m" "sm_heap m1 = sm_heap m" "inventory_ok m1"
    using Cons.prems(1) by (simp_all add: m1_def sta_effect_def inventory_ok_def)
  have si: "get_devid_sta_info m1 (pc_dev_id c) = Some (sm_sta_info_map m ! unat (pc_dev_id c))"
    using Cons.prems(2) inventory_queue_ok [OF Cons.prems(1)] same(1) by (simp add: get_devid_sta_info_def queue_peek_nth)
  define info where "info = \<lparr>ci_sta_mac = si_mac (sm_sta_info_map m ! unat (pc_dev_id c)), ci_key = pc_key c,
    ci_is_station_associated = True, ci_is_disconnection_sent = False, ci_reconnect_timer = 0\<rparr>"
  define sc1 where "sc1 = sc\<lparr>sc_connected_client_info_q := Some (info # q)\<rparr>"
  define m2 where "m2 = sta_effect (Sx_sleep 2000) (m1\<lparr>sm_sta_map := (pc_key c, pc_sta c) # sm_sta_map m\<rparr>)"
  have e: "connect_client se c sc m = Some (RETURN_OK, sc1, m2)"
    using assms(1) Cons.prems(3) si same
    unfolding connect_client_def Let_def m1_def [symmetric]
    by (simp add: sta_env_works_def enter_client_def queue_push_def hash_map_put_def sc1_def m2_def info_def)
  have "inventory_ok m2" "sm_sta_info_map m2 = sm_sta_info_map m" "sc_connected_client_info_q sc1 = Some (info # q)"
    using same by (simp_all add: m2_def sta_effect_def inventory_ok_def sc1_def)
  note IH = Cons.IH [OF this(1) _ this(3)] and inf = this(2)
  obtain sc' m' q' where r: "connect_clients se cs sc1 m2 = Some (0, sc', m')"
      "sm_sta_map m' = rev (map (\<lambda>c. (pc_key c, pc_sta c)) cs) @ sm_sta_map m2"
      "sm_sta_info_map m' = sm_sta_info_map m2" "sm_heap m' = sm_heap m2"
      "sc_connected_client_info_q sc' = Some (q' @ info # q)" "map ci_key q' = rev (map pc_key cs)"
      "map ci_sta_mac q' = rev (map (\<lambda>c. si_mac (sm_sta_info_map m2 ! unat (pc_dev_id c))) cs)"
    using IH Cons.prems(2) inf by auto
  have "connect_clients se (c # cs) sc m = Some (0, sc', m')" using e r(1) by simp
  moreover have "sc_connected_client_info_q sc' = Some ((q' @ [info]) @ q)" using r(5) by simp
  moreover have "sm_sta_map m' = rev (map (\<lambda>c. (pc_key c, pc_sta c)) (c # cs)) @ sm_sta_map m"
    using r(2) by (simp add: m2_def sta_effect_def)
  ultimately show ?case using r(3-4,6-7) inf same(3)
    by (intro exI [of _ sc'] exI [of _ m'] exI [of _ "q' @ [info]"]) (simp add: info_def m2_def sta_effect_def)
qed auto

section \<open>Printed numbers\<close>

lemma show_nat_length: "n < 10 ^ k \<Longrightarrow> 0 < k \<Longrightarrow> length (show_nat n) \<le> k"
proof (induction n arbitrary: k rule: show_nat.induct)
  case (1 n)
  show ?case
  proof (cases "n < 10")
    case True
    then show ?thesis using 1(3) by (simp add: show_nat.simps [of n])
  next
    case False
    then obtain j where j: "k = Suc j" "0 < j" using 1(2,3)
      by (cases k; cases "k - 1") auto
    then have "n div 10 < 10 ^ j" using 1(2) by (simp add: less_mult_imp_div_less mult.commute)
    then show ?thesis using 1(1) [OF False _ j(2)] False j(1) by (simp add: show_nat.simps [of n])
  qed
qed

lemma show_int_length: "length (show_int (sint (w :: u32))) \<le> 11"
proof -
  have "- (2 ^ 31) \<le> sint w" "sint w < 2 ^ 31" using sint_range_size [of w] by (simp_all add: word_size)
  then have "length (show_nat (nat (sint w))) \<le> 10" "length (show_nat (nat (- sint w))) \<le> 10"
    by (auto intro!: show_nat_length)
  then show ?thesis by (simp add: show_int_def)
qed

lemma add_sta_connects:
  assumes "sta_mgr_ok m" "sta_env_works se" "client_config_ok sc" "sc_connected_client_info_q sc = Some q"
    and "n = unat (sc_client_count sc)" "n \<le> length (free_devs m)" "ds = take n (free_devs m)"
  shows "\<exists>sc' m' as infos. add_sta se sc m = Some (0, sc', m') \<and>
    sm_sta_map m' = rev (zip (map (\<lambda>d. create_key se (of_nat d) (sc_test_id sc)) ds) as) @ sm_sta_map m \<and>
    map (\<lambda>a. es_dev (the (sm_heap m' a))) as = map of_nat ds \<and> free_devs m' = drop n (free_devs m) \<and>
    sc_connected_client_info_q sc' = Some (infos @ q) \<and>
    map ci_key infos = rev (map (\<lambda>d. create_key se (of_nat d) (sc_test_id sc)) ds)"
proof -
  have o: "owns m (stations m)" using assms(1) by (simp add: sta_mgr_ok_def)
  obtain cs sc1 m1 where p: "prepare_clients se n sc m = Some (Inr cs, sc1, m1)"
    using prepare_clients_works [OF o assms(2,3), of n] assms(6) by auto
  note out = prepare_clients_outcome [OF o p]
  have ds: "map pc_dev_id cs = map of_nat ds" "map pc_key cs = map (\<lambda>d. create_key se (of_nat d) (sc_test_id sc)) ds"
      "map (dev_at m1) (map pc_sta cs) = map of_nat ds" "free_devs m1 = drop n (free_devs m)" "sm_sta_map m1 = sm_sta_map m"
      "owns m1 (map pc_sta cs @ stations m)" "sc_connected_client_info_q sc1 = Some q"
    using out assms(4,7) by auto
  have inv: "inventory_ok m1" using ds(6) by (simp add: owns_def)
  have use: "\<forall>c \<in> set cs. unat (pc_dev_id c) < length (sm_sta_info_map m1)"
  proof
    fix c assume "c \<in> set cs"
    then obtain i where i: "i < length cs" "cs ! i = c" by (auto simp: in_set_conv_nth)
    have "pc_dev_id c = dev_at m1 (pc_sta c)"
      using arg_cong [OF ds(1), of "\<lambda>l. l ! i"] arg_cong [OF ds(3), of "\<lambda>l. l ! i"] i
        arg_cong [OF ds(1), of length] by simp
    moreover have "dev_in_use m1 (dev_at m1 (pc_sta c))" using ds(6) \<open>c \<in> set cs\<close> by (auto simp: owns_def)
    ultimately show "unat (pc_dev_id c) < length (sm_sta_info_map m1)" by (simp add: dev_in_use_def)
  qed
  obtain sc' m' q' where c: "connect_clients se cs sc1 m1 = Some (0, sc', m')"
      "sm_sta_map m' = rev (map (\<lambda>c. (pc_key c, pc_sta c)) cs) @ sm_sta_map m1"
      "sm_sta_info_map m' = sm_sta_info_map m1" "sm_heap m' = sm_heap m1"
      "sc_connected_client_info_q sc' = Some (q' @ q)" "map ci_key q' = rev (map pc_key cs)"
    using connect_clients_works [OF assms(2) inv use ds(7)] by auto
  have "add_sta se sc m = Some (0, sc', m')" using p c(1) assms(5) by (simp add: add_sta_def)
  moreover have "map (\<lambda>c. (pc_key c, pc_sta c)) cs = zip (map pc_key cs) (map pc_sta cs)" by (simp add: zip_map_map zip_same_conv_map)
  moreover have "map (\<lambda>a. es_dev (the (sm_heap m' a))) (map pc_sta cs) = map of_nat ds"
    using ds(3) c(4) by (simp add: dev_at_def [abs_def])
  ultimately show ?thesis using c ds
    by (intro exI [of _ sc'] exI [of _ m'] exI [of _ "map pc_sta cs"] exI [of _ q']) simp
qed

section \<open>Properties\<close>

text \<open>
  C34. The inventory, the map and the objects of the manager of simulated stations agree in every state
  that initialisation and the calls of the steps can lead to, whatever fails outside: each
  station in the map is a live object, the device it holds is marked as in use, and no two stations
  hold the same device. So no call follows a pointer to a deleted station, and a device that is
  given to a new station is not in use by another.
\<close>

theorem stations_hold_their_devices:
  assumes "sta_reach ims m" "length ims < 2 ^ 31"
  shows "unat (sm_sta_info_count m) = length (sm_sta_info_map m) \<and>
    (\<forall>(key, a) \<in> set (sm_sta_map m). \<exists>s. sm_heap m a = Some s \<and> dev_in_use m (es_dev s)) \<and>
    distinct (map (\<lambda>(key, a). es_dev (the (sm_heap m a))) (sm_sta_map m))"
proof -
  have ok: "owns m (stations m)" using reach_sta_mgr_ok [OF assms] by (simp add: sta_mgr_ok_def)
  have "distinct (map (\<lambda>(key, a). es_dev (the (sm_heap m a))) (sm_sta_map m))"
    using ok by (simp add: owns_def dev_at_def [abs_def] comp_def split_def)
  moreover have "\<exists>s. sm_heap m a = Some s \<and> dev_in_use m (es_dev s)" if "(key, a) \<in> set (sm_sta_map m)" for key a
  proof -
    have "a \<in> set (stations m)" using that by force
    then show ?thesis using ok by (auto simp: owns_def dev_at_def)
  qed
  ultimately show ?thesis using ok by (auto simp: owns_def inventory_ok_def)
qed

text \<open>
  C35. When the hardware layer and the allocations succeed and there are enough free devices, \<open>add_sta\<close>
  takes the free devices of lowest number, one per client, and enters under the key
  \<open>test-device\<close> a live station for each of them; the step gets one entry per client with the same
  keys. Every other device keeps its state.
\<close>

theorem add_sta_connects_clients:
  assumes "sta_mgr_ok m" "sta_env_works se" "client_config_ok sc" "sc_connected_client_info_q sc = Some q"
    and "n = unat (sc_client_count sc)" "n \<le> length (free_devs m)" "ds = take n (free_devs m)"
  shows "\<exists>sc' m' as infos. add_sta se sc m = Some (0, sc', m') \<and>
    sm_sta_map m' = rev (zip (map (\<lambda>d. create_key se (of_nat d) (sc_test_id sc)) ds) as) @ sm_sta_map m \<and>
    map (\<lambda>a. es_dev (the (sm_heap m' a))) as = map of_nat ds \<and> free_devs m' = drop n (free_devs m) \<and>
    sc_connected_client_info_q sc' = Some (infos @ q) \<and>
    map ci_key infos = rev (map (\<lambda>d. create_key se (of_nat d) (sc_test_id sc)) ds)"
  by (rule add_sta_connects [OF assms])

text \<open>
  C36. A request for more clients than there are free devices fails and loses devices: \<open>add_sta\<close> returns
  an error with no station added, but every device stays marked as in use, so that no later
  request can be served although nothing is connected.
\<close>

theorem refused_add_sta_loses_devices:
  assumes "sta_mgr_ok m" "sta_env_works se" "client_config_ok sc"
    and "length (free_devs m) < unat (sc_client_count sc)"
  shows "\<exists>sc' m'. add_sta se sc m = Some (RETURN_ERR, sc', m') \<and> sm_sta_map m' = sm_sta_map m \<and> free_devs m' = [] \<and>
    (\<forall>se2 sc2. 0 < unat (sc_client_count sc2) \<longrightarrow> add_sta se2 sc2 m' = Some (RETURN_ERR, sc2, m'))"
proof -
  have o: "owns m (stations m)" using assms(1) by (simp add: sta_mgr_ok_def)
  obtain sc' m' where p: "prepare_clients se (unat (sc_client_count sc)) sc m = Some (Inl RETURN_ERR, sc', m')" "free_devs m' = []"
    using prepare_clients_works [OF o assms(2,3), of "unat (sc_client_count sc)"] assms(4) by auto
  have m': "sm_sta_map m' = sm_sta_map m" "inventory_ok m'"
    using prepare_clients_outcome [OF o p(1)] by (auto simp: owns_def)
  have "add_sta se2 sc2 m' = Some (RETURN_ERR, sc2, m')" if "0 < unat (sc_client_count sc2)" for se2 sc2
  proof -
    obtain k where k: "unat (sc_client_count sc2) = Suc k" using \<open>0 < unat (sc_client_count sc2)\<close> by (cases "unat (sc_client_count sc2)") auto
    have "find_first_free_dev m' = Some (- 1)" using find_first_free_dev_eq [OF m'(2)] p(2) by simp
    then have "prepare_clients se2 (Suc k) sc2 m' = Some (Inl RETURN_ERR, sc2, m')" by (simp add: prepare_client_def)
    then show ?thesis by (simp only: add_sta_def k) simp
  qed
  then show ?thesis using p m' by (auto simp: add_sta_def)
qed

text \<open>
  C37. \<open>remove_sta\<close> of a client whose key is found returns its device: exactly the device of the station
  found becomes free, exactly the entry found leaves the map, the invariant is kept and the
  client is marked as disconnected. The station object itself stays allocated.
\<close>

theorem remove_sta_frees_device:
  assumes "sta_mgr_ok m" "ci_key client \<noteq> []" "hash_map_get (sm_sta_map m) (ci_key client) = Some a"
  shows "\<exists>m'. remove_sta se (Some sc) client m = Some (client\<lparr>ci_is_disconnection_sent := True\<rparr>, m') \<and>
    map si_status (sm_sta_info_map m') = (map si_status (sm_sta_info_map m))[unat (es_dev (the (sm_heap m a))) := sta_state_free] \<and>
    sm_sta_map m' = remove_first (key_match (ci_key client)) (sm_sta_map m) \<and>
    sm_heap m' = sm_heap m \<and> sm_heap m' a \<noteq> None \<and> sta_mgr_ok m'"
proof -
  obtain k where "find (key_match (ci_key client)) (sm_sta_map m) = Some (k, a)"
    using assms(3) hash_map_get_find [OF stations_queue_ok [OF assms(1)]] by auto
  then have "(k, a) \<in> set (sm_sta_map m)" by (auto simp: find_Some_iff)
  then have "a \<in> set (stations m)" by force
  then have "sm_heap m a \<noteq> None" using assms(1) by (auto simp: sta_mgr_ok_def owns_def)
  then show ?thesis using remove_sta_found [OF assms, of se sc] by (auto simp: dev_at_def)
qed

text \<open>
  Keys name the test and the device of a station without loss: with at least 24 bytes for a key,
  \<open>get_test_id_from_key\<close> and \<open>get_dev_id_from_key\<close> return the numbers \<open>create_key\<close> printed, for every
  value of 32 bits, also for those that are printed as negative numbers.
\<close>

theorem sta_key_round_trip:
  assumes "24 \<le> se_key_size se"
  shows "get_test_id_from_key (create_key se dev_id test_id) = Some test_id \<and>
    get_dev_id_from_key (create_key se dev_id test_id) = Some dev_id"
proof -
  have "length (show_int (sint test_id) @ ''-'' @ show_int (sint dev_id)) < se_key_size se"
    using show_int_length [of test_id] show_int_length [of dev_id] assms by simp
  then have k: "create_key se dev_id test_id = show_int (sint test_id) @ ''-'' @ show_int (sint dev_id)"
    unfolding create_key_def by (rule snprintf_store_fits)
  have "scan_int (show_int (sint test_id) @ ''-'' @ show_int (sint dev_id)) = Some (sint test_id, ''-'' @ show_int (sint dev_id))"
    by (rule scan_int_show_int) (simp add: no_digit_hd_def)
  moreover have "scan_int (show_int (sint dev_id)) = Some (sint dev_id, [])"
    using scan_int_show_int [of "[]" "sint dev_id"] by (simp add: no_digit_hd_def)
  ultimately show ?thesis
    by (simp add: k get_test_id_from_key_def get_dev_id_from_key_def scan_key_def)
qed


section \<open>The properties at work\<close>

definition sample_sta_env :: sta_env where
  "sample_sta_env = \<lparr>se_key_size = 32, se_popen = \<lambda>_ _. None, se_malloc = \<lambda>_ _. True, se_uninit_mac = [0, 0, 0, 0, 0, 0],
     se_rand = \<lambda>_ i. of_nat (7 * i), se_disconnect = \<lambda>_ _. 0, se_connect = \<lambda>_ _ _. 0, se_sm_deinit = \<lambda>_ _. 0,
     se_set_radio = \<lambda>_ _ _. 0, se_create_vap = \<lambda>_ _ _. 0, se_vap_map = \<lambda>_ _. Some [], se_freq = \<lambda>_ _. 2412,
     se_pcap_open = \<lambda>_. False, se_capture = \<lambda>_. None, se_radiotap = \<lambda>_. None\<rparr>"

definition sample_interface :: "u32 \<Rightarrow> interface_map" where
  "sample_interface i = \<lparr>im_vap_name = ''v'', im_phy_index = i, im_rdk_radio_index = i, im_interface_name = ''w'',
     im_bridge_name = ''b'', im_vlan_id = 0, im_index = i\<rparr>"

definition sample_vap :: vap_info where
  "sample_vap = \<lparr>vi_vap_index = 0, vi_radio_index = 0, vi_bridge_name = ''b'', vi_mac = [], vi_ssid = ''s'', vi_bssid = []\<rparr>"

definition sample_request :: "u32 \<Rightarrow> sta_config" where
  "sample_request n = \<lparr>sc_test_id = 7, sc_phy_index = 0, sc_sta_type = sta_model_type_pixel, sc_vap = sample_vap,
     sc_radio = \<lparr>ro_band = 1, ro_channel = 6\<rparr>, sc_profile = (0, 0), sc_is_station_prototype_enabled = False,
     sc_station_prototype = None, sc_custom_mac = [0, 0, 0, 0, 0, 0], sc_client_count = n,
     sc_connected_client_info_q = Some [], sc_pre_assoc_stats = Some (- 25, - 85, 2), sc_op_modes = 0\<rparr>"

definition sample_sta_mgr :: sim_sta_mgr where
  "sample_sta_mgr = snd (sta_mgr_init sample_sta_env True True True [sample_interface 1, sample_interface 2] new_sta_mgr)"

lemma sample_works: "sta_env_works sample_sta_env" "client_config_ok (sample_request n)"
    "\<forall>fx. se_malloc sample_sta_env fx 9" "sc_connected_client_info_q (sample_request n) = Some []"
    "sc_client_count (sample_request n) = n" "24 \<le> se_key_size sample_sta_env" "sc_test_id (sample_request n) = 7"
  by (simp_all add: sta_env_works_def sample_sta_env_def client_config_ok_def sample_request_def)

lemma sample_reach: "sta_reach [sample_interface 1, sample_interface 2] sample_sta_mgr"
proof (rule sta_start [OF sample_works(3)])
  show "sta_mgr_init sample_sta_env True True True [sample_interface 1, sample_interface 2] new_sta_mgr
    = (fst (sta_mgr_init sample_sta_env True True True [sample_interface 1, sample_interface 2] new_sta_mgr), sample_sta_mgr)"
    by (simp add: sample_sta_mgr_def)
qed

lemma sample_ok: "sta_mgr_ok sample_sta_mgr"
  by (rule reach_sta_mgr_ok [OF sample_reach]) simp

lemma sample_free: "free_devs sample_sta_mgr = [0, 1]" "sm_sta_map sample_sta_mgr = []"
  by code_simp+

theorem add_sta_connects_clients_witness:
  "\<exists>sc' m' as infos. add_sta sample_sta_env (sample_request 2) sample_sta_mgr = Some (0, sc', m') \<and>
     sm_sta_map m' = rev (zip [create_key sample_sta_env 0 7, create_key sample_sta_env 1 7] as) \<and>
     map (\<lambda>a. es_dev (the (sm_heap m' a))) as = [0, 1] \<and> free_devs m' = []"
proof -
  have "(2 :: nat) = unat (sc_client_count (sample_request 2))" "2 \<le> length (free_devs sample_sta_mgr)"
      "[0, 1] = take 2 (free_devs sample_sta_mgr)"
    by (simp_all add: sample_works sample_free)
  from add_sta_connects_clients [OF sample_ok sample_works(1,2,4) this]
  show ?thesis by (simp only: sample_works(5,7) sample_free) (force simp: numeral_2_eq_2)
qed

theorem refused_add_sta_loses_devices_witness:
  "\<exists>sc' m'. add_sta sample_sta_env (sample_request 3) sample_sta_mgr = Some (RETURN_ERR, sc', m') \<and> sm_sta_map m' = [] \<and>
     add_sta sample_sta_env (sample_request 1) m' = Some (RETURN_ERR, sample_request 1, m')"
proof -
  have "length (free_devs sample_sta_mgr) < unat (sc_client_count (sample_request 3))"
    by (simp add: sample_works sample_free)
  from refused_add_sta_loses_devices [OF sample_ok sample_works(1,2) this] show ?thesis
    by (fastforce simp: sample_free sample_works)
qed

text \<open>A reachable manager with two stations.\<close>

definition sample_busy_mgr :: sim_sta_mgr where
  "sample_busy_mgr = snd (snd (the (add_sta sample_sta_env (sample_request 2) sample_sta_mgr)))"

lemma sample_busy:
  "sta_reach [sample_interface 1, sample_interface 2] sample_busy_mgr \<and>
   (\<exists>a b. sm_sta_map sample_busy_mgr = [(''7-1'', b), (''7-0'', a)] \<and>
      es_dev (the (sm_heap sample_busy_mgr a)) = 0 \<and> es_dev (the (sm_heap sample_busy_mgr b)) = 1)"
proof -
  have n: "(2 :: nat) = unat (sc_client_count (sample_request 2))" "2 \<le> length (free_devs sample_sta_mgr)"
      "[0, 1] = take 2 (free_devs sample_sta_mgr)"
    by (simp_all add: sample_works sample_free)
  obtain sc' m' a b where a: "add_sta sample_sta_env (sample_request 2) sample_sta_mgr = Some (0, sc', m')"
      "sm_sta_map m' = [(create_key sample_sta_env 1 7, b), (create_key sample_sta_env 0 7, a)]"
      "es_dev (the (sm_heap m' a)) = 0" "es_dev (the (sm_heap m' b)) = 1"
    using add_sta_connects [OF sample_ok sample_works(1,2,4) n] by (auto simp: sample_works sample_free)
  have k: "create_key sample_sta_env 0 7 = ''7-0''" "create_key sample_sta_env 1 7 = ''7-1''"
    by code_simp+
  have m': "sample_busy_mgr = m'" by (simp add: sample_busy_mgr_def a(1))
  show ?thesis using sta_add [OF sample_reach a(1)] a(2-4) by (auto simp: m' k)
qed

theorem stations_hold_their_devices_witness:
  "dev_in_use sample_busy_mgr 1 \<and> dev_in_use sample_busy_mgr 0"
proof -
  obtain a b where "sm_sta_map sample_busy_mgr = [(''7-1'', b), (''7-0'', a)]"
      "es_dev (the (sm_heap sample_busy_mgr a)) = 0" "es_dev (the (sm_heap sample_busy_mgr b)) = 1"
    using sample_busy by blast
  then show ?thesis using stations_hold_their_devices [OF conjunct1 [OF sample_busy]] by auto
qed

theorem remove_sta_frees_device_witness:
  "\<exists>c' m' b. remove_sta sample_sta_env (Some (sample_request 2))
       \<lparr>ci_sta_mac = [], ci_key = ''7-0'', ci_is_station_associated = True, ci_is_disconnection_sent = False, ci_reconnect_timer = 0\<rparr>
       sample_busy_mgr = Some (c', m') \<and> sm_sta_map m' = [(''7-1'', b)]"
proof -
  let ?c = "\<lparr>ci_sta_mac = [], ci_key = ''7-0'', ci_is_station_associated = True, ci_is_disconnection_sent = False, ci_reconnect_timer = 0\<rparr>"
  have ok: "sta_mgr_ok sample_busy_mgr" by (rule reach_sta_mgr_ok [OF conjunct1 [OF sample_busy]]) simp
  obtain a b where m: "sm_sta_map sample_busy_mgr = [(''7-1'', b), (''7-0'', a)]" using sample_busy by blast
  have g: "hash_map_get (sm_sta_map sample_busy_mgr) (ci_key ?c) = Some a"
    using hash_map_get_find [OF stations_queue_ok [OF ok]] by (simp add: m key_match_iff)
  from remove_sta_frees_device [OF ok _ g, of sample_sta_env "sample_request 2"] show ?thesis
    by (auto simp: m key_match_iff)
qed

theorem sta_key_round_trip_witness:
  "get_dev_id_from_key (create_key sample_sta_env 4294967295 7) = Some 4294967295"
  using sta_key_round_trip [OF sample_works(6)] by blast

end
