(* ===== verification/Config_Json.thy ===== *)
theory Config_Json
  imports Ui_Mgr Complex_Main
begin

text \<open>
  What the decoders of a test configuration share: the JSON library as a parameter, the decoding macros of
  \<open>inc/wlan_emu_cjson.h\<close> and the outcome of a decoder. The library is not part of the repository: a node is
  a value of type \<open>'j\<close>, and the fields of the environment are the functions and the members of a node the code
  uses. Everything else the decoders ask of the outside is a field as well.
\<close>

section \<open>The environment of the decoders\<close>

text \<open>
  \<open>cj_item\<close> is \<open>cJSON_GetObjectItem\<close> of a node that is not \<open>NULL\<close>, \<open>cj_elems\<close> the nodes
  \<open>cJSON_ArrayForEach\<close> visits. \<open>cj_valuedouble\<close> is the value of the number; a number beyond
  the range of a \<open>double\<close> may be any value too large for the integers. \<open>je_new\<close> is whether a step can be
  allocated, \<open>je_member\<close> whether what its constructor allocates can be, \<open>je_calloc\<close> whether the elements of a
  list can be. One answer holds for all the allocations of a kind. \<open>je_raw\<close>, \<open>je_raw_sta\<close> and \<open>je_raw_case\<close> are the contents of fresh memory, \<open>je_cm_mac\<close> the address
  of the cable modem, \<open>je_max_radios\<close> and \<open>je_max_vaps\<close> the hardware layer's numbers of radios and of access
  points per radio, \<open>je_atof\<close> the value of \<open>atof\<close>.
\<close>

record 'j json_env =
  cj_parse :: "string \<Rightarrow> 'j option"
  cj_item :: "'j \<Rightarrow> string \<Rightarrow> 'j option"
  cj_is_string :: "'j \<Rightarrow> bool"
  cj_valuestring :: "'j \<Rightarrow> string option"
  cj_is_number :: "'j \<Rightarrow> bool"
  cj_valueint :: "'j \<Rightarrow> int"
  cj_valuedouble :: "'j \<Rightarrow> rat"
  cj_is_bool :: "'j \<Rightarrow> bool"
  cj_is_true :: "'j \<Rightarrow> bool"
  cj_is_array :: "'j \<Rightarrow> bool"
  cj_is_object :: "'j \<Rightarrow> bool"
  cj_elems :: "'j \<Rightarrow> 'j list"
  je_new :: bool
  je_member :: bool
  je_calloc :: bool
  je_raw :: test_step
  je_raw_sta :: sta_test
  je_raw_case :: test_case
  je_cm_mac :: bytes
  je_max_radios :: int
  je_max_vaps :: int
  je_atof :: "string \<Rightarrow> rat"
  je_valid_ip :: "string \<Rightarrow> bool"
  je_resolvable :: "string \<Rightarrow> bool"

section \<open>The outcome of a decoder\<close>

text \<open>
  \<open>Undef\<close> is an access the language gives no meaning to (a null pointer, a number that is converted to a type
  it does not fit), \<open>Reject\<close> is \<open>RETURN_ERR\<close>: what the decoder has built up to there is not used any more.
\<close>

datatype 'a decoded = Undef | Reject | Accept 'a

fun after :: "'a decoded \<Rightarrow> ('a \<Rightarrow> 'b decoded) \<Rightarrow> 'b decoded" where
  "after Undef f = Undef"
| "after Reject f = Reject"
| "after (Accept x) f = f x"

lemma after_Accept: "after m f = Accept y \<longleftrightarrow> (\<exists>x. m = Accept x \<and> f x = Accept y)"
  by (cases m) simp_all

lemma after_assoc: "after (after m f) g = after m (\<lambda>x. after (f x) g)"
  by (cases m) simp_all

text \<open>A loop over nodes that threads a value; the first failure ends it.\<close>

fun decode_each :: "('j \<Rightarrow> 's \<Rightarrow> 's decoded) \<Rightarrow> 'j list \<Rightarrow> 's \<Rightarrow> 's decoded" where
  "decode_each f [] s = Accept s"
| "decode_each f (x # xs) s = after (f x s) (decode_each f xs)"

text \<open>Reading through a pointer that may be \<open>NULL\<close>.\<close>

definition deref :: "'a option \<Rightarrow> 'a decoded" where
  "deref p = (case p of None \<Rightarrow> Undef | Some x \<Rightarrow> Accept x)"

text \<open>An element at the end of a list.\<close>

definition push :: "'j json_env \<Rightarrow> 'a queue \<Rightarrow> 'a \<Rightarrow> 'a queue" where
  "push je q x = snd (queue_push (je_calloc je) q x)"

text \<open>What \<open>printf\<close> prints for a string.\<close>

definition printed :: "string option \<Rightarrow> string" where
  "printed s = (case s of None \<Rightarrow> ''(null)'' | Some t \<Rightarrow> t)"

text \<open>A string up to the last occurrence of a character (\<open>strrchr\<close>), all of it when there is none.\<close>

definition before_last :: "char \<Rightarrow> string \<Rightarrow> string" where
  "before_last c s =
     (case dropWhile (\<lambda>x. x \<noteq> c) (rev s) of [] \<Rightarrow> s | _ # r \<Rightarrow> rev r)"

section \<open>The decoding macros\<close>

definition get_item :: "'j json_env \<Rightarrow> 'j option \<Rightarrow> string \<Rightarrow> 'j option" where
  "get_item je json key = (case json of None \<Rightarrow> None | Some j \<Rightarrow> cj_item je j key)"

definition decode_param_string :: "'j json_env \<Rightarrow> 'j option \<Rightarrow> string \<Rightarrow> string decoded" where
  "decode_param_string je json key =
     (case get_item je json key of
        None \<Rightarrow> Reject
      | Some v \<Rightarrow>
          if \<not> cj_is_string je v then Reject
          else (case cj_valuestring je v of None \<Rightarrow> Reject | Some s \<Rightarrow> if s = [] then Reject else Accept s))"

definition decode_param_integer :: "'j json_env \<Rightarrow> 'j option \<Rightarrow> string \<Rightarrow> 'j decoded" where
  "decode_param_integer je json key =
     (case get_item je json key of
        None \<Rightarrow> Reject | Some v \<Rightarrow> if \<not> cj_is_number je v then Reject else Accept v)"

definition decode_param_bool :: "'j json_env \<Rightarrow> 'j option \<Rightarrow> string \<Rightarrow> bool decoded" where
  "decode_param_bool je json key =
     (case get_item je json key of
        None \<Rightarrow> Reject | Some v \<Rightarrow> if \<not> cj_is_bool je v then Reject else Accept (cj_is_true je v))"

definition decode_param_object :: "'j json_env \<Rightarrow> 'j option \<Rightarrow> string \<Rightarrow> 'j decoded" where
  "decode_param_object je json key =
     (case get_item je json key of
        None \<Rightarrow> Reject | Some v \<Rightarrow> if \<not> cj_is_object je v then Reject else Accept v)"

text \<open>The variants that only say whether the member is there.\<close>

definition update_json_param_string :: "'j json_env \<Rightarrow> 'j option \<Rightarrow> string \<Rightarrow> string option" where
  "update_json_param_string je json key =
     (case decode_param_string je json key of Accept s \<Rightarrow> Some s | _ \<Rightarrow> None)"

definition update_json_param_integer :: "'j json_env \<Rightarrow> 'j option \<Rightarrow> string \<Rightarrow> 'j option" where
  "update_json_param_integer je json key =
     (case decode_param_integer je json key of Accept v \<Rightarrow> Some v | _ \<Rightarrow> None)"

text \<open>A boolean member that keeps its old value when it is missing.\<close>

definition bool_or :: "'j json_env \<Rightarrow> 'j option \<Rightarrow> string \<Rightarrow> bool \<Rightarrow> bool" where
  "bool_or je json key old = (case decode_param_bool je json key of Accept b \<Rightarrow> b | _ \<Rightarrow> old)"

text \<open>A string member whose value may be \<open>NULL\<close>: \<open>None\<close> when there is none.\<close>

definition string_member :: "'j json_env \<Rightarrow> 'j option \<Rightarrow> string \<Rightarrow> string option" where
  "string_member je json key =
     (case get_item je json key of
        None \<Rightarrow> None | Some v \<Rightarrow> if cj_is_string je v then cj_valuestring je v else None)"

section \<open>Numbers\<close>

definition truncate_rat :: "rat \<Rightarrow> int" where
  "truncate_rat x = (if x < 0 then \<lceil>x\<rceil> else \<lfloor>x\<rfloor>)"

text \<open>The conversion of a \<open>double\<close> to an integer drops the fraction; it has no meaning when the result does not fit.\<close>

definition to_uint :: "rat \<Rightarrow> u32 decoded" where
  "to_uint x = (let n = truncate_rat x in if 0 \<le> n \<and> n < 2 ^ 32 then Accept (of_int n) else Undef)"

definition to_int :: "rat \<Rightarrow> int decoded" where
  "to_int x = (let n = truncate_rat x in if - (2 ^ 31) \<le> n \<and> n < 2 ^ 31 then Accept n else Undef)"

definition unsigned_member :: "'j json_env \<Rightarrow> 'j option \<Rightarrow> string \<Rightarrow> u32 decoded" where
  "unsigned_member je json key = after (decode_param_integer je json key) (\<lambda>v. to_uint (cj_valuedouble je v))"

text \<open>\<open>atoi\<close> of a node's string, which is \<open>NULL\<close> when the node is none.\<close>

definition atoi_member :: "'j json_env \<Rightarrow> 'j \<Rightarrow> int decoded" where
  "atoi_member je v = after (deref (cj_valuestring je v)) (\<lambda>s. Accept (atoi s))"

lemma truncate_rat_of_int [simp]: "truncate_rat (of_int n) = n"
  by (simp add: truncate_rat_def)

lemma truncate_rat_of_numeral [simp]: "truncate_rat (numeral k) = numeral k" "truncate_rat 0 = 0" "truncate_rat 1 = 1"
  by (simp_all add: truncate_rat_def)

end
