(* ===== verification/Iperf_Options.thy ===== *)
theory Iperf_Options
  imports Config_Json
begin

text \<open>
  The check of the iperf options of a step (\<open>validate_iperf_options\<close>, \<open>ui/wlan_emu_ui_mgr.cpp\<close>). The option
  string is split at blanks and read with \<open>getopt_long\<close>, whose rules are written out here: arguments that
  are no options are skipped, \<open>--\<close> ends the options, a long name may be abbreviated. An option is then checked
  against its own range and against the role (client or server) the options before it have chosen.
\<close>

section \<open>The tables\<close>

datatype (plugins only: code size) iperf_opt =
    Opt char
  | IPERF_OPT_SCTP | IPERF_OPT_LOGFILE | IPERF_OPT_GET_SERVER_OUTPUT | IPERF_OPT_UDP_COUNTERS_64BIT
  | IPERF_OPT_CLIENT_PORT | IPERF_OPT_NUMSTREAMS | IPERF_OPT_FORCEFLUSH | IPERF_OPT_NO_FQ_SOCKET_PACING
  | IPERF_OPT_FQ_RATE | IPERF_OPT_DSCP | IPERF_OPT_CLIENT_USERNAME | IPERF_OPT_CLIENT_RSA_PUBLIC_KEY
  | IPERF_OPT_SERVER_RSA_PRIVATE_KEY | IPERF_OPT_SERVER_AUTHORIZED_USERS | IPERF_OPT_PACING_TIMER
  | IPERF_OPT_CONNECT_TIMEOUT | IPERF_OPT_REPEATING_PAYLOAD | IPERF_OPT_EXTRA_DATA | IPERF_OPT_BIDIRECTIONAL
  | IPERF_OPT_SERVER_BITRATE_LIMIT | IPERF_OPT_TIMESTAMPS | IPERF_OPT_SERVER_SKEW_THRESHOLD | IPERF_OPT_BIND_DEV
  | IPERF_OPT_IDLE_TIMEOUT | IPERF_OPT_DONT_FRAGMENT | IPERF_OPT_RCV_TIMEOUT | IPERF_OPT_JSON_STREAM
  | IPERF_OPT_SND_TIMEOUT | IPERF_OPT_USE_PKCS1_PADDING | IPERF_OPT_CNTL_KA | IPERF_OPT_SKIP_RX_COPY

datatype (plugins only: code size) has_arg = no_argument | required_argument | optional_argument

definition optstring :: string where
  "optstring = ''p:f:i:D1VJvsc:ub:t:n:k:l:P:Rw:B:M:N46S:L:ZO:F:A:T:C:dI:mhX:''"

definition longopts :: "(string \<times> has_arg \<times> iperf_opt) list" where
  "longopts = [
     (''port'', required_argument, Opt CHR ''p''), (''format'', required_argument, Opt CHR ''f''),
     (''interval'', required_argument, Opt CHR ''i''), (''daemon'', no_argument, Opt CHR ''D''),
     (''one-off'', no_argument, Opt CHR ''1''), (''verbose'', no_argument, Opt CHR ''V''),
     (''json'', no_argument, Opt CHR ''J''), (''json-stream'', no_argument, IPERF_OPT_JSON_STREAM),
     (''version'', no_argument, Opt CHR ''v''), (''server'', no_argument, Opt CHR ''s''),
     (''client'', required_argument, Opt CHR ''c''), (''udp'', no_argument, Opt CHR ''u''),
     (''bitrate'', required_argument, Opt CHR ''b''), (''bandwidth'', required_argument, Opt CHR ''b''),
     (''server-bitrate-limit'', required_argument, IPERF_OPT_SERVER_BITRATE_LIMIT),
     (''time'', required_argument, Opt CHR ''t''), (''bytes'', required_argument, Opt CHR ''n''),
     (''blockcount'', required_argument, Opt CHR ''k''), (''length'', required_argument, Opt CHR ''l''),
     (''parallel'', required_argument, Opt CHR ''P''), (''reverse'', no_argument, Opt CHR ''R''),
     (''bidir'', no_argument, IPERF_OPT_BIDIRECTIONAL), (''window'', required_argument, Opt CHR ''w''),
     (''bind'', required_argument, Opt CHR ''B''), (''bind-dev'', required_argument, IPERF_OPT_BIND_DEV),
     (''cport'', required_argument, IPERF_OPT_CLIENT_PORT), (''set-mss'', required_argument, Opt CHR ''M''),
     (''no-delay'', no_argument, Opt CHR ''N''), (''version4'', no_argument, Opt CHR ''4''),
     (''version6'', no_argument, Opt CHR ''6''), (''tos'', required_argument, Opt CHR ''S''),
     (''dscp'', required_argument, IPERF_OPT_DSCP), (''extra-data'', required_argument, IPERF_OPT_EXTRA_DATA),
     (''flowlabel'', required_argument, Opt CHR ''L''), (''zerocopy'', no_argument, Opt CHR ''Z''),
     (''omit'', required_argument, Opt CHR ''O''), (''file'', required_argument, Opt CHR ''F''),
     (''repeating-payload'', no_argument, IPERF_OPT_REPEATING_PAYLOAD),
     (''timestamps'', optional_argument, IPERF_OPT_TIMESTAMPS), (''affinity'', required_argument, Opt CHR ''A''),
     (''title'', required_argument, Opt CHR ''T''), (''congestion'', required_argument, Opt CHR ''C''),
     (''linux-congestion'', required_argument, Opt CHR ''C''), (''sctp'', no_argument, IPERF_OPT_SCTP),
     (''nstreams'', required_argument, IPERF_OPT_NUMSTREAMS), (''xbind'', required_argument, Opt CHR ''X''),
     (''pidfile'', required_argument, Opt CHR ''I''), (''logfile'', required_argument, IPERF_OPT_LOGFILE),
     (''forceflush'', no_argument, IPERF_OPT_FORCEFLUSH),
     (''get-server-output'', no_argument, IPERF_OPT_GET_SERVER_OUTPUT),
     (''udp-counters-64bit'', no_argument, IPERF_OPT_UDP_COUNTERS_64BIT),
     (''no-fq-socket-pacing'', no_argument, IPERF_OPT_NO_FQ_SOCKET_PACING),
     (''dont-fragment'', no_argument, IPERF_OPT_DONT_FRAGMENT), (''skip-rx-copy'', no_argument, IPERF_OPT_SKIP_RX_COPY),
     (''username'', required_argument, IPERF_OPT_CLIENT_USERNAME),
     (''rsa-public-key-path'', required_argument, IPERF_OPT_CLIENT_RSA_PUBLIC_KEY),
     (''rsa-private-key-path'', required_argument, IPERF_OPT_SERVER_RSA_PRIVATE_KEY),
     (''authorized-users-path'', required_argument, IPERF_OPT_SERVER_AUTHORIZED_USERS),
     (''time-skew-threshold'', required_argument, IPERF_OPT_SERVER_SKEW_THRESHOLD),
     (''use-pkcs1-padding'', no_argument, IPERF_OPT_USE_PKCS1_PADDING),
     (''fq-rate'', required_argument, IPERF_OPT_FQ_RATE), (''pacing-timer'', required_argument, IPERF_OPT_PACING_TIMER),
     (''connect-timeout'', required_argument, IPERF_OPT_CONNECT_TIMEOUT),
     (''idle-timeout'', required_argument, IPERF_OPT_IDLE_TIMEOUT),
     (''rcv-timeout'', required_argument, IPERF_OPT_RCV_TIMEOUT),
     (''snd-timeout'', required_argument, IPERF_OPT_SND_TIMEOUT), (''cntl-ka'', optional_argument, IPERF_OPT_CNTL_KA),
     (''mptcp'', no_argument, Opt CHR ''m''), (''debug'', optional_argument, Opt CHR ''d''),
     (''help'', no_argument, Opt CHR ''h'')]"

section \<open>Splitting and reading the options\<close>

text \<open>The words of a string: \<open>w\<close> is the word that has begun.\<close>

fun tokens_from :: "string \<Rightarrow> string \<Rightarrow> string list" where
  "tokens_from w [] = (if w = [] then [] else [w])"
| "tokens_from w (c # s) =
     (if is_blank c then (if w = [] then tokens_from [] s else w # tokens_from [] s) else tokens_from (w @ [c]) s)"

definition tokens :: "string \<Rightarrow> string list" where
  "tokens s = tokens_from [] s"

datatype opt_event = Opt_found iperf_opt "string option" | Opt_bad

fun short_kind :: "string \<Rightarrow> char \<Rightarrow> has_arg option" where
  "short_kind [] c = None"
| "short_kind (x # xs) c =
     (if c = CHR '':'' then None
      else if x \<noteq> c then short_kind xs c
      else if take 2 xs = ''::'' then Some optional_argument
      else if take 1 xs = '':'' then Some required_argument
      else Some no_argument)"

text \<open>
  A long name: the exact match, or else the options it abbreviates, which must agree; \<open>None\<close> when there is
  none or they do not.
\<close>

definition find_long :: "string \<Rightarrow> (has_arg \<times> iperf_opt) option" where
  "find_long name =
     (case map_of longopts name of
        Some o1 \<Rightarrow> Some o1
      | None \<Rightarrow>
          (case map snd (filter (\<lambda>(n, _). take (length name) n = name) longopts) of
             [] \<Rightarrow> None
           | o1 # os \<Rightarrow> if list_all (\<lambda>o2. o2 = o1) os then Some o1 else None))"

text \<open>A long option: the event and the arguments behind it.\<close>

definition long_option :: "string \<Rightarrow> string list \<Rightarrow> opt_event \<times> string list" where
  "long_option a args =
     (let name = takeWhile (\<lambda>c. c \<noteq> CHR ''='') a; rest = dropWhile (\<lambda>c. c \<noteq> CHR ''='') a
      in case find_long name of
           None \<Rightarrow> (Opt_bad, args)
         | Some (k, opt) \<Rightarrow>
             if rest \<noteq> []
             then (if k = no_argument then Opt_bad else Opt_found opt (Some (tl rest)), args)
             else if k = required_argument
             then (case args of [] \<Rightarrow> (Opt_bad, []) | x # xs \<Rightarrow> (Opt_found opt (Some x), xs))
             else (Opt_found opt None, args))"

lemma length_long_option: "length (snd (long_option a args)) \<le> length args"
  by (simp add: long_option_def Let_def split: option.splits prod.splits list.splits)

text \<open>The options of the arguments; the first string is what is left of a group of short options.\<close>

function getopt_events :: "string \<Rightarrow> string list \<Rightarrow> opt_event list" where
  "getopt_events [] [] = []"
| "getopt_events [] (a # args) =
     (if a = ''--'' then []
      else if take 1 a \<noteq> ''-'' \<or> a = ''-'' then getopt_events [] args
      else if take 2 a = ''--''
      then fst (long_option (drop 2 a) args) # getopt_events [] (snd (long_option (drop 2 a) args))
      else getopt_events (tl a) args)"
| "getopt_events (c # cs) args =
     (case short_kind optstring c of
        None \<Rightarrow> Opt_bad # getopt_events cs args
      | Some required_argument \<Rightarrow>
          if cs \<noteq> [] then Opt_found (Opt c) (Some cs) # getopt_events [] args
          else (case args of
                  [] \<Rightarrow> [Opt_bad]
                | x # xs \<Rightarrow> Opt_found (Opt c) (Some x) # getopt_events [] xs)
      | Some k \<Rightarrow> Opt_found (Opt c) None # getopt_events cs args)"
  by pat_completeness auto

termination
  by (relation "measures [\<lambda>(cs, args). length args, \<lambda>(cs, args). length cs]")
    (auto simp: length_long_option le_imp_less_Suc)

section \<open>The check\<close>

text \<open>The interval bound is the \<open>double\<close> next to 0.1.\<close>

abbreviation IPERF_MIN_INTERVAL :: rat where "IPERF_MIN_INTERVAL \<equiv> 3602879701896397 / 36028797018963968"
abbreviation IPERF_MAX_INTERVAL :: rat where "IPERF_MAX_INTERVAL \<equiv> 60"
abbreviation IPERF_MAX_TIME :: int where "IPERF_MAX_TIME \<equiv> 86400"
abbreviation IPERF_MAX_STREAMS :: int where "IPERF_MAX_STREAMS \<equiv> 128"
abbreviation IPERF_MAX_BURST :: int where "IPERF_MAX_BURST \<equiv> 1000"
abbreviation IPERF_MAX_MSS :: int where "IPERF_MAX_MSS \<equiv> 9216"

definition interval_ok :: "rat \<Rightarrow> bool" where
  "interval_ok x \<longleftrightarrow> \<not> ((x < IPERF_MIN_INTERVAL \<or> x > IPERF_MAX_INTERVAL) \<and> x \<noteq> 0)"

definition port_ok :: "string \<Rightarrow> bool" where
  "port_ok a \<longleftrightarrow> \<not> (atoi a < 1 \<or> atoi a > 65535)"

definition after_first :: "char \<Rightarrow> string \<Rightarrow> string option" where
  "after_first c s = (case dropWhile (\<lambda>x. x \<noteq> c) s of [] \<Rightarrow> None | _ # r \<Rightarrow> Some r)"

text \<open>The argument of an option; the options that read it require one, so it is there.\<close>

definition option_arg_ok :: "'j json_env \<Rightarrow> iperf_opt \<Rightarrow> string \<Rightarrow> bool" where
  "option_arg_ok je opt a =
     (if opt = Opt CHR ''p'' then port_ok a
      else if opt = Opt CHR ''f'' then take 1 a \<in> set (map (\<lambda>c. [c]) ''kKmMgGtT'')
      else if opt = Opt CHR ''i'' then interval_ok (je_atof je a)
      else if opt = Opt CHR ''c'' then a \<noteq> [] \<and> (je_valid_ip je a \<or> je_resolvable je a)
      else if opt = Opt CHR ''b'' then
        (case after_first CHR ''/'' a of None \<Rightarrow> True | Some s \<Rightarrow> \<not> (atoi s \<le> 0 \<or> atoi s > IPERF_MAX_BURST))
      else if opt = IPERF_OPT_SERVER_BITRATE_LIMIT then
        (case after_first CHR ''/'' a of None \<Rightarrow> True | Some s \<Rightarrow> interval_ok (je_atof je s))
      else if opt = Opt CHR ''t'' then \<not> (atoi a > IPERF_MAX_TIME \<or> atoi a < 0)
      else if opt = Opt CHR ''P'' then \<not> atoi a > IPERF_MAX_STREAMS
      else if opt = IPERF_OPT_CLIENT_PORT then port_ok a
      else if opt = Opt CHR ''M'' then \<not> atoi a > IPERF_MAX_MSS
      else True)"

text \<open>The options that set \<open>client_flag\<close>, those that set \<open>server_flag\<close> and the other labels of the \<open>switch\<close>.\<close>

definition client_options :: "iperf_opt list" where
  "client_options = map Opt ''ubtnklPRwMNSLZOTC'' @
     [IPERF_OPT_SCTP, IPERF_OPT_NUMSTREAMS, IPERF_OPT_BIDIRECTIONAL, IPERF_OPT_DSCP, IPERF_OPT_EXTRA_DATA,
      IPERF_OPT_REPEATING_PAYLOAD, IPERF_OPT_GET_SERVER_OUTPUT, IPERF_OPT_NO_FQ_SOCKET_PACING, IPERF_OPT_FQ_RATE,
      IPERF_OPT_DONT_FRAGMENT, IPERF_OPT_SKIP_RX_COPY, IPERF_OPT_PACING_TIMER, IPERF_OPT_CONNECT_TIMEOUT]"

definition server_options :: "iperf_opt list" where
  "server_options = map Opt ''D1'' @ [IPERF_OPT_SERVER_BITRATE_LIMIT, IPERF_OPT_IDLE_TIMEOUT]"

definition common_options :: "iperf_opt list" where
  "common_options = map Opt ''pfiVJscB46XFIm'' @
     [IPERF_OPT_JSON_STREAM, IPERF_OPT_CLIENT_PORT, IPERF_OPT_TIMESTAMPS, IPERF_OPT_RCV_TIMEOUT,
      IPERF_OPT_SND_TIMEOUT, IPERF_OPT_CNTL_KA, IPERF_OPT_LOGFILE, IPERF_OPT_FORCEFLUSH,
      IPERF_OPT_UDP_COUNTERS_64BIT, IPERF_OPT_CLIENT_USERNAME, IPERF_OPT_CLIENT_RSA_PUBLIC_KEY,
      IPERF_OPT_SERVER_RSA_PRIVATE_KEY, IPERF_OPT_SERVER_AUTHORIZED_USERS, IPERF_OPT_SERVER_SKEW_THRESHOLD,
      IPERF_OPT_USE_PKCS1_PADDING]"

record iperf_flags =
  if_client_flag :: bool
  if_server_flag :: bool
  if_role :: "char option"

text \<open>One option: \<open>None\<close> is the return with \<open>RETURN_ERR\<close>.\<close>

definition iperf_option :: "'j json_env \<Rightarrow> iperf_opt \<Rightarrow> string option \<Rightarrow> iperf_flags \<Rightarrow> iperf_flags option" where
  "iperf_option je opt optarg st =
     (let a = (case optarg of None \<Rightarrow> [] | Some a \<Rightarrow> a)
      in if opt \<notin> set client_options \<union> set server_options \<union> set common_options then None
         else if opt = Opt CHR ''s'' then
           (if if_role st = Some CHR ''c'' then None else Some (st\<lparr>if_role := Some CHR ''s''\<rparr>))
         else if opt = Opt CHR ''c'' \<and> if_role st = Some CHR ''s'' then None
         else if \<not> option_arg_ok je opt a then None
         else if opt = Opt CHR ''c'' then Some (st\<lparr>if_role := Some CHR ''c''\<rparr>)
         else Some (st\<lparr>if_client_flag := if_client_flag st \<or> opt \<in> set client_options,
                       if_server_flag := if_server_flag st \<or> opt \<in> set server_options\<rparr>))"

fun check_options :: "'j json_env \<Rightarrow> opt_event list \<Rightarrow> iperf_flags \<Rightarrow> bool" where
  "check_options je [] st = True"
| "check_options je (Opt_bad # es) st = False"
| "check_options je (Opt_found opt optarg # es) st =
     (case iperf_option je opt optarg st of
        None \<Rightarrow> False
      | Some st \<Rightarrow>
          if if_role st = Some CHR ''c'' \<and> if_server_flag st then False
          else if if_role st = Some CHR ''s'' \<and> if_client_flag st then False
          else check_options je es st)"

definition validate_iperf_options :: "'j json_env \<Rightarrow> string \<Rightarrow> int" where
  "validate_iperf_options je args =
     (if check_options je (getopt_events [] (tokens args))
           \<lparr>if_client_flag = False, if_server_flag = False, if_role = None\<rparr>
      then RETURN_OK else RETURN_ERR)"

section \<open>What is accepted\<close>

text \<open>An option that is known and whose argument is in range.\<close>

definition option_valid :: "'j json_env \<Rightarrow> opt_event \<Rightarrow> bool" where
  "option_valid je e =
     (case e of
        Opt_bad \<Rightarrow> False
      | Opt_found opt optarg \<Rightarrow>
          opt \<in> set client_options \<union> set server_options \<union> set common_options
          \<and> option_arg_ok je opt (case optarg of None \<Rightarrow> [] | Some a \<Rightarrow> a))"

definition opts_of :: "opt_event list \<Rightarrow> iperf_opt set" where
  "opts_of es = {opt. \<exists>a. Opt_found opt a \<in> set es}"

definition roles_apart :: "iperf_opt set \<Rightarrow> bool" where
  "roles_apart os \<longleftrightarrow>
     \<not> (Opt CHR ''c'' \<in> os \<and> Opt CHR ''s'' \<in> os)
     \<and> (Opt CHR ''c'' \<in> os \<longrightarrow> os \<inter> set server_options = {})
     \<and> (Opt CHR ''s'' \<in> os \<longrightarrow> os \<inter> set client_options = {})"

text \<open>The options a state stands for, as far as the roles go.\<close>

definition flags_of :: "iperf_opt set \<Rightarrow> iperf_flags \<Rightarrow> bool" where
  "flags_of os st \<longleftrightarrow>
     (if_role st = Some CHR ''c'' \<longleftrightarrow> Opt CHR ''c'' \<in> os) \<and> (if_role st = Some CHR ''s'' \<longleftrightarrow> Opt CHR ''s'' \<in> os)
     \<and> (if_client_flag st \<longleftrightarrow> os \<inter> set client_options \<noteq> {}) \<and> (if_server_flag st \<longleftrightarrow> os \<inter> set server_options \<noteq> {})"

lemma opts_of_simps [simp]:
  "opts_of [] = {}" "opts_of (Opt_found opt a # es) = insert opt (opts_of es)" "opts_of (Opt_bad # es) = opts_of es"
  by (auto simp: opts_of_def)

lemma role_options:
  "Opt CHR ''c'' \<notin> set client_options" "Opt CHR ''c'' \<notin> set server_options"
  "Opt CHR ''s'' \<notin> set client_options" "Opt CHR ''s'' \<notin> set server_options"
  "Opt CHR ''c'' \<in> set common_options" "Opt CHR ''s'' \<in> set common_options"
  by (simp_all add: client_options_def server_options_def common_options_def)

lemma option_arg_s [simp]: "option_arg_ok je (Opt CHR ''s'') a"
  by (simp add: option_arg_ok_def)

lemma iperf_option_flags:
  assumes "flags_of os st" "roles_apart os"
  shows "case iperf_option je opt a st of
           None \<Rightarrow> \<not> option_valid je (Opt_found opt a) \<or> \<not> roles_apart (insert opt os)
         | Some st' \<Rightarrow> option_valid je (Opt_found opt a) \<and> flags_of (insert opt os) st'"
proof (cases "opt = Opt CHR ''s''")
  case True
  show ?thesis
    using assms unfolding True
    by (auto simp: iperf_option_def option_valid_def flags_of_def roles_apart_def role_options Let_def)
next
  case s: False
  show ?thesis
  proof (cases "opt = Opt CHR ''c''")
    case True
    show ?thesis
      using assms unfolding True
      by (auto simp: iperf_option_def option_valid_def flags_of_def roles_apart_def role_options Let_def)
  next
    case False
    then show ?thesis
      using s assms
      by (auto simp: iperf_option_def option_valid_def flags_of_def role_options Let_def split: option.split)
  qed
qed

lemma flags_conflict:
  "flags_of os st \<Longrightarrow> (Opt CHR ''c'' \<notin> os \<or> Opt CHR ''s'' \<notin> os) \<Longrightarrow>
     (if_role st = Some CHR ''c'' \<and> if_server_flag st \<or> if_role st = Some CHR ''s'' \<and> if_client_flag st) = (\<not> roles_apart os)"
  by (auto simp: flags_of_def roles_apart_def)

lemma roles_apart_mono: "roles_apart (os \<union> ps) \<Longrightarrow> roles_apart os"
  by (auto simp: roles_apart_def)

lemma check_options_valid:
  "flags_of os st \<Longrightarrow> roles_apart os \<Longrightarrow>
     check_options je es st = ((\<forall>e \<in> set es. option_valid je e) \<and> roles_apart (os \<union> opts_of es))"
proof (induction je es st arbitrary: os rule: check_options.induct)
  case (3 je opt a es st)
  show ?case
  proof (cases "iperf_option je opt a st")
    case None
    then show ?thesis
      using iperf_option_flags [OF 3(2,3), of je opt a] roles_apart_mono [of "insert opt os" "opts_of es"] by auto
  next
    case (Some st')
    then have v: "option_valid je (Opt_found opt a)" "flags_of (insert opt os) st'"
      using iperf_option_flags [OF 3(2,3), of je opt a] by auto
    have cs: "Opt CHR ''c'' \<notin> insert opt os \<or> Opt CHR ''s'' \<notin> insert opt os"
      using v(2) by (auto simp: flags_of_def)
    show ?thesis
    proof (cases "roles_apart (insert opt os)")
      case True
      then show ?thesis
        using flags_conflict [OF v(2) cs] Some v(1) 3(1) [OF Some _ _ v(2) True] by (auto simp: Un_insert_left)
    next
      case False
      then show ?thesis
        using flags_conflict [OF v(2) cs] Some roles_apart_mono [of "insert opt os" "opts_of es"] by auto
    qed
  qed
qed (auto simp: option_valid_def)

text \<open>
  C14. The check of the iperf options accepts an option string exactly when every option in it is known and has
  an argument in its range, and the roles are not mixed: not both \<open>-c\<close> and \<open>-s\<close>, no server option with
  \<open>-c\<close>, no client option with \<open>-s\<close>. The flags the loop carries from option to option make no difference to
  the order in which the options are given.
\<close>

theorem iperf_options_accepted:
  "validate_iperf_options je args = RETURN_OK \<longleftrightarrow>
     list_all (option_valid je) (getopt_events [] (tokens args)) \<and> roles_apart (opts_of (getopt_events [] (tokens args)))"
proof -
  have "flags_of {} \<lparr>if_client_flag = False, if_server_flag = False, if_role = None\<rparr>" "roles_apart {}"
    by (simp_all add: flags_of_def roles_apart_def)
  from check_options_valid [OF this, of je "getopt_events [] (tokens args)"] show ?thesis
    by (simp add: validate_iperf_options_def list_all_iff)
qed

end
