(* ===== verification/Step_Decode.thy ===== *)
theory Step_Decode
  imports Iperf_Options Step_Classes
begin

text \<open>
  The decoders of the steps of a test case (\<open>decode_step_*\<close>, \<open>ui/wlan_emu_ui_mgr.cpp\<close>) and the constructors of
  the classes that only the decoders create. A decoder gets the node of the step; its value is what it
  stores for the class of the step.
\<close>

section \<open>Constructors\<close>

definition sta_management_new :: "'j json_env \<Rightarrow> test_step \<Rightarrow> test_step" where
  "sta_management_new je s =
     (if \<not> je_member je then s\<lparr>ts_is_step_initialized := False\<rparr>
      else new_step 3 (s\<lparr>ts_param := P_sta_management ((je_raw_sta je)\<lparr>st_capture_sta_requests := False,
             st_wait_connection := False, st_is_station_prototype_enabled := False,
             st_station_prototype := \<lparr>sp_fc_request_summary = empty_request, sp_fc_prototype_q = Some queue_create\<rparr>\<rparr>)\<rparr>))"

definition stats_get_new :: "bool \<Rightarrow> test_step \<Rightarrow> test_step" where
  "stats_get_new mem s =
     (if \<not> mem then s\<lparr>ts_is_step_initialized := False\<rparr>
      else new_step 15 (s\<lparr>ts_param := P_stats_get \<lparr>sg_data_type = None, sg_scan_mode = None,
             sg_log_operation = log_operation_type_start, sg_timeout = 0, sg_radio_index = 0, sg_vap_index = 0,
             sg_stop_log_step_number = 0, sg_is_stat_response_type_set = False\<rparr>\<rparr>))"

definition stats_set_new :: "bool \<Rightarrow> test_step \<Rightarrow> test_step" where
  "stats_set_new mem s =
     (if \<not> mem then s\<lparr>ts_is_step_initialized := False\<rparr>
      else new_step 0 (s\<lparr>ts_param := P_stats_set \<lparr>sw_data_type = None, sw_stats_set_q = queue_create,
             sw_total_duration = 0, sw_radio_index = 0, sw_vap_index = 0\<rparr>\<rparr>))"

text \<open>The execution time is not set.\<close>

definition gateway_performance_new :: "bool \<Rightarrow> test_step \<Rightarrow> test_step" where
  "gateway_performance_new mem s =
     (if \<not> mem then s\<lparr>ts_is_step_initialized := False\<rparr>
      else s\<lparr>ts_param := P_gateway_performance \<lparr>gp_result_file_name = [], gp_interval = 1, gp_iteration = 1,
               gp_cmd_option = cmd_option_mem, gp_process_status = queue_create\<rparr>,
             ts_is_step_initialized := True, ts_timeout_count := 0, ts_capture_frames := False\<rparr>)"

text \<open>Without memory this constructor leaves a dangling pointer, and the flag that would show it is not set.\<close>

definition packet_generator_new :: "test_step \<Rightarrow> test_step" where
  "packet_generator_new s =
     new_step 15 (s\<lparr>ts_param := P_packet_generator \<lparr>pg_vapname = [], pg_interval = 0, pg_iteration = 0,
       pg_pcap_queue = queue_create\<rparr>\<rparr>)"

definition iperf_server_new :: "bool \<Rightarrow> test_step \<Rightarrow> test_step" where
  "iperf_server_new mem s = new_step_with mem (P_iperf_server Iperf_server_invalid) s"

definition iperf_client_new :: "bool \<Rightarrow> test_step \<Rightarrow> test_step" where
  "iperf_client_new mem s = new_step_with mem (P_iperf_client Iperf_client_invalid) s"

definition eth_lan_client_new :: "bool \<Rightarrow> test_step \<Rightarrow> test_step" where
  "eth_lan_client_new mem s = new_step_with mem (P_eth_lan_client 0) s"

text \<open>Neither the execution time nor the counter nor the capture flag are set.\<close>

definition upgrade_or_reboot_new :: "test_step \<Rightarrow> test_step" where
  "upgrade_or_reboot_new s =
     s\<lparr>ts_param := P_upgrade_or_reboot \<lparr>du_build_name = [], du_is_logging_enabled = False,
         du_logging_step_numbers = None, du_is_fr_enabled = False\<rparr>,
       ts_is_step_initialized := True\<rparr>"

section \<open>What all steps have\<close>

text \<open>A frame type; a node without a string for it is read through a null pointer.\<close>

definition decode_frame_type :: "'j json_env \<Rightarrow> 'j \<Rightarrow> frame_capture_request \<Rightarrow> frame_capture_request decoded" where
  "decode_frame_type je node req =
     after (deref (cj_item je node ''FrameType'')) (\<lambda>frame.
     after (deref (cj_valuestring je frame)) (\<lambda>name.
     case decode_pcap_frame_type name req of (rc, req) \<Rightarrow> if rc \<noteq> RETURN_OK then Reject else Accept req))"

definition decode_step_common_config :: "'j json_env \<Rightarrow> 'j \<Rightarrow> test_step \<Rightarrow> test_step decoded" where
  "decode_step_common_config je step s =
     after (decode_param_string je (Some step) ''StepNumber'') (\<lambda>number.
     let s = s\<lparr>ts_step_number := atoi number, ts_test_state := wlan_emu_tests_state_cmd_request,
               ts_fork := bool_or je (Some step) ''Fork'' False, ts_frame_request := empty_request,
               ts_subdoc_type := webconfig_subdoc_type_unknown\<rparr>
     in case decode_param_bool je (Some step) ''TestCapture'' of
          Accept capture \<Rightarrow>
            let s = s\<lparr>ts_capture_frames := capture\<rparr>
            in (case cj_item je step ''TestCaptureFrame'' of
                  None \<Rightarrow> Accept s
                | Some frame_type_list \<Rightarrow>
                    if capture
                    then after (decode_each (decode_frame_type je) (cj_elems je frame_type_list) empty_request)
                           (\<lambda>req. Accept (s\<lparr>ts_frame_request := req\<rparr>))
                    else Accept s)
        | _ \<Rightarrow> Accept s)"

section \<open>Configurations and commands\<close>

definition decode_step_radio_config :: "'j json_env \<Rightarrow> 'j \<Rightarrow> step_param decoded" where
  "decode_step_radio_config je step =
     after (decode_param_string je (Some step) ''RadioConfiguration'') (\<lambda>v. Accept (P_radio (snprintf_store 128 v)))"

definition decode_step_vap_config :: "'j json_env \<Rightarrow> 'j \<Rightarrow> step_param decoded" where
  "decode_step_vap_config je step =
     after (decode_param_string je (Some step) ''VapConfiguration'') (\<lambda>v. Accept (P_vap (snprintf_store 128 v)))"

definition decode_step_dml_reset_config :: "'j json_env \<Rightarrow> 'j \<Rightarrow> step_param decoded" where
  "decode_step_dml_reset_config je step =
     after (decode_param_string je (Some step) ''DmlResetConfiguration'') (\<lambda>v. Accept (P_dml_reset (snprintf_store 128 v)))"

definition decode_step_config_onewifi :: "'j json_env \<Rightarrow> 'j \<Rightarrow> step_param decoded" where
  "decode_step_config_onewifi je step =
     after (decode_param_string je (Some step) ''OneWiFiSubdoc'') (\<lambda>v. Accept (P_config_onewifi (snprintf_store 128 v)))"

definition decode_step_command_config :: "'j json_env \<Rightarrow> 'j \<Rightarrow> step_param decoded" where
  "decode_step_command_config je step =
     after (decode_param_string je (Some step) ''Command'') (\<lambda>v.
     Accept (P_command (snprintf_store 1024 v)
       (case cj_item je step ''CmdResultFileName'' of
          None \<Rightarrow> []
        | Some p \<Rightarrow> snprintf_store 128 (printed (cj_valuestring je p)))))"

text \<open>The command of this class is fixed; the step keeps the name of the file for its output.\<close>

definition decode_step_dmlsubdoc_config :: "'j json_env \<Rightarrow> string \<Rightarrow> step_param decoded" where
  "decode_step_dmlsubdoc_config je results_dir =
     Accept (P_dml_subdoc (snprintf_store 128 (results_dir @ ''/'' @ mac_str_without_colon (je_cm_mac je) @ ''_dml.json'')))"

definition decode_step_timed_wait :: "'j json_env \<Rightarrow> 'j \<Rightarrow> step_param decoded" where
  "decode_step_timed_wait je step =
     after (unsigned_member je (Some step) ''WaitTimeInSeconds'') (\<lambda>n. Accept (P_timed_wait n))"

section \<open>Files and captures\<close>

definition text_file_name :: "string \<Rightarrow> string" where
  "text_file_name f = snprintf_store 128 (before_last CHR ''.'' f @ ''.txt'')"

text \<open>
  The start of a log redirection: the name of the result is the last part of the file name with
  the extension \<open>.txt\<close>.
\<close>

definition start_log_redirect :: "string \<Rightarrow> log_redirect \<Rightarrow> log_redirect decoded" where
  "start_log_redirect v l =
     (let f = snprintf_store 128 v
      in case get_last_substring_after_slash (Some f) 128 0 of
           (rc, name, err) \<Rightarrow>
             if rc \<noteq> RETURN_OK then Reject
             else Accept (l\<lparr>lr_operation := log_operation_type_start, lr_redirect_filename := f, lr_redirect_fd := - 1,
                           lr_result_file := text_file_name (case name of None \<Rightarrow> [] | Some t \<Rightarrow> t)\<rparr>))"

definition decode_step_log_redirect :: "'j json_env \<Rightarrow> 'j \<Rightarrow> log_redirect \<Rightarrow> step_param decoded" where
  "decode_step_log_redirect je step l =
     (let config = cj_item je step ''LogOperation''; l = l\<lparr>lr_operation := log_operation_type_invalid\<rparr>
      in after (case update_json_param_string je config ''RedirectLogs'' of
                  None \<Rightarrow> Accept l | Some v \<Rightarrow> start_log_redirect v l) (\<lambda>l.
         let l = (case update_json_param_string je config ''StopLogStepNumber'' of
                    None \<Rightarrow> l
                  | Some v \<Rightarrow> l\<lparr>lr_operation := log_operation_type_stop, lr_stop_step_number := atoi v\<rparr>)
         in if lr_operation l = log_operation_type_invalid then Reject else Accept (P_log_redirect l)))"

definition decode_step_get_pattern_files :: "'j json_env \<Rightarrow> 'j \<Rightarrow> step_param decoded" where
  "decode_step_get_pattern_files je step =
     (let config = cj_item je step ''GetPatternFiles''
      in after (decode_param_string je config ''Location'') (\<lambda>location.
         after (decode_param_string je config ''FilePattern'') (\<lambda>pattern.
         after (decode_param_bool je config ''DeleteFiles'') (\<lambda>del.
         Accept (P_get_pattern_files (snprintf_store 128 location) (snprintf_store 128 pattern) del)))))"

definition decode_step_get_file :: "'j json_env \<Rightarrow> 'j \<Rightarrow> step_param decoded" where
  "decode_step_get_file je step =
     (let config = cj_item je step ''GetFile''
      in after (decode_param_string je config ''SourceFilename'') (\<lambda>source.
         after (decode_param_string je config ''ToDestinationFilename'') (\<lambda>dest.
         after (decode_param_bool je config ''DeleteSourceFile'') (\<lambda>del.
         Accept (P_get_file (snprintf_store 256 source) (snprintf_store 256 (''/tmp/cci_res/'' @ dest)) del)))))"

text \<open>The check of the radio index asks for a number that is negative and too large.\<close>

definition decode_step_mgmt_frame_capture :: "'j json_env \<Rightarrow> 'j \<Rightarrow> step_param decoded" where
  "decode_step_mgmt_frame_capture je step =
     after (decode_param_integer je (Some step) ''MgmtFrameCaptureRadioIndex'') (\<lambda>v.
     if cj_valuedouble je v < 0 \<and> cj_valuedouble je v \<ge> of_int (je_max_radios je) then Reject
     else after (to_uint (cj_valuedouble je v)) (\<lambda>radio_index.
          after (unsigned_member je (Some step) ''Duration'') (\<lambda>duration.
          Accept (P_mgmt_frame_capture \<lparr>mf_radio_index = radio_index, mf_duration = duration\<rparr>))))"

section \<open>Packet generator\<close>

definition decode_packet :: "'j json_env \<Rightarrow> 'j \<Rightarrow> string queue \<Rightarrow> string queue decoded" where
  "decode_packet je pcap_loc q =
     after (decode_param_string je (Some pcap_loc) ''PcapLocation'') (\<lambda>v.
     if \<not> je_calloc je then Reject else Accept (push je q (take 127 v)))"

text \<open>The name of the access point is copied without a look at the pointer.\<close>

definition decode_step_packet_generator_config :: "'j json_env \<Rightarrow> 'j \<Rightarrow> packet_generator \<Rightarrow> step_param decoded" where
  "decode_step_packet_generator_config je step pg =
     (case cj_item je step ''PacketGenerator'' of
        None \<Rightarrow> Reject
      | Some config \<Rightarrow>
          (case cj_item je config ''VapName'' of
             None \<Rightarrow> Reject
           | Some p \<Rightarrow>
               if \<not> cj_is_string je p then Reject
               else after (deref (cj_valuestring je p)) (\<lambda>vap_name.
                    after (decode_param_integer je (Some config) ''Interval'') (\<lambda>interval.
                    after (decode_param_integer je (Some config) ''Iteration'') (\<lambda>iteration.
                    case cj_item je config ''ManagementFrameList'' of
                      None \<Rightarrow> Reject
                    | Some l \<Rightarrow>
                        if \<not> cj_is_array je l then Reject
                        else after (decode_each (decode_packet je) (cj_elems je l) (pg_pcap_queue pg)) (\<lambda>q.
                          Accept (P_packet_generator (pg\<lparr>pg_vapname := vap_name, pg_interval := cj_valueint je interval,
                            pg_iteration := cj_valueint je iteration, pg_pcap_queue := q\<rparr>))))))))"

section \<open>Station management\<close>

text \<open>A prototype frame is kept when it is an association request or an authentication.\<close>

definition decode_station_prototype :: "'j json_env \<Rightarrow> 'j \<Rightarrow> station_prototype \<Rightarrow> station_prototype decoded" where
  "decode_station_prototype je node sp =
     after (decode_frame_type je node empty_request) (\<lambda>req.
     if has_flag (fc_msg_type req) (msg_no wlan_emu_msg_type_frm80211)
        \<and> (has_flag (fc_frm80211_ops req) (frm_no wlan_emu_frm80211_ops_type_assoc_req)
           \<or> has_flag (fc_frm80211_ops req) (frm_no wlan_emu_frm80211_ops_type_auth))
     then (let sm = sp_fc_request_summary sp;
               sp = sp\<lparr>sp_fc_request_summary := sm\<lparr>
                 fc_msg_type := fc_msg_type sm OR flag (msg_no wlan_emu_msg_type_frm80211),
                 fc_frm80211_ops := fc_frm80211_ops sm OR fc_frm80211_ops req\<rparr>\<rparr>
           in if \<not> je_calloc je then Reject
              else after (decode_param_string je (Some node) ''PcapLocation'') (\<lambda>loc.
                Accept (sp\<lparr>sp_fc_prototype_q := map_option (\<lambda>q. push je q
                  (Some \<lparr>pp_fc_request = req, pp_file_location = snprintf_store 256 loc\<rparr>)) (sp_fc_prototype_q sp)\<rparr>)))
     else Accept sp)"

definition decode_station_prototypes :: "'j json_env \<Rightarrow> 'j \<Rightarrow> sta_test \<Rightarrow> step_param decoded" where
  "decode_station_prototypes je step t =
     (case decode_param_bool je (Some step) ''StationPrototypes'' of
        Accept enabled \<Rightarrow>
          let t = t\<lparr>st_is_station_prototype_enabled := enabled\<rparr>
          in (case cj_item je step ''StationPrototypeFrames'' of
                None \<Rightarrow> Accept (P_sta_management t)
              | Some l \<Rightarrow>
                  if enabled
                  then after (decode_each (decode_station_prototype je) (cj_elems je l) (st_station_prototype t))
                         (\<lambda>sp. Accept (P_sta_management (t\<lparr>st_station_prototype := sp\<rparr>)))
                  else Accept (P_sta_management t))
      | _ \<Rightarrow> Accept (P_sta_management t))"

definition decode_step_station_management_config :: "'j json_env \<Rightarrow> 'j \<Rightarrow> sta_test \<Rightarrow> step_param decoded" where
  "decode_step_station_management_config je step t =
     after (decode_param_string je (Some step) ''StationManagement'') (\<lambda>v.
     decode_station_prototypes je step (t\<lparr>st_test_station_config := snprintf_store 128 v,
       st_capture_sta_requests := bool_or je (Some step) ''CaptureStationRequests'' (st_capture_sta_requests t),
       st_wait_connection := bool_or je (Some step) ''WaitConnection'' (st_wait_connection t)\<rparr>))"

end
