(* ===== verification/Stats_Decode.thy ===== *)
theory Stats_Decode
  imports Step_Decode
begin

text \<open>
  The decoders of the statistics steps, of the iperf and ethernet clients, of the performance step and of the
  upgrade step (\<open>ui/wlan_emu_ui_mgr.cpp\<close>).
\<close>

section \<open>Statistics\<close>

text \<open>A radio or access point index: a string with a number below the bound.\<close>

definition index_member :: "'j json_env \<Rightarrow> 'j \<Rightarrow> string \<Rightarrow> int \<Rightarrow> int decoded" where
  "index_member je step key bound =
     (case cj_item je step key of
        None \<Rightarrow> Reject
      | Some config \<Rightarrow>
          after (atoi_member je config) (\<lambda>i. if 0 \<le> i \<and> i < bound then Accept i else Reject))"

definition decode_operation :: "'j json_env \<Rightarrow> 'j \<Rightarrow> wifi_stats_get \<Rightarrow> wifi_stats_get decoded" where
  "decode_operation je step g =
     (case cj_item je step ''Operation'' of
        Some config \<Rightarrow>
          let operation = snprintf_store 32 (printed (cj_valuestring je config))
          in if operation = ''Start'' then Accept (g\<lparr>sg_log_operation := log_operation_type_start\<rparr>)
             else if operation = ''Stop''
             then Accept (g\<lparr>sg_log_operation := log_operation_type_stop, sg_timeout := - 1\<rparr>)
             else Reject
      | None \<Rightarrow>
          (case cj_item je step ''Duration'' of
             None \<Rightarrow> Reject
           | Some config \<Rightarrow>
               after (atoi_member je config) (\<lambda>n.
               Accept (g\<lparr>sg_timeout := n, sg_log_operation := log_operation_type_timer\<rparr>))))"

definition decode_stats_get_common_params :: "'j json_env \<Rightarrow> 'j \<Rightarrow> wifi_stats_get \<Rightarrow> wifi_stats_get decoded" where
  "decode_stats_get_common_params je step g =
     after (decode_operation je step g) (\<lambda>g.
     if sg_log_operation g = log_operation_type_stop
     then (case cj_item je step ''StopLogStepNumber'' of
             None \<Rightarrow> Reject
           | Some config \<Rightarrow> after (atoi_member je config) (\<lambda>n. Accept (g\<lparr>sg_stop_log_step_number := n\<rparr>)))
     else after (decode_param_bool je (Some step) ''StatResponseType'') (\<lambda>b.
       Accept (g\<lparr>sg_is_stat_response_type_set := b\<rparr>)))"

definition decode_scan_mode :: "'j json_env \<Rightarrow> 'j \<Rightarrow> wifi_scan_mode decoded" where
  "decode_scan_mode je step =
     (case cj_item je step ''ScanMode'' of
        None \<Rightarrow> Reject
      | Some config \<Rightarrow>
          after (deref (cj_valuestring je config)) (\<lambda>v.
          if v = ''OnChannel'' then Accept WIFI_RADIO_SCAN_MODE_ONCHAN
          else if v = ''OffChannel'' then Accept WIFI_RADIO_SCAN_MODE_OFFCHAN
          else if v = ''Full'' then Accept WIFI_RADIO_SCAN_MODE_FULL
          else if v = ''Survey'' then Accept WIFI_RADIO_SCAN_MODE_SURVEY
          else Reject))"

definition decode_step_radio_channel_stats_get :: "'j json_env \<Rightarrow> 'j \<Rightarrow> wifi_stats_get \<Rightarrow> step_param decoded" where
  "decode_step_radio_channel_stats_get je step g =
     after (index_member je step ''RadioIndex'' (je_max_radios je)) (\<lambda>i.
     after (decode_stats_get_common_params je step (g\<lparr>sg_radio_index := i\<rparr>)) (\<lambda>g.
     after (decode_scan_mode je step) (\<lambda>m.
     Accept (P_stats_get (g\<lparr>sg_scan_mode := Some m, sg_data_type := Some mon_stats_type_radio_channel_stats\<rparr>)))))"

definition decode_step_neighbor_stats_get :: "'j json_env \<Rightarrow> 'j \<Rightarrow> wifi_stats_get \<Rightarrow> step_param decoded" where
  "decode_step_neighbor_stats_get je step g =
     after (index_member je step ''RadioIndex'' (je_max_radios je)) (\<lambda>i.
     after (decode_stats_get_common_params je step (g\<lparr>sg_radio_index := i\<rparr>)) (\<lambda>g.
     after (decode_scan_mode je step) (\<lambda>m.
     Accept (P_stats_get (g\<lparr>sg_scan_mode := Some m, sg_data_type := Some mon_stats_type_neighbor_stats\<rparr>)))))"

definition decode_step_assoc_client_stats_get :: "'j json_env \<Rightarrow> 'j \<Rightarrow> wifi_stats_get \<Rightarrow> step_param decoded" where
  "decode_step_assoc_client_stats_get je step g =
     after (index_member je step ''VapIndex'' (je_max_vaps je * je_max_radios je)) (\<lambda>i.
     after (decode_stats_get_common_params je step (g\<lparr>sg_vap_index := i\<rparr>)) (\<lambda>g.
     Accept (P_stats_get (g\<lparr>sg_data_type := Some mon_stats_type_associated_device_stats\<rparr>))))"

definition decode_step_radio_diag_stats_get :: "'j json_env \<Rightarrow> 'j \<Rightarrow> wifi_stats_get \<Rightarrow> step_param decoded" where
  "decode_step_radio_diag_stats_get je step g =
     after (index_member je step ''RadioIndex'' (je_max_radios je)) (\<lambda>i.
     after (decode_stats_get_common_params je step (g\<lparr>sg_radio_index := i\<rparr>)) (\<lambda>g.
     Accept (P_stats_get (g\<lparr>sg_data_type := Some mon_stats_type_radio_diagnostic_stats\<rparr>))))"

definition decode_step_radio_temperature_stats_get :: "'j json_env \<Rightarrow> 'j \<Rightarrow> wifi_stats_get \<Rightarrow> step_param decoded" where
  "decode_step_radio_temperature_stats_get je step g =
     after (index_member je step ''RadioIndex'' (je_max_radios je)) (\<lambda>i.
     after (decode_stats_get_common_params je step (g\<lparr>sg_radio_index := i\<rparr>)) (\<lambda>g.
     Accept (P_stats_get (g\<lparr>sg_data_type := Some mon_stats_type_radio_temperature\<rparr>))))"

text \<open>An instance of the statistics to set; \<open>new\<close> without memory ends the program.\<close>

definition decode_stats_instance :: "'j json_env \<Rightarrow> 'j \<Rightarrow> wifi_stats_set \<Rightarrow> wifi_stats_set decoded" where
  "decode_stats_instance je stats_set_config sw =
     (if \<not> je_calloc je then Undef
      else case cj_item je stats_set_config ''StatsDuration'' of
             None \<Rightarrow> Reject
           | Some param \<Rightarrow>
               after (atoi_member je param) (\<lambda>n.
               after (decode_param_string je (Some stats_set_config) ''InputFile'') (\<lambda>v.
               Accept (sw\<lparr>sw_total_duration := sw_total_duration sw + n, sw_stats_set_q := push je (sw_stats_set_q sw)
                 \<lparr>sc_stats_duration = n, sc_input_file_json = snprintf_store 128 v\<rparr>\<rparr>))))"

definition decode_stats_set_common_params :: "'j json_env \<Rightarrow> 'j \<Rightarrow> wifi_stats_set \<Rightarrow> wifi_stats_set decoded" where
  "decode_stats_set_common_params je step sw =
     (case cj_item je step ''StatsConfiguration'' of
        None \<Rightarrow> Reject
      | Some stats_set_list \<Rightarrow> decode_each (decode_stats_instance je) (cj_elems je stats_set_list) sw)"

definition decode_step_radio_channel_stats_set :: "'j json_env \<Rightarrow> 'j \<Rightarrow> wifi_stats_set \<Rightarrow> step_param decoded" where
  "decode_step_radio_channel_stats_set je step sw =
     after (index_member je step ''RadioIndex'' (je_max_radios je)) (\<lambda>i.
     after (decode_stats_set_common_params je step (sw\<lparr>sw_radio_index := i\<rparr>)) (\<lambda>sw.
     Accept (P_stats_set (sw\<lparr>sw_data_type := Some mon_stats_type_radio_channel_stats\<rparr>))))"

definition decode_step_neighbor_stats_set :: "'j json_env \<Rightarrow> 'j \<Rightarrow> wifi_stats_set \<Rightarrow> step_param decoded" where
  "decode_step_neighbor_stats_set je step sw =
     after (index_member je step ''RadioIndex'' (je_max_radios je)) (\<lambda>i.
     after (decode_stats_set_common_params je step (sw\<lparr>sw_radio_index := i\<rparr>)) (\<lambda>sw.
     Accept (P_stats_set (sw\<lparr>sw_data_type := Some mon_stats_type_neighbor_stats\<rparr>))))"

definition decode_step_assoc_client_stats_set :: "'j json_env \<Rightarrow> 'j \<Rightarrow> wifi_stats_set \<Rightarrow> step_param decoded" where
  "decode_step_assoc_client_stats_set je step sw =
     after (index_member je step ''VapIndex'' (je_max_vaps je * je_max_radios je)) (\<lambda>i.
     after (decode_stats_set_common_params je step (sw\<lparr>sw_vap_index := i\<rparr>)) (\<lambda>sw.
     Accept (P_stats_set (sw\<lparr>sw_data_type := Some mon_stats_type_associated_device_stats\<rparr>))))"

definition decode_step_radio_diag_stats_set :: "'j json_env \<Rightarrow> 'j \<Rightarrow> wifi_stats_set \<Rightarrow> step_param decoded" where
  "decode_step_radio_diag_stats_set je step sw =
     after (index_member je step ''RadioIndex'' (je_max_radios je)) (\<lambda>i.
     after (decode_stats_set_common_params je step (sw\<lparr>sw_radio_index := i\<rparr>)) (\<lambda>sw.
     Accept (P_stats_set (sw\<lparr>sw_data_type := Some mon_stats_type_radio_diagnostic_stats\<rparr>))))"

definition decode_step_radio_temperature_stats_set :: "'j json_env \<Rightarrow> 'j \<Rightarrow> wifi_stats_set \<Rightarrow> step_param decoded" where
  "decode_step_radio_temperature_stats_set je step sw =
     after (index_member je step ''RadioIndex'' (je_max_radios je)) (\<lambda>i.
     after (decode_stats_set_common_params je step (sw\<lparr>sw_radio_index := i\<rparr>)) (\<lambda>sw.
     Accept (P_stats_set (sw\<lparr>sw_data_type := Some mon_stats_type_radio_temperature\<rparr>))))"

section \<open>Performance of the gateway\<close>

definition decode_process :: "'j json_env \<Rightarrow> 'j \<Rightarrow> string queue \<Rightarrow> string queue decoded" where
  "decode_process je process q =
     after (decode_param_string je (Some process) ''ProcessName'') (\<lambda>v. Accept (push je q (take 15 v)))"

definition decode_step_gateway_performance :: "'j json_env \<Rightarrow> 'j \<Rightarrow> gw_performance \<Rightarrow> step_param decoded" where
  "decode_step_gateway_performance je step gp =
     (case cj_item je step ''GatewayPerformance'' of
        None \<Rightarrow> Reject
      | Some config \<Rightarrow>
          after (decode_param_string je (Some config) ''PerformanceResultName'') (\<lambda>file.
          after (decode_param_integer je (Some config) ''Interval'') (\<lambda>v.
          after (to_int (cj_valuedouble je v)) (\<lambda>interval.
          after (decode_param_integer je (Some config) ''Iteration'') (\<lambda>v.
          after (to_int (cj_valuedouble je v)) (\<lambda>iteration.
          after (decode_param_string je (Some config) ''TopCmdOptions'') (\<lambda>opt.
          after (if opt = ''cpu'' then Accept cmd_option_cpu else if opt = ''mem'' then Accept cmd_option_mem else Reject) (\<lambda>c.
          after (case cj_item je config ''ProcessNameList'' of
                   None \<Rightarrow> Accept (gp_process_status gp)
                 | Some l \<Rightarrow> decode_each (decode_process je) (cj_elems je l) (gp_process_status gp)) (\<lambda>q.
          Accept (P_gateway_performance (gp\<lparr>gp_result_file_name := file, gp_interval := interval, gp_iteration := iteration,
            gp_cmd_option := c, gp_process_status := q\<rparr>)))))))))))"

section \<open>Iperf and the ethernet client\<close>

definition connection_type_member :: "'j json_env \<Rightarrow> 'j \<Rightarrow> wlan_emu_connection_type" where
  "connection_type_member je step =
     (if string_member je (Some step) ''ConnectionType'' = Some ''Real'' then client_connection_type_real
      else client_connection_type_no_user_input)"

text \<open>The start: the options are checked as they were stored.\<close>

definition decode_iperf_server_start :: "'j json_env \<Rightarrow> 'j \<Rightarrow> 'j option \<Rightarrow> 'j \<Rightarrow> step_param decoded" where
  "decode_iperf_server_start je step config v =
     after (to_uint (cj_valuedouble je v)) (\<lambda>interface_step.
     after (decode_param_string je config ''ServerLogResultName'') (\<lambda>file.
     after (decode_param_string je config ''ServerIperfOptions'') (\<lambda>opts.
     if validate_iperf_options je (snprintf_store 128 opts) = RETURN_ERR then Reject
     else Accept (P_iperf_server (Iperf_server_start \<lparr>ips_interface_step_number = interface_step,
            ips_input_filename = snprintf_store 128 file, ips_cmd_options = snprintf_store 128 opts,
            ips_connection_type = connection_type_member je step\<rparr>)))))"

definition decode_step_iperf_server :: "'j json_env \<Rightarrow> 'j \<Rightarrow> step_param decoded" where
  "decode_step_iperf_server je step =
     (let config = cj_item je step ''IperfServerOptions''
      in case update_json_param_integer je config ''StopServerStepNumber'' of
           Some v \<Rightarrow>
             after (to_uint (cj_valuedouble je v)) (\<lambda>n.
             Accept (P_iperf_server (Iperf_server_stop n (connection_type_member je step))))
         | None \<Rightarrow>
             (case update_json_param_integer je config ''ServerInterfaceStepNumber'' of
                Some v \<Rightarrow> decode_iperf_server_start je step config v
              | None \<Rightarrow> Reject))"

definition sta_model_member :: "'j json_env \<Rightarrow> 'j \<Rightarrow> sta_model_type" where
  "sta_model_member je step =
     (case string_member je (Some step) ''Platform'' of
        None \<Rightarrow> sta_model_type_iphone
      | Some v \<Rightarrow>
          if v = ''Iphone'' then sta_model_type_iphone
          else if v = ''Pixel'' then sta_model_type_pixel
          else if v = ''Android'' then sta_model_type_android
          else if v = ''iOS'' then sta_model_type_ios
          else if v = ''Windows'' then sta_model_type_windows
          else sta_model_type_iphone)"

text \<open>Every string of the list is printed over the one before.\<close>

fun prefer_service :: "'j json_env \<Rightarrow> 'j list \<Rightarrow> string \<Rightarrow> string" where
  "prefer_service je [] p = p"
| "prefer_service je (item # items) p =
     prefer_service je items
       (if cj_is_string je item then (case cj_valuestring je item of None \<Rightarrow> p | Some v \<Rightarrow> snprintf_store 16 v) else p)"

definition prefer_member :: "'j json_env \<Rightarrow> 'j \<Rightarrow> string" where
  "prefer_member je step =
     (case cj_item je step ''Prefer'' of
        None \<Rightarrow> []
      | Some l \<Rightarrow> if cj_is_array je l then prefer_service je (cj_elems je l) [] else [])"

definition decode_iperf_client_start :: "'j json_env \<Rightarrow> 'j \<Rightarrow> 'j option \<Rightarrow> 'j \<Rightarrow> step_param decoded" where
  "decode_iperf_client_start je step config v =
     after (to_uint (cj_valuedouble je v)) (\<lambda>interface_step.
     after (unsigned_member je config ''ServerStepNumber'') (\<lambda>server_step.
     case get_item je config ''ClientOptions'' of
       None \<Rightarrow> Reject
     | Some options \<Rightarrow>
         after (decode_param_string je (Some options) ''ClientLogResultName'') (\<lambda>file.
         after (decode_param_string je (Some options) ''ClientIperfOptions'') (\<lambda>opts.
         if validate_iperf_options je (snprintf_store 128 opts) = RETURN_ERR then Reject
         else Accept (P_iperf_client (Iperf_client_start \<lparr>ipc_interface_step_number = interface_step,
                ipc_server_step_number = server_step, ipc_input_filename = snprintf_store 128 file,
                ipc_cmd_options = snprintf_store 128 opts,
                ipc_device_id = (case string_member je (Some step) ''Device_Id'' of
                                   None \<Rightarrow> [] | Some d \<Rightarrow> snprintf_store 64 d),
                ipc_service_prefer = prefer_member je step, ipc_sta_type = sta_model_member je step,
                ipc_connection_type = connection_type_member je step\<rparr>))))))"

definition decode_step_iperf_client :: "'j json_env \<Rightarrow> 'j \<Rightarrow> step_param decoded" where
  "decode_step_iperf_client je step =
     (let config = cj_item je step ''IperfClientOptions''
      in case update_json_param_integer je config ''StopClientStepNumber'' of
           Some v \<Rightarrow> after (to_uint (cj_valuedouble je v)) (\<lambda>n. Accept (P_iperf_client (Iperf_client_stop n)))
         | None \<Rightarrow>
             (case update_json_param_integer je config ''ClientInterfaceStepNumber'' of
                Some v \<Rightarrow> decode_iperf_client_start je step config v
              | None \<Rightarrow> Reject))"

definition decode_step_configure_eth_client :: "'j json_env \<Rightarrow> 'j \<Rightarrow> step_param decoded" where
  "decode_step_configure_eth_client je step =
     after (decode_param_bool je (Some step) ''ConfigureEthernetClient'') (\<lambda>b.
     if \<not> b then Reject
     else after (decode_param_integer je (Some step) ''TestDuration'') (\<lambda>v.
          after (to_int (cj_valuedouble je v)) (\<lambda>n. Accept (P_eth_lan_client n))))"

section \<open>Upgrade or reboot\<close>

definition decode_logging_step :: "'j json_env \<Rightarrow> 'j \<Rightarrow> u32 queue \<Rightarrow> u32 queue decoded" where
  "decode_logging_step je item q =
     after (decode_param_integer je (Some item) ''step_numbers'') (\<lambda>num.
     if \<not> je_calloc je then Reject else Accept (push je q (of_int (cj_valueint je num))))"

definition decode_step_configure_upgrade_or_reboot :: "'j json_env \<Rightarrow> 'j \<Rightarrow> device_upgrade \<Rightarrow> step_param decoded" where
  "decode_step_configure_upgrade_or_reboot je step du =
     (case cj_item je step ''UpgradeOrReboot'' of
        None \<Rightarrow> Reject
      | Some config \<Rightarrow>
          let du = du\<lparr>du_build_name := (case string_member je (Some config) ''build_name'' of
                        None \<Rightarrow> du_build_name du | Some v \<Rightarrow> v),
                      du_is_fr_enabled := bool_or je (Some config) ''is_fr_enabled'' (du_is_fr_enabled du)\<rparr>
          in after (decode_param_bool je (Some config) ''is_logging_enabled'') (\<lambda>b.
             if \<not> b then Accept (P_upgrade_or_reboot (du\<lparr>du_is_logging_enabled := False\<rparr>))
             else if \<not> je_calloc je then Reject
             else (case cj_item je config ''logging_step_numbers'' of
                     None \<Rightarrow> Reject
                   | Some l \<Rightarrow>
                       if \<not> cj_is_array je l then Reject
                       else after (decode_each (decode_logging_step je) (cj_elems je l) queue_create) (\<lambda>q.
                         Accept (P_upgrade_or_reboot (du\<lparr>du_is_logging_enabled := True,
                           du_logging_step_numbers := Some q\<rparr>))))))"

end
