(* ===== verification/Config_Decode.thy ===== *)
theory Config_Decode
  imports Stats_Decode
begin

text \<open>
  The decoding of a test configuration (\<open>decode_step_param_config\<close> to \<open>decode_json_config\<close>,
  \<open>ui/wlan_emu_ui_mgr.cpp\<close>): the class of a step is chosen by the members of its node, the steps of a test
  case are numbered and queued, the test case is chosen by its coverage and queued in the UI manager.
\<close>

section \<open>The class of a step\<close>

definition has_member :: "'j json_env \<Rightarrow> 'j \<Rightarrow> string \<Rightarrow> bool" where
  "has_member je node key \<longleftrightarrow> cj_item je node key \<noteq> None"

text \<open>A step from its constructor and its decoder; an object that could not be allocated is read.\<close>

definition make_step :: "'j json_env \<Rightarrow> test_step \<Rightarrow> step_param decoded \<Rightarrow> test_step decoded" where
  "make_step je s d =
     (if \<not> je_new je then Undef
      else if \<not> ts_is_step_initialized s then Reject
      else after d (\<lambda>p. Accept (s\<lparr>ts_param := p\<rparr>)))"

text \<open>The members a constructor has set, for the decoders that change them.\<close>

fun of_sta_management :: "step_param \<Rightarrow> (sta_test \<Rightarrow> step_param decoded) \<Rightarrow> step_param decoded" where
  "of_sta_management (P_sta_management t) f = f t"
| "of_sta_management _ f = Undef"

fun of_log_redirect :: "step_param \<Rightarrow> (log_redirect \<Rightarrow> step_param decoded) \<Rightarrow> step_param decoded" where
  "of_log_redirect (P_log_redirect l) f = f l"
| "of_log_redirect _ f = Undef"

fun of_stats_get :: "step_param \<Rightarrow> (wifi_stats_get \<Rightarrow> step_param decoded) \<Rightarrow> step_param decoded" where
  "of_stats_get (P_stats_get g) f = f g"
| "of_stats_get _ f = Undef"

fun of_stats_set :: "step_param \<Rightarrow> (wifi_stats_set \<Rightarrow> step_param decoded) \<Rightarrow> step_param decoded" where
  "of_stats_set (P_stats_set g) f = f g"
| "of_stats_set _ f = Undef"

fun of_gateway_performance :: "step_param \<Rightarrow> (gw_performance \<Rightarrow> step_param decoded) \<Rightarrow> step_param decoded" where
  "of_gateway_performance (P_gateway_performance g) f = f g"
| "of_gateway_performance _ f = Undef"

fun of_packet_generator :: "step_param \<Rightarrow> (packet_generator \<Rightarrow> step_param decoded) \<Rightarrow> step_param decoded" where
  "of_packet_generator (P_packet_generator g) f = f g"
| "of_packet_generator _ f = Undef"

fun of_upgrade :: "step_param \<Rightarrow> (device_upgrade \<Rightarrow> step_param decoded) \<Rightarrow> step_param decoded" where
  "of_upgrade (P_upgrade_or_reboot g) f = f g"
| "of_upgrade _ f = Undef"

text \<open>
  The members are looked for in a fixed order and the first that is there decides. \<open>None\<close> is to go on. The
  kinds of statistics that are not known fall through to the members behind them.
\<close>

definition decode_configuration_steps :: "'j json_env \<Rightarrow> string \<Rightarrow> 'j \<Rightarrow> test_step decoded option" where
  "decode_configuration_steps je results_dir step =
     (let m = je_member je; raw = je_raw je
      in if has_member je step ''RadioConfiguration''
         then Some (make_step je (radio_new raw) (decode_step_radio_config je step))
         else if has_member je step ''VapConfiguration''
         then Some (make_step je (vap_new raw) (decode_step_vap_config je step))
         else if has_member je step ''StationManagement''
         then Some (let s = sta_management_new je raw in make_step je s
                (of_sta_management (ts_param s) (decode_step_station_management_config je step)))
         else if has_member je step ''Command''
         then Some (make_step je (command_new m raw) (decode_step_command_config je step))
         else if has_member je step ''DmlSubDoc''
         then Some (make_step je (dml_subdoc_new m raw) (decode_step_dmlsubdoc_config je results_dir))
         else if has_member je step ''DmlResetConfiguration''
         then Some (make_step je (dml_reset_new raw) (decode_step_dml_reset_config je step))
         else if has_member je step ''LogOperation''
         then Some (let s = logredirect_new m raw in make_step je s
                (of_log_redirect (ts_param s) (decode_step_log_redirect je step)))
         else None)"

definition decode_stats_get_steps :: "'j json_env \<Rightarrow> 'j \<Rightarrow> test_step decoded option" where
  "decode_stats_get_steps je step =
     (if \<not> has_member je step ''GetStatsType'' then None
      else case decode_param_string je (Some step) ''GetStatsType'' of
             Undef \<Rightarrow> Some Undef
           | Reject \<Rightarrow> Some Reject
           | Accept v \<Rightarrow>
               let s = stats_get_new (je_member je) (je_raw je);
                   decode = (\<lambda>f. Some (make_step je s (of_stats_get (ts_param s) f)))
               in if v = ''RadioChannelStats'' then decode (decode_step_radio_channel_stats_get je step)
                  else if v = ''NeighborStats'' then decode (decode_step_neighbor_stats_get je step)
                  else if v = ''AssociatedDeviceStats'' then decode (decode_step_assoc_client_stats_get je step)
                  else if v = ''RadioDiagnosticStats'' then decode (decode_step_radio_diag_stats_get je step)
                  else if v = ''RadioTemperatureStats'' then decode (decode_step_radio_temperature_stats_get je step)
                  else None)"

definition decode_stats_set_steps :: "'j json_env \<Rightarrow> 'j \<Rightarrow> test_step decoded option" where
  "decode_stats_set_steps je step =
     (if \<not> has_member je step ''SetStatsType'' then None
      else case decode_param_string je (Some step) ''SetStatsType'' of
             Undef \<Rightarrow> Some Undef
           | Reject \<Rightarrow> Some Reject
           | Accept v \<Rightarrow>
               let s = stats_set_new (je_member je) (je_raw je);
                   decode = (\<lambda>f. Some (make_step je s (of_stats_set (ts_param s) f)))
               in if v = ''RadioChannelStats'' then decode (decode_step_radio_channel_stats_set je step)
                  else if v = ''NeighborStats'' then decode (decode_step_neighbor_stats_set je step)
                  else if v = ''AssociatedDeviceStats'' then decode (decode_step_assoc_client_stats_set je step)
                  else if v = ''RadioDiagnosticStats'' then decode (decode_step_radio_diag_stats_set je step)
                  else if v = ''RadioTemperatureStats'' then decode (decode_step_radio_temperature_stats_set je step)
                  else None)"

definition decode_file_steps :: "'j json_env \<Rightarrow> 'j \<Rightarrow> test_step decoded option" where
  "decode_file_steps je step =
     (let m = je_member je; raw = je_raw je
      in if has_member je step ''GetFile''
         then Some (make_step je (get_file_new m raw) (decode_step_get_file je step))
         else if has_member je step ''MgmtFrameCaptureRadioIndex''
         then Some (make_step je (mgmt_frame_capture_new m raw) (decode_step_mgmt_frame_capture je step))
         else if has_member je step ''GetPatternFiles''
         then Some (make_step je (get_pattern_files_new m raw) (decode_step_get_pattern_files je step))
         else if has_member je step ''WaitTimeInSeconds''
         then Some (make_step je (timed_wait_new m raw) (decode_step_timed_wait je step))
         else if has_member je step ''OneWiFiSubdoc''
         then Some (make_step je (config_onewifi_new raw) (decode_step_config_onewifi je step))
         else None)"

text \<open>
  The constructors of the packet generator and of the upgrade step allocate with a \<open>new\<close> that ends the
  program without memory.
\<close>

definition decode_traffic_steps :: "'j json_env \<Rightarrow> 'j \<Rightarrow> test_step decoded option" where
  "decode_traffic_steps je step =
     (let m = je_member je; raw = je_raw je
      in if has_member je step ''GatewayPerformance''
         then Some (let s = gateway_performance_new m raw in make_step je s
                (of_gateway_performance (ts_param s) (decode_step_gateway_performance je step)))
         else if has_member je step ''PacketGenerator''
         then Some (if \<not> m then Undef
                else let s = packet_generator_new raw in make_step je s
                (of_packet_generator (ts_param s) (decode_step_packet_generator_config je step)))
         else if has_member je step ''IperfServerOptions''
         then Some (make_step je (iperf_server_new m raw) (decode_step_iperf_server je step))
         else if has_member je step ''IperfClientOptions''
         then Some (make_step je (iperf_client_new m raw) (decode_step_iperf_client je step))
         else if has_member je step ''ConfigureEthernetClient''
         then Some (make_step je (eth_lan_client_new m raw) (decode_step_configure_eth_client je step))
         else if has_member je step ''UpgradeOrReboot''
         then Some (if \<not> m then Undef
                else let s = upgrade_or_reboot_new raw in make_step je s
                (of_upgrade (ts_param s) (decode_step_configure_upgrade_or_reboot je step)))
         else None)"

text \<open>The first group that decides.\<close>

fun first_decided :: "'a decoded option list \<Rightarrow> 'a decoded" where
  "first_decided [] = Reject"
| "first_decided (None # ds) = first_decided ds"
| "first_decided (Some d # ds) = d"

definition decode_step_param_config :: "'j json_env \<Rightarrow> string \<Rightarrow> 'j \<Rightarrow> test_step decoded" where
  "decode_step_param_config je results_dir step =
     first_decided [decode_configuration_steps je results_dir step, decode_stats_get_steps je step,
       decode_stats_set_steps je step, decode_file_steps je step, decode_traffic_steps je step]"

section \<open>The steps of a test case\<close>

text \<open>After a reboot the steps that were executed before it are left out, but for the paused log steps.\<close>

definition check_reboot_step_config :: "'j json_env \<Rightarrow> u32 \<Rightarrow> u32 list \<Rightarrow> 'j \<Rightarrow> bool" where
  "check_reboot_step_config je executed paused step =
     (case decode_param_string je (Some step) ''StepNumber'' of
        Accept v \<Rightarrow>
          let step_number = (of_int (atoi v) :: u32)
          in if step_number = 0 then False
             else if step_number \<le> executed then list_ex (\<lambda>n. n = step_number) paused
             else True
      | _ \<Rightarrow> False)"

fun decode_steps :: "'j json_env \<Rightarrow> string \<Rightarrow> u32 \<Rightarrow> u32 list \<Rightarrow> 'j list \<Rightarrow> u32 \<Rightarrow> test_step queue \<Rightarrow> test_step queue decoded" where
  "decode_steps je results_dir executed paused [] n q = Accept q"
| "decode_steps je results_dir executed paused (step # steps) n q =
     (if executed \<noteq> 0 \<and> \<not> check_reboot_step_config je executed paused step
      then decode_steps je results_dir executed paused steps n q
      else after (decode_step_param_config je results_dir step) (\<lambda>s.
           after (decode_step_common_config je step s) (\<lambda>s.
           decode_steps je results_dir executed paused steps (n + 1) (push je q (s\<lparr>ts_step_seq_num := n\<rparr>)))))"

text \<open>The steps and the manager, which forgets the last executed step once a test case is decoded.\<close>

definition decode_step_config :: "'j json_env \<Rightarrow> 'j \<Rightarrow> ui_mgr \<Rightarrow> test_step queue decoded \<times> ui_mgr" where
  "decode_step_config je config_entry u =
     (case decode_steps je (w_test_results_dir (u_world u)) (u_last_executed_step_num u) (u_paused_logging_steps u)
             (cj_elems je config_entry) 0 queue_create of
        Accept q \<Rightarrow> (Accept q, u\<lparr>u_last_executed_step_num := 0\<rparr>)
      | d \<Rightarrow> (d, u))"

definition decode_coverage_config ::
  "'j json_env \<Rightarrow> 'j \<Rightarrow> int \<Rightarrow> wlan_emu_test_type \<Rightarrow> ui_mgr \<Rightarrow> test_case decoded \<times> ui_mgr" where
  "decode_coverage_config je config_entry coverage_type test_type u =
     (if \<not> je_calloc je then (Reject, u)
      else case decode_step_config je config_entry u of
             (Undef, u) \<Rightarrow> (Undef, u)
           | (Reject, u) \<Rightarrow> (Reject, set_ui_error EWEBDECODE u)
           | (Accept q, u) \<Rightarrow>
               (Accept ((je_raw_case je)\<lparr>tc_coverage := coverage_type, tc_type := test_type,
                  tc_state := wlan_emu_tests_state_cmd_request, tc_steps := q\<rparr>), u))"

section \<open>The coverages\<close>

abbreviation wlan_emu_test_coverage_2 :: int where "wlan_emu_test_coverage_2 \<equiv> 2"
abbreviation wlan_emu_test_coverage_3 :: int where "wlan_emu_test_coverage_3 \<equiv> 3"

text \<open>The first of the members that is there, with what stands for it.\<close>

fun find_member :: "'j json_env \<Rightarrow> 'j option \<Rightarrow> (string \<times> 'a) list \<Rightarrow> ('j \<times> 'a) option" where
  "find_member je node [] = None"
| "find_member je node ((key, x) # entries) =
     (case get_item je node key of Some j \<Rightarrow> Some (j, x) | None \<Rightarrow> find_member je node entries)"

definition network_service_entry :: "'j json_env \<Rightarrow> 'j \<Rightarrow> ('j \<times> wlan_emu_test_type) option" where
  "network_service_entry je test =
     (case cj_item je test ''Private'' of
        Some l \<Rightarrow> Some (l, wlan_emu_test_1_subtype_ns_private)
      | None \<Rightarrow>
          (case cj_item je test ''Public'' of
             Some l \<Rightarrow> find_member je (Some l)
                 [(''XfinityOpen'', wlan_emu_test_1_subtype_ns_public_xfinity_open),
                  (''XfinitySecure'', wlan_emu_test_1_subtype_ns_public_xfinity_secure)]
           | None \<Rightarrow>
               (case cj_item je test ''Managed'' of
                  Some l \<Rightarrow> find_member je (Some l)
                      [(''Xhs'', wlan_emu_test_1_subtype_ns_managed_xhs),
                       (''LnfEnterprise'', wlan_emu_test_1_subtype_ns_managed_lnf_enterprise),
                       (''LnfSecure'', wlan_emu_test_1_subtype_ns_managed_lnf_secure)]
                | None \<Rightarrow>
                    (case cj_item je test ''Mesh'' of
                       Some l \<Rightarrow> find_member je (Some l)
                           [(''MeshBackhaul'', wlan_emu_test_1_subtype_ns_managed_mesh_backhaul),
                            (''MeshClient'', wlan_emu_test_1_subtype_ns_managed_mesh_client)]
                     | None \<Rightarrow> None))))"

definition accept_entry :: "('j \<times> 'a) option \<Rightarrow> ('j \<times> 'a) decoded" where
  "accept_entry e = (case e of None \<Rightarrow> Reject | Some x \<Rightarrow> Accept x)"

text \<open>
  A client connection without one of the two lists is not refused: nothing is decoded, and the test case is
  written through the null pointer.
\<close>

definition coverage_1_entry :: "'j json_env \<Rightarrow> 'j option \<Rightarrow> ('j \<times> wlan_emu_test_type) decoded" where
  "coverage_1_entry je conf =
     (case get_item je conf ''Radio'' of
        Some test \<Rightarrow> Accept (test, wlan_emu_test_1_subtype_radio)
      | None \<Rightarrow>
          (case get_item je conf ''NetworkServiceConfiguration'' of
             Some test \<Rightarrow> accept_entry (network_service_entry je test)
           | None \<Rightarrow>
               (case get_item je conf ''ClientConnection'' of
                  Some test \<Rightarrow> deref (find_member je (Some test)
                      [(''Authentication'', wlan_emu_test_1_subtype_cc_authentication),
                       (''RealClient'', wlan_emu_test_1_subtype_ns_private)])
                | None \<Rightarrow> Reject)))"

definition application_features :: "(string \<times> wlan_emu_test_type) list" where
  "application_features =
     [(''ConnectionAdmission'', wlan_emu_test_2_subtype_af_connection_admission),
      (''AccessControl'', wlan_emu_test_2_subtype_af_access_control),
      (''StatsManager'', wlan_emu_test_2_subtype_af_stats_manager),
      (''SteeringManager'', wlan_emu_test_2_subtype_af_steering_manager),
      (''Optimization'', wlan_emu_test_2_subtype_af_optimization),
      (''GreyListing'', wlan_emu_test_2_subtype_af_grey_listing),
      (''ActivePassiveMeasurements'', wlan_emu_test_2_subtype_af_active_passive_msrmnts),
      (''Whix'', wlan_emu_test_2_subtype_af_whix),
      (''Blaster'', wlan_emu_test_2_subtype_af_blaster),
      (''Motion'', wlan_emu_test_2_subtype_af_motion),
      (''FingerPrinting'', wlan_emu_test_2_subtype_af_finger_printing),
      (''TR-181'', wlan_emu_test_2_subtype_af_tr_181),
      (''Webconfig'', wlan_emu_test_2_subtype_af_webconfig),
      (''Webpa'', wlan_emu_test_2_subtype_af_webpa)]"

text \<open>The end of the three coverages: the test case gets its identifier and is queued.\<close>

definition finish_case :: "'j json_env \<Rightarrow> 'j \<Rightarrow> test_case \<Rightarrow> ui_mgr \<Rightarrow> unit decoded \<times> ui_mgr" where
  "finish_case je test_coverage_entry config u =
     (case decode_param_string je (Some test_coverage_entry) ''TestCaseId'' of
        Accept v \<Rightarrow> (Accept (), u\<lparr>u_cases := push je (u_cases u) (config\<lparr>tc_id := snprintf_store 8 v\<rparr>)\<rparr>)
      | Reject \<Rightarrow> (Reject, u)
      | Undef \<Rightarrow> (Undef, u))"

definition decode_entry ::
  "'j json_env \<Rightarrow> 'j \<Rightarrow> int \<Rightarrow> ('j \<times> wlan_emu_test_type) decoded \<Rightarrow> ui_mgr \<Rightarrow> unit decoded \<times> ui_mgr" where
  "decode_entry je test_coverage_entry coverage_type d u =
     (case d of
        Undef \<Rightarrow> (Undef, u)
      | Reject \<Rightarrow> (Reject, u)
      | Accept (node, test_type) \<Rightarrow>
          (case decode_coverage_config je node coverage_type test_type u of
             (Undef, u) \<Rightarrow> (Undef, u)
           | (Reject, u) \<Rightarrow> (Reject, u)
           | (Accept config, u) \<Rightarrow> finish_case je test_coverage_entry config u))"

definition decode_coverage_1_config :: "'j json_env \<Rightarrow> 'j \<Rightarrow> ui_mgr \<Rightarrow> unit decoded \<times> ui_mgr" where
  "decode_coverage_1_config je e u =
     decode_entry je e wlan_emu_test_coverage_1 (coverage_1_entry je (cj_item je e ''Configuration'')) u"

definition decode_coverage_2_config :: "'j json_env \<Rightarrow> 'j \<Rightarrow> ui_mgr \<Rightarrow> unit decoded \<times> ui_mgr" where
  "decode_coverage_2_config je e u =
     decode_entry je e wlan_emu_test_coverage_2
       (accept_entry (find_member je (cj_item je e ''ApplicationFeatures'') application_features)) u"

definition decode_coverage_3_config :: "'j json_env \<Rightarrow> 'j \<Rightarrow> ui_mgr \<Rightarrow> unit decoded \<times> ui_mgr" where
  "decode_coverage_3_config je e u =
     decode_entry je e wlan_emu_test_coverage_3
       (accept_entry (find_member je (cj_item je e ''PerformanceMonitor'')
         [(''StatsGet'', wlan_emu_test_3_subtype_pm_stats_get), (''StatsSet'', wlan_emu_test_3_subtype_pm_stats_set)])) u"

section \<open>The configuration\<close>

definition decode_coverage :: "'j json_env \<Rightarrow> 'j \<Rightarrow> ui_mgr \<Rightarrow> unit decoded \<times> ui_mgr" where
  "decode_coverage je e u =
     (case decode_param_string je (Some e) ''TestCoverageCategory'' of
        Undef \<Rightarrow> (Undef, u)
      | Reject \<Rightarrow> (Reject, u)
      | Accept v \<Rightarrow>
          let checked = (\<lambda>key f. case decode_param_object je (Some e) key of
                Accept test \<Rightarrow> f je e u | Reject \<Rightarrow> (Reject, u) | Undef \<Rightarrow> (Undef, u))
          in if atoi v = wlan_emu_test_coverage_1 then checked ''Configuration'' decode_coverage_1_config
             else if atoi v = wlan_emu_test_coverage_2 then checked ''ApplicationFeatures'' decode_coverage_2_config
             else if atoi v = wlan_emu_test_coverage_3 then checked ''PerformanceMonitor'' decode_coverage_3_config
             else (Reject, u))"

fun decode_coverages :: "'j json_env \<Rightarrow> 'j list \<Rightarrow> ui_mgr \<Rightarrow> unit decoded \<times> ui_mgr" where
  "decode_coverages je [] u = (Accept (), u)"
| "decode_coverages je (e # es) u =
     (case decode_coverage je e u of
        (Accept x, u) \<Rightarrow> decode_coverages je es u
      | (d, u) \<Rightarrow> (d, u))"

text \<open>
  The addresses of the configuration. The members of the manager are zero behind the copied bytes, so a copy
  that fills all but the last byte is terminated. A local configuration is served from the directory of its
  own address.
\<close>

definition decode_addresses :: "'j json_env \<Rightarrow> 'j \<Rightarrow> ui_mgr \<Rightarrow> unit decoded \<times> ui_mgr" where
  "decode_addresses je root_json u =
     (case decode_param_string je (Some root_json) ''Version'' of
        Undef \<Rightarrow> (Undef, u)
      | Reject \<Rightarrow> (Reject, u)
      | Accept v \<Rightarrow>
          let u = u\<lparr>u_version := take 7 v\<rparr>
          in (case decode_param_string je (Some root_json) ''SubDocName'' of
                Undef \<Rightarrow> (Undef, u)
              | Reject \<Rightarrow> (Reject, u)
              | Accept v \<Rightarrow>
                  let u = u\<lparr>u_subdoc_name := take 31 v\<rparr>
                  in (case decode_param_string je (Some root_json) ''RemoteServerAddress'' of
                        Undef \<Rightarrow> (Undef, u)
                      | Reject \<Rightarrow> (Reject, u)
                      | Accept v \<Rightarrow>
                          let a = (if w_local_host (u_world u) then before_last CHR ''/'' (u_tda_url u) else v);
                              u = u\<lparr>u_world := (u_world u)\<lparr>w_server_address := take 127 a\<rparr>\<rparr>
                          in (case decode_param_string je (Some root_json) ''ResultsLocation'' of
                                Undef \<Rightarrow> (Undef, u)
                              | Reject \<Rightarrow> (Reject, u)
                              | Accept v \<Rightarrow>
                                  (Accept (), u\<lparr>u_world := (u_world u)\<lparr>w_remote_results_loc := take 255 v\<rparr>\<rparr>)))))"

text \<open>The result code and the manager; \<open>None\<close> is an access without a meaning.\<close>

definition decode_json_config :: "'j json_env \<Rightarrow> string \<Rightarrow> ui_mgr \<Rightarrow> (int \<times> ui_mgr) option" where
  "decode_json_config je raw_data u =
     (case cj_parse je raw_data of
        None \<Rightarrow> Some (RETURN_ERR, u)
      | Some root_json \<Rightarrow>
          (case decode_addresses je root_json u of
             (Undef, u) \<Rightarrow> None
           | (Reject, u) \<Rightarrow> Some (RETURN_ERR, u)
           | (Accept x, u) \<Rightarrow>
               (case cj_item je root_json ''TestCoverages'' of
                  None \<Rightarrow> Some (RETURN_ERR, u)
                | Some entry \<Rightarrow>
                    if \<not> cj_is_array je entry then Some (RETURN_ERR, u)
                    else (case decode_coverages je (cj_elems je entry) u of
                            (Undef, u) \<Rightarrow> None
                          | (Reject, u) \<Rightarrow> Some (RETURN_ERR, u)
                          | (Accept x, u) \<Rightarrow> Some (RETURN_OK, u)))))"

end
