(* ===== verification/Decode_Facts.thy ===== *)
theory Decode_Facts
  imports Config_Decode Test_Runs
begin

text \<open>
  Facts on the decoders: what the value of an accepted step satisfies, which class it has, and how the
  steps of a test case are numbered.
\<close>

section \<open>Loops and buffers\<close>

lemma decode_each_invariant:
  "decode_each f xs s = Accept s' \<Longrightarrow> P s \<Longrightarrow> (\<And>x s s'. f x s = Accept s' \<Longrightarrow> P s \<Longrightarrow> P s') \<Longrightarrow> P s'"
  by (induction xs arbitrary: s) (auto simp: after_Accept)

lemma length_snprintf [simp]: "0 < n \<Longrightarrow> length (snprintf_store n s) < n"
  by (auto simp: snprintf_store_def)

lemma push_eq: "push je q x = (if je_calloc je then x # q else q)"
  by (simp add: push_def queue_push_def)

section \<open>The values of a decoded step\<close>

text \<open>Every string fits its buffer, every index is in range, every option was checked.\<close>

definition log_redirect_fits :: "log_redirect \<Rightarrow> bool" where
  "log_redirect_fits l \<longleftrightarrow> lr_operation l \<in> {log_operation_type_start, log_operation_type_stop} \<and>
     length (lr_redirect_filename l) < 128 \<and> length (lr_result_file l) < 128"

definition sta_test_fits :: "sta_test \<Rightarrow> bool" where
  "sta_test_fits t \<longleftrightarrow> length (st_test_station_config t) < 128 \<and>
     (case sp_fc_prototype_q (st_station_prototype t) of
        None \<Rightarrow> False
      | Some q \<Rightarrow> \<forall>p \<in> set q. case p of None \<Rightarrow> False | Some p \<Rightarrow> length (pp_file_location p) < 256)"

definition stats_get_fits :: "'j json_env \<Rightarrow> wifi_stats_get \<Rightarrow> bool" where
  "stats_get_fits je g \<longleftrightarrow>
     (case sg_data_type g of
        None \<Rightarrow> False
      | Some mon_stats_type_associated_device_stats \<Rightarrow> 0 \<le> sg_vap_index g \<and> sg_vap_index g < je_max_vaps je * je_max_radios je
      | Some k \<Rightarrow> 0 \<le> sg_radio_index g \<and> sg_radio_index g < je_max_radios je) \<and>
     sg_log_operation g \<noteq> log_operation_type_invalid"

definition stats_set_fits :: "'j json_env \<Rightarrow> wifi_stats_set \<Rightarrow> bool" where
  "stats_set_fits je sw \<longleftrightarrow>
     (case sw_data_type sw of
        None \<Rightarrow> False
      | Some mon_stats_type_associated_device_stats \<Rightarrow> 0 \<le> sw_vap_index sw \<and> sw_vap_index sw < je_max_vaps je * je_max_radios je
      | Some k \<Rightarrow> 0 \<le> sw_radio_index sw \<and> sw_radio_index sw < je_max_radios je) \<and>
     sw_total_duration sw = sum_list (map sc_stats_duration (sw_stats_set_q sw)) \<and>
     (\<forall>c \<in> set (sw_stats_set_q sw). length (sc_input_file_json c) < 128)"

fun iperf_server_fits :: "'j json_env \<Rightarrow> iperf_server \<Rightarrow> bool" where
  "iperf_server_fits je Iperf_server_invalid = False"
| "iperf_server_fits je (Iperf_server_stop n c) = True"
| "iperf_server_fits je (Iperf_server_start s) =
     (length (ips_input_filename s) < 128 \<and> length (ips_cmd_options s) < 128 \<and>
      validate_iperf_options je (ips_cmd_options s) = RETURN_OK)"

fun iperf_client_fits :: "'j json_env \<Rightarrow> iperf_client \<Rightarrow> bool" where
  "iperf_client_fits je Iperf_client_invalid = False"
| "iperf_client_fits je (Iperf_client_stop n) = True"
| "iperf_client_fits je (Iperf_client_start s) =
     (length (ipc_input_filename s) < 128 \<and> length (ipc_cmd_options s) < 128 \<and>
      validate_iperf_options je (ipc_cmd_options s) = RETURN_OK \<and>
      length (ipc_device_id s) < 64 \<and> length (ipc_service_prefer s) < 16)"

text \<open>A number of the node, stored as it is.\<close>

definition number_stored :: "'j json_env \<Rightarrow> 'j \<Rightarrow> string \<Rightarrow> u32 \<Rightarrow> bool" where
  "number_stored je step key w \<longleftrightarrow>
     (\<exists>v. get_item je (Some step) key = Some v \<and> cj_is_number je v \<and> uint w = truncate_rat (cj_valuedouble je v))"

text \<open>
  The seconds of a wait and the radio and the duration of a capture are the numbers of the node: the radio of a
  capture has no other bound (\<open>capture_radio_unchecked\<close>).
\<close>

fun param_fits :: "'j json_env \<Rightarrow> 'j \<Rightarrow> step_param \<Rightarrow> bool" where
  "param_fits je step (P_radio f) = (length f < 128)"
| "param_fits je step (P_vap f) = (length f < 128)"
| "param_fits je step (P_config_onewifi f) = (length f < 128)"
| "param_fits je step (P_dml_reset f) = (length f < 128)"
| "param_fits je step (P_timed_wait n) = number_stored je step ''WaitTimeInSeconds'' n"
| "param_fits je step (P_command c f) = (length c < 1024 \<and> length f < 128)"
| "param_fits je step (P_dml_subdoc f) = (length f < 128)"
| "param_fits je step (P_get_file a b d) = (length a < 256 \<and> length b < 256)"
| "param_fits je step (P_get_pattern_files a b d) = (length a < 128 \<and> length b < 128)"
| "param_fits je step (P_mgmt_frame_capture c) =
     (number_stored je step ''MgmtFrameCaptureRadioIndex'' (mf_radio_index c) \<and>
      number_stored je step ''Duration'' (mf_duration c))"
| "param_fits je step (P_log_redirect l) = log_redirect_fits l"
| "param_fits je step (P_sta_management t) = sta_test_fits t"
| "param_fits je step (P_stats_get g) = stats_get_fits je g"
| "param_fits je step (P_stats_set sw) = stats_set_fits je sw"
| "param_fits je step (P_gateway_performance gp) = (\<forall>p \<in> set (gp_process_status gp). length p < 16)"
| "param_fits je step (P_packet_generator pg) = (\<forall>p \<in> set (pg_pcap_queue pg). length p < 128)"
| "param_fits je step (P_iperf_server s) = iperf_server_fits je s"
| "param_fits je step (P_iperf_client c) = iperf_client_fits je c"
| "param_fits je step (P_eth_lan_client n) = (- (2 ^ 31) \<le> n \<and> n < 2 ^ 31)"
| "param_fits je step (P_upgrade_or_reboot du) = (du_is_logging_enabled du \<longleftrightarrow> du_logging_step_numbers du \<noteq> None)"

definition step_gives :: "'j json_env \<Rightarrow> 'j \<Rightarrow> step_param_type \<Rightarrow> step_param decoded \<Rightarrow> bool" where
  "step_gives je step t d \<longleftrightarrow> (\<forall>p. d = Accept p \<longrightarrow> param_fits je step p \<and> param_type p = t)"

lemma to_uint_Accept: "to_uint x = Accept w \<Longrightarrow> uint w = truncate_rat x"
  by (auto simp: to_uint_def Let_def unsigned_of_int take_bit_int_eq_self split: if_splits)

lemma number_stored_Accept:
  "decode_param_integer je (Some step) key = Accept v \<Longrightarrow> to_uint (cj_valuedouble je v) = Accept w \<Longrightarrow>
     number_stored je step key w"
  using to_uint_Accept by (fastforce simp: decode_param_integer_def number_stored_def split: option.splits if_splits)

lemma step_gives_numbers:
  "step_gives je step step_param_type_timed_wait (decode_step_timed_wait je step)"
  "step_gives je step step_param_type_mgmt_frame_capture (decode_step_mgmt_frame_capture je step)"
  by (auto simp: step_gives_def after_Accept decode_step_timed_wait_def decode_step_mgmt_frame_capture_def
      unsigned_member_def intro: number_stored_Accept split: if_splits)

lemma step_gives_simple:
  "step_gives je step step_param_type_radio (decode_step_radio_config je step)"
  "step_gives je step step_param_type_vap (decode_step_vap_config je step)"
  "step_gives je step step_param_type_dml_reset (decode_step_dml_reset_config je step)"
  "step_gives je step step_param_type_config_onewifi (decode_step_config_onewifi je step)"
  "step_gives je step step_param_type_command (decode_step_command_config je step)"
  "step_gives je step step_param_type_dml_subdoc (decode_step_dmlsubdoc_config je dir)"
  "step_gives je step step_param_type_get_file (decode_step_get_file je step)"
  "step_gives je step step_param_type_get_pattern_files (decode_step_get_pattern_files je step)"
  by (auto simp: step_gives_def after_Accept Let_def decode_step_radio_config_def decode_step_vap_config_def
        decode_step_dml_reset_config_def decode_step_config_onewifi_def decode_step_command_config_def
        decode_step_dmlsubdoc_config_def decode_step_get_file_def
        decode_step_get_pattern_files_def split: option.splits if_splits)

lemma step_gives_log:
  assumes l: "length (lr_redirect_filename l) < 128" "length (lr_result_file l) < 128"
  shows "step_gives je step step_param_type_log_redirection (decode_step_log_redirect je step l)"
  using l by (auto simp: step_gives_def decode_step_log_redirect_def start_log_redirect_def after_Accept Let_def
      log_redirect_fits_def text_file_name_def split: option.splits if_splits prod.splits)

lemma step_gives_packets:
  assumes "\<forall>p \<in> set (pg_pcap_queue pg). length p < 128"
  shows "step_gives je step step_param_type_packet_generator (decode_step_packet_generator_config je step pg)"
proof -
  have "\<forall>p \<in> set q. length p < 128"
    if "decode_each (decode_packet je) xs (pg_pcap_queue pg) = Accept q" for xs q
    by (rule decode_each_invariant [OF that, where P = "\<lambda>q. \<forall>p \<in> set q. length p < 128"])
      (use assms in \<open>auto simp: decode_packet_def after_Accept push_eq split: if_splits\<close>)
  then show ?thesis
    by (auto simp: step_gives_def decode_step_packet_generator_config_def after_Accept split: option.splits if_splits)
qed

lemma station_prototype_fits:
  assumes "decode_station_prototype je node sp = Accept sp'" "sta_test_fits (t\<lparr>st_station_prototype := sp\<rparr>)"
  shows "sta_test_fits (t\<lparr>st_station_prototype := sp'\<rparr>)"
  using assms by (auto simp: decode_station_prototype_def after_Accept sta_test_fits_def Let_def
      push_eq split: if_splits option.splits)

lemma step_gives_prototypes:
  assumes "sta_test_fits u"
  shows "step_gives je step step_param_type_station_management (decode_station_prototypes je step u)"
proof -
  have en: "sta_test_fits (u\<lparr>st_is_station_prototype_enabled := e\<rparr>)" for e
    using assms(1) by (simp add: sta_test_fits_def)
  have loop: "sta_test_fits (u\<lparr>st_is_station_prototype_enabled := True, st_station_prototype := sp\<rparr>)"
    if "decode_each (decode_station_prototype je) xs (st_station_prototype u) = Accept sp" for xs sp
    by (rule decode_each_invariant [OF that,
          where P = "\<lambda>sp. sta_test_fits (u\<lparr>st_is_station_prototype_enabled := True, st_station_prototype := sp\<rparr>)"])
      (use en [of True] station_prototype_fits in simp_all)
  show ?thesis
    using assms en loop by (auto simp: step_gives_def decode_station_prototypes_def Let_def after_Accept
        split: decoded.splits option.splits if_splits)
qed

lemma step_gives_after: "(\<And>x. step_gives je step t (f x)) \<Longrightarrow> step_gives je step t (after d f)"
  by (cases d) (simp_all add: step_gives_def)

lemma step_gives_station:
  assumes "sp_fc_prototype_q (st_station_prototype t) = Some []"
  shows "step_gives je step step_param_type_station_management (decode_step_station_management_config je step t)"
  unfolding decode_step_station_management_config_def
  by (intro step_gives_after step_gives_prototypes) (simp add: sta_test_fits_def assms)

lemma index_member_range: "index_member je step key b = Accept i \<Longrightarrow> 0 \<le> i \<and> i < b"
  by (auto simp: index_member_def after_Accept split: option.splits if_splits)

lemma stats_get_common_keeps:
  "decode_stats_get_common_params je step g = Accept g' \<Longrightarrow> sg_log_operation g \<noteq> log_operation_type_invalid \<Longrightarrow>
     sg_radio_index g' = sg_radio_index g \<and> sg_vap_index g' = sg_vap_index g \<and>
     sg_log_operation g' \<noteq> log_operation_type_invalid"
  by (auto simp: decode_stats_get_common_params_def decode_operation_def after_Accept Let_def split: option.splits if_splits)

lemma step_gives_stats_get:
  assumes "sg_log_operation g \<noteq> log_operation_type_invalid"
  shows "step_gives je step step_param_type_stats_get (decode_step_radio_channel_stats_get je step g)"
    and "step_gives je step step_param_type_stats_get (decode_step_neighbor_stats_get je step g)"
    and "step_gives je step step_param_type_stats_get (decode_step_assoc_client_stats_get je step g)"
    and "step_gives je step step_param_type_stats_get (decode_step_radio_diag_stats_get je step g)"
    and "step_gives je step step_param_type_stats_get (decode_step_radio_temperature_stats_get je step g)"
  using assms by (auto simp: step_gives_def after_Accept stats_get_fits_def decode_step_radio_channel_stats_get_def
      decode_step_neighbor_stats_get_def decode_step_assoc_client_stats_get_def decode_step_radio_diag_stats_get_def
      decode_step_radio_temperature_stats_get_def dest!: index_member_range stats_get_common_keeps)

lemma stats_set_common_fits:
  assumes "decode_stats_set_common_params je step sw = Accept sw'" "sw_stats_set_q sw = []" "sw_total_duration sw = 0"
  shows "sw_radio_index sw' = sw_radio_index sw \<and> sw_vap_index sw' = sw_vap_index sw \<and>
     sw_total_duration sw' = sum_list (map sc_stats_duration (sw_stats_set_q sw')) \<and>
     (\<forall>c \<in> set (sw_stats_set_q sw'). length (sc_input_file_json c) < 128)"
proof -
  obtain xs where "decode_each (decode_stats_instance je) xs sw = Accept sw'"
    using assms(1) by (auto simp: decode_stats_set_common_params_def split: option.splits)
  then show ?thesis
    by (rule decode_each_invariant)
      (use assms(2,3) in \<open>auto simp: decode_stats_instance_def after_Accept push_eq split: if_splits option.splits\<close>)
qed

lemma step_gives_stats_set:
  assumes "sw_stats_set_q sw = []" "sw_total_duration sw = 0"
  shows "step_gives je step step_param_type_stats_set (decode_step_radio_channel_stats_set je step sw)"
    and "step_gives je step step_param_type_stats_set (decode_step_neighbor_stats_set je step sw)"
    and "step_gives je step step_param_type_stats_set (decode_step_assoc_client_stats_set je step sw)"
    and "step_gives je step step_param_type_stats_set (decode_step_radio_diag_stats_set je step sw)"
    and "step_gives je step step_param_type_stats_set (decode_step_radio_temperature_stats_set je step sw)"
  using assms by (auto simp: step_gives_def after_Accept stats_set_fits_def decode_step_radio_channel_stats_set_def
      decode_step_neighbor_stats_set_def decode_step_assoc_client_stats_set_def decode_step_radio_diag_stats_set_def
      decode_step_radio_temperature_stats_set_def dest!: index_member_range stats_set_common_fits)

lemma step_gives_performance:
  assumes "\<forall>p \<in> set (gp_process_status gp). length p < 16"
  shows "step_gives je step step_param_type_gateway_performance (decode_step_gateway_performance je step gp)"
proof -
  have "\<forall>p \<in> set q. length p < 16"
    if "decode_each (decode_process je) xs (gp_process_status gp) = Accept q" for xs q
    by (rule decode_each_invariant [OF that, where P = "\<lambda>q. \<forall>p \<in> set q. length p < 16"])
      (use assms in \<open>auto simp: decode_process_def after_Accept push_eq split: if_splits\<close>)
  with assms show ?thesis
    by (auto simp: step_gives_def decode_step_gateway_performance_def after_Accept split: option.splits if_splits)
qed

lemma validate_result: "validate_iperf_options je a \<noteq> RETURN_ERR \<longleftrightarrow> validate_iperf_options je a = RETURN_OK"
  by (simp add: validate_iperf_options_def)

lemma length_prefer: "length p < 16 \<Longrightarrow> length (prefer_service je xs p) < 16"
  by (induction xs arbitrary: p) (auto split: option.split)

lemma step_gives_traffic:
  "step_gives je step step_param_type_config_iperf_server (decode_step_iperf_server je step)"
  "step_gives je step step_param_type_config_iperf_client (decode_step_iperf_client je step)"
  "step_gives je step step_param_type_ethernet_lan_interface (decode_step_configure_eth_client je step)"
  by (auto simp: step_gives_def after_Accept Let_def decode_step_iperf_server_def decode_iperf_server_start_def
        decode_step_iperf_client_def decode_iperf_client_start_def decode_step_configure_eth_client_def to_int_def
        validate_result prefer_member_def length_prefer split: option.splits if_splits)

lemma step_gives_upgrade:
  assumes "du_logging_step_numbers du = None"
  shows "step_gives je step step_param_type_upgrade_or_reboot (decode_step_configure_upgrade_or_reboot je step du)"
  using assms by (auto simp: step_gives_def after_Accept Let_def decode_step_configure_upgrade_or_reboot_def
      split: option.splits if_splits)

section \<open>The class of a decoded step\<close>

text \<open>
  The members that choose the class of a step, in the order they are looked for. A kind of statistics that is
  not known chooses none.
\<close>

definition stats_kinds :: "string list" where
  "stats_kinds = [''RadioChannelStats'', ''NeighborStats'', ''AssociatedDeviceStats'', ''RadioDiagnosticStats'',
     ''RadioTemperatureStats'']"

definition unknown_kind :: "'j json_env \<Rightarrow> 'j \<Rightarrow> string \<Rightarrow> bool" where
  "unknown_kind je step key \<longleftrightarrow>
     (case decode_param_string je (Some step) key of Accept v \<Rightarrow> v \<notin> set stats_kinds | _ \<Rightarrow> False)"

definition configuration_members :: "(string \<times> step_param_type) list" where
  "configuration_members =
     [(''RadioConfiguration'', step_param_type_radio), (''VapConfiguration'', step_param_type_vap),
      (''StationManagement'', step_param_type_station_management), (''Command'', step_param_type_command),
      (''DmlSubDoc'', step_param_type_dml_subdoc), (''DmlResetConfiguration'', step_param_type_dml_reset),
      (''LogOperation'', step_param_type_log_redirection)]"

definition file_members :: "(string \<times> step_param_type) list" where
  "file_members =
     [(''GetFile'', step_param_type_get_file), (''MgmtFrameCaptureRadioIndex'', step_param_type_mgmt_frame_capture),
      (''GetPatternFiles'', step_param_type_get_pattern_files), (''WaitTimeInSeconds'', step_param_type_timed_wait),
      (''OneWiFiSubdoc'', step_param_type_config_onewifi)]"

definition traffic_members :: "(string \<times> step_param_type) list" where
  "traffic_members =
     [(''GatewayPerformance'', step_param_type_gateway_performance), (''PacketGenerator'', step_param_type_packet_generator),
      (''IperfServerOptions'', step_param_type_config_iperf_server),
      (''IperfClientOptions'', step_param_type_config_iperf_client),
      (''ConfigureEthernetClient'', step_param_type_ethernet_lan_interface),
      (''UpgradeOrReboot'', step_param_type_upgrade_or_reboot)]"

definition class_members :: "(string \<times> step_param_type) list" where
  "class_members = configuration_members @ [(''GetStatsType'', step_param_type_stats_get)] @
     [(''SetStatsType'', step_param_type_stats_set)] @ file_members @ traffic_members"

definition decides :: "'j json_env \<Rightarrow> 'j \<Rightarrow> string \<times> step_param_type \<Rightarrow> bool" where
  "decides je step m \<longleftrightarrow> has_member je step (fst m) \<and>
     \<not> (snd m \<in> {step_param_type_stats_get, step_param_type_stats_set} \<and> unknown_kind je step (fst m))"

definition class_of :: "'j json_env \<Rightarrow> 'j \<Rightarrow> step_param_type option" where
  "class_of je step = map_option snd (find (decides je step) class_members)"

definition step_of_class :: "'j json_env \<Rightarrow> 'j \<Rightarrow> step_param_type \<Rightarrow> test_step decoded \<Rightarrow> bool" where
  "step_of_class je step t d \<longleftrightarrow>
     (\<forall>s. d = Accept s \<longrightarrow> ts_is_step_initialized s \<and> param_fits je step (ts_param s) \<and> param_type (ts_param s) = t)"

lemma make_step_class:
  "(ts_is_step_initialized s \<Longrightarrow> step_gives je step t d) \<Longrightarrow> step_of_class je step t (make_step je s d)"
  by (auto simp: make_step_def step_of_class_def step_gives_def after_Accept)

text \<open>A group that goes on has no member that decides; a group that decides does so by its first member.\<close>

definition group_ok :: "'j json_env \<Rightarrow> 'j \<Rightarrow> (string \<times> step_param_type) list \<Rightarrow> test_step decoded option \<Rightarrow> bool" where
  "group_ok je step ms r \<longleftrightarrow>
     (case r of
        None \<Rightarrow> find (decides je step) ms = None
      | Some d \<Rightarrow> \<exists>m. find (decides je step) ms = Some m \<and> step_of_class je step (snd m) d)"

lemmas constructor_defs = new_step_def new_step_with_def radio_new_def vap_new_def command_new_def dml_subdoc_new_def
  dml_reset_new_def logredirect_new_def get_file_new_def mgmt_frame_capture_new_def get_pattern_files_new_def
  timed_wait_new_def config_onewifi_new_def iperf_server_new_def iperf_client_new_def eth_lan_client_new_def

lemma configuration_group:
  "group_ok je step configuration_members (decode_configuration_steps je dir step)"
proof -
  have log: "step_of_class je step step_param_type_log_redirection (make_step je (logredirect_new m raw)
      (of_log_redirect (ts_param (logredirect_new m raw)) (decode_step_log_redirect je step)))" for m raw
    by (rule make_step_class) (auto simp: constructor_defs step_gives_log split: if_splits)
  have sta: "step_of_class je step step_param_type_station_management (make_step je (sta_management_new je raw)
      (of_sta_management (ts_param (sta_management_new je raw)) (decode_step_station_management_config je step)))" for raw
    by (rule make_step_class)
      (auto simp: sta_management_new_def constructor_defs step_gives_station queue_create_def split: if_splits)
  show ?thesis
    by (auto simp: group_ok_def decode_configuration_steps_def configuration_members_def decides_def Let_def
        intro: log sta make_step_class step_gives_simple)
qed

lemma stats_get_group: "group_ok je step [(''GetStatsType'', step_param_type_stats_get)] (decode_stats_get_steps je step)"
proof -
  have make: "step_of_class je step step_param_type_stats_get (make_step je (stats_get_new m raw)
      (of_stats_get (ts_param (stats_get_new m raw)) f))"
    if "\<And>g. sg_log_operation g \<noteq> log_operation_type_invalid \<Longrightarrow> step_gives je step step_param_type_stats_get (f g)" for m raw f
    by (rule make_step_class) (auto simp: stats_get_new_def new_step_def that split: if_splits)
  note steps = make [OF step_gives_stats_get(1)] make [OF step_gives_stats_get(2)] make [OF step_gives_stats_get(3)]
    make [OF step_gives_stats_get(4)] make [OF step_gives_stats_get(5)]
  show ?thesis
    by (cases "decode_param_string je (Some step) ''GetStatsType''")
      (simp_all add: group_ok_def decode_stats_get_steps_def decides_def unknown_kind_def stats_kinds_def Let_def steps
        step_of_class_def [of je step _ Undef] step_of_class_def [of je step _ Reject])
qed

lemma stats_set_group: "group_ok je step [(''SetStatsType'', step_param_type_stats_set)] (decode_stats_set_steps je step)"
proof -
  have make: "step_of_class je step step_param_type_stats_set (make_step je (stats_set_new m raw)
      (of_stats_set (ts_param (stats_set_new m raw)) f))"
    if "\<And>g. sw_stats_set_q g = [] \<Longrightarrow> sw_total_duration g = 0 \<Longrightarrow> step_gives je step step_param_type_stats_set (f g)" for m raw f
    by (rule make_step_class) (auto simp: stats_set_new_def new_step_def queue_create_def that split: if_splits)
  note steps = make [OF step_gives_stats_set(1)] make [OF step_gives_stats_set(2)] make [OF step_gives_stats_set(3)]
    make [OF step_gives_stats_set(4)] make [OF step_gives_stats_set(5)]
  show ?thesis
    by (cases "decode_param_string je (Some step) ''SetStatsType''")
      (simp_all add: group_ok_def decode_stats_set_steps_def decides_def unknown_kind_def stats_kinds_def Let_def steps
        step_of_class_def [of je step _ Undef] step_of_class_def [of je step _ Reject])
qed

lemma file_group: "group_ok je step file_members (decode_file_steps je step)"
  by (auto simp: group_ok_def decode_file_steps_def file_members_def decides_def Let_def
      intro: make_step_class step_gives_simple step_gives_numbers)

lemma traffic_group: "group_ok je step traffic_members (decode_traffic_steps je step)"
proof -
  have perf: "step_of_class je step step_param_type_gateway_performance (make_step je (gateway_performance_new m raw)
      (of_gateway_performance (ts_param (gateway_performance_new m raw)) (decode_step_gateway_performance je step)))" for m raw
    by (rule make_step_class)
      (auto simp: gateway_performance_new_def queue_create_def intro!: step_gives_performance split: if_splits)
  have pkt: "step_of_class je step step_param_type_packet_generator (make_step je (packet_generator_new raw)
      (of_packet_generator (ts_param (packet_generator_new raw)) (decode_step_packet_generator_config je step)))" for raw
    by (rule make_step_class)
      (auto simp: packet_generator_new_def new_step_def queue_create_def intro!: step_gives_packets)
  have upg: "step_of_class je step step_param_type_upgrade_or_reboot (make_step je (upgrade_or_reboot_new raw)
      (of_upgrade (ts_param (upgrade_or_reboot_new raw)) (decode_step_configure_upgrade_or_reboot je step)))" for raw
    by (rule make_step_class) (auto simp: upgrade_or_reboot_new_def intro!: step_gives_upgrade)
  have traffic: "step_of_class je step step_param_type_config_iperf_server (make_step je s (decode_step_iperf_server je step))"
    "step_of_class je step step_param_type_config_iperf_client (make_step je s (decode_step_iperf_client je step))"
    "step_of_class je step step_param_type_ethernet_lan_interface (make_step je s (decode_step_configure_eth_client je step))" for s
    by (rule make_step_class, rule step_gives_traffic)+
  show ?thesis
    by (simp add: group_ok_def decode_traffic_steps_def traffic_members_def decides_def Let_def
        step_of_class_def [of je step _ Undef] perf pkt upg traffic)
qed

lemma find_append: "find P (xs @ ys) = (case find P xs of None \<Rightarrow> find P ys | Some x \<Rightarrow> Some x)"
  by (induction xs) auto

lemma group_first:
  assumes "group_ok je step ms r"
    and "\<And>s. first_decided rs = Accept s \<Longrightarrow> \<exists>t. map_option snd (find (decides je step) ns) = Some t \<and> step_of_class je step t (Accept s)"
    and "first_decided (r # rs) = Accept s"
  shows "\<exists>t. map_option snd (find (decides je step) (ms @ ns)) = Some t \<and> step_of_class je step t (Accept s)"
  using assms by (cases r) (auto simp: group_ok_def find_append)

lemma decoded_step_class:
  assumes "decode_step_param_config je dir step = Accept s"
  shows "ts_is_step_initialized s \<and> param_fits je step (ts_param s) \<and> class_of je step = Some (param_type (ts_param s))"
proof -
  have "\<exists>t. map_option snd (find (decides je step) (class_members @ [])) = Some t \<and> step_of_class je step t (Accept s)"
    unfolding class_members_def append_assoc
    by (rule group_first [OF configuration_group], rule group_first [OF stats_get_group],
        rule group_first [OF stats_set_group], rule group_first [OF file_group], rule group_first [OF traffic_group])
      (use assms in \<open>simp_all add: decode_step_param_config_def\<close>)
  then show ?thesis by (auto simp: class_of_def step_of_class_def)
qed

end
