(* ===== verification/Json_Doc.thy ===== *)
theory Json_Doc
  imports Config_Json
begin

text \<open>
  Documents the program composes with the JSON library, and what it relies on when such a document is read
  again: the contract \<open>mirrors\<close> between a document and the node the library reads for it.
\<close>

section \<open>Documents\<close>

text \<open>A document as the code composes it with the JSON library; a printer for it is an argument.\<close>

datatype (plugins only: code size) json_doc =
    Doc_string string
  | Doc_number int
  | Doc_bool bool
  | Doc_array "json_doc list"
  | Doc_object "(string \<times> json_doc) list"

section \<open>Reading a document back\<close>

text \<open>
  The contract of the library: the node it reads mirrors the document it printed. The integer a
  number is read as is the number itself when it is one of an \<open>int\<close>.
\<close>

fun mirrors :: "'j json_env \<Rightarrow> json_doc \<Rightarrow> 'j \<Rightarrow> bool" where
  "mirrors je (Doc_string s) j \<longleftrightarrow> cj_is_string je j \<and> cj_valuestring je j = Some s"
| "mirrors je (Doc_number n) j \<longleftrightarrow> cj_is_number je j \<and> cj_valuedouble je j = of_int n \<and> (- (2 ^ 31) \<le> n \<and> n < 2 ^ 31 \<longrightarrow> cj_valueint je j = n)"
| "mirrors je (Doc_bool b) j \<longleftrightarrow> cj_is_bool je j \<and> cj_is_true je j = b"
| "mirrors je (Doc_array ds) j \<longleftrightarrow> cj_is_array je j \<and> list_all2 (mirrors je) ds (cj_elems je j)"
| "mirrors je (Doc_object ms) j \<longleftrightarrow> cj_is_object je j \<and>
     list_all (\<lambda>(k, d). case cj_item je j k of None \<Rightarrow> False | Some j' \<Rightarrow> mirrors je d j') ms"

text \<open>The value of a number.\<close>

definition number_member :: "'j json_env \<Rightarrow> 'j \<Rightarrow> string \<Rightarrow> int option" where
  "number_member je node key = map_option (cj_valueint je) (update_json_param_integer je (Some node) key)"

lemma mirrored_item:
  "mirrors je (Doc_object ms) j \<Longrightarrow> (k, d) \<in> set ms \<Longrightarrow> \<exists>a. cj_item je j k = Some a \<and> mirrors je d a"
  by (fastforce simp: list_all_iff split: option.splits)

lemma mirrored_string:
  "mirrors je (Doc_object ms) j \<Longrightarrow> (k, Doc_string t) \<in> set ms \<Longrightarrow> string_member je (Some j) k = Some t"
  by (drule (1) mirrored_item) (auto simp: string_member_def get_item_def)

lemma mirrored_number:
  "mirrors je (Doc_object ms) j \<Longrightarrow> (k, Doc_number n) \<in> set ms \<Longrightarrow> - (2 ^ 31) \<le> n \<Longrightarrow> n < 2 ^ 31 \<Longrightarrow>
     number_member je j k = Some n"
  by (drule (1) mirrored_item)
    (auto simp: number_member_def update_json_param_integer_def decode_param_integer_def get_item_def)

lemma mirrored_bool:
  "mirrors je (Doc_object ms) j \<Longrightarrow> (k, Doc_bool b) \<in> set ms \<Longrightarrow> bool_or je (Some j) k old = b"
  by (drule (1) mirrored_item) (auto simp: bool_or_def decode_param_bool_def get_item_def)

lemma mirrored_param_string:
  "mirrors je (Doc_object ms) j \<Longrightarrow> (k, Doc_string t) \<in> set ms \<Longrightarrow> t \<noteq> [] \<Longrightarrow> decode_param_string je (Some j) k = Accept t"
  by (drule (1) mirrored_item) (auto simp: decode_param_string_def get_item_def)

lemma mirrored_param_integer:
  "mirrors je (Doc_object ms) j \<Longrightarrow> (k, Doc_number n) \<in> set ms \<Longrightarrow>
     \<exists>v. decode_param_integer je (Some j) k = Accept v \<and> cj_valuedouble je v = of_int n \<and>
       (- (2 ^ 31) \<le> n \<and> n < 2 ^ 31 \<longrightarrow> cj_valueint je v = n)"
  by (drule (1) mirrored_item) (auto simp: decode_param_integer_def get_item_def)

lemma to_uint_uint: "to_uint (of_int (uint (x :: u32))) = Accept x"
  unfolding to_uint_def truncate_rat_of_int Let_def using uint_lt2p [of x] by simp

end
