(* ===== verification/Decode_Runs.thy ===== *)
theory Decode_Runs
  imports Decode_Facts Gateway_Runs Json_Doc
begin

text \<open>
  The properties of the decoding of a test configuration, and its composition with the thread that runs a test
  case. The JSON library of the witnesses is a small datatype of values.
\<close>

section \<open>A JSON library for the witnesses\<close>

datatype (plugins only: code size) sample_json =
  J_null | J_bool bool | J_number int | J_string string | J_array "sample_json list" | J_object "(string \<times> sample_json) list"

fun sj_item :: "sample_json \<Rightarrow> string \<Rightarrow> sample_json option" where
  "sj_item (J_object ms) key = map_of ms key"
| "sj_item _ key = None"

fun sj_string :: "sample_json \<Rightarrow> string option" where
  "sj_string (J_string s) = Some s"
| "sj_string _ = None"

fun sj_int :: "sample_json \<Rightarrow> int" where
  "sj_int (J_number n) = n"
| "sj_int _ = 0"

fun sj_elems :: "sample_json \<Rightarrow> sample_json list" where
  "sj_elems (J_array xs) = xs"
| "sj_elems (J_object ms) = map snd ms"
| "sj_elems _ = []"

definition sample_sta_test :: sta_test where
  "sample_sta_test = \<lparr>st_connection_type = client_connection_type_internal, st_ap_vap_name = [],
     st_capture_sta_requests = False, st_test_station_config = [], st_wait_connection = False,
     st_is_station_prototype_enabled = False,
     st_station_prototype = \<lparr>sp_fc_request_summary = empty_request, sp_fc_prototype_q = None\<rparr>\<rparr>"

definition sample_raw_case :: test_case where
  "sample_raw_case = \<lparr>tc_coverage = 0, tc_type = wlan_emu_test_1_subtype_radio, tc_state = wlan_emu_tests_state_cmd_none,
     tc_name = [], tc_id = [], tc_steps = []\<rparr>"

text \<open>The parser of the sample knows one text, the document it is given.\<close>

definition sample_json_env :: "sample_json \<Rightarrow> sample_json json_env" where
  "sample_json_env doc = \<lparr>cj_parse = (\<lambda>s. if s = ''json'' then Some doc else None), cj_item = sj_item,
     cj_is_string = (\<lambda>j. case j of J_string s \<Rightarrow> True | _ \<Rightarrow> False), cj_valuestring = sj_string,
     cj_is_number = (\<lambda>j. case j of J_number n \<Rightarrow> True | _ \<Rightarrow> False), cj_valueint = sj_int,
     cj_valuedouble = (\<lambda>j. of_int (sj_int j)),
     cj_is_bool = (\<lambda>j. case j of J_bool b \<Rightarrow> True | _ \<Rightarrow> False),
     cj_is_true = (\<lambda>j. case j of J_bool b \<Rightarrow> b | _ \<Rightarrow> False),
     cj_is_array = (\<lambda>j. case j of J_array xs \<Rightarrow> True | _ \<Rightarrow> False),
     cj_is_object = (\<lambda>j. case j of J_object ms \<Rightarrow> True | _ \<Rightarrow> False), cj_elems = sj_elems,
     je_new = True, je_member = True, je_calloc = True, je_raw = sample_step (P_timed_wait 0),
     je_raw_sta = sample_sta_test, je_raw_case = sample_raw_case, je_cm_mac = replicate 6 0,
     je_max_radios = 3, je_max_vaps = 8, je_atof = (\<lambda>s. 1), je_valid_ip = (\<lambda>s. True), je_resolvable = (\<lambda>s. False)\<rparr>"

text \<open>What the sample reads for a document.\<close>

fun sample_of :: "json_doc \<Rightarrow> sample_json" where
  "sample_of (Doc_string s) = J_string s"
| "sample_of (Doc_number n) = J_number n"
| "sample_of (Doc_bool b) = J_bool b"
| "sample_of (Doc_array ds) = J_array (map sample_of ds)"
| "sample_of (Doc_object ms) = J_object (map (\<lambda>(k, d). (k, sample_of d)) ms)"

section \<open>The steps of a decoded test case\<close>

text \<open>The nodes that are decoded: after a reboot those that were executed before it are left out.\<close>

definition kept_nodes :: "'j json_env \<Rightarrow> u32 \<Rightarrow> u32 list \<Rightarrow> 'j list \<Rightarrow> 'j list" where
  "kept_nodes je executed paused nodes =
     (if executed = 0 then nodes else filter (check_reboot_step_config je executed paused) nodes)"

definition step_of_node :: "'j json_env \<Rightarrow> 'j \<Rightarrow> test_step \<Rightarrow> bool" where
  "step_of_node je node s \<longleftrightarrow> class_of je node = Some (param_type (ts_param s)) \<and> param_fits je node (ts_param s) \<and>
     ts_is_step_initialized s \<and> ts_test_state s = wlan_emu_tests_state_cmd_request \<and>
     map_option atoi (update_json_param_string je (Some node) ''StepNumber'') = Some (ts_step_number s)"

lemma common_config_keeps:
  assumes "decode_step_common_config je node s = Accept s'"
  shows "ts_param s' = ts_param s \<and> ts_is_step_initialized s' = ts_is_step_initialized s \<and>
     ts_test_state s' = wlan_emu_tests_state_cmd_request \<and>
     map_option atoi (update_json_param_string je (Some node) ''StepNumber'') = Some (ts_step_number s')"
proof -
  obtain v where v: "decode_param_string je (Some node) ''StepNumber'' = Accept v"
    using assms by (auto simp: decode_step_common_config_def after_Accept)
  then show ?thesis
    using assms by (auto simp: decode_step_common_config_def update_json_param_string_def after_Accept Let_def
        split: decoded.splits option.splits if_splits)
qed

lemma decode_steps_nodes:
  assumes "je_calloc je"
  shows "decode_steps je dir executed paused nodes n q = Accept q' \<Longrightarrow>
     \<exists>new. q' = rev new @ q \<and> list_all2 (step_of_node je) (kept_nodes je executed paused nodes) new \<and>
       (\<forall>i < length new. ts_step_seq_num (new ! i) = n + of_nat i)"
proof (induction nodes arbitrary: n q)
  case Nil
  then show ?case by (simp add: kept_nodes_def)
next
  case (Cons node nodes)
  show ?case
  proof (cases "executed \<noteq> 0 \<and> \<not> check_reboot_step_config je executed paused node")
    case True
    then show ?thesis using Cons by (simp add: kept_nodes_def)
  next
    case False
    then obtain s0 s where s: "decode_step_param_config je dir node = Accept s0"
      "decode_step_common_config je node s0 = Accept s"
      "decode_steps je dir executed paused nodes (n + 1) (s\<lparr>ts_step_seq_num := n\<rparr> # q) = Accept q'"
      using Cons.prems assms by (auto simp: after_Accept push_eq)
    obtain new where new: "q' = rev new @ s\<lparr>ts_step_seq_num := n\<rparr> # q"
      "list_all2 (step_of_node je) (kept_nodes je executed paused nodes) new"
      "\<forall>i < length new. ts_step_seq_num (new ! i) = n + 1 + of_nat i"
      using Cons.IH [OF s(3)] by blast
    have "step_of_node je node (s\<lparr>ts_step_seq_num := n\<rparr>)"
      using decoded_step_class [OF s(1)] common_config_keeps [OF s(2)] by (simp add: step_of_node_def)
    moreover have "kept_nodes je executed paused (node # nodes) = node # kept_nodes je executed paused nodes"
      using False by (auto simp: kept_nodes_def)
    moreover have "ts_step_seq_num ((s\<lparr>ts_step_seq_num := n\<rparr> # new) ! i) = n + of_nat i" if "i < Suc (length new)" for i
      using that new(3) by (cases i) (simp_all add: algebra_simps)
    ultimately show ?thesis
      using new(1,2) by (intro exI [of _ "s\<lparr>ts_step_seq_num := n\<rparr> # new"]) simp
  qed
qed

lemma numbered_rev:
  assumes "\<forall>i < length new. ts_step_seq_num (new ! i) = of_nat i"
  shows "numbered (rev new)"
  using assms by (auto simp: numbered_def seq_no_def rev_nth)

lemma decoded_case:
  assumes "decode_coverage_config je node coverage_type test_type u = (Accept c, u')"
  shows "numbered (tc_steps c)" "list_all2 (step_of_node je)
     (kept_nodes je (u_last_executed_step_num u) (u_paused_logging_steps u) (cj_elems je node)) (rev (tc_steps c))"
    "tc_coverage c = coverage_type" "tc_type c = test_type" "tc_state c = wlan_emu_tests_state_cmd_request"
    "u' = u\<lparr>u_last_executed_step_num := 0\<rparr>"
proof -
  obtain q where q: "je_calloc je" "decode_steps je (w_test_results_dir (u_world u)) (u_last_executed_step_num u)
      (u_paused_logging_steps u) (cj_elems je node) 0 queue_create = Accept q"
    and c: "c = (je_raw_case je)\<lparr>tc_coverage := coverage_type, tc_type := test_type,
      tc_state := wlan_emu_tests_state_cmd_request, tc_steps := q\<rparr>" "u' = u\<lparr>u_last_executed_step_num := 0\<rparr>"
    using assms by (auto simp: decode_coverage_config_def decode_step_config_def split: if_splits decoded.splits)
  from decode_steps_nodes [OF q] obtain new where new: "q = rev new"
    "list_all2 (step_of_node je)
       (kept_nodes je (u_last_executed_step_num u) (u_paused_logging_steps u) (cj_elems je node)) new"
    "\<forall>i < length new. ts_step_seq_num (new ! i) = of_nat i"
    by (auto simp: queue_create_def)
  show "numbered (tc_steps c)" using numbered_rev [OF new(3)] new(1) c(1) by simp
  show "list_all2 (step_of_node je)
     (kept_nodes je (u_last_executed_step_num u) (u_paused_logging_steps u) (cj_elems je node)) (rev (tc_steps c))"
    using new(1,2) c(1) by simp
  show "tc_coverage c = coverage_type" "tc_type c = test_type" "tc_state c = wlan_emu_tests_state_cmd_request"
    "u' = u\<lparr>u_last_executed_step_num := 0\<rparr>"
    using c by simp_all
qed

text \<open>
  C10. What the steps of a configuration become: an accepted list of nodes gives a test case whose steps are, in
  the order of the list, the nodes that are not left out by the reboot check; each step has the class of the
  first member of its node that chooses one, values that fit that class (\<open>param_fits\<close>), the step number of the
  node and the requested state, and they are numbered from 0. The manager then forgets the step that was
  executed last.
\<close>

theorem decoded_case_steps:
  assumes "decode_coverage_config je node coverage_type test_type u = (Accept c, u')"
  shows "numbered (tc_steps c) \<and> list_all2 (step_of_node je)
       (kept_nodes je (u_last_executed_step_num u) (u_paused_logging_steps u) (cj_elems je node)) (rev (tc_steps c)) \<and>
     tc_coverage c = coverage_type \<and> tc_type c = test_type \<and> tc_state c = wlan_emu_tests_state_cmd_request \<and>
     u' = u\<lparr>u_last_executed_step_num := 0\<rparr>"
  using decoded_case [OF assms] by simp

text \<open>
  C22. The type of a decoded step: an accepted node has a member that chooses a class, the first of them is the
  class of the step, and what is stored for the class fits it: strings are shorter than their buffers, the
  radio and access point indices of statistics are below the hardware's numbers, log operations are valid, iperf
  options are checked, logs are numbered exactly when logging is enabled. The seconds of a wait and the radio
  and duration of a frame capture are the numbers of the node, with no bound of their own.
\<close>

theorem decoded_step_type:
  assumes "decode_step_param_config je dir step = Accept s"
  shows "ts_is_step_initialized s \<and> param_fits je step (ts_param s) \<and> class_of je step = Some (param_type (ts_param s))"
  by (rule decoded_step_class [OF assms])

definition stats_node :: sample_json where
  "stats_node = J_object [(''GetStatsType'', J_string ''RadioDiagnosticStats''), (''RadioIndex'', J_string ''2''),
     (''Duration'', J_string ''30''), (''StatResponseType'', J_bool True)]"

lemma stats_node_decodes:
  "(case decode_step_param_config (sample_json_env J_null) [] stats_node of Accept s \<Rightarrow> True | _ \<Rightarrow> False)"
  by code_simp

theorem decoded_step_type_witness:
  "\<exists>s. decode_step_param_config (sample_json_env J_null) [] stats_node = Accept s \<and>
     param_fits (sample_json_env J_null) stats_node (ts_param s) \<and>
     class_of (sample_json_env J_null) stats_node = Some (param_type (ts_param s))"
proof -
  obtain s where s: "decode_step_param_config (sample_json_env J_null) [] stats_node = Accept s"
    using stats_node_decodes by (auto split: decoded.splits)
  with decoded_step_type [OF s] show ?thesis by blast
qed

text \<open>Steps of a configuration that run a command.\<close>

definition command_node :: "string \<Rightarrow> sample_json" where
  "command_node n = J_object [(''StepNumber'', J_string n), (''Command'', J_string ''ls'')]"

definition sample_nodes :: sample_json where
  "sample_nodes = J_array [command_node ''1'', command_node ''2'', command_node ''3'']"

text \<open>A manager that resumes behind the second step, whose log was paused at the first.\<close>

definition resumed_ui :: ui_mgr where
  "resumed_ui = sample_ui\<lparr>u_last_executed_step_num := 2, u_paused_logging_steps := [1]\<rparr>"

lemma resumed_decodes:
  "(case decode_coverage_config (sample_json_env J_null) sample_nodes 1 wlan_emu_test_1_subtype_radio resumed_ui of
      (Accept c, u) \<Rightarrow> map ts_step_number (rev (tc_steps c)) = [1, 3] | _ \<Rightarrow> False)"
  by code_simp

theorem decoded_case_steps_witness:
  "\<exists>c u'. decode_coverage_config (sample_json_env J_null) sample_nodes 1 wlan_emu_test_1_subtype_radio resumed_ui = (Accept c, u') \<and>
     map ts_step_number (rev (tc_steps c)) = [1, 3] \<and> numbered (tc_steps c) \<and> u_last_executed_step_num u' = 0"
proof -
  obtain c u' where d: "decode_coverage_config (sample_json_env J_null) sample_nodes 1 wlan_emu_test_1_subtype_radio resumed_ui
      = (Accept c, u')" "map ts_step_number (rev (tc_steps c)) = [1, 3]"
    using resumed_decodes by (auto split: prod.splits decoded.splits)
  with decoded_case_steps [OF d(1)] show ?thesis by auto
qed

section \<open>Running a decoded test case\<close>

definition class_modelled :: "'j json_env \<Rightarrow> 'j \<Rightarrow> bool" where
  "class_modelled je node \<longleftrightarrow> (case class_of je node of None \<Rightarrow> False | Some t \<Rightarrow> modelled_class t)"

text \<open>
  What the scheduler relies on of the steps of a case it starts: the decoding establishes it, so that the
  properties of \<open>Test_Runs\<close> apply to every run of a decoded case of modelled classes.
\<close>

lemma decoded_case_fresh:
  assumes d: "decode_coverage_config je node coverage_type test_type u = (Accept c, u')"
    and nodes: "kept_nodes je (u_last_executed_step_num u) (u_paused_logging_steps u) (cj_elems je node) = nodes"
    and short: "nodes \<noteq> []" "length nodes < 31" "list_all (class_modelled je) nodes"
  shows "fresh_steps modelled_class (tc_steps c)"
proof -
  have l: "list_all2 (step_of_node je) nodes (rev (tc_steps c))"
    using decoded_case(2) [OF d] nodes by simp
  then have len: "length (tc_steps c) = length nodes" by (auto dest: list_all2_lengthD)
  have each: "modelled_class (param_type (ts_param s)) \<and> ts_test_state s = wlan_emu_tests_state_cmd_request"
    if "s \<in> set (tc_steps c)" for s
  proof -
    have "s \<in> set (rev (tc_steps c))" using that by simp
    then obtain i where i: "i < length nodes" "rev (tc_steps c) ! i = s"
      using len by (auto simp only: in_set_conv_nth length_rev)
    have "step_of_node je (nodes ! i) s" using list_all2_nthD [OF l i(1)] i(2) by simp
    moreover have "class_modelled je (nodes ! i)" using short(3) i(1) by (simp add: list_all_length)
    ultimately show ?thesis by (auto simp add: step_of_node_def class_modelled_def)
  qed
  show ?thesis
    using decoded_case(1) [OF d] len short(1,2) each by (simp add: fresh_steps_def all_covered_def) (metis list.size(3) length_0_conv)
qed

section \<open>Bounds\<close>

text \<open>
  The check of the radio of a frame capture never refuses: it asks for a number that is negative and
  at least the number of radios. Every integer from 0 to \<open>2 ^ 32 - 1\<close> is stored as the radio index.
\<close>

theorem capture_radio_unchecked:
  assumes "cj_item je step ''MgmtFrameCaptureRadioIndex'' = Some v" "cj_is_number je v" "cj_valuedouble je v = of_int i"
    and "cj_item je step ''Duration'' = Some d" "cj_is_number je d" "cj_valuedouble je d = of_int n"
    and "0 \<le> i" "i < 2 ^ 32" "0 \<le> n" "n < 2 ^ 32"
  shows "decode_step_mgmt_frame_capture je step =
     Accept (P_mgmt_frame_capture \<lparr>mf_radio_index = of_int i, mf_duration = of_int n\<rparr>)"
  using assms by (simp add: decode_step_mgmt_frame_capture_def decode_param_integer_def unsigned_member_def get_item_def to_uint_def)

theorem capture_radio_unchecked_witness:
  "\<exists>step. decode_step_mgmt_frame_capture (sample_json_env J_null) step =
     Accept (P_mgmt_frame_capture \<lparr>mf_radio_index = 200, mf_duration = 5\<rparr>) \<and> je_max_radios (sample_json_env J_null) = 3"
  using capture_radio_unchecked [of "sample_json_env J_null"
      "J_object [(''MgmtFrameCaptureRadioIndex'', J_number 200), (''Duration'', J_number 5)]" "J_number 200" 200 "J_number 5" 5]
  by (intro exI) (simp add: sample_json_env_def)

section \<open>Configurations that crash the decoder\<close>

text \<open>
  C26. A configuration whose next test case is a client connection with neither an authentication nor a
  real-client list is not refused. The decoder reaches its end without a test case and writes the
  identifier through the null pointer, whatever the test cases before it were.
\<close>

theorem client_connection_crashes:
  assumes "cj_parse je raw = Some root_json" "decode_addresses je root_json u = (Accept x, v)"
    and "cj_item je root_json ''TestCoverages'' = Some cov" "cj_is_array je cov" "cj_elems je cov = es @ e # fs"
    and "decode_coverages je es v = (Accept y, w)"
    and "decode_param_string je (Some e) ''TestCoverageCategory'' = Accept ''1''"
    and "cj_item je e ''Configuration'' = Some conf" "cj_is_object je conf"
    and "cj_item je conf ''Radio'' = None" "cj_item je conf ''NetworkServiceConfiguration'' = None"
    and "cj_item je conf ''ClientConnection'' = Some test"
    and "cj_item je test ''Authentication'' = None" "cj_item je test ''RealClient'' = None"
  shows "decode_json_config je raw u = None"
proof -
  have one: "atoi ''1'' = 1" by code_simp
  have "fst (decode_coverage je e w) = Undef"
    using assms(7-14) by (simp add: decode_coverage_def one decode_param_object_def get_item_def decode_coverage_1_config_def
        coverage_1_entry_def decode_entry_def deref_def)
  then have rest: "fst (decode_coverages je (e # fs) w) = Undef"
    by (cases "decode_coverage je e w") simp
  have "fst (decode_coverages je (es @ e # fs) v) = Undef"
    using assms(6) rest by (induction es arbitrary: v) (auto split: prod.splits decoded.splits)
  then show ?thesis
    using assms(1-5) by (auto simp: decode_json_config_def split: prod.splits)
qed

definition address_members :: "(string \<times> sample_json) list" where
  "address_members = [(''Version'', J_string ''1''), (''SubDocName'', J_string ''cci''),
     (''RemoteServerAddress'', J_string ''https://tda''), (''ResultsLocation'', J_string ''/results'')]"

definition lost_client :: sample_json where
  "lost_client = J_object [(''TestCoverageCategory'', J_string ''1''), (''TestCaseId'', J_string ''7''),
     (''Configuration'', J_object [(''ClientConnection'', J_object [(''RealClients'', J_array [])])])]"

definition lost_client_doc :: sample_json where
  "lost_client_doc = J_object (address_members @ [(''TestCoverages'', J_array [lost_client])])"

theorem client_connection_crashes_witness:
  "decode_json_config (sample_json_env lost_client_doc) ''json'' sample_ui = None"
proof -
  let ?je = "sample_json_env lost_client_doc"
  obtain v where v: "decode_addresses ?je lost_client_doc sample_ui = (Accept (), v)"
    by (cases "decode_addresses ?je lost_client_doc sample_ui") 
      (simp add: decode_addresses_def decode_param_string_def get_item_def sample_json_env_def lost_client_doc_def address_members_def Let_def)
  show ?thesis
    by (rule client_connection_crashes [OF _ v, where es = "[]" and e = lost_client and fs = "[]" and w = v
        and cov = "J_array [lost_client]" and conf = "J_object [(''ClientConnection'', J_object [(''RealClients'', J_array [])])]"
        and test = "J_object [(''RealClients'', J_array [])]"])
      (simp_all add: sample_json_env_def lost_client_doc_def address_members_def lost_client_def decode_param_string_def get_item_def)
qed

end
