(* ===== verification/Reboot_Step.thy ===== *)
theory Reboot_Step
  imports Decode_Runs
begin

text \<open>
  The upgrade step (\<open>tests/wlan_emu_test_param_upgrade_or_reboot.cpp\<close>), which stops the paused logs, writes down
  where the test has to go on and reboots, and the reading of what it wrote by the UI manager that starts
  after the reboot (\<open>decode_reboot_case_json\<close>, \<open>ui/wlan_emu_ui_mgr.cpp\<close>).
\<close>

section \<open>The document\<close>

text \<open>The numbers of the log steps are popped, the oldest first.\<close>

fun pop_numbers :: "nat \<Rightarrow> u32 queue \<Rightarrow> u32 list" where
  "pop_numbers 0 q = []"
| "pop_numbers (Suc n) q = (case queue_pop q of (None, q) \<Rightarrow> [] | (Some k, q) \<Rightarrow> k # pop_numbers n q)"

definition written_url :: "ui_mgr \<Rightarrow> string" where
  "written_url u = (if w_local_host (u_world u) then ''http://localhost'' @ u_tda_url u else u_tda_url u)"

definition reboot_document :: "ui_mgr \<Rightarrow> test_step \<Rightarrow> device_upgrade \<Rightarrow> json_doc" where
  "reboot_document u s du =
     (let q = (case du_logging_step_numbers du of None \<Rightarrow> [] | Some q \<Rightarrow> q);
          count = unat (queue_count q)
      in Doc_object
        [(''config file'', Doc_string (written_url u)),
         (''server_address'', Doc_string (w_server_address (u_world u))),
         (''interface'', Doc_string (u_interface u)),
         (''simulated_client_count'', Doc_number (u_simulated u)),
         (''ResultsFileName'', Doc_string (u_out_file_list u)),
         (''is_logging_enabled'', Doc_bool (count > 0)),
         (''count_logging_step_numbers'', Doc_number (int count)),
         (''logging_step_numbers'', Doc_array (map (\<lambda>k. Doc_object [(''step_number'', Doc_number (uint k))]) (pop_numbers count q))),
         (''last_executed_step_number'', Doc_number (uint (of_int (ts_step_number s) :: u32)))])"

text \<open>The queue is empty when the document is made, whether or not it can be written.\<close>

definition create_reboot_case_json ::
  "(json_doc \<Rightarrow> string) \<Rightarrow> environment \<Rightarrow> test_step \<Rightarrow> device_upgrade \<Rightarrow> ui_mgr \<Rightarrow> int \<times> device_upgrade \<times> ui_mgr" where
  "create_reboot_case_json pr env s du u =
     (let du' = du\<lparr>du_logging_step_numbers := map_option (\<lambda>q. []) (du_logging_step_numbers du)\<rparr>
      in if \<not> env_open_w env REBOOT_STEP_CONFIG then (RETURN_ERR, du', u)
         else (RETURN_OK, du', ui_effect (Fx_write REBOOT_STEP_CONFIG (pr (reboot_document u s du))) u))"

section \<open>The step\<close>

text \<open>
  The log steps that go on after the reboot are stopped, the newest first; an upload that fails is passed over.
  \<open>None\<close> is a read through the wrong member of the union: of a step of another class, or, for a step that is
  not there, of the reboot step itself by the message that reports it.
\<close>

fun stop_logs :: "environment \<Rightarrow> u32 list \<Rightarrow> test_step queue \<Rightarrow> world \<Rightarrow> (test_step queue \<times> world) option" where
  "stop_logs env [] q w = Some (q, w)"
| "stop_logs env (n # ns) q w =
     (case get_step_from_step_number q (sint n) of
        None \<Rightarrow> None
      | Some (j, log_step) \<Rightarrow>
          (case ts_param log_step of
             P_log_redirect k \<Rightarrow>
               stop_logs env ns (q[j := log_step\<lparr>ts_param := P_log_redirect (k\<lparr>lr_operation := log_operation_type_stop\<rparr>)\<rparr>])
                 (snd (step_upload_files env (lr_result_file k)
                   (add_fx (Fx_close (lr_redirect_fd k)) (add_fx (Fx_thread_cancel (ts_step_number log_step)) w))))
           | _ \<Rightarrow> None))"

definition abort_step :: "nat \<Rightarrow> test_step queue \<Rightarrow> test_step queue" where
  "abort_step i q = q[i := set_state wlan_emu_tests_state_cmd_abort (q ! i)]"

text \<open>
  The execution on the step at index \<open>i\<close>. It never succeeds: a reboot that works does not come back.
  \<open>None\<close> is a bad read, in the logs or in the upload of the results.
\<close>

definition upgrade_execute ::
  "ui_env \<Rightarrow> (json_doc \<Rightarrow> string) \<Rightarrow> device_upgrade \<Rightarrow> nat \<Rightarrow> test_step queue \<Rightarrow> ui_mgr \<Rightarrow>
     (int \<times> test_step queue \<times> ui_mgr) option" where
  "upgrade_execute ue pr du i q u =
     (let env = ue_env ue (u_calls u);
          numbers = (case du_logging_step_numbers du of None \<Rightarrow> [] | Some ns \<Rightarrow> ns)
      in case stop_logs env numbers q (u_world u) of
           None \<Rightarrow> None
         | Some (q, w) \<Rightarrow>
             (case create_reboot_case_json pr env (q ! i) du (u\<lparr>u_world := w, u_calls := Suc (u_calls u)\<rparr>) of
                (rc, du, u) \<Rightarrow>
                  let q = q[i := (q ! i)\<lparr>ts_param := P_upgrade_or_reboot du\<rparr>]
                  in if rc \<noteq> RETURN_OK then Some (RETURN_ERR, abort_step i q, set_ui_error EJSONPARSE u)
                     else (case upload_results ue u of
                             None \<Rightarrow> None
                           | Some (rc, u) \<Rightarrow>
                               (case cci_report_pause_to_tda ue u of
                                  (rc, u) \<Rightarrow> Some (RETURN_ERR, abort_step i q, set_ui_error ECURLPOST u)))))"

definition upgrade_timeout :: "test_step \<Rightarrow> world \<Rightarrow> step_result" where
  "upgrade_timeout s w = (RETURN_OK, s, w)"

section \<open>After the reboot\<close>

text \<open>A string member, copied into a buffer whose last byte stays zero.\<close>

definition stored_member :: "'j json_env \<Rightarrow> 'j \<Rightarrow> string \<Rightarrow> nat \<Rightarrow> string \<Rightarrow> string" where
  "stored_member je root_json key n old =
     (case string_member je (Some root_json) key of None \<Rightarrow> old | Some v \<Rightarrow> take n v)"

text \<open>
  The numbers of the paused log steps are written into the array that was allocated for as many as the count says.
\<close>

fun fill_paused :: "'j json_env \<Rightarrow> nat \<Rightarrow> 'j list \<Rightarrow> u32 list \<Rightarrow> u32 list decoded" where
  "fill_paused je i [] ps = Accept ps"
| "fill_paused je i (item # items) ps =
     (case number_member je item ''step_number'' of
        None \<Rightarrow> fill_paused je (Suc i) items ps
      | Some k \<Rightarrow> if i < length ps then fill_paused je (Suc i) items (ps[i := of_int k]) else Undef)"

text \<open>
  A negative count is more than there is memory. An array without a count goes where an earlier one went;
  the empty list is the null pointer the manager starts with.
\<close>

definition decode_paused_steps :: "'j json_env \<Rightarrow> 'j \<Rightarrow> u32 list \<Rightarrow> u32 list decoded" where
  "decode_paused_steps je root_json old =
     (case number_member je root_json ''count_logging_step_numbers'' of
        Some n \<Rightarrow>
          if \<not> je_member je \<or> n < 0 then Reject
          else (case cj_item je root_json ''logging_step_numbers'' of
                  None \<Rightarrow> Accept (replicate (nat n) 0)
                | Some l \<Rightarrow>
                    if cj_is_array je l then fill_paused je 0 (cj_elems je l) (replicate (nat n) 0)
                    else Accept (replicate (nat n) 0))
      | None \<Rightarrow>
          (case cj_item je root_json ''logging_step_numbers'' of
             None \<Rightarrow> Accept old
           | Some l \<Rightarrow> if \<not> cj_is_array je l then Accept old
                      else if old = [] then Reject else fill_paused je 0 (cj_elems je l) old))"

text \<open>The address of the configuration also says whether it is local.\<close>

definition restore_config_file :: "'j json_env \<Rightarrow> 'j \<Rightarrow> ui_mgr \<Rightarrow> ui_mgr" where
  "restore_config_file je root_json u =
     (case string_member je (Some root_json) ''config file'' of
        None \<Rightarrow> u
      | Some v \<Rightarrow> u\<lparr>u_tda_url := take 127 v,
          u_world := (u_world u)\<lparr>w_local_host := (strstr (take 127 v) ''localhost'' \<noteq> None)\<rparr>\<rparr>)"

text \<open>
  The check of the server address looks at the node of the configuration file: there may be none, and then it
  is read through a null pointer.
\<close>

definition restore_server_address :: "'j json_env \<Rightarrow> 'j \<Rightarrow> ui_mgr \<Rightarrow> ui_mgr decoded" where
  "restore_server_address je root_json u =
     (case cj_item je root_json ''server_address'' of
        None \<Rightarrow> Accept u
      | Some a \<Rightarrow>
          if \<not> cj_is_string je a then Accept u
          else after (deref (cj_item je root_json ''config file'')) (\<lambda>cfg_file.
               if cj_valuestring je cfg_file = None then Accept u
               else after (deref (cj_valuestring je a)) (\<lambda>v.
                 Accept (u\<lparr>u_world := (u_world u)\<lparr>w_server_address := take 127 v\<rparr>\<rparr>))))"

definition decode_reboot_case_json :: "'j json_env \<Rightarrow> string option \<Rightarrow> ui_mgr \<Rightarrow> (int \<times> ui_mgr) option" where
  "decode_reboot_case_json je content u =
     (case content of
        None \<Rightarrow> Some (RETURN_ERR, u)
      | Some d \<Rightarrow>
          (case cj_parse je d of
             None \<Rightarrow> Some (RETURN_ERR, u)
           | Some root_json \<Rightarrow>
               (case restore_server_address je root_json (restore_config_file je root_json u) of
                  Undef \<Rightarrow> None
                | Reject \<Rightarrow> Some (RETURN_ERR, u)
                | Accept u \<Rightarrow>
                    let u = u\<lparr>u_interface := stored_member je root_json ''interface'' 15 (u_interface u),
                              u_simulated := (case number_member je root_json ''simulated_client_count'' of
                                                None \<Rightarrow> u_simulated u | Some n \<Rightarrow> n),
                              u_out_file_list := stored_member je root_json ''ResultsFileName'' 127 (u_out_file_list u)\<rparr>;
                        last_step = (\<lambda>u. case number_member je root_json ''last_executed_step_number'' of
                                       None \<Rightarrow> u | Some n \<Rightarrow> u\<lparr>u_last_executed_step_num := of_int n\<rparr>)
                    in if \<not> bool_or je (Some root_json) ''is_logging_enabled'' False then Some (RETURN_OK, last_step u)
                       else (case decode_paused_steps je root_json (u_paused_logging_steps u) of
                               Undef \<Rightarrow> None
                             | Reject \<Rightarrow> Some (RETURN_ERR, u\<lparr>u_paused_logging_steps := []\<rparr>)
                             | Accept ps \<Rightarrow> Some (RETURN_OK, last_step (u\<lparr>u_paused_logging_steps := ps\<rparr>))))))"

section \<open>What is read is what was written\<close>

lemma int_of_u32 [simp]: "(of_int (uint (k :: u32)) :: u32) = k"
  by simp

lemma fill_paused_mirrors:
  assumes "list_all2 (mirrors je) (map (\<lambda>k. Doc_object [(''step_number'', Doc_number (uint k))]) ks) items"
    and "list_all (\<lambda>k. uint k < 2 ^ 31) ks"
  shows "fill_paused je (length ps) items (ps @ replicate (length ks) 0) = Accept (ps @ ks)"
  using assms
proof (induction ks arbitrary: ps items)
  case (Cons k ks)
  then obtain item rest where items: "items = item # rest" "list_all2 (mirrors je) (map (\<lambda>k. Doc_object [(''step_number'', Doc_number (uint k))]) ks) rest"
      "mirrors je (Doc_object [(''step_number'', Doc_number (uint k))]) item"
    by (auto simp: list_all2_Cons1)
  have pos: "- (2 ^ 31) \<le> uint k" by (rule order_trans [of _ 0]) simp_all
  have "number_member je item ''step_number'' = Some (uint k)"
    using items(3) Cons.prems(2) pos
    by (auto simp: number_member_def update_json_param_integer_def decode_param_integer_def get_item_def split: option.splits)
  then show ?case using Cons.IH [OF items(2), of "ps @ [k]"] Cons.prems(2) items(1)
    by (simp add: list_update_append)
qed simp

lemma pop_numbers_rev: "pop_numbers (length q) q = rev q"
proof (induction q rule: rev_induct)
  case (snoc x xs)
  then show ?case by (simp add: queue_pop_def)
qed simp

text \<open>The manager that reads a document it could have written for the step \<open>s\<close> as the manager \<open>u\<close>.\<close>

definition resumed :: "ui_mgr \<Rightarrow> test_step \<Rightarrow> u32 queue \<Rightarrow> ui_mgr \<Rightarrow> ui_mgr" where
  "resumed u s q v = v\<lparr>u_tda_url := written_url u, u_interface := u_interface u, u_simulated := u_simulated u,
     u_out_file_list := u_out_file_list u, u_last_executed_step_num := of_int (ts_step_number s),
     u_paused_logging_steps := (if q = [] then u_paused_logging_steps v else rev q),
     u_world := (u_world v)\<lparr>w_local_host := (strstr (written_url u) ''localhost'' \<noteq> None),
       w_server_address := w_server_address (u_world u)\<rparr>\<rparr>"

definition fits_the_manager :: "ui_mgr \<Rightarrow> bool" where
  "fits_the_manager u \<longleftrightarrow> length (written_url u) < 128 \<and> length (w_server_address (u_world u)) < 128 \<and>
     length (u_interface u) < 16 \<and> length (u_out_file_list u) < 128 \<and>
     - (2 ^ 31) \<le> u_simulated u \<and> u_simulated u < 2 ^ 31"

lemma queue_count_ok:
  assumes "queue_ok q"
  shows "unat (queue_count q) = length q" "uint (queue_count q) = int (length q)"
proof -
  show "unat (queue_count q) = length q"
    using assms by (simp add: queue_ok_def queue_count_def unat_of_nat take_bit_nat_eq_self)
  then show "uint (queue_count q) = int (length q)" by (metis uint_nat)
qed

lemma reboot_document_object:
  assumes "du_logging_step_numbers du = Some q" "queue_ok q"
  shows "reboot_document u s du = Doc_object
        [(''config file'', Doc_string (written_url u)),
         (''server_address'', Doc_string (w_server_address (u_world u))),
         (''interface'', Doc_string (u_interface u)),
         (''simulated_client_count'', Doc_number (u_simulated u)),
         (''ResultsFileName'', Doc_string (u_out_file_list u)),
         (''is_logging_enabled'', Doc_bool (q \<noteq> [])),
         (''count_logging_step_numbers'', Doc_number (int (length q))),
         (''logging_step_numbers'', Doc_array (map (\<lambda>k. Doc_object [(''step_number'', Doc_number (uint k))]) (rev q))),
         (''last_executed_step_number'', Doc_number (uint (of_int (ts_step_number s) :: u32)))]"
  using assms by (simp add: reboot_document_def queue_count_ok pop_numbers_rev)

lemma restored_addresses:
  assumes "mirrors je (Doc_object ms) j" "(''config file'', Doc_string t) \<in> set ms" "(''server_address'', Doc_string a) \<in> set ms"
    and "length t < 128" "length a < 128"
  shows "restore_server_address je j (restore_config_file je j v) = Accept (v\<lparr>u_tda_url := t,
     u_world := (u_world v)\<lparr>w_local_host := (strstr t ''localhost'' \<noteq> None), w_server_address := a\<rparr>\<rparr>)"
proof -
  obtain c b where "cj_item je j ''config file'' = Some c" "mirrors je (Doc_string t) c"
    "cj_item je j ''server_address'' = Some b" "mirrors je (Doc_string a) b"
    using mirrored_item [OF assms(1,2)] mirrored_item [OF assms(1,3)] by blast
  then show ?thesis
    using assms(4,5) mirrored_string [OF assms(1,2)]
    by (simp add: restore_config_file_def restore_server_address_def deref_def)
qed

lemma restored_pauses:
  assumes "mirrors je (Doc_object ms) j" "(''count_logging_step_numbers'', Doc_number (int (length q))) \<in> set ms"
    and "(''logging_step_numbers'', Doc_array (map (\<lambda>k. Doc_object [(''step_number'', Doc_number (uint k))]) (rev q))) \<in> set ms"
    and "length q < 2 ^ 31" "list_all (\<lambda>k. uint k < 2 ^ 31) q" "je_member je"
  shows "decode_paused_steps je j old = Accept (rev q)"
proof -
  obtain l where l: "cj_item je j ''logging_step_numbers'' = Some l" "cj_is_array je l"
    "list_all2 (mirrors je) (map (\<lambda>k. Doc_object [(''step_number'', Doc_number (uint k))]) (rev q)) (cj_elems je l)"
    using mirrored_item [OF assms(1,3)] by auto
  have "number_member je j ''count_logging_step_numbers'' = Some (int (length q))"
    by (rule mirrored_number [OF assms(1,2)]) (use assms(4) in simp_all)
  then show ?thesis
    using fill_paused_mirrors [OF l(3), of "[]"] l(1,2) assms(5,6) by (simp add: decode_paused_steps_def list_all_iff)
qed

text \<open>
  C11. A reboot loses nothing: the manager that starts after it and reads what the step wrote has the
  address of the configuration, the server, the interface, the number of simulated clients, the name of the results,
  the logs that were paused, the oldest first, and the step to go on behind. The library gives back what was printed
  (\<open>mirrors\<close>), and the values fit the buffers and an \<open>int\<close>.
\<close>

theorem reboot_roundtrip:
  assumes "create_reboot_case_json pr env s du u = (RETURN_OK, du', u')"
    and "cj_parse je (pr (reboot_document u s du)) = Some j" "mirrors je (reboot_document u s du) j" "je_member je"
    and "du_logging_step_numbers du = Some q" "length q < 2 ^ 31" "list_all (\<lambda>k. uint k < 2 ^ 31) q"
    and "fits_the_manager u" "0 \<le> ts_step_number s" "ts_step_number s < 2 ^ 31"
  shows "\<exists>d. u' = ui_effect (Fx_write REBOOT_STEP_CONFIG d) u \<and>
     decode_reboot_case_json je (Some d) v = Some (RETURN_OK, resumed u s q v)"
proof -
  have written: "u' = ui_effect (Fx_write REBOOT_STEP_CONFIG (pr (reboot_document u s du))) u"
    using assms(1) by (auto simp: create_reboot_case_json_def Let_def split: if_splits)
  have q: "queue_ok q" using assms(6) by (simp add: queue_ok_def)
  have step: "uint (of_int (ts_step_number s) :: u32) = ts_step_number s"
    using assms(9,10) by (simp add: unsigned_of_int take_bit_int_eq_self)
  note doc = reboot_document_object [OF assms(5) q, of u s, unfolded step]
  note m = assms(3) [unfolded doc]
  note fits = assms(8) [unfolded fits_the_manager_def]
  have pos: "- (2 ^ 31) \<le> ts_step_number s" using assms(9) by simp
  have addresses: "restore_server_address je j (restore_config_file je j v) = Accept (v\<lparr>u_tda_url := written_url u,
     u_world := (u_world v)\<lparr>w_local_host := (strstr (written_url u) ''localhost'' \<noteq> None),
       w_server_address := w_server_address (u_world u)\<rparr>\<rparr>)"
    by (rule restored_addresses [OF m]) (use fits in simp_all)
  have strings: "string_member je (Some j) ''interface'' = Some (u_interface u)"
    "string_member je (Some j) ''ResultsFileName'' = Some (u_out_file_list u)"
    by (rule mirrored_string [OF m]; simp)+
  have numbers: "number_member je j ''simulated_client_count'' = Some (u_simulated u)"
    "number_member je j ''last_executed_step_number'' = Some (ts_step_number s)"
    by (rule mirrored_number [OF m]; use fits pos assms(10) in simp)+
  have enabled: "bool_or je (Some j) ''is_logging_enabled'' False = (q \<noteq> [])"
    by (rule mirrored_bool [OF m]) simp
  have pauses: "decode_paused_steps je j (u_paused_logging_steps v) = Accept (rev q)"
    by (rule restored_pauses [OF m _ _ assms(6,7,4)]) simp_all
  have "decode_reboot_case_json je (Some (pr (reboot_document u s du))) v = Some (RETURN_OK, resumed u s q v)"
    using fits by (simp add: decode_reboot_case_json_def assms(2) addresses stored_member_def strings numbers enabled
        pauses resumed_def Let_def)
  with written show ?thesis by blast
qed

text \<open>A step behind two log steps; the printer and the parser of the sample know its document.\<close>

definition reboot_upgrade :: device_upgrade where
  "reboot_upgrade = \<lparr>du_build_name = [], du_is_logging_enabled = True, du_logging_step_numbers = Some [3, 1],
     du_is_fr_enabled = False\<rparr>"

definition reboot_step :: test_step where
  "reboot_step = (sample_step (P_upgrade_or_reboot reboot_upgrade))\<lparr>ts_step_number := 4\<rparr>"

definition reboot_library :: "sample_json json_env" where
  "reboot_library = sample_json_env (sample_of (reboot_document sample_ui reboot_step reboot_upgrade))"

theorem reboot_roundtrip_witness:
  "\<exists>d. decode_reboot_case_json reboot_library (Some d) sample_ui =
     Some (RETURN_OK, resumed sample_ui reboot_step [3, 1] sample_ui) \<and>
     u_paused_logging_steps (resumed sample_ui reboot_step [3, 1] sample_ui) = [1, 3]"
proof -
  obtain du' u' where c: "create_reboot_case_json (\<lambda>_. ''json'') sample_environment reboot_step reboot_upgrade sample_ui
      = (RETURN_OK, du', u')"
    by (auto simp: create_reboot_case_json_def sample_environment_def)
  have m: "mirrors reboot_library (reboot_document sample_ui reboot_step reboot_upgrade)
      (sample_of (reboot_document sample_ui reboot_step reboot_upgrade))" by code_simp
  have f: "fits_the_manager sample_ui" by code_simp
  have p: "cj_parse reboot_library ''json'' = Some (sample_of (reboot_document sample_ui reboot_step reboot_upgrade))"
    "je_member reboot_library" by (simp_all add: reboot_library_def sample_json_env_def)
  have q: "du_logging_step_numbers reboot_upgrade = Some [3, 1]" "0 \<le> ts_step_number reboot_step"
    "ts_step_number reboot_step < 2 ^ 31" by (simp_all add: reboot_upgrade_def reboot_step_def)
  obtain d where "decode_reboot_case_json reboot_library (Some d) sample_ui =
     Some (RETURN_OK, resumed sample_ui reboot_step [3, 1] sample_ui)"
    using reboot_roundtrip [OF c p(1) m p(2) q(1) _ _ f q(2,3), of sample_ui] by auto
  moreover have "u_paused_logging_steps (resumed sample_ui reboot_step [3, 1] sample_ui) = [1, 3]"
    by (simp add: resumed_def)
  ultimately show ?thesis by blast
qed

text \<open>
  The reading of a reboot document relies on a member it does not ask for: a document with a server address
  and no address of the configuration is read through a null pointer.
\<close>

theorem reboot_without_url_crashes:
  assumes "cj_parse je d = Some j" "cj_item je j ''config file'' = None"
    and "cj_item je j ''server_address'' = Some a" "cj_is_string je a"
  shows "decode_reboot_case_json je (Some d) u = None"
  using assms by (simp add: decode_reboot_case_json_def restore_config_file_def string_member_def get_item_def
      restore_server_address_def deref_def)

theorem reboot_without_url_crashes_witness:
  "decode_reboot_case_json (sample_json_env (J_object [(''server_address'', J_string ''10.0.0.1'')])) (Some ''json'') sample_ui = None"
  by (rule reboot_without_url_crashes [where j = "J_object [(''server_address'', J_string ''10.0.0.1'')]" and a = "J_string ''10.0.0.1''"])
    (simp_all add: sample_json_env_def)

end
