(* ===== verification/Ext_Agent.thy ===== *)
theory Ext_Agent
  imports Json_Doc Sta_Mgr
begin

text \<open>
  The interface between the gateway and the external agents
  (\<open>common/wlan_emu_ext_agent_interface.cpp\<close>, \<open>inc/wlan_emu_ext_agent_interface.h\<close>): the capability an agent
  offers, the status of its test and its steps, the commands, and the HTTP requests of
  \<open>utils/cci_wifi_utils.cpp\<close> they travel by.
\<close>

section \<open>Data\<close>

datatype (plugins only: code size) ext_agent_test_state =
    ext_agent_test_state_idle
  | ext_agent_test_state_ready
  | ext_agent_test_state_running
  | ext_agent_test_state_complete
  | ext_agent_test_state_fail
  | ext_agent_test_state_invalid

definition agent_state_to_str :: "(ext_agent_test_state \<times> string) list" where
  "agent_state_to_str =
     [(ext_agent_test_state_idle, ''idle''), (ext_agent_test_state_ready, ''ready''),
      (ext_agent_test_state_running, ''running''), (ext_agent_test_state_complete, ''complete''),
      (ext_agent_test_state_fail, ''fail'')]"

definition str_to_agent_state :: "(string \<times> ext_agent_test_state) list" where
  "str_to_agent_state =
     [(''idle'', ext_agent_test_state_idle), (''ready'', ext_agent_test_state_ready),
      (''running'', ext_agent_test_state_running), (''complete'', ext_agent_test_state_complete),
      (''fail'', ext_agent_test_state_fail)]"

definition agent_state_as_string :: "ext_agent_test_state \<Rightarrow> string" where
  "agent_state_as_string s = (case map_of agent_state_to_str s of Some t \<Rightarrow> t | None \<Rightarrow> ''Unknown'')"

definition agent_state_as_enum :: "string \<Rightarrow> ext_agent_test_state" where
  "agent_state_as_enum t = (case map_of str_to_agent_state t of Some s \<Rightarrow> s | None \<Rightarrow> ext_agent_test_state_invalid)"

lemma agent_state_round_trip [simp]: "agent_state_as_enum (agent_state_as_string s) = s"
  by (cases s) (simp_all add: agent_state_as_enum_def agent_state_as_string_def agent_state_to_str_def str_to_agent_state_def)

lemma state_strings_nonempty [simp]: "agent_state_as_string s \<noteq> []" "step_state_as_string c \<noteq> []"
  by (cases s; simp add: agent_state_as_string_def agent_state_to_str_def)
    (cases c; simp add: step_state_as_string_def step_state_to_str_def)

record ext_agent_step_status =
  ss_step_number :: int
  ss_state :: wlan_emu_tests_state
  ss_result_files :: "string list"
  ss_step_private_json_data :: string

record ext_agent_status_resp =
  sr_agent_name :: string
  sr_step_count :: int
  sr_state :: ext_agent_test_state
  sr_steps :: "ext_agent_step_status list"

datatype (plugins only: code size) eth_interface_state = eth_interface_state_free | eth_interface_state_in_use

record eth_dev_info =
  ed_interface_name :: string
  ed_interface_mac :: bytes
  ed_ip_address :: string
  ed_is_ip_assigned :: bool
  ed_state :: eth_interface_state

text \<open>An agent as the gateway and the agent itself keep it; \<open>None\<close> is a queue that was not created.\<close>

record ext_agent =
  ea_version :: string
  ea_subdoc_name :: string
  ea_hostname :: string
  ea_mac :: bytes
  ea_ip_address :: string
  ea_client_info :: "sta_info queue option"
  ea_total_supported_clients :: u32
  ea_eth_client_interfaces :: "eth_dev_info queue option"
  ea_total_supported_eth_clients :: u32

text \<open>
  What the interface asks of the outside. \<open>ax_mac_str\<close> and \<open>ax_str_mac\<close> are the hardware layer's
  \<open>uint8_mac_to_string_mac\<close> and \<open>string_mac_to_uint8_mac\<close>, \<open>ax_print\<close> the printer of the JSON library,
  \<open>ax_json\<close> whether its nodes can be allocated, \<open>ax_new\<close> whether an object can be. \<open>ax_raw_agent\<close>, \<open>ax_raw_sta\<close>
  and \<open>ax_raw_eth\<close> are the contents of fresh objects, \<open>ax_raw_tail\<close> what follows the buffer of an IP address,
  \<open>ax_name_size\<close> the size of an interface name.
  \<open>ax_curl\<close> is whether curl can be set up. For a request, curl gives the body received, whether it was performed
  and the status, when it can be read. \<open>ax_bus\<close> are the strings the bus holds, \<open>ax_hosts\<close> the number of hosts.
\<close>

record agent_env =
  ax_env :: environment
  ax_mac_str :: "bytes \<Rightarrow> string"
  ax_str_mac :: "string \<Rightarrow> bytes"
  ax_print :: "json_doc \<Rightarrow> string option"
  ax_json :: bool
  ax_new :: bool
  ax_raw_agent :: ext_agent
  ax_raw_sta :: sta_info
  ax_raw_eth :: eth_dev_info
  ax_raw_tail :: string
  ax_name_size :: nat
  ax_curl :: bool
  ax_get :: "string \<Rightarrow> string \<times> bool \<times> int option"
  ax_post :: "string \<Rightarrow> string \<Rightarrow> bool \<times> int option"
  ax_file_written :: "string \<Rightarrow> bool"
  ax_bus :: "string \<Rightarrow> string option option"
  ax_hosts :: "u32 option"

section \<open>Requests\<close>

abbreviation http_status_code_ok :: int where "http_status_code_ok \<equiv> 200"

text \<open>The body is appended to what the caller's string holds, also when the request fails.\<close>

definition http_get :: "agent_env \<Rightarrow> string \<Rightarrow> string \<Rightarrow> world \<Rightarrow> int \<times> string \<times> int option \<times> world" where
  "http_get ax url response w =
     (if \<not> ax_curl ax then (RETURN_ERR, response, None, w\<lparr>w_error := ECURLGET\<rparr>)
      else case ax_get ax url of
             (body, performed, code) \<Rightarrow>
               if \<not> performed \<or> code = None then (RETURN_ERR, response @ body, None, w\<lparr>w_error := ECURLGET\<rparr>)
               else (RETURN_OK, response @ body, code, w))"

text \<open>The file is opened before the request, and its buffer is written when it is closed behind it.\<close>

definition http_get_file :: "agent_env \<Rightarrow> string \<Rightarrow> string \<Rightarrow> world \<Rightarrow> int \<times> int option \<times> world" where
  "http_get_file ax url file_path w =
     (if \<not> ax_curl ax then (RETURN_ERR, None, w\<lparr>w_error := ECURLGET\<rparr>)
      else if \<not> env_open_w (ax_env ax) file_path then (RETURN_ERR, None, w\<lparr>w_error := EFOPEN\<rparr>)
      else case ax_get ax url of
             (body, performed, code) \<Rightarrow>
               let w = add_fx (Fx_write file_path body) w
               in if \<not> performed then (RETURN_ERR, None, w\<lparr>w_error := ECURLGET\<rparr>)
                  else if \<not> ax_file_written ax file_path then (RETURN_ERR, None, w\<lparr>w_error := EFWRITE\<rparr>)
                  else if code = None then (RETURN_ERR, None, w\<lparr>w_error := ECURLGET\<rparr>)
                  else (RETURN_OK, code, w))"

definition http_post :: "agent_env \<Rightarrow> string \<Rightarrow> string \<Rightarrow> world \<Rightarrow> int \<times> int option \<times> world" where
  "http_post ax url content w =
     (if \<not> ax_curl ax then (RETURN_ERR, None, w\<lparr>w_error := ECURLPOST\<rparr>)
      else case ax_post ax url content of
             (performed, code) \<Rightarrow>
               if \<not> performed then (RETURN_ERR, None, w\<lparr>w_error := ECURLPOST\<rparr>)
               else if code = None then (RETURN_ERR, None, add_fx (Fx_post url content) (w\<lparr>w_error := ECURLPOST\<rparr>))
               else (RETURN_OK, code, add_fx (Fx_post url content) w))"

definition http_post_file :: "agent_env \<Rightarrow> string \<Rightarrow> string \<Rightarrow> world \<Rightarrow> int \<times> int option \<times> world" where
  "http_post_file ax url file_path w =
     (case get_last_substring_after_slash (Some file_path) 128 (w_error w) of
        (rc, name, err) \<Rightarrow>
          if rc \<noteq> RETURN_OK then (RETURN_ERR, None, w\<lparr>w_error := err\<rparr>)
          else if \<not> ax_curl ax then (RETURN_ERR, None, w\<lparr>w_error := ECURLPOST\<rparr>)
          else case env_file (ax_env ax) file_path of
                 None \<Rightarrow> (RETURN_ERR, None, w\<lparr>w_error := EFOPEN\<rparr>)
               | Some content \<Rightarrow>
                   http_post ax (url @ (case name of None \<Rightarrow> [] | Some n \<Rightarrow> n)) content w)"

section \<open>The capability of an agent\<close>

text \<open>The loops over the queues visit as many elements as the counters say.\<close>

definition peeked :: "u32 \<Rightarrow> 'a queue option \<Rightarrow> 'a list" where
  "peeked n q = List.map_filter (\<lambda>i. queue_peek (case q of None \<Rightarrow> [] | Some q \<Rightarrow> q) (of_nat i)) [0..<unat n]"

abbreviation interface_type_ethernet :: int where "interface_type_ethernet \<equiv> 1"
abbreviation interface_type_wifi :: int where "interface_type_wifi \<equiv> 2"

definition wifi_client_object :: "agent_env \<Rightarrow> sta_info \<Rightarrow> json_doc" where
  "wifi_client_object ax s = Doc_object
     [(''ExternalClientMAC'', Doc_string (ax_mac_str ax (si_mac s))),
      (''ExternalClientIntfName'', Doc_string (si_interface_name s)),
      (''ExternalClientIntType'', Doc_number interface_type_wifi)]"

definition eth_client_object :: "agent_env \<Rightarrow> eth_dev_info \<Rightarrow> json_doc" where
  "eth_client_object ax e = Doc_object
     [(''ExternalClientMAC'', Doc_string (ax_mac_str ax (ed_interface_mac e))),
      (''ExternalClientIntfName'', Doc_string (ed_interface_name e)),
      (''ExternalClientIntType'', Doc_number interface_type_ethernet),
      (''ExternalClientIpAddress'', Doc_string (ed_ip_address e))]"

definition capability_document :: "agent_env \<Rightarrow> ext_agent \<Rightarrow> json_doc" where
  "capability_document ax a = Doc_object
     [(''Version'', Doc_string (ea_version a)),
      (''SubDocName'', Doc_string ''Agent Capability''),
      (''ExternalAgentMACAddress'', Doc_string (ax_mac_str ax (ea_mac a))),
      (''ExternalAgentHostName'', Doc_string (ea_hostname a)),
      (''ExternalAgentIPAddress'', Doc_string (ea_ip_address a)),
      (''ExternalClientCount'', Doc_number (uint (ea_total_supported_clients a))),
      (''ExternalClientCapability'', Doc_array
         (map (wifi_client_object ax) (peeked (ea_total_supported_clients a) (ea_client_info a)) @
          map (eth_client_object ax) (peeked (ea_total_supported_eth_clients a) (ea_eth_client_interfaces a))))]"

definition encode_external_agent_capability :: "agent_env \<Rightarrow> ext_agent \<Rightarrow> string \<Rightarrow> int \<times> string" where
  "encode_external_agent_capability ax a cap =
     (if \<not> ax_json ax then (RETURN_ERR, cap)
      else case ax_print ax (capability_document ax a) of
             None \<Rightarrow> (RETURN_ERR, cap)
           | Some str \<Rightarrow> (RETURN_OK, cap @ str))"

text \<open>
  The macros of the decoders: a missing member returns \<open>RETURN_ERR\<close> with what was stored so far. \<open>None\<close> is an access
  without a meaning.
\<close>

fun with_param :: "'p decoded \<Rightarrow> 's \<Rightarrow> ('p \<Rightarrow> (int \<times> 's) option) \<Rightarrow> (int \<times> 's) option" where
  "with_param Undef s f = None"
| "with_param Reject s f = Some (RETURN_ERR, s)"
| "with_param (Accept p) s f = f p"

definition push_client :: "sta_info \<Rightarrow> ext_agent \<Rightarrow> ext_agent" where
  "push_client s a = a\<lparr>ea_client_info := map_option (\<lambda>q. s # q) (ea_client_info a)\<rparr>"

definition push_eth :: "eth_dev_info \<Rightarrow> ext_agent \<Rightarrow> ext_agent" where
  "push_eth e a = a\<lparr>ea_eth_client_interfaces := map_option (\<lambda>q. e # q) (ea_eth_client_interfaces a)\<rparr>"

text \<open>
  The clients of an agent. The state of a fresh wireless client is set before the pointer is looked at. The state of
  an ethernet interface is not set: it is what the fresh memory holds.
\<close>

fun decode_clients :: "'j json_env \<Rightarrow> agent_env \<Rightarrow> 'j list \<Rightarrow> ext_agent \<Rightarrow> (int \<times> ext_agent) option" where
  "decode_clients je ax [] a = Some (RETURN_OK, a)"
| "decode_clients je ax (e # es) a =
     with_param (decode_param_integer je (Some e) ''ExternalClientIntType'') a (\<lambda>t.
     if cj_valuedouble je t = of_int interface_type_ethernet then
       (if \<not> ax_new ax then Some (RETURN_ERR, a)
        else with_param (decode_param_string je (Some e) ''ExternalClientMAC'') a (\<lambda>mac.
             with_param (decode_param_string je (Some e) ''ExternalClientIntfName'') a (\<lambda>name.
             with_param (decode_param_string je (Some e) ''ExternalClientIpAddress'') a (\<lambda>ip.
             decode_clients je ax es (push_eth ((ax_raw_eth ax)\<lparr>ed_interface_mac := ax_str_mac ax mac,
               ed_interface_name := name, ed_is_ip_assigned := True, ed_ip_address := ip\<rparr>) a)))))
     else if cj_valuedouble je t = of_int interface_type_wifi then
       (if \<not> ax_new ax then None
        else with_param (decode_param_string je (Some e) ''ExternalClientMAC'') a (\<lambda>mac.
             with_param (decode_param_string je (Some e) ''ExternalClientIntfName'') a (\<lambda>name.
             decode_clients je ax es (push_client ((ax_raw_sta ax)\<lparr>si_status := sta_state_free,
               si_mac := ax_str_mac ax mac, si_interface_name := snprintf_store (ax_name_size ax) name\<rparr>) a))))
     else decode_clients je ax es a)"

definition decode_external_agent_capability ::
  "'j json_env \<Rightarrow> agent_env \<Rightarrow> string \<Rightarrow> ext_agent \<Rightarrow> (int \<times> ext_agent) option" where
  "decode_external_agent_capability je ax response a =
     (if response = [] then Some (RETURN_ERR, a)
      else case cj_parse je response of
             None \<Rightarrow> Some (RETURN_ERR, a)
           | Some root_json \<Rightarrow>
               with_param (decode_param_string je (Some root_json) ''SubDocName'') a (\<lambda>v.
               let a = a\<lparr>ea_subdoc_name := take 31 v\<rparr>
               in with_param (decode_param_string je (Some root_json) ''ExternalAgentHostName'') a (\<lambda>v.
               let a = a\<lparr>ea_hostname := v\<rparr>
               in with_param (unsigned_member je (Some root_json) ''ExternalClientCount'') a (\<lambda>n.
               let a = a\<lparr>ea_total_supported_clients := n\<rparr>
               in case cj_item je root_json ''ExternalClientCapability'' of
                    None \<Rightarrow> Some (RETURN_ERR, a)
                  | Some entry \<Rightarrow>
                      if \<not> cj_is_array je entry then Some (RETURN_ERR, a)
                      else decode_clients je ax (cj_elems je entry)
                             (a\<lparr>ea_client_info := Some queue_create, ea_eth_client_interfaces := Some queue_create\<rparr>)))))"

section \<open>The status of an agent's test\<close>

definition decode_param_array :: "'j json_env \<Rightarrow> 'j option \<Rightarrow> string \<Rightarrow> 'j decoded" where
  "decode_param_array je json key =
     (case get_item je json key of
        None \<Rightarrow> Reject | Some v \<Rightarrow> if \<not> cj_is_array je v then Reject else Accept v)"

definition decode_result_file :: "'j json_env \<Rightarrow> 'j \<Rightarrow> string list \<Rightarrow> string list decoded" where
  "decode_result_file je file_elem files =
     (if \<not> cj_is_string je file_elem then Reject
      else case cj_valuestring je file_elem of None \<Rightarrow> Reject | Some f \<Rightarrow> Accept (files @ [f]))"

text \<open>
  One step. The result files are read when the step has results. The private data are printed by the JSON library
  (\<open>pn\<close>); a null pointer from it would become a string.
\<close>

definition decode_step_status ::
  "'j json_env \<Rightarrow> ('j \<Rightarrow> string option) \<Rightarrow> 'j \<Rightarrow> ext_agent_step_status list \<Rightarrow> ext_agent_step_status list decoded" where
  "decode_step_status je pn step_elem steps =
     after (decode_param_integer je (Some step_elem) ''StepNumber'') (\<lambda>n.
     after (decode_param_string je (Some step_elem) ''StepStatus'') (\<lambda>s.
     let state = step_state_as_enum s
     in after (if state = wlan_emu_tests_state_cmd_results
               then after (decode_param_array je (Some step_elem) ''ResultFiles'') (\<lambda>file_arr.
                      decode_each (decode_result_file je) (cj_elems je file_arr) [])
               else Accept []) (\<lambda>files.
        after (case cj_item je step_elem ''StepPrivateData'' of None \<Rightarrow> Accept [] | Some p \<Rightarrow> deref (pn p)) (\<lambda>priv.
        Accept (steps @ [\<lparr>ss_step_number = cj_valueint je n, ss_state = state, ss_result_files = files,
          ss_step_private_json_data = priv\<rparr>])))))"

definition decode_external_agent_test_status ::
  "'j json_env \<Rightarrow> ('j \<Rightarrow> string option) \<Rightarrow> string \<Rightarrow> ext_agent_status_resp decoded" where
  "decode_external_agent_test_status je pn json_str =
     (case cj_parse je json_str of
        None \<Rightarrow> Reject
      | Some json_root \<Rightarrow>
          after (decode_param_string je (Some json_root) ''ExternalAgentHostName'') (\<lambda>name.
          after (decode_param_integer je (Some json_root) ''ExternalAgentStepCount'') (\<lambda>count.
          after (decode_param_string je (Some json_root) ''ExternalAgentStatus'') (\<lambda>state.
          after (decode_param_array je (Some json_root) ''ExternalAgentStepStatus'') (\<lambda>step_arr.
          after (decode_each (decode_step_status je pn) (cj_elems je step_arr) []) (\<lambda>steps.
          Accept \<lparr>sr_agent_name = name, sr_step_count = cj_valueint je count, sr_state = agent_state_as_enum state,
            sr_steps = steps\<rparr>))))))"

text \<open>The encoder that stands beside it. The name of the agent has another key than the one that is read.\<close>

definition step_status_object :: "ext_agent_step_status \<Rightarrow> json_doc" where
  "step_status_object s = Doc_object
     [(''StepNumber'', Doc_number (ss_step_number s)),
      (''StepStatus'', Doc_string (step_state_as_string (ss_state s))),
      (''ResultFiles'', Doc_array (map Doc_string (ss_result_files s)))]"

definition test_status_document :: "ext_agent_status_resp \<Rightarrow> json_doc" where
  "test_status_document r = Doc_object
     [(''ExternalAgentName'', Doc_string (sr_agent_name r)),
      (''ExternalAgentStepCount'', Doc_number (sr_step_count r)),
      (''ExternalAgentStatus'', Doc_string (agent_state_as_string (sr_state r))),
      (''ExternalAgentStepStatus'', Doc_array (map step_status_object (sr_steps r)))]"

definition encode_external_agent_test_status :: "agent_env \<Rightarrow> ext_agent_status_resp \<Rightarrow> string \<Rightarrow> int \<times> string" where
  "encode_external_agent_test_status ax status json_str =
     (if \<not> ax_json ax then (RETURN_ERR, json_str)
      else case ax_print ax (test_status_document status) of
             None \<Rightarrow> (RETURN_ERR, json_str)
           | Some str \<Rightarrow> (RETURN_OK, str))"

section \<open>Requests to an agent\<close>

definition agent_url :: "ext_agent \<Rightarrow> string \<Rightarrow> string" where
  "agent_url a path = ''http://'' @ ea_ip_address a @ '':1234'' @ path"

text \<open>\<open>None\<close> is the status of a result that has no meaning.\<close>

definition get_external_agent_test_status ::
  "'j json_env \<Rightarrow> ('j \<Rightarrow> string option) \<Rightarrow> agent_env \<Rightarrow> ext_agent \<Rightarrow> world \<Rightarrow>
     (int \<times> ext_agent_status_resp option \<times> world) option" where
  "get_external_agent_test_status je pn ax a w =
     (case http_get ax (agent_url a ''/Status'') [] w of
        (rc, response, code, w) \<Rightarrow>
          if rc \<noteq> RETURN_OK then Some (RETURN_ERR, None, w)
          else if code \<noteq> Some http_status_code_ok then Some (RETURN_ERR, None, w\<lparr>w_error := EEXTAGENT\<rparr>)
          else (case decode_external_agent_test_status je pn response of
                  Undef \<Rightarrow> None
                | Reject \<Rightarrow> Some (RETURN_ERR, None, w\<lparr>w_error := EEXTAGENT\<rparr>)
                | Accept status \<Rightarrow> Some (RETURN_OK, Some status, w)))"

text \<open>The error code of a command is a local variable.\<close>

definition send_external_agent_command :: "agent_env \<Rightarrow> ext_agent \<Rightarrow> string \<Rightarrow> world \<Rightarrow> int \<times> world" where
  "send_external_agent_command ax a command w =
     (case http_post ax (agent_url a ''/Command'') command w of
        (rc, code, w') \<Rightarrow>
          (if rc \<noteq> RETURN_OK \<or> code \<noteq> Some http_status_code_ok then RETURN_ERR else RETURN_OK,
           w'\<lparr>w_error := w_error w\<rparr>))"

definition send_external_agent_start_command :: "agent_env \<Rightarrow> ext_agent \<Rightarrow> world \<Rightarrow> int \<times> world" where
  "send_external_agent_start_command ax a w = send_external_agent_command ax a ''start'' w"

definition send_external_agent_stop_command :: "agent_env \<Rightarrow> ext_agent \<Rightarrow> world \<Rightarrow> int \<times> world" where
  "send_external_agent_stop_command ax a w = send_external_agent_command ax a ''stop'' w"

text \<open>The first file that is not there ends the download.\<close>

fun download_external_agent_result_files :: "agent_env \<Rightarrow> ext_agent \<Rightarrow> string list \<Rightarrow> world \<Rightarrow> int \<times> world" where
  "download_external_agent_result_files ax a [] w = (RETURN_OK, w)"
| "download_external_agent_result_files ax a (f # fs) w =
     (case http_get_file ax (agent_url a ''/Results/'' @ f) f w of
        (rc, code, w) \<Rightarrow>
          if rc \<noteq> RETURN_OK \<or> code \<noteq> Some http_status_code_ok then (RETURN_ERR, w)
          else download_external_agent_result_files ax a fs w)"

section \<open>Finding the agents\<close>

text \<open>
  An entry of the host table is an agent when its name begins with that of the agents. The address is copied without
  the byte that would end a longest one.
\<close>

definition host_key :: "nat \<Rightarrow> string \<Rightarrow> string" where
  "host_key n member = snprintf_store 64 (''Device.Hosts.Host.'' @ show_nat n @ ''.'' @ member)"

definition get_external_agent_details :: "agent_env \<Rightarrow> nat \<Rightarrow> ext_agent \<Rightarrow> int \<times> ext_agent" where
  "get_external_agent_details ax n a =
     (case ax_bus ax (host_key n ''Layer1Interface'') of
        None \<Rightarrow> (RETURN_ERR, a)
      | Some None \<Rightarrow> (RETURN_ERR, a)
      | Some (Some layer1) \<Rightarrow>
          if ax_bus ax (host_key n ''Active'') = None then (RETURN_ERR, a)
          else (case ax_bus ax (host_key n ''HostName'') of
                  Some (Some name) \<Rightarrow>
                    if take (length ''ots_ext_agent'') name \<noteq> ''ots_ext_agent'' then (RETURN_ERR, a)
                    else (case ax_bus ax (host_key n ''PhysAddress'') of
                            Some (Some mac) \<Rightarrow>
                              (let a = a\<lparr>ea_mac := ax_str_mac ax mac\<rparr>
                               in case ax_bus ax (host_key n ''IPAddress'') of
                                    Some (Some ip) \<Rightarrow>
                                      (RETURN_OK, a\<lparr>ea_ip_address :=
                                         take 15 ip @ (if length ip < 15 then [] else ax_raw_tail ax)\<rparr>)
                                  | _ \<Rightarrow> (RETURN_ERR, a))
                          | _ \<Rightarrow> (RETURN_ERR, a))
                | _ \<Rightarrow> (RETURN_ERR, a)))"

definition fresh_agent :: "agent_env \<Rightarrow> ext_agent" where
  "fresh_agent ax = (ax_raw_agent ax)\<lparr>ea_client_info := None, ea_eth_client_interfaces := None\<rparr>"

fun collect_agents :: "agent_env \<Rightarrow> nat list \<Rightarrow> ext_agent hash_map \<Rightarrow> ext_agent hash_map" where
  "collect_agents ax [] m = m"
| "collect_agents ax (n # ns) m =
     (case get_external_agent_details ax n (fresh_agent ax) of
        (rc, a) \<Rightarrow>
          collect_agents ax ns
            (if rc = RETURN_OK \<and> ea_ip_address a \<noteq> [] then snd (hash_map_put True True m (ax_mac_str ax (ea_mac a)) a) else m))"

text \<open>Memory for an agent comes from a \<open>new\<close> that ends the program without it.\<close>

definition get_external_agent_info :: "agent_env \<Rightarrow> ext_agent hash_map \<Rightarrow> (int \<times> ext_agent hash_map) option" where
  "get_external_agent_info ax m =
     (case ax_hosts ax of
        None \<Rightarrow> Some (RETURN_ERR, m)
      | Some count \<Rightarrow>
          if \<not> ax_new ax \<and> 0 < count then None
          else Some (RETURN_OK, collect_agents ax [1..<Suc (unat count)] m))"

text \<open>
  The string of the response is not cleared between two agents. A failed request or decoding leaves the agent with
  what it has. The map is visited head first.
\<close>

fun agent_capabilities ::
  "'j json_env \<Rightarrow> agent_env \<Rightarrow> string \<Rightarrow> ext_agent hash_map \<Rightarrow> world \<Rightarrow> (ext_agent hash_map \<times> world) option" where
  "agent_capabilities je ax response [] w = Some ([], w)"
| "agent_capabilities je ax response ((key, a) # m) w =
     (case http_get ax (snprintf_store 128 (ea_ip_address a @ '':1234/Capability'')) response w of
        (rc, response, code, w) \<Rightarrow>
          (case (if rc \<noteq> RETURN_OK then Some (RETURN_ERR, a)
                 else decode_external_agent_capability je ax response a) of
             None \<Rightarrow> None
           | Some (rc, a) \<Rightarrow> map_option (\<lambda>(m, w). ((key, a) # m, w)) (agent_capabilities je ax response m w)))"

definition get_external_agent_capabilities ::
  "'j json_env \<Rightarrow> agent_env \<Rightarrow> ext_agent hash_map \<Rightarrow> world \<Rightarrow> (int \<times> ext_agent hash_map \<times> world) option" where
  "get_external_agent_capabilities je ax m w =
     map_option (\<lambda>(m, w). (RETURN_OK, m, w)) (agent_capabilities je ax [] m w)"

end
