(* ===== verification/Ext_Sta_Mgr.thy ===== *)
theory Ext_Sta_Mgr
  imports Ext_Agent
begin

text \<open>
  The manager of the stations and ethernet clients on external agents (\<open>sta/wlan_emu_ext_sta_mgr.cpp\<close>). Its state is
  the hash map of the agents, each with a queue of wireless clients and one of ethernet interfaces. A pointer to an
  agent is its position in the map. The queues fit the counters of the loops.
\<close>

section \<open>Taking and giving back devices\<close>

fun take_free :: "('d \<Rightarrow> bool) \<Rightarrow> ('d \<Rightarrow> 'd) \<Rightarrow> 'd queue \<Rightarrow> ('d \<times> 'd queue) option" where
  "take_free is_free use [] = None"
| "take_free is_free use (d # q) =
     (if is_free d then Some (use d, use d # q)
      else map_option (\<lambda>(d', q). (d', d # q)) (take_free is_free use q))"

fun ext_find_first_free_dev :: "ext_agent hash_map \<Rightarrow> (nat \<times> ext_agent hash_map) option" where
  "ext_find_first_free_dev [] = None"
| "ext_find_first_free_dev ((key, a) # m) =
     (case (case ea_client_info a of
              None \<Rightarrow> None
            | Some q \<Rightarrow> take_free (\<lambda>s. si_status s = sta_state_free) (\<lambda>s. s\<lparr>si_status := sta_state_in_use\<rparr>) q) of
        Some (d, q) \<Rightarrow> Some (0, (key, a\<lparr>ea_client_info := Some q\<rparr>) # m)
      | None \<Rightarrow> map_option (\<lambda>(i, m). (Suc i, (key, a) # m)) (ext_find_first_free_dev m))"

fun find_first_free_eth_dev :: "ext_agent hash_map \<Rightarrow> (nat \<times> eth_dev_info \<times> ext_agent hash_map) option" where
  "find_first_free_eth_dev [] = None"
| "find_first_free_eth_dev ((key, a) # m) =
     (case (case ea_eth_client_interfaces a of
              None \<Rightarrow> None
            | Some q \<Rightarrow> take_free (\<lambda>e. ed_state e = eth_interface_state_free)
                (\<lambda>e. e\<lparr>ed_state := eth_interface_state_in_use\<rparr>) q) of
        Some (d, q) \<Rightarrow> Some (0, d, (key, a\<lparr>ea_eth_client_interfaces := Some q\<rparr>) # m)
      | None \<Rightarrow> map_option (\<lambda>(i, d, m). (Suc i, d, (key, a) # m)) (find_first_free_eth_dev m))"

text \<open>A queue that was not created counts as empty.\<close>

definition clients_of :: "ext_agent \<Rightarrow> sta_info queue" where
  "clients_of a = (case ea_client_info a of None \<Rightarrow> [] | Some q \<Rightarrow> q)"

definition eth_of :: "ext_agent \<Rightarrow> eth_dev_info queue" where
  "eth_of a = (case ea_eth_client_interfaces a of None \<Rightarrow> [] | Some q \<Rightarrow> q)"

fun agent_where :: "(ext_agent \<Rightarrow> bool) \<Rightarrow> ext_agent hash_map \<Rightarrow> nat option" where
  "agent_where p [] = None"
| "agent_where p ((key, a) # m) = (if p a then Some 0 else map_option Suc (agent_where p m))"

definition get_ext_agent :: "agent_env \<Rightarrow> string \<Rightarrow> ext_agent hash_map \<Rightarrow> nat option" where
  "get_ext_agent ax key m = agent_where (\<lambda>a. list_ex (\<lambda>s. si_mac s = ax_str_mac ax key) (clients_of a)) m"

definition get_ext_agent_from_eth_dev_mac :: "agent_env \<Rightarrow> string \<Rightarrow> ext_agent hash_map \<Rightarrow> nat option" where
  "get_ext_agent_from_eth_dev_mac ax key m =
     agent_where (\<lambda>a. list_ex (\<lambda>e. ed_interface_mac e = ax_str_mac ax key) (eth_of a)) m"

definition is_free_sta :: "sta_info \<Rightarrow> bool" where
  "is_free_sta s \<longleftrightarrow> si_status s = sta_state_free"

definition get_num_free_clients :: "ext_agent hash_map \<Rightarrow> u32" where
  "get_num_free_clients m = of_nat (length (filter is_free_sta (concat (map (clients_of \<circ> snd) m))))"

text \<open>The first element of a queue with a property.\<close>

fun update_first :: "('d \<Rightarrow> bool) \<Rightarrow> ('d \<Rightarrow> 'd) \<Rightarrow> 'd queue \<Rightarrow> 'd queue" where
  "update_first p f [] = []"
| "update_first p f (d # q) = (if p d then f d # q else d # update_first p f q)"

definition at_agent :: "nat \<Rightarrow> (ext_agent \<Rightarrow> ext_agent) \<Rightarrow> ext_agent hash_map \<Rightarrow> ext_agent hash_map" where
  "at_agent i f m = m[i := (fst (m ! i), f (snd (m ! i)))]"

definition remove_eth_intf ::
  "agent_env \<Rightarrow> string \<Rightarrow> bytes \<Rightarrow> ext_agent hash_map \<Rightarrow> world \<Rightarrow> ext_agent hash_map \<times> world" where
  "remove_eth_intf ax key mac m w =
     (case get_ext_agent_from_eth_dev_mac ax key m of
        None \<Rightarrow> (m, w)
      | Some i \<Rightarrow>
          (case send_external_agent_stop_command ax (snd (m ! i)) w of
             (rc, w) \<Rightarrow>
               (at_agent i (\<lambda>a. a\<lparr>ea_eth_client_interfaces := map_option
                  (update_first (\<lambda>e. ed_interface_mac e = mac) (\<lambda>e. e\<lparr>ed_state := eth_interface_state_free\<rparr>))
                  (ea_eth_client_interfaces a)\<rparr>) m, w)))"

section \<open>Sending a configuration\<close>

text \<open>
  The sub-document is written to a file, and the file is posted. When the post fails before there is an answer, the
  status that is compared was never set.
\<close>

definition with_file :: "agent_env \<Rightarrow> string \<Rightarrow> string \<Rightarrow> agent_env" where
  "with_file ax path content =
     ax\<lparr>ax_env := (ax_env ax)\<lparr>env_file := (env_file (ax_env ax))(path := map_option (\<lambda>_. content) (env_file (ax_env ax) path))\<rparr>\<rparr>"

definition config_path :: "ext_agent \<Rightarrow> int \<Rightarrow> string" where
  "config_path a step_number =
     snprintf_store 256 (''/tmp/cci_res/'' @ ea_hostname a @ ''_'' @ show_int step_number @ ''.json'')"

definition post_test_config :: "agent_env \<Rightarrow> ext_agent \<Rightarrow> int \<Rightarrow> string \<Rightarrow> world \<Rightarrow> (int \<times> world) option" where
  "post_test_config ax a step_number cli_subdoc w =
     (let path = config_path a step_number
      in if \<not> env_open_w (ax_env ax) path then Some (RETURN_ERR, w\<lparr>w_error := EFOPEN\<rparr>)
         else if cli_subdoc = [] \<or> \<not> ax_file_written ax path then Some (RETURN_ERR, w\<lparr>w_error := EFWRITE\<rparr>)
         else (case http_post_file (with_file ax path cli_subdoc) (agent_url a ''/Testconfig/'') path
                      (add_fx (Fx_write path cli_subdoc) w) of
                 (rc, None, w) \<Rightarrow> None
               | (rc, Some code, w) \<Rightarrow> Some (if code \<noteq> http_status_code_ok then RETURN_ERR else RETURN_OK, w)))"

text \<open>An ethernet client; a failure after the start stops the agent.\<close>

definition add_eth_lan_device ::
  "'j json_env \<Rightarrow> ('j \<Rightarrow> string option) \<Rightarrow> agent_env \<Rightarrow> string \<Rightarrow> int \<Rightarrow> string \<Rightarrow> ext_agent hash_map \<Rightarrow> world \<Rightarrow>
     (int \<times> world) option" where
  "add_eth_lan_device je pn ax key step_number cli_subdoc m w =
     (case get_ext_agent_from_eth_dev_mac ax key m of
        None \<Rightarrow> Some (RETURN_ERR, w\<lparr>w_error := EEXTAGENT\<rparr>)
      | Some i \<Rightarrow>
          let a = snd (m ! i); stopped = (\<lambda>w. Some (RETURN_ERR, snd (send_external_agent_stop_command ax a w)))
          in (case send_external_agent_start_command ax a w of
                (rc, w) \<Rightarrow>
                  if rc \<noteq> RETURN_OK then Some (RETURN_ERR, w\<lparr>w_error := EEXTAGENT\<rparr>)
                  else (case get_external_agent_test_status je pn ax a w of
                          None \<Rightarrow> None
                        | Some (rc, status, w) \<Rightarrow>
                            if rc \<noteq> RETURN_OK then stopped w
                            else (case post_test_config ax a step_number cli_subdoc w of
                                    None \<Rightarrow> None
                                  | Some (rc, w) \<Rightarrow> if rc \<noteq> RETURN_OK then stopped w else Some (RETURN_OK, w)))))"

text \<open>
  A wireless client. The free device that was found is not remembered: the key of the step is the address of the
  agent's first device, which is marked a second time. A failure does not give the device back.
\<close>

definition ext_add_sta ::
  "'j json_env \<Rightarrow> ('j \<Rightarrow> string option) \<Rightarrow> agent_env \<Rightarrow> int \<Rightarrow> string \<Rightarrow> ext_agent hash_map \<Rightarrow> world \<Rightarrow>
     (int \<times> string option \<times> ext_agent hash_map \<times> world) option" where
  "ext_add_sta je pn ax step_number cli_subdoc m w =
     (case ext_find_first_free_dev m of
        None \<Rightarrow> Some (RETURN_ERR, None, m, w\<lparr>w_error := EEXTAGENT\<rparr>)
      | Some (i, m) \<Rightarrow>
          let a = snd (m ! i)
          in (case send_external_agent_start_command ax a w of
                (rc, w) \<Rightarrow>
                  if rc \<noteq> RETURN_OK then Some (RETURN_ERR, None, m, w\<lparr>w_error := EEXTAGENT\<rparr>)
                  else (case get_external_agent_test_status je pn ax a w of
                          None \<Rightarrow> None
                        | Some (rc, status, w) \<Rightarrow>
                            if rc \<noteq> RETURN_OK then Some (RETURN_ERR, None, m, w)
                            else (case post_test_config ax a step_number cli_subdoc w of
                                    None \<Rightarrow> None
                                  | Some (rc, w) \<Rightarrow>
                                      if rc \<noteq> RETURN_OK then Some (RETURN_ERR, None, m, w)
                                      else (case clients_of a of
                                              [] \<Rightarrow> None
                                            | s # q \<Rightarrow>
                                                Some (RETURN_OK, Some (ax_mac_str ax (si_mac s)),
                                                  at_agent i (\<lambda>a. a\<lparr>ea_client_info := Some (s\<lparr>si_status := sta_state_in_use\<rparr> # q)\<rparr>) m,
                                                  w))))))"

text \<open>
  The device of a station that is removed is looked for by comparing its address with the first six characters of the
  key.
\<close>

definition key_bytes :: "string \<Rightarrow> bytes" where
  "key_bytes key = take 6 (map of_char key @ replicate 6 0)"

definition ext_remove_sta :: "agent_env \<Rightarrow> string \<Rightarrow> ext_agent hash_map \<Rightarrow> world \<Rightarrow> ext_agent hash_map \<times> world" where
  "ext_remove_sta ax key m w =
     (case get_ext_agent ax key m of
        None \<Rightarrow> (m, w)
      | Some i \<Rightarrow>
          (case send_external_agent_stop_command ax (snd (m ! i)) w of
             (rc, w) \<Rightarrow>
               (at_agent i (\<lambda>a. a\<lparr>ea_client_info := map_option
                  (update_first (\<lambda>s. si_mac s = key_bytes key) (\<lambda>s. s\<lparr>si_status := sta_state_free\<rparr>))
                  (ea_client_info a)\<rparr>) m, w)))"

text \<open>The map is built anew; an old one is given up.\<close>

definition ext_sta_mgr_init ::
  "'j json_env \<Rightarrow> agent_env \<Rightarrow> world \<Rightarrow> (int \<times> ext_agent hash_map \<times> world) option" where
  "ext_sta_mgr_init je ax w =
     (case get_external_agent_info ax hash_map_create of
        None \<Rightarrow> None
      | Some (rc, m) \<Rightarrow>
          if rc = RETURN_ERR then Some (RETURN_ERR, m, w)
          else (case get_external_agent_capabilities je ax m w of
                  None \<Rightarrow> None
                | Some (rc, m, w) \<Rightarrow> Some (if rc = RETURN_ERR then RETURN_ERR else RETURN_OK, m, w)))"

end
