(* ===== verification/Ext_Sta_Facts.thy ===== *)
theory Ext_Sta_Facts
  imports Ext_Sta_Mgr
begin

text \<open>
  What the manager of the external stations does over many calls: how many devices are free, which station has which
  key, and what a removal gives back.
\<close>

section \<open>Counting free devices\<close>

definition free_clients :: "ext_agent hash_map \<Rightarrow> nat" where
  "free_clients m = length (filter is_free_sta (concat (map (clients_of \<circ> snd) m)))"

definition client_macs :: "ext_agent hash_map \<Rightarrow> bytes list" where
  "client_macs m = map si_mac (concat (map (clients_of \<circ> snd) m))"

lemma free_clients_simps [simp]:
  "free_clients [] = 0"
  "free_clients ((k, a) # m) = length (filter is_free_sta (clients_of a)) + free_clients m"
  by (simp_all add: free_clients_def)

lemma client_macs_simps [simp]:
  "client_macs [] = []"
  "client_macs ((k, a) # m) = map si_mac (clients_of a) @ client_macs m"
  by (simp_all add: client_macs_def)

lemma take_free_SomeD:
  "take_free p f q = Some (d, q') \<Longrightarrow>
     \<exists>xs x ys. q = xs @ x # ys \<and> q' = xs @ d # ys \<and> d = f x \<and> p x \<and> list_all (\<lambda>y. \<not> p y) xs"
proof (induction q arbitrary: q')
  case (Cons y q)
  show ?case
  proof (cases "p y")
    case True
    then show ?thesis using Cons.prems by (intro exI [of _ "[]"]) auto
  next
    case False
    then obtain r where r: "take_free p f q = Some (d, r)" "q' = y # r" using Cons.prems by auto
    from Cons.IH [OF r(1)] obtain xs x ys where "q = xs @ x # ys" "r = xs @ d # ys" "d = f x" "p x" "list_all (\<lambda>y. \<not> p y) xs"
      by blast
    then show ?thesis using False r(2) by (intro exI [of _ "y # xs"]) auto
  qed
qed simp

lemma take_free_None: "take_free p f q = None \<Longrightarrow> filter p q = []"
  by (induction q) (auto split: if_splits)

definition used :: "sta_info \<Rightarrow> sta_info" where
  "used s = s\<lparr>si_status := sta_state_in_use\<rparr>"

lemma used_simps [simp]: "\<not> is_free_sta (used s)" "si_mac (used s) = si_mac s"
  by (simp_all add: used_def is_free_sta_def)

abbreviation take_sta :: "sta_info queue \<Rightarrow> (sta_info \<times> sta_info queue) option" where
  "take_sta q \<equiv> take_free is_free_sta used q"

lemma ext_find_first_free_dev_Cons:
  "ext_find_first_free_dev ((key, a) # m) =
     (case take_sta (clients_of a) of
        Some (d, q) \<Rightarrow> Some (0, (key, a\<lparr>ea_client_info := Some q\<rparr>) # m)
      | None \<Rightarrow> map_option (\<lambda>(i, m). (Suc i, (key, a) # m)) (ext_find_first_free_dev m))"
  by (cases "ea_client_info a") (simp_all add: clients_of_def is_free_sta_def [abs_def] used_def [abs_def])

declare ext_find_first_free_dev.simps(2) [simp del]
declare ext_find_first_free_dev_Cons [simp]

lemma clients_of_update [simp]: "clients_of (a\<lparr>ea_client_info := Some q\<rparr>) = q"
  by (simp add: clients_of_def)

lemma ext_find_first_free_dev_Some:
  "ext_find_first_free_dev m = Some (i, m') \<Longrightarrow>
     i < length m \<and> length m' = length m \<and> free_clients m = Suc (free_clients m') \<and> client_macs m' = client_macs m \<and>
     (\<exists>s q. clients_of (snd (m' ! i)) = s # q \<and> \<not> is_free_sta s)"
proof (induction m arbitrary: i m')
  case (Cons e m)
  obtain key a where e: "e = (key, a)" by fastforce
  show ?case
  proof (cases "take_sta (clients_of a)")
    case None
    then obtain j r where r: "ext_find_first_free_dev m = Some (j, r)" "i = Suc j" "m' = (key, a) # r"
      using Cons.prems by (auto simp: e)
    from Cons.IH [OF r(1)] r(2,3) show ?thesis by (simp add: e)
  next
    case (Some dq)
    then obtain d q where q: "take_sta (clients_of a) = Some (d, q)" "i = 0" "m' = (key, a\<lparr>ea_client_info := Some q\<rparr>) # m"
      using Cons.prems by (cases dq) (auto simp: e)
    from take_free_SomeD [OF q(1)] obtain xs x ys where x: "clients_of a = xs @ x # ys" "q = xs @ d # ys" "d = used x"
      "is_free_sta x" "list_all (\<lambda>y. \<not> is_free_sta y) xs" by blast
    then show ?thesis using q(2,3) by (cases xs) (simp_all add: e)
  qed
qed simp

lemma ext_find_first_free_dev_None: "ext_find_first_free_dev m = None \<Longrightarrow> free_clients m = 0"
proof (induction m)
  case (Cons e m)
  obtain key a where e: "e = (key, a)" by fastforce
  have "take_sta (clients_of a) = None" "ext_find_first_free_dev m = None"
    using Cons.prems by (auto simp: e split: option.splits)
  then show ?case using Cons.IH take_free_None [of is_free_sta used] by (simp add: e)
qed simp

lemma at_agent_clients:
  assumes "i < length m" "clients_of (f (snd (m ! i))) = clients_of (snd (m ! i))"
  shows "free_clients (at_agent i f m) = free_clients m" "client_macs (at_agent i f m) = client_macs m"
proof -
  have "map (clients_of \<circ> snd) (at_agent i f m) = map (clients_of \<circ> snd) m"
    using assms by (intro nth_equalityI) (auto simp: at_agent_def nth_list_update)
  then show "free_clients (at_agent i f m) = free_clients m" "client_macs (at_agent i f m) = client_macs m"
    by (simp_all add: free_clients_def client_macs_def)
qed

lemma ext_add_sta_free:
  assumes "ext_add_sta je pn ax n doc m w = Some (rc, key, m', w')"
  shows "free_clients m' = free_clients m - 1 \<and> client_macs m' = client_macs m \<and> (rc = RETURN_OK \<longrightarrow> 0 < free_clients m)"
proof (cases "ext_find_first_free_dev m")
  case None
  then show ?thesis using assms ext_find_first_free_dev_None [OF None] by (auto simp: ext_add_sta_def)
next
  case (Some im)
  then obtain i m1 where i: "ext_find_first_free_dev m = Some (i, m1)" by fastforce
  from ext_find_first_free_dev_Some [OF i] obtain s q where m1: "i < length m1" "free_clients m = Suc (free_clients m1)"
    "client_macs m1 = client_macs m" "clients_of (snd (m1 ! i)) = s # q" "\<not> is_free_sta s" by auto
  have s: "s\<lparr>si_status := sta_state_in_use\<rparr> = s" using m1(5) by (cases s; cases "si_status s") (auto simp: is_free_sta_def)
  have "m' = m1 \<or> m' = at_agent i (\<lambda>a. a\<lparr>ea_client_info := Some (s # q)\<rparr>) m1"
    using assms m1(4) s by (auto simp: ext_add_sta_def i Let_def split: option.splits prod.splits if_splits)
  then show ?thesis
    using m1 at_agent_clients [of i m1 "\<lambda>a. a\<lparr>ea_client_info := Some (s # q)\<rparr>"] by auto
qed

lemma update_first_id: "(\<And>x. x \<in> set q \<Longrightarrow> \<not> p x) \<Longrightarrow> update_first p f q = q"
  by (induction q) auto

lemma agent_where_Some: "agent_where p m = Some i \<Longrightarrow> i < length m \<and> p (snd (m ! i))"
proof (induction m arbitrary: i)
  case (Cons e m)
  then show ?case by (cases e; cases i) (auto split: if_splits)
qed simp

lemma clients_in_macs: "i < length m \<Longrightarrow> s \<in> set (clients_of (snd (m ! i))) \<Longrightarrow> si_mac s \<in> set (client_macs m)"
  by (force simp: client_macs_def)

lemma ext_remove_sta_keeps:
  assumes "key_bytes key \<notin> set (client_macs m)" "ext_remove_sta ax key m w = (m', w')"
  shows "free_clients m' = free_clients m \<and> client_macs m' = client_macs m"
proof (cases "get_ext_agent ax key m")
  case None
  then show ?thesis using assms(2) by (simp add: ext_remove_sta_def)
next
  case (Some i)
  then have i: "i < length m" by (auto simp: get_ext_agent_def dest: agent_where_Some)
  let ?f = "\<lambda>a. a\<lparr>ea_client_info := map_option
      (update_first (\<lambda>s. si_mac s = key_bytes key) (\<lambda>s. s\<lparr>si_status := sta_state_free\<rparr>)) (ea_client_info a)\<rparr>"
  have "\<not> si_mac s = key_bytes key" if "s \<in> set (clients_of (snd (m ! i)))" for s
    using clients_in_macs [OF i that] assms(1) by metis
  then have same: "clients_of (?f (snd (m ! i))) = clients_of (snd (m ! i))"
    by (cases "ea_client_info (snd (m ! i))") (simp_all add: clients_of_def update_first_id)
  have "m' = at_agent i ?f m" using assms(2) Some by (auto simp: ext_remove_sta_def split: prod.splits)
  then show ?thesis using at_agent_clients [of i m ?f, OF i same] by simp
qed

section \<open>Many calls\<close>

datatype ext_call = Ext_add agent_env int string | Ext_remove agent_env string

fun is_add :: "ext_call \<Rightarrow> bool" where
  "is_add (Ext_add ax n doc) = True"
| "is_add (Ext_remove ax key) = False"

text \<open>The result codes of the additions, and what is left.\<close>

fun ext_calls ::
  "'j json_env \<Rightarrow> ('j \<Rightarrow> string option) \<Rightarrow> ext_call list \<Rightarrow> ext_agent hash_map \<Rightarrow> world \<Rightarrow>
     (int list \<times> ext_agent hash_map \<times> world) option" where
  "ext_calls je pn [] m w = Some ([], m, w)"
| "ext_calls je pn (Ext_add ax n doc # cs) m w =
     (case ext_add_sta je pn ax n doc m w of
        None \<Rightarrow> None
      | Some (rc, key, m, w) \<Rightarrow> map_option (\<lambda>(rcs, r). (rc # rcs, r)) (ext_calls je pn cs m w))"
| "ext_calls je pn (Ext_remove ax key # cs) m w = (case ext_remove_sta ax key m w of (m, w) \<Rightarrow> ext_calls je pn cs m w)"

fun key_apart_from :: "bytes list \<Rightarrow> ext_call \<Rightarrow> bool" where
  "key_apart_from macs (Ext_add ax n doc) = True"
| "key_apart_from macs (Ext_remove ax key) = (key_bytes key \<notin> set macs)"

text \<open>
  Devices of external agents are used up: whatever stations are added and removed, every addition takes a
  free device for good, also one that fails, and no removal gives one back; so at most as many additions
  ever succeed as there were free devices. The addresses of the devices are not, as bytes, the beginning of a printed
  address that is removed.
\<close>

theorem external_devices_run_out:
  assumes "ext_calls je pn calls m w = Some (rcs, m', w')" and "list_all (key_apart_from (client_macs m)) calls"
  shows "free_clients m' = free_clients m - length (filter is_add calls) \<and>
     length (filter (\<lambda>rc. rc = RETURN_OK) rcs) \<le> free_clients m"
  using assms
proof (induction je pn calls m w arbitrary: rcs rule: ext_calls.induct)
  case (2 je pn ax n doc cs m w)
  then obtain rc key m1 w1 where add: "ext_add_sta je pn ax n doc m w = Some (rc, key, m1, w1)"
    by (auto split: option.splits)
  then obtain rest where rest: "ext_calls je pn cs m1 w1 = Some (rest, m', w')" "rcs = rc # rest"
    using "2.prems"(1) by auto
  note one = ext_add_sta_free [OF add]
  have "free_clients m' = free_clients m1 - length (filter is_add cs) \<and> length (filter (\<lambda>rc. rc = RETURN_OK) rest) \<le> free_clients m1"
    using "2.IH" [OF add refl refl refl rest(1)] "2.prems"(2) one by auto
  with one rest(2) show ?case by auto
next
  case (3 je pn ax key cs m w)
  then show ?case using ext_remove_sta_keeps [of key m ax w] by (auto split: prod.splits)
qed simp

text \<open>
  The stations of an agent share a key: two stations that are added one after the other to the only agent
  get the same key, that of its first device, although two devices are taken. A later call that looks a
  station up by its key cannot tell them apart.
\<close>

theorem second_station_same_key:
  assumes "ext_add_sta je pn ax n doc [(k, a)] w = Some (RETURN_OK, key, m, w')"
    and "ext_add_sta je' pn' ax' n' doc' m w' = Some (RETURN_OK, key', m', w'')" and "ax_mac_str ax' = ax_mac_str ax"
  shows "key' = key"
proof -
  have first: "i = 0 \<and> (\<exists>b. m1 = [(k', b)] \<and> si_mac (hd (clients_of b)) = si_mac (hd (clients_of c)))"
    if f: "ext_find_first_free_dev [(k', c)] = Some (i, m1)" for k' c i m1
  proof -
    obtain d q where q: "take_sta (clients_of c) = Some (d, q)" "i = 0" "m1 = [(k', c\<lparr>ea_client_info := Some q\<rparr>)]"
      using f by (auto split: option.splits)
    from take_free_SomeD [OF q(1)] obtain xs x ys where "clients_of c = xs @ x # ys" "q = xs @ d # ys" "d = used x" by blast
    then show ?thesis using q by (cases xs) simp_all
  qed
  have key_of: "\<exists>b. m1 = [(k', b)] \<and> key1 = Some (ax_mac_str ax1 (si_mac (hd (clients_of c)))) \<and>
      si_mac (hd (clients_of b)) = si_mac (hd (clients_of c))"
    if add: "ext_add_sta je1 pn1 ax1 n1 doc1 [(k', c)] w1 = Some (RETURN_OK, key1, m1, w2)" for je1 :: "'x json_env" and pn1 ax1 n1 doc1 k' c w1 key1 m1 w2
  proof -
    obtain i m0 where i: "ext_find_first_free_dev [(k', c)] = Some (i, m0)"
      using add by (auto simp: ext_add_sta_def split: option.splits)
    with first [OF i] obtain b where b: "i = 0" "m0 = [(k', b)]" "si_mac (hd (clients_of b)) = si_mac (hd (clients_of c))" by blast
    obtain s q where "clients_of b = s # q" "key1 = Some (ax_mac_str ax1 (si_mac s))"
      "m1 = [(k', b\<lparr>ea_client_info := Some (s\<lparr>si_status := sta_state_in_use\<rparr> # q)\<rparr>)]"
      using add i b(1,2) by (auto simp: ext_add_sta_def Let_def at_agent_def split: option.splits prod.splits if_splits list.splits)
    with b(3) show ?thesis by simp
  qed
  from key_of [OF assms(1)] obtain b where b: "m = [(k, b)]" "key = Some (ax_mac_str ax (si_mac (hd (clients_of a))))"
    "si_mac (hd (clients_of b)) = si_mac (hd (clients_of a))" by blast
  from key_of [OF assms(2) [unfolded b(1)]] b(2,3) assms(3) show ?thesis by auto
qed

section \<open>Ethernet clients\<close>

definition eth_macs :: "ext_agent hash_map \<Rightarrow> bytes list" where
  "eth_macs m = map ed_interface_mac (concat (map (eth_of \<circ> snd) m))"

lemma find_first_free_eth_dev_Some:
  "find_first_free_eth_dev m = Some (i, d, m') \<Longrightarrow>
     \<exists>pre key a post xs x ys. m = pre @ (key, a) # post \<and> i = length pre \<and>
       ea_eth_client_interfaces a = Some (xs @ x # ys) \<and> ed_state x = eth_interface_state_free \<and>
       d = x\<lparr>ed_state := eth_interface_state_in_use\<rparr> \<and>
       m' = pre @ (key, a\<lparr>ea_eth_client_interfaces := Some (xs @ d # ys)\<rparr>) # post"
proof (induction m arbitrary: i m')
  case (Cons e m)
  obtain key a where e: "e = (key, a)" by fastforce
  let ?take = "take_free (\<lambda>e. ed_state e = eth_interface_state_free) (\<lambda>e. e\<lparr>ed_state := eth_interface_state_in_use\<rparr>)"
  consider (skip) j r where "find_first_free_eth_dev m = Some (j, d, r)" "i = Suc j" "m' = (key, a) # r"
    | (here) q q' where "ea_eth_client_interfaces a = Some q" "?take q = Some (d, q')" "i = 0"
        "m' = (key, a\<lparr>ea_eth_client_interfaces := Some q'\<rparr>) # m"
    using Cons.prems by (auto simp: e split: option.splits)
  then show ?case
  proof cases
    case skip
    from Cons.IH [OF skip(1)] obtain pre k b post xs x ys where IH: "m = pre @ (k, b) # post" "j = length pre"
      "ea_eth_client_interfaces b = Some (xs @ x # ys)" "ed_state x = eth_interface_state_free"
      "d = x\<lparr>ed_state := eth_interface_state_in_use\<rparr>"
      "r = pre @ (k, b\<lparr>ea_eth_client_interfaces := Some (xs @ d # ys)\<rparr>) # post" by blast
    show ?thesis
      by (rule exI [of _ "(key, a) # pre"]) (use IH skip e in auto)
  next
    case here
    from take_free_SomeD [OF here(2)] obtain xs x ys where x: "q = xs @ x # ys" "q' = xs @ d # ys"
      "d = x\<lparr>ed_state := eth_interface_state_in_use\<rparr>" "ed_state x = eth_interface_state_free" by blast
    show ?thesis
      by (rule exI [of _ "[]"]) (use x here e in auto)
  qed
qed simp

lemma agent_where_append:
  "list_all (\<lambda>(k, a). \<not> p a) pre \<Longrightarrow> p a \<Longrightarrow> agent_where p (pre @ (k, a) # post) = Some (length pre)"
  by (induction pre) auto

lemma at_agent_append: "at_agent (length pre) f (pre @ (k, b) # post) = pre @ (k, f b) # post"
  by (simp add: at_agent_def)

lemma macs_apart:
  "mac \<notin> set (map g (concat (map (f \<circ> snd) pre))) \<Longrightarrow> list_all (\<lambda>(k, a). \<not> list_ex (\<lambda>e. g e = mac) (f a)) pre"
  by (induction pre) (auto simp: list_ex_iff)

lemma update_first_append: "list_all (\<lambda>x. \<not> p x) xs \<Longrightarrow> p x \<Longrightarrow> update_first p f (xs @ x # ys) = xs @ f x # ys"
  by (induction xs) auto

text \<open>
  The removal of an ethernet client undoes its addition: with distinct addresses that are read back as they are
  printed, the device found and taken is the one given back, and the map is as before.
\<close>

theorem eth_device_returned:
  assumes "find_first_free_eth_dev m = Some (i, d, m')" and "distinct (eth_macs m)"
    and "ax_str_mac ax (ax_mac_str ax (ed_interface_mac d)) = ed_interface_mac d"
  shows "fst (remove_eth_intf ax (ax_mac_str ax (ed_interface_mac d)) (ed_interface_mac d) m' w) = m"
proof -
  let ?mac = "ed_interface_mac d"
  obtain pre key a post xs x ys where m: "m = pre @ (key, a) # post" "i = length pre"
    "ea_eth_client_interfaces a = Some (xs @ x # ys)" "ed_state x = eth_interface_state_free"
    "d = x\<lparr>ed_state := eth_interface_state_in_use\<rparr>" "m' = pre @ (key, a\<lparr>ea_eth_client_interfaces := Some (xs @ d # ys)\<rparr>) # post"
    using find_first_free_eth_dev_Some [OF assms(1)] by blast
  have mac: "?mac = ed_interface_mac x" by (simp add: m(5))
  have "eth_of a = xs @ x # ys" by (simp add: eth_of_def m(3))
  then have apart: "?mac \<notin> set (map ed_interface_mac (concat (map (eth_of \<circ> snd) pre)))" "?mac \<notin> set (map ed_interface_mac xs)"
    using assms(2) unfolding eth_macs_def m(1) mac by auto
  let ?release = "\<lambda>a. a\<lparr>ea_eth_client_interfaces := map_option
      (update_first (\<lambda>e. ed_interface_mac e = ?mac) (\<lambda>e. e\<lparr>ed_state := eth_interface_state_free\<rparr>))
      (ea_eth_client_interfaces a)\<rparr>"
  let ?b = "a\<lparr>ea_eth_client_interfaces := Some (xs @ d # ys)\<rparr>"
  have b: "eth_of ?b = xs @ d # ys" by (simp add: eth_of_def)
  have "get_ext_agent_from_eth_dev_mac ax (ax_mac_str ax ?mac) m' = Some (length pre)"
    unfolding get_ext_agent_from_eth_dev_mac_def assms(3) m(6)
  proof (rule agent_where_append)
    show "list_all (\<lambda>(k, a). \<not> list_ex (\<lambda>e. ed_interface_mac e = ?mac) (eth_of a)) pre"
      by (rule macs_apart [OF apart(1)])
    show "list_ex (\<lambda>e. ed_interface_mac e = ?mac) (eth_of ?b)" unfolding b by simp
  qed
  then have "fst (remove_eth_intf ax (ax_mac_str ax ?mac) ?mac m' w) = at_agent (length pre) ?release m'"
    by (simp add: remove_eth_intf_def split: prod.splits)
  also have "\<dots> = pre @ (key, ?release ?b) # post" unfolding m(6) by (rule at_agent_append)
  also have "?release ?b = a"
  proof -
    have "list_all (\<lambda>e. ed_interface_mac e \<noteq> ?mac) xs" using apart(2) by (induction xs) auto
    then have "update_first (\<lambda>e. ed_interface_mac e = ?mac) (\<lambda>e. e\<lparr>ed_state := eth_interface_state_free\<rparr>) (xs @ d # ys)
        = xs @ d\<lparr>ed_state := eth_interface_state_free\<rparr> # ys" by (rule update_first_append) simp
    moreover have "d\<lparr>ed_state := eth_interface_state_free\<rparr> = x" using m(4) unfolding m(5) by simp
    ultimately show ?thesis using m(3) by (cases a) simp
  qed
  also have "pre @ (key, a) # post = m" by (rule m(1) [symmetric])
  finally show ?thesis .
qed

end
