(* ===== verification/Ext_Capability.thy ===== *)
theory Ext_Capability
  imports Ext_Agent
begin

text \<open>
  What an agent offers and what the gateway gets of it, for one agent and for several.
\<close>

section \<open>The capability on both sides\<close>

text \<open>What the gateway keeps of a client the agent offers.\<close>

definition gateway_client :: "agent_env \<Rightarrow> sta_info \<Rightarrow> sta_info" where
  "gateway_client ax s = (ax_raw_sta ax)\<lparr>si_status := sta_state_free, si_mac := si_mac s,
     si_interface_name := snprintf_store (ax_name_size ax) (si_interface_name s)\<rparr>"

definition gateway_eth :: "agent_env \<Rightarrow> eth_dev_info \<Rightarrow> eth_dev_info" where
  "gateway_eth ax e = (ax_raw_eth ax)\<lparr>ed_interface_mac := ed_interface_mac e, ed_interface_name := ed_interface_name e,
     ed_is_ip_assigned := True, ed_ip_address := ed_ip_address e\<rparr>"

text \<open>The addresses are read back as they are printed, and nothing printed is empty.\<close>

definition mac_prints :: "agent_env \<Rightarrow> bytes \<Rightarrow> bool" where
  "mac_prints ax mac \<longleftrightarrow> ax_mac_str ax mac \<noteq> [] \<and> ax_str_mac ax (ax_mac_str ax mac) = mac"

definition client_prints :: "agent_env \<Rightarrow> sta_info \<Rightarrow> bool" where
  "client_prints ax s \<longleftrightarrow> mac_prints ax (si_mac s) \<and> si_interface_name s \<noteq> []"

definition eth_prints :: "agent_env \<Rightarrow> eth_dev_info \<Rightarrow> bool" where
  "eth_prints ax e \<longleftrightarrow> mac_prints ax (ed_interface_mac e) \<and> ed_interface_name e \<noteq> [] \<and> ed_ip_address e \<noteq> []"

lemma decode_wifi_client:
  assumes "mirrors je (wifi_client_object ax s) j" "client_prints ax s" "ax_new ax"
  shows "decode_clients je ax (j # js) a = decode_clients je ax js (push_client (gateway_client ax s) a)"
proof -
  note m = assms(1) [unfolded wifi_client_object_def]
  obtain t where t: "decode_param_integer je (Some j) ''ExternalClientIntType'' = Accept t"
    "cj_valuedouble je t = of_int interface_type_wifi"
    using mirrored_param_integer [OF m, of "''ExternalClientIntType''" interface_type_wifi] by auto
  have s: "decode_param_string je (Some j) ''ExternalClientMAC'' = Accept (ax_mac_str ax (si_mac s))"
    "decode_param_string je (Some j) ''ExternalClientIntfName'' = Accept (si_interface_name s)"
    by (rule mirrored_param_string [OF m]; use assms(2) in \<open>simp add: client_prints_def mac_prints_def\<close>)+
  show ?thesis
    using assms(2,3) by (simp add: t s gateway_client_def client_prints_def mac_prints_def)
qed

lemma decode_eth_client:
  assumes "mirrors je (eth_client_object ax e) j" "eth_prints ax e" "ax_new ax"
  shows "decode_clients je ax (j # js) a = decode_clients je ax js (push_eth (gateway_eth ax e) a)"
proof -
  note m = assms(1) [unfolded eth_client_object_def]
  obtain t where t: "decode_param_integer je (Some j) ''ExternalClientIntType'' = Accept t"
    "cj_valuedouble je t = of_int interface_type_ethernet"
    using mirrored_param_integer [OF m, of "''ExternalClientIntType''" interface_type_ethernet] by auto
  have s: "decode_param_string je (Some j) ''ExternalClientMAC'' = Accept (ax_mac_str ax (ed_interface_mac e))"
    "decode_param_string je (Some j) ''ExternalClientIntfName'' = Accept (ed_interface_name e)"
    "decode_param_string je (Some j) ''ExternalClientIpAddress'' = Accept (ed_ip_address e)"
    by (rule mirrored_param_string [OF m]; use assms(2) in \<open>simp add: eth_prints_def mac_prints_def\<close>)+
  show ?thesis
    using assms(2,3) by (simp add: t s gateway_eth_def eth_prints_def mac_prints_def)
qed

lemma decode_wifi_clients:
  "list_all2 (mirrors je) (map (wifi_client_object ax) cs) js \<Longrightarrow> list_all (client_prints ax) cs \<Longrightarrow> ax_new ax \<Longrightarrow>
     decode_clients je ax (js @ rest) a = decode_clients je ax rest (fold push_client (map (gateway_client ax) cs) a)"
proof (induction cs arbitrary: js a)
  case (Cons c cs)
  then obtain j r where "js = j # r" "mirrors je (wifi_client_object ax c) j"
    "list_all2 (mirrors je) (map (wifi_client_object ax) cs) r"
    by (auto simp: list_all2_Cons1)
  with Cons show ?case by (simp add: decode_wifi_client del: decode_clients.simps)
qed simp

lemma decode_eth_clients:
  "list_all2 (mirrors je) (map (eth_client_object ax) es) js \<Longrightarrow> list_all (eth_prints ax) es \<Longrightarrow> ax_new ax \<Longrightarrow>
     decode_clients je ax js a = Some (RETURN_OK, fold push_eth (map (gateway_eth ax) es) a)"
proof (induction es arbitrary: js a)
  case (Cons e es)
  then obtain j r where "js = j # r" "mirrors je (eth_client_object ax e) j"
    "list_all2 (mirrors je) (map (eth_client_object ax) es) r"
    by (auto simp: list_all2_Cons1)
  with Cons show ?case by (simp add: decode_eth_client del: decode_clients.simps(2))
qed simp

lemma fold_push_client:
  "ea_client_info a = Some q \<Longrightarrow> fold push_client cs a = a\<lparr>ea_client_info := Some (rev cs @ q)\<rparr>"
  by (induction cs arbitrary: a q) (simp_all add: push_client_def)

lemma fold_push_eth:
  "ea_eth_client_interfaces a = Some q \<Longrightarrow> fold push_eth es a = a\<lparr>ea_eth_client_interfaces := Some (rev es @ q)\<rparr>"
  by (induction es arbitrary: a q) (simp_all add: push_eth_def)

text \<open>
  C38. What an agent offers is what the gateway gets: when the gateway reads the document the agent made of its
  capability, it has the agent's clients and ethernet interfaces with their addresses and names, in reverse
  order, every wireless client free, and the name and the number of clients of the agent.
\<close>

theorem capability_round_trip:
  assumes "encode_external_agent_capability ax a [] = (RETURN_OK, str)" and "str \<noteq> []"
    and "cj_parse je str = Some j" and "mirrors je (capability_document ax a) j" and "ax_new gw"
    and "ea_hostname a \<noteq> []"
    and "cs = peeked (ea_total_supported_clients a) (ea_client_info a)"
    and "es = peeked (ea_total_supported_eth_clients a) (ea_eth_client_interfaces a)"
    and "list_all (client_prints ax) cs" and "list_all (eth_prints ax) es" and "ax_str_mac gw = ax_str_mac ax"
    and "ax_mac_str gw = ax_mac_str ax"
  shows "decode_external_agent_capability je gw str b = Some (RETURN_OK, b\<lparr>ea_subdoc_name := ''Agent Capability'',
    ea_hostname := ea_hostname a, ea_total_supported_clients := ea_total_supported_clients a,
    ea_client_info := Some (rev (map (gateway_client gw) cs)),
    ea_eth_client_interfaces := Some (rev (map (gateway_eth gw) es))\<rparr>)"
proof -
  note m = assms(4) [unfolded capability_document_def]
  have s: "decode_param_string je (Some j) ''SubDocName'' = Accept ''Agent Capability''"
    "decode_param_string je (Some j) ''ExternalAgentHostName'' = Accept (ea_hostname a)"
    by (rule mirrored_param_string [OF m]; use assms(6) in simp)+
  obtain v where v: "decode_param_integer je (Some j) ''ExternalClientCount'' = Accept v"
    "cj_valuedouble je v = of_int (uint (ea_total_supported_clients a))"
    using mirrored_param_integer [OF m, of "''ExternalClientCount''"] by auto
  have n: "unsigned_member je (Some j) ''ExternalClientCount'' = Accept (ea_total_supported_clients a)"
    unfolding unsigned_member_def v after.simps by (rule to_uint_uint)
  obtain c where c: "cj_item je j ''ExternalClientCapability'' = Some c" "cj_is_array je c"
    "list_all2 (mirrors je) (map (wifi_client_object ax) cs @ map (eth_client_object ax) es) (cj_elems je c)"
    using mirrored_item [OF m, of "''ExternalClientCapability''"] by (auto simp: assms(7,8))
  from c(3) obtain jw jn where e: "cj_elems je c = jw @ jn" "list_all2 (mirrors je) (map (wifi_client_object ax) cs) jw"
    "list_all2 (mirrors je) (map (eth_client_object ax) es) jn"
    by (auto simp: list_all2_append1)
  have objects: "wifi_client_object gw = wifi_client_object ax" "eth_client_object gw = eth_client_object ax"
    "client_prints gw = client_prints ax" "eth_prints gw = eth_prints ax"
    using assms(11,12)
    by (auto simp: fun_eq_iff wifi_client_object_def eth_client_object_def client_prints_def eth_prints_def mac_prints_def)
  note clients = decode_wifi_clients [OF e(2) [folded objects] assms(9) [folded objects] assms(5)]
  note eths = decode_eth_clients [OF e(3) [folded objects] assms(10) [folded objects] assms(5)]
  show ?thesis
    using assms(2,3) by (simp add: decode_external_agent_capability_def s n c e(1) clients eths fold_push_client fold_push_eth
        Let_def queue_create_def)
qed

section \<open>Asking several agents\<close>

definition same_queues :: "ext_agent \<Rightarrow> ext_agent \<Rightarrow> bool" where
  "same_queues a b \<longleftrightarrow> ea_client_info a = ea_client_info b \<and> ea_eth_client_interfaces a = ea_eth_client_interfaces b"

text \<open>Two agents that look the same to the gateway.\<close>

definition same_offer :: "ext_agent \<Rightarrow> ext_agent \<Rightarrow> bool" where
  "same_offer a b \<longleftrightarrow> same_queues a b \<and> ea_hostname a = ea_hostname b \<and>
     ea_total_supported_clients a = ea_total_supported_clients b"

lemma same_offer_push [intro]:
  "same_offer a b \<Longrightarrow> same_offer (push_client s a) (push_client s b)"
  "same_offer a b \<Longrightarrow> same_offer (push_eth e a) (push_eth e b)"
  by (simp_all add: same_offer_def same_queues_def push_client_def push_eth_def)

lemma with_param_same:
  "(\<And>p. m = Accept p \<Longrightarrow> rel_option (rel_prod (=) same_offer) (f p) (g p)) \<Longrightarrow> same_offer a b \<Longrightarrow>
     rel_option (rel_prod (=) same_offer) (with_param m a f) (with_param m b g)"
  by (cases m) auto

lemma with_param_ok: "with_param m a f = Some (RETURN_OK, c) \<longleftrightarrow> (\<exists>p. m = Accept p \<and> f p = Some (RETURN_OK, c))"
  by (cases m) auto

lemma decode_clients_same:
  "same_offer a b \<Longrightarrow> rel_option (rel_prod (=) same_offer) (decode_clients je ax es a) (decode_clients je ax es b)"
proof (induction es arbitrary: a b)
  case (Cons e es)
  show ?case
    unfolding decode_clients.simps
    by (rule with_param_same [OF _ Cons.prems])
      (auto intro!: with_param_same Cons.prems Cons.IH [OF same_offer_push(1)] Cons.IH [OF same_offer_push(2)]
        Cons.IH [OF Cons.prems] simp: Cons.prems)
qed simp

lemma decode_capability_same:
  assumes "decode_external_agent_capability je ax r a = Some (RETURN_OK, c)"
  shows "\<exists>d. decode_external_agent_capability je ax r b = Some (RETURN_OK, d) \<and> same_offer d c"
proof -
  obtain j s h n v where d: "r \<noteq> []" "cj_parse je r = Some j"
    "decode_param_string je (Some j) ''SubDocName'' = Accept s"
    "decode_param_string je (Some j) ''ExternalAgentHostName'' = Accept h"
    "unsigned_member je (Some j) ''ExternalClientCount'' = Accept n"
    "cj_item je j ''ExternalClientCapability'' = Some v" "cj_is_array je v"
    using assms
    by (auto simp: decode_external_agent_capability_def Let_def with_param_ok
        split: if_splits option.splits)
  let ?set = "\<lambda>a. a\<lparr>ea_subdoc_name := take 31 s, ea_hostname := h, ea_total_supported_clients := n,
    ea_client_info := Some queue_create, ea_eth_client_interfaces := Some queue_create\<rparr>"
  have same: "same_offer (?set b) (?set a)" by (simp add: same_offer_def same_queues_def)
  show ?thesis
    using decode_clients_same [OF same, of je ax "cj_elems je v"] assms d
    by (auto simp: decode_external_agent_capability_def Let_def option_rel_Some2)
qed

definition capability_url :: "ext_agent \<Rightarrow> string" where
  "capability_url a = snprintf_store 128 (ea_ip_address a @ '':1234/Capability'')"

definition answers :: "agent_env \<Rightarrow> ext_agent \<Rightarrow> bool" where
  "answers ax a \<longleftrightarrow> (case ax_get ax (capability_url a) of (body, performed, code) \<Rightarrow> performed \<and> code \<noteq> None)"

lemma agent_capabilities_after:
  assumes "\<And>x. cj_parse je (r @ x) = cj_parse je r" "r \<noteq> []" "ax_curl ax"
    and "decode_external_agent_capability je ax r a0 = Some (RETURN_OK, c)"
  shows "list_all (\<lambda>(k, a). answers ax a) m \<Longrightarrow>
    \<exists>m' w'. agent_capabilities je ax (r @ x) m w = Some (m', w') \<and> list_all (\<lambda>(k, b). same_offer b c) m'"
proof (induction m arbitrary: x w)
  case (Cons e m)
  obtain k a where e: "e = (k, a)" by fastforce
  obtain body code where get: "ax_get ax (capability_url a) = (body, True, Some code)"
    using Cons.prems by (auto simp: e answers_def)
  have "decode_external_agent_capability je ax (r @ x @ body) a = decode_external_agent_capability je ax r a"
    using assms(1) [of "x @ body"] assms(2) by (simp add: decode_external_agent_capability_def)
  then obtain d where d: "decode_external_agent_capability je ax (r @ x @ body) a = Some (RETURN_OK, d)" "same_offer d c"
    using decode_capability_same [OF assms(4), of a] by auto
  from Cons.IH [of "x @ body" w] Cons.prems obtain m' w' where
    "agent_capabilities je ax (r @ x @ body) m w = Some (m', w')" "list_all (\<lambda>(k, b). same_offer b c) m'"
    by auto
  with d get assms(3) show ?case by (simp add: e http_get_def capability_url_def)
qed simp

text \<open>
  All agents look like the first: when every agent answers, the answer of the first decides what the gateway
  takes all of them to offer, because the response is not cleared and the JSON parser stops behind the first document
  of a text.
\<close>

theorem agents_look_like_first:
  assumes "ax_curl ax" and "ax_get ax (capability_url a) = (r, True, Some code)"
    and "decode_external_agent_capability je ax r a = Some (RETURN_OK, c)"
    and "\<And>x. cj_parse je (r @ x) = cj_parse je r" and "list_all (\<lambda>(k, a). answers ax a) m"
  shows "\<exists>m' w'. get_external_agent_capabilities je ax ((k, a) # m) w = Some (RETURN_OK, (k, c) # m', w') \<and>
    list_all (\<lambda>(k, b). same_offer b c) m'"
proof -
  have "r \<noteq> []" using assms(3) by (auto simp: decode_external_agent_capability_def)
  from agent_capabilities_after [OF assms(4) this assms(1,3,5), of "[]" w] assms(1,2,3) show ?thesis
    by (auto simp: get_external_agent_capabilities_def http_get_def capability_url_def)
qed

end
