(* ===== verification/Ext_Runs.thy ===== *)
theory Ext_Runs
  imports Decode_Runs Ext_Sta_Facts Ext_Capability
begin

text \<open>
  A sample agent with two wireless clients and an ethernet interface, and runs of the interface and the manager on it.
\<close>

section \<open>The sample\<close>

definition sample_station :: "bytes \<Rightarrow> sta_info" where
  "sample_station mac = \<lparr>si_phy_index = 0, si_rdk_radio_index = 0, si_interface_name = ''wlan0'', si_bridge_name = [],
     si_vlan_id = 0, si_index = 0, si_vap_name = [], si_mac = mac, si_status = sta_state_free\<rparr>"

definition sample_eth :: "bytes \<Rightarrow> eth_dev_info" where
  "sample_eth mac = \<lparr>ed_interface_name = ''eth0'', ed_interface_mac = mac, ed_ip_address = ''10.0.0.2'',
     ed_is_ip_assigned = True, ed_state = eth_interface_state_free\<rparr>"

definition sample_agent :: ext_agent where
  "sample_agent = \<lparr>ea_version = ''1.0'', ea_subdoc_name = [], ea_hostname = ''agent'', ea_mac = [1, 2, 3, 4, 5, 6],
     ea_ip_address = ''10.0.0.1'', ea_client_info = Some [sample_station [2, 0, 0, 0, 0, 1], sample_station [2, 0, 0, 0, 0, 2]],
     ea_total_supported_clients = 2, ea_eth_client_interfaces = Some [sample_eth [4, 0, 0, 0, 0, 1]],
     ea_total_supported_eth_clients = 1\<rparr>"

text \<open>The addresses of the sample are printed byte by byte; every request is answered with the sample's document.\<close>

definition sample_agent_env :: agent_env where
  "sample_agent_env = \<lparr>ax_env = sample_environment, ax_mac_str = map (\<lambda>b. char_of (unat b + 64)),
     ax_str_mac = map (\<lambda>c. of_nat (of_char c - 64)), ax_print = (\<lambda>d. Some ''json''), ax_json = True, ax_new = True,
     ax_raw_agent = sample_agent, ax_raw_sta = sample_station [], ax_raw_eth = sample_eth [], ax_raw_tail = [],
     ax_name_size = 16, ax_curl = True, ax_get = (\<lambda>url. (''json'', True, Some 200)),
     ax_post = (\<lambda>url content. (True, Some 200)), ax_file_written = (\<lambda>f. True), ax_bus = (\<lambda>k. None), ax_hosts = Some 0\<rparr>"

lemmas sample_agent_defs = sample_agent_env_def sample_agent_def sample_station_def sample_eth_def

definition sample_status_document :: json_doc where
  "sample_status_document = Doc_object [(''ExternalAgentHostName'', Doc_string ''agent''),
     (''ExternalAgentStepCount'', Doc_number 0), (''ExternalAgentStatus'', Doc_string ''idle''),
     (''ExternalAgentStepStatus'', Doc_array [])]"

abbreviation sample_status_json :: "sample_json json_env" where
  "sample_status_json \<equiv> sample_json_env (sample_of sample_status_document)"

theorem capability_round_trip_witness:
  "decode_external_agent_capability (sample_json_env (sample_of (capability_document sample_agent_env sample_agent)))
     sample_agent_env ''json'' (fresh_agent sample_agent_env) =
   Some (RETURN_OK, (fresh_agent sample_agent_env)\<lparr>ea_subdoc_name := ''Agent Capability'', ea_hostname := ''agent'',
    ea_total_supported_clients := 2,
    ea_client_info := Some (rev (map (gateway_client sample_agent_env) [sample_station [2, 0, 0, 0, 0, 1], sample_station [2, 0, 0, 0, 0, 2]])),
    ea_eth_client_interfaces := Some (rev (map (gateway_eth sample_agent_env) [sample_eth [4, 0, 0, 0, 0, 1]]))\<rparr>)"
proof -
  let ?doc = "capability_document sample_agent_env sample_agent"
  let ?je = "sample_json_env (sample_of ?doc)"
  have e: "encode_external_agent_capability sample_agent_env sample_agent [] = (RETURN_OK, ''json'')"
    by (simp add: encode_external_agent_capability_def sample_agent_env_def)
  have m: "mirrors ?je ?doc (sample_of ?doc)" by code_simp
  have p: "cj_parse ?je ''json'' = Some (sample_of ?doc)" by (simp add: sample_json_env_def)
  have c: "[sample_station [2, 0, 0, 0, 0, 1], sample_station [2, 0, 0, 0, 0, 2]] =
      peeked (ea_total_supported_clients sample_agent) (ea_client_info sample_agent)"
    "[sample_eth [4, 0, 0, 0, 0, 1]] = peeked (ea_total_supported_eth_clients sample_agent) (ea_eth_client_interfaces sample_agent)"
    by code_simp+
  have l: "list_all (client_prints sample_agent_env) [sample_station [2, 0, 0, 0, 0, 1], sample_station [2, 0, 0, 0, 0, 2]]"
    "list_all (eth_prints sample_agent_env) [sample_eth [4, 0, 0, 0, 0, 1]]" by code_simp+
  have n: "ax_new sample_agent_env" "ea_hostname sample_agent \<noteq> []" by (simp_all add: sample_agent_env_def sample_agent_def)
  show ?thesis
    using capability_round_trip [OF e _ p m n(1,2) c l refl refl, of "fresh_agent sample_agent_env"]
    by (simp add: sample_agent_def)
qed

text \<open>A parser that stops behind the first document.\<close>

definition sample_offer_json :: "sample_json json_env" where
  "sample_offer_json = (sample_json_env (sample_of (capability_document sample_agent_env sample_agent)))
     \<lparr>cj_parse := (\<lambda>s. if take 4 s = ''json'' then Some (sample_of (capability_document sample_agent_env sample_agent)) else None)\<rparr>"

lemma sample_offer:
  "decode_external_agent_capability sample_offer_json sample_agent_env ''json'' sample_agent =
     Some (RETURN_OK, sample_agent\<lparr>ea_subdoc_name := ''Agent Capability'',
       ea_client_info := Some [sample_station [2, 0, 0, 0, 0, 2], sample_station [2, 0, 0, 0, 0, 1]]\<rparr>)"
  by code_simp

theorem agents_look_like_first_witness:
  "\<exists>c m w. get_external_agent_capabilities sample_offer_json sample_agent_env
     [(''a'', sample_agent), (''b'', sample_agent\<lparr>ea_hostname := [], ea_client_info := None\<rparr>)] sample_world =
     Some (RETURN_OK, (''a'', c) # m, w) \<and> list_all (\<lambda>(k, b). same_offer b c) m"
proof -
  have g: "ax_curl sample_agent_env" "ax_get sample_agent_env (capability_url sample_agent) = (''json'', True, Some 200)"
    by (simp_all add: sample_agent_env_def)
  have p: "cj_parse sample_offer_json (''json'' @ x) = cj_parse sample_offer_json ''json''" for x
    by (simp add: sample_offer_json_def)
  have a: "list_all (\<lambda>(k, a). answers sample_agent_env a) [(''b'', sample_agent\<lparr>ea_hostname := [], ea_client_info := None\<rparr>)]"
    by (simp add: answers_def sample_agent_env_def)
  show ?thesis using agents_look_like_first [OF g sample_offer p a, of "''a''" sample_world] by blast
qed

definition sample_calls :: "ext_call list" where
  "sample_calls = [Ext_add sample_agent_env 1 ''doc'', Ext_remove sample_agent_env ''B@@@@A'', Ext_add sample_agent_env 2 ''doc'',
     Ext_add sample_agent_env 3 ''doc'']"

lemma sample_calls_run:
  "map_option fst (ext_calls sample_status_json (\<lambda>_. None) sample_calls [(''k'', sample_agent)] sample_world) = Some [RETURN_OK, RETURN_OK, RETURN_ERR]"
  by code_simp

theorem external_devices_run_out_witness:
  "\<exists>m w. ext_calls sample_status_json (\<lambda>_. None) sample_calls [(''k'', sample_agent)] sample_world =
     Some ([RETURN_OK, RETURN_OK, RETURN_ERR], m, w) \<and> free_clients m = 0"
proof -
  obtain m w where r: "ext_calls sample_status_json (\<lambda>_. None) sample_calls [(''k'', sample_agent)] sample_world =
     Some ([RETURN_OK, RETURN_OK, RETURN_ERR], m, w)"
    using sample_calls_run by (auto simp: map_option_eq_Some)
  have k: "list_all (key_apart_from (client_macs [(''k'', sample_agent)])) sample_calls" by code_simp
  have f: "free_clients [(''k'', sample_agent)] = 2" by code_simp
  show ?thesis using external_devices_run_out [OF r k] r f by (simp add: sample_calls_def)
qed

lemma sample_add:
  "map_option (\<lambda>(rc, key, r). (rc, key)) (ext_add_sta sample_status_json (\<lambda>_. None) sample_agent_env 1 ''doc''
     [(''k'', sample_agent)] sample_world) = Some (RETURN_OK, Some ''B@@@@A'')"
  by code_simp

lemma sample_second_add:
  "map_option (\<lambda>(rc, key, m, w). map_option (\<lambda>(rc, key, r). (rc, key)) (ext_add_sta sample_status_json (\<lambda>_. None)
     sample_agent_env 2 ''doc'' m w)) (ext_add_sta sample_status_json (\<lambda>_. None) sample_agent_env 1 ''doc''
     [(''k'', sample_agent)] sample_world) = Some (Some (RETURN_OK, Some ''B@@@@A''))"
  by code_simp

theorem second_station_same_key_witness:
  "\<exists>key m w m' w'. ext_add_sta sample_status_json (\<lambda>_. None) sample_agent_env 1 ''doc'' [(''k'', sample_agent)] sample_world =
     Some (RETURN_OK, key, m, w) \<and>
   ext_add_sta sample_status_json (\<lambda>_. None) sample_agent_env 2 ''doc'' m w = Some (RETURN_OK, key, m', w')"
proof -
  obtain key m w where a: "ext_add_sta sample_status_json (\<lambda>_. None) sample_agent_env 1 ''doc'' [(''k'', sample_agent)] sample_world =
     Some (RETURN_OK, key, m, w)"
    using sample_add by (auto simp: map_option_eq_Some)
  then obtain key' m' w' where b: "ext_add_sta sample_status_json (\<lambda>_. None) sample_agent_env 2 ''doc'' m w =
     Some (RETURN_OK, key', m', w')"
    using sample_second_add by (auto simp: map_option_eq_Some)
  show ?thesis using second_station_same_key [OF a b refl] a b by blast
qed

lemma sample_find_eth:
  "find_first_free_eth_dev [(''k'', sample_agent)] = Some (0, (sample_eth [4, 0, 0, 0, 0, 1])\<lparr>ed_state := eth_interface_state_in_use\<rparr>,
     [(''k'', sample_agent\<lparr>ea_eth_client_interfaces := Some [(sample_eth [4, 0, 0, 0, 0, 1])\<lparr>ed_state := eth_interface_state_in_use\<rparr>]\<rparr>)])"
  by code_simp

theorem eth_device_returned_witness:
  "fst (remove_eth_intf sample_agent_env ''D@@@@A'' [4, 0, 0, 0, 0, 1]
     [(''k'', sample_agent\<lparr>ea_eth_client_interfaces := Some [(sample_eth [4, 0, 0, 0, 0, 1])\<lparr>ed_state := eth_interface_state_in_use\<rparr>]\<rparr>)]
     sample_world) = [(''k'', sample_agent)]"
proof -
  let ?d = "(sample_eth [4, 0, 0, 0, 0, 1])\<lparr>ed_state := eth_interface_state_in_use\<rparr>"
  have d: "distinct (eth_macs [(''k'', sample_agent)])" by code_simp
  have r: "ax_str_mac sample_agent_env (ax_mac_str sample_agent_env (ed_interface_mac ?d)) = ed_interface_mac ?d" by code_simp
  have k: "ed_interface_mac ?d = [4, 0, 0, 0, 0, 1]" "ax_mac_str sample_agent_env [4, 0, 0, 0, 0, 1] = ''D@@@@A''" by code_simp+
  show ?thesis using eth_device_returned [OF sample_find_eth d r, of sample_world] unfolding k .
qed

end
