(* ===== verification/Common_Tables.thy ===== *)
theory Common_Tables
  imports Test_Step
begin

text \<open>
  The tables between enumerators of the hardware layer and their names (\<open>inc/wlan_common_utils.h\<close>) and the lookups
  in both directions (\<open>common/wlan_common_utils.cpp\<close>).
\<close>

section \<open>Tables\<close>

datatype (plugins only: code size) wifi_mfp_cfg = wifi_mfp_cfg_disabled | wifi_mfp_cfg_optional | wifi_mfp_cfg_required

datatype (plugins only: code size) wifi_security_mode =
    wifi_security_mode_none
  | wifi_security_mode_wep_64
  | wifi_security_mode_wep_128
  | wifi_security_mode_wpa_personal
  | wifi_security_mode_wpa2_personal
  | wifi_security_mode_wpa_wpa2_personal
  | wifi_security_mode_wpa_enterprise
  | wifi_security_mode_wpa2_enterprise
  | wifi_security_mode_wpa_wpa2_enterprise
  | wifi_security_mode_wpa3_personal
  | wifi_security_mode_wpa3_transition
  | wifi_security_mode_wpa3_enterprise
  | wifi_security_mode_enhanced_open

datatype (plugins only: code size) wifi_encryption_method =
    wifi_encryption_none
  | wifi_encryption_tkip
  | wifi_encryption_aes
  | wifi_encryption_aes_tkip
  | wifi_encryption_aes_gcmp256
  | wifi_encryption_gcmp256

definition mfp_config :: "(wifi_mfp_cfg \<times> string) list" where
  "mfp_config = [(wifi_mfp_cfg_disabled, ''Disabled''), (wifi_mfp_cfg_optional, ''Optional''), (wifi_mfp_cfg_required, ''Required'')]"

definition client_model :: "(sta_model_type \<times> string) list" where
  "client_model =
     [(sta_model_type_iphone, ''Iphone''), (sta_model_type_pixel, ''Pixel''), (sta_model_type_android, ''Android''),
      (sta_model_type_ios, ''iOS''), (sta_model_type_windows, ''Windows'')]"

definition secu_mode :: "(wifi_security_mode \<times> string) list" where
  "secu_mode =
     [(wifi_security_mode_none, ''None''), (wifi_security_mode_wep_64, ''WEP64''), (wifi_security_mode_wep_128, ''WEP128''),
      (wifi_security_mode_wpa_personal, ''WPA-Personal''), (wifi_security_mode_wpa2_personal, ''WPA2-Personal''),
      (wifi_security_mode_wpa_wpa2_personal, ''WPA-WPA2-Personal''), (wifi_security_mode_wpa_enterprise, ''WPA-Enterprise''),
      (wifi_security_mode_wpa2_enterprise, ''WPA2-Enterprise''),
      (wifi_security_mode_wpa_wpa2_enterprise, ''WPA-WPA2-Enterprise''), (wifi_security_mode_wpa3_personal, ''WPA3-Personal''),
      (wifi_security_mode_wpa3_transition, ''WPA3-Personal-Transition''), (wifi_security_mode_wpa3_enterprise, ''WPA3-Enterprise''),
      (wifi_security_mode_enhanced_open, ''Enhanced-Open'')]"

definition encryption :: "(wifi_encryption_method \<times> string) list" where
  "encryption =
     [(wifi_encryption_none, ''None''), (wifi_encryption_tkip, ''TKIP''), (wifi_encryption_aes, ''AES''),
      (wifi_encryption_aes_tkip, ''AES+TKIP''), (wifi_encryption_aes_gcmp256, ''AES+GCMP256''),
      (wifi_encryption_gcmp256, ''GCMP256'')]"

section \<open>Lookups\<close>

text \<open>\<open>None\<close> is the null pointer of a failing search for a name, or the result \<open>-1\<close> of one for an enumerator.\<close>

fun enum_string_conv :: "('e \<times> string) list \<Rightarrow> 'e \<Rightarrow> string option" where
  "enum_string_conv [] e = None"
| "enum_string_conv ((d, s) # tab) e = (if d = e then Some s else enum_string_conv tab e)"

fun string_enum_conv :: "('e \<times> string) list \<Rightarrow> string \<Rightarrow> 'e option" where
  "string_enum_conv [] t = None"
| "string_enum_conv ((d, s) # tab) t = (if s = t then Some d else string_enum_conv tab t)"

definition get_mfp_string :: "wifi_mfp_cfg \<Rightarrow> string option" where
  "get_mfp_string = enum_string_conv mfp_config"

definition get_mfp_enum :: "string \<Rightarrow> wifi_mfp_cfg option" where
  "get_mfp_enum = string_enum_conv mfp_config"

definition get_sta_type_string :: "sta_model_type \<Rightarrow> string option" where
  "get_sta_type_string = enum_string_conv client_model"

definition get_sta_type_enum :: "string \<Rightarrow> sta_model_type option" where
  "get_sta_type_enum = string_enum_conv client_model"

definition get_secu_mode_string :: "wifi_security_mode \<Rightarrow> string option" where
  "get_secu_mode_string = enum_string_conv secu_mode"

definition get_secu_mode_enum :: "string \<Rightarrow> wifi_security_mode option" where
  "get_secu_mode_enum = string_enum_conv secu_mode"

definition get_encryption_string :: "wifi_encryption_method \<Rightarrow> string option" where
  "get_encryption_string = enum_string_conv encryption"

definition get_encryption_enum :: "string \<Rightarrow> wifi_encryption_method option" where
  "get_encryption_enum = string_enum_conv encryption"

text \<open>Every enumerator has a nonempty name of its own, from which it is found again.\<close>

definition named :: "('e \<times> string) list \<Rightarrow> 'e \<Rightarrow> bool" where
  "named tab e \<longleftrightarrow> (case enum_string_conv tab e of
     None \<Rightarrow> False | Some s \<Rightarrow> s \<noteq> [] \<and> string_enum_conv tab s = Some e)"

lemma named_mfp: "named mfp_config m"
  by (cases m) (simp_all add: named_def mfp_config_def)

lemma named_sta_type: "named client_model t"
  by (cases t) (simp_all add: named_def client_model_def)

lemma named_secu_mode: "named secu_mode m"
  by (cases m) (simp_all add: named_def secu_mode_def)

lemma named_encryption: "named encryption e"
  by (cases e) (simp_all add: named_def encryption_def)

lemma namedE:
  assumes "named tab e"
  obtains s where "enum_string_conv tab e = Some s" "s \<noteq> []" "string_enum_conv tab s = Some e"
  using assms by (auto simp: named_def split: option.splits)

end
