(* ===== verification/Agent_Sta_Mgr.thy ===== *)
theory Agent_Sta_Mgr
  imports Common_Tables Sta_Mgr Ext_Agent
begin

text \<open>
  The manager of the stations on an external agent (\<open>external_agent_cci/wlan_ext_emu_sta_mgr.cpp\<close>). Its inventory
  and its map of station objects have the shape of those of the simulated stations (\<open>Sta_Mgr\<close>), whose
  state, keys and devices it uses.
\<close>

section \<open>The station part of a step\<close>

text \<open>
  The members of \<open>sta_test_t\<close> the agent reads or writes. \<open>None\<close> stands for the number \<open>-1\<close> of a name that is in no
  table.
\<close>

record agent_sta =
  at_test_id :: u32
  at_phy_index :: u32
  at_sta_type :: "sta_model_type option"
  at_sta_name :: string
  at_profile :: "int \<times> int"
  at_vap :: vap_info
  at_enabled :: bool
  at_secu_mode :: "wifi_security_mode option"
  at_mfp :: "wifi_mfp_cfg option"
  at_encr :: "wifi_encryption_method option"
  at_wpa3_transition_disable :: bool
  at_passphrase :: string
  at_radio :: radio_oper
  at_radio_enable :: bool
  at_capture_sta_requests :: bool
  at_custom_mac :: bytes
  at_interface_name :: string
  at_is_ip_assigned :: bool
  at_ip_address :: string
  at_key :: string
  at_is_station_associated :: bool
  at_dhcp_pid :: int
  at_test_duration :: int
  at_ap_vap_name :: string

section \<open>Adding a station\<close>

text \<open>The device's numbers, names and address go into the configuration; a custom address takes the place of the device's.\<close>

definition agent_claim :: "sta_info \<Rightarrow> agent_sta \<Rightarrow> agent_sta" where
  "agent_claim si t = t\<lparr>at_phy_index := si_phy_index si, at_interface_name := si_interface_name si,
     at_vap := (at_vap t)\<lparr>vi_vap_index := si_index si, vi_radio_index := si_rdk_radio_index si,
       vi_mac := (if is_zero_mac (at_custom_mac t) then si_mac si else at_custom_mac t)\<rparr>\<rparr>"

text \<open>A type without a class fails an assertion; the objects set the address unless it is a custom one.\<close>

definition agent_new_sta :: "u32 \<Rightarrow> agent_sta \<Rightarrow> (emu_sta \<times> vap_info) option" where
  "agent_new_sta dev_id t =
     (let custom = (\<not> is_zero_mac (at_custom_mac t))
      in case at_sta_type t of
           Some sta_model_type_iphone \<Rightarrow> Some (new_iphone dev_id (at_test_id t) (at_vap t) (at_profile t) custom)
         | Some sta_model_type_pixel \<Rightarrow> Some (new_pixel dev_id (at_test_id t) (at_vap t) (at_profile t) custom)
         | _ \<Rightarrow> None)"

definition agent_bss :: "sta_env \<Rightarrow> agent_sta \<Rightarrow> bss_info" where
  "agent_bss se t =
     \<lparr>bs_freq = se_freq se (ro_band (at_radio t)) (ro_channel (at_radio t)), bs_ssid = vi_ssid (at_vap t),
      bs_bssid = replicate 6 0, bs_band = 0\<rparr>"

text \<open>The radio, the access point and the connection of the station at address \<open>a\<close>; a failure deletes the object.\<close>

definition agent_connect :: "sta_env \<Rightarrow> agent_sta \<Rightarrow> u32 \<Rightarrow> nat \<Rightarrow> sim_sta_mgr \<Rightarrow> int \<times> sim_sta_mgr" where
  "agent_connect se t radio a m =
     (if \<not> se_malloc se (sm_fx m) 0 then (RETURN_ERR, delete_sta a m)
      else let rc = se_set_radio se (sm_fx m) radio (at_radio t); m = sta_effect (Sx_set_radio radio (at_radio t)) m
        in if rc \<noteq> RETURN_OK then (RETURN_ERR, delete_sta a m)
           else let rc = se_create_vap se (sm_fx m) radio (at_vap t); m = sta_effect (Sx_create_vap radio (at_vap t)) m
             in if rc \<noteq> RETURN_OK then (RETURN_ERR, delete_sta a m)
                else let m = m\<lparr>sm_heap := (sm_heap m)(a := map_option (es_vap_update (\<lambda>_. Some (at_vap t))) (sm_heap m a))\<rparr>;
                         m = sta_effect (Sx_sleep 500) (sta_effect (Sx_scan radio (ro_channel (at_radio t))) m);
                         vap = vi_vap_index (at_vap t);
                         rc = se_connect se (sm_fx m) vap (agent_bss se t);
                         m = sta_effect (Sx_connect vap (agent_bss se t)) m
                  in if rc \<noteq> RETURN_OK then (RETURN_ERR, delete_sta a m) else (RETURN_OK, m))"

definition agent_add_sta :: "sta_env \<Rightarrow> agent_sta \<Rightarrow> sim_sta_mgr \<Rightarrow> (int \<times> agent_sta \<times> sim_sta_mgr) option" where
  "agent_add_sta se t m =
     (case find_first_free_dev m of
        None \<Rightarrow> None
      | Some dev \<Rightarrow>
          if dev = - 1 then Some (- 1, t, m)
          else let dev_id = of_int dev; t = t\<lparr>at_key := create_key se dev_id (at_test_id t)\<rparr>
            in (case get_devid_sta_info m dev_id of
                  None \<Rightarrow> Some (- 1, t, m)
                | Some si \<Rightarrow>
                    let t = agent_claim si t
                    in (case agent_new_sta dev_id t of
                          None \<Rightarrow> None
                        | Some (s, vap) \<Rightarrow>
                            let t = t\<lparr>at_vap := vap\<rparr>
                            in (case alloc_sta s m of
                                  (a, m) \<Rightarrow>
                                    (case agent_connect se t (si_rdk_radio_index si) a m of
                                       (rc, m) \<Rightarrow>
                                         if rc \<noteq> RETURN_OK then Some (rc, t, m)
                                         else map_option (\<lambda>m. (0, t, m))
                                           (set_dev_busy dev_id (m\<lparr>sm_sta_map := snd (hash_map_put True True (sm_sta_map m) (at_key t) a)\<rparr>)))))))"

section \<open>Removing a station\<close>

text \<open>The object stays allocated. \<open>None\<close> is an object that is not there.\<close>

definition agent_remove_sta :: "sta_env \<Rightarrow> agent_sta \<Rightarrow> sim_sta_mgr \<Rightarrow> sim_sta_mgr option" where
  "agent_remove_sta se t m =
     (if at_key t = [] then Some m
      else case hash_map_get (sm_sta_map m) (at_key t) of
             None \<Rightarrow> Some m
           | Some a \<Rightarrow>
               (case sm_heap m a of
                  None \<Rightarrow> None
                | Some s \<Rightarrow>
                    let m = (if at_is_station_associated t then sta_effect (Sx_disconnect (vi_vap_index (at_vap t))) m else m)
                    in (case get_devid_sta_info m (es_dev s) of
                          None \<Rightarrow> Some m
                        | Some si \<Rightarrow> do {
                            m \<leftarrow> set_dev_free (es_dev s) m;
                            (_, sta_map) \<leftarrow> hash_map_remove (sm_sta_map m) (at_key t);
                            Some (m\<lparr>sm_sta_map := sta_map\<rparr>) })))"

section \<open>Start-up\<close>

text \<open>The inventory: interfaces with a name whose address is not zero. The memory for an address is not cleared.\<close>

definition agent_device :: "sta_env \<Rightarrow> interface_map \<Rightarrow> vap_info list \<Rightarrow> sta_info" where
  "agent_device se im vaps =
     (let own = filter (\<lambda>v. vi_vap_index v = im_index im) vaps
      in \<lparr>si_phy_index = im_phy_index im, si_rdk_radio_index = im_rdk_radio_index im, si_interface_name = im_interface_name im,
          si_bridge_name = im_bridge_name im, si_vlan_id = im_vlan_id im, si_index = im_index im, si_vap_name = im_vap_name im,
          si_mac = (if own = [] then se_uninit_mac se else vi_mac (last own)), si_status = sta_state_free\<rparr>)"

fun agent_devices :: "sta_env \<Rightarrow> interface_map list \<Rightarrow> sim_sta_mgr \<Rightarrow> int \<times> sim_sta_mgr" where
  "agent_devices se [] m = (0, m)"
| "agent_devices se (im # ims) m =
     (if im_vap_name im = [] then agent_devices se ims m
      else if \<not> se_malloc se (sm_fx m) 0 \<or> \<not> se_malloc se (sm_fx m) 1 then (RETURN_ERR, m)
      else case se_vap_map se (sm_fx m) (im_rdk_radio_index im) of
             None \<Rightarrow> (RETURN_ERR, sta_effect (Sx_vap_map (im_rdk_radio_index im)) m)
           | Some vaps \<Rightarrow>
               let m = sta_effect (Sx_vap_map (im_rdk_radio_index im)) m; si = agent_device se im vaps
               in agent_devices se ims
                    (if is_zero_mac (si_mac si) then m
                     else m\<lparr>sm_sta_info_map := snd (queue_push True (sm_sta_info_map m) si),
                            sm_sta_info_count := sm_sta_info_count m + 1\<rparr>))"

definition agent_sta_mgr_init :: "sta_env \<Rightarrow> bool \<Rightarrow> bool \<Rightarrow> interface_map list \<Rightarrow> sim_sta_mgr \<Rightarrow> int \<times> sim_sta_mgr" where
  "agent_sta_mgr_init se map_mem queue_mem ims m =
     (if \<not> map_mem \<or> \<not> queue_mem then (RETURN_ERR, m)
      else agent_devices se ims (m\<lparr>sm_sta_map := hash_map_create, sm_sta_info_map := queue_create\<rparr>))"

text \<open>
  The one ethernet interface; its address and IP address are asked for in the agent's name space. The key in the map is
  the address read as a string.
\<close>

definition mac_key :: "bytes \<Rightarrow> string" where
  "mac_key mac = map (char_of \<circ> unat) (takeWhile (\<lambda>b. b \<noteq> 0) mac)"

definition init_eth_interfaces :: "bool \<Rightarrow> (bytes \<times> string) option \<Rightarrow> eth_dev_info \<Rightarrow> (int \<times> eth_dev_info hash_map) option" where
  "init_eth_interfaces mem mac_ip raw =
     (if \<not> mem then Some (RETURN_ERR, hash_map_create)
      else case mac_ip of
             None \<Rightarrow> Some (RETURN_ERR, hash_map_create)
           | Some (mac, ip) \<Rightarrow>
               if length (takeWhile (\<lambda>b. b \<noteq> 0) mac) = length mac then None
               else Some (RETURN_OK, snd (hash_map_put True True hash_map_create (mac_key mac)
                      (raw\<lparr>ed_interface_mac := mac, ed_interface_name := ''lan3'', ed_ip_address := ip,
                           ed_state := eth_interface_state_free\<rparr>))))"

end
