(* ===== verification/Eth_Client.thy ===== *)
theory Eth_Client
  imports Ext_Sta_Mgr Step_Classes
begin

text \<open>
  The ethernet client step of the gateway (\<open>tests/wlan_emu_test_param_eth_lan_client.cpp\<close>): it takes a device of an
  external agent, sends the agent what to do, and asks for its status at every time-out.
\<close>

section \<open>State and document\<close>

record eth_lan_interface =
  el_eth_dev_info :: eth_dev_info
  el_result_file :: string
  el_key :: string
  el_duration :: int

abbreviation external_sta_grace_timeout :: int where "external_sta_grace_timeout \<equiv> 3"

definition eth_lan_client_document :: "agent_env \<Rightarrow> test_step \<Rightarrow> eth_lan_interface \<Rightarrow> json_doc" where
  "eth_lan_client_document ax s el = Doc_object
     [(''SubDocName'', Doc_string ''EthernetLanClient''),
      (''StepNumber'', Doc_number (ts_step_number s)),
      (''Fork'', Doc_bool (ts_fork s)),
      (''TestCaseID'', Doc_string (ts_test_case_id s)),
      (''TestCaseName'', Doc_string (ts_test_case_name s)),
      (''EthInterfaceName'', Doc_string (ed_interface_name (el_eth_dev_info el))),
      (''EthIpAddress'', Doc_string (ed_ip_address (el_eth_dev_info el))),
      (''EthMacAddress'', Doc_string (ax_mac_str ax (ed_interface_mac (el_eth_dev_info el)))),
      (''Duration'', Doc_number (el_duration el))]"

definition encode_external_eth_lan_client_subdoc :: "agent_env \<Rightarrow> test_step \<Rightarrow> eth_lan_interface \<Rightarrow> string option" where
  "encode_external_eth_lan_client_subdoc ax s el =
     (if \<not> ax_json ax then None else ax_print ax (eth_lan_client_document ax s el))"

section \<open>Execution\<close>

definition eth_waiting :: "test_step \<Rightarrow> eth_lan_interface \<Rightarrow> wlan_emu_tests_state" where
  "eth_waiting s el =
     (if ts_fork s \<and> ed_is_ip_assigned (el_eth_dev_info el) then wlan_emu_tests_state_cmd_wait
      else wlan_emu_tests_state_cmd_continue)"

text \<open>A failure behind the choice of the device keeps the device; the removal of the step gives it back.\<close>

definition eth_lan_client_execute ::
  "'j json_env \<Rightarrow> ('j \<Rightarrow> string option) \<Rightarrow> agent_env \<Rightarrow> ext_agent hash_map \<Rightarrow> test_step \<Rightarrow> eth_lan_interface \<Rightarrow> world \<Rightarrow>
     (int \<times> ext_agent hash_map \<times> test_step \<times> eth_lan_interface \<times> world) option" where
  "eth_lan_client_execute je pn ax m s el w =
     (case find_first_free_eth_dev m of
        None \<Rightarrow> Some (RETURN_ERR, m, s, el, w)
      | Some (i, dev, m) \<Rightarrow>
          let s = s\<lparr>ts_execution_time := el_duration el\<rparr>;
              el = el\<lparr>el_eth_dev_info := dev, el_key := ax_mac_str ax (ed_interface_mac dev)\<rparr>
          in (case encode_external_eth_lan_client_subdoc ax s el of
                None \<Rightarrow> Some (RETURN_ERR, m, s, el, w)
              | Some cli_subdoc \<Rightarrow>
                  (case add_eth_lan_device je pn ax (el_key el) (ts_step_number s) cli_subdoc m w of
                     None \<Rightarrow> None
                   | Some (rc, w) \<Rightarrow>
                       if rc = RETURN_ERR then Some (RETURN_ERR, m, s, el, w)
                       else Some (RETURN_OK, m, set_state (eth_waiting s el) s, el, w))))"

definition eth_lan_client_remove ::
  "agent_env \<Rightarrow> ext_agent hash_map \<Rightarrow> test_step \<Rightarrow> eth_lan_interface \<Rightarrow> world \<Rightarrow> ext_agent hash_map \<times> world" where
  "eth_lan_client_remove ax m s el w =
     (if ts_is_step_initialized s then remove_eth_intf ax (el_key el) (ed_interface_mac (el_eth_dev_info el)) m w
      else (m, w))"

section \<open>Time-outs\<close>

text \<open>The private data of the agent's step; a string member without a string is copied through a null pointer.\<close>

definition parse_step_private_data :: "'j json_env \<Rightarrow> string \<Rightarrow> eth_lan_interface \<Rightarrow> (int \<times> eth_lan_interface) option" where
  "parse_step_private_data je private_data_str el =
     (case cj_parse je private_data_str of
        None \<Rightarrow> Some (RETURN_ERR, el)
      | Some root_json \<Rightarrow>
          with_param (decode_param_string je (Some root_json) ''EthInterfaceName'') el (\<lambda>name.
          let el = el\<lparr>el_eth_dev_info := (el_eth_dev_info el)\<lparr>ed_interface_name := name\<rparr>\<rparr>
          in case cj_item je root_json ''EthIpAddress'' of
               None \<Rightarrow> Some (RETURN_OK, el)
             | Some param \<Rightarrow>
                 if \<not> cj_is_string je param then Some (RETURN_OK, el)
                 else (case cj_valuestring je param of
                         None \<Rightarrow> None
                       | Some ip \<Rightarrow> Some (RETURN_OK, el\<lparr>el_eth_dev_info := (el_eth_dev_info el)
                           \<lparr>ed_is_ip_assigned := True, ed_ip_address := ip\<rparr>\<rparr>))))"

text \<open>Of all result files the last one is uploaded.\<close>

definition push_ext_eth_lan_client_result_files ::
  "environment \<Rightarrow> string list \<Rightarrow> test_step \<Rightarrow> eth_lan_interface \<Rightarrow> world \<Rightarrow> int \<times> test_step \<times> eth_lan_interface \<times> world" where
  "push_ext_eth_lan_client_result_files env files s el w =
     (let el = el\<lparr>el_result_file := last (el_result_file el # files)\<rparr>
      in if \<not> env_malloc env then (RETURN_ERR, s, el, w)
         else case step_upload_files env (el_result_file el) w of
                (rc, w) \<Rightarrow>
                  if rc \<noteq> RETURN_OK
                  then (RETURN_ERR, set_state wlan_emu_tests_state_cmd_abort s, el, w\<lparr>w_error := EPUSHTSTRESFILE\<rparr>)
                  else (RETURN_OK, s, el, w))"

text \<open>What the code does with the status of the agent's step, before it looks at the step's state.\<close>

definition eth_private_data ::
  "'j json_env \<Rightarrow> ext_agent_step_status \<Rightarrow> eth_lan_interface \<Rightarrow> eth_lan_interface option" where
  "eth_private_data je x el =
     (if ss_step_private_json_data x = [] then Some el
      else map_option snd (parse_step_private_data je (ss_step_private_json_data x) el))"

definition eth_results ::
  "agent_env \<Rightarrow> ext_agent \<Rightarrow> ext_agent_step_status \<Rightarrow> test_step \<Rightarrow> eth_lan_interface \<Rightarrow> world \<Rightarrow>
     int \<times> test_step \<times> eth_lan_interface \<times> world" where
  "eth_results ax a x s el w =
     (case download_external_agent_result_files ax a (ss_result_files x) w of
        (rc, w) \<Rightarrow>
          if rc \<noteq> RETURN_OK then (RETURN_ERR, set_state wlan_emu_tests_state_cmd_abort s, el, w)
          else (case push_ext_eth_lan_client_result_files (ax_env ax) (ss_result_files x) s el w of
                  (rc, s, el, w) \<Rightarrow>
                    if rc \<noteq> RETURN_OK then (RETURN_ERR, set_state wlan_emu_tests_state_cmd_abort s, el, w)
                    else (RETURN_OK, s, el, w)))"

definition own_status :: "test_step \<Rightarrow> ext_agent_status_resp \<Rightarrow> ext_agent_step_status option" where
  "own_status s st = List.find (\<lambda>x. ss_step_number x = ts_step_number s) (sr_steps st)"

text \<open>When the grace time is over; a step the agent does not know is read behind the end of the list.\<close>

definition eth_grace ::
  "'j json_env \<Rightarrow> agent_env \<Rightarrow> ext_agent \<Rightarrow> ext_agent_status_resp \<Rightarrow> test_step \<Rightarrow> eth_lan_interface \<Rightarrow> world \<Rightarrow>
     (int \<times> test_step \<times> eth_lan_interface \<times> world) option" where
  "eth_grace je ax a st s el w =
     (case own_status s st of
        None \<Rightarrow> None
      | Some x \<Rightarrow> map_option (\<lambda>el. eth_results ax a x (set_state (ss_state x) s) el w) (eth_private_data je x el))"

definition eth_reported ::
  "'j json_env \<Rightarrow> agent_env \<Rightarrow> ext_agent \<Rightarrow> ext_agent_status_resp \<Rightarrow> test_step \<Rightarrow> eth_lan_interface \<Rightarrow> world \<Rightarrow>
     (int \<times> test_step \<times> eth_lan_interface \<times> world) option" where
  "eth_reported je ax a st s el w =
     (case own_status s st of
        None \<Rightarrow> Some (RETURN_OK, set_state (eth_waiting s el) s, el, w)
      | Some x \<Rightarrow>
          let s = set_state (ss_state x) s
          in (case eth_private_data je x el of
                None \<Rightarrow> None
              | Some el \<Rightarrow>
                  if ss_state x = wlan_emu_tests_state_cmd_results then Some (eth_results ax a x s el w)
                  else if ss_state x = wlan_emu_tests_state_cmd_abort then Some (RETURN_ERR, s, el, w)
                  else Some (RETURN_OK, set_state (eth_waiting s el) s, el, w)))"

definition eth_lan_client_timeout ::
  "'j json_env \<Rightarrow> ('j \<Rightarrow> string option) \<Rightarrow> agent_env \<Rightarrow> ext_agent hash_map \<Rightarrow> test_step \<Rightarrow> eth_lan_interface \<Rightarrow> world \<Rightarrow>
     (int \<times> test_step \<times> eth_lan_interface \<times> world) option" where
  "eth_lan_client_timeout je pn ax m s el w =
     (case get_ext_agent_from_eth_dev_mac ax (el_key el) m of
        None \<Rightarrow> Some (RETURN_ERR, set_state wlan_emu_tests_state_cmd_abort s, el, w)
      | Some i \<Rightarrow>
          let a = snd (m ! i)
          in (case get_external_agent_test_status je pn ax a w of
                None \<Rightarrow> None
              | Some (rc, None, w) \<Rightarrow> Some (RETURN_ERR, set_state wlan_emu_tests_state_cmd_abort s, el, w)
              | Some (rc, Some st, w) \<Rightarrow>
                  let s = s\<lparr>ts_timeout_count := ts_timeout_count s + 1\<rparr>
                  in if ts_timeout_count s = 3 \<and> sr_state st = ext_agent_test_state_idle
                     then Some (RETURN_ERR, set_state wlan_emu_tests_state_cmd_abort s, el, w)
                     else if sr_state st = ext_agent_test_state_running
                             \<and> ts_execution_time s + external_sta_grace_timeout = ts_timeout_count s
                     then eth_grace je ax a st s el w
                     else if sr_state st = ext_agent_test_state_fail
                     then Some (RETURN_ERR, set_state wlan_emu_tests_state_cmd_abort s, el,
                            snd (send_external_agent_stop_command ax a w))
                     else eth_reported je ax a st s el w))"

text \<open>A failing status is reported without a status.\<close>

lemma status_of_failed:
  "get_external_agent_test_status je pn ax a w = Some (rc, st, w') \<Longrightarrow> (st = None) = (rc = RETURN_ERR)"
  by (auto simp: get_external_agent_test_status_def split: prod.splits if_splits decoded.splits)

end
