(* ===== verification/Agent_Steps.thy ===== *)
theory Agent_Steps
  imports Agent_Sta_Mgr Eth_Client Step_Decode
begin

text \<open>
  The steps an external agent runs (\<open>external_agent_cci/wlan_ext_emu_test_step_params.cpp\<close> and
  \<open>wlan_ext_emu_test_step_param_*.cpp\<close>): stations, iperf servers and clients, ethernet clients. A step is decoded
  from the sub-document the gateway posts, executed, asked at every time-out, and reports its status as a JSON
  object.
\<close>

section \<open>Steps\<close>

text \<open>
  \<open>ai_operation\<close> is 1 to start and 2 to stop iperf. The union keeps the number of the step to stop where the start
  keeps the number of an interface, which the agent does not use.
\<close>

record agent_iperf =
  ai_operation :: int
  ai_interface_type :: int
  ai_cmd_options :: string
  ai_input_filename :: string
  ai_result_file :: string
  ai_pid :: int
  ai_stop_step_number :: u32

abbreviation iperf_operation_type_start :: int where "iperf_operation_type_start \<equiv> 1"
abbreviation iperf_operation_type_stop :: int where "iperf_operation_type_stop \<equiv> 2"

text \<open>Servers and clients have the same code for different members and names.\<close>

datatype (plugins only: code size) iperf_role = Iperf_server | Iperf_client

datatype agent_param =
    A_sta_management agent_sta
  | A_iperf iperf_role agent_iperf
  | A_eth_lan_client eth_lan_interface

record agent_step =
  as_param :: agent_param
  as_test_case_name :: string
  as_test_case_id :: string
  as_radio_index :: u32
  as_step_number :: u32
  as_is_step_initialized :: bool
  as_execution_time :: int
  as_timeout_count :: int
  as_step_state :: wlan_emu_tests_state
  as_artifacts :: "string list"
  as_capture_frames :: bool
  as_frame_request :: frame_capture_request
  as_fork :: bool

datatype agent_fx =
    Ax_write string string
  | Ax_spawn string
  | Ax_run string
  | Ax_kill int
  | Ax_wait_pid int
  | Ax_pcap string bytes
  | Ax_remove_all string

text \<open>
  What the agent asks of the outside: \<open>ao_ax\<close> has the files, the clock, the printer of the JSON library and the
  printed addresses; \<open>ao_spawn\<close> is the process a command becomes, \<open>ao_run\<close> the exit code and process of the n-th
  attempt to run one to its end, \<open>ao_running\<close> whether a process is there, \<open>ao_ip\<close> the address of an
  interface, \<open>ao_sta\<close> the hardware layer. \<open>ao_raw\<close>, \<open>ao_raw_sta\<close> and \<open>ao_raw_eth\<close> are the contents of a fresh step and
  its parts, \<open>ao_raw_tail\<close> what follows a string that fills its buffer. \<open>ao_append\<close> is whether a file can be
  opened to append to it, \<open>ao_device\<close> whether the character device can be opened.
\<close>

record agent_outside =
  ao_ax :: agent_env
  ao_spawn :: "string \<Rightarrow> int option"
  ao_run :: "nat \<Rightarrow> string \<Rightarrow> (int \<times> int) option"
  ao_running :: "int \<Rightarrow> bool"
  ao_ip :: "string \<Rightarrow> string option"
  ao_sta :: sta_env
  ao_raw :: agent_step
  ao_raw_sta :: agent_sta
  ao_raw_eth :: eth_lan_interface
  ao_raw_tail :: string
  ao_append :: "string \<Rightarrow> bool"
  ao_device :: bool

abbreviation agent_set_step_state :: "wlan_emu_tests_state \<Rightarrow> agent_step \<Rightarrow> agent_step" where
  "agent_set_step_state st s \<equiv> s\<lparr>as_step_state := st\<rparr>"

definition agent_waiting :: "agent_step \<Rightarrow> wlan_emu_tests_state" where
  "agent_waiting s = (if as_fork s then wlan_emu_tests_state_cmd_wait else wlan_emu_tests_state_cmd_continue)"

text \<open>A station waits only once it has an address.\<close>

definition sta_waiting :: "agent_sta \<Rightarrow> agent_step \<Rightarrow> wlan_emu_tests_state" where
  "sta_waiting t s =
     (if \<not> at_is_ip_assigned t \<or> \<not> as_fork s then wlan_emu_tests_state_cmd_continue else wlan_emu_tests_state_cmd_wait)"

section \<open>Decoding\<close>

text \<open>A string copied into the first bytes of a buffer that is not cleared.\<close>

definition into_buffer :: "agent_outside \<Rightarrow> nat \<Rightarrow> string \<Rightarrow> string" where
  "into_buffer ao n v = take n v @ (if length v < n then [] else ao_raw_tail ao)"

definition decode_capture :: "'j json_env \<Rightarrow> 'j \<Rightarrow> agent_step \<Rightarrow> agent_step decoded" where
  "decode_capture je root_json s =
     (case decode_param_bool je (Some root_json) ''TestCapture'' of
        Accept capture \<Rightarrow>
          let s = s\<lparr>as_capture_frames := capture\<rparr>
          in if \<not> capture then Accept s
             else (case cj_item je root_json ''TestCaptureFrame'' of
                     None \<Rightarrow> Accept s
                   | Some frame_type_list \<Rightarrow>
                       after (decode_each (decode_frame_type je) (cj_elems je frame_type_list) empty_request)
                         (\<lambda>req. Accept (s\<lparr>as_frame_request := req\<rparr>)))
      | _ \<Rightarrow> Accept s)"

definition decode_step_param_common :: "'j json_env \<Rightarrow> agent_outside \<Rightarrow> 'j \<Rightarrow> agent_step \<Rightarrow> agent_step decoded" where
  "decode_step_param_common je ao root_json s =
     after (decode_param_integer je (Some root_json) ''StepNumber'') (\<lambda>n.
     after (decode_param_string je (Some root_json) ''TestCaseName'') (\<lambda>name.
     after (decode_param_string je (Some root_json) ''TestCaseID'') (\<lambda>id.
     after (decode_param_bool je (Some root_json) ''Fork'') (\<lambda>fork.
     decode_capture je root_json
       (s\<lparr>as_step_number := of_int (cj_valueint je n), as_test_case_name := into_buffer ao 127 name,
          as_test_case_id := into_buffer ao 7 id, as_fork := fork, as_frame_request := empty_request\<rparr>)))))"

definition iperf_key :: "iperf_role \<Rightarrow> string \<Rightarrow> string \<Rightarrow> string" where
  "iperf_key role before behind = before @ (case role of Iperf_server \<Rightarrow> ''Server'' | Iperf_client \<Rightarrow> ''Client'') @ behind"

text \<open>A step whose part could not be allocated is written through a null pointer, unless a member is missing before.\<close>

definition decode_iperf_subdocument ::
  "'j json_env \<Rightarrow> iperf_role \<Rightarrow> 'j \<Rightarrow> agent_step \<Rightarrow> agent_iperf option \<Rightarrow> agent_step decoded" where
  "decode_iperf_subdocument je role root_json s part =
     after (decode_param_integer je (Some root_json) (iperf_key role ''Iperf'' ''Operation'')) (\<lambda>op.
     after (deref part) (\<lambda>p.
     after (to_int (cj_valuedouble je op)) (\<lambda>op.
     let p = p\<lparr>ai_operation := op\<rparr>
     in if op = iperf_operation_type_start then
          after (decode_param_string je (Some root_json) (iperf_key role ''Iperf'' ''Cmd'')) (\<lambda>cmd.
          after (decode_param_string je (Some root_json) ''InputLogFileName'') (\<lambda>file.
          after (decode_param_integer je (Some root_json) ''InterfaceType'') (\<lambda>t.
          after (to_int (cj_valuedouble je t)) (\<lambda>t.
          Accept (s\<lparr>as_param := A_iperf role (p\<lparr>ai_cmd_options := take 127 cmd, ai_input_filename := take 127 file,
            ai_interface_type := t\<rparr>)\<rparr>)))))
        else if op = iperf_operation_type_stop then
          after (unsigned_member je (Some root_json) (iperf_key role ''Stop'' ''StepNumber'')) (\<lambda>n.
          Accept (s\<lparr>as_param := A_iperf role (p\<lparr>ai_stop_step_number := n\<rparr>)\<rparr>))
        else Reject)))"

definition decode_eth_lan_client_subdocument ::
  "'j json_env \<Rightarrow> agent_outside \<Rightarrow> 'j \<Rightarrow> agent_step \<Rightarrow> eth_lan_interface option \<Rightarrow> agent_step decoded" where
  "decode_eth_lan_client_subdocument je ao root_json s part =
     (case part of
        None \<Rightarrow> Reject
      | Some el \<Rightarrow>
          after (decode_param_string je (Some root_json) ''EthInterfaceName'') (\<lambda>name.
          after (decode_param_string je (Some root_json) ''EthIpAddress'') (\<lambda>ip.
          after (decode_param_string je (Some root_json) ''EthMacAddress'') (\<lambda>mac.
          after (decode_param_integer je (Some root_json) ''Duration'') (\<lambda>d.
          after (to_int (cj_valuedouble je d)) (\<lambda>d.
          Accept (s\<lparr>as_execution_time := d, as_param := A_eth_lan_client (el\<lparr>el_duration := d,
            el_eth_dev_info := (el_eth_dev_info el)\<lparr>ed_interface_name := name, ed_ip_address := ip,
              ed_interface_mac := ax_str_mac (ao_ax ao) mac\<rparr>\<rparr>)\<rparr>)))))))"

definition decode_security :: "'j json_env \<Rightarrow> agent_outside \<Rightarrow> 'j \<Rightarrow> agent_sta \<Rightarrow> agent_sta decoded" where
  "decode_security je ao sec_config t =
     after (decode_param_string je (Some sec_config) ''SecurityMode'') (\<lambda>mode.
     after (decode_param_string je (Some sec_config) ''MFPConfig'') (\<lambda>mfp.
     after (decode_param_string je (Some sec_config) ''EncryptionMethod'') (\<lambda>encr.
     after (decode_param_bool je (Some sec_config) ''Wpa3_transition_disabled'') (\<lambda>wpa3.
     after (decode_param_string je (Some sec_config) ''Passphrase'') (\<lambda>key.
     Accept (t\<lparr>at_secu_mode := get_secu_mode_enum mode, at_mfp := get_mfp_enum mfp, at_encr := get_encryption_enum encr,
       at_wpa3_transition_disable := wpa3, at_passphrase := key\<rparr>))))))"

text \<open>The hardware layer's buffers are taken to hold the names, the SSID and the passphrase.\<close>

definition decode_sta_management_subdocument ::
  "'j json_env \<Rightarrow> agent_outside \<Rightarrow> 'j \<Rightarrow> agent_step \<Rightarrow> agent_sta option \<Rightarrow> agent_step decoded" where
  "decode_sta_management_subdocument je ao root_json s part =
     after (decode_param_string je (Some root_json) ''StationType'') (\<lambda>sta_type.
     after (deref part) (\<lambda>t.
     after (decode_param_string je (Some root_json) ''StationName'') (\<lambda>name.
     after (decode_param_integer je (Some root_json) ''TestDuration'') (\<lambda>d.
     after (to_int (cj_valuedouble je d)) (\<lambda>d.
     after (decode_param_string je (Some root_json) ''CustomStationMac'') (\<lambda>custom.
     after (decode_param_object je (Some root_json) ''WifiVapConfig'') (\<lambda>vap_config.
     after (decode_param_string je (Some vap_config) ''VapName'') (\<lambda>vap_name.
     after (decode_param_integer je (Some vap_config) ''RadioIndex'') (\<lambda>radio.
     after (decode_param_string je (Some vap_config) ''SSID'') (\<lambda>ssid.
     after (decode_param_string je (Some vap_config) ''BSSID'') (\<lambda>bssid.
     after (decode_param_object je (Some vap_config) ''Security'') (\<lambda>sec_config.
     after (decode_security je ao sec_config t) (\<lambda>t.
     after (decode_param_object je (Some root_json) ''RadioOperatingParams'') (\<lambda>params.
     after (unsigned_member je (Some params) ''Channel'') (\<lambda>channel.
     let radio = of_int (cj_valueint je radio) :: u32
     in Accept (s\<lparr>as_execution_time := d, as_radio_index := radio, as_param := A_sta_management
          (t\<lparr>at_sta_type := get_sta_type_enum sta_type, at_sta_name := into_buffer ao 31 name, at_test_duration := d,
             at_custom_mac := ax_str_mac (ao_ax ao) custom, at_ap_vap_name := vap_name,
             at_vap := (at_vap t)\<lparr>vi_radio_index := radio, vi_ssid := ssid, vi_bssid := ax_str_mac (ao_ax ao) bssid\<rparr>,
             at_enabled := True, at_radio := (at_radio t)\<lparr>ro_channel := channel\<rparr>, at_radio_enable := True\<rparr>)\<rparr>))))))))))))))))"

section \<open>Constructors\<close>

text \<open>
  What the constructors of the classes set. A station step keeps the contents of its memory in the members of
  the step that say whether it is complete, how long it runs and what it captures.
\<close>

definition agent_iperf_new :: agent_iperf where
  "agent_iperf_new = \<lparr>ai_operation = 0, ai_interface_type = 0, ai_cmd_options = [], ai_input_filename = [], ai_result_file = [],
     ai_pid = 0, ai_stop_step_number = 0\<rparr>"

definition agent_eth_new :: "agent_outside \<Rightarrow> eth_lan_interface" where
  "agent_eth_new ao = (ao_raw_eth ao)\<lparr>el_result_file := [],
     el_eth_dev_info := (el_eth_dev_info (ao_raw_eth ao))\<lparr>ed_interface_name := [], ed_ip_address := []\<rparr>\<rparr>"

definition agent_sta_new :: "agent_outside \<Rightarrow> agent_sta" where
  "agent_sta_new ao = (ao_raw_sta ao)\<lparr>at_is_station_associated := False, at_is_ip_assigned := False, at_ip_address := [],
     at_interface_name := [], at_radio := \<lparr>ro_band = 0, ro_channel = 0\<rparr>, at_radio_enable := False,
     at_vap := \<lparr>vi_vap_index = 0, vi_radio_index = 0, vi_bridge_name = [], vi_mac = replicate 6 0, vi_ssid = [],
       vi_bssid = replicate 6 0\<rparr>, at_secu_mode := None, at_mfp := None, at_encr := None\<rparr>"

definition agent_step_new :: "agent_outside \<Rightarrow> bool \<Rightarrow> agent_step" where
  "agent_step_new ao mem =
     (if mem then (ao_raw ao)\<lparr>as_is_step_initialized := True, as_artifacts := [], as_execution_time := 5,
        as_timeout_count := 0, as_capture_frames := False\<rparr>
      else (ao_raw ao)\<lparr>as_is_step_initialized := False\<rparr>)"

definition agent_sta_step_new :: "agent_outside \<Rightarrow> agent_step" where
  "agent_sta_step_new ao = (ao_raw ao)\<lparr>as_timeout_count := 0, as_artifacts := [],
     as_step_state := wlan_emu_tests_state_cmd_request\<rparr>"

definition part :: "'j json_env \<Rightarrow> 'a \<Rightarrow> 'a option" where
  "part je x = (if je_member je then Some x else None)"

text \<open>
  The sub-document chooses the class. With another name the function succeeds without a step: \<open>Accept None\<close> is the
  pointer of the caller that was never set.
\<close>

definition agent_decode_step_param :: "'j json_env \<Rightarrow> agent_outside \<Rightarrow> string \<Rightarrow> agent_step option decoded" where
  "agent_decode_step_param je ao cjson_str =
     (case cj_parse je cjson_str of
        None \<Rightarrow> Reject
      | Some root_json \<Rightarrow>
          after (decode_param_string je (Some root_json) ''SubDocName'') (\<lambda>name.
          let common = (\<lambda>s f. if \<not> je_new je then Undef
                         else after (after (decode_step_param_common je ao root_json s) f) (\<lambda>s. Accept (Some s)))
          in if name = ''ExternalStationManagement'' then
               common (agent_sta_step_new ao) (\<lambda>s. decode_sta_management_subdocument je ao root_json s (part je (agent_sta_new ao)))
             else if name = ''ExternalIperfServer'' then
               common (agent_step_new ao (je_member je)) (\<lambda>s. decode_iperf_subdocument je Iperf_server root_json s (part je agent_iperf_new))
             else if name = ''ExternalIperfClient'' then
               common (agent_step_new ao (je_member je)) (\<lambda>s. decode_iperf_subdocument je Iperf_client root_json s (part je agent_iperf_new))
             else if name = ''EthernetLanClient'' then
               common (agent_step_new ao (je_member je)) (\<lambda>s. decode_eth_lan_client_subdocument je ao root_json s (part je (agent_eth_new ao)))
             else Accept None))"

section \<open>Status\<close>

text \<open>The private data of a step and its status object; the result files are added when the step has results.\<close>

definition step_private :: "agent_step \<Rightarrow> json_doc option" where
  "step_private s =
     (case as_param s of
        A_sta_management t \<Rightarrow> Some (Doc_object ((''InterfaceName'', Doc_string (at_interface_name t)) #
          (if at_is_ip_assigned t then [(''IpAddress'', Doc_string (at_ip_address t))] else [])))
      | A_iperf role p \<Rightarrow> None
      | A_eth_lan_client el \<Rightarrow> Some (Doc_object
          [(''EthInterfaceName'', Doc_string (ed_interface_name (el_eth_dev_info el))),
           (''EthIpAddress'', Doc_string (ed_ip_address (el_eth_dev_info el)))]))"

definition update_step_status_json :: "agent_step \<Rightarrow> json_doc" where
  "update_step_status_json s = Doc_object
     ([(''StepNumber'', Doc_number (uint (as_step_number s))),
       (''StepStatus'', Doc_string (step_state_as_string (as_step_state s)))]
      @ (case step_private s of None \<Rightarrow> [] | Some p \<Rightarrow> [(''StepPrivateData'', p)])
      @ (if as_step_state s = wlan_emu_tests_state_cmd_results
         then [(''ResultFiles'', Doc_array (map Doc_string (as_artifacts s)))] else []))"

section \<open>Time-outs\<close>

definition agent_step_timeout :: "agent_outside \<Rightarrow> agent_step \<Rightarrow> agent_step" where
  "agent_step_timeout ao s =
     (let s = s\<lparr>as_timeout_count := as_timeout_count s + 1\<rparr>
      in case as_param s of
           A_sta_management t \<Rightarrow>
             agent_set_step_state (if as_timeout_count s \<ge> as_execution_time s then wlan_emu_tests_state_cmd_results
                             else sta_waiting t s) s
         | A_iperf role p \<Rightarrow>
             if ai_operation p = iperf_operation_type_start
             then agent_set_step_state (if ao_running ao (ai_pid p) then agent_waiting s else wlan_emu_tests_state_cmd_results) s
             else if ai_operation p = iperf_operation_type_stop then agent_set_step_state wlan_emu_tests_state_cmd_results s
             else s
         | A_eth_lan_client el \<Rightarrow>
             agent_set_step_state (if as_timeout_count s \<ge> as_execution_time s then wlan_emu_tests_state_cmd_results
                             else agent_waiting s) s)"

end
