(* ===== verification/Agent_Tests.thy ===== *)
theory Agent_Tests
  imports Agent_Steps
begin

text \<open>
  The test of an external agent (\<open>external_agent_cci/wlan_ext_emu_tests.cpp\<close>): its messages, the execution of the
  steps they bring, the frames and notifications the steps filter, and the poll that asks the steps for their status.
\<close>

section \<open>The agent\<close>

text \<open>A message of the character device; one with a buffer brings the step its pointer leads to.\<close>

datatype agent_msg = Ag_step agent_step | Ag_msg wlan_emu_msg_data

text \<open>
  A test object: \<open>tt_id\<close> tells objects apart, \<open>tt_running\<close> is whether its thread goes on, \<open>tt_exit\<close> the flag that
  ends it.
\<close>

record agent_test =
  tt_id :: nat
  tt_exit :: bool
  tt_initialized :: bool
  tt_running :: bool
  tt_msgs :: "agent_msg queue"

text \<open>
  The process. \<open>ag_subscribed\<close> are the tests of the message manager, also those that were deleted without being
  unsubscribed; \<open>ag_handler\<close> is whether the thread that reads the character device runs; \<open>ag_signals\<close> are the
  datagrams that wait in the sockets of the states.
\<close>

record agent =
  ag_iface :: ext_agent
  ag_sta :: sim_sta_mgr
  ag_steps :: "agent_step queue"
  ag_state :: ext_agent_test_state
  ag_status :: string
  ag_signals :: "ext_agent_test_state list"
  ag_test :: "agent_test option"
  ag_next :: nat
  ag_subscribed :: "nat queue"
  ag_handler :: bool
  ag_fx :: "agent_fx list"

definition agent_effect :: "agent_fx \<Rightarrow> agent \<Rightarrow> agent" where
  "agent_effect e ag = ag\<lparr>ag_fx := ag_fx ag @ [e]\<rparr>"

definition at_step :: "nat \<Rightarrow> (agent_step \<Rightarrow> agent_step) \<Rightarrow> agent \<Rightarrow> agent" where
  "at_step i f ag = ag\<lparr>ag_steps := (ag_steps ag)[i := f (ag_steps ag ! i)]\<rparr>"

definition on_test :: "(agent_test \<Rightarrow> agent_test) \<Rightarrow> agent \<Rightarrow> agent" where
  "on_test f ag = ag\<lparr>ag_test := map_option f (ag_test ag)\<rparr>"

text \<open>A signal for the state the agent is in is not sent.\<close>

definition ext_emu_send_signal :: "ext_agent_test_state \<Rightarrow> agent \<Rightarrow> agent" where
  "ext_emu_send_signal st ag = (if ag_state ag = st then ag else ag\<lparr>ag_signals := ag_signals ag @ [st]\<rparr>)"

section \<open>Execution of a step\<close>

definition result_path :: "agent_step \<Rightarrow> string \<Rightarrow> string \<Rightarrow> string" where
  "result_path s timestamp name = snprintf_store 128 (''/tmp/cci_res/'' @ as_test_case_id s @ ''_'' @
     show_int (sint (as_step_number s)) @ ''_'' @ timestamp @ ''_'' @ name @ ''.txt'')"

text \<open>A failing write leaves the state to the caller.\<close>

definition eth_result_document :: "agent_outside \<Rightarrow> agent_step \<Rightarrow> eth_lan_interface \<Rightarrow> json_doc" where
  "eth_result_document ao s el = Doc_object
     [(''StepNumber'', Doc_number (uint (as_step_number s))),
      (''EthInterfaceName'', Doc_string (ed_interface_name (el_eth_dev_info el))),
      (''EthIpAddress'', Doc_string (ed_ip_address (el_eth_dev_info el))),
      (''EthMacAddress'', Doc_string (ax_mac_str (ao_ax ao) (ed_interface_mac (el_eth_dev_info el))))]"

definition agent_eth_execute :: "agent_outside \<Rightarrow> nat \<Rightarrow> eth_lan_interface \<Rightarrow> agent \<Rightarrow> (int \<times> agent) option" where
  "agent_eth_execute ao i el ag =
     (let s = ag_steps ag ! i
      in case env_time (ax_env (ao_ax ao)) of
           None \<Rightarrow> Some (RETURN_ERR, at_step i (agent_set_step_state wlan_emu_tests_state_cmd_abort) ag)
         | Some timestamp \<Rightarrow>
             let file = result_path s timestamp ''eth_client'';
                 ag = at_step i (\<lambda>s. s\<lparr>as_param := A_eth_lan_client (el\<lparr>el_result_file := file\<rparr>)\<rparr>) ag
             in if \<not> ao_append ao file
                then Some (RETURN_ERR, at_step i (agent_set_step_state wlan_emu_tests_state_cmd_abort) ag)
                else (case ax_print (ao_ax ao) (eth_result_document ao s el) of
                        None \<Rightarrow> None
                      | Some json_str \<Rightarrow>
                          if json_str = [] \<or> \<not> ax_file_written (ao_ax ao) file then Some (RETURN_ERR, ag)
                          else Some (RETURN_OK, agent_effect (Ax_write file json_str)
                                 (at_step i (\<lambda>s. s\<lparr>as_artifacts := as_artifacts s @ [file], as_step_state := agent_waiting s\<rparr>) ag))))"

text \<open>The first step of the queue with a number, the newest one first.\<close>

definition get_ext_step_from_step_number :: "u32 \<Rightarrow> agent_step queue \<Rightarrow> nat option" where
  "get_ext_step_from_step_number n q = map_option fst (queue_search (\<lambda>s. as_step_number s = n) q)"

definition iperf_cmd :: "agent_iperf \<Rightarrow> string" where
  "iperf_cmd p = ''/usr/bin/iperf3 '' @ ai_cmd_options p @ '' --logfile '' @ ai_result_file p"

text \<open>
  Starting iperf makes a process; stopping it ends the process of the step with the number, or every iperf of
  the agent when no step has it. The step to stop must be of the class of the step that stops it: \<open>None\<close> is a read
  through the wrong member of the union.
\<close>

definition agent_iperf_start :: "agent_outside \<Rightarrow> iperf_role \<Rightarrow> nat \<Rightarrow> agent_iperf \<Rightarrow> agent \<Rightarrow> int \<times> agent" where
  "agent_iperf_start ao role i p ag =
     (case env_time (ax_env (ao_ax ao)) of
        None \<Rightarrow> (RETURN_ERR, at_step i (agent_set_step_state wlan_emu_tests_state_cmd_abort) ag)
      | Some timestamp \<Rightarrow>
          let p = p\<lparr>ai_result_file := result_path (ag_steps ag ! i) timestamp (ai_input_filename p)\<rparr>;
              ag = at_step i (\<lambda>s. s\<lparr>as_param := A_iperf role p\<rparr>) ag
          in (case ao_spawn ao (iperf_cmd p) of
                None \<Rightarrow> (RETURN_ERR, ag)
              | Some pid \<Rightarrow>
                  (RETURN_OK, agent_effect (Ax_spawn (iperf_cmd p))
                    (at_step i (\<lambda>s. s\<lparr>as_param := A_iperf role (p\<lparr>ai_pid := pid\<rparr>),
                       as_artifacts := as_artifacts s @ [ai_result_file p], as_step_state := agent_waiting s\<rparr>) ag))))"

definition killall_cmd :: string where
  "killall_cmd = ''killall /usr/bin/iperf3''"

definition agent_iperf_stop :: "agent_outside \<Rightarrow> iperf_role \<Rightarrow> nat \<Rightarrow> agent_iperf \<Rightarrow> agent \<Rightarrow> (int \<times> agent) option" where
  "agent_iperf_stop ao role i p ag =
     (case get_ext_step_from_step_number (ai_stop_step_number p) (ag_steps ag) of
        None \<Rightarrow>
          (case ao_spawn ao killall_cmd of
             None \<Rightarrow> Some (RETURN_ERR, at_step i (agent_set_step_state wlan_emu_tests_state_cmd_abort) ag)
           | Some pid \<Rightarrow> Some (RETURN_OK, agent_effect (Ax_spawn killall_cmd)
               (at_step i (\<lambda>s. s\<lparr>as_param := A_iperf role (p\<lparr>ai_pid := pid\<rparr>), as_step_state := wlan_emu_tests_state_cmd_results\<rparr>) ag)))
      | Some j \<Rightarrow>
          (case as_param (ag_steps ag ! j) of
             A_iperf role' target \<Rightarrow>
               if role' \<noteq> role then None
               else Some (RETURN_OK, at_step i (agent_set_step_state wlan_emu_tests_state_cmd_results)
                      (at_step j (agent_set_step_state wlan_emu_tests_state_cmd_results)
                        (agent_effect (Ax_wait_pid (ai_pid target)) (agent_effect (Ax_kill (ai_pid target)) ag))))
           | _ \<Rightarrow> None))"

definition agent_iperf_execute :: "agent_outside \<Rightarrow> iperf_role \<Rightarrow> nat \<Rightarrow> agent_iperf \<Rightarrow> agent \<Rightarrow> (int \<times> agent) option" where
  "agent_iperf_execute ao role i p ag =
     (if ai_operation p = iperf_operation_type_start then Some (agent_iperf_start ao role i p ag)
      else if ai_operation p = iperf_operation_type_stop then agent_iperf_stop ao role i p ag
      else Some (RETURN_OK, ag))"

definition agent_sta_execute :: "agent_outside \<Rightarrow> nat \<Rightarrow> agent_sta \<Rightarrow> agent \<Rightarrow> (int \<times> agent) option" where
  "agent_sta_execute ao i t ag =
     (case agent_add_sta (ao_sta ao) (t\<lparr>at_test_id := as_step_number (ag_steps ag ! i)\<rparr>) (ag_sta ag) of
        None \<Rightarrow> None
      | Some (rc, t, m) \<Rightarrow>
          let ag = at_step i (\<lambda>s. s\<lparr>as_param := A_sta_management t\<rparr>) (ag\<lparr>ag_sta := m\<rparr>)
          in if rc = RETURN_ERR
             then Some (RETURN_ERR, at_step i (agent_set_step_state wlan_emu_tests_state_cmd_abort) ag)
             else Some (RETURN_OK, at_step i (\<lambda>s. agent_set_step_state (sta_waiting t s) s) ag))"

definition agent_step_execute :: "agent_outside \<Rightarrow> nat \<Rightarrow> agent \<Rightarrow> (int \<times> agent) option" where
  "agent_step_execute ao i ag =
     (case as_param (ag_steps ag ! i) of
        A_sta_management t \<Rightarrow> agent_sta_execute ao i t ag
      | A_iperf role p \<Rightarrow> agent_iperf_execute ao role i p ag
      | A_eth_lan_client el \<Rightarrow> agent_eth_execute ao i el ag)"

section \<open>The removal of a step\<close>

definition agent_step_remove :: "agent_outside \<Rightarrow> agent_step \<Rightarrow> agent \<Rightarrow> agent option" where
  "agent_step_remove ao s ag =
     (case as_param s of
        A_sta_management t \<Rightarrow>
          if at_is_station_associated t
          then map_option (\<lambda>m. agent_effect (Ax_kill (at_dhcp_pid t)) (ag\<lparr>ag_sta := m\<rparr>)) (agent_remove_sta (ao_sta ao) t (ag_sta ag))
          else Some ag
      | _ \<Rightarrow> Some ag)"

text \<open>The steps are deleted from the head of the queue on; nothing reads the queue before the next test makes a new one.\<close>

fun agent_remove_steps :: "agent_outside \<Rightarrow> agent_step queue \<Rightarrow> agent \<Rightarrow> agent option" where
  "agent_remove_steps ao [] ag = Some (ag\<lparr>ag_steps := []\<rparr>)"
| "agent_remove_steps ao (s # q) ag = (case agent_step_remove ao s ag of None \<Rightarrow> None | Some ag \<Rightarrow> agent_remove_steps ao q ag)"

definition test_stop :: "agent_outside \<Rightarrow> agent \<Rightarrow> agent option" where
  "test_stop ao ag =
     map_option (\<lambda>ag. ag\<lparr>ag_subscribed := (case ag_test ag of None \<Rightarrow> ag_subscribed ag | Some t \<Rightarrow> remove1 (tt_id t) (ag_subscribed ag))\<rparr>)
       (agent_remove_steps ao (ag_steps ag) (on_test (tt_exit_update (\<lambda>_. True)) ag))"

section \<open>Frames and notifications\<close>

text \<open>A capture of a message; it is lost when something fails on the way, or its name is too long.\<close>

definition agent_capture_name :: "agent_step \<Rightarrow> string \<Rightarrow> string \<Rightarrow> string \<Rightarrow> string \<Rightarrow> string" where
  "agent_capture_name s timestamp mac client_mac msg_name =
     snprintf_store 248 (''/tmp/cci_res/'' @ as_test_case_id s @ ''_'' @ show_int (sint (as_step_number s)) @ ''_''
       @ timestamp @ ''_'' @ mac @ ''_'' @ client_mac @ ''_'' @ as_test_case_name s @ ''-'' @ msg_name @ ''_''
       @ show_int (sint (as_radio_index s)) @ ''.pcap'')"

definition create_pcap :: "agent_outside \<Rightarrow> wlan_emu_frm80211_frm \<Rightarrow> wlan_emu_msg_data \<Rightarrow> nat \<Rightarrow> agent \<Rightarrow> agent option" where
  "create_pcap ao fr m i ag =
     (let env = ax_env (ao_ax ao); s = ag_steps ag ! i
      in if \<not> env_malloc env \<or> \<not> env_pcap_open env then Some ag
         else case env_time env of
                None \<Rightarrow> Some ag
              | Some timestamp \<Rightarrow>
                  (case get_msgname_from_msgtype (env_hostap env) m of
                     None \<Rightarrow> None
                   | Some (rc, msg_name) \<Rightarrow>
                       let fname = agent_capture_name s timestamp (mac_str_without_colon (frm_macaddr fr))
                             (mac_str_without_colon (frm_client_macaddr fr)) msg_name
                       in if rc = RETURN_ERR \<or> \<not> env_pcap_dump_open env fname \<or> 128 \<le> length fname then Some ag
                          else Some (agent_effect (Ax_pcap fname (radio_tap_header @ frm_frame fr))
                                 (at_step i (\<lambda>s. s\<lparr>as_artifacts := as_artifacts s @ [fname]\<rparr>) ag))))"

definition set_sta :: "nat \<Rightarrow> agent_sta \<Rightarrow> agent \<Rightarrow> agent" where
  "set_sta i t = at_step i (\<lambda>s. s\<lparr>as_param := A_sta_management t\<rparr>)"

text \<open>A frame that ends the association removes the station from the manager, whose disconnection it then leaves out.\<close>

definition sta_left :: "agent_outside \<Rightarrow> nat \<Rightarrow> agent_sta \<Rightarrow> wlan_emu_msg_data \<Rightarrow> agent \<Rightarrow> (agent_sta \<times> agent) option" where
  "sta_left ao i t m ag =
     (if get_frm80211_ops_type m \<in> {Some wlan_emu_frm80211_ops_type_deauth, Some wlan_emu_frm80211_ops_type_disassoc}
         \<and> at_is_station_associated t
      then let t = t\<lparr>at_is_station_associated := False\<rparr>
           in map_option (\<lambda>mgr. (t, set_sta i t (ag\<lparr>ag_sta := mgr\<rparr>))) (agent_remove_sta (ao_sta ao) t (ag_sta ag))
      else Some (t, ag))"

definition sta_joined :: "agent_sta \<Rightarrow> wlan_emu_msg_data \<Rightarrow> string \<Rightarrow> agent_sta" where
  "sta_joined t m msg_name =
     (if (if at_secu_mode t = Some wifi_security_mode_none
          then get_frm80211_ops_type m = Some wlan_emu_frm80211_ops_type_assoc_resp
          else get_frm80211_ops_type m = Some wlan_emu_frm80211_ops_type_eapol
               \<and> take (length ''eapol-msg3'') msg_name = ''eapol-msg3'')
      then t\<lparr>at_is_station_associated := True\<rparr> else t)"

definition capture_if_wanted :: "agent_outside \<Rightarrow> wlan_emu_frm80211_frm \<Rightarrow> wlan_emu_msg_data \<Rightarrow> nat \<Rightarrow> agent \<Rightarrow> (int \<times> agent) option" where
  "capture_if_wanted ao fr m i ag =
     (let s = ag_steps ag ! i
      in if \<not> as_capture_frames s then Some (RETURN_UNHANDLED, ag)
         else do {
           selected \<leftarrow> mask_bit (fc_msg_type (as_frame_request s)) (md_type m);
           if \<not> selected then Some (RETURN_UNHANDLED, ag)
           else do {
             wanted \<leftarrow> mask_bit (fc_frm80211_ops (as_frame_request s)) (union_ops (md_u m));
             if \<not> wanted then Some (RETURN_UNHANDLED, ag)
             else do { ag \<leftarrow> create_pcap ao fr m i ag; Some (RETURN_HANDLED, ag) } } })"

definition sta_frame :: "agent_outside \<Rightarrow> nat \<Rightarrow> agent_sta \<Rightarrow> wlan_emu_frm80211_frm \<Rightarrow> wlan_emu_msg_data \<Rightarrow> agent \<Rightarrow> (int \<times> agent) option" where
  "sta_frame ao i t fr m ag =
     (let mac = vi_mac (at_vap t)
      in if mac \<noteq> frm_client_macaddr fr \<and> mac \<noteq> frm_macaddr fr then Some (RETURN_UNHANDLED, ag)
         else do {
           (rc, msg_name) \<leftarrow> get_msgname_from_msgtype (env_hostap (ax_env (ao_ax ao))) m;
           if rc \<noteq> RETURN_OK then Some (RETURN_UNHANDLED, ag)
           else do {
             (t, ag) \<leftarrow> sta_left ao i t m ag;
             if mac = frm_client_macaddr fr
             then capture_if_wanted ao fr m i (set_sta i (sta_joined t m msg_name) ag)
             else if at_capture_sta_requests t then capture_if_wanted ao fr m i ag
             else Some (RETURN_UNHANDLED, ag) } })"

text \<open>A connected station asks for an address, four times at most; a station without one fails.\<close>

definition dhcp_cmd :: "agent_sta \<Rightarrow> string" where
  "dhcp_cmd t = ''/sbin/udhcpc -i '' @ at_interface_name t @ '' -n -q ''"

fun ask_address :: "agent_outside \<Rightarrow> nat list \<Rightarrow> agent_sta \<Rightarrow> bool \<times> agent_sta" where
  "ask_address ao [] t = (False, t)"
| "ask_address ao (n # ns) t =
     (case ao_run ao n (dhcp_cmd t) of
        None \<Rightarrow> ask_address ao ns t
      | Some (code, pid) \<Rightarrow>
          let t = t\<lparr>at_dhcp_pid := pid\<rparr>
          in if code \<noteq> 0 then ask_address ao ns t
             else (True, case ao_ip ao (at_interface_name t) of
                           None \<Rightarrow> t
                         | Some ip \<Rightarrow> t\<lparr>at_ip_address := ip, at_is_ip_assigned := True\<rparr>))"

abbreviation wlan_emu_ext_wifi_sta_state_connected :: u32 where "wlan_emu_ext_wifi_sta_state_connected \<equiv> 1"
abbreviation wlan_emu_ext_wifi_sta_state_disconnected :: u32 where "wlan_emu_ext_wifi_sta_state_disconnected \<equiv> 2"
abbreviation wlan_msg_ext_agent_ops_sub_type_wifi_notification :: u32 where
  "wlan_msg_ext_agent_ops_sub_type_wifi_notification \<equiv> 1"

definition sta_notified :: "agent_outside \<Rightarrow> nat \<Rightarrow> agent_sta \<Rightarrow> u32 \<Rightarrow> agent \<Rightarrow> int \<times> agent" where
  "sta_notified ao i t sta_state ag =
     (if sta_state = wlan_emu_ext_wifi_sta_state_connected then
        (case ask_address ao [0..<4] t of
           (done_, t) \<Rightarrow>
             let ag = set_sta i t (agent_effect (Ax_run (dhcp_cmd t)) ag)
             in (RETURN_HANDLED, if \<not> done_ \<and> \<not> at_is_ip_assigned t
                                 then at_step i (agent_set_step_state wlan_emu_tests_state_cmd_abort) ag else ag))
      else if sta_state = wlan_emu_ext_wifi_sta_state_disconnected then
        (RETURN_HANDLED, set_sta i (t\<lparr>at_is_ip_assigned := False, at_ip_address := []\<rparr>) (agent_effect (Ax_kill (at_dhcp_pid t)) ag))
      else (RETURN_UNHANDLED, ag))"

definition sta_filter :: "agent_outside \<Rightarrow> wlan_emu_msg_data \<Rightarrow> nat \<Rightarrow> agent_sta \<Rightarrow> agent \<Rightarrow> (int \<times> agent) option" where
  "sta_filter ao m i t ag =
     (if get_msg_type m = Some wlan_emu_msg_type_frm80211 then
        (case md_u m of U_frm80211 ops fr \<Rightarrow> sta_frame ao i t fr m ag | _ \<Rightarrow> None)
      else if get_msg_type m = Some wlan_emu_msg_type_agent then
        (case md_u m of
           U_agent ops (Agent_notif sub_ops_type sta_state sta_mac bssid_mac) \<Rightarrow>
             if sub_ops_type = wlan_msg_ext_agent_ops_sub_type_wifi_notification \<and> vi_mac (at_vap t) = sta_mac
             then Some (sta_notified ao i t sta_state ag)
             else Some (RETURN_UNHANDLED, ag)
         | _ \<Rightarrow> None)
      else Some (RETURN_UNHANDLED, ag))"

definition agent_step_filter :: "agent_outside \<Rightarrow> wlan_emu_msg_data \<Rightarrow> nat \<Rightarrow> agent \<Rightarrow> (int \<times> agent) option" where
  "agent_step_filter ao m i ag =
     (case as_param (ag_steps ag ! i) of
        A_sta_management t \<Rightarrow> sta_filter ao m i t ag
      | _ \<Rightarrow> Some (RETURN_UNHANDLED, ag))"

text \<open>The steps see a message from the oldest one on, until one has handled it.\<close>

fun filter_loop :: "agent_outside \<Rightarrow> wlan_emu_msg_data \<Rightarrow> nat \<Rightarrow> agent \<Rightarrow> agent option" where
  "filter_loop ao m 0 ag = Some ag"
| "filter_loop ao m (Suc n) ag =
     (if as_step_state (ag_steps ag ! n) \<in> {wlan_emu_tests_state_cmd_continue, wlan_emu_tests_state_cmd_wait}
      then (case agent_step_filter ao m n ag of
              None \<Rightarrow> None
            | Some (rc, ag) \<Rightarrow> if rc = RETURN_HANDLED then Some ag else filter_loop ao m n ag)
      else filter_loop ao m n ag)"

section \<open>Messages\<close>

definition push_step :: "agent_step \<Rightarrow> agent \<Rightarrow> agent" where
  "push_step s ag = ag\<lparr>ag_steps := s\<lparr>as_step_state := wlan_emu_tests_state_cmd_start\<rparr> # ag_steps ag\<rparr>"

definition accept_step :: "agent_outside \<Rightarrow> agent_step \<Rightarrow> agent \<Rightarrow> agent option" where
  "accept_step ao s ag =
     (case agent_step_execute ao 0 (push_step s ag) of
        None \<Rightarrow> None
      | Some (rc, ag) \<Rightarrow> Some (if rc = RETURN_ERR then at_step 0 (agent_set_step_state wlan_emu_tests_state_cmd_abort) ag else ag))"

abbreviation wlan_emu_msg_agent_cmd_type_stop :: u32 where "wlan_emu_msg_agent_cmd_type_stop \<equiv> 1"

text \<open>A pointer in a message of the device is one of \<open>Ag_step\<close>; another one leads nowhere.\<close>

fun process_msg :: "agent_outside \<Rightarrow> agent_msg \<Rightarrow> agent \<Rightarrow> agent option" where
  "process_msg ao (Ag_step s) ag = accept_step ao s ag"
| "process_msg ao (Ag_msg m) ag =
     (if get_msg_type m \<noteq> Some wlan_emu_msg_type_agent then filter_loop ao m (length (ag_steps ag)) ag
      else case get_agent_ops_type m of
             Some wlan_emu_msg_agent_ops_type_cmd \<Rightarrow>
               (case md_u m of
                  U_agent ops (Agent_cmd cmd) \<Rightarrow> if cmd = wlan_emu_msg_agent_cmd_type_stop then test_stop ao ag else Some ag
                | _ \<Rightarrow> None)
           | Some wlan_emu_msg_agent_ops_type_data \<Rightarrow> None
           | Some wlan_emu_msg_agent_ops_type_notification \<Rightarrow> filter_loop ao m (length (ag_steps ag)) ag
           | None \<Rightarrow> Some ag)"

end
