(* ===== verification/Agent_Main.thy ===== *)
theory Agent_Main
  imports Agent_Tests
begin

text \<open>
  The process on an external agent (\<open>external_agent_cci/wlan_ext_emu.cpp\<close>): the thread of a test with its poll
  (\<open>test_function\<close> of \<open>wlan_ext_emu_tests.cpp\<close>), the message manager (\<open>wlan_ext_emu_msg_mgr.cpp\<close>), the endpoints of the
  HTTP server, and the state machine. The threads are interleaved between these operations.
\<close>

section \<open>The poll\<close>

definition polled :: "agent_outside \<Rightarrow> agent_step \<Rightarrow> agent_step" where
  "polled ao s =
     (if as_step_state s \<in> {wlan_emu_tests_state_cmd_wait, wlan_emu_tests_state_cmd_continue} then agent_step_timeout ao s else s)"

text \<open>The steps are visited from the oldest one on; a step that aborts ends the poll.\<close>

fun poll_loop ::
  "agent_outside \<Rightarrow> nat \<Rightarrow> agent_step queue \<Rightarrow> json_doc list \<Rightarrow> nat \<Rightarrow> agent_step queue \<times> json_doc list \<times> nat \<times> bool" where
  "poll_loop ao 0 q docs completed = (q, docs, completed, False)"
| "poll_loop ao (Suc n) q docs completed =
     (let s = polled ao (q ! n); q = q[n := s]; docs = docs @ [update_step_status_json s]
      in if as_step_state s = wlan_emu_tests_state_cmd_abort then (q, docs, completed, True)
         else poll_loop ao n q docs
                (if as_step_state s = wlan_emu_tests_state_cmd_results then Suc completed else completed))"

definition agent_status_document :: "agent \<Rightarrow> nat \<Rightarrow> json_doc list \<Rightarrow> ext_agent_test_state \<Rightarrow> json_doc" where
  "agent_status_document ag step_total docs st = Doc_object
     [(''ExternalAgentHostName'', Doc_string (ea_hostname (ag_iface ag))),
      (''ExternalAgentStepCount'', Doc_number (int step_total)),
      (''ExternalAgentStepStatus'', Doc_array docs),
      (''ExternalAgentStatus'', Doc_string (agent_state_as_string st))]"

text \<open>A document that cannot be printed is a null pointer that is made a string.\<close>

definition set_status :: "agent_outside \<Rightarrow> json_doc \<Rightarrow> agent \<Rightarrow> agent option" where
  "set_status ao d ag = map_option (\<lambda>str. ag\<lparr>ag_status := str\<rparr>) (ax_print (ao_ax ao) d)"

text \<open>The status names the state the agent is in, not the one the signal of the same poll asks for.\<close>

definition agent_poll :: "agent_outside \<Rightarrow> agent \<Rightarrow> agent option" where
  "agent_poll ao ag =
     (let step_total = length (ag_steps ag)
      in case poll_loop ao step_total (ag_steps ag) [] 0 of
           (q, docs, completed, aborted) \<Rightarrow>
             let ag = ag\<lparr>ag_steps := q\<rparr>
             in if aborted then
                  map_option (\<lambda>ag. agent_effect (Ax_remove_all ''/tmp/cci_res/*'')
                      (on_test (tt_running_update (\<lambda>_. False)) (ext_emu_send_signal ext_agent_test_state_fail ag)))
                    (set_status ao (agent_status_document ag step_total docs ext_agent_test_state_fail) ag)
                else let ag = (if step_total = 0 then ag
                               else ext_emu_send_signal (if step_total = completed then ext_agent_test_state_complete
                                                         else ext_agent_test_state_running) ag)
                     in set_status ao (agent_status_document ag step_total docs (ag_state ag)) ag)"

section \<open>The thread of a test\<close>

text \<open>The messages are handled until the queue is empty or the test is stopped.\<close>

fun handle_msgs :: "agent_outside \<Rightarrow> agent_msg list \<Rightarrow> agent \<Rightarrow> agent option" where
  "handle_msgs ao [] ag = Some (on_test (tt_msgs_update (\<lambda>_. [])) ag)"
| "handle_msgs ao (m # ms) ag =
     (case process_msg ao m ag of
        None \<Rightarrow> None
      | Some ag \<Rightarrow>
          (case ag_test ag of
             None \<Rightarrow> None
           | Some t \<Rightarrow>
               if tt_exit t
               then Some (on_test (tt_running_update (\<lambda>_. False) \<circ> tt_msgs_update (\<lambda>_. rev ms))
                      (ext_emu_send_signal ext_agent_test_state_idle ag))
               else handle_msgs ao ms ag))"

text \<open>
  One round of the loop: \<open>timed_out\<close> is whether the wait ended by its time. The thread holds the lock of the message queue
  while it handles messages.
\<close>

definition test_round :: "agent_outside \<Rightarrow> bool \<Rightarrow> agent \<Rightarrow> agent option" where
  "test_round ao timed_out ag =
     (case ag_test ag of
        None \<Rightarrow> None
      | Some t \<Rightarrow>
          if \<not> tt_running t then Some ag
          else if \<not> timed_out \<or> tt_msgs t \<noteq> [] then handle_msgs ao (rev (tt_msgs t)) ag
          else agent_poll ao ag)"

section \<open>Messages to the test\<close>

text \<open>Every subscribed test gets a copy; a subscribed test that was deleted is written to all the same.\<close>

definition agent_queue_msg :: "agent_msg \<Rightarrow> agent \<Rightarrow> agent option" where
  "agent_queue_msg m ag =
     (if ag_subscribed ag = [] then Some ag
      else case ag_test ag of
             None \<Rightarrow> None
           | Some t \<Rightarrow>
               if list_all (\<lambda>id. id = tt_id t) (ag_subscribed ag)
               then Some (on_test (tt_msgs_update (\<lambda>q. m # q)) ag)
               else None)"

text \<open>A message written to the character device comes back while its reader runs.\<close>

definition send_agent_msg :: "agent_outside \<Rightarrow> agent_msg \<Rightarrow> agent \<Rightarrow> agent option" where
  "send_agent_msg ao m ag = (if ao_device ao \<and> ag_handler ag then agent_queue_msg m ag else Some ag)"

definition agent_cmd_msg :: "u32 \<Rightarrow> agent_msg" where
  "agent_cmd_msg cmd = Ag_msg \<lparr>md_type = enum_code msg_types wlan_emu_msg_type_agent,
     md_u = U_agent (enum_code agent_ops_types wlan_emu_msg_agent_ops_type_cmd) (Agent_cmd cmd)\<rparr>"

section \<open>The state machine\<close>

text \<open>In the states idle and fail the test object is deleted and the reader stopped; a ready agent sends itself a start.\<close>

definition enter_state :: "agent_outside \<Rightarrow> agent \<Rightarrow> agent option" where
  "enter_state ao ag =
     (if ag_state ag \<in> {ext_agent_test_state_idle, ext_agent_test_state_fail} then
        Some (if ag_test ag = None then ag else ag\<lparr>ag_test := None, ag_handler := False\<rparr>)
      else if ag_state ag = ext_agent_test_state_ready then send_agent_msg ao (agent_cmd_msg 0) ag
      else Some ag)"

definition signal_order :: "ext_agent_test_state list" where
  "signal_order = [ext_agent_test_state_idle, ext_agent_test_state_ready, ext_agent_test_state_running,
     ext_agent_test_state_complete, ext_agent_test_state_fail]"

text \<open>Of the sockets with a datagram the first one in the order of the states is read.\<close>

definition state_machine_round :: "agent_outside \<Rightarrow> agent \<Rightarrow> agent option" where
  "state_machine_round ao ag =
     (case List.find (\<lambda>st. st \<in> set (ag_signals ag)) signal_order of
        None \<Rightarrow> Some ag
      | Some st \<Rightarrow> enter_state ao (ag\<lparr>ag_state := st, ag_signals := remove1 st (ag_signals ag)\<rparr>))"

section \<open>Starting and stopping\<close>

text \<open>
  The constructor of a test: \<open>queue_mem\<close> and \<open>steps_mem\<close> are whether its two queues can be made, \<open>thread\<close> whether its
  thread can. The object is there in any case.
\<close>

definition agent_start :: "bool \<Rightarrow> bool \<Rightarrow> bool \<Rightarrow> agent \<Rightarrow> int \<times> agent" where
  "agent_start queue_mem steps_mem thread ag =
     (case ag_test ag of
        Some t \<Rightarrow> (RETURN_OK, ag)
      | None \<Rightarrow>
          let ok = queue_mem \<and> steps_mem \<and> thread;
              t = \<lparr>tt_id = ag_next ag, tt_exit = False, tt_initialized = ok, tt_running = ok, tt_msgs = []\<rparr>;
              ag = ag\<lparr>ag_test := Some t, ag_next := Suc (ag_next ag), ag_handler := True,
                      ag_steps := (if queue_mem then [] else ag_steps ag)\<rparr>
          in if \<not> ok then (RETURN_ERR, ag)
             else (RETURN_OK, ext_emu_send_signal ext_agent_test_state_ready
                     (ag\<lparr>ag_subscribed := tt_id t # ag_subscribed ag\<rparr>)))"

section \<open>The endpoints\<close>

text \<open>\<open>None\<close> is a status that the handler did not set.\<close>

type_synonym http_response = "int option \<times> string"

abbreviation OK_200 :: int where "OK_200 \<equiv> 200"
abbreviation BadRequest_400 :: int where "BadRequest_400 \<equiv> 400"
abbreviation InternalServerError_500 :: int where "InternalServerError_500 \<equiv> 500"

definition bad_request :: "agent \<Rightarrow> http_response" where
  "bad_request ag = (Some BadRequest_400, ea_hostname (ag_iface ag) @ '': bad request'')"

definition internal_svr_err :: "agent \<Rightarrow> http_response" where
  "internal_svr_err ag = (Some InternalServerError_500, ea_hostname (ag_iface ag) @ '': Internal server error'')"

definition status_ok :: "agent \<Rightarrow> http_response" where
  "status_ok ag = (Some OK_200, ea_hostname (ag_iface ag) @ '': status ok'')"

definition agent_endpoint_capability :: "agent_outside \<Rightarrow> agent \<Rightarrow> http_response" where
  "agent_endpoint_capability ao ag =
     (case encode_external_agent_capability (ao_ax ao) (ag_iface ag) [] of
        (rc, cap) \<Rightarrow> if rc = RETURN_ERR then bad_request ag else (Some OK_200, cap))"

definition agent_endpoint_status :: "agent \<Rightarrow> http_response" where
  "agent_endpoint_status ag = (Some OK_200, ag_status ag)"

definition agent_endpoint_results :: "agent_outside \<Rightarrow> string \<Rightarrow> agent \<Rightarrow> http_response" where
  "agent_endpoint_results ao filename ag =
     (if \<not> env_present (ax_env (ao_ax ao)) filename then internal_svr_err ag
      else case env_file (ax_env (ao_ax ao)) filename of None \<Rightarrow> (None, []) | Some content \<Rightarrow> (None, content))"

definition agent_endpoint_command ::
  "agent_outside \<Rightarrow> bool \<Rightarrow> bool \<Rightarrow> bool \<Rightarrow> string \<Rightarrow> agent \<Rightarrow> (http_response \<times> agent) option" where
  "agent_endpoint_command ao queue_mem steps_mem thread data ag =
     (if data = [] then Some (bad_request ag, ag)
      else if data = ''start'' then
        (case agent_start queue_mem steps_mem thread ag of
           (rc, ag) \<Rightarrow> Some (if rc \<noteq> RETURN_OK then bad_request ag else status_ok ag, ag))
      else if data = ''stop'' then
        (if ag_status ag = [] then Some ((None, []), ag)
         else do {
           ag \<leftarrow> send_agent_msg ao (agent_cmd_msg 1) ag;
           ag \<leftarrow> set_status ao (agent_status_document ag 0 [] ext_agent_test_state_idle) ag;
           Some (status_ok ag, ag) })
      else Some (bad_request ag, ag))"

text \<open>
  The posted file is saved; the handler of a sub-document then reads it back, and its answer is already set when
  the decoding fails.
\<close>

definition saved_file :: "agent_outside \<Rightarrow> string \<Rightarrow> string option" where
  "saved_file ao filename = (let f = ''/tmp/cci_res/'' @ filename in if env_open_w (ax_env (ao_ax ao)) f then Some f else None)"

definition agent_endpoint_reffiles :: "agent_outside \<Rightarrow> string \<Rightarrow> string \<Rightarrow> agent \<Rightarrow> http_response \<times> agent" where
  "agent_endpoint_reffiles ao filename body ag =
     (case saved_file ao filename of
        None \<Rightarrow> (internal_svr_err ag, ag)
      | Some f \<Rightarrow> (status_ok ag, agent_effect (Ax_write f body) ag))"

definition agent_endpoint_testconfig ::
  "'j json_env \<Rightarrow> agent_outside \<Rightarrow> string \<Rightarrow> string \<Rightarrow> agent \<Rightarrow> (http_response \<times> agent) option" where
  "agent_endpoint_testconfig je ao filename body ag =
     (case saved_file ao filename of
        None \<Rightarrow> Some (internal_svr_err ag, ag)
      | Some f \<Rightarrow>
          let ag = agent_effect (Ax_write f body) ag
          in if \<not> env_present (ax_env (ao_ax ao)) f then Some (internal_svr_err ag, ag)
             else (case agent_decode_step_param je ao (if ax_file_written (ao_ax ao) f then body else []) of
                     Undef \<Rightarrow> None
                   | Reject \<Rightarrow> Some (bad_request ag, ag)
                   | Accept None \<Rightarrow> None
                   | Accept (Some s) \<Rightarrow> map_option (\<lambda>ag. (status_ok ag, ag)) (send_agent_msg ao (Ag_step s) ag)))"

section \<open>Notifications of the hardware layer\<close>

text \<open>Both a connected and a disconnected station are reported as connected.\<close>

datatype (plugins only: code size) connection_status = Connected | Disconnected | Other_status

definition wifi_sta_notification :: "bytes \<Rightarrow> bytes \<Rightarrow> agent_msg" where
  "wifi_sta_notification mac bssid = Ag_msg \<lparr>md_type = enum_code msg_types wlan_emu_msg_type_agent,
     md_u = U_agent (enum_code agent_ops_types wlan_emu_msg_agent_ops_type_notification)
       (Agent_notif wlan_msg_ext_agent_ops_sub_type_wifi_notification wlan_emu_ext_wifi_sta_state_connected mac bssid)\<rparr>"

definition sta_connection_status ::
  "agent_outside \<Rightarrow> (bytes \<times> bytes option \<times> connection_status) option \<Rightarrow> agent \<Rightarrow> (int \<times> agent) option" where
  "sta_connection_status ao report ag =
     (case report of
        None \<Rightarrow> Some (RETURN_ERR, ag)
      | Some (bssid, None, st) \<Rightarrow> Some (RETURN_ERR, ag)
      | Some (bssid, Some mac, st) \<Rightarrow>
          if st = Other_status then Some (RETURN_OK, ag)
          else map_option (\<lambda>ag. (RETURN_OK, ag)) (send_agent_msg ao (wifi_sta_notification mac bssid) ag))"

end
