(* ===== verification/Json_Library.thy ===== *)
theory Json_Library
  imports Decode_Runs
begin

text \<open>
  What the program relies on when one side prints a document with the JSON library and the other reads it, and a small
  library with this behaviour for the witnesses.
\<close>

section \<open>The contract\<close>

text \<open>
  Documents the library prints without loss: no character 0 in a string, integers a \<open>double\<close> holds
  exactly, and names that stay distinct when the library compares them, which it does without regard to case.
\<close>

definition lower_code :: "char \<Rightarrow> nat" where
  "lower_code c = (let n = of_char c in if 65 \<le> n \<and> n \<le> 90 then n + 32 else n)"

definition lower :: "string \<Rightarrow> nat list" where
  "lower s = map lower_code s"

lemma lower_simps [simp]: "lower [] = []" "lower (c # s) = lower_code c # lower s"
  by (simp_all add: lower_def)

lemma lower_code_Char [simp]:
  "lower_code (Char a b c d e f g h) =
     (let n = of_char (Char a b c d e f g h) in if 65 \<le> n \<and> n \<le> 90 then n + 32 else n)"
  by (simp add: lower_code_def)

fun printable :: "json_doc \<Rightarrow> bool" where
  "printable (Doc_string s) \<longleftrightarrow> CHR 0x00 \<notin> set s"
| "printable (Doc_number n) \<longleftrightarrow> - (2 ^ 53) \<le> n \<and> n \<le> 2 ^ 53"
| "printable (Doc_bool b) \<longleftrightarrow> True"
| "printable (Doc_array ds) \<longleftrightarrow> list_all printable ds"
| "printable (Doc_object ms) \<longleftrightarrow>
     distinct (map (\<lambda>(k, d). lower k) ms) \<and> list_all (\<lambda>(k, d). CHR 0x00 \<notin> set k \<and> printable d) ms"

text \<open>How deep a document is nested; the parser follows a thousand levels.\<close>

fun doc_depth :: "json_doc \<Rightarrow> nat" where
  "doc_depth (Doc_array ds) = Suc (fold max (map doc_depth ds) 0)"
| "doc_depth (Doc_object ms) = Suc (fold max (map (\<lambda>(k, d). doc_depth d) ms) 0)"
| "doc_depth d = 1"

fun names_of :: "json_doc \<Rightarrow> nat list list" where
  "names_of (Doc_object ms) = map (\<lambda>(k, d). lower k) ms"
| "names_of d = []"

text \<open>What is printed is read as a node that mirrors the document and has no members but those of the document.\<close>

definition reads_back :: "'j json_env \<Rightarrow> (json_doc \<Rightarrow> string) \<Rightarrow> bool" where
  "reads_back je pr \<longleftrightarrow> (\<forall>d. printable d \<longrightarrow> doc_depth d \<le> 1000 \<longrightarrow> pr d \<noteq> [] \<and>
     (\<exists>j. cj_parse je (pr d) = Some j \<and> mirrors je d j \<and> (\<forall>k. lower k \<notin> set (names_of d) \<longrightarrow> cj_item je j k = None)))"

lemma reads_backE:
  assumes "reads_back je pr" "printable d" "doc_depth d \<le> 1000"
  obtains j where "pr d \<noteq> []" "cj_parse je (pr d) = Some j" "mirrors je d j"
    "\<And>k. lower k \<notin> set (names_of d) \<Longrightarrow> cj_item je j k = None"
  using assms by (auto simp: reads_back_def)

text \<open>A node that is printed again is read as one that mirrors the same documents.\<close>

definition reprints :: "'j json_env \<Rightarrow> ('j \<Rightarrow> string option) \<Rightarrow> bool" where
  "reprints je pn \<longleftrightarrow>
     (\<forall>j. \<exists>t j'. pn j = Some t \<and> cj_parse je t = Some j' \<and> (\<forall>d. mirrors je d j \<longrightarrow> mirrors je d j'))"

lemma reprintsE:
  assumes "reprints je pn"
  obtains t j' where "pn j = Some t" "cj_parse je t = Some j'" "\<And>d. mirrors je d j \<Longrightarrow> mirrors je d j'"
  using assms unfolding reprints_def by blast

lemma fold_max_le: "(\<And>x. x \<in> set xs \<Longrightarrow> x \<le> (b :: nat)) \<Longrightarrow> a \<le> b \<Longrightarrow> fold max xs a \<le> b"
  by (induction xs arbitrary: a) auto

lemma doc_depth_array: "(\<And>d. d \<in> set ds \<Longrightarrow> doc_depth d \<le> n) \<Longrightarrow> doc_depth (Doc_array ds) \<le> Suc n"
  by (auto intro!: fold_max_le)

section \<open>A library for the witnesses\<close>

text \<open>Its nodes are the documents themselves, and every length is printed in front of what it is the length of.\<close>

definition netstring :: "string \<Rightarrow> string" where
  "netstring s = show_nat (length s) @ ''#'' @ s"

fun print_doc :: "json_doc \<Rightarrow> string" where
  "print_doc (Doc_string s) = ''s'' @ netstring s"
| "print_doc (Doc_number n) = ''n'' @ show_int n @ ''#''"
| "print_doc (Doc_bool b) = (if b then ''t'' else ''f'')"
| "print_doc (Doc_array ds) = ''a'' @ show_nat (length ds) @ ''#'' @ concat (map print_doc ds)"
| "print_doc (Doc_object ms) = ''o'' @ show_nat (length ms) @ ''#'' @ concat (map (\<lambda>(k, d). netstring k @ print_doc d) ms)"

definition read_netstring :: "string \<Rightarrow> string \<times> string" where
  "read_netstring s = (case scan_digits 0 s of (n, r) \<Rightarrow> (take n (tl r), drop n (tl r)))"

function (sequential) read_doc :: "nat \<Rightarrow> string \<Rightarrow> (json_doc \<times> string) option"
  and read_docs :: "nat \<Rightarrow> nat \<Rightarrow> string \<Rightarrow> (json_doc list \<times> string) option"
  and read_members :: "nat \<Rightarrow> nat \<Rightarrow> string \<Rightarrow> ((string \<times> json_doc) list \<times> string) option" where
  "read_doc 0 s = None"
| "read_doc (Suc f) [] = None"
| "read_doc (Suc f) (c # s) =
     (if c = CHR ''s'' then (case read_netstring s of (t, r) \<Rightarrow> Some (Doc_string t, r))
      else if c = CHR ''n'' then map_option (\<lambda>(n, r). (Doc_number n, tl r)) (scan_int s)
      else if c = CHR ''t'' then Some (Doc_bool True, s)
      else if c = CHR ''f'' then Some (Doc_bool False, s)
      else if c = CHR ''a'' then
        (case scan_digits 0 s of (n, r) \<Rightarrow> map_option (\<lambda>(ds, r). (Doc_array ds, r)) (read_docs f n (tl r)))
      else if c = CHR ''o'' then
        (case scan_digits 0 s of (n, r) \<Rightarrow> map_option (\<lambda>(ms, r). (Doc_object ms, r)) (read_members f n (tl r)))
      else None)"
| "read_docs f 0 s = Some ([], s)"
| "read_docs f (Suc n) s =
     (case read_doc f s of
        None \<Rightarrow> None
      | Some (d, r) \<Rightarrow> map_option (\<lambda>(ds, r). (d # ds, r)) (read_docs f n r))"
| "read_members f 0 s = Some ([], s)"
| "read_members f (Suc n) s =
     (case read_netstring s of
        (k, r) \<Rightarrow>
          (case read_doc f r of
             None \<Rightarrow> None
           | Some (d, r) \<Rightarrow> map_option (\<lambda>(ms, r). ((k, d) # ms, r)) (read_members f n r)))"
  by pat_completeness auto

termination
  by (relation "measures [\<lambda>x. case x of Inl (f, s) \<Rightarrow> f | Inr (Inl (f, n, s)) \<Rightarrow> f | Inr (Inr (f, n, s)) \<Rightarrow> f,
      \<lambda>x. case x of Inl (f, s) \<Rightarrow> 0 | Inr (Inl (f, n, s)) \<Rightarrow> Suc n | Inr (Inr (f, n, s)) \<Rightarrow> Suc n]") auto

definition json_library :: "json_doc json_env" where
  "json_library = \<lparr>cj_parse = (\<lambda>s. map_option fst (read_doc (length s) s)),
     cj_item = (\<lambda>j k. case j of Doc_object ms \<Rightarrow> map_of ms k | _ \<Rightarrow> None),
     cj_is_string = (\<lambda>j. case j of Doc_string s \<Rightarrow> True | _ \<Rightarrow> False),
     cj_valuestring = (\<lambda>j. case j of Doc_string s \<Rightarrow> Some s | _ \<Rightarrow> None),
     cj_is_number = (\<lambda>j. case j of Doc_number n \<Rightarrow> True | _ \<Rightarrow> False),
     cj_valueint = (\<lambda>j. case j of Doc_number n \<Rightarrow> n | _ \<Rightarrow> 0),
     cj_valuedouble = (\<lambda>j. case j of Doc_number n \<Rightarrow> of_int n | _ \<Rightarrow> 0),
     cj_is_bool = (\<lambda>j. case j of Doc_bool b \<Rightarrow> True | _ \<Rightarrow> False),
     cj_is_true = (\<lambda>j. case j of Doc_bool b \<Rightarrow> b | _ \<Rightarrow> False),
     cj_is_array = (\<lambda>j. case j of Doc_array ds \<Rightarrow> True | _ \<Rightarrow> False),
     cj_is_object = (\<lambda>j. case j of Doc_object ms \<Rightarrow> True | _ \<Rightarrow> False),
     cj_elems = (\<lambda>j. case j of Doc_array ds \<Rightarrow> ds | Doc_object ms \<Rightarrow> map snd ms | _ \<Rightarrow> []),
     je_new = True, je_member = True, je_calloc = True, je_raw = sample_step (P_timed_wait 0),
     je_raw_sta = sample_sta_test, je_raw_case = sample_raw_case, je_cm_mac = replicate 6 0,
     je_max_radios = 3, je_max_vaps = 8, je_atof = (\<lambda>s. 1), je_valid_ip = (\<lambda>s. True), je_resolvable = (\<lambda>s. False)\<rparr>"

section \<open>The library reads what it prints\<close>

lemma read_netstring_netstring [simp]: "read_netstring (netstring s @ r) = (s, r)"
proof -
  have "scan_digits 0 (show_nat (length s) @ CHR ''#'' # s @ r) = (length s, CHR ''#'' # s @ r)"
    by (rule scan_digits_show_nat) (simp add: no_digit_hd_def is_digit_def)
  then show ?thesis by (simp add: read_netstring_def netstring_def)
qed

lemma scan_count [simp]: "scan_digits 0 (show_nat n @ CHR ''#'' # r) = (n, CHR ''#'' # r)"
  by (rule scan_digits_show_nat) (simp add: no_digit_hd_def is_digit_def)

lemma scan_number [simp]: "scan_int (show_int n @ CHR ''#'' # r) = Some (n, CHR ''#'' # r)"
  by (rule scan_int_show_int) (simp add: no_digit_hd_def is_digit_def)

lemma read_docs_concat:
  "(\<And>d r. d \<in> set ds \<Longrightarrow> read_doc f (print_doc d @ r) = Some (d, r)) \<Longrightarrow>
     read_docs f (length ds) (concat (map print_doc ds) @ r) = Some (ds, r)"
  by (induction ds arbitrary: r) auto

lemma read_members_concat:
  "(\<And>k d r. (k, d) \<in> set ms \<Longrightarrow> read_doc f (print_doc d @ r) = Some (d, r)) \<Longrightarrow>
     read_members f (length ms) (concat (map (\<lambda>(k, d). netstring k @ print_doc d) ms) @ r) = Some (ms, r)"
proof (induction ms arbitrary: r)
  case (Cons m ms)
  obtain k d where m: "m = (k, d)" by fastforce
  have "read_doc f (print_doc d @ s) = Some (d, s)" for s using Cons.prems m by auto
  moreover have "read_members f (length ms) (concat (map (\<lambda>(k, d). netstring k @ print_doc d) ms) @ s) = Some (ms, s)" for s
    using Cons.IH Cons.prems by auto
  ultimately show ?case by (simp add: m)
qed simp

lemma fold_max_ge: "x \<in> set xs \<Longrightarrow> x \<le> fold max xs (a :: nat)" "a \<le> fold max xs a"
  by (induction xs arbitrary: a) (auto intro: le_trans [OF max.cobounded2] le_trans [OF max.cobounded1])

lemma read_print_doc: "doc_depth d \<le> f \<Longrightarrow> read_doc f (print_doc d @ r) = Some (d, r)"
proof (induction d arbitrary: f r rule: print_doc.induct)
  case (4 ds)
  then obtain g where g: "f = Suc g" "fold max (map doc_depth ds) 0 \<le> g" by (cases f) auto
  have "doc_depth d \<le> g" if "d \<in> set ds" for d
    using fold_max_ge(1) [of "doc_depth d" "map doc_depth ds" 0] that g(2) by auto
  with 4 show ?case by (simp add: g(1) read_docs_concat)
next
  case (5 ms)
  then obtain g where g: "f = Suc g" "fold max (map (\<lambda>(k, d). doc_depth d) ms) 0 \<le> g" by (cases f) auto
  have "doc_depth d \<le> g" if "(k, d) \<in> set ms" for k d
    using fold_max_ge(1) [of "doc_depth d" "map (\<lambda>(k, d). doc_depth d) ms" 0] that g(2) by force
  with 5 show ?case by (simp add: g(1)) (subst read_members_concat, auto)
qed (auto simp: Suc_le_eq gr0_conv_Suc)

lemma length_in_concat: "x \<in> set xs \<Longrightarrow> length (f x) \<le> length (concat (map f xs))"
  by (induction xs) auto

lemma depth_length: "doc_depth d \<le> length (print_doc d)"
proof (induction d rule: print_doc.induct)
  case (4 ds)
  have "fold max (map doc_depth ds) 0 \<le> length (concat (map print_doc ds))"
    by (rule fold_max_le) (use 4 length_in_concat [of _ ds print_doc] in \<open>auto intro: le_trans\<close>)
  then show ?case by simp
next
  case (5 ms)
  have "fold max (map (\<lambda>(k, d). doc_depth d) ms) 0 \<le> length (concat (map (\<lambda>(k, d). netstring k @ print_doc d) ms))"
  proof (rule fold_max_le)
    fix x assume "x \<in> set (map (\<lambda>(k, d). doc_depth d) ms)"
    then obtain k d where kd: "(k, d) \<in> set ms" "x = doc_depth d" by auto
    then have "x \<le> length (print_doc d)" using 5 by auto
    also have "\<dots> \<le> length (netstring k @ print_doc d)" by simp
    also have "\<dots> \<le> length (concat (map (\<lambda>(k, d). netstring k @ print_doc d) ms))"
      using length_in_concat [OF kd(1), of "\<lambda>(k, d). netstring k @ print_doc d"] by simp
    finally show "x \<le> length (concat (map (\<lambda>(k, d). netstring k @ print_doc d) ms))" .
  qed simp
  then show ?case by simp
qed (simp_all add: Suc_le_eq)

lemma distinct_lower: "distinct (map (\<lambda>(k, d). lower k) ms) \<Longrightarrow> distinct (map fst ms)"
  by (induction ms) force+

lemma no_other_item: "lower k \<notin> set (names_of d) \<Longrightarrow> cj_item json_library d k = None"
  by (cases d) (auto simp: json_library_def map_of_eq_None_iff)

lemma mirrors_itself: "printable d \<Longrightarrow> mirrors json_library d d"
proof (induction d rule: print_doc.induct)
  case (4 ds)
  then show ?case by (simp add: json_library_def list_all_iff list.rel_refl_strong)
next
  case (5 ms)
  have "list_all (\<lambda>(k, d). case cj_item json_library (Doc_object ms) k of None \<Rightarrow> False | Some j \<Rightarrow> mirrors json_library d j) ms"
    unfolding list_all_iff
  proof safe
    fix k d assume kd: "(k, d) \<in> set ms"
    then have "cj_item json_library (Doc_object ms) k = Some d" using 5(2) by (simp add: json_library_def distinct_lower)
    with kd 5 show "case cj_item json_library (Doc_object ms) k of None \<Rightarrow> False | Some j \<Rightarrow> mirrors json_library d j"
      by (auto simp: list_all_iff)
  qed
  moreover have "cj_is_object json_library (Doc_object ms)" by (simp add: json_library_def)
  ultimately show ?case by simp
qed (simp_all add: json_library_def)

lemma print_doc_nonempty: "print_doc d \<noteq> []"
  by (cases d) simp_all

lemma json_library_parses: "cj_parse json_library (print_doc d) = Some d"
  using read_print_doc [OF depth_length, of d "[]"] by (simp add: json_library_def)

lemma json_library_reprints: "reprints json_library (\<lambda>d. Some (print_doc d))"
  by (simp add: reprints_def json_library_parses)

lemma json_library_reads_back: "reads_back json_library print_doc"
  unfolding reads_back_def
proof (intro allI impI conjI)
  fix d assume d: "printable d"
  show "print_doc d \<noteq> []" by (rule print_doc_nonempty)
  from json_library_parses mirrors_itself [OF d] no_other_item show "\<exists>j. cj_parse json_library (print_doc d) = Some j \<and> mirrors json_library d j \<and>
      (\<forall>k. lower k \<notin> set (names_of d) \<longrightarrow> cj_item json_library j k = None)" by blast
qed

end
