(* ===== verification/Agent_Facts.thy ===== *)
theory Agent_Facts
  imports Agent_Main Json_Library
begin

text \<open>
  What the gateway reads of the status an agent publishes, and what a poll of the agent does.
\<close>

section \<open>The poll as a function of the steps\<close>

definition aborted :: "agent_step \<Rightarrow> bool" where
  "aborted s \<longleftrightarrow> as_step_state s = wlan_emu_tests_state_cmd_abort"

text \<open>A list up to its first aborted step, inclusive.\<close>

fun through_abort :: "agent_step list \<Rightarrow> agent_step list" where
  "through_abort [] = []"
| "through_abort (s # ss) = s # (if aborted s then [] else through_abort ss)"

definition has_results :: "agent_step \<Rightarrow> bool" where
  "has_results s \<longleftrightarrow> as_step_state s = wlan_emu_tests_state_cmd_results"

lemma results_not_aborted: "has_results s \<Longrightarrow> \<not> aborted s"
  by (simp add: has_results_def aborted_def)

text \<open>The steps after a poll that visits the first \<open>n\<close> ones from the last on.\<close>

fun polled_queue :: "agent_outside \<Rightarrow> nat \<Rightarrow> agent_step queue \<Rightarrow> agent_step queue" where
  "polled_queue ao 0 q = q"
| "polled_queue ao (Suc n) q =
     (let q = q[n := polled ao (q ! n)] in if aborted (q ! n) then q else polled_queue ao n q)"

lemma take_Suc_rev: "n < length q \<Longrightarrow> rev (take (Suc n) q) = q ! n # rev (take n q)"
  by (simp add: take_Suc_conv_app_nth)

lemma poll_loop_eq:
  "n \<le> length q \<Longrightarrow>
     poll_loop ao n q docs c =
       (let ps = through_abort (map (polled ao) (rev (take n q)))
        in (polled_queue ao n q, docs @ map update_step_status_json ps, c + length (filter has_results ps), list_ex aborted ps))"
proof (induction n arbitrary: q docs c)
  case (Suc n)
  let ?s = "polled ao (q ! n)"
  have n: "n < length q" using Suc.prems by simp
  have IH: "poll_loop ao n (q[n := ?s]) docs' c' =
     (let ps = through_abort (map (polled ao) (rev (take n q)))
      in (polled_queue ao n (q[n := ?s]), docs' @ map update_step_status_json ps, c' + length (filter has_results ps), list_ex aborted ps))"
    for docs' c'
    using Suc.IH [of "q[n := ?s]" docs' c'] n by simp
  show ?case
    using n by (simp add: take_Suc_rev IH [unfolded Let_def] Let_def aborted_def [symmetric] has_results_def [symmetric]
        results_not_aborted)
qed simp

lemma through_abort_ex: "list_ex aborted (through_abort ps) = list_ex aborted ps"
  by (induction ps) auto

lemma through_abort_none: "\<not> list_ex aborted ps \<Longrightarrow> through_abort ps = ps"
  by (induction ps) auto

lemma set_through_abort: "set (through_abort ps) \<subseteq> set ps"
  by (induction ps) auto

lemma drop_Suc_nth_update: "n < length q \<Longrightarrow> drop n (q[n := x]) = x # drop (Suc n) q"
  by (simp add: Cons_nth_drop_Suc [symmetric])

lemma polled_queue_all:
  "\<not> list_ex aborted (map (polled ao) (rev (take n q))) \<Longrightarrow> n \<le> length q \<Longrightarrow>
     polled_queue ao n q = map (polled ao) (take n q) @ drop n q"
proof (induction n arbitrary: q)
  case (Suc n)
  have n: "n < length q" using Suc.prems by simp
  have "\<not> aborted (polled ao (q ! n))" "\<not> list_ex aborted (map (polled ao) (rev (take n q)))"
    using Suc.prems n by (auto simp: take_Suc_rev)
  then show ?case
    using Suc.IH [of "q[n := polled ao (q ! n)]"] n
    by (simp add: Let_def take_Suc_conv_app_nth drop_Suc_nth_update)
qed simp

section \<open>What the gateway reads\<close>

text \<open>What the gateway's status of a step says of the agent's step.\<close>

definition shows_step :: "'j json_env \<Rightarrow> ext_agent_step_status \<Rightarrow> agent_step \<Rightarrow> bool" where
  "shows_step je x s \<longleftrightarrow> ss_step_number x = uint (as_step_number s) \<and> ss_state x = as_step_state s \<and>
     ss_result_files x = (if has_results s then as_artifacts s else []) \<and>
     (case step_private s of
        None \<Rightarrow> True
      | Some d \<Rightarrow> (case cj_parse je (ss_step_private_json_data x) of None \<Rightarrow> False | Some j \<Rightarrow> mirrors je d j))"

text \<open>Names and addresses without the character 0, and a number the gateway's type of numbers holds.\<close>

fun strings_print :: "agent_param \<Rightarrow> bool" where
  "strings_print (A_sta_management t) = (CHR 0x00 \<notin> set (at_interface_name t) \<and> CHR 0x00 \<notin> set (at_ip_address t))"
| "strings_print (A_iperf role p) = True"
| "strings_print (A_eth_lan_client el) =
     (CHR 0x00 \<notin> set (ed_interface_name (el_eth_dev_info el)) \<and> CHR 0x00 \<notin> set (ed_ip_address (el_eth_dev_info el)))"

definition step_prints :: "agent_step \<Rightarrow> bool" where
  "step_prints s \<longleftrightarrow> uint (as_step_number s) < 2 ^ 31 \<and> strings_print (as_param s) \<and>
     list_all (\<lambda>f. CHR 0x00 \<notin> set f) (as_artifacts s)"

lemma step_state_strings [simp]: "CHR 0x00 \<notin> set (step_state_as_string st)"
  by (cases st) (simp_all add: step_state_as_string_def step_state_to_str_def)

lemma agent_state_strings [simp]: "CHR 0x00 \<notin> set (agent_state_as_string st)"
  by (cases st) (simp_all add: agent_state_as_string_def agent_state_to_str_def)

lemma status_printable:
  assumes "step_prints s"
  shows "printable (update_step_status_json s)"
proof -
  have "- 9007199254740992 \<le> (0 :: int)" by simp
  also have "0 \<le> uint (as_step_number s)" by (rule uint_ge_0)
  finally have n: "- 9007199254740992 \<le> uint (as_step_number s)" "uint (as_step_number s) \<le> 9007199254740992"
    using assms by (simp_all add: step_prints_def)
  show ?thesis
    using assms n
    by (cases "as_param s")
      (auto simp: step_prints_def update_step_status_json_def step_private_def list_all_iff)
qed

lemma decode_result_files:
  "list_all2 (mirrors je) (map Doc_string fs) js \<Longrightarrow> decode_each (decode_result_file je) js acc = Accept (acc @ fs)"
proof (induction fs arbitrary: js acc)
  case (Cons f fs)
  then obtain j r where "js = j # r" "mirrors je (Doc_string f) j" "list_all2 (mirrors je) (map Doc_string fs) r"
    by (auto simp: list_all2_Cons1)
  with Cons.IH show ?case by (simp add: decode_result_file_def)
qed simp

lemma read_private_data:
  assumes "mirrors je (update_step_status_json s) j" "reprints je pn"
  obtains priv where "(case cj_item je j ''StepPrivateData'' of None \<Rightarrow> Accept [] | Some p \<Rightarrow> deref (pn p)) = Accept priv"
    "case step_private s of None \<Rightarrow> True | Some d \<Rightarrow> (case cj_parse je priv of None \<Rightarrow> False | Some j \<Rightarrow> mirrors je d j)"
proof (cases "cj_item je j ''StepPrivateData''")
  case None
  then have "step_private s = None"
    using mirrored_item [OF assms(1) [unfolded update_step_status_json_def], of "''StepPrivateData''"]
    by (cases "step_private s") auto
  with None show ?thesis using that by simp
next
  case (Some p)
  obtain t j' where t: "pn p = Some t" "cj_parse je t = Some j'" "\<And>d. mirrors je d p \<Longrightarrow> mirrors je d j'"
    using reprintsE [OF assms(2)] by metis
  have "mirrors je d p" if "step_private s = Some d" for d
    using mirrored_item [OF assms(1) [unfolded update_step_status_json_def], of "''StepPrivateData''" d] that Some by auto
  with Some t show ?thesis using that by (auto simp: deref_def split: option.splits)
qed

lemma read_step_status:
  assumes "mirrors je (update_step_status_json s) j" "step_prints s" "reprints je pn"
  shows "\<exists>x. decode_step_status je pn j steps = Accept (steps @ [x]) \<and> shows_step je x s"
proof -
  note m = assms(1) [unfolded update_step_status_json_def]
  obtain n where n: "decode_param_integer je (Some j) ''StepNumber'' = Accept n" "cj_valueint je n = uint (as_step_number s)"
    using mirrored_param_integer [OF m, of "''StepNumber''" "uint (as_step_number s)"] assms(2) uint_ge_0 [of "as_step_number s"]
    by (auto simp: step_prints_def simp del: uint_ge_0)
  have st: "decode_param_string je (Some j) ''StepStatus'' = Accept (step_state_as_string (as_step_state s))"
    by (rule mirrored_param_string [OF m]) simp_all
  have files: "(if as_step_state s = wlan_emu_tests_state_cmd_results
      then after (decode_param_array je (Some j) ''ResultFiles'') (\<lambda>file_arr. decode_each (decode_result_file je) (cj_elems je file_arr) [])
      else Accept []) = Accept (if has_results s then as_artifacts s else [])"
  proof (cases "has_results s")
    case True
    obtain a where a: "cj_item je j ''ResultFiles'' = Some a" "mirrors je (Doc_array (map Doc_string (as_artifacts s))) a"
      using mirrored_item [OF m, of "''ResultFiles''" "Doc_array (map Doc_string (as_artifacts s))"] True
      by (auto simp: has_results_def)
    then show ?thesis
      using True decode_result_files [of je "as_artifacts s" "cj_elems je a" "[]"]
      by (simp add: has_results_def decode_param_array_def get_item_def)
  qed (simp add: has_results_def)
  obtain priv where priv: "(case cj_item je j ''StepPrivateData'' of None \<Rightarrow> Accept [] | Some p \<Rightarrow> deref (pn p)) = Accept priv"
    "case step_private s of None \<Rightarrow> True | Some d \<Rightarrow> (case cj_parse je priv of None \<Rightarrow> False | Some j \<Rightarrow> mirrors je d j)"
    by (rule read_private_data [OF assms(1,3)])
  then show ?thesis
    by (cases "step_private s")
      (simp_all add: decode_step_status_def n st files step_state_round_trip shows_step_def Let_def has_results_def)
qed

lemma read_step_statuses:
  assumes "reprints je pn"
  shows "list_all2 (mirrors je) (map update_step_status_json ss) js \<Longrightarrow> list_all step_prints ss \<Longrightarrow>
    \<exists>xs. decode_each (decode_step_status je pn) js acc = Accept (acc @ xs) \<and> list_all2 (shows_step je) xs ss"
proof (induction ss arbitrary: js acc)
  case (Cons s ss)
  then obtain j r where j: "js = j # r" "mirrors je (update_step_status_json s) j"
    "list_all2 (mirrors je) (map update_step_status_json ss) r"
    by (auto simp: list_all2_Cons1)
  obtain x where x: "decode_step_status je pn j acc = Accept (acc @ [x])" "shows_step je x s"
    using read_step_status [OF j(2) _ assms] Cons.prems(2) by fastforce
  obtain xs where "decode_each (decode_step_status je pn) r (acc @ [x]) = Accept ((acc @ [x]) @ xs)"
    "list_all2 (shows_step je) xs ss"
    using Cons.IH [OF j(3), of "acc @ [x]"] Cons.prems(2) by auto
  with x j(1) show ?case by (intro exI [of _ "x # xs"]) simp
qed simp

section \<open>The status of a poll\<close>

lemma timeout_keeps:
  "as_step_number (agent_step_timeout ao s) = as_step_number s" "as_param (agent_step_timeout ao s) = as_param s"
  "as_artifacts (agent_step_timeout ao s) = as_artifacts s" "as_fork (agent_step_timeout ao s) = as_fork s"
  "as_execution_time (agent_step_timeout ao s) = as_execution_time s"
  by (simp_all add: agent_step_timeout_def Let_def split: agent_param.splits)

lemma polled_prints: "step_prints s \<Longrightarrow> step_prints (polled ao s)"
  by (simp add: polled_def step_prints_def timeout_keeps)

lemma signal_keeps [simp]:
  "ag_steps (ext_emu_send_signal st ag) = ag_steps ag" "ag_status (ext_emu_send_signal st ag) = ag_status ag"
  "ag_iface (ext_emu_send_signal st ag) = ag_iface ag" "ag_state (ext_emu_send_signal st ag) = ag_state ag"
  "ag_test (ext_emu_send_signal st ag) = ag_test ag" "ag_subscribed (ext_emu_send_signal st ag) = ag_subscribed ag"
  "ag_handler (ext_emu_send_signal st ag) = ag_handler ag"
  by (simp_all add: ext_emu_send_signal_def)

lemma document_keeps [simp]: "agent_status_document (ext_emu_send_signal st ag) = agent_status_document ag"
  "agent_status_document (ag\<lparr>ag_steps := q\<rparr>) = agent_status_document ag"
  by (simp_all add: agent_status_document_def fun_eq_iff)

text \<open>The document a poll publishes.\<close>

definition poll_document :: "agent_outside \<Rightarrow> agent \<Rightarrow> json_doc" where
  "poll_document ao ag =
     (let ps = through_abort (map (polled ao) (rev (ag_steps ag)))
      in agent_status_document ag (length (ag_steps ag)) (map update_step_status_json ps)
           (if list_ex aborted ps then ext_agent_test_state_fail else ag_state ag))"

lemma agent_poll_publishes:
  assumes "agent_poll ao ag = Some ag'"
  shows "ax_print (ao_ax ao) (poll_document ao ag) = Some (ag_status ag')"
  using assms
  by (auto simp: agent_poll_def poll_loop_eq poll_document_def Let_def through_abort_ex set_status_def on_test_def agent_effect_def
      split: if_splits)

lemma status_depth: "doc_depth (update_step_status_json s) \<le> 3"
proof -
  have "doc_depth (Doc_array (map Doc_string fs)) \<le> 2" for fs
    using doc_depth_array [of "map Doc_string fs" 1] by (fastforce simp: numeral_2_eq_2)
  moreover have "doc_depth p \<le> 2" if "step_private s = Some p" for p
    using that by (auto simp: step_private_def split: agent_param.splits)
  ultimately show ?thesis
    by (auto simp: update_step_status_json_def numeral_3_eq_3 intro!: fold_max_le split: option.split)
qed

lemma poll_document_depth: "doc_depth (poll_document ao ag) \<le> 1000"
proof -
  have "doc_depth (update_step_status_json s) \<le> 998" for s
    using status_depth [of s] by linarith
  then show ?thesis
    by (auto simp: poll_document_def Let_def agent_status_document_def intro!: fold_max_le)
qed

lemma document_read:
  assumes "mirrors je (agent_status_document ag n (map update_step_status_json ps) st) j" "list_all step_prints ps"
    and "reprints je pn" "ea_hostname (ag_iface ag) \<noteq> []" "n < 2 ^ 31" "cj_parse je str = Some j"
  shows "\<exists>steps. decode_external_agent_test_status je pn str = Accept \<lparr>sr_agent_name = ea_hostname (ag_iface ag),
      sr_step_count = int n, sr_state = st, sr_steps = steps\<rparr> \<and> list_all2 (shows_step je) steps ps"
proof -
  note m = assms(1) [unfolded agent_status_document_def]
  have s: "decode_param_string je (Some j) ''ExternalAgentHostName'' = Accept (ea_hostname (ag_iface ag))"
    "decode_param_string je (Some j) ''ExternalAgentStatus'' = Accept (agent_state_as_string st)"
    by (rule mirrored_param_string [OF m]; use assms(4) in simp)+
  obtain c where c: "decode_param_integer je (Some j) ''ExternalAgentStepCount'' = Accept c" "cj_valueint je c = int n"
    using mirrored_param_integer [OF m, of "''ExternalAgentStepCount''" "int n"] assms(5) by auto
  obtain a where a: "cj_item je j ''ExternalAgentStepStatus'' = Some a" "cj_is_array je a"
    "list_all2 (mirrors je) (map update_step_status_json ps) (cj_elems je a)"
    using mirrored_item [OF m, of "''ExternalAgentStepStatus''"] by auto
  from read_step_statuses [where acc = "[]", OF assms(3) a(3) assms(2)] show ?thesis
    by (auto simp: decode_external_agent_test_status_def assms(6) s c a decode_param_array_def get_item_def)
qed

lemma polled_all_print: "list_all step_prints q \<Longrightarrow> list_all step_prints (through_abort (map (polled ao) (rev q)))"
  using set_through_abort [of "map (polled ao) (rev q)"] by (auto simp: list_all_iff polled_prints)

text \<open>Names, addresses and numbers of an agent that print.\<close>

definition agent_prints :: "agent \<Rightarrow> bool" where
  "agent_prints ag \<longleftrightarrow> ea_hostname (ag_iface ag) \<noteq> [] \<and> CHR 0x00 \<notin> set (ea_hostname (ag_iface ag)) \<and>
     list_all step_prints (ag_steps ag) \<and> length (ag_steps ag) < 2 ^ 31"

lemma poll_document_read:
  assumes "reads_back je pr" "reprints je pn" "agent_prints ag" "ps = through_abort (map (polled ao) (rev (ag_steps ag)))"
  shows "\<exists>steps. decode_external_agent_test_status je pn (pr (poll_document ao ag)) = Accept
      \<lparr>sr_agent_name = ea_hostname (ag_iface ag), sr_step_count = int (length (ag_steps ag)),
       sr_state = (if list_ex aborted ps then ext_agent_test_state_fail else ag_state ag), sr_steps = steps\<rparr> \<and>
    list_all2 (shows_step je) steps ps"
proof -
  note [simp] = agent_prints_def
  have prints: "list_all step_prints ps" using polled_all_print assms(3) by (simp add: assms(4))
  then have "printable (poll_document ao ag)"
    using assms(3) by (auto simp: poll_document_def Let_def agent_status_document_def assms(4) list_all_iff status_printable)
  then obtain j where "cj_parse je (pr (poll_document ao ag)) = Some j" "mirrors je (poll_document ao ag) j"
    using reads_backE [OF assms(1) _ poll_document_depth] by metis
  moreover have "poll_document ao ag = agent_status_document ag (length (ag_steps ag)) (map update_step_status_json ps)
      (if list_ex aborted ps then ext_agent_test_state_fail else ag_state ag)"
    by (simp add: poll_document_def Let_def assms(4))
  ultimately show ?thesis
    using document_read [OF _ prints assms(2)] assms(3) by simp
qed

text \<open>
  C13. The gateway understands its agents: when an agent's test is polled, the status it publishes is decoded by the
  gateway to the agent's name, the number of its steps, the state it is in (failed when a step aborts), and for every
  step up to the first aborted one its number, its state after the time-out, its result files and its private data.
\<close>

theorem agent_status_understood:
  assumes "agent_poll ao ag = Some ag'" and "ax_print (ao_ax ao) = Some \<circ> pr" and "reads_back je pr" and "reprints je pn"
    and "agent_prints ag" and "ps = through_abort (map (polled ao) (rev (ag_steps ag)))"
  shows "\<exists>steps. decode_external_agent_test_status je pn (ag_status ag') = Accept
      \<lparr>sr_agent_name = ea_hostname (ag_iface ag), sr_step_count = int (length (ag_steps ag)),
       sr_state = (if list_ex aborted ps then ext_agent_test_state_fail else ag_state ag), sr_steps = steps\<rparr> \<and>
    list_all2 (shows_step je) steps ps"
  using poll_document_read [OF assms(3-6)] agent_poll_publishes [OF assms(1)] assms(2) by simp

end
