(* ===== verification/Agent_Eth.thy ===== *)
theory Agent_Eth
  imports Agent_Facts
begin

text \<open>
  The ethernet client on both sides: the gateway posts a sub-document, the agent makes a step of it, and both count
  seconds until the agent has results.
\<close>

section \<open>The sub-document\<close>

definition text_prints :: "string \<Rightarrow> bool" where
  "text_prints t \<longleftrightarrow> t \<noteq> [] \<and> CHR 0x00 \<notin> set t"

definition is_int32 :: "int \<Rightarrow> bool" where
  "is_int32 n \<longleftrightarrow> - (2 ^ 31) \<le> n \<and> n < 2 ^ 31"

lemma to_int_of_int: "is_int32 n \<Longrightarrow> to_int (of_int n) = Accept n"
  by (simp add: to_int_def is_int32_def truncate_rat_of_int Let_def)

lemma missing_capture: "cj_item je j ''TestCapture'' = None \<Longrightarrow> decode_capture je j s = Accept s"
  by (simp add: decode_capture_def decode_param_bool_def get_item_def)

definition eth_texts :: "agent_env \<Rightarrow> test_step \<Rightarrow> eth_lan_interface \<Rightarrow> string list" where
  "eth_texts ax s el = [ts_test_case_id s, ts_test_case_name s, ed_interface_name (el_eth_dev_info el),
     ed_ip_address (el_eth_dev_info el), ax_mac_str ax (ed_interface_mac (el_eth_dev_info el))]"

text \<open>
  C39. The agent's step is the gateway's: from the sub-document the gateway composes for an ethernet client, the agent decodes
  a step with the same number, names, fork and duration for the device the gateway chose.
\<close>

theorem eth_subdocument_round_trip:
  assumes "encode_external_eth_lan_client_subdoc ax s el = Some str" and "ax_print ax = Some \<circ> pr" and "reads_back je pr"
    and "je_new je" and "je_member je" and "list_all text_prints (eth_texts ax s el)"
    and "is_int32 (ts_step_number s)" and "is_int32 (el_duration el)"
    and "el_eth_dev_info el = dev" and "ax_str_mac (ao_ax ao) (ax_mac_str ax (ed_interface_mac dev)) = ed_interface_mac dev"
  shows "agent_decode_step_param je ao str = Accept (Some ((agent_step_new ao True)
    \<lparr>as_step_number := of_int (ts_step_number s), as_test_case_name := into_buffer ao 127 (ts_test_case_name s),
     as_test_case_id := into_buffer ao 7 (ts_test_case_id s), as_fork := ts_fork s, as_frame_request := empty_request,
     as_execution_time := el_duration el, as_param := A_eth_lan_client ((agent_eth_new ao)\<lparr>el_duration := el_duration el,
       el_eth_dev_info := (el_eth_dev_info (agent_eth_new ao))\<lparr>ed_interface_name := ed_interface_name dev,
         ed_ip_address := ed_ip_address dev, ed_interface_mac := ed_interface_mac dev\<rparr>\<rparr>)\<rparr>))"
proof -
  let ?d = "eth_lan_client_document ax s el"
  have str: "str = pr ?d" using assms(1,2) by (auto simp: encode_external_eth_lan_client_subdoc_def split: if_splits)
  have "printable ?d"
    using assms(6-8) by (simp add: eth_lan_client_document_def eth_texts_def text_prints_def is_int32_def)
  moreover have "doc_depth ?d \<le> 1000" by (simp add: eth_lan_client_document_def)
  ultimately obtain j where j: "cj_parse je str = Some j" "mirrors je ?d j"
    "\<And>k. lower k \<notin> set (names_of ?d) \<Longrightarrow> cj_item je j k = None"
    using reads_backE [OF assms(3)] str by metis
  note m = j(2) [unfolded eth_lan_client_document_def]
  have texts: "decode_param_string je (Some j) ''SubDocName'' = Accept ''EthernetLanClient''"
    "decode_param_string je (Some j) ''TestCaseID'' = Accept (ts_test_case_id s)"
    "decode_param_string je (Some j) ''TestCaseName'' = Accept (ts_test_case_name s)"
    "decode_param_string je (Some j) ''EthInterfaceName'' = Accept (ed_interface_name dev)"
    "decode_param_string je (Some j) ''EthIpAddress'' = Accept (ed_ip_address dev)"
    "decode_param_string je (Some j) ''EthMacAddress'' = Accept (ax_mac_str ax (ed_interface_mac dev))"
    by (rule mirrored_param_string [OF m]; use assms(6,9) in \<open>simp add: eth_texts_def text_prints_def\<close>)+
  obtain n where n: "decode_param_integer je (Some j) ''StepNumber'' = Accept n" "cj_valueint je n = ts_step_number s"
    using mirrored_param_integer [OF m, of "''StepNumber''"] assms(7) by (auto simp: is_int32_def)
  obtain d where d: "decode_param_integer je (Some j) ''Duration'' = Accept d" "cj_valuedouble je d = of_int (el_duration el)"
    using mirrored_param_integer [OF m, of "''Duration''"] by auto
  obtain f where f: "cj_item je j ''Fork'' = Some f" "mirrors je (Doc_bool (ts_fork s)) f"
    using mirrored_item [OF m, of "''Fork''"] by auto
  have fork: "decode_param_bool je (Some j) ''Fork'' = Accept (ts_fork s)"
    using f by (simp add: decode_param_bool_def get_item_def)
  have capture: "cj_item je j ''TestCapture'' = None"
    by (rule j(3)) (simp add: eth_lan_client_document_def)
  show ?thesis
    using assms(4,5,10)
    by (simp add: agent_decode_step_param_def j(1) texts n d fork missing_capture [OF capture] to_int_of_int [OF assms(8)]
        decode_step_param_common_def decode_eth_lan_client_subdocument_def part_def)
qed

section \<open>A second of both sides\<close>

text \<open>A status that the handler of a request did not set is 200.\<close>

definition served :: "http_response \<Rightarrow> string \<times> bool \<times> int option" where
  "served r = (snd r, True, Some (case fst r of None \<Rightarrow> OK_200 | Some c \<Rightarrow> c))"

text \<open>What the gateway's requests for a status and for a result file are answered.\<close>

definition agent_answer :: "agent_outside \<Rightarrow> ext_agent \<Rightarrow> agent \<Rightarrow> string \<Rightarrow> string \<times> bool \<times> int option" where
  "agent_answer ao a ag url =
     (if url = agent_url a ''/Status'' then served (agent_endpoint_status ag)
      else served (agent_endpoint_results ao (drop (length (agent_url a ''/Results/'')) url) ag))"

type_synonym eth_system = "test_step \<times> eth_lan_interface \<times> world \<times> agent"

text \<open>The agent's test is polled, its state machine handles a signal, and the gateway's step has a time-out.\<close>

definition eth_second ::
  "'j json_env \<Rightarrow> ('j \<Rightarrow> string option) \<Rightarrow> agent_env \<Rightarrow> agent_outside \<Rightarrow> ext_agent hash_map \<Rightarrow> ext_agent \<Rightarrow> eth_system \<Rightarrow>
     (int \<times> eth_system) option" where
  "eth_second je pn ax ao m a sys =
     (case sys of (s, el, w, ag) \<Rightarrow> do {
        ag \<leftarrow> test_round ao True ag;
        ag \<leftarrow> state_machine_round ao ag;
        (rc, s, el, w) \<leftarrow> eth_lan_client_timeout je pn (ax\<lparr>ax_get := agent_answer ao a ag\<rparr>) m s el w;
        Some (rc, s, el, w, ag) })"

text \<open>Seconds until the gateway's step no longer waits; the number of seconds is part of the result.\<close>

fun eth_run ::
  "nat \<Rightarrow> 'j json_env \<Rightarrow> ('j \<Rightarrow> string option) \<Rightarrow> agent_env \<Rightarrow> agent_outside \<Rightarrow> ext_agent hash_map \<Rightarrow> ext_agent \<Rightarrow> eth_system \<Rightarrow>
     (nat \<times> int \<times> eth_system) option" where
  "eth_run 0 je pn ax ao m a sys = None"
| "eth_run (Suc n) je pn ax ao m a sys =
     (case eth_second je pn ax ao m a sys of
        None \<Rightarrow> None
      | Some (rc, sys) \<Rightarrow>
          if ts_test_state (fst sys) \<in> {wlan_emu_tests_state_cmd_wait, wlan_emu_tests_state_cmd_continue}
          then map_option (\<lambda>(k, r). (Suc k, r)) (eth_run n je pn ax ao m a sys)
          else Some (1, rc, sys))"

section \<open>The agent's second\<close>

text \<open>An agent that works at its test: nothing waits, no step aborts.\<close>

definition agent_at_work :: "agent \<Rightarrow> bool" where
  "agent_at_work ag \<longleftrightarrow> ag_state ag \<in> {ext_agent_test_state_ready, ext_agent_test_state_running, ext_agent_test_state_complete} \<and>
     (case ag_test ag of None \<Rightarrow> False | Some t \<Rightarrow> tt_running t \<and> tt_msgs t = []) \<and> ag_signals ag = [] \<and>
     \<not> list_ex aborted (ag_steps ag) \<and> agent_prints ag"

lemma polled_not_aborted: "\<not> aborted s \<Longrightarrow> \<not> aborted (polled ao s)"
  by (auto simp: aborted_def polled_def agent_step_timeout_def Let_def agent_waiting_def sta_waiting_def
      split: agent_param.splits if_splits)

lemma none_aborts: "\<not> list_ex aborted q \<Longrightarrow> \<not> list_ex aborted (map (polled ao) q)"
  by (induction q) (auto simp: polled_not_aborted)

text \<open>What a poll that no step aborts does.\<close>

definition poll_signal :: "agent_outside \<Rightarrow> agent \<Rightarrow> agent \<Rightarrow> agent" where
  "poll_signal ao ag =
     (if ag_steps ag = [] then (\<lambda>ag. ag)
      else ext_emu_send_signal (if length (ag_steps ag) = length (filter has_results (map (polled ao) (rev (ag_steps ag))))
                                then ext_agent_test_state_complete else ext_agent_test_state_running))"

lemma poll_signal_keeps:
  "ag_steps (poll_signal ao ag g) = ag_steps g" "ag_status (poll_signal ao ag g) = ag_status g" "ag_iface (poll_signal ao ag g) = ag_iface g"
  "ag_state (poll_signal ao ag g) = ag_state g" "ag_test (poll_signal ao ag g) = ag_test g"
  by (simp_all add: poll_signal_def)

lemma poll_signal_sends: "ag_signals g = [] \<Longrightarrow>
    ag_signals (poll_signal ao ag g) \<in> {[], [ext_agent_test_state_running], [ext_agent_test_state_complete]}"
  by (simp add: poll_signal_def ext_emu_send_signal_def)

lemma quiet_poll:
  assumes "\<not> list_ex aborted (ag_steps ag)" "ax_print (ao_ax ao) = Some \<circ> pr"
  shows "agent_poll ao ag = Some ((poll_signal ao ag (ag\<lparr>ag_steps := map (polled ao) (ag_steps ag)\<rparr>))\<lparr>ag_status := pr (poll_document ao ag)\<rparr>)"
proof -
  have none: "\<not> list_ex aborted (map (polled ao) (rev (ag_steps ag)))"
    using none_aborts [of "rev (ag_steps ag)"] assms(1) by (simp add: list_ex_iff)
  have steps: "polled_queue ao (length (ag_steps ag)) (ag_steps ag) = map (polled ao) (ag_steps ag)"
    using polled_queue_all [of ao "length (ag_steps ag)" "ag_steps ag"] none by simp
  have doc: "poll_document ao ag = agent_status_document ag (length (ag_steps ag))
      (map update_step_status_json (map (polled ao) (rev (ag_steps ag)))) (ag_state ag)"
    using none by (simp add: poll_document_def Let_def through_abort_none)
  show ?thesis
    using none by (simp add: agent_poll_def poll_loop_eq Let_def through_abort_none steps set_status_def assms(2) doc poll_signal_def)
qed

lemma no_signal: "ag_signals g = [] \<Longrightarrow> state_machine_round ao g = Some g"
  by (simp add: state_machine_round_def signal_order_def)

lemma agent_at_work_second:
  assumes "agent_at_work ag" "ax_print (ao_ax ao) = Some \<circ> pr"
  shows "\<exists>ag'. Option.bind (test_round ao True ag) (state_machine_round ao) = Some ag' \<and> agent_at_work ag' \<and>
     ag_steps ag' = map (polled ao) (ag_steps ag) \<and> ag_status ag' = pr (poll_document ao ag)"
proof -
  let ?g = "(poll_signal ao ag (ag\<lparr>ag_steps := map (polled ao) (ag_steps ag)\<rparr>))\<lparr>ag_status := pr (poll_document ao ag)\<rparr>"
  have sig: "ag_signals ?g \<in> {[], [ext_agent_test_state_running], [ext_agent_test_state_complete]}"
    using poll_signal_sends [of "ag\<lparr>ag_steps := map (polled ao) (ag_steps ag)\<rparr>"] assms(1) by (simp add: agent_at_work_def)
  have round: "test_round ao True ag = Some ?g"
    using assms(1) quiet_poll [of ag, OF _ assms(2)] by (auto simp: agent_at_work_def test_round_def split: option.splits)
  have work: "agent_at_work (?g\<lparr>ag_state := st, ag_signals := []\<rparr>)"
    if "st \<in> {ext_agent_test_state_ready, ext_agent_test_state_running, ext_agent_test_state_complete}" for st
    using that assms(1) none_aborts [of "ag_steps ag"]
    by (auto simp: agent_at_work_def agent_prints_def poll_signal_keeps list_all_iff polled_prints)
  have state: "ag_state ?g \<in> {ext_agent_test_state_ready, ext_agent_test_state_running, ext_agent_test_state_complete}"
    using assms(1) by (simp add: agent_at_work_def poll_signal_keeps)
  have "\<exists>st. state_machine_round ao ?g = Some (?g\<lparr>ag_state := st, ag_signals := []\<rparr>) \<and>
      st \<in> {ext_agent_test_state_ready, ext_agent_test_state_running, ext_agent_test_state_complete}"
  proof (cases "ag_signals ?g = []")
    case True
    then have "?g\<lparr>ag_state := ag_state ?g, ag_signals := []\<rparr> = ?g" by simp
    with state no_signal [OF True] show ?thesis by metis
  next
    case False
    with sig consider "ag_signals ?g = [ext_agent_test_state_running]" | "ag_signals ?g = [ext_agent_test_state_complete]"
      by blast
    then show ?thesis
    proof cases
      case 1
      then show ?thesis
        by (intro exI [of _ ext_agent_test_state_running]) (simp add: state_machine_round_def signal_order_def enter_state_def)
    next
      case 2
      then show ?thesis
        by (intro exI [of _ ext_agent_test_state_complete]) (simp add: state_machine_round_def signal_order_def enter_state_def)
    qed
  qed
  with round work show ?thesis by (auto simp: poll_signal_keeps)
qed

section \<open>The gateway's second\<close>

text \<open>What the private data the agent reports leaves of the client.\<close>

lemma reported_private:
  assumes "shows_step je x p" "as_param p = A_eth_lan_client e"
  shows "\<exists>el'. eth_private_data je x el = Some el' \<and> el_key el' = el_key el \<and> el_result_file el' = el_result_file el \<and>
    ed_interface_mac (el_eth_dev_info el') = ed_interface_mac (el_eth_dev_info el)"
proof (cases "ss_step_private_json_data x = []")
  case False
  obtain j where j: "cj_parse je (ss_step_private_json_data x) = Some j"
    "mirrors je (Doc_object [(''EthInterfaceName'', Doc_string (ed_interface_name (el_eth_dev_info e))),
       (''EthIpAddress'', Doc_string (ed_ip_address (el_eth_dev_info e)))]) j"
    using assms by (auto simp: shows_step_def step_private_def split: option.splits)
  obtain v where v: "cj_item je j ''EthIpAddress'' = Some v" "cj_is_string je v" "cj_valuestring je v = Some (ed_ip_address (el_eth_dev_info e))"
    using mirrored_item [OF j(2), of "''EthIpAddress''"] by auto
  show ?thesis
    using False j(1) v
    by (cases "decode_param_string je (Some j) ''EthInterfaceName''")
      (auto simp: eth_private_data_def parse_step_private_data_def Let_def decode_param_string_def split: option.splits if_splits)
qed (simp add: eth_private_data_def)

definition agent_numbered :: "int \<Rightarrow> agent_step \<Rightarrow> bool" where
  "agent_numbered n p \<longleftrightarrow> uint (as_step_number p) = n"

lemma own_status_reported:
  assumes "list_all2 (shows_step je) steps ps" "List.find (agent_numbered (ts_step_number s)) ps = Some p" "sr_steps st = steps"
  shows "\<exists>x. own_status s st = Some x \<and> shows_step je x p"
  using assms(1,2) unfolding own_status_def assms(3)
proof (induction steps ps rule: list_all2_induct)
  case (Cons x xs q qs)
  have x: "(ss_step_number x = ts_step_number s) = agent_numbered (ts_step_number s) q"
    using Cons.hyps(1) by (simp add: shows_step_def agent_numbered_def)
  show ?case
  proof (cases "agent_numbered (ts_step_number s) q")
    case True
    with Cons.prems Cons.hyps(1) x show ?thesis by simp
  next
    case False
    with Cons.prems Cons.IH x show ?thesis by simp
  qed
qed simp

lemma find_polled:
  "List.find (agent_numbered n) (map (polled ao) ps) = map_option (polled ao) (List.find (agent_numbered n) ps)"
  by (induction ps) (simp_all add: agent_numbered_def polled_def timeout_keeps)

section \<open>Both sides together\<close>

text \<open>The agent's step \<open>k\<close> seconds after its start, and the gateway's step that waits for it.\<close>

definition agent_at :: "int \<Rightarrow> int \<Rightarrow> int \<Rightarrow> string \<Rightarrow> agent \<Rightarrow> bool" where
  "agent_at n d k file ag \<longleftrightarrow>
     (case List.find (agent_numbered n) (rev (ag_steps ag)) of
        None \<Rightarrow> False
      | Some p \<Rightarrow> as_step_state p \<in> {wlan_emu_tests_state_cmd_wait, wlan_emu_tests_state_cmd_continue} \<and>
          as_execution_time p = d \<and> as_timeout_count p = k \<and> as_artifacts p = [file] \<and>
          (case as_param p of A_eth_lan_client e \<Rightarrow> True | _ \<Rightarrow> False))"

definition gateway_at :: "agent_env \<Rightarrow> ext_agent hash_map \<Rightarrow> ext_agent \<Rightarrow> int \<Rightarrow> int \<Rightarrow> int \<Rightarrow> test_step \<Rightarrow> eth_lan_interface \<Rightarrow> bool" where
  "gateway_at ax m a n d k s el \<longleftrightarrow> ts_step_number s = n \<and> ts_execution_time s = d \<and> ts_timeout_count s = k \<and>
     (case get_ext_agent_from_eth_dev_mac ax (el_key el) m of None \<Rightarrow> False | Some i \<Rightarrow> snd (m ! i) = a)"

lemma find_agent_get [simp]: "get_ext_agent_from_eth_dev_mac (ax\<lparr>ax_get := g\<rparr>) key m = get_ext_agent_from_eth_dev_mac ax key m"
  by (simp add: get_ext_agent_from_eth_dev_mac_def)

lemma status_answer: "agent_answer ao a ag (agent_url a ''/Status'') = (ag_status ag, True, Some 200)"
  by (simp add: agent_answer_def served_def agent_endpoint_status_def)

lemma agent_at_next:
  assumes "agent_at n d k file ag"
  obtains p e where "List.find (agent_numbered n) (map (polled ao) (rev (ag_steps ag))) = Some p" "as_execution_time p = d"
    "as_timeout_count p = k + 1" "as_artifacts p = [file]" "as_param p = A_eth_lan_client e"
    "as_step_state p = (if d \<le> k + 1 then wlan_emu_tests_state_cmd_results else agent_waiting p)"
proof -
  obtain q e where q: "List.find (agent_numbered n) (rev (ag_steps ag)) = Some q"
    "as_step_state q \<in> {wlan_emu_tests_state_cmd_wait, wlan_emu_tests_state_cmd_continue}" "as_execution_time q = d"
    "as_timeout_count q = k" "as_artifacts q = [file]" "as_param q = A_eth_lan_client e"
    using assms by (auto simp: agent_at_def split: option.splits agent_param.splits)
  show ?thesis
    by (rule that [of "polled ao q" e])
      (use q in \<open>auto simp: find_polled polled_def agent_step_timeout_def Let_def agent_waiting_def\<close>)
qed

lemma gateway_asks:
  assumes "agent_at_work ag" "reads_back je pr" "reprints je pn" "ag_status ag' = pr (poll_document ao ag)" "ax_curl ax"
  shows "\<exists>st steps. get_external_agent_test_status je pn (ax\<lparr>ax_get := agent_answer ao a ag'\<rparr>) a w = Some (RETURN_OK, Some st, w) \<and>
    sr_state st = ag_state ag \<and> sr_steps st = steps \<and> list_all2 (shows_step je) steps (map (polled ao) (rev (ag_steps ag)))"
proof -
  have prints: "agent_prints ag" and none: "\<not> list_ex aborted (map (polled ao) (rev (ag_steps ag)))"
    using assms(1) none_aborts [of "rev (ag_steps ag)"] by (simp_all add: agent_at_work_def list_ex_iff)
  obtain steps where "decode_external_agent_test_status je pn (ag_status ag') = Accept
      \<lparr>sr_agent_name = ea_hostname (ag_iface ag), sr_step_count = int (length (ag_steps ag)), sr_state = ag_state ag, sr_steps = steps\<rparr>"
    "list_all2 (shows_step je) steps (map (polled ao) (rev (ag_steps ag)))"
    using poll_document_read [OF assms(2,3) prints refl, of ao] none assms(4) by (auto simp: through_abort_none)
  then show ?thesis
    using assms(5) by (simp add: get_external_agent_test_status_def http_get_def status_answer)
qed

lemma gateway_second:
  assumes "agent_at_work ag" "reads_back je pr" "reprints je pn" "ag_status ag' = pr (poll_document ao ag)" "ax_curl ax"
    and "gateway_at ax m a n d k s el" "agent_at n d k file ag" "k < d"
  shows "\<exists>x el' p e. eth_lan_client_timeout je pn (ax\<lparr>ax_get := agent_answer ao a ag'\<rparr>) m s el w =
      (let ax = ax\<lparr>ax_get := agent_answer ao a ag'\<rparr>; s = set_state (as_step_state p) (s\<lparr>ts_timeout_count := k + 1\<rparr>)
       in if as_step_state p = wlan_emu_tests_state_cmd_results then Some (eth_results ax a x s el' w)
          else Some (RETURN_OK, set_state (eth_waiting s el') s, el', w)) \<and>
    el_key el' = el_key el \<and> shows_step je x p \<and> as_artifacts p = [file] \<and>
    as_step_state p = (if d \<le> k + 1 then wlan_emu_tests_state_cmd_results else agent_waiting p)"
proof -
  obtain p e where p: "List.find (agent_numbered n) (map (polled ao) (rev (ag_steps ag))) = Some p" "as_artifacts p = [file]"
    "as_param p = A_eth_lan_client e"
    "as_step_state p = (if d \<le> k + 1 then wlan_emu_tests_state_cmd_results else agent_waiting p)"
    by (rule agent_at_next [OF assms(7), of ao])
  obtain st steps where st: "get_external_agent_test_status je pn (ax\<lparr>ax_get := agent_answer ao a ag'\<rparr>) a w = Some (RETURN_OK, Some st, w)"
    "sr_state st = ag_state ag" "sr_steps st = steps" "list_all2 (shows_step je) steps (map (polled ao) (rev (ag_steps ag)))"
    using gateway_asks [OF assms(1-5)] by metis
  have s: "ts_step_number s = n" "ts_execution_time s = d" "ts_timeout_count s = k"
    using assms(6) by (simp_all add: gateway_at_def)
  obtain i where i: "get_ext_agent_from_eth_dev_mac ax (el_key el) m = Some i" "snd (m ! i) = a"
    using assms(6) by (auto simp: gateway_at_def split: option.splits)
  let ?s = "s\<lparr>ts_timeout_count := k + 1\<rparr>"
  obtain x where x: "own_status ?s st = Some x" "shows_step je x p"
    using own_status_reported [OF st(4), of ?s p st] p(1) s(1) st(3) by auto
  obtain el' where el': "eth_private_data je x el = Some el'" "el_key el' = el_key el"
    using reported_private [OF x(2) p(3), of el] by blast
  have state: "ss_state x = as_step_state p" "ag_state ag \<noteq> ext_agent_test_state_idle" "ag_state ag \<noteq> ext_agent_test_state_fail"
    "as_step_state p \<noteq> wlan_emu_tests_state_cmd_abort"
    using x(2) assms(1) p(4) by (auto simp: shows_step_def agent_at_work_def agent_waiting_def)
  have "eth_lan_client_timeout je pn (ax\<lparr>ax_get := agent_answer ao a ag'\<rparr>) m s el w =
      eth_reported je (ax\<lparr>ax_get := agent_answer ao a ag'\<rparr>) a st ?s el w"
    using i st(1,2) state s assms(8) by (simp add: eth_lan_client_timeout_def Let_def)
  also have "\<dots> = (let ax = ax\<lparr>ax_get := agent_answer ao a ag'\<rparr>; s = set_state (as_step_state p) ?s
       in if as_step_state p = wlan_emu_tests_state_cmd_results then Some (eth_results ax a x s el' w)
          else Some (RETURN_OK, set_state (eth_waiting s el') s, el', w))"
    using x(1) el' state by (simp add: eth_reported_def Let_def)
  finally show ?thesis using el' x(2) p by blast
qed

lemma gateway_waits:
  assumes "agent_at_work ag" "reads_back je pr" "reprints je pn" "ag_status ag' = pr (poll_document ao ag)" "ax_curl ax"
    and "gateway_at ax m a n d k s el" "agent_at n d k file ag" "k + 1 < d"
  shows "\<exists>el'. eth_lan_client_timeout je pn (ax\<lparr>ax_get := agent_answer ao a ag'\<rparr>) m s el w =
      Some (RETURN_OK, set_state (eth_waiting s el') (s\<lparr>ts_timeout_count := k + 1\<rparr>), el', w) \<and> el_key el' = el_key el"
proof -
  have k: "k < d" "\<not> d \<le> k + 1" using assms(8) by simp_all
  obtain x el' p e where t: "eth_lan_client_timeout je pn (ax\<lparr>ax_get := agent_answer ao a ag'\<rparr>) m s el w =
      (let ax = ax\<lparr>ax_get := agent_answer ao a ag'\<rparr>; s = set_state (as_step_state p) (s\<lparr>ts_timeout_count := k + 1\<rparr>)
       in if as_step_state p = wlan_emu_tests_state_cmd_results then Some (eth_results ax a x s el' w)
          else Some (RETURN_OK, set_state (eth_waiting s el') s, el', w))"
    "el_key el' = el_key el" "as_step_state p = agent_waiting p"
    using gateway_second [OF assms(1-7) k(1), of w] k(2) by auto
  have "as_step_state p \<noteq> wlan_emu_tests_state_cmd_results" unfolding t(3) by (simp add: agent_waiting_def)
  with t(1,2) show ?thesis by (intro exI [of _ el']) (simp add: Let_def eth_waiting_def)
qed

section \<open>The results\<close>

definition fetched :: "agent_outside \<Rightarrow> string \<Rightarrow> string" where
  "fetched ao file = (case env_file (ax_env (ao_ax ao)) file of None \<Rightarrow> [] | Some content \<Rightarrow> content)"

text \<open>The agent has the file and the gateway can keep it.\<close>

definition file_travels :: "agent_env \<Rightarrow> agent_outside \<Rightarrow> string \<Rightarrow> bool" where
  "file_travels ax ao file \<longleftrightarrow> ax_curl ax \<and> env_present (ax_env (ao_ax ao)) file \<and> env_open_w (ax_env ax) file \<and>
     ax_file_written ax file \<and> env_malloc (ax_env ax)"

lemma results_answer:
  "env_present (ax_env (ao_ax ao)) file \<Longrightarrow>
     agent_answer ao a ag (agent_url a ''/Results/'' @ file) = (fetched ao file, True, Some 200)"
  by (simp add: agent_answer_def served_def agent_url_def agent_endpoint_results_def fetched_def split: option.split)

lemma results_arrive:
  assumes "file_travels ax ao file" "ss_result_files x = [file]"
    and "step_upload_files (ax_env ax) file (add_fx (Fx_write file (fetched ao file)) w) = (RETURN_OK, w')"
  shows "eth_results (ax\<lparr>ax_get := agent_answer ao a ag\<rparr>) a x s el w = (RETURN_OK, s, el\<lparr>el_result_file := file\<rparr>, w')"
  using assms results_answer [of ao "file" a ag]
  by (simp add: eth_results_def file_travels_def http_get_file_def push_ext_eth_lan_client_result_files_def Let_def)

lemma eth_second_bind:
  "eth_second je pn ax ao m a (s, el, w, ag) =
     Option.bind (Option.bind (test_round ao True ag) (state_machine_round ao)) (\<lambda>ag.
       map_option (\<lambda>(rc, s, el, w). (rc, s, el, w, ag))
         (eth_lan_client_timeout je pn (ax\<lparr>ax_get := agent_answer ao a ag\<rparr>) m s el w))"
proof (cases "Option.bind (test_round ao True ag) (state_machine_round ao)")
  case None
  then show ?thesis by (cases "test_round ao True ag") (simp_all add: eth_second_def)
next
  case (Some ag2)
  then obtain ag1 where "test_round ao True ag = Some ag1" "state_machine_round ao ag1 = Some ag2"
    by (auto simp: Option.bind_eq_Some_conv)
  then show ?thesis
    by (cases "eth_lan_client_timeout je pn (ax\<lparr>ax_get := agent_answer ao a ag2\<rparr>) m s el w") (auto simp: eth_second_def)
qed

lemma agent_at_later:
  assumes "agent_at n d k file ag" "ag_steps ag' = map (polled ao) (ag_steps ag)" "k + 1 < d"
  shows "agent_at n d (k + 1) file ag'"
proof -
  obtain p e where p: "List.find (agent_numbered n) (map (polled ao) (rev (ag_steps ag))) = Some p" "as_execution_time p = d"
    "as_timeout_count p = k + 1" "as_artifacts p = [file]" "as_param p = A_eth_lan_client e"
    "as_step_state p = (if d \<le> k + 1 then wlan_emu_tests_state_cmd_results else agent_waiting p)"
    by (rule agent_at_next [OF assms(1), of ao])
  with assms(2,3) show ?thesis by (simp add: agent_at_def rev_map agent_waiting_def)
qed

lemma eth_run_completes:
  assumes "reads_back je pr" "reprints je pn" "ax_print (ao_ax ao) = Some \<circ> pr" "file_travels ax ao file"
    and "step_upload_files (ax_env ax) file (add_fx (Fx_write file (fetched ao file)) w) = (RETURN_OK, w')"
  shows "agent_at_work ag \<Longrightarrow> gateway_at ax m a n d k s el \<Longrightarrow> agent_at n d k file ag \<Longrightarrow> k + int (Suc r) = d \<Longrightarrow> Suc r \<le> fuel \<Longrightarrow>
    \<exists>s' el' ag'. eth_run fuel je pn ax ao m a (s, el, w, ag) = Some (Suc r, RETURN_OK, s', el', w', ag') \<and>
      ts_test_state s' = wlan_emu_tests_state_cmd_results \<and> el_result_file el' = file"
proof (induction r arbitrary: k s el ag fuel)
  case 0
  obtain f where f: "fuel = Suc f" using 0 by (cases fuel) auto
  obtain ag' where ag': "Option.bind (test_round ao True ag) (state_machine_round ao) = Some ag'" "ag_status ag' = pr (poll_document ao ag)"
    using agent_at_work_second [OF 0(1) assms(3)] by blast
  have k: "k < d" "d \<le> k + 1" using 0 by simp_all
  obtain x el' p e where t: "eth_lan_client_timeout je pn (ax\<lparr>ax_get := agent_answer ao a ag'\<rparr>) m s el w =
      Some (eth_results (ax\<lparr>ax_get := agent_answer ao a ag'\<rparr>) a x (set_state wlan_emu_tests_state_cmd_results (s\<lparr>ts_timeout_count := k + 1\<rparr>)) el' w)"
    "shows_step je x p" "as_artifacts p = [file]" "as_step_state p = wlan_emu_tests_state_cmd_results"
    using gateway_second [OF 0(1) assms(1,2) ag'(2) _ 0(2,3) k(1), of w] assms(4) k(2) by (auto simp: Let_def file_travels_def)
  have "ss_result_files x = [file]" using t(2-4) by (simp add: shows_step_def has_results_def)
  from results_arrive [OF assms(4) this assms(5)] t(1) ag'(1) show ?case by (simp add: f eth_second_bind)
next
  case (Suc r)
  obtain f where f: "fuel = Suc f" "Suc r \<le> f" using Suc by (cases fuel) auto
  obtain ag' where ag': "Option.bind (test_round ao True ag) (state_machine_round ao) = Some ag'" "ag_status ag' = pr (poll_document ao ag)"
    "agent_at_work ag'" "ag_steps ag' = map (polled ao) (ag_steps ag)"
    using agent_at_work_second [OF Suc.prems(1) assms(3)] by blast
  have k: "k < d" "k + 1 < d" "k + 1 + int (Suc r) = d" using Suc.prems by simp_all
  obtain el' where t: "eth_lan_client_timeout je pn (ax\<lparr>ax_get := agent_answer ao a ag'\<rparr>) m s el w =
      Some (RETURN_OK, set_state (eth_waiting s el') (s\<lparr>ts_timeout_count := k + 1\<rparr>), el', w)" "el_key el' = el_key el"
    using gateway_waits [OF Suc.prems(1) assms(1,2) ag'(2) _ Suc.prems(2,3) k(2), of w] assms(4)
    by (auto simp: file_travels_def)
  have "gateway_at ax m a n d (k + 1) (set_state st (s\<lparr>ts_timeout_count := k + 1\<rparr>)) el'" for st
    using Suc.prems(2) t(2) by (simp add: gateway_at_def)
  from Suc.IH [OF ag'(3) this agent_at_later [OF Suc.prems(3) ag'(4) k(2)] k(3) f(2)] t(1) ag'(1) show ?case
    by (auto simp: f(1) eth_second_bind eth_waiting_def)
qed

text \<open>
  C12. An ethernet client comes to its end: with an agent at work on the step and the gateway's step just started for a
  duration of \<open>d\<close> seconds, the gateway's step waits for \<open>d - 1\<close> seconds and has results after exactly \<open>d\<close>, when the agent's result
  file is downloaded and uploaded to the server.
\<close>

theorem ethernet_client_completes:
  assumes "agent_at_work ag" and "gateway_at ax m a n d 0 s el" and "agent_at n d 0 file ag" and "0 < d"
    and "reads_back je pr" and "reprints je pn" and "ax_print (ao_ax ao) = Some \<circ> pr" and "file_travels ax ao file"
    and "step_upload_files (ax_env ax) file (add_fx (Fx_write file (fetched ao file)) w) = (RETURN_OK, w')"
    and "nat d \<le> fuel"
  shows "\<exists>s' el' ag'. eth_run fuel je pn ax ao m a (s, el, w, ag) = Some (nat d, RETURN_OK, s', el', w', ag') \<and>
    ts_test_state s' = wlan_emu_tests_state_cmd_results \<and> el_result_file el' = file"
proof -
  obtain r where r: "nat d = Suc r" "0 + int (Suc r) = d" using assms(4) by (cases "nat d") auto
  show ?thesis
    using eth_run_completes [OF assms(5-9,1-3) r(2), of fuel] assms(10) by (simp add: r(1))
qed

section \<open>An agent that stands still\<close>

text \<open>The gateway's time-outs while the agent's status stays the same.\<close>

fun eth_timeouts ::
  "nat \<Rightarrow> 'j json_env \<Rightarrow> ('j \<Rightarrow> string option) \<Rightarrow> agent_env \<Rightarrow> ext_agent hash_map \<Rightarrow> test_step \<Rightarrow> eth_lan_interface \<Rightarrow> world \<Rightarrow>
     (int \<times> test_step \<times> eth_lan_interface \<times> world) option" where
  "eth_timeouts 0 je pn ax m s el w = Some (RETURN_OK, s, el, w)"
| "eth_timeouts (Suc r) je pn ax m s el w =
     (case eth_lan_client_timeout je pn ax m s el w of
        None \<Rightarrow> None
      | Some (rc, s, el, w) \<Rightarrow>
          if ts_test_state s \<in> {wlan_emu_tests_state_cmd_wait, wlan_emu_tests_state_cmd_continue}
          then eth_timeouts r je pn ax m s el w else Some (rc, s, el, w))"

text \<open>The status an agent goes on to report: its test runs and the step waits.\<close>

definition stands_still :: "int \<Rightarrow> ext_agent_status_resp \<Rightarrow> bool" where
  "stands_still n st \<longleftrightarrow> sr_state st = ext_agent_test_state_running \<and>
     (case List.find (\<lambda>x. ss_step_number x = n) (sr_steps st) of
        None \<Rightarrow> False
      | Some x \<Rightarrow> ss_state x \<in> {wlan_emu_tests_state_cmd_wait, wlan_emu_tests_state_cmd_continue} \<and>
          ss_result_files x = [] \<and> ss_step_private_json_data x = [])"

lemma still_second:
  assumes "get_external_agent_test_status je pn ax a w = Some (RETURN_OK, Some st, w)" "stands_still n st"
    and "gateway_at ax m a n d k s el" "el_result_file el = []" "env_malloc (ax_env ax)"
  shows "\<exists>s'. eth_lan_client_timeout je pn ax m s el w = Some (RETURN_OK, s', el, w) \<and>
    ts_test_state s' \<in> {wlan_emu_tests_state_cmd_wait, wlan_emu_tests_state_cmd_continue} \<and> gateway_at ax m a n d (k + 1) s' el"
proof -
  have s: "ts_step_number s = n" "ts_execution_time s = d" "ts_timeout_count s = k"
    using assms(3) by (simp_all add: gateway_at_def)
  obtain i where i: "get_ext_agent_from_eth_dev_mac ax (el_key el) m = Some i" "snd (m ! i) = a"
    using assms(3) by (auto simp: gateway_at_def split: option.splits)
  let ?s = "s\<lparr>ts_timeout_count := k + 1\<rparr>"
  obtain x where x: "own_status ?s st = Some x" "ss_state x \<in> {wlan_emu_tests_state_cmd_wait, wlan_emu_tests_state_cmd_continue}"
    "ss_result_files x = []" "ss_step_private_json_data x = []" "sr_state st = ext_agent_test_state_running"
    using assms(2) s(1) by (auto simp: stands_still_def own_status_def split: option.splits)
  have x': "own_status s st = Some x" using x(1) s by (simp add: own_status_def)
  have "eth_grace je ax a st ?s el w = Some (RETURN_OK, set_state (ss_state x) ?s, el, w)"
    using x assms(4,5)
    by (simp add: eth_grace_def eth_private_data_def eth_results_def push_ext_eth_lan_client_result_files_def Let_def step_upload_files_def)
  moreover have "eth_reported je ax a st ?s el w = Some (RETURN_OK, set_state (eth_waiting (set_state (ss_state x) ?s) el) ?s, el, w)"
    using x by (auto simp: eth_reported_def eth_private_data_def Let_def eth_waiting_def)
  ultimately have "\<exists>v\<in>{wlan_emu_tests_state_cmd_wait, wlan_emu_tests_state_cmd_continue}.
      eth_lan_client_timeout je pn ax m s el w = Some (RETURN_OK, set_state v ?s, el, w)"
    using i assms(1) s x(2,5) by (auto simp: eth_lan_client_timeout_def Let_def eth_waiting_def)
  with assms(3) show ?thesis by (auto simp: gateway_at_def)
qed

text \<open>
  C25. The grace time ends nothing: as long as the agent reports that its test runs and the step waits, the gateway's step goes on
  waiting, for any number of seconds beyond its duration and the grace time of three seconds, without an error.
\<close>

theorem ethernet_client_waits_forever:
  assumes "\<And>w. get_external_agent_test_status je pn ax a w = Some (RETURN_OK, Some st, w)" and "stands_still n st"
    and "gateway_at ax m a n d k s el" and "el_result_file el = []" and "env_malloc (ax_env ax)"
    and "ts_test_state s \<in> {wlan_emu_tests_state_cmd_wait, wlan_emu_tests_state_cmd_continue}"
  shows "\<exists>s'. eth_timeouts r je pn ax m s el w = Some (RETURN_OK, s', el, w) \<and>
    ts_test_state s' \<in> {wlan_emu_tests_state_cmd_wait, wlan_emu_tests_state_cmd_continue} \<and> ts_timeout_count s' = k + int r"
  using assms(3,6)
proof (induction r arbitrary: k s)
  case (Suc r)
  obtain s' where s': "eth_lan_client_timeout je pn ax m s el w = Some (RETURN_OK, s', el, w)"
    "ts_test_state s' \<in> {wlan_emu_tests_state_cmd_wait, wlan_emu_tests_state_cmd_continue}" "gateway_at ax m a n d (k + 1) s' el"
    using still_second [OF assms(1,2) Suc.prems(1) assms(4,5)] by blast
  from Suc.IH [OF s'(3,2)] s'(1,2) show ?case by auto
qed (simp add: gateway_at_def)

section \<open>A failed test and the next one\<close>

text \<open>A test fails in a poll; the state machine deletes it; the next start makes a new one, which becomes ready.\<close>

definition restart_after_failure :: "agent_outside \<Rightarrow> agent \<Rightarrow> agent option" where
  "restart_after_failure ao ag = do {
     ag \<leftarrow> test_round ao True ag;
     ag \<leftarrow> state_machine_round ao ag;
     state_machine_round ao (snd (agent_start True True True ag)) }"

lemma failing_poll:
  assumes "list_ex aborted (map (polled ao) (ag_steps ag))" "ax_print (ao_ax ao) = Some \<circ> pr"
    and "ag_test ag = Some t" "tt_running t" "tt_msgs t = []" "ag_state ag = ext_agent_test_state_running" "ag_signals ag = []"
  shows "\<exists>ag'. Option.bind (test_round ao True ag) (state_machine_round ao) = Some ag' \<and> ag_test ag' = None \<and>
    ag_subscribed ag' = ag_subscribed ag \<and> ag_next ag' = ag_next ag \<and> ag_signals ag' = [] \<and> ag_state ag' = ext_agent_test_state_fail"
proof -
  have "list_ex aborted (map (polled ao) (rev (ag_steps ag)))" "ag_steps ag \<noteq> []"
    using assms(1) by (auto simp: list_ex_iff)
  then show ?thesis
    using assms(2-7)
    by (simp add: through_abort_ex test_round_def agent_poll_def poll_loop_eq Let_def set_status_def on_test_def agent_effect_def ext_emu_send_signal_def
        state_machine_round_def signal_order_def enter_state_def)
qed

text \<open>
  C24. A failed test takes the agent down with the next one: the failed test is deleted without being unsubscribed, so when the next
  test is started and ready, the start message is delivered to the deleted one.
\<close>

theorem restart_after_failure_crashes:
  assumes "list_ex aborted (map (polled ao) (ag_steps ag))" and "ax_print (ao_ax ao) = Some \<circ> pr" and "ao_device ao"
    and "ag_test ag = Some t" and "tt_running t" and "tt_msgs t = []" and "ag_subscribed ag = [tt_id t]" and "tt_id t < ag_next ag"
    and "ag_state ag = ext_agent_test_state_running" and "ag_signals ag = []"
  shows "restart_after_failure ao ag = None"
proof -
  obtain ag' where ag': "Option.bind (test_round ao True ag) (state_machine_round ao) = Some ag'" "ag_test ag' = None"
    "ag_subscribed ag' = [tt_id t]" "ag_next ag' = ag_next ag" "ag_signals ag' = []" "ag_state ag' = ext_agent_test_state_fail"
    using failing_poll [OF assms(1,2,4-6,9,10)] assms(7) by auto
  then have "state_machine_round ao (snd (agent_start True True True ag')) = None"
    using assms(3,8)
    by (simp add: agent_start_def Let_def ext_emu_send_signal_def state_machine_round_def signal_order_def enter_state_def
        send_agent_msg_def agent_queue_msg_def)
  with ag'(1) show ?thesis by (auto simp: restart_after_failure_def Option.bind_eq_Some_conv)
qed

end
