(* ===== verification/Agent_Runs.thy ===== *)
theory Agent_Runs
  imports Agent_Eth Sta_Runs Ext_Runs
begin

text \<open>
  A sample agent at work on an ethernet client, the gateway that waits for it, and runs of both.
\<close>

section \<open>The sample\<close>

definition sample_eth_lan :: eth_lan_interface where
  "sample_eth_lan = \<lparr>el_eth_dev_info = (sample_eth [4, 0, 0, 0, 0, 1])\<lparr>ed_state := eth_interface_state_in_use\<rparr>,
     el_result_file = [], el_key = ''D@@@@A'', el_duration = 2\<rparr>"

definition sample_agent_sta :: agent_sta where
  "sample_agent_sta = \<lparr>at_test_id = 0, at_phy_index = 0, at_sta_type = Some sta_model_type_pixel, at_sta_name = [], at_profile = (0, 0),
     at_vap = sample_vap, at_enabled = False, at_secu_mode = None, at_mfp = None, at_encr = None,
     at_wpa3_transition_disable = False, at_passphrase = [], at_radio = \<lparr>ro_band = 1, ro_channel = 6\<rparr>, at_radio_enable = False,
     at_capture_sta_requests = False, at_custom_mac = [], at_interface_name = [], at_is_ip_assigned = False, at_ip_address = [],
     at_key = [], at_is_station_associated = False, at_dhcp_pid = 0, at_test_duration = 0, at_ap_vap_name = []\<rparr>"

definition sample_file :: string where
  "sample_file = ''/tmp/cci_res/1_1_t_eth_client.txt''"

definition sample_agent_step :: "agent_param \<Rightarrow> agent_step" where
  "sample_agent_step p = \<lparr>as_param = p, as_test_case_name = ''case'', as_test_case_id = ''1'', as_radio_index = 0, as_step_number = 1,
     as_is_step_initialized = True, as_execution_time = 2, as_timeout_count = 0, as_step_state = wlan_emu_tests_state_cmd_continue,
     as_artifacts = [sample_file], as_capture_frames = False, as_frame_request = empty_request, as_fork = False\<rparr>"

definition library_env :: agent_env where
  "library_env = sample_agent_env\<lparr>ax_print := Some \<circ> print_doc\<rparr>"

definition sample_outside :: agent_outside where
  "sample_outside = \<lparr>ao_ax = library_env, ao_spawn = \<lambda>_. Some 7, ao_run = \<lambda>_ _. Some (0, 8), ao_running = \<lambda>_. True,
     ao_ip = \<lambda>_. Some ''10.0.0.3'', ao_sta = sample_sta_env, ao_raw = sample_agent_step (A_eth_lan_client sample_eth_lan),
     ao_raw_sta = sample_agent_sta, ao_raw_eth = sample_eth_lan, ao_raw_tail = [], ao_append = \<lambda>_. True, ao_device = True\<rparr>"

definition sample_test :: agent_test where
  "sample_test = \<lparr>tt_id = 0, tt_exit = False, tt_initialized = True, tt_running = True, tt_msgs = []\<rparr>"

definition sample_process :: "agent_step queue \<Rightarrow> agent" where
  "sample_process q = \<lparr>ag_iface = sample_agent, ag_sta = \<lparr>sm_sta_map = [], sm_sta_info_map = [], sm_sta_info_count = 0, sm_heap = (\<lambda>_. None),
     sm_fresh = 0, sm_fx = []\<rparr>, ag_steps = q, ag_state = ext_agent_test_state_running, ag_status = [], ag_signals = [],
     ag_test = Some sample_test, ag_next = 1, ag_subscribed = [0], ag_handler = True, ag_fx = []\<rparr>"

abbreviation sample_eth_process :: agent where
  "sample_eth_process \<equiv> sample_process [sample_agent_step (A_eth_lan_client sample_eth_lan)]"

abbreviation reprint :: "json_doc \<Rightarrow> string option" where
  "reprint \<equiv> \<lambda>d. Some (print_doc d)"

definition sample_eth_step :: test_step where
  "sample_eth_step = (sample_step (P_eth_lan_client 2))\<lparr>ts_execution_time := 2, ts_test_state := wlan_emu_tests_state_cmd_continue\<rparr>"

lemma library_prints: "ax_print library_env = Some \<circ> print_doc" "ax_print (ao_ax sample_outside) = Some \<circ> print_doc"
  by (simp_all add: library_env_def sample_outside_def)

lemma sample_prints: "agent_prints sample_eth_process"
  by (simp add: agent_prints_def sample_process_def sample_agent_def step_prints_def sample_agent_step_def sample_eth_lan_def sample_eth_def
      sample_file_def)

lemma sample_at_work: "agent_at_work sample_eth_process"
  unfolding agent_at_work_def using sample_prints
  by (simp add: sample_process_def sample_test_def aborted_def sample_agent_step_def)

section \<open>Runs\<close>

theorem agent_status_understood_witness:
  "\<exists>ag steps. agent_poll sample_outside sample_eth_process = Some ag \<and>
     decode_external_agent_test_status json_library reprint (ag_status ag) = Accept
       \<lparr>sr_agent_name = ''agent'', sr_step_count = 1, sr_state = ext_agent_test_state_running, sr_steps = steps\<rparr> \<and>
     list_all2 (shows_step json_library) steps
       [agent_step_timeout sample_outside (sample_agent_step (A_eth_lan_client sample_eth_lan))]"
proof -
  have none: "\<not> list_ex aborted (ag_steps sample_eth_process)" using sample_at_work by (simp add: agent_at_work_def)
  obtain ag where p: "agent_poll sample_outside sample_eth_process = Some ag"
    using quiet_poll [OF none library_prints(2)] by blast
  have ps: "through_abort (map (polled sample_outside) (rev (ag_steps sample_eth_process))) =
     [agent_step_timeout sample_outside (sample_agent_step (A_eth_lan_client sample_eth_lan))]" by code_simp
  have r: "\<not> list_ex aborted [agent_step_timeout sample_outside (sample_agent_step (A_eth_lan_client sample_eth_lan))]" by code_simp
  have h: "ea_hostname (ag_iface sample_eth_process) = ''agent''" "length (ag_steps sample_eth_process) = 1"
    "ag_state sample_eth_process = ext_agent_test_state_running"
    by (simp_all add: sample_process_def sample_agent_def)
  show ?thesis
    using agent_status_understood [OF p library_prints(2) json_library_reads_back json_library_reprints sample_prints ps [symmetric]] p r
    by (auto simp: h)
qed

theorem eth_subdocument_round_trip_witness:
  "\<exists>str s. encode_external_eth_lan_client_subdoc library_env sample_eth_step sample_eth_lan = Some str \<and>
     agent_decode_step_param json_library sample_outside str = Accept (Some s) \<and> as_step_number s = 1 \<and> as_execution_time s = 2"
proof -
  obtain str where str: "encode_external_eth_lan_client_subdoc library_env sample_eth_step sample_eth_lan = Some str"
    by (simp add: encode_external_eth_lan_client_subdoc_def library_env_def sample_agent_env_def)
  have j: "je_new json_library" "je_member json_library" by (simp_all add: json_library_def)
  have t: "list_all text_prints (eth_texts library_env sample_eth_step sample_eth_lan)" by code_simp
  have n: "is_int32 (ts_step_number sample_eth_step)" "is_int32 (el_duration sample_eth_lan)" by code_simp+
  have m: "ax_str_mac (ao_ax sample_outside) (ax_mac_str library_env (ed_interface_mac (el_eth_dev_info sample_eth_lan))) =
    ed_interface_mac (el_eth_dev_info sample_eth_lan)" by code_simp
  have v: "ts_step_number sample_eth_step = 1" "el_duration sample_eth_lan = 2"
    by (simp_all add: sample_eth_step_def sample_step_def sample_eth_lan_def)
  show ?thesis
    using eth_subdocument_round_trip [OF str library_prints(1) json_library_reads_back j t n refl m] str by (simp add: v)
qed

lemma sample_eth_upload:
  "fst (step_upload_files (ax_env library_env) sample_file (add_fx (Fx_write sample_file (fetched sample_outside sample_file)) sample_world)) =
     RETURN_OK"
  by code_simp

theorem ethernet_client_completes_witness:
  "\<exists>s' el' w' ag'. eth_run 5 json_library reprint library_env sample_outside [(''k'', sample_agent)] sample_agent
      (sample_eth_step, sample_eth_lan, sample_world, sample_eth_process) = Some (2, RETURN_OK, s', el', w', ag') \<and>
    ts_test_state s' = wlan_emu_tests_state_cmd_results \<and> el_result_file el' = sample_file"
proof -
  obtain w' where u: "step_upload_files (ax_env library_env) sample_file
      (add_fx (Fx_write sample_file (fetched sample_outside sample_file)) sample_world) = (RETURN_OK, w')"
    using sample_eth_upload by (metis prod.collapse)
  have g: "gateway_at library_env [(''k'', sample_agent)] sample_agent 1 2 0 sample_eth_step sample_eth_lan" by code_simp
  have a: "agent_at 1 2 0 sample_file sample_eth_process" by code_simp
  have f: "file_travels library_env sample_outside sample_file" by code_simp
  show ?thesis
    using ethernet_client_completes [OF sample_at_work g a _ json_library_reads_back json_library_reprints library_prints(2) f u, of 5]
    by auto
qed

definition stuck_status_document :: json_doc where
  "stuck_status_document = Doc_object [(''ExternalAgentHostName'', Doc_string ''agent''),
     (''ExternalAgentStepCount'', Doc_number 1), (''ExternalAgentStatus'', Doc_string ''running''),
     (''ExternalAgentStepStatus'', Doc_array [Doc_object [(''StepNumber'', Doc_number 1), (''StepStatus'', Doc_string ''continue'')]])]"

definition stuck_env :: agent_env where
  "stuck_env = library_env\<lparr>ax_get := (\<lambda>url. (print_doc stuck_status_document, True, Some 200))\<rparr>"

theorem ethernet_client_waits_forever_witness:
  "\<exists>s'. eth_timeouts 1000 json_library reprint stuck_env [(''k'', sample_agent)] sample_eth_step sample_eth_lan sample_world =
      Some (RETURN_OK, s', sample_eth_lan, sample_world) \<and>
    ts_test_state s' \<in> {wlan_emu_tests_state_cmd_wait, wlan_emu_tests_state_cmd_continue} \<and> ts_timeout_count s' = 0 + int 1000"
proof -
  let ?st = "\<lparr>sr_agent_name = ''agent'', sr_step_count = 1, sr_state = ext_agent_test_state_running, sr_steps =
    [\<lparr>ss_step_number = 1, ss_state = wlan_emu_tests_state_cmd_continue, ss_result_files = [], ss_step_private_json_data = []\<rparr>]\<rparr>"
  have d: "decode_external_agent_test_status json_library reprint (print_doc stuck_status_document) = Accept ?st" by code_simp
  have st: "get_external_agent_test_status json_library reprint stuck_env sample_agent w = Some (RETURN_OK, Some ?st, w)" for w
    using d by (simp add: get_external_agent_test_status_def http_get_def stuck_env_def library_env_def sample_agent_env_def)
  have s: "stands_still 1 ?st" by code_simp
  have g: "gateway_at stuck_env [(''k'', sample_agent)] sample_agent 1 2 0 sample_eth_step sample_eth_lan" by code_simp
  have e: "el_result_file sample_eth_lan = []" "env_malloc (ax_env stuck_env)"
    "ts_test_state sample_eth_step \<in> {wlan_emu_tests_state_cmd_wait, wlan_emu_tests_state_cmd_continue}"
    by (simp_all add: sample_eth_lan_def stuck_env_def library_env_def sample_agent_env_def sample_environment_def sample_eth_step_def)
  show ?thesis by (rule ethernet_client_waits_forever [OF st s g e])
qed

theorem restart_after_failure_crashes_witness:
  "restart_after_failure sample_outside (sample_process [(sample_agent_step (A_eth_lan_client sample_eth_lan))
     \<lparr>as_step_state := wlan_emu_tests_state_cmd_abort\<rparr>]) = None"
  by (rule restart_after_failure_crashes [OF _ library_prints(2), where t = sample_test])
    (simp_all add: sample_process_def sample_test_def sample_outside_def aborted_def polled_def)

end
