(* ===== verification/Bus_Tree.thy ===== *)
theory Bus_Tree
  imports Emu_Prelude "HOL-Library.Monad_Syntax"
begin

text \<open>
  The tree of bus elements of \<open>src/src/bus/common/wlan_emu_bus_common.cpp\<close>: nodes on a heap,
  linked by \<open>parent\<close>, \<open>child\<close> and \<open>nextSibling\<close>, found by dotted names. The rows of a table share
  the children of the table's template row \<open>{i}\<close> through their \<open>child\<close> pointer.

  An address is a natural number and \<open>NULL\<close> is 0; \<open>brk\<close> is the next address of \<open>calloc\<close>, which is
  taken to succeed. The result \<open>None\<close> stands for undefined behaviour: a dereference of \<open>NULL\<close> or of a
  freed node, a name without its terminator, or a walk over a cyclic chain. A walk gets as many steps
  as nodes were ever allocated, so it only runs out of them on a cycle, where the code never returns.
  The types \<open>elem_node_map_t\<close> and \<open>bus_mux_data_elem_t\<close> are declared in a header that is not part of
  the repository; the records hold the members the code uses, and the sizes of the name buffers
  are arguments. The mutex is left out.

  The data of a registered node holds a pointer to a list of strings, which is freed with the node, and
  copying the data copies the pointer. \<open>n_strings\<close> is that pointer; nothing ever writes to the list, so all
  that matters of it is whether it was freed: the heap keeps the addresses of the lists freed, and freeing
  one again is undefined.
\<close>

section \<open>Errors of the bus\<close>

text \<open>\<open>bus_error_t\<close>: the codes that occur in the repository.\<close>

datatype bus_error =
  bus_error_success | bus_error_general | bus_error_invalid_input | bus_error_not_inttialized
| bus_error_out_of_resources | bus_error_destination_not_found | bus_error_destination_not_reachable
| bus_error_destination_response_failure | bus_error_invalid_response_from_destination
| bus_error_invalid_operation | bus_error_invalid_event | bus_error_invalid_handle
| bus_error_session_already_exist | bus_error_component_name_duplicate
| bus_error_element_name_duplicate | bus_error_element_name_missing
| bus_error_component_does_not_exist | bus_error_element_does_not_exist
| bus_error_access_not_allowed | bus_error_invalid_context | bus_error_timeout
| bus_error_async_response | bus_error_invalid_method | bus_error_nosubscribers
| bus_error_subscription_already_exist | bus_error_invalid_namespace | bus_error_direct_con_not_exist

section \<open>Nodes and the heap\<close>

text \<open>The value 0 of a zeroed node is none of the four sibling_named types: \<open>get_type_string\<close> calls it an object.\<close>

datatype bus_element_type =
  elem_type_object | elem_type_property | elem_type_table | elem_type_event | elem_type_method

fun get_type_string :: "bus_element_type \<Rightarrow> string" where
  "get_type_string elem_type_property = ''property''"
| "get_type_string elem_type_table = ''table''"
| "get_type_string elem_type_event = ''event''"
| "get_type_string elem_type_method = ''method''"
| "get_type_string elem_type_object = ''object''"

datatype node_data_type = node_elem_unset | node_elem_reg_data | node_elem_sub_data

type_synonym elem_addr = nat

record 'd elem_node =
  n_name :: string
  n_full_name :: string
  n_type :: bus_element_type
  n_parent :: elem_addr
  n_child :: elem_addr
  n_nextSibling :: elem_addr
  n_reference :: bool
  n_data_type :: node_data_type
  n_data :: "'d option"
  n_data_len :: nat
  n_strings :: "nat option"

record 'd elem_heap =
  cells :: "elem_addr \<rightharpoonup> 'd elem_node"
  brk :: elem_addr
  freed_strings :: "nat list"

record bus_sizes =
  bus_name_size :: nat
  node_name_size :: nat
  node_full_name_size :: nat

text \<open>
  \<open>bus_mux_data_elem_t\<close>, with the list of strings its data points to, if it does; its number of rows is not
  read.
\<close>

record 'd mux_data_elem =
  m_full_name :: string
  m_type :: bus_element_type
  m_data_type :: node_data_type
  m_cfg_data :: 'd
  m_cfg_data_len :: nat
  m_strings :: "nat option"

definition get_empty_elem_node :: "'d elem_node" where
  "get_empty_elem_node = \<lparr>n_name = [], n_full_name = [], n_type = elem_type_object, n_parent = 0,
     n_child = 0, n_nextSibling = 0, n_reference = False, n_data_type = node_elem_unset,
     n_data = None, n_data_len = 0, n_strings = None\<rparr>"

definition put :: "'d elem_heap \<Rightarrow> elem_addr \<Rightarrow> 'd elem_node \<Rightarrow> 'd elem_heap" where
  "put h p n = h\<lparr>cells := (cells h)(p \<mapsto> n)\<rparr>"

definition alloc :: "'d elem_heap \<Rightarrow> 'd elem_node \<Rightarrow> 'd elem_heap" where
  "alloc h n = h\<lparr>cells := (cells h)(brk h \<mapsto> n), brk := Suc (brk h)\<rparr>"

definition change :: "'d elem_heap \<Rightarrow> elem_addr \<Rightarrow> ('d elem_node \<Rightarrow> 'd elem_node) \<Rightarrow> 'd elem_heap option" where
  "change h p f = map_option (\<lambda>n. put h p (f n)) (cells h p)"

text \<open>The list of strings a node frees: that of the data of a registration.\<close>

definition owned_strings :: "'d elem_node \<Rightarrow> nat option" where
  "owned_strings x = (if n_data_type x = node_elem_reg_data \<and> n_data x \<noteq> None then n_strings x else None)"

definition free_strings :: "nat option \<Rightarrow> 'd elem_heap \<Rightarrow> 'd elem_heap option" where
  "free_strings a h =
     (case a of
        None \<Rightarrow> Some h
      | Some l \<Rightarrow> if l \<in> set (freed_strings h) then None else Some (h\<lparr>freed_strings := l # freed_strings h\<rparr>))"

text \<open>\<open>node_elems_free\<close>\<close>

definition node_elems_free :: "'d elem_heap \<Rightarrow> elem_addr \<Rightarrow> 'd elem_heap option" where
  "node_elems_free h p = do {
     x \<leftarrow> cells h p;
     h1 \<leftarrow> free_strings (owned_strings x) h;
     Some (h1\<lparr>cells := (cells h1)(p := None)\<rparr>)
   }"

text \<open>\<open>init_bus_mux_root\<close>, for one of the two trees: an empty root node, here at address 1.\<close>

definition init_bus_mux_root :: "'d elem_heap" where
  "init_bus_mux_root = alloc \<lparr>cells = Map.empty, brk = 1, freed_strings = []\<rparr> get_empty_elem_node"

section \<open>Names\<close>

definition is_string_digit :: "string \<Rightarrow> bool" where
  "is_string_digit s \<longleftrightarrow> s \<noteq> [] \<and> list_all is_digit s"

fun split_dots :: "string \<Rightarrow> string list" where
  "split_dots [] = [[]]"
| "split_dots (c # s) =
     (if c = CHR ''.'' then [] # split_dots s
      else case split_dots s of [] \<Rightarrow> [[c]] | t # ts \<Rightarrow> (c # t) # ts)"

text \<open>The tokens of \<open>strtok_r(name, ".")\<close>: empty pieces are skipped.\<close>

definition dot_tokens :: "string \<Rightarrow> string list" where
  "dot_tokens s = filter (\<lambda>t. t \<noteq> []) (split_dots s)"

text \<open>\<open>strncpy(name, s, sizeof(name) - 1)\<close> into a buffer that is not initialised: there is a
  terminator only when the source is shorter than the number of bytes copied.\<close>

definition copy_name :: "nat \<Rightarrow> string \<Rightarrow> string option" where
  "copy_name n s = (if length s < n - 1 then Some s else None)"

section \<open>Finding an element\<close>

text \<open>The search along the siblings from \<open>n\<close>: whether the token was found, and \<open>current_node\<close> and
  \<open>next_node\<close> after it.\<close>

fun find_sibling ::
  "nat \<Rightarrow> 'd elem_heap \<Rightarrow> elem_addr \<Rightarrow> string \<Rightarrow> (bool \<times> elem_addr \<times> elem_addr) option" where
  "find_sibling 0 h n t = None"
| "find_sibling (Suc k) h n t =
     (case cells h n of
        None \<Rightarrow> None
      | Some x \<Rightarrow>
          if n_name x = t then Some (True, n, n_child x)
          else if n_nextSibling x = 0 then Some (False, n, 0)
          else find_sibling k h (n_nextSibling x) t)"

text \<open>\<open>next_node && next_node->parent && next_node->parent->type == table\<close>\<close>

definition below_table :: "'d elem_heap \<Rightarrow> elem_addr \<Rightarrow> bool option" where
  "below_table h n =
     (if n = 0 then Some False
      else do {
        x \<leftarrow> cells h n;
        if n_parent x = 0 then Some False
        else map_option (\<lambda>p. n_type p = elem_type_table) (cells h (n_parent x))
      })"

text \<open>The token that follows, once a wild card was read replaced by the name of the template row.\<close>

definition next_tokens :: "'d elem_heap \<Rightarrow> elem_addr \<Rightarrow> bool \<Rightarrow> string list \<Rightarrow> (bool \<times> string list) option" where
  "next_tokens h n wild ts =
     (case ts of
        [] \<Rightarrow> Some (wild, [])
      | t # ts' \<Rightarrow> do {
          b \<leftarrow> below_table h n;
          let wild' = (if b \<and> \<not> wild \<and> t = ''*'' then True else wild);
          Some (wild', (if b \<and> wild' then ''{i}'' else t) # ts')
        })"

lemma next_tokens_length: "next_tokens h n w ts = Some (w', ts') \<Longrightarrow> length ts' = length ts"
  by (auto simp: next_tokens_def Let_def bind_eq_Some_conv split: list.splits)

function retrieve_loop ::
  "'d elem_heap \<Rightarrow> string list \<Rightarrow> elem_addr \<Rightarrow> elem_addr \<Rightarrow> bool \<Rightarrow> bool \<Rightarrow> elem_addr option" where
  "retrieve_loop h [] current_node next_node token_found wild =
     Some (if token_found then current_node else 0)"
| "retrieve_loop h (t # ts) current_node next_node token_found wild =
     (if next_node = 0 then Some 0
      else case find_sibling (brk h) h next_node t of
             None \<Rightarrow> None
           | Some (found, c, n) \<Rightarrow>
               (case next_tokens h n wild ts of
                  None \<Rightarrow> None
                | Some (wild', ts') \<Rightarrow> retrieve_loop h ts' c n found wild'))"
  by pat_completeness auto

termination
  by (relation "measure (\<lambda>(h, ts, c, n, f, w). length ts)") (auto dest: next_tokens_length)

definition retrieve_instance_elem_node :: "bus_sizes \<Rightarrow> 'd elem_heap \<Rightarrow> elem_addr \<Rightarrow> string \<Rightarrow> elem_addr option" where
  "retrieve_instance_elem_node sz h root s =
     (if root = 0 then Some 0
      else do {
        nm \<leftarrow> copy_name (bus_name_size sz) s;
        r \<leftarrow> cells h root;
        retrieve_loop h (dot_tokens nm) root (n_child r) False False
      })"

text \<open>\<open>get_bus_node_info\<close> first copies the name into a zeroed buffer, which cuts it off.\<close>

definition get_bus_node_info :: "bus_sizes \<Rightarrow> 'd elem_heap \<Rightarrow> elem_addr \<Rightarrow> string \<Rightarrow> elem_addr option" where
  "get_bus_node_info sz h cb_root s =
     (if cb_root = 0 then Some 0
      else retrieve_instance_elem_node sz h cb_root (snprintf_store (bus_name_size sz) s))"

section \<open>Entering an element\<close>

text \<open>A new node behind the last sibling, as both \<open>insert_table_row\<close> and \<open>bus_insert_elem_node\<close> make it.\<close>

definition append_sibling ::
  "bus_sizes \<Rightarrow> 'd elem_heap \<Rightarrow> elem_addr \<Rightarrow> string \<Rightarrow> ('d elem_heap \<times> elem_addr) option" where
  "append_sibling sz h c t = do {
     l \<leftarrow> cells h c;
     p \<leftarrow> cells h (n_parent l);
     let buff = snprintf_store 256 (if n_full_name p \<noteq> [] then n_full_name p @ ''.'' @ t else t);
     let temp = get_empty_elem_node\<lparr>n_parent := n_parent l,
       n_full_name := snprintf_store (node_full_name_size sz) buff,
       n_name := snprintf_store (node_name_size sz) t\<rparr>;
     h' \<leftarrow> change (alloc h temp) c (\<lambda>x. x\<lparr>n_nextSibling := brk h\<rparr>);
     Some (h', brk h)
   }"

fun link_rows :: "nat \<Rightarrow> 'd elem_heap \<Rightarrow> elem_addr \<Rightarrow> elem_addr \<Rightarrow> 'd elem_heap option" where
  "link_rows k h ref n =
     (if n = 0 then Some h
      else case k of
             0 \<Rightarrow> None
           | Suc k' \<Rightarrow>
               (case cells h n of
                  None \<Rightarrow> None
                | Some x \<Rightarrow>
                    let h' = (if n_child x = 0 \<and> is_string_digit (n_name x)
                              then put h n (x\<lparr>n_child := ref, n_reference := True\<rparr>) else h)
                    in link_rows k' h' ref (n_nextSibling x)))"

declare link_rows.simps [simp del]

definition link_tables_with_node :: "'d elem_heap \<Rightarrow> elem_addr \<Rightarrow> 'd elem_heap option" where
  "link_tables_with_node h p = do {
     x \<leftarrow> cells h p;
     link_rows (brk h) h (n_child x) (n_nextSibling x)
   }"

definition is_grandparent_node_elem_is_table :: "'d elem_heap \<Rightarrow> elem_addr \<Rightarrow> bool option" where
  "is_grandparent_node_elem_is_table h cur_parent = do {
     x \<leftarrow> cells h cur_parent;
     if n_parent x = 0 then Some False
     else map_option (\<lambda>g. n_type g = elem_type_table) (cells h (n_parent x))
   }"

text \<open>The first child of a node.\<close>

definition create_first_child ::
  "bus_sizes \<Rightarrow> 'd elem_heap \<Rightarrow> elem_addr \<Rightarrow> elem_addr \<Rightarrow> string \<Rightarrow> ('d elem_heap \<times> elem_addr) option" where
  "create_first_child sz h root cur t = do {
     x \<leftarrow> cells h cur;
     let full = (if cur = root then t else snprintf_store 256 (n_full_name x @ ''.'' @ t));
     let temp = get_empty_elem_node\<lparr>n_parent := cur,
       n_full_name := snprintf_store (node_full_name_size sz) full,
       n_name := snprintf_store (node_name_size sz) t\<rparr>;
     h1 \<leftarrow> change (alloc h temp) cur (\<lambda>x. x\<lparr>n_child := brk h\<rparr>);
     b \<leftarrow> is_grandparent_node_elem_is_table h1 cur;
     h2 \<leftarrow> (if b then link_tables_with_node h1 cur else Some h1);
     Some (h2, brk h)
   }"

text \<open>
  One token of \<open>bus_insert_elem_node\<close>: the new \<open>current_node\<close> and \<open>next_node\<close>. The flag
  \<open>create_child\<close> of the code is set whenever a token is begun, so it is left out.
\<close>

definition insert_token ::
  "bus_sizes \<Rightarrow> elem_addr \<Rightarrow> string \<Rightarrow> 'd elem_heap \<times> elem_addr \<times> elem_addr \<Rightarrow>
   ('d elem_heap \<times> elem_addr \<times> elem_addr) option" where
  "insert_token sz root t st =
     (case st of (h, current_node, next_node) \<Rightarrow>
        if next_node = 0
        then map_option (\<lambda>(h', temp). (h', temp, 0)) (create_first_child sz h root current_node t)
        else do {
          (found, c, n) \<leftarrow> find_sibling (brk h) h next_node t;
          if found then Some (h, c, n)
          else map_option (\<lambda>(h', temp). (h', temp, 0)) (append_sibling sz h c t)
        })"

fun insert_tokens ::
  "bus_sizes \<Rightarrow> elem_addr \<Rightarrow> string list \<Rightarrow> 'd elem_heap \<times> elem_addr \<times> elem_addr \<Rightarrow>
   ('d elem_heap \<times> elem_addr \<times> elem_addr) option" where
  "insert_tokens sz root [] st = Some st"
| "insert_tokens sz root (t # ts) st = Option.bind (insert_token sz root t st) (insert_tokens sz root ts)"

text \<open>The name of a table without the marker of its rows.\<close>

definition strip_row_marker :: "bus_element_type \<Rightarrow> string \<Rightarrow> string" where
  "strip_row_marker ty s =
     (let len = length s
      in if ty = elem_type_table \<and> 4 < len
         then if drop (len - 5) s = ''.{i}.'' then take (len - 5) s
              else if drop (len - 4) s = ''.{i}'' then take (len - 4) s
              else s
         else s)"

definition fill_elem_node :: "bus_sizes \<Rightarrow> 'd elem_heap \<Rightarrow> elem_addr \<Rightarrow> 'd mux_data_elem \<Rightarrow> 'd elem_heap option" where
  "fill_elem_node sz h cur elem = do {
     h1 \<leftarrow> change h cur (\<lambda>x. x\<lparr>n_type := m_type elem, n_data_type := m_data_type elem,
       n_data := Some (m_cfg_data elem), n_data_len := m_cfg_data_len elem, n_strings := m_strings elem\<rparr>);
     if m_type elem = elem_type_table
     then do {
       x \<leftarrow> cells h1 cur;
       let template_name = snprintf_store (node_name_size sz) ''{i}'';
       let rowTemplate = get_empty_elem_node\<lparr>n_parent := cur, n_name := template_name,
         n_full_name := snprintf_store (node_full_name_size sz)
           (snprintf_store 256 (n_full_name x @ ''.'' @ template_name))\<rparr>;
       change (alloc h1 rowTemplate) cur (\<lambda>x. x\<lparr>n_child := brk h1\<rparr>)
     }
     else Some h1
   }"

definition bus_insert_elem_node ::
  "bus_sizes \<Rightarrow> 'd elem_heap \<Rightarrow> elem_addr \<Rightarrow> 'd mux_data_elem \<Rightarrow> ('d elem_heap \<times> elem_addr) option" where
  "bus_insert_elem_node sz h root elem =
     (if root = 0 then Some (h, 0)
      else do {
        r \<leftarrow> cells h root;
        nm \<leftarrow> copy_name (bus_name_size sz) (m_full_name elem);
        (h1, cur, nxt) \<leftarrow>
          insert_tokens sz root (dot_tokens (strip_row_marker (m_type elem) nm)) (h, root, n_child r);
        h2 \<leftarrow> fill_elem_node sz h1 cur elem;
        Some (h2, cur)
      })"

section \<open>Rows of a table\<close>

text \<open>\<open>insert_table_row\<close>: the node of the row, or \<open>NULL\<close> when the table has no child at all.\<close>

definition insert_table_row ::
  "bus_sizes \<Rightarrow> 'd elem_heap \<Rightarrow> elem_addr \<Rightarrow> string \<Rightarrow> ('d elem_heap \<times> elem_addr) option" where
  "insert_table_row sz h table_root node_name =
     (if table_root = 0 then Some (h, 0)
      else do {
        x \<leftarrow> cells h table_root;
        if n_child x = 0 then Some (h, 0)
        else do {
          (found, c, n) \<leftarrow> find_sibling (brk h) h (n_child x) node_name;
          if found then Some (h, c) else append_sibling sz h c node_name
        }
      })"

text \<open>
  \<open>duplicate_node_ref\<close>: a copy of the data of the table for the row, which points to the same list of
  strings, and the children of the template.
\<close>

definition duplicate_node_ref :: "'d elem_heap \<Rightarrow> elem_addr \<Rightarrow> elem_addr \<Rightarrow> 'd elem_heap option" where
  "duplicate_node_ref h row table =
     (if row = 0 \<or> table = 0 then Some h
      else do {
        tb \<leftarrow> cells h table;
        (found, c) \<leftarrow> (if n_child tb = 0 then Some (False, 0)
          else map_option (\<lambda>(f, c, n). (f, c)) (find_sibling (brk h) h (n_child tb) ''{i}''));
        if \<not> found then Some h
        else do {
          tp \<leftarrow> cells h c;
          rw \<leftarrow> cells h row;
          let rw1 = (if n_data_len tb \<noteq> 0 \<and> n_data rw = None
            then rw\<lparr>n_data_type := n_data_type tb, n_data := n_data tb, n_data_len := n_data_len tb,
              n_strings := n_strings tb\<rparr> else rw);
          let rw2 = (if n_child rw1 = 0 then rw1\<lparr>n_child := n_child tp, n_reference := True\<rparr> else rw1);
          Some (put h row rw2)
        }
      })"

text \<open>\<open>snprintf(str, 8, "%d", table_index)\<close>: the index is printed as a signed number, and cut off.\<close>

definition row_name :: "u32 \<Rightarrow> string" where
  "row_name i = snprintf_store 8 (show_int (sint i))"

definition bus_table_add_row ::
  "bus_sizes \<Rightarrow> 'd elem_heap \<Rightarrow> elem_addr \<Rightarrow> string \<Rightarrow> u32 \<Rightarrow> (bus_error \<times> 'd elem_heap) option" where
  "bus_table_add_row sz h root s table_index = do {
     table \<leftarrow> get_bus_node_info sz h root s;
     if table = 0 then Some (bus_error_general, h)
     else do {
       (h1, row) \<leftarrow> insert_table_row sz h table (row_name table_index);
       if row = 0 then Some (bus_error_general, h1)
       else do {
         h2 \<leftarrow> duplicate_node_ref h1 row table;
         Some (bus_error_success, h2)
       }
     }
   }"

section \<open>Removing elements\<close>

text \<open>
  \<open>node_elem_recurse_traversal\<close> with \<open>node_elems_free\<close>, for a node and the siblings behind it: the
  children first, unless they are the template's, then the node.
\<close>

fun free_nodes :: "nat \<Rightarrow> 'd elem_heap \<Rightarrow> elem_addr \<Rightarrow> 'd elem_heap option" where
  "free_nodes k h c =
     (if c = 0 then Some h
      else case k of
             0 \<Rightarrow> None
           | Suc k' \<Rightarrow>
               (case cells h c of
                  None \<Rightarrow> None
                | Some x \<Rightarrow>
                    (case (if n_reference x then Some h else free_nodes k' h (n_child x)) of
                       None \<Rightarrow> None
                     | Some h1 \<Rightarrow>
                         (case node_elems_free h1 c of
                            None \<Rightarrow> None
                          | Some h2 \<Rightarrow> free_nodes k' h2 (n_nextSibling x)))))"

declare free_nodes.simps [simp del]

text \<open>The search for the node before \<open>node\<close> among the children of its parent.\<close>

fun unlink_sibling :: "nat \<Rightarrow> 'd elem_heap \<Rightarrow> elem_addr \<Rightarrow> elem_addr \<Rightarrow> elem_addr \<Rightarrow> 'd elem_heap option" where
  "unlink_sibling k h c node nxt =
     (if c = 0 then Some h
      else case k of
             0 \<Rightarrow> None
           | Suc k' \<Rightarrow>
               (case cells h c of
                  None \<Rightarrow> None
                | Some x \<Rightarrow>
                    if n_nextSibling x = node then Some (put h c (x\<lparr>n_nextSibling := nxt\<rparr>))
                    else unlink_sibling k' h (n_nextSibling x) node nxt))"

declare unlink_sibling.simps [simp del]

text \<open>Taking a node out of the children of its parent.\<close>

definition unlink_node :: "'d elem_heap \<Rightarrow> elem_addr \<Rightarrow> elem_addr \<Rightarrow> elem_addr \<Rightarrow> 'd elem_heap option" where
  "unlink_node h node parent nxt =
     (if parent = 0 then Some h
      else do {
        p \<leftarrow> cells h parent;
        if n_child p = node then Some (put h parent (p\<lparr>n_child := nxt\<rparr>))
        else unlink_sibling (brk h) h (n_child p) node nxt
      })"

definition node_elem_traversal :: "'d elem_heap \<Rightarrow> elem_addr \<Rightarrow> 'd elem_heap option" where
  "node_elem_traversal h node =
     (if node = 0 then Some h
      else do {
        x \<leftarrow> cells h node;
        h1 \<leftarrow> (if n_reference x then Some h else free_nodes (brk h) h (n_child x));
        h2 \<leftarrow> unlink_node h1 node (n_parent x) (n_nextSibling x);
        node_elems_free h2 node
      })"

definition free_node_elems :: "'d elem_heap \<Rightarrow> elem_addr \<Rightarrow> (bus_error \<times> 'd elem_heap) option" where
  "free_node_elems h node = map_option (\<lambda>h'. (bus_error_success, h')) (node_elem_traversal h node)"

definition bus_table_remove_row ::
  "bus_sizes \<Rightarrow> 'd elem_heap \<Rightarrow> elem_addr \<Rightarrow> string \<Rightarrow> (bus_error \<times> 'd elem_heap) option" where
  "bus_table_remove_row sz h root s = do {
     n \<leftarrow> get_bus_node_info sz h root s;
     if n \<noteq> 0 then free_node_elems h n else Some (bus_error_destination_not_found, h)
   }"

text \<open>\<open>bus_remove_all_elems\<close>: every node of the chain that starts at the root.\<close>

fun bus_remove_all_elems :: "nat \<Rightarrow> 'd elem_heap \<Rightarrow> elem_addr \<Rightarrow> 'd elem_heap option" where
  "bus_remove_all_elems k h root =
     (if root = 0 then Some h
      else case k of
             0 \<Rightarrow> None
           | Suc k' \<Rightarrow>
               (case cells h root of
                  None \<Rightarrow> None
                | Some x \<Rightarrow> Option.bind (node_elem_traversal h root)
                    (\<lambda>h'. bus_remove_all_elems k' h' (n_nextSibling x))))"

declare bus_remove_all_elems.simps [simp del]


end
