(* ===== verification/Bus_Tree_Facts.thy ===== *)
theory Bus_Tree_Facts
  imports Bus_Tree
begin

text \<open>
  What the tree of bus elements promises: a well-formedness invariant that every entry keeps, under
  which no operation runs into undefined behaviour; the children of a node as a partial map from
  tokens; entering an element and adding a row extend that map and find what was entered.
\<close>

section \<open>Well-formed trees\<close>

definition live :: "'d elem_heap \<Rightarrow> elem_addr \<Rightarrow> bool" where
  "live h p \<longleftrightarrow> cells h p \<noteq> None"

definition parent_of :: "'d elem_heap \<Rightarrow> elem_addr \<Rightarrow> elem_addr" where
  "parent_of h p = (case cells h p of None \<Rightarrow> 0 | Some x \<Rightarrow> n_parent x)"

text \<open>
  A node of a tree with depths \<open>d\<close>: siblings were allocated in order, are equally deep and have the
  same parent; children are one level deeper, and have the node as their parent unless it refers to
  the children of a template; every node but the root has a live parent.
\<close>

definition node_ok :: "'d elem_heap \<Rightarrow> elem_addr \<Rightarrow> (elem_addr \<Rightarrow> nat) \<Rightarrow> elem_addr \<Rightarrow> 'd elem_node \<Rightarrow> bool" where
  "node_ok h root d p x \<longleftrightarrow>
     p \<noteq> 0 \<and> p < brk h \<and>
     (n_nextSibling x \<noteq> 0 \<longrightarrow>
        p < n_nextSibling x \<and> live h (n_nextSibling x) \<and> d (n_nextSibling x) = d p \<and> p \<noteq> root \<and>
        parent_of h (n_nextSibling x) = n_parent x) \<and>
     (n_child x \<noteq> 0 \<longrightarrow> live h (n_child x) \<and> d (n_child x) = Suc (d p) \<and>
        (n_reference x \<or> parent_of h (n_child x) = p)) \<and>
     (if p = root then n_parent x = 0 \<and> d p = 0 else d p \<noteq> 0 \<and> live h (n_parent x))"

definition tree_ok :: "'d elem_heap \<Rightarrow> elem_addr \<Rightarrow> (elem_addr \<Rightarrow> nat) \<Rightarrow> bool" where
  "tree_ok h root d \<longleftrightarrow> live h root \<and> (\<forall>p x. cells h p = Some x \<longrightarrow> node_ok h root d p x)"

lemma tree_okD: "tree_ok h root d \<Longrightarrow> cells h p = Some x \<Longrightarrow> node_ok h root d p x"
  by (simp add: tree_ok_def)

lemma tree_ok_brk: "tree_ok h root d \<Longrightarrow> cells h (brk h) = None"
  by (metis less_irrefl node_ok_def option.exhaust tree_okD)

lemma tree_ok_null: "tree_ok h root d \<Longrightarrow> cells h 0 = None"
  by (metis node_ok_def option.exhaust tree_okD)

lemma tree_ok_root: "tree_ok h root d \<Longrightarrow> root \<noteq> 0"
  by (metis live_def tree_ok_def tree_ok_null)

lemma live_not_null: "tree_ok h root d \<Longrightarrow> live h p \<Longrightarrow> p \<noteq> 0"
  by (metis live_def tree_ok_null)

lemma tree_ok_brk_pos: "tree_ok h root d \<Longrightarrow> 0 < brk h"
  by (metis gr0I less_nat_zero_code live_def node_ok_def not_None_eq tree_okD tree_ok_def)

lemma live_put [simp]: "live (put h p x) q \<longleftrightarrow> q = p \<or> live h q"
  by (simp add: live_def put_def)

lemma live_alloc [simp]: "live (alloc h x) q \<longleftrightarrow> q = brk h \<or> live h q"
  by (simp add: live_def alloc_def)

lemma cells_put: "cells (put h p x) q = (if q = p then Some x else cells h q)"
  by (simp add: put_def)

lemma cells_alloc: "cells (alloc h x) q = (if q = brk h then Some x else cells h q)"
  by (simp add: alloc_def)

lemma brk_put [simp]: "brk (put h p x) = brk h"
  by (simp add: put_def)

lemma brk_alloc [simp]: "brk (alloc h x) = Suc (brk h)"
  by (simp add: alloc_def)

lemma change_Some: "change h p f = Some h' \<longleftrightarrow> (\<exists>x. cells h p = Some x \<and> h' = put h p (f x))"
  by (auto simp: change_def)

lemma node_ok_mono:
  assumes "node_ok h root d p x"
    and "\<And>q. live h q \<Longrightarrow> live h' q \<and> d' q = d q \<and> parent_of h' q = parent_of h q"
    and "brk h \<le> brk h'" and "live h p"
  shows "node_ok h' root d' p x"
  using assms by (auto simp: node_ok_def)

lemma node_ok_reference:
  "node_ok h root d p x \<Longrightarrow> (a \<noteq> 0 \<Longrightarrow> live h a \<and> d a = Suc (d p)) \<Longrightarrow>
    node_ok h root d p (x\<lparr>n_child := a, n_reference := True\<rparr>)"
  by (auto simp: node_ok_def)

lemma tree_ok_put:
  assumes ok: "tree_ok h root d" and p: "live h p" and x: "node_ok h root d p x"
    and par: "n_parent x = parent_of h p"
  shows "tree_ok (put h p x) root d"
proof -
  have "node_ok (put h p x) root d q y" if "cells (put h p x) q = Some y" for q y
  proof -
    have "node_ok h root d q y"
      using that x tree_okD [OF ok] by (auto simp: cells_put split: if_splits)
    then show ?thesis
      by (rule node_ok_mono) (use that p par in \<open>auto simp: live_def cells_put parent_of_def split: if_splits\<close>)
  qed
  then show ?thesis using ok by (simp add: tree_ok_def)
qed

lemma tree_ok_alloc:
  assumes ok: "tree_ok h root d" and x: "n_nextSibling x = 0" "n_child x = 0" "live h (n_parent x)"
    and k: "k \<noteq> 0"
  shows "tree_ok (alloc h x) root (d(brk h := k))"
proof -
  have fresh: "\<not> live h (brk h)" using tree_ok_brk [OF ok] by (simp add: live_def)
  have root: "root \<noteq> brk h" using ok fresh by (auto simp: tree_ok_def)
  have "node_ok (alloc h x) root (d(brk h := k)) q y" if y: "cells (alloc h x) q = Some y" for q y
  proof (cases "q = brk h")
    case True
    then have "y = x" using y by (simp add: cells_alloc)
    then show ?thesis using x k True root tree_ok_brk_pos [OF ok] by (simp add: node_ok_def)
  next
    case False
    then have y: "cells h q = Some y" using y by (simp add: cells_alloc)
    show ?thesis
      by (rule node_ok_mono [OF tree_okD [OF ok y]]) (use fresh y in \<open>auto simp: live_def cells_alloc parent_of_def\<close>)
  qed
  then show ?thesis using ok by (simp add: tree_ok_def)
qed

lemma tree_ok_init: "tree_ok init_bus_mux_root 1 (\<lambda>_. 0)"
  by (auto simp: tree_ok_def init_bus_mux_root_def cells_alloc node_ok_def get_empty_elem_node_def
      live_def split: if_splits)

section \<open>The children of a node as a map\<close>

text \<open>\<open>sibling_named h n t q\<close>: \<open>q\<close> is the first of the siblings from \<open>n\<close> on with the name \<open>t\<close>; \<open>sibling_unnamed h n t l\<close>:
  none has it, and \<open>l\<close> is the last.\<close>

inductive sibling_named :: "'d elem_heap \<Rightarrow> elem_addr \<Rightarrow> string \<Rightarrow> elem_addr \<Rightarrow> bool" where
  sibling_named_here: "cells h n = Some x \<Longrightarrow> n_name x = t \<Longrightarrow> sibling_named h n t n"
| sibling_named_later: "cells h n = Some x \<Longrightarrow> n_name x \<noteq> t \<Longrightarrow> n_nextSibling x \<noteq> 0 \<Longrightarrow>
    sibling_named h (n_nextSibling x) t q \<Longrightarrow> sibling_named h n t q"

inductive sibling_unnamed :: "'d elem_heap \<Rightarrow> elem_addr \<Rightarrow> string \<Rightarrow> elem_addr \<Rightarrow> bool" where
  sibling_unnamed_last: "cells h n = Some x \<Longrightarrow> n_name x \<noteq> t \<Longrightarrow> n_nextSibling x = 0 \<Longrightarrow> sibling_unnamed h n t n"
| sibling_unnamed_more: "cells h n = Some x \<Longrightarrow> n_name x \<noteq> t \<Longrightarrow> n_nextSibling x \<noteq> 0 \<Longrightarrow>
    sibling_unnamed h (n_nextSibling x) t l \<Longrightarrow> sibling_unnamed h n t l"

inductive_cases sibling_namedE: "sibling_named h n t q"
inductive_cases sibling_unnamedE: "sibling_unnamed h n t l"

lemma sibling_named_props: "sibling_named h n t q \<Longrightarrow> \<exists>x. cells h q = Some x \<and> n_name x = t"
  by (induction rule: sibling_named.induct) auto

lemma sibling_unnamed_props: "sibling_unnamed h n t l \<Longrightarrow> \<exists>x. cells h l = Some x \<and> n_nextSibling x = 0"
  by (induction rule: sibling_unnamed.induct) auto

lemma sibling_named_functional: "sibling_named h n t q \<Longrightarrow> sibling_named h n t q' \<Longrightarrow> q = q'"
  by (induction rule: sibling_named.induct) (auto elim: sibling_namedE)

lemma sibling_unnamed_functional: "sibling_unnamed h n t l \<Longrightarrow> sibling_unnamed h n t l' \<Longrightarrow> l = l'"
  by (induction rule: sibling_unnamed.induct) (auto elim: sibling_unnamedE)

lemma sibling_named_not_unnamed: "sibling_named h n t q \<Longrightarrow> sibling_unnamed h n t l \<Longrightarrow> False"
  by (induction rule: sibling_named.induct) (auto elim: sibling_unnamedE)

lemma sibling_named_depth: "sibling_named h n t q \<Longrightarrow> tree_ok h root d \<Longrightarrow> d q = d n"
  by (induction rule: sibling_named.induct) (auto dest!: tree_okD simp: node_ok_def)

lemma sibling_unnamed_depth: "sibling_unnamed h n t l \<Longrightarrow> tree_ok h root d \<Longrightarrow> d l = d n"
  by (induction rule: sibling_unnamed.induct) (auto dest!: tree_okD simp: node_ok_def)

text \<open>In a well-formed tree the search ends within the steps it is given.\<close>

lemma find_sibling_total:
  assumes ok: "tree_ok h root d"
  shows "live h n \<Longrightarrow> brk h - n \<le> k \<Longrightarrow>
    (\<exists>q x. sibling_named h n t q \<and> cells h q = Some x \<and> find_sibling k h n t = Some (True, q, n_child x)) \<or>
    (\<exists>l. sibling_unnamed h n t l \<and> find_sibling k h n t = Some (False, l, 0))"
proof (induction k arbitrary: n)
  case 0
  then show ?case using tree_okD [OF ok] by (fastforce simp: live_def node_ok_def)
next
  case (Suc k)
  then obtain x where x: "cells h n = Some x" by (auto simp: live_def)
  then have n: "node_ok h root d n x" by (rule tree_okD [OF ok])
  show ?case
  proof (cases "n_name x = t")
    case True
    then show ?thesis using x by (auto intro: sibling_named.intros)
  next
    case nm: False
    show ?thesis
    proof (cases "n_nextSibling x = 0")
      case True
      then show ?thesis using x nm by (auto intro: sibling_unnamed.intros)
    next
      case False
      with n have "live h (n_nextSibling x)" "brk h - n_nextSibling x \<le> k"
        using Suc.prems(2) by (auto simp: node_ok_def)
      from Suc.IH [OF this] show ?thesis
        using x nm False by (auto intro: sibling_named.intros sibling_unnamed.intros)
    qed
  qed
qed

lemmas find_sibling_brk = find_sibling_total [OF _ _ diff_le_self]

lemma find_sibling_named:
  assumes "tree_ok h root d" and "sibling_named h n t q" and "cells h q = Some x"
  shows "find_sibling (brk h) h n t = Some (True, q, n_child x)"
proof -
  have "live h n" using assms(2) by (auto simp: live_def elim: sibling_namedE)
  then show ?thesis
    using find_sibling_brk [OF assms(1), of n t] assms(2,3)
    by (auto dest: sibling_named_functional sibling_named_not_unnamed)
qed

lemma find_sibling_unnamed:
  assumes "tree_ok h root d" and "sibling_unnamed h n t l"
  shows "find_sibling (brk h) h n t = Some (False, l, 0)"
proof -
  have "live h n" using assms(2) by (auto simp: live_def elim: sibling_unnamedE)
  from find_sibling_brk [OF assms(1) this, of t] show ?thesis
  proof
    assume "\<exists>q x. sibling_named h n t q \<and> cells h q = Some x \<and>
      find_sibling (brk h) h n t = Some (True, q, n_child x)"
    with assms(2) show ?thesis using sibling_named_not_unnamed by blast
  next
    assume "\<exists>l. sibling_unnamed h n t l \<and> find_sibling (brk h) h n t = Some (False, l, 0)"
    with assms(2) show ?thesis using sibling_unnamed_functional by blast
  qed
qed

section \<open>Trees that extend another\<close>

text \<open>Nodes stay where they are, with their names, and a link that leads somewhere is kept.\<close>

definition extends :: "'d elem_heap \<Rightarrow> 'd elem_heap \<Rightarrow> bool" where
  "extends h h' \<longleftrightarrow>
     (\<forall>p x. cells h p = Some x \<longrightarrow>
        (\<exists>x'. cells h' p = Some x' \<and> n_name x' = n_name x \<and>
           (n_child x \<noteq> 0 \<longrightarrow> n_child x' = n_child x) \<and>
           (n_nextSibling x \<noteq> 0 \<longrightarrow> n_nextSibling x' = n_nextSibling x)))"

lemma extendsE:
  assumes "extends h h'" and "cells h p = Some x"
  obtains x' where "cells h' p = Some x'" "n_name x' = n_name x"
    "n_child x \<noteq> 0 \<Longrightarrow> n_child x' = n_child x"
    "n_nextSibling x \<noteq> 0 \<Longrightarrow> n_nextSibling x' = n_nextSibling x"
  using assms unfolding extends_def by blast

lemma extends_refl [simp]: "extends h h"
  by (simp add: extends_def)

lemma extends_trans:
  assumes "extends h h1" and "extends h1 h2"
  shows "extends h h2"
  unfolding extends_def
proof (intro allI impI)
  fix p x
  assume "cells h p = Some x"
  with assms(1) obtain y where y: "cells h1 p = Some y" "n_name y = n_name x"
    "n_child x \<noteq> 0 \<Longrightarrow> n_child y = n_child x" "n_nextSibling x \<noteq> 0 \<Longrightarrow> n_nextSibling y = n_nextSibling x"
    by (elim extendsE) blast+
  from extendsE [OF assms(2) y(1)] obtain z where "cells h2 p = Some z" "n_name z = n_name y"
    "n_child y \<noteq> 0 \<Longrightarrow> n_child z = n_child y" "n_nextSibling y \<noteq> 0 \<Longrightarrow> n_nextSibling z = n_nextSibling y"
    by blast
  with y show "\<exists>z. cells h2 p = Some z \<and> n_name z = n_name x \<and> (n_child x \<noteq> 0 \<longrightarrow> n_child z = n_child x) \<and>
    (n_nextSibling x \<noteq> 0 \<longrightarrow> n_nextSibling z = n_nextSibling x)"
    by auto
qed

lemma extends_alloc: "tree_ok h root d \<Longrightarrow> extends h (alloc h x)"
  using tree_ok_brk by (fastforce simp: extends_def cells_alloc)

lemma extends_put:
  assumes "cells h p = Some x" and "n_name x' = n_name x"
    and "n_child x \<noteq> 0 \<longrightarrow> n_child x' = n_child x"
    and "n_nextSibling x \<noteq> 0 \<longrightarrow> n_nextSibling x' = n_nextSibling x"
  shows "extends h (put h p x')"
  using assms by (auto simp: extends_def cells_put)

lemma sibling_named_extends: "sibling_named h n t q \<Longrightarrow> extends h h' \<Longrightarrow> sibling_named h' n t q"
proof (induction rule: sibling_named.induct)
  case (sibling_named_here h n x t)
  then show ?case by (metis extendsE sibling_named.sibling_named_here)
next
  case (sibling_named_later h n x t q)
  then obtain x' where "cells h' n = Some x'" "n_name x' = n_name x" "n_nextSibling x' = n_nextSibling x"
    by (metis extendsE)
  with sibling_named_later show ?case by (auto intro: sibling_named.sibling_named_later)
qed

text \<open>\<open>child_named h p t q\<close>: the token \<open>t\<close> leads from \<open>p\<close> to \<open>q\<close>; \<open>elem_path\<close>: the tokens \<open>ts\<close> do.\<close>

definition child_named :: "'d elem_heap \<Rightarrow> elem_addr \<Rightarrow> string \<Rightarrow> elem_addr \<Rightarrow> bool" where
  "child_named h p t q \<longleftrightarrow> (\<exists>x. cells h p = Some x \<and> n_child x \<noteq> 0 \<and> sibling_named h (n_child x) t q)"

fun elem_path :: "'d elem_heap \<Rightarrow> elem_addr \<Rightarrow> string list \<Rightarrow> elem_addr \<Rightarrow> bool" where
  "elem_path h p [] q \<longleftrightarrow> q = p"
| "elem_path h p (t # ts) q \<longleftrightarrow> (\<exists>r. child_named h p t r \<and> elem_path h r ts q)"

lemma child_named_extends:
  assumes "child_named h p t q" and "extends h h'"
  shows "child_named h' p t q"
proof -
  from assms(1) obtain x where x: "cells h p = Some x" "n_child x \<noteq> 0" "sibling_named h (n_child x) t q"
    by (auto simp: child_named_def)
  with assms(2) obtain x' where "cells h' p = Some x'" "n_child x' = n_child x"
    by (metis extendsE)
  then show ?thesis using sibling_named_extends [OF x(3) assms(2)] x(2) by (simp add: child_named_def)
qed

lemma elem_path_extends: "elem_path h p ts q \<Longrightarrow> extends h h' \<Longrightarrow> elem_path h' p ts q"
  by (induction ts arbitrary: p) (auto dest: child_named_extends)

lemma child_named_functional: "child_named h p t q \<Longrightarrow> child_named h p t q' \<Longrightarrow> q = q'"
  by (auto simp: child_named_def dest: sibling_named_functional)

lemma elem_path_functional: "elem_path h p ts q \<Longrightarrow> elem_path h p ts q' \<Longrightarrow> q = q'"
  by (induction ts arbitrary: p) (auto dest: child_named_functional)

lemma child_named_live: "child_named h p t q \<Longrightarrow> live h q"
  by (auto simp: child_named_def live_def dest: sibling_named_props)

lemma child_named_depth: "child_named h p t q \<Longrightarrow> tree_ok h root d \<Longrightarrow> d q = Suc (d p)"
  by (auto simp: child_named_def sibling_named_depth dest: tree_okD) (auto simp: node_ok_def dest!: tree_okD)

lemma elem_path_live: "elem_path h p ts q \<Longrightarrow> live h p \<Longrightarrow> live h q"
  by (induction ts arbitrary: p) (auto dest: child_named_live)

lemma elem_path_depth: "elem_path h p ts q \<Longrightarrow> tree_ok h root d \<Longrightarrow> d q = d p + length ts"
  by (induction ts arbitrary: p) (auto dest: child_named_depth)

lemma elem_path_append: "elem_path h p (ts @ us) q \<longleftrightarrow> (\<exists>r. elem_path h p ts r \<and> elem_path h r us q)"
  by (induction ts arbitrary: p) auto

section \<open>Lookups\<close>

lemma below_table_total:
  assumes "tree_ok h root d" and "n = 0 \<or> live h n"
  shows "\<exists>b. below_table h n = Some b"
  using assms tree_okD [OF assms(1)]
  by (fastforce simp: below_table_def live_def node_ok_def split: if_splits)

lemma next_tokens_plain:
  assumes "tree_ok h root d" and "n = 0 \<or> live h n" and "''*'' \<notin> set ts"
  shows "next_tokens h n False ts = Some (False, ts)"
  using below_table_total [OF assms(1,2)] assms(3)
  by (auto simp: next_tokens_def Let_def split: list.splits)

lemma next_tokens_total:
  assumes "tree_ok h root d" and "n = 0 \<or> live h n"
  shows "\<exists>r. next_tokens h n wild ts = Some r"
  using below_table_total [OF assms]
  by (auto simp: next_tokens_def Let_def split: list.splits)

definition child_of :: "'d elem_heap \<Rightarrow> elem_addr \<Rightarrow> elem_addr" where
  "child_of h p = (case cells h p of None \<Rightarrow> 0 | Some x \<Rightarrow> n_child x)"

lemma child_of_live: "tree_ok h root d \<Longrightarrow> child_of h p = 0 \<or> live h (child_of h p)"
  by (auto simp: child_of_def node_ok_def dest: tree_okD split: option.splits)

text \<open>One round of the lookup: the token leads on, or the search is at its end.\<close>

lemma lookup_token:
  assumes ok: "tree_ok h root d" and n: "child_of h p \<noteq> 0"
  shows "(\<exists>q. child_named h p t q \<and> find_sibling (brk h) h (child_of h p) t = Some (True, q, child_of h q)) \<or>
    (\<exists>l. sibling_unnamed h (child_of h p) t l \<and> (\<forall>q. \<not> child_named h p t q) \<and>
       find_sibling (brk h) h (child_of h p) t = Some (False, l, 0))"
proof -
  obtain x where x: "cells h p = Some x" "n_child x \<noteq> 0" "child_of h p = n_child x"
    using n by (auto simp: child_of_def split: option.splits)
  have "live h (n_child x)" using child_of_live [OF ok, of p] n x by simp
  from find_sibling_brk [OF ok this, of t] show ?thesis
  proof
    assume "\<exists>q y. sibling_named h (n_child x) t q \<and> cells h q = Some y \<and>
      find_sibling (brk h) h (n_child x) t = Some (True, q, n_child y)"
    then show ?thesis using x by (auto simp: child_named_def child_of_def)
  next
    assume "\<exists>l. sibling_unnamed h (n_child x) t l \<and> find_sibling (brk h) h (n_child x) t = Some (False, l, 0)"
    then show ?thesis using x by (auto simp: child_named_def dest: sibling_named_not_unnamed)
  qed
qed

lemma child_named_none: "child_of h p = 0 \<Longrightarrow> \<not> child_named h p t q"
  by (auto simp: child_named_def child_of_def)

lemma retrieve_loop_path:
  assumes "tree_ok h root d" and "elem_path h p ts q" and "''*'' \<notin> set ts" and "ts = [] \<longrightarrow> found"
  shows "retrieve_loop h ts p (child_of h p) found False = Some q"
  using assms(2-)
proof (induction ts arbitrary: p found)
  case (Cons t ts)
  then obtain r where r: "child_named h p t r" "elem_path h r ts q" by auto
  then have n: "child_of h p \<noteq> 0" using child_named_none by metis
  then have "find_sibling (brk h) h (child_of h p) t = Some (True, r, child_of h r)"
    using lookup_token [OF assms(1) n, of t] r(1) by (auto dest: child_named_functional)
  moreover have "next_tokens h (child_of h r) False ts = Some (False, ts)"
    using next_tokens_plain [OF assms(1) child_of_live [OF assms(1)]] Cons.prems(2) by simp
  ultimately show ?case using n r Cons.IH [OF r(2)] Cons.prems(2) by simp
qed simp

lemma retrieve_loop_no_path:
  assumes "tree_ok h root d" and "\<forall>q. \<not> elem_path h p ts q" and "''*'' \<notin> set ts"
  shows "retrieve_loop h ts p (child_of h p) found False = Some 0"
  using assms(2-)
proof (induction ts arbitrary: p found)
  case (Cons t ts)
  show ?case
  proof (cases "child_of h p = 0")
    case False
    from lookup_token [OF assms(1) False, of t] show ?thesis
    proof
      assume "\<exists>q. child_named h p t q \<and>
        find_sibling (brk h) h (child_of h p) t = Some (True, q, child_of h q)"
      then obtain r where r: "child_named h p t r"
        "find_sibling (brk h) h (child_of h p) t = Some (True, r, child_of h r)" by auto
      moreover have "next_tokens h (child_of h r) False ts = Some (False, ts)"
        using next_tokens_plain [OF assms(1) child_of_live [OF assms(1)]] Cons.prems(2) by simp
      moreover have "\<forall>q. \<not> elem_path h r ts q" using Cons.prems(1) r(1) by auto
      ultimately show ?thesis using False Cons.IH Cons.prems(2) by simp
    next
      assume "\<exists>l. sibling_unnamed h (child_of h p) t l \<and> (\<forall>q. \<not> child_named h p t q) \<and>
        find_sibling (brk h) h (child_of h p) t = Some (False, l, 0)"
      then obtain l where "find_sibling (brk h) h (child_of h p) t = Some (False, l, 0)" by auto
      then show ?thesis
        using False next_tokens_plain [OF assms(1), of 0 ts] Cons.prems(2) by (cases ts) auto
    qed
  qed simp
qed simp

text \<open>With wild cards too, a lookup in a well-formed tree is defined.\<close>

lemma retrieve_loop_total:
  assumes "tree_ok h root d" and "n = 0 \<or> live h n" and "live h c"
  shows "\<exists>q. retrieve_loop h ts c n found wild = Some q \<and> (q = 0 \<or> live h q)"
  using assms(2,3)
proof (induction "length ts" arbitrary: ts c n found wild)
  case 0
  then show ?case by simp
next
  case (Suc k)
  then obtain t us where ts: "ts = t # us" "k = length us" by (cases ts) auto
  show ?case
  proof (cases "n = 0")
    case False
    with Suc.prems have n: "live h n" by simp
    obtain b c' n' where f: "find_sibling (brk h) h n t = Some (b, c', n')"
      and n': "n' = 0 \<or> live h n'" and c': "live h c'"
    proof -
      from find_sibling_brk [OF assms(1) n, of t] show thesis
      proof
        assume "\<exists>q x. sibling_named h n t q \<and> cells h q = Some x \<and>
          find_sibling (brk h) h n t = Some (True, q, n_child x)"
        then obtain q x where q: "cells h q = Some x"
          "find_sibling (brk h) h n t = Some (True, q, n_child x)" by blast
        then have "live h q" by (simp add: live_def)
        then show thesis using that [OF q(2)] tree_okD [OF assms(1) q(1)] by (auto simp: node_ok_def)
      next
        assume "\<exists>l. sibling_unnamed h n t l \<and> find_sibling (brk h) h n t = Some (False, l, 0)"
        then obtain l where l: "sibling_unnamed h n t l" "find_sibling (brk h) h n t = Some (False, l, 0)" by blast
        then show thesis using that [OF l(2)] sibling_unnamed_props [OF l(1)] by (auto simp: live_def)
      qed
    qed
    obtain w us' where "next_tokens h n' wild us = Some (w, us')"
      using next_tokens_total [OF assms(1) n', of wild us] by auto
    then show ?thesis using f False ts Suc.hyps(1) [of us' n' c' b w] n' c'
      by (simp add: next_tokens_length)
  qed (simp add: ts)
qed

end
