(* ===== verification/Bus_Tree_Entry.thy ===== *)
theory Bus_Tree_Entry
  imports Bus_Tree_Facts
begin

text \<open>
  Entering elements and rows in a well-formed tree: every step is defined, keeps the tree well formed
  and everything found before, and finds what it entered.
\<close>

section \<open>Steps of an entry\<close>

definition tree_wf :: "'d elem_heap \<Rightarrow> elem_addr \<Rightarrow> bool" where
  "tree_wf h root \<longleftrightarrow> (\<exists>d. tree_ok h root d)"

definition same_data :: "'d elem_heap \<Rightarrow> 'd elem_heap \<Rightarrow> bool" where
  "same_data h h' \<longleftrightarrow>
     (\<forall>p x. cells h p = Some x \<longrightarrow>
        (\<exists>x'. cells h' p = Some x' \<and> n_type x' = n_type x \<and> (n_data x \<noteq> None \<longrightarrow> n_data x' = n_data x)))"

lemma same_data_refl [simp]: "same_data h h"
  by (simp add: same_data_def)

lemma same_data_trans: "same_data h h1 \<Longrightarrow> same_data h1 h2 \<Longrightarrow> same_data h h2"
  unfolding same_data_def by metis

lemma same_data_alloc: "tree_ok h root d \<Longrightarrow> same_data h (alloc h x)"
  using tree_ok_brk by (fastforce simp: same_data_def cells_alloc)

lemma same_data_put:
  "cells h p = Some x \<Longrightarrow> n_type x' = n_type x \<Longrightarrow> n_data x \<noteq> None \<longrightarrow> n_data x' = n_data x \<Longrightarrow> same_data h (put h p x')"
  by (auto simp: same_data_def cells_put)

text \<open>A step from \<open>h\<close> to \<open>h'\<close> that only adds.\<close>

definition adds :: "elem_addr \<Rightarrow> 'd elem_heap \<Rightarrow> 'd elem_heap \<Rightarrow> bool" where
  "adds root h h' \<longleftrightarrow> tree_wf h' root \<and> extends h h' \<and> same_data h h'"

lemma adds_refl: "tree_wf h root \<Longrightarrow> adds root h h"
  by (simp add: adds_def)

lemma adds_trans: "adds root h h1 \<Longrightarrow> adds root h1 h2 \<Longrightarrow> adds root h h2"
  by (auto simp: adds_def intro: extends_trans same_data_trans)

lemma adds_put:
  assumes "tree_ok h root d" and "cells h p = Some x" and "node_ok h root d p x'"
    and "n_name x' = n_name x" and "n_type x' = n_type x" and "n_data x \<noteq> None \<longrightarrow> n_data x' = n_data x"
    and "n_child x \<noteq> 0 \<longrightarrow> n_child x' = n_child x"
    and "n_nextSibling x \<noteq> 0 \<longrightarrow> n_nextSibling x' = n_nextSibling x" and "n_parent x' = n_parent x"
  shows "adds root h (put h p x')"
  using assms tree_ok_put [OF assms(1) _ assms(3)] extends_put [OF assms(2,4,7,8)]
    same_data_put [OF assms(2,5,6)]
  by (auto simp: adds_def tree_wf_def live_def parent_of_def)

lemma adds_alloc:
  assumes "tree_ok h root d" and "n_nextSibling x = 0" and "n_child x = 0" and "live h (n_parent x)"
  shows "adds root h (alloc h x)"
  using tree_ok_alloc [OF assms, of 1] extends_alloc [OF assms(1)] same_data_alloc [OF assms(1)]
  by (auto simp: adds_def tree_wf_def)

text \<open>The chain from \<open>n\<close> to its last sibling \<open>l\<close> is continued by a node with the name \<open>t\<close>.\<close>

lemma sibling_named_continued:
  assumes "sibling_unnamed h n t l" and "\<And>p. p \<noteq> l \<Longrightarrow> cells h p \<noteq> None \<Longrightarrow> cells h' p = cells h p"
    and "cells h' l = Some x'" and "\<exists>x. cells h l = Some x \<and> n_name x' = n_name x"
    and "n_nextSibling x' = a" and "a \<noteq> 0" and "cells h' a = Some y" and "n_name y = t"
  shows "sibling_named h' n t a"
  using assms
proof (induction rule: sibling_unnamed.induct)
  case (sibling_unnamed_last h n x t)
  then obtain z where z: "cells h n = Some z" "n_name x' = n_name z" by blast
  have "sibling_named h' a t a" using sibling_unnamed_last.prems(6,7) by (rule sibling_named.sibling_named_here)
  then show ?case
    using z sibling_unnamed_last by (auto intro: sibling_named.sibling_named_later [of h' n x'])
next
  case (sibling_unnamed_more h n x t l)
  have "n \<noteq> l" using sibling_unnamed_props [OF sibling_unnamed_more.hyps(4)] sibling_unnamed_more.hyps(1,3) by auto
  then have "cells h' n = Some x" using sibling_unnamed_more.prems(1) sibling_unnamed_more.hyps(1) by simp
  then show ?case using sibling_unnamed_more by (auto intro: sibling_named.sibling_named_later)
qed

lemma append_sibling_adds:
  assumes ok: "tree_ok h root d" and l: "sibling_unnamed h n t l" and n: "d n \<noteq> 0"
    and t: "length t < node_name_size sz"
  shows "\<exists>h'. append_sibling sz h l t = Some (h', brk h) \<and> adds root h h' \<and> sibling_named h' n t (brk h) \<and>
    child_of h' (brk h) = 0"
proof -
  obtain x where x: "cells h l = Some x" "n_nextSibling x = 0" using sibling_unnamed_props [OF l] by auto
  have dl: "d l \<noteq> 0" using sibling_unnamed_depth [OF l ok] n by simp
  have xl: "node_ok h root d l x" using tree_okD [OF ok x(1)] .
  then have lr: "l \<noteq> root" "live h (n_parent x)" using dl by (auto simp: node_ok_def split: if_splits)
  then obtain p where p: "cells h (n_parent x) = Some p" by (auto simp: live_def)
  define temp :: "'a elem_node" where "temp = get_empty_elem_node\<lparr>n_parent := n_parent x,
    n_full_name := snprintf_store (node_full_name_size sz)
      (snprintf_store 256 (if n_full_name p \<noteq> [] then n_full_name p @ ''.'' @ t else t)), n_name := t\<rparr>"
  have tmp: "n_nextSibling temp = 0" "n_child temp = 0" "n_parent temp = n_parent x" "n_name temp = t"
    by (simp_all add: temp_def get_empty_elem_node_def)
  define h1 where "h1 = alloc h temp"
  define d1 where "d1 = d(brk h := d l)"
  have fresh: "cells h (brk h) = None" by (rule tree_ok_brk [OF ok])
  have ok1: "tree_ok h1 root d1"
    unfolding h1_def d1_def by (rule tree_ok_alloc [OF ok]) (use tmp lr dl in auto)
  have x1: "cells h1 l = Some x" using x(1) fresh by (auto simp: h1_def cells_alloc)
  define h2 where "h2 = put h1 l (x\<lparr>n_nextSibling := brk h\<rparr>)"
  have "node_ok h1 root d1 l (x\<lparr>n_nextSibling := brk h\<rparr>)"
    using tree_okD [OF ok1 x1] xl lr(1) fresh x(1)
    by (auto simp: node_ok_def d1_def h1_def parent_of_def cells_alloc tmp)
  then have "adds root h1 h2"
    unfolding h2_def by (rule adds_put [OF ok1 x1]) (simp_all add: x(2))
  moreover have "adds root h h1"
    unfolding h1_def by (rule adds_alloc [OF ok]) (use tmp lr in auto)
  ultimately have "adds root h h2" by (blast intro: adds_trans)
  moreover have "append_sibling sz h l t = Some (h2, brk h)"
    using x(1) p x1 t
    by (simp add: append_sibling_def change_Some h2_def h1_def temp_def snprintf_store_fits Let_def change_def)
  moreover have nb: "brk h \<noteq> l" using x(1) fresh by auto
  have c2: "cells h2 (brk h) = Some temp" using nb by (simp add: h2_def h1_def cells_put cells_alloc)
  then have "child_of h2 (brk h) = 0" using tmp by (simp add: child_of_def)
  moreover have "sibling_named h2 n t (brk h)"
    by (rule sibling_named_continued [OF l, where x' = "x\<lparr>n_nextSibling := brk h\<rparr>" and y = temp])
      (use x(1) fresh c2 tmp tree_ok_brk_pos [OF ok] in \<open>auto simp: h2_def h1_def cells_put cells_alloc\<close>)
  ultimately show ?thesis by blast
qed

text \<open>Linking the rows of a table to the children of the template.\<close>

lemma link_rows_adds:
  assumes "tree_ok h root d" and "n = 0 \<or> live h n \<and> d n = k'" and "n \<noteq> 0 \<Longrightarrow> brk h - n \<le> k" and "ref \<noteq> 0 \<and> live h ref \<and> d ref = Suc k'"
  shows "\<exists>h'. link_rows k h ref n = Some h' \<and> tree_ok h' root d \<and> extends h h' \<and> same_data h h' \<and>
    (\<forall>p. d p \<noteq> k' \<longrightarrow> cells h' p = cells h p)"
  using assms
proof (induction k arbitrary: h n)
  case 0
  have "n = 0"
  proof (rule ccontr)
    assume "n \<noteq> 0"
    then obtain x where "cells h n = Some x" using "0.prems"(2) by (auto simp: live_def)
    then show False using tree_okD [OF "0.prems"(1)] "0.prems"(3) by (fastforce simp: node_ok_def)
  qed
  then show ?case using "0.prems"(1) by (simp add: link_rows.simps)
next
  case (Suc k)
  show ?case
  proof (cases "n = 0")
    case False
    then obtain x where x: "cells h n = Some x" "d n = k'" using Suc.prems(2) by (auto simp: live_def)
    have xo: "node_ok h root d n x" by (rule tree_okD [OF Suc.prems(1) x(1)])
    define h1 where "h1 = (if n_child x = 0 \<and> is_string_digit (n_name x)
      then put h n (x\<lparr>n_child := ref, n_reference := True\<rparr>) else h)"
    have xo1: "node_ok h root d n (x\<lparr>n_child := ref, n_reference := True\<rparr>)"
      using xo Suc.prems(4) x(2) by (auto simp: node_ok_def)
    have ok1: "tree_ok h1 root d"
      using Suc.prems(1) tree_ok_put [OF Suc.prems(1) _ xo1] x(1) by (auto simp: h1_def live_def parent_of_def)
    have e1: "extends h h1 \<and> same_data h h1"
      using x(1) by (auto simp: h1_def intro: extends_put same_data_put)
    have b: "brk h1 = brk h" by (simp add: h1_def)
    have l1: "live h1 q \<longleftrightarrow> live h q" for q using x(1) by (auto simp: h1_def live_def cells_put)
    have "n_nextSibling x = 0 \<or> live h1 (n_nextSibling x) \<and> d (n_nextSibling x) = k'"
      "n_nextSibling x \<noteq> 0 \<Longrightarrow> brk h1 - n_nextSibling x \<le> k"
      using xo x(2) Suc.prems(3) False by (auto simp: l1 b node_ok_def)
    from Suc.IH [OF ok1 this] obtain h' where h': "link_rows k h1 ref (n_nextSibling x) = Some h'"
      "tree_ok h' root d" "extends h1 h'" "same_data h1 h'" "\<forall>p. d p \<noteq> k' \<longrightarrow> cells h' p = cells h1 p"
      using Suc.prems(4) by (auto simp: l1)
    moreover have "link_rows (Suc k) h ref n = Some h'"
      using False x(1) h'(1) by (simp add: link_rows.simps [of "Suc k"] h1_def)
    moreover have "\<forall>p. d p \<noteq> k' \<longrightarrow> cells h1 p = cells h p"
      using x(2) by (auto simp: h1_def cells_put)
    ultimately show ?thesis using e1 by (metis extends_trans same_data_trans)
  qed (use Suc.prems in \<open>simp add: link_rows.simps\<close>)
qed

lemma create_first_child_adds:
  assumes ok: "tree_ok h root d" and c: "cells h cur = Some c" "n_child c = 0"
    and t: "length t < node_name_size sz"
  shows "\<exists>h'. create_first_child sz h root cur t = Some (h', brk h) \<and> adds root h h' \<and>
    child_named h' cur t (brk h) \<and> child_of h' (brk h) = 0"
proof -
  have co: "node_ok h root d cur c" by (rule tree_okD [OF ok c(1)])
  have fresh: "cells h (brk h) = None" by (rule tree_ok_brk [OF ok])
  then have nb: "cur \<noteq> brk h" using c(1) by auto
  define temp :: "'a elem_node" where "temp = get_empty_elem_node\<lparr>n_parent := cur,
    n_full_name := snprintf_store (node_full_name_size sz)
      (if cur = root then t else snprintf_store 256 (n_full_name c @ ''.'' @ t)), n_name := t\<rparr>"
  have tmp: "n_nextSibling temp = 0" "n_child temp = 0" "n_parent temp = cur" "n_name temp = t"
    by (simp_all add: temp_def get_empty_elem_node_def)
  define h1 where "h1 = alloc h temp"
  define d1 where "d1 = d(brk h := Suc (d cur))"
  have ok1: "tree_ok h1 root d1"
    unfolding h1_def d1_def by (rule tree_ok_alloc [OF ok]) (use tmp c in \<open>auto simp: live_def\<close>)
  have c1: "cells h1 cur = Some c" using c(1) nb by (simp add: h1_def cells_alloc)
  define h2 where "h2 = put h1 cur (c\<lparr>n_child := brk h\<rparr>)"
  have co2: "node_ok h1 root d1 cur (c\<lparr>n_child := brk h\<rparr>)"
  proof -
    have "live h1 (brk h)" "parent_of h1 (brk h) = cur" "d1 (brk h) = Suc (d1 cur)"
      using nb by (simp_all add: h1_def parent_of_def cells_alloc tmp d1_def)
    then show ?thesis using tree_okD [OF ok1 c1] by (auto simp: node_ok_def)
  qed
  have ok2: "tree_ok h2 root d1"
    unfolding h2_def by (rule tree_ok_put [OF ok1 _ co2]) (simp_all add: live_def parent_of_def c1)
  have a2: "adds root h h2"
    using adds_alloc [OF ok, of temp] adds_put [OF ok1 c1 co2] tmp c
    by (auto simp: h2_def h1_def live_def intro: adds_trans)
  have c2: "cells h2 cur = Some (c\<lparr>n_child := brk h\<rparr>)" "cells h2 (brk h) = Some temp"
    using nb by (simp_all add: h2_def h1_def cells_put cells_alloc)
  have n2: "child_named h2 cur t (brk h)"
    using c2 tmp(4) tree_ok_brk_pos [OF ok] by (auto simp: child_named_def intro: sibling_named.sibling_named_here)
  obtain b where b: "is_grandparent_node_elem_is_table h2 cur = Some b"
    using tree_okD [OF ok2 c2(1)]
    by (fastforce simp: is_grandparent_node_elem_is_table_def c2(1) node_ok_def live_def split: if_splits)
  have "\<exists>h'. (if b then link_tables_with_node h2 cur else Some h2) = Some h' \<and> adds root h2 h' \<and>
    cells h' (brk h) = cells h2 (brk h)"
  proof (cases b)
    case True
    have "n_nextSibling c = 0 \<or> live h2 (n_nextSibling c) \<and> d1 (n_nextSibling c) = d1 cur"
      using tree_okD [OF ok2 c2(1)] by (auto simp: node_ok_def)
    moreover have "brk h \<noteq> 0 \<and> live h2 (brk h) \<and> d1 (brk h) = Suc (d1 cur)"
      using tree_ok_brk_pos [OF ok] nb c2(2) by (simp add: live_def d1_def)
    ultimately obtain h' where "link_rows (brk h2) h2 (brk h) (n_nextSibling c) = Some h'"
      "tree_ok h' root d1" "extends h2 h'" "same_data h2 h'" "\<forall>p. d1 p \<noteq> d1 cur \<longrightarrow> cells h' p = cells h2 p"
      using link_rows_adds [OF ok2, of "n_nextSibling c" "d1 cur" "brk h2" "brk h"] by auto
    moreover have "d1 (brk h) \<noteq> d1 cur" using nb by (simp add: d1_def)
    ultimately show ?thesis
      using True by (auto simp: link_tables_with_node_def c2(1) adds_def tree_wf_def)
  qed (use ok2 adds_refl [of h2 root] in \<open>auto simp: tree_wf_def\<close>)
  then obtain h' where h': "(if b then link_tables_with_node h2 cur else Some h2) = Some h'"
    "adds root h2 h'" "cells h' (brk h) = Some temp"
    using c2(2) by auto
  have "create_first_child sz h root cur t = Some (h', brk h)"
    using c(1) c1 b h'(1) t
    by (cases b; cases "cur = root";
      simp add: create_first_child_def change_def h2_def h1_def temp_def snprintf_store_fits Let_def)
  moreover have "child_named h' cur t (brk h)"
    using child_named_extends [OF n2] h'(2) by (simp add: adds_def)
  moreover have "child_of h' (brk h) = 0" using h'(3) tmp(2) by (simp add: child_of_def)
  ultimately show ?thesis using adds_trans [OF a2 h'(2)] by blast
qed

text \<open>One token: afterwards it leads from the current node to the next one.\<close>

lemma insert_token_adds:
  assumes wf: "tree_wf h root" and p: "live h p" and t: "length t < node_name_size sz"
  shows "\<exists>h' q. insert_token sz root t (h, p, child_of h p) = Some (h', q, child_of h' q) \<and>
    adds root h h' \<and> child_named h' p t q"
proof -
  obtain d where ok: "tree_ok h root d" using wf by (auto simp: tree_wf_def)
  obtain x where x: "cells h p = Some x" using p by (auto simp: live_def)
  show ?thesis
  proof (cases "child_of h p = 0")
    case True
    then obtain h' where "create_first_child sz h root p t = Some (h', brk h)" "adds root h h'"
      "child_named h' p t (brk h)" "child_of h' (brk h) = 0"
      using create_first_child_adds [OF ok x _ t] x by (auto simp: child_of_def)
    then show ?thesis using True by (auto simp: insert_token_def)
  next
    case False
    from lookup_token [OF ok False, of t] show ?thesis
    proof
      assume "\<exists>q. child_named h p t q \<and>
        find_sibling (brk h) h (child_of h p) t = Some (True, q, child_of h q)"
      then show ?thesis using False adds_refl [OF wf] by (auto simp: insert_token_def)
    next
      assume "\<exists>l. sibling_unnamed h (child_of h p) t l \<and> (\<forall>q. \<not> child_named h p t q) \<and>
        find_sibling (brk h) h (child_of h p) t = Some (False, l, 0)"
      then obtain l where l: "sibling_unnamed h (child_of h p) t l"
        "find_sibling (brk h) h (child_of h p) t = Some (False, l, 0)" by auto
      have "d (child_of h p) \<noteq> 0"
        using tree_okD [OF ok x] False x by (simp add: node_ok_def child_of_def)
      from append_sibling_adds [OF ok l(1) this t] obtain h' where h': "append_sibling sz h l t = Some (h', brk h)"
        "adds root h h'" "sibling_named h' (child_of h p) t (brk h)" "child_of h' (brk h) = 0" by blast
      obtain x' where "cells h' p = Some x'" "n_child x' = n_child x"
        using h'(2) x False by (auto simp: adds_def child_of_def elim!: extendsE)
      then have "child_named h' p t (brk h)"
        using h'(3) x False by (simp add: child_named_def child_of_def)
      then show ?thesis using False l(2) h' by (auto simp: insert_token_def)
    qed
  qed
qed

lemma insert_tokens_adds:
  assumes "tree_wf h root" and "live h p" and "\<forall>t \<in> set ts. length t < node_name_size sz"
  shows "\<exists>h' q. insert_tokens sz root ts (h, p, child_of h p) = Some (h', q, child_of h' q) \<and>
    adds root h h' \<and> elem_path h' p ts q"
  using assms
proof (induction ts arbitrary: h p)
  case Nil
  then show ?case by (auto intro: adds_refl)
next
  case (Cons t ts)
  from insert_token_adds [OF Cons.prems(1,2)] Cons.prems(3) obtain h1 r where
    h1: "insert_token sz root t (h, p, child_of h p) = Some (h1, r, child_of h1 r)"
      "adds root h h1" "child_named h1 p t r" by fastforce
  moreover have "tree_wf h1 root" using h1(2) by (simp add: adds_def)
  ultimately obtain h' q where "insert_tokens sz root ts (h1, r, child_of h1 r) = Some (h', q, child_of h' q)"
    "adds root h1 h'" "elem_path h' r ts q"
    using Cons.IH [of h1 r] Cons.prems(3) child_named_live by fastforce
  moreover from this have "child_named h' p t r" using child_named_extends [OF h1(3)] by (simp add: adds_def)
  ultimately show ?case using h1 adds_trans by fastforce
qed

section \<open>Registering an element\<close>

text \<open>Links other than the child of \<open>c\<close> are kept.\<close>

definition extends_but :: "elem_addr \<Rightarrow> 'd elem_heap \<Rightarrow> 'd elem_heap \<Rightarrow> bool" where
  "extends_but c h h' \<longleftrightarrow>
     (\<forall>p x. cells h p = Some x \<longrightarrow>
        (\<exists>x'. cells h' p = Some x' \<and> n_name x' = n_name x \<and>
           (p \<noteq> c \<longrightarrow> n_child x' = n_child x) \<and> n_nextSibling x' = n_nextSibling x))"

lemma sibling_named_extends_but: "sibling_named h n t q \<Longrightarrow> extends_but c h h' \<Longrightarrow> sibling_named h' n t q"
proof (induction rule: sibling_named.induct)
  case (sibling_named_here h n x t)
  then show ?case unfolding extends_but_def by (metis sibling_named.sibling_named_here)
next
  case (sibling_named_later h n x t q)
  then obtain x' where "cells h' n = Some x'" "n_name x' = n_name x" "n_nextSibling x' = n_nextSibling x"
    unfolding extends_but_def by metis
  with sibling_named_later show ?case by (auto intro: sibling_named.sibling_named_later)
qed

lemma child_named_extends_but:
  assumes "child_named h p t q" and "extends_but c h h'" and "p \<noteq> c"
  shows "child_named h' p t q"
proof -
  from assms(1) obtain x where x: "cells h p = Some x" "n_child x \<noteq> 0" "sibling_named h (n_child x) t q"
    by (auto simp: child_named_def)
  with assms(2,3) obtain x' where "cells h' p = Some x'" "n_child x' = n_child x"
    unfolding extends_but_def by metis
  then show ?thesis using sibling_named_extends_but [OF x(3) assms(2)] x(2) by (simp add: child_named_def)
qed

text \<open>The path to a node does not use the node's child.\<close>

lemma elem_path_extends_but:
  assumes "tree_ok h root d" and "elem_path h p ts q" and "extends_but c h h'" and "d q \<le> d c"
  shows "elem_path h' p ts q"
  using assms(2)
proof (induction ts arbitrary: p)
  case (Cons t ts)
  then obtain r where r: "child_named h p t r" "elem_path h r ts q" by auto
  have "d r = Suc (d p)" "d q = d r + length ts"
    using child_named_depth [OF r(1) assms(1)] elem_path_depth [OF r(2) assms(1)] by auto
  then have "p \<noteq> c" using assms(4) by auto
  then show ?case using Cons.IH [OF r(2)] child_named_extends_but [OF r(1) assms(3)] by auto
qed simp

lemma fill_elem_node_wf:
  assumes ok: "tree_ok h root d" and c: "cells h cur = Some c"
  shows "\<exists>h' x. fill_elem_node sz h cur elem = Some h' \<and> tree_wf h' root \<and> extends_but cur h h' \<and>
    cells h' cur = Some x \<and> n_data x = Some (m_cfg_data elem) \<and> n_type x = m_type elem \<and>
    (m_type elem \<noteq> elem_type_table \<longrightarrow> n_child x = n_child c) \<and>
    (m_type elem = elem_type_table \<longrightarrow> (\<exists>y. n_child x = brk h \<and> cells h' (brk h) = Some y \<and>
       n_name y = snprintf_store (node_name_size sz) ''{i}'' \<and> n_child y = 0 \<and> n_nextSibling y = 0)) \<and>
    (\<forall>p x. p \<noteq> cur \<longrightarrow> cells h p = Some x \<longrightarrow> cells h' p = Some x)"
proof -
  define c1 where "c1 = c\<lparr>n_type := m_type elem, n_data_type := m_data_type elem,
    n_data := Some (m_cfg_data elem), n_data_len := m_cfg_data_len elem, n_strings := m_strings elem\<rparr>"
  define h1 where "h1 = put h cur c1"
  have co: "node_ok h root d cur c1" using tree_okD [OF ok c] by (auto simp: node_ok_def c1_def)
  have ok1: "tree_ok h1 root d"
    unfolding h1_def by (rule tree_ok_put [OF ok _ co]) (simp_all add: live_def c parent_of_def c1_def)
  have c1: "cells h1 cur = Some c1" by (simp add: h1_def cells_put)
  have fresh: "cells h (brk h) = None" by (rule tree_ok_brk [OF ok])
  then have nb: "cur \<noteq> brk h" using c by auto
  show ?thesis
  proof (cases "m_type elem = elem_type_table")
    case False
    then have "fill_elem_node sz h cur elem = Some h1"
      using c by (simp add: fill_elem_node_def change_def h1_def c1_def)
    then show ?thesis
      using ok1 c1 False c by (fastforce simp: tree_wf_def extends_but_def h1_def cells_put c1_def)
  next
    case True
    define template_name where "template_name = snprintf_store (node_name_size sz) ''{i}''"
    define temp :: "'a elem_node" where "temp = get_empty_elem_node\<lparr>n_parent := cur, n_name := template_name,
      n_full_name := snprintf_store (node_full_name_size sz)
        (snprintf_store 256 (n_full_name c @ ''.'' @ template_name))\<rparr>"
    have tmp: "n_nextSibling temp = 0" "n_child temp = 0" "n_parent temp = cur" "n_name temp = template_name"
      by (simp_all add: temp_def get_empty_elem_node_def)
    define h2 where "h2 = alloc h1 temp"
    define d2 where "d2 = d(brk h1 := Suc (d cur))"
    have b1: "brk h1 = brk h" by (simp add: h1_def)
    have ok2: "tree_ok h2 root d2"
      unfolding h2_def d2_def by (rule tree_ok_alloc [OF ok1]) (use tmp c1 in \<open>auto simp: live_def\<close>)
    have c2: "cells h2 cur = Some c1" using c1 nb by (simp add: h2_def cells_alloc b1)
    define h3 where "h3 = put h2 cur (c1\<lparr>n_child := brk h\<rparr>)"
    have "live h2 (brk h)" "parent_of h2 (brk h) = cur" "d2 (brk h) = Suc (d2 cur)"
      using nb by (simp_all add: h2_def parent_of_def cells_alloc tmp d2_def b1)
    then have n3: "node_ok h2 root d2 cur (c1\<lparr>n_child := brk h\<rparr>)"
      using tree_okD [OF ok2 c2] by (auto simp: node_ok_def)
    have ok3: "tree_ok h3 root d2"
      unfolding h3_def by (rule tree_ok_put [OF ok2 _ n3]) (simp_all add: live_def parent_of_def c2)
    have "fill_elem_node sz h cur elem = Some h3"
      using True c c2 unfolding fill_elem_node_def
      by (simp add: change_def h3_def h2_def h1_def c1_def temp_def template_name_def cells_put Let_def)
    moreover have "cells h3 cur = Some (c1\<lparr>n_child := brk h\<rparr>)" "cells h3 (brk h) = Some temp"
      using nb by (simp_all add: h3_def h2_def cells_put cells_alloc b1)
    moreover have old: "cells h3 p = Some x" if "p \<noteq> cur" "cells h p = Some x" for p x
      using that fresh by (auto simp: h3_def h2_def h1_def cells_put cells_alloc)
    moreover have "extends_but cur h h3"
      unfolding extends_but_def
    proof (intro allI impI)
      fix p x
      assume p: "cells h p = Some x"
      show "\<exists>x'. cells h3 p = Some x' \<and> n_name x' = n_name x \<and>
        (p \<noteq> cur \<longrightarrow> n_child x' = n_child x) \<and> n_nextSibling x' = n_nextSibling x"
        using p old [OF _ p] c by (cases "p = cur") (auto simp: h3_def cells_put c1_def)
    qed
    ultimately show ?thesis using ok3 True tmp
      by (auto simp: tree_wf_def c1_def template_name_def)
  qed
qed

section \<open>Lookups by name\<close>

definition plain_name :: "bus_sizes \<Rightarrow> string \<Rightarrow> bool" where
  "plain_name sz s \<longleftrightarrow> length s < bus_name_size sz - 1 \<and> dot_tokens s \<noteq> [] \<and> ''*'' \<notin> set (dot_tokens s)"

lemma get_bus_node_info_loop:
  assumes "length s < bus_name_size sz - 1" and "tree_ok h root d"
  shows "get_bus_node_info sz h root s = retrieve_loop h (dot_tokens s) root (child_of h root) False False"
proof -
  obtain x where "cells h root = Some x" using assms(2) by (auto simp: tree_ok_def live_def)
  moreover have "snprintf_store (bus_name_size sz) s = s" using assms(1) by (intro snprintf_store_fits) simp
  ultimately show ?thesis using assms tree_ok_root [OF assms(2)]
    by (simp add: get_bus_node_info_def retrieve_instance_elem_node_def copy_name_def child_of_def)
qed

lemma get_bus_node_info_path:
  assumes "plain_name sz s" and "tree_wf h root" and "elem_path h root (dot_tokens s) q"
  shows "get_bus_node_info sz h root s = Some q"
proof -
  obtain d where d: "tree_ok h root d" using assms(2) by (auto simp: tree_wf_def)
  show ?thesis using retrieve_loop_path [OF d assms(3)] get_bus_node_info_loop [OF _ d] assms(1)
    by (simp add: plain_name_def)
qed

lemma get_bus_node_info_no_path:
  assumes "plain_name sz s" and "tree_wf h root" and "\<forall>q. \<not> elem_path h root (dot_tokens s) q"
  shows "get_bus_node_info sz h root s = Some 0"
proof -
  obtain d where d: "tree_ok h root d" using assms(2) by (auto simp: tree_wf_def)
  show ?thesis using retrieve_loop_no_path [OF d assms(3)] get_bus_node_info_loop [OF _ d] assms(1)
    by (simp add: plain_name_def)
qed

lemma get_bus_node_info_iff:
  assumes "plain_name sz s" and "tree_wf h root"
  shows "get_bus_node_info sz h root s = Some q \<longleftrightarrow>
    elem_path h root (dot_tokens s) q \<or> q = 0 \<and> (\<forall>p. \<not> elem_path h root (dot_tokens s) p)"
  using get_bus_node_info_path [OF assms] get_bus_node_info_no_path [OF assms]
  by (metis elem_path_functional option.inject)

lemma elem_path_not_null:
  assumes "tree_wf h root" and "elem_path h root ts q"
  shows "q \<noteq> 0 \<and> live h q"
proof -
  obtain d where d: "tree_ok h root d" using assms(1) by (auto simp: tree_wf_def)
  then have "live h q" using elem_path_live [OF assms(2)] by (simp add: tree_ok_def)
  then show ?thesis using live_not_null [OF d] by simp
qed

section \<open>Registering an element\<close>

definition elem_tokens :: "'d mux_data_elem \<Rightarrow> string list" where
  "elem_tokens e = dot_tokens (strip_row_marker (m_type e) (m_full_name e))"

text \<open>The name fits the buffers.\<close>

definition elem_fits :: "bus_sizes \<Rightarrow> 'd mux_data_elem \<Rightarrow> bool" where
  "elem_fits sz e \<longleftrightarrow> length (m_full_name e) < bus_name_size sz - 1 \<and>
     list_all (\<lambda>t. length t < node_name_size sz) (elem_tokens e)"

lemma strip_row_marker_length: "length (strip_row_marker ty s) \<le> length s"
  by (simp add: strip_row_marker_def Let_def)

lemma bus_insert_elem_node_wf:
  assumes wf: "tree_wf h root" and e: "elem_fits sz e"
  obtains h1 h' p c x where "bus_insert_elem_node sz h root e = Some (h', p)" "adds root h h1"
    "elem_path h1 root (elem_tokens e) p" "elem_path h' root (elem_tokens e) p"
    "tree_wf h' root" "extends_but p h1 h'" "cells h1 p = Some c" "cells h' p = Some x"
    "n_data x = Some (m_cfg_data e)" "n_type x = m_type e"
    "m_type e \<noteq> elem_type_table \<Longrightarrow> n_child x = n_child c"
    "m_type e = elem_type_table \<Longrightarrow> \<exists>y. n_child x = brk h1 \<and> cells h' (brk h1) = Some y \<and>
       n_name y = snprintf_store (node_name_size sz) ''{i}'' \<and> n_child y = 0 \<and> n_nextSibling y = 0"
    "\<And>q z. q \<noteq> p \<Longrightarrow> cells h1 q = Some z \<Longrightarrow> cells h' q = Some z"
proof -
  obtain d where ok: "tree_ok h root d" using wf by (auto simp: tree_wf_def)
  then have lr: "live h root" "root \<noteq> 0" using tree_ok_root by (auto simp: tree_ok_def)
  then obtain r where r: "cells h root = Some r" by (auto simp: live_def)
  have "\<forall>t \<in> set (elem_tokens e). length t < node_name_size sz"
    using e by (simp add: elem_fits_def list_all_iff)
  from insert_tokens_adds [OF wf lr(1) this] obtain h1 p where h1:
    "insert_tokens sz root (elem_tokens e) (h, root, child_of h root) = Some (h1, p, child_of h1 p)"
    "adds root h h1" "elem_path h1 root (elem_tokens e) p" by blast
  then have "tree_wf h1 root" by (simp add: adds_def)
  then obtain d1 where ok1: "tree_ok h1 root d1" by (auto simp: tree_wf_def)
  obtain c where c: "cells h1 p = Some c"
    using elem_path_not_null [OF \<open>tree_wf h1 root\<close> h1(3)] by (auto simp: live_def)
  from fill_elem_node_wf [OF ok1 c, of sz e] obtain h' x where h':
    "fill_elem_node sz h1 p e = Some h'" "tree_wf h' root" "extends_but p h1 h'" "cells h' p = Some x"
    "n_data x = Some (m_cfg_data e)" "n_type x = m_type e"
    "m_type e \<noteq> elem_type_table \<longrightarrow> n_child x = n_child c"
    "m_type e = elem_type_table \<longrightarrow> (\<exists>y. n_child x = brk h1 \<and> cells h' (brk h1) = Some y \<and>
       n_name y = snprintf_store (node_name_size sz) ''{i}'' \<and> n_child y = 0 \<and> n_nextSibling y = 0)"
    "\<forall>q z. q \<noteq> p \<longrightarrow> cells h1 q = Some z \<longrightarrow> cells h' q = Some z"
    by blast
  have "bus_insert_elem_node sz h root e = Some (h', p)"
    using h1(1) h'(1) r lr(2) e
    by (simp add: bus_insert_elem_node_def copy_name_def elem_fits_def elem_tokens_def child_of_def)
  moreover have "elem_path h' root (elem_tokens e) p"
    by (rule elem_path_extends_but [OF ok1 h1(3) h'(3)]) simp
  ultimately show thesis using that h1 h' c by blast
qed

text \<open>Lookups survive the registration of anything but a table.\<close>

lemma extends_but_same_child:
  assumes "extends_but p h h'" and "cells h p = Some c" and "cells h' p = Some x" and "n_child x = n_child c"
  shows "extends h h'"
  unfolding extends_def
proof (intro allI impI)
  fix q z
  assume "cells h q = Some z"
  with assms(1) obtain z' where "cells h' q = Some z'" "n_name z' = n_name z"
    "q \<noteq> p \<longrightarrow> n_child z' = n_child z" "n_nextSibling z' = n_nextSibling z"
    unfolding extends_but_def by blast
  then show "\<exists>z'. cells h' q = Some z' \<and> n_name z' = n_name z \<and> (n_child z \<noteq> 0 \<longrightarrow> n_child z' = n_child z) \<and>
    (n_nextSibling z \<noteq> 0 \<longrightarrow> n_nextSibling z' = n_nextSibling z)"
    using assms(2,3,4) \<open>cells h q = Some z\<close> by (cases "q = p") auto
qed

lemma insert_extends:
  assumes "tree_wf h root" and "elem_fits sz e" and "m_type e \<noteq> elem_type_table"
    and "bus_insert_elem_node sz h root e = Some (h', p)"
  shows "extends h h' \<and> (\<forall>q x. q \<noteq> p \<longrightarrow> cells h q = Some x \<longrightarrow> n_data x \<noteq> None \<longrightarrow>
    (\<exists>y. cells h' q = Some y \<and> n_data y = n_data x))"
proof -
  obtain h1 h2 q c x where
    h2: "bus_insert_elem_node sz h root e = Some (h2, q)" "adds root h h1" "extends_but q h1 h2"
      "cells h1 q = Some c" "cells h2 q = Some x" "n_child x = n_child c"
      "\<And>r z. r \<noteq> q \<Longrightarrow> cells h1 r = Some z \<Longrightarrow> cells h2 r = Some z"
    by (rule bus_insert_elem_node_wf [OF assms(1,2)]) (use assms(3) in blast)
  have eq: "h2 = h'" "q = p" using h2(1) assms(4) by auto
  have "extends h h'"
    using extends_but_same_child [OF h2(3-6)] h2(2) eq by (auto simp: adds_def intro: extends_trans)
  moreover have "\<exists>y. cells h' r = Some y \<and> n_data y = n_data z"
    if r: "r \<noteq> p" "cells h r = Some z" "n_data z \<noteq> None" for r z
  proof -
    obtain z1 where "cells h1 r = Some z1" "n_data z1 = n_data z"
      using h2(2) r(2,3) unfolding adds_def same_data_def by metis
    then show ?thesis using h2(7) r(1) eq by blast
  qed
  ultimately show ?thesis by blast
qed

section \<open>Rows\<close>

lemma insert_table_row_adds:
  assumes wf: "tree_wf h root" and p: "live h p" and t: "length t < node_name_size sz"
  shows "\<exists>h' r. insert_table_row sz h p t = Some (h', r) \<and> adds root h h' \<and>
    (if child_of h p = 0 then r = 0 else r \<noteq> 0 \<and> child_named h' p t r \<and>
      ((\<forall>q. \<not> child_named h p t q) \<longrightarrow> child_of h' r = 0))"
proof -
  obtain d where ok: "tree_ok h root d" using wf by (auto simp: tree_wf_def)
  obtain x where x: "cells h p = Some x" using p by (auto simp: live_def)
  have p0: "p \<noteq> 0" by (rule live_not_null [OF ok p])
  show ?thesis
  proof (cases "child_of h p = 0")
    case True
    then show ?thesis using x p0 adds_refl [OF wf] by (auto simp: insert_table_row_def child_of_def)
  next
    case False
    from lookup_token [OF ok False, of t] show ?thesis
    proof
      assume "\<exists>q. child_named h p t q \<and>
        find_sibling (brk h) h (child_of h p) t = Some (True, q, child_of h q)"
      then obtain q where q: "child_named h p t q"
        "find_sibling (brk h) h (child_of h p) t = Some (True, q, child_of h q)" by blast
      moreover have "q \<noteq> 0" using child_named_live [OF q(1)] by (rule live_not_null [OF ok])
      ultimately show ?thesis
        using False x p0 adds_refl [OF wf] by (auto simp: insert_table_row_def child_of_def)
    next
      assume "\<exists>l. sibling_unnamed h (child_of h p) t l \<and> (\<forall>q. \<not> child_named h p t q) \<and>
        find_sibling (brk h) h (child_of h p) t = Some (False, l, 0)"
      then obtain l where l: "sibling_unnamed h (child_of h p) t l"
        "find_sibling (brk h) h (child_of h p) t = Some (False, l, 0)" by auto
      have "d (child_of h p) \<noteq> 0"
        using tree_okD [OF ok x] False x by (simp add: node_ok_def child_of_def)
      from append_sibling_adds [OF ok l(1) this t] obtain h' where h': "append_sibling sz h l t = Some (h', brk h)"
        "adds root h h'" "sibling_named h' (child_of h p) t (brk h)" "child_of h' (brk h) = 0" by blast
      obtain x' where "cells h' p = Some x'" "n_child x' = n_child x"
        using h'(2) x False by (auto simp: adds_def child_of_def elim!: extendsE)
      then have "child_named h' p t (brk h)"
        using h'(3) x False by (simp add: child_named_def child_of_def)
      then show ?thesis
        using False l(2) h' x p0 tree_ok_brk_pos [OF ok] by (auto simp: insert_table_row_def child_of_def)
    qed
  qed
qed

lemma child_named_parent:
  assumes "tree_ok h root d" and "child_named h p t q" and "child_named h p s r"
  shows "d q = d r"
  using child_named_depth [OF assms(2,1)] child_named_depth [OF assms(3,1)] by simp

lemma duplicate_node_ref_adds:
  assumes wf: "tree_wf h root" and r: "child_named h p t r"
  shows "\<exists>h'. duplicate_node_ref h r p = Some h' \<and> adds root h h' \<and>
    (child_of h r = 0 \<longrightarrow> (\<forall>c. child_named h p ''{i}'' c \<longrightarrow> r \<noteq> c \<longrightarrow> child_of h' r = child_of h c \<and> child_of h' c = child_of h c))"
proof -
  obtain d where ok: "tree_ok h root d" using wf by (auto simp: tree_wf_def)
  obtain tb where tb: "cells h p = Some tb" "n_child tb \<noteq> 0" using r by (auto simp: child_named_def)
  obtain rw where rw: "cells h r = Some rw" using child_named_live [OF r] by (auto simp: live_def)
  have null: "p \<noteq> 0" "r \<noteq> 0" using tb(1) rw live_not_null [OF ok] by (simp_all add: live_def)
  have n: "child_of h p \<noteq> 0" using tb by (simp add: child_of_def)
  from lookup_token [OF ok n, of "''{i}''"] show ?thesis
  proof
    assume "\<exists>q. child_named h p ''{i}'' q \<and>
      find_sibling (brk h) h (child_of h p) ''{i}'' = Some (True, q, child_of h q)"
    then obtain c where c: "child_named h p ''{i}'' c"
      "find_sibling (brk h) h (n_child tb) ''{i}'' = Some (True, c, child_of h c)"
      using tb by (auto simp: child_of_def)
    obtain tp where tp: "cells h c = Some tp" using child_named_live [OF c(1)] by (auto simp: live_def)
    define rw1 where "rw1 = (if n_data_len tb \<noteq> 0 \<and> n_data rw = None
      then rw\<lparr>n_data_type := n_data_type tb, n_data := n_data tb, n_data_len := n_data_len tb,
        n_strings := n_strings tb\<rparr> else rw)"
    define rw2 where "rw2 = (if n_child rw1 = 0 then rw1\<lparr>n_child := n_child tp, n_reference := True\<rparr> else rw1)"
    have dup: "duplicate_node_ref h r p = Some (put h r rw2)"
      using tb tp rw c(2) null by (simp add: duplicate_node_ref_def rw1_def rw2_def Let_def)
    have depth: "d c = d r" by (rule child_named_parent [OF ok c(1) r])
    have rw1: "node_ok h root d r rw1 \<and> n_name rw1 = n_name rw \<and> n_type rw1 = n_type rw \<and>
      n_child rw1 = n_child rw \<and> n_nextSibling rw1 = n_nextSibling rw \<and> n_parent rw1 = n_parent rw \<and>
      (n_data rw \<noteq> None \<longrightarrow> n_data rw1 = n_data rw)"
      using tree_okD [OF ok rw] by (auto simp: rw1_def node_ok_def)
    have kid: "n_child tp \<noteq> 0 \<Longrightarrow> live h (n_child tp) \<and> d (n_child tp) = Suc (d r)"
      using tree_okD [OF ok tp] unfolding depth [symmetric] node_ok_def by blast
    have "node_ok h root d r (rw1\<lparr>n_child := n_child tp, n_reference := True\<rparr>)"
      using rw1 kid by (intro node_ok_reference) simp_all
    then have rw2: "node_ok h root d r rw2"
      using rw1 by (simp add: rw2_def)
    have "adds root h (put h r rw2)"
      by (rule adds_put [OF ok rw rw2]) (use rw1 in \<open>auto simp: rw2_def\<close>)
    moreover have "child_of (put h r rw2) r = child_of h c \<and> child_of (put h r rw2) c = child_of h c"
      if "child_of h r = 0" "r \<noteq> c"
      using that rw rw1 tp by (simp add: child_of_def cells_put rw2_def)
    ultimately show ?thesis using dup child_named_functional [OF c(1)] by auto
  next
    assume "\<exists>l. sibling_unnamed h (child_of h p) ''{i}'' l \<and> (\<forall>q. \<not> child_named h p ''{i}'' q) \<and>
      find_sibling (brk h) h (child_of h p) ''{i}'' = Some (False, l, 0)"
    then show ?thesis using tb null adds_refl [OF wf]
      by (auto simp: duplicate_node_ref_def child_of_def)
  qed
qed

end
