(* ===== verification/Bus_Tree_Runs.thy ===== *)
theory Bus_Tree_Runs
  imports Bus_Tree_Entry
begin

text \<open>
  Runs of the tree of bus elements: registrations and rows in any order, from the empty tree. The
  results: no such run and no lookup after it is undefined, what was registered is found, lookups
  survive, a new row offers what the template offers, adding and removing a row leaves the tree as
  it was. A section shows what removing a template or registering a table again breaks; the last one
  has a small table as an example.
\<close>

section \<open>Runs\<close>

datatype 'd bus_op = Register "'d mux_data_elem" | Table_row string u32

fun tree_step :: "bus_sizes \<Rightarrow> 'd elem_heap \<Rightarrow> 'd bus_op \<Rightarrow> 'd elem_heap option" where
  "tree_step sz h (Register e) = map_option fst (bus_insert_elem_node sz h 1 e)"
| "tree_step sz h (Table_row s i) = map_option snd (bus_table_add_row sz h 1 s i)"

fun tree_run :: "bus_sizes \<Rightarrow> 'd bus_op list \<Rightarrow> 'd elem_heap \<Rightarrow> 'd elem_heap option" where
  "tree_run sz [] h = Some h"
| "tree_run sz (op # ops) h = Option.bind (tree_step sz h op) (tree_run sz ops)"

fun op_fits :: "bus_sizes \<Rightarrow> 'd bus_op \<Rightarrow> bool" where
  "op_fits sz (Register e) \<longleftrightarrow> elem_fits sz e"
| "op_fits sz (Table_row s i) \<longleftrightarrow> length s < bus_name_size sz - 1"

fun is_table_op :: "'d bus_op \<Rightarrow> bool" where
  "is_table_op (Register e) \<longleftrightarrow> m_type e = elem_type_table"
| "is_table_op (Table_row s i) \<longleftrightarrow> False"

lemma row_name_length: "length (row_name i) \<le> 7"
  by (simp add: row_name_def snprintf_store_def)

lemma lookup_defined:
  assumes "tree_wf h root" and "length s < bus_name_size sz - 1"
  shows "\<exists>q. get_bus_node_info sz h root s = Some q \<and> (q = 0 \<or> live h q)"
proof -
  obtain d where d: "tree_ok h root d" using assms(1) by (auto simp: tree_wf_def)
  then show ?thesis
    using retrieve_loop_total [OF d child_of_live [OF d], where ts = "dot_tokens s" and c = root and
        found = False and wild = False]
      get_bus_node_info_loop [OF assms(2) d] by (simp add: tree_ok_def)
qed

lemma bus_table_add_row_adds:
  assumes wf: "tree_wf h root" and s: "length s < bus_name_size sz - 1" and sz: "8 \<le> node_name_size sz"
  shows "\<exists>e h'. bus_table_add_row sz h root s i = Some (e, h') \<and> adds root h h'"
proof -
  obtain p where p: "get_bus_node_info sz h root s = Some p" "p = 0 \<or> live h p"
    using lookup_defined [OF wf s] by auto
  show ?thesis
  proof (cases "p = 0")
    case True
    then show ?thesis using p adds_refl [OF wf] by (simp add: bus_table_add_row_def)
  next
    case False
    then have lp: "live h p" using p by simp
    have "length (row_name i) < node_name_size sz" using row_name_length [of i] sz by simp
    from insert_table_row_adds [OF wf lp this] obtain h1 r where h1:
      "insert_table_row sz h p (row_name i) = Some (h1, r)" "adds root h h1"
      "if child_of h p = 0 then r = 0 else r \<noteq> 0 \<and> child_named h1 p (row_name i) r" by auto
    show ?thesis
    proof (cases "r = 0")
      case True
      then show ?thesis using p h1 False by (simp add: bus_table_add_row_def)
    next
      case r: False
      then have "child_named h1 p (row_name i) r" using h1(3) by (simp split: if_splits)
      moreover have "tree_wf h1 root" using h1(2) by (simp add: adds_def)
      ultimately obtain h2 where "duplicate_node_ref h1 r p = Some h2" "adds root h1 h2"
        using duplicate_node_ref_adds by blast
      then show ?thesis using p h1 False r adds_trans [OF h1(2)] by (simp add: bus_table_add_row_def)
    qed
  qed
qed

lemma tree_step_wf:
  assumes "tree_wf h 1" and "op_fits sz op" and "8 \<le> node_name_size sz"
  shows "\<exists>h'. tree_step sz h op = Some h' \<and> tree_wf h' 1 \<and> (\<not> is_table_op op \<longrightarrow> extends h h')"
proof (cases op)
  case (Register e)
  then have e: "elem_fits sz e" using assms(2) by simp
  obtain h' p where "bus_insert_elem_node sz h 1 e = Some (h', p)" "tree_wf h' 1"
    using bus_insert_elem_node_wf [OF assms(1) e] by metis
  then show ?thesis using Register insert_extends [OF assms(1) e] by auto
next
  case (Table_row s i)
  then show ?thesis
    using bus_table_add_row_adds [OF assms(1) _ assms(3)] assms(2) by (fastforce simp: adds_def)
qed

lemma tree_run_wf:
  assumes "tree_wf h 1" and "list_all (op_fits sz) ops" and "8 \<le> node_name_size sz"
  shows "\<exists>h'. tree_run sz ops h = Some h' \<and> tree_wf h' 1 \<and> (list_all (\<lambda>op. \<not> is_table_op op) ops \<longrightarrow> extends h h')"
  using assms(1,2)
proof (induction ops arbitrary: h)
  case (Cons op ops)
  obtain h1 where h1: "tree_step sz h op = Some h1" "tree_wf h1 1" "\<not> is_table_op op \<longrightarrow> extends h h1"
    using tree_step_wf [OF Cons.prems(1) _ assms(3)] Cons.prems(2) by auto
  with Cons.IH [OF h1(2)] Cons.prems(2) show ?case by (auto intro: extends_trans)
qed simp

lemma tree_wf_init: "tree_wf init_bus_mux_root 1"
  using tree_ok_init by (auto simp: tree_wf_def)

lemma run_wf:
  assumes "8 \<le> node_name_size sz" and "list_all (op_fits sz) ops" and "tree_run sz ops init_bus_mux_root = Some h"
  shows "tree_wf h 1"
  using tree_run_wf [OF tree_wf_init assms(2,1)] assms(3) by auto

text \<open>
  C15. Any number of elements may be registered and rows added, in any order and under any names that
  fit the buffers, also rows of what is no table and elements under rows: no step reads through \<open>NULL\<close> or a
  freed node, overruns a name or walks for ever, and neither does any lookup afterwards, with or without
  wild cards.
\<close>

theorem tree_operations_defined:
  assumes "8 \<le> node_name_size sz" and "list_all (op_fits sz) ops"
  shows "\<exists>h. tree_run sz ops init_bus_mux_root = Some h \<and>
    (\<forall>s. length s < bus_name_size sz - 1 \<longrightarrow> get_bus_node_info sz h 1 s \<noteq> None)"
  using tree_run_wf [OF tree_wf_init assms(2,1)] lookup_defined by fastforce

text \<open>
  C18. An element that is registered in a tree reached by registrations and rows is found by its name
  afterwards, for a table without the marker of its rows, and the node found has its data and type.
\<close>

theorem registered_element_found:
  assumes "8 \<le> node_name_size sz" and "list_all (op_fits sz) ops"
    and "tree_run sz ops init_bus_mux_root = Some h"
    and "elem_fits sz e" and "plain_name sz (strip_row_marker (m_type e) (m_full_name e))"
  shows "\<exists>h' p x. bus_insert_elem_node sz h 1 e = Some (h', p) \<and>
    get_bus_node_info sz h' 1 (strip_row_marker (m_type e) (m_full_name e)) = Some p \<and>
    cells h' p = Some x \<and> n_data x = Some (m_cfg_data e) \<and> n_type x = m_type e"
proof -
  obtain h1 h' p c x where h': "bus_insert_elem_node sz h 1 e = Some (h', p)"
    "elem_path h' 1 (elem_tokens e) p" "tree_wf h' 1" "cells h' p = Some x"
    "n_data x = Some (m_cfg_data e)" "n_type x = m_type e"
    using bus_insert_elem_node_wf [OF run_wf [OF assms(1-3)] assms(4)] by metis
  moreover have "get_bus_node_info sz h' 1 (strip_row_marker (m_type e) (m_full_name e)) = Some p"
    using get_bus_node_info_path [OF assms(5) h'(3)] h'(2) by (simp add: elem_tokens_def)
  ultimately show ?thesis by blast
qed

lemma lookups_kept:
  assumes "8 \<le> node_name_size sz" and "list_all (op_fits sz) (ops @ later)"
    and "tree_run sz ops init_bus_mux_root = Some h" and "tree_run sz later h = Some h'"
    and "list_all (\<lambda>op. \<not> is_table_op op) later"
    and "plain_name sz s" and "get_bus_node_info sz h 1 s = Some p" and "p \<noteq> 0"
  shows "get_bus_node_info sz h' 1 s = Some p"
proof -
  have wf: "tree_wf h 1" using run_wf [OF assms(1) _ assms(3)] assms(2) by simp
  then have "tree_wf h' 1" "extends h h'"
    using tree_run_wf [OF wf _ assms(1), of later] assms(2,4,5) by auto
  moreover have "elem_path h 1 (dot_tokens s) p"
    using get_bus_node_info_iff [OF assms(6) wf, of p] assms(7,8) by simp
  ultimately show ?thesis using get_bus_node_info_path [OF assms(6)] elem_path_extends by blast
qed

section \<open>Rows\<close>

lemma split_dots_not_Nil: "split_dots s \<noteq> []"
  by (induction s) (auto split: list.splits)

lemma split_dots_append: "split_dots (s @ CHR ''.'' # t) = split_dots s @ split_dots t"
proof (induction s)
  case (Cons c s)
  then show ?case using split_dots_not_Nil [of s] by (auto split: list.splits)
qed simp

lemma dot_tokens_append: "dot_tokens (s @ CHR ''.'' # t) = dot_tokens s @ dot_tokens t"
  by (simp add: dot_tokens_def split_dots_append)

lemma split_dots_single: "CHR ''.'' \<notin> set s \<Longrightarrow> split_dots s = [s]"
  by (induction s) auto

lemma show_int_no_dot: "CHR ''.'' \<notin> set (show_int i)"
proof -
  have "\<not> is_digit CHR ''.''" by (simp add: is_digit_def)
  then show ?thesis using show_nat_digits by (auto simp: show_int_def)
qed

lemma row_name_tokens: "dot_tokens (row_name i) = [row_name i]"
proof -
  have "set (row_name i) \<subseteq> set (show_int (sint i))"
    by (simp add: row_name_def snprintf_store_def set_take_subset)
  moreover have "row_name i \<noteq> []" by (simp add: row_name_def snprintf_store_def show_int_def)
  moreover from calculation have "CHR ''.'' \<notin> set (row_name i)" using show_int_no_dot by blast
  ultimately show ?thesis by (simp add: dot_tokens_def split_dots_single)
qed

text \<open>What adding a row that is not there yet does: the row is found, and has the children of the template.\<close>

lemma bus_table_add_row_new:
  assumes wf: "tree_wf h root" and sz: "8 \<le> node_name_size sz"
    and p: "get_bus_node_info sz h root s = Some p" "p \<noteq> 0" "live h p"
    and c: "child_named h p ''{i}'' c" and new: "\<forall>q. \<not> child_named h p (row_name i) q"
  shows "\<exists>h' r. bus_table_add_row sz h root s i = Some (bus_error_success, h') \<and> adds root h h' \<and>
    child_named h' p (row_name i) r \<and> child_named h' p ''{i}'' c \<and> child_of h' r = child_of h' c"
proof -
  have len: "length (row_name i) < node_name_size sz" using row_name_length [of i] sz by simp
  have n: "child_of h p \<noteq> 0" using c by (auto simp: child_named_def child_of_def)
  from insert_table_row_adds [OF wf p(3) len] n new obtain h1 r where h1:
    "insert_table_row sz h p (row_name i) = Some (h1, r)" "adds root h h1" "r \<noteq> 0"
    "child_named h1 p (row_name i) r" "child_of h1 r = 0" by auto
  have "tree_wf h1 root" using h1(2) by (simp add: adds_def)
  from duplicate_node_ref_adds [OF this h1(4)] obtain h2 where h2:
    "duplicate_node_ref h1 r p = Some h2" "adds root h1 h2"
    "\<forall>c. child_named h1 p ''{i}'' c \<longrightarrow> r \<noteq> c \<longrightarrow> child_of h2 r = child_of h1 c \<and> child_of h2 c = child_of h1 c"
    using h1(5) by blast
  have c1: "child_named h1 p ''{i}'' c" using child_named_extends [OF c] h1(2) by (simp add: adds_def)
  have "r \<noteq> c"
  proof
    assume "r = c"
    then have "row_name i = ''{i}''"
      using h1(4) c1 by (auto simp: child_named_def dest!: sibling_named_props)
    then show False using new c by simp
  qed
  then have "child_of h2 r = child_of h2 c" using h2(3) c1 by simp
  moreover have "child_named h2 p (row_name i) r" "child_named h2 p ''{i}'' c"
    using child_named_extends [OF h1(4)] child_named_extends [OF c1] h2(2) by (simp_all add: adds_def)
  moreover have "bus_table_add_row sz h root s i = Some (bus_error_success, h2)"
    using p h1 h2 by (simp add: bus_table_add_row_def)
  ultimately show ?thesis using adds_trans [OF h1(2) h2(2)] by blast
qed

lemma elem_path_same_child:
  assumes "child_of h r = child_of h c" and "live h r" and "live h c" and "ts \<noteq> []"
  shows "elem_path h r ts q \<longleftrightarrow> elem_path h c ts q"
proof -
  obtain x y where "cells h r = Some x" "cells h c = Some y" "n_child x = n_child y"
    using assms(1-3) by (auto simp: live_def child_of_def)
  then have "child_named h r t q \<longleftrightarrow> child_named h c t q" for t q by (simp add: child_named_def)
  then show ?thesis using assms(4) by (cases ts) simp_all
qed

lemma elem_path_single: "elem_path h p [t] q \<longleftrightarrow> child_named h p t q"
  by simp

lemma same_path_same_lookup:
  assumes "plain_name sz s" and "plain_name sz s'" and "tree_wf h root"
    and "\<And>q. elem_path h root (dot_tokens s) q \<longleftrightarrow> elem_path h root (dot_tokens s') q"
  shows "get_bus_node_info sz h root s = get_bus_node_info sz h root s'"
proof (cases "\<exists>q. elem_path h root (dot_tokens s) q")
  case True
  then obtain q where "elem_path h root (dot_tokens s) q" ..
  then show ?thesis
    using get_bus_node_info_path [OF assms(1,3)] get_bus_node_info_path [OF assms(2,3)] assms(4) by metis
next
  case False
  then show ?thesis
    using get_bus_node_info_no_path [OF assms(1,3)] get_bus_node_info_no_path [OF assms(2,3)] assms(4) by metis
qed

lemma template_tokens: "dot_tokens (s @ ''.{i}'') = dot_tokens s @ [''{i}'']"
  using dot_tokens_append [of s "''{i}''"] by (simp add: dot_tokens_def)

lemma row_tokens: "dot_tokens (s @ ''.'' @ row_name i) = dot_tokens s @ [row_name i]"
  using dot_tokens_append [of s "row_name i"] by (simp add: row_name_tokens)

text \<open>A table with its template and without the row, by the lookups of their names.\<close>

lemma table_without_row:
  assumes wf: "tree_wf h root" and s: "plain_name sz s" "get_bus_node_info sz h root s = Some p" "p \<noteq> 0"
    and c: "plain_name sz (s @ ''.{i}'')" "get_bus_node_info sz h root (s @ ''.{i}'') = Some c" "c \<noteq> 0"
    and r: "plain_name sz (s @ ''.'' @ row_name i)" "get_bus_node_info sz h root (s @ ''.'' @ row_name i) = Some 0"
  shows "elem_path h root (dot_tokens s) p" and "live h p" and "child_named h p ''{i}'' c"
    and "\<forall>q. \<not> child_named h p (row_name i) q"
proof -
  show p: "elem_path h root (dot_tokens s) p" using get_bus_node_info_iff [OF s(1) wf, of p] s(2,3) by simp
  then show "live h p" using elem_path_not_null [OF wf] by blast
  have "elem_path h root (dot_tokens s @ [''{i}'']) c"
    using get_bus_node_info_iff [OF c(1) wf, of c] c(2,3) by (simp add: template_tokens)
  then show "child_named h p ''{i}'' c"
    using elem_path_functional [OF p] by (auto simp: elem_path_append)
  have "\<forall>q. \<not> elem_path h root (dot_tokens (s @ ''.'' @ row_name i)) q"
    using get_bus_node_info_iff [OF r(1) wf, of 0] r(2) elem_path_not_null [OF wf] by blast
  then show "\<forall>q. \<not> child_named h p (row_name i) q"
    using p unfolding row_tokens by (auto simp: elem_path_append)
qed

lemma new_row_offers_template:
  assumes "8 \<le> node_name_size sz" and "list_all (op_fits sz) ops"
    and "tree_run sz ops init_bus_mux_root = Some h"
    and "plain_name sz s" and "get_bus_node_info sz h 1 s = Some p" and "p \<noteq> 0"
    and "get_bus_node_info sz h 1 (s @ ''.{i}'') = Some c" and "c \<noteq> 0"
    and "get_bus_node_info sz h 1 (s @ ''.'' @ row_name i) = Some 0"
    and "plain_name sz (s @ ''.{i}.'' @ u)" and "plain_name sz (s @ ''.'' @ row_name i @ ''.'' @ u)"
    and "dot_tokens u \<noteq> []"
  shows "\<exists>h'. bus_table_add_row sz h 1 s i = Some (bus_error_success, h') \<and>
    get_bus_node_info sz h' 1 (s @ ''.'' @ row_name i @ ''.'' @ u) = get_bus_node_info sz h' 1 (s @ ''.{i}.'' @ u)"
proof -
  have wf: "tree_wf h 1" by (rule run_wf [OF assms(1-3)])
  have tutok: "dot_tokens (s @ ''.{i}.'' @ u) = dot_tokens s @ ''{i}'' # dot_tokens u"
    using dot_tokens_append [of "s @ ''.{i}''" u] template_tokens [of s] by simp
  have rutok: "dot_tokens (s @ ''.'' @ row_name i @ ''.'' @ u) = dot_tokens s @ row_name i # dot_tokens u"
    using dot_tokens_append [of "s @ ''.'' @ row_name i" u] row_tokens [of s i] by simp
  have plain: "plain_name sz (s @ ''.{i}'')" "plain_name sz (s @ ''.'' @ row_name i)"
    using assms(10,11) tutok rutok template_tokens [of s] row_tokens [of s i] by (auto simp: plain_name_def)
  note table = table_without_row [OF wf assms(4-6) plain(1) assms(7,8) plain(2) assms(9)]
  from bus_table_add_row_new [OF wf assms(1) assms(5,6) table(2-4)] obtain h' r where h':
    "bus_table_add_row sz h 1 s i = Some (bus_error_success, h')" "adds 1 h h'"
    "child_named h' p (row_name i) r" "child_named h' p ''{i}'' c" "child_of h' r = child_of h' c" by blast
  have wf': "tree_wf h' 1" and p': "elem_path h' 1 (dot_tokens s) p"
    using h'(2) elem_path_extends [OF table(1)] by (auto simp: adds_def)
  have same: "elem_path h' r (dot_tokens u) q \<longleftrightarrow> elem_path h' c (dot_tokens u) q" for q
    by (rule elem_path_same_child [OF h'(5) child_named_live [OF h'(3)] child_named_live [OF h'(4)] assms(12)])
  have "elem_path h' 1 (dot_tokens (s @ ''.'' @ row_name i @ ''.'' @ u)) q \<longleftrightarrow>
    elem_path h' 1 (dot_tokens (s @ ''.{i}.'' @ u)) q" for q
    unfolding rutok tutok elem_path_append elem_path.simps
    using same child_named_functional [OF h'(3)] child_named_functional [OF h'(4)]
      elem_path_functional [OF p'] p' h'(3,4) by blast
  then show ?thesis using same_path_same_lookup [OF assms(11,10) wf'] h'(1) by blast
qed

section \<open>Removing a row\<close>

lemma sibling_unnamed_parent: "sibling_unnamed h n t l \<Longrightarrow> tree_ok h root d \<Longrightarrow> parent_of h l = parent_of h n"
proof (induction rule: sibling_unnamed.induct)
  case (sibling_unnamed_more h n x t l)
  then show ?case using tree_okD [OF sibling_unnamed_more.prems sibling_unnamed_more.hyps(1)]
    by (simp add: node_ok_def parent_of_def)
qed simp

lemma append_sibling_cells:
  assumes "append_sibling sz h l t = Some (h', a)" and "cells h l = Some x" and "cells h (brk h) = None"
  shows "\<exists>y. a = brk h \<and> cells h' = (cells h)(a \<mapsto> y, l \<mapsto> x\<lparr>n_nextSibling := a\<rparr>) \<and> brk h' = Suc (brk h) \<and>
    n_parent y = n_parent x \<and> n_child y = 0 \<and> n_nextSibling y = 0 \<and> n_data y = None"
proof -
  obtain q where q: "cells h (n_parent x) = Some q"
    using assms(1,2) by (auto simp: append_sibling_def bind_eq_Some_conv)
  define temp :: "'a elem_node" where "temp = get_empty_elem_node\<lparr>n_parent := n_parent x,
    n_full_name := snprintf_store (node_full_name_size sz)
      (snprintf_store 256 (if n_full_name q \<noteq> [] then n_full_name q @ ''.'' @ t else t)),
    n_name := snprintf_store (node_name_size sz) t\<rparr>"
  have "brk h \<noteq> l" using assms(2,3) by auto
  then have c: "cells (alloc h temp) l = Some x" using assms(2) by (simp add: cells_alloc)
  have "append_sibling sz h l t = Some (put (alloc h temp) l (x\<lparr>n_nextSibling := brk h\<rparr>), brk h)"
    using assms(2) q c by (simp add: append_sibling_def change_def temp_def Let_def)
  then show ?thesis
    using assms(1) by (auto simp: put_def alloc_def temp_def get_empty_elem_node_def)
qed

text \<open>The list of strings a new row of a table shares with it.\<close>

definition shared_strings :: "'d elem_node \<Rightarrow> nat option" where
  "shared_strings table = (if n_data_len table \<noteq> 0 then owned_strings table else None)"

lemma duplicate_node_ref_cells:
  assumes ok: "tree_ok h root d" and c: "child_named h p ''{i}'' c" and x: "cells h p = Some x"
    and r: "cells h r = Some rw" "n_child rw = 0" "n_data rw = None"
  shows "\<exists>rw'. duplicate_node_ref h r p = Some (put h r rw') \<and> n_reference rw' \<and>
    n_parent rw' = n_parent rw \<and> n_nextSibling rw' = n_nextSibling rw \<and> owned_strings rw' = shared_strings x"
proof -
  have tb: "n_child x \<noteq> 0" "sibling_named h (n_child x) ''{i}'' c"
    using c x by (auto simp: child_named_def)
  obtain tp where tp: "cells h c = Some tp" using child_named_live [OF c] by (auto simp: live_def)
  have "p \<noteq> 0" "r \<noteq> 0" using x r(1) live_not_null [OF ok] by (simp_all add: live_def)
  then show ?thesis
    using tb tp x r find_sibling_named [OF ok tb(2) tp]
    by (cases "n_data_len x = 0")
      (auto simp: duplicate_node_ref_def Let_def shared_strings_def owned_strings_def)
qed

text \<open>Unlinking the node behind the last one restores the chain.\<close>

lemma unlink_last:
  assumes "sibling_unnamed h n t l" and "tree_ok h root d" and "\<And>q. q \<noteq> l \<Longrightarrow> q \<noteq> a \<Longrightarrow> cells h' q = cells h q"
    and "cells h' l = Some (x\<lparr>n_nextSibling := a\<rparr>)" and "cells h a = None" and "a \<noteq> 0" and "brk h - n \<le> k"
  shows "unlink_sibling k h' n a b = Some (put h' l (x\<lparr>n_nextSibling := b\<rparr>))"
  using assms
proof (induction arbitrary: k rule: sibling_unnamed.induct)
  case (sibling_unnamed_last h n y t)
  have "n \<noteq> 0" "n < brk h" using tree_okD [OF sibling_unnamed_last.prems(1) sibling_unnamed_last.hyps(1)] by (simp_all add: node_ok_def)
  then show ?case using sibling_unnamed_last.prems(3,6)
    by (cases k) (simp_all add: unlink_sibling.simps)
next
  case (sibling_unnamed_more h n y t l)
  have y: "n \<noteq> 0" "n < brk h" "n < n_nextSibling y" "live h (n_nextSibling y)"
    using tree_okD [OF sibling_unnamed_more.prems(1) sibling_unnamed_more.hyps(1)] sibling_unnamed_more.hyps(3)
    by (simp_all add: node_ok_def)
  then obtain k' where k: "k = Suc k'" "brk h - n_nextSibling y \<le> k'"
    using sibling_unnamed_more.prems(6) by (cases k) auto
  have "n \<noteq> l" using sibling_unnamed_props [OF sibling_unnamed_more.hyps(4)] sibling_unnamed_more.hyps(1,3) by auto
  moreover have "n \<noteq> a" "n_nextSibling y \<noteq> a"
    using sibling_unnamed_more.hyps(1) sibling_unnamed_more.prems(4) y(4) by (auto simp: live_def)
  ultimately show ?case
    using sibling_unnamed_more.IH [OF sibling_unnamed_more.prems(1-5) k(2)] sibling_unnamed_more.prems(2) sibling_unnamed_more.hyps(1) y(1) k(1)
    by (simp add: unlink_sibling.simps [of "Suc k'"])
qed

lemma add_remove_row_cells:
  assumes wf: "tree_wf h root" and sz: "8 \<le> node_name_size sz"
    and p: "get_bus_node_info sz h root s = Some p" "cells h p = Some x" "\<not> n_reference x"
    and c: "child_named h p ''{i}'' c" and new: "\<forall>q. \<not> child_named h p (row_name i) q"
    and add: "bus_table_add_row sz h root s i = Some (e, h')" and r: "child_named h' p (row_name i) r"
  shows "node_elem_traversal h' r = map_option (\<lambda>g. g\<lparr>cells := cells h\<rparr>) (free_strings (shared_strings x) h')"
    and "brk h' = Suc (brk h)"
proof -
  obtain d where ok: "tree_ok h root d" using wf by (auto simp: tree_wf_def)
  have p0: "p \<noteq> 0" using p(2) live_not_null [OF ok] by (simp add: live_def)
  have n: "child_of h p = n_child x" "n_child x \<noteq> 0" using c p(2) by (auto simp: child_named_def child_of_def)
  obtain l where l: "sibling_unnamed h (n_child x) (row_name i) l"
    "find_sibling (brk h) h (n_child x) (row_name i) = Some (False, l, 0)"
    using lookup_token [OF ok, of p "row_name i"] n new by auto
  obtain y where y: "cells h l = Some y" "n_nextSibling y = 0" using sibling_unnamed_props [OF l(1)] by auto
  have len: "length (row_name i) < node_name_size sz" using row_name_length [of i] sz by simp
  obtain h1 r1 where h1: "insert_table_row sz h p (row_name i) = Some (h1, r1)" "adds root h h1"
    "child_named h1 p (row_name i) r1"
    using insert_table_row_adds [OF wf _ len, of p] p(2) n by (auto simp: live_def)
  have "append_sibling sz h l (row_name i) = Some (h1, r1)"
    using h1(1) p(2) p0 n l(2) by (simp add: insert_table_row_def)
  then obtain z where z: "r1 = brk h" "cells h1 = (cells h)(r1 \<mapsto> z, l \<mapsto> y\<lparr>n_nextSibling := r1\<rparr>)"
    "brk h1 = Suc (brk h)" "n_parent z = n_parent y" "n_child z = 0" "n_nextSibling z = 0" "n_data z = None"
    using append_sibling_cells [OF _ y(1) tree_ok_brk [OF ok]] by blast
  have r1l: "r1 \<noteq> l" using y(1) z(1) tree_ok_brk [OF ok] by auto
  obtain d1 where ok1: "tree_ok h1 root d1" using h1(2) by (auto simp: adds_def tree_wf_def)
  have c1: "child_named h1 p ''{i}'' c" using child_named_extends [OF c] h1(2) by (simp add: adds_def)
  have "p \<noteq> l"
    using sibling_unnamed_depth [OF l(1) ok] tree_okD [OF ok p(2)] n by (auto simp: node_ok_def)
  have "p \<noteq> r1" using p(2) z(1) tree_ok_brk [OF ok] by auto
  then have "cells h1 p = Some x" using z(2) p(2) \<open>p \<noteq> l\<close> by simp
  from duplicate_node_ref_cells [OF ok1 c1 this, of r1 z]
  obtain w where w: "duplicate_node_ref h1 r1 p = Some (put h1 r1 w)" "n_reference w"
    "n_parent w = n_parent y" "n_nextSibling w = 0" "owned_strings w = shared_strings x"
    using z r1l by auto
  have "r1 \<noteq> 0" using z(1) tree_ok_brk_pos [OF ok] by simp
  then have h': "h' = put h1 r1 w"
    using add p(1) p0 h1(1) w(1) by (simp add: bus_table_add_row_def)
  then show "brk h' = Suc (brk h)" using z(3) by simp
  have xp: "cells h' p = Some x" using h' z(2) p(2) \<open>p \<noteq> l\<close> \<open>p \<noteq> r1\<close> by (simp add: cells_put)
  have cells': "cells h' = (cells h)(r1 \<mapsto> w, l \<mapsto> y\<lparr>n_nextSibling := r1\<rparr>)"
    using h' z(2) r1l by (auto simp: cells_put fun_eq_iff)
  have "child_named h' p (row_name i) r1"
  proof (rule child_named_extends [OF h1(3)])
    show "extends h1 h'"
    proof -
      have "adds root h1 h'"
        using duplicate_node_ref_adds [OF _ h1(3), of root] h1(2) w(1) h' by (auto simp: adds_def)
      then show ?thesis by (simp add: adds_def)
    qed
  qed
  then have r: "r = r1" using r child_named_functional by metis
  have "n_parent y = p"
    using sibling_unnamed_parent [OF l(1) ok] tree_okD [OF ok p(2)] p(3) y(1) n(2) by (simp add: node_ok_def parent_of_def)
  moreover have "n_child x \<noteq> r1"
    using tree_okD [OF ok p(2)] n(2) z(1) tree_ok_brk [OF ok] by (auto simp: node_ok_def live_def)
  moreover have "unlink_sibling (brk h') h' (n_child x) r1 0 = Some (put h' l (y\<lparr>n_nextSibling := 0\<rparr>))"
    by (rule unlink_last [OF l(1) ok])
      (use cells' r1l z(1,3) tree_ok_brk [OF ok] tree_ok_brk_pos [OF ok] h' in auto)
  ultimately have "node_elem_traversal h' r = node_elems_free (put h' l (y\<lparr>n_nextSibling := 0\<rparr>)) r1"
    using cells' r r1l w xp p0 \<open>r1 \<noteq> 0\<close> by (simp add: node_elem_traversal_def unlink_node_def)
  moreover have "(cells h)(r1 \<mapsto> w, l \<mapsto> y\<lparr>n_nextSibling := r1\<rparr>, l \<mapsto> y\<lparr>n_nextSibling := 0\<rparr>, r1 := None) = cells h"
    using y z(1) tree_ok_brk [OF ok] by (auto simp: fun_eq_iff)
  ultimately show "node_elem_traversal h' r =
    map_option (\<lambda>g. g\<lparr>cells := cells h\<rparr>) (free_strings (shared_strings x) h')"
    using cells' r1l w(5) by (auto simp: node_elems_free_def free_strings_def cells_put put_def split: option.splits)
qed

text \<open>Entering elements and rows frees no strings.\<close>

lemma freed_put [simp]: "freed_strings (put h p x) = freed_strings h"
  by (simp add: put_def)

lemma freed_alloc [simp]: "freed_strings (alloc h x) = freed_strings h"
  by (simp add: alloc_def)

lemma append_sibling_freed: "append_sibling sz h l t = Some (h', a) \<Longrightarrow> freed_strings h' = freed_strings h"
  by (auto simp: append_sibling_def bind_eq_Some_conv change_Some Let_def split: if_splits)

lemma link_rows_freed: "link_rows k h c n = Some h' \<Longrightarrow> freed_strings h' = freed_strings h"
proof (induction k arbitrary: h n)
  case 0
  then show ?case by (auto simp: link_rows.simps split: if_splits)
next
  case (Suc k)
  then show ?case
    by (auto simp: link_rows.simps [of "Suc k"] Let_def split: if_splits option.splits dest!: Suc.IH)
qed

lemma create_first_child_freed: "create_first_child sz h root c t = Some (h', a) \<Longrightarrow> freed_strings h' = freed_strings h"
  by (auto simp: create_first_child_def bind_eq_Some_conv change_Some Let_def link_tables_with_node_def
      split: if_splits dest!: link_rows_freed)

lemma insert_tokens_freed: "insert_tokens sz root ts st = Some (h', c, n) \<Longrightarrow> freed_strings h' = freed_strings (fst st)"
proof (induction ts arbitrary: st)
  case (Cons t ts)
  then obtain st1 where st1: "insert_token sz root t st = Some st1" "insert_tokens sz root ts st1 = Some (h', c, n)"
    by (auto simp: bind_eq_Some_conv)
  then have "freed_strings (fst st1) = freed_strings (fst st)"
    by (cases st) (auto simp: insert_token_def bind_eq_Some_conv split: if_splits
        dest: create_first_child_freed append_sibling_freed)
  with Cons.IH [OF st1(2)] show ?case by simp
qed auto

lemma insert_freed: "bus_insert_elem_node sz h root e = Some (h', p) \<Longrightarrow> freed_strings h' = freed_strings h"
  by (auto simp: bus_insert_elem_node_def fill_elem_node_def bind_eq_Some_conv change_Some Let_def
      split: if_splits dest!: insert_tokens_freed)

lemma add_row_freed: "bus_table_add_row sz h root s i = Some (e, h') \<Longrightarrow> freed_strings h' = freed_strings h"
  by (auto simp: bus_table_add_row_def insert_table_row_def duplicate_node_ref_def bind_eq_Some_conv Let_def
      split: if_splits dest!: append_sibling_freed)

lemma run_freed: "tree_run sz ops h = Some h' \<Longrightarrow> freed_strings h' = freed_strings h"
proof (induction ops arbitrary: h)
  case (Cons op ops)
  then show ?case
    by (cases op) (fastforce simp: bind_eq_Some_conv dest: insert_freed add_row_freed)+
qed simp

text \<open>
  Adding a row and removing it again, in any well-formed tree: the strings the table lists are freed with the
  row, which is undefined when they were freed before.
\<close>

definition new_row_of ::
  "bus_sizes \<Rightarrow> 'd elem_heap \<Rightarrow> string \<Rightarrow> elem_addr \<Rightarrow> 'd elem_node \<Rightarrow> elem_addr \<Rightarrow> u32 \<Rightarrow> bool" where
  "new_row_of sz h s p x c i \<longleftrightarrow>
     plain_name sz s \<and> get_bus_node_info sz h 1 s = Some p \<and> p \<noteq> 0 \<and> cells h p = Some x \<and> \<not> n_reference x \<and>
     plain_name sz (s @ ''.{i}'') \<and> get_bus_node_info sz h 1 (s @ ''.{i}'') = Some c \<and> c \<noteq> 0 \<and>
     plain_name sz (s @ ''.'' @ row_name i) \<and> get_bus_node_info sz h 1 (s @ ''.'' @ row_name i) = Some 0"

lemma add_remove_row:
  assumes wf: "tree_wf h 1" and sz: "8 \<le> node_name_size sz" and new: "new_row_of sz h s p x c i"
  shows "\<exists>h'. bus_table_add_row sz h 1 s i = Some (bus_error_success, h') \<and> freed_strings h' = freed_strings h \<and>
    brk h' = Suc (brk h) \<and>
    bus_table_remove_row sz h' 1 (s @ ''.'' @ row_name i) =
      map_option (\<lambda>g. (bus_error_success, g\<lparr>cells := cells h\<rparr>)) (free_strings (shared_strings x) h')"
proof -
  note n = new [unfolded new_row_of_def]
  have table: "elem_path h 1 (dot_tokens s) p" "live h p" "child_named h p ''{i}'' c"
    "\<forall>q. \<not> child_named h p (row_name i) q"
    using table_without_row [OF wf, of sz s p c i] n by blast+
  have p: "get_bus_node_info sz h 1 s = Some p" "p \<noteq> 0" "cells h p = Some x" "\<not> n_reference x" using n by simp_all
  from bus_table_add_row_new [OF wf sz p(1,2) table(2-4)] obtain h' r where h':
    "bus_table_add_row sz h 1 s i = Some (bus_error_success, h')" "adds 1 h h'"
    "child_named h' p (row_name i) r" by blast
  note cut = add_remove_row_cells [OF wf sz p(1,3,4) table(3,4) h'(1,3)]
  have wf': "tree_wf h' 1" and p': "elem_path h' 1 (dot_tokens s) p"
    using h'(2) elem_path_extends [OF table(1)] by (auto simp: adds_def)
  then have path: "elem_path h' 1 (dot_tokens (s @ ''.'' @ row_name i)) r"
    using h'(3) unfolding row_tokens by (auto simp: elem_path_append)
  have "get_bus_node_info sz h' 1 (s @ ''.'' @ row_name i) = Some r"
    by (rule get_bus_node_info_path [OF _ wf' path]) (use n in simp)
  then have "bus_table_remove_row sz h' 1 (s @ ''.'' @ row_name i) =
      map_option (\<lambda>g. (bus_error_success, g\<lparr>cells := cells h\<rparr>)) (free_strings (shared_strings x) h')"
    using cut(1) elem_path_not_null [OF wf' path]
    by (simp add: bus_table_remove_row_def free_node_elems_def option.map_comp comp_def)
  then show ?thesis using h'(1) add_row_freed [OF h'(1)] cut(2) by blast
qed

text \<open>
  C19. A row that is added to a table and removed again leaves every node of the tree as it was, the links
  to the children of the template included, and both calls succeed. But the row's copy of the table's data
  points to the table's own list of strings, and the removal frees it: it is the one thing that changes.
\<close>

theorem row_added_and_removed:
  assumes "8 \<le> node_name_size sz" and "list_all (op_fits sz) ops"
    and "tree_run sz ops init_bus_mux_root = Some h" and "new_row_of sz h s p x c i"
  shows "\<exists>h' h''. bus_table_add_row sz h 1 s i = Some (bus_error_success, h') \<and>
    bus_table_remove_row sz h' 1 (s @ ''.'' @ row_name i) = Some (bus_error_success, h'') \<and>
    cells h'' = cells h \<and> freed_strings h'' = (case shared_strings x of None \<Rightarrow> [] | Some l \<Rightarrow> [l])"
proof -
  have "freed_strings h = []"
    using run_freed [OF assms(3)] by (simp add: init_bus_mux_root_def)
  then show ?thesis
    using add_remove_row [OF run_wf [OF assms(1-3)] assms(1,4)] by (auto simp: free_strings_def split: option.splits)
qed

lemma same_cells_extends: "cells h' = cells h \<Longrightarrow> extends h h'"
  by (auto simp: extends_def)

lemma same_cells_wf:
  assumes "tree_wf h root" and c: "cells h' = cells h" and "brk h \<le> brk h'"
  shows "tree_wf h' root"
proof -
  obtain d where ok: "tree_ok h root d" using assms(1) by (auto simp: tree_wf_def)
  have same: "live h' q = live h q" "parent_of h' q = parent_of h q" for q
    by (simp_all add: live_def parent_of_def c)
  have "node_ok h' root d q x" if "node_ok h root d q x" for q x
    using that assms(3) by (auto simp: node_ok_def same split: if_splits)
  then have "tree_ok h' root d" using ok by (simp add: tree_ok_def same c)
  then show ?thesis by (auto simp: tree_wf_def)
qed

lemma same_cells_lookup:
  assumes "tree_wf h 1" and "cells h' = cells h" and "brk h \<le> brk h'" and "plain_name sz s"
  shows "get_bus_node_info sz h' 1 s = get_bus_node_info sz h 1 s"
proof -
  have wf': "tree_wf h' 1" by (rule same_cells_wf [OF assms(1-3)])
  have "elem_path h' 1 (dot_tokens s) q \<longleftrightarrow> elem_path h 1 (dot_tokens s) q" for q
    using elem_path_extends same_cells_extends assms(2) by metis
  then show ?thesis
    using get_bus_node_info_path [OF assms(4) wf'] get_bus_node_info_path [OF assms(4,1)]
      get_bus_node_info_no_path [OF assms(4) wf'] get_bus_node_info_no_path [OF assms(4,1)] by metis
qed

text \<open>
  C20. So a table whose data lists strings bears the removal of one row only: after a row was added and
  removed, the removal of the next one frees the same list again, which is undefined.
\<close>

theorem second_row_frees_twice:
  assumes "8 \<le> node_name_size sz" and "list_all (op_fits sz) ops"
    and "tree_run sz ops init_bus_mux_root = Some h" and "new_row_of sz h s p x c i" and "new_row_of sz h s p x c j"
    and "shared_strings x = Some l"
    and "bus_table_add_row sz h 1 s i = Some (e, h1)"
    and "bus_table_remove_row sz h1 1 (s @ ''.'' @ row_name i) = Some (e', h2)"
  shows "\<exists>h3. bus_table_add_row sz h2 1 s j = Some (bus_error_success, h3) \<and>
    bus_table_remove_row sz h3 1 (s @ ''.'' @ row_name j) = None"
proof -
  have wf: "tree_wf h 1" by (rule run_wf [OF assms(1-3)])
  have b: "brk h1 = Suc (brk h)" and
    "map_option (\<lambda>g. (bus_error_success, g\<lparr>cells := cells h\<rparr>)) (free_strings (Some l) h1) = Some (e', h2)"
    using add_remove_row [OF wf assms(1,4)] assms(6-8) by auto
  then obtain g where "free_strings (Some l) h1 = Some g" "h2 = g\<lparr>cells := cells h\<rparr>" by auto
  then have h2: "cells h2 = cells h" "brk h \<le> brk h2" "l \<in> set (freed_strings h2)"
    using b by (auto simp: free_strings_def split: if_splits)
  have "new_row_of sz h2 s p x c j"
    using assms(5) same_cells_lookup [OF wf h2(1,2)] by (simp add: new_row_of_def h2(1))
  then show ?thesis
    using add_remove_row [OF same_cells_wf [OF wf h2(1,2)] assms(1)] h2(3) assms(6)
    by (fastforce simp: free_strings_def)
qed

section \<open>What registering a table and removing a template break\<close>

text \<open>
  C27. Registering a table gives its node a fresh template as its only child. So nothing below a table is
  found after its registration but the template: elements registered before the table, and the rows
  and elements of a table that is registered again, are lost.
\<close>

theorem table_entry_hides:
  assumes "8 \<le> node_name_size sz" and "list_all (op_fits sz) ops"
    and "tree_run sz ops init_bus_mux_root = Some h"
    and "elem_fits sz e" and "m_type e = elem_type_table" and "s = strip_row_marker elem_type_table (m_full_name e)"
    and "plain_name sz (s @ ''.'' @ u)" and "dot_tokens u \<notin> {[], [''{i}'']}"
  shows "\<exists>h' p. bus_insert_elem_node sz h 1 e = Some (h', p) \<and> get_bus_node_info sz h' 1 (s @ ''.'' @ u) = Some 0"
proof -
  have wf: "tree_wf h 1" by (rule run_wf [OF assms(1-3)])
  obtain h1 h' :: "'a elem_heap" and p x where h': "bus_insert_elem_node sz h 1 e = Some (h', p)"
    "elem_path h' 1 (elem_tokens e) p" "tree_wf h' 1" "cells h' p = Some x"
    and tmpl: "\<exists>y. n_child x = brk h1 \<and> cells h' (brk h1) = Some y \<and>
       n_name y = snprintf_store (node_name_size sz) ''{i}'' \<and> n_child y = 0 \<and> n_nextSibling y = 0"
  proof (rule bus_insert_elem_node_wf [OF wf assms(4)], goal_cases)
    case (1 h1 h' p c x)
    show ?case by (rule 1(1) [OF 1(2,5,6,9) 1(13) [OF assms(5)]])
  qed
  from tmpl obtain y where y: "cells h' (n_child x) = Some y" "n_name y = ''{i}''" "n_child y = 0" "n_nextSibling y = 0"
    using assms(1) by (auto simp: snprintf_store_fits)
  have kids: "t = ''{i}'' \<and> q = n_child x" if "child_named h' p t q" for t q
    using that h'(4) y by (auto simp: child_named_def elim: sibling_namedE)
  have none: "\<not> child_named h' (n_child x) t q" for t q using y by (simp add: child_named_def)
  have p: "elem_path h' 1 (dot_tokens s) p" using h'(2) assms(5,6) by (simp add: elem_tokens_def)
  have "\<not> elem_path h' 1 (dot_tokens (s @ ''.'' @ u)) q" for q
  proof
    assume "elem_path h' 1 (dot_tokens (s @ ''.'' @ u)) q"
    then have "elem_path h' p (dot_tokens u) q"
      using elem_path_functional [OF p] dot_tokens_append [of s u] by (auto simp: elem_path_append)
    then show False using assms(8) kids none
      by (cases "dot_tokens u"; cases "tl (dot_tokens u)") fastforce+
  qed
  then show ?thesis using get_bus_node_info_no_path [OF assms(7) h'(3)] h'(1) by blast
qed

text \<open>Freeing a list of children reaches nothing less deep than they are.\<close>

definition deeper :: "'d elem_heap \<Rightarrow> (elem_addr \<Rightarrow> nat) \<Rightarrow> bool" where
  "deeper h d \<longleftrightarrow> (\<forall>p x. cells h p = Some x \<longrightarrow>
     (n_child x \<noteq> 0 \<longrightarrow> d (n_child x) = Suc (d p)) \<and> (n_nextSibling x \<noteq> 0 \<longrightarrow> d (n_nextSibling x) = d p))"

lemma deeperD:
  assumes "deeper h d" and "cells h p = Some x"
  shows "n_child x \<noteq> 0 \<Longrightarrow> d (n_child x) = Suc (d p)" and "n_nextSibling x \<noteq> 0 \<Longrightarrow> d (n_nextSibling x) = d p"
  using assms by (auto simp: deeper_def)

lemma tree_ok_deeper:
  assumes "tree_ok h root d"
  shows "deeper h d"
  unfolding deeper_def
proof (intro allI impI)
  fix p x
  assume "cells h p = Some x"
  from tree_okD [OF assms this]
  show "(n_child x \<noteq> 0 \<longrightarrow> d (n_child x) = Suc (d p)) \<and> (n_nextSibling x \<noteq> 0 \<longrightarrow> d (n_nextSibling x) = d p)"
    by (simp add: node_ok_def)
qed

definition shrinks :: "'d elem_heap \<Rightarrow> 'd elem_heap \<Rightarrow> bool" where
  "shrinks h h' \<longleftrightarrow> (\<forall>p. cells h' p = None \<or> cells h' p = cells h p)"

lemma shrinks_trans: "shrinks h h1 \<Longrightarrow> shrinks h1 h2 \<Longrightarrow> shrinks h h2"
  unfolding shrinks_def by metis

lemma deeper_shrinks: "deeper h d \<Longrightarrow> shrinks h h' \<Longrightarrow> deeper h' d"
  unfolding deeper_def shrinks_def by (metis option.distinct(1))

lemma node_elems_free_frame:
  "node_elems_free h p = Some h' \<Longrightarrow> shrinks h h' \<and> cells h' p = None \<and> (\<forall>q. q \<noteq> p \<longrightarrow> cells h' q = cells h q)"
  by (auto simp: node_elems_free_def free_strings_def shrinks_def bind_eq_Some_conv split: option.splits if_splits)

lemma free_nodes_frame:
  "free_nodes k h c = Some h' \<Longrightarrow> deeper h d \<Longrightarrow>
    shrinks h h' \<and> (c \<noteq> 0 \<longrightarrow> cells h' c = None \<and> (\<forall>q. d q < d c \<longrightarrow> cells h' q = cells h q))"
proof (induction k arbitrary: h c h')
  case 0
  then show ?case by (auto simp: free_nodes.simps shrinks_def split: if_splits)
next
  case (Suc k)
  show ?case
  proof (cases "c = 0")
    case True
    then show ?thesis using Suc.prems by (simp add: free_nodes.simps shrinks_def)
  next
    case False
    then obtain x h1 h2 where x: "cells h c = Some x"
      and h1: "(if n_reference x then Some h else free_nodes k h (n_child x)) = Some h1"
      and h2: "node_elems_free h1 c = Some h2" and h': "free_nodes k h2 (n_nextSibling x) = Some h'"
      using Suc.prems(1) by (auto simp: free_nodes.simps [of "Suc k"] split: option.splits if_splits)
    have d: "n_child x \<noteq> 0 \<Longrightarrow> d (n_child x) = Suc (d c)" "n_nextSibling x \<noteq> 0 \<Longrightarrow> d (n_nextSibling x) = d c"
      using deeperD [OF Suc.prems(2) x] by blast+
    have s1: "shrinks h h1" "\<forall>q. d q < d c \<longrightarrow> cells h1 q = cells h q"
    proof -
      have "shrinks h h1 \<and> (\<forall>q. d q < d c \<longrightarrow> cells h1 q = cells h q)"
      proof (cases "n_reference x \<or> n_child x = 0")
        case True
        then show ?thesis using h1 by (auto simp: shrinks_def free_nodes.simps split: if_splits)
      next
        case False
        then show ?thesis using Suc.IH [of h "n_child x" h1] h1 Suc.prems(2) d(1) by simp
      qed
      then show "shrinks h h1" "\<forall>q. d q < d c \<longrightarrow> cells h1 q = cells h q" by blast+
    qed
    have s2: "shrinks h1 h2" "cells h2 c = None" "\<forall>q. q \<noteq> c \<longrightarrow> cells h2 q = cells h1 q"
      using node_elems_free_frame [OF h2] by auto
    have s3: "shrinks h2 h'" "n_nextSibling x \<noteq> 0 \<longrightarrow> (\<forall>q. d q < d (n_nextSibling x) \<longrightarrow> cells h' q = cells h2 q)"
      using Suc.IH [OF h'] deeper_shrinks [OF Suc.prems(2)] shrinks_trans [OF s1(1) s2(1)] by auto
    have "cells h' c = None" using s2(2) s3(1) unfolding shrinks_def by metis
    moreover have "cells h' q = cells h q" if "d q < d c" for q
    proof -
      have "cells h' q = cells h2 q"
        using s3(2) d(2) that h' by (cases "n_nextSibling x = 0") (auto simp: free_nodes.simps)
      moreover have "q \<noteq> c" using that by auto
      ultimately show ?thesis using s2(3) s1(2) that by simp
    qed
    ultimately show ?thesis using shrinks_trans [OF shrinks_trans [OF s1(1) s2(1)] s3(1)] by blast
  qed
qed

text \<open>Unlinking changes the successor of one node, at most.\<close>

lemma unlink_sibling_frame:
  "unlink_sibling k h c node b = Some h' \<Longrightarrow>
    \<forall>q. (cells h q = None \<longrightarrow> cells h' q = None) \<and>
      (\<forall>x. cells h q = Some x \<longrightarrow> (\<exists>y. cells h' q = Some y \<and> n_child y = n_child x \<and> n_name y = n_name x))"
proof (induction k arbitrary: c)
  case 0
  then show ?case by (auto simp: unlink_sibling.simps split: if_splits)
next
  case (Suc k)
  then show ?case
    by (auto simp: unlink_sibling.simps [of "Suc k"] cells_put split: if_splits option.splits)
qed

text \<open>
  C28. Removing the template of a table, as the end of the registration of a table does, whose name ends in
  \<open>{i}\<close>, frees the elements below it, while a row that shares them keeps its pointer: the row is still there
  and its child is a freed node. The witness looks up an element of the row, which is undefined.
\<close>

theorem removed_template_dangles:
  assumes "8 \<le> node_name_size sz" and "list_all (op_fits sz) ops"
    and "tree_run sz ops init_bus_mux_root = Some h"
    and "get_bus_node_info sz h 1 s = Some c" and "cells h c = Some t"
    and "n_name t = ''{i}''" and "\<not> n_reference t" and "n_child t \<noteq> 0"
    and "cells h r = Some w" and "r \<noteq> c" and "n_child w = n_child t"
    and "bus_table_remove_row sz h 1 s = Some (e, h')"
  shows "\<exists>w'. cells h' r = Some w' \<and> n_name w' = n_name w \<and> n_child w' = n_child t \<and> cells h' (n_child t) = None"
proof -
  obtain d where ok: "tree_ok h 1 d" using run_wf [OF assms(1-3)] by (auto simp: tree_wf_def)
  have deep: "deeper h d" by (rule tree_ok_deeper [OF ok])
  have c0: "c \<noteq> 0" using live_not_null [OF ok] assms(5) by (simp add: live_def)
  have t: "d (n_child t) = Suc (d c)" by (rule deeperD(1) [OF deep assms(5,8)])
  have "n_child w \<noteq> 0" using assms(8,11) by metis
  then have w: "d (n_child w) = Suc (d r)" by (rule deeperD(1) [OF deep assms(9)])
  have rc: "d r = d c" using t w unfolding assms(11) by simp
  have "node_elem_traversal h c = Some h'"
    using assms(4,12) c0 by (auto simp: bus_table_remove_row_def free_node_elems_def)
  then obtain h1 h2 where h1: "free_nodes (brk h) h (n_child t) = Some h1" and h3: "node_elems_free h2 c = Some h'"
    and "unlink_node h1 c (n_parent t) (n_nextSibling t) = Some h2"
    using c0 assms(5,7) by (auto simp: node_elem_traversal_def bind_eq_Some_conv)
  then have h2: "h2 = h1 \<or> (\<exists>p. cells h1 (n_parent t) = Some p \<and>
      (h2 = put h1 (n_parent t) (p\<lparr>n_child := n_nextSibling t\<rparr>) \<and> n_child p = c \<or>
       unlink_sibling (brk h1) h1 (n_child p) c (n_nextSibling t) = Some h2))"
    by (auto simp: unlink_node_def bind_eq_Some_conv split: if_splits)
  have f: "cells h1 (n_child t) = None" "\<forall>q. d q \<le> d c \<longrightarrow> cells h1 q = cells h q"
    using free_nodes_frame [OF h1 deep] assms(8) t by auto
  have r: "cells h1 r = Some w" using f(2) rc assms(9) by simp
  have "cells h2 (n_child t) = None \<and> (\<exists>w'. cells h2 r = Some w' \<and> n_name w' = n_name w \<and> n_child w' = n_child t)"
    using h2
  proof (elim disjE exE conjE)
    assume "h2 = h1"
    then show ?thesis using f(1) r assms(11) by simp
  next
    fix p
    assume p: "cells h1 (n_parent t) = Some p" "h2 = put h1 (n_parent t) (p\<lparr>n_child := n_nextSibling t\<rparr>)" "n_child p = c"
    have "d (n_child p) = Suc (d (n_parent t))"
      by (rule deeperD(1) [OF deeper_shrinks [OF deep] p(1)])
        (use free_nodes_frame [OF h1 deep] p(3) c0 in auto)
    then have "n_parent t \<noteq> r" using p(3) rc by auto
    moreover have "n_parent t \<noteq> n_child t" using p(1) f(1) by auto
    ultimately show ?thesis using p(2) f(1) r assms(11) by (simp add: cells_put)
  next
    fix p
    assume "unlink_sibling (brk h1) h1 (n_child p) c (n_nextSibling t) = Some h2"
    from unlink_sibling_frame [OF this] show ?thesis using f(1) r assms(11) by fastforce
  qed
  then show ?thesis using node_elems_free_frame [OF h3] assms(10) unfolding shrinks_def by metis
qed

section \<open>A table with one row\<close>

definition sample_sizes :: bus_sizes where
  "sample_sizes = \<lparr>bus_name_size = 128, node_name_size = 128, node_full_name_size = 128\<rparr>"

definition sample_elem :: "string \<Rightarrow> bus_element_type \<Rightarrow> nat mux_data_elem" where
  "sample_elem s ty = \<lparr>m_full_name = s, m_type = ty, m_data_type = node_elem_reg_data, m_cfg_data = length s,
     m_cfg_data_len = 8, m_strings = (if ty = elem_type_table then Some 5 else None)\<rparr>"

definition sample_ops :: "nat bus_op list" where
  "sample_ops = [Register (sample_elem ''D.T.{i}.'' elem_type_table),
     Register (sample_elem ''D.T.{i}.x'' elem_type_property), Table_row ''D.T'' 1]"

definition sample_tree :: "nat elem_heap" where
  "sample_tree = the (tree_run sample_sizes sample_ops init_bus_mux_root)"

lemma sample_ops_fit: "8 \<le> node_name_size sample_sizes" "list_all (op_fits sample_sizes) sample_ops"
  by code_simp+

lemma sample_tree_run: "tree_run sample_sizes sample_ops init_bus_mux_root = Some sample_tree"
  using tree_run_wf [OF tree_wf_init sample_ops_fit(2,1)] by (auto simp: sample_tree_def)

lemma sample_new_row:
  "new_row_of sample_sizes sample_tree ''D.T'' 3 (the (cells sample_tree 3)) 4 2"
  "new_row_of sample_sizes sample_tree ''D.T'' 3 (the (cells sample_tree 3)) 4 3"
  unfolding new_row_of_def by (intro conjI; code_simp)+

lemma tree_operations_defined_witness:
  "\<exists>h. tree_run sample_sizes sample_ops init_bus_mux_root = Some h \<and>
    (\<forall>s. length s < bus_name_size sample_sizes - 1 \<longrightarrow> get_bus_node_info sample_sizes h 1 s \<noteq> None)"
  by (rule tree_operations_defined [OF sample_ops_fit])

lemma registered_element_found_witness:
  "\<exists>h' p x. bus_insert_elem_node sample_sizes sample_tree 1 (sample_elem ''D.U.{i}'' elem_type_table) = Some (h', p) \<and>
    get_bus_node_info sample_sizes h' 1
      (strip_row_marker (m_type (sample_elem ''D.U.{i}'' elem_type_table)) (m_full_name (sample_elem ''D.U.{i}'' elem_type_table))) = Some p \<and>
    cells h' p = Some x \<and> n_data x = Some (m_cfg_data (sample_elem ''D.U.{i}'' elem_type_table)) \<and>
    n_type x = m_type (sample_elem ''D.U.{i}'' elem_type_table)"
  by (rule registered_element_found [OF sample_ops_fit sample_tree_run]) code_simp+

lemma row_added_and_removed_witness:
  "\<exists>h' h''. bus_table_add_row sample_sizes sample_tree 1 ''D.T'' 2 = Some (bus_error_success, h') \<and>
    bus_table_remove_row sample_sizes h' 1 (''D.T'' @ ''.'' @ row_name 2) = Some (bus_error_success, h'') \<and>
    cells h'' = cells sample_tree \<and>
    freed_strings h'' = (case shared_strings (the (cells sample_tree 3)) of None \<Rightarrow> [] | Some l \<Rightarrow> [l])"
  by (rule row_added_and_removed [OF sample_ops_fit sample_tree_run sample_new_row(1)])

lemma second_row_frees_twice_witness:
  "\<exists>h1 h2 h3 e e'. bus_table_add_row sample_sizes sample_tree 1 ''D.T'' 2 = Some (e, h1) \<and>
    bus_table_remove_row sample_sizes h1 1 (''D.T'' @ ''.'' @ row_name 2) = Some (e', h2) \<and>
    bus_table_add_row sample_sizes h2 1 ''D.T'' 3 = Some (bus_error_success, h3) \<and>
    bus_table_remove_row sample_sizes h3 1 (''D.T'' @ ''.'' @ row_name 3) = None"
proof -
  let ?add = "bus_table_add_row sample_sizes sample_tree 1 ''D.T'' 2"
  let ?remove = "bus_table_remove_row sample_sizes (snd (the ?add)) 1 (''D.T'' @ ''.'' @ row_name 2)"
  have "(case ?add of None \<Rightarrow> False | Some (e, h1) \<Rightarrow>
    bus_table_remove_row sample_sizes h1 1 (''D.T'' @ ''.'' @ row_name 2) \<noteq> None)" by code_simp
  then obtain e h1 e' h2 where two: "?add = Some (e, h1)"
    "bus_table_remove_row sample_sizes h1 1 (''D.T'' @ ''.'' @ row_name 2) = Some (e', h2)"
    by (auto split: option.splits)
  have "shared_strings (the (cells sample_tree 3)) = Some 5" by code_simp
  from second_row_frees_twice [OF sample_ops_fit sample_tree_run sample_new_row this two] two show ?thesis by blast
qed

lemma table_entry_hides_witness:
  "\<exists>h' p. bus_insert_elem_node sample_sizes sample_tree 1 (sample_elem ''D.T.{i}.'' elem_type_table) = Some (h', p) \<and>
    get_bus_node_info sample_sizes h' 1 (strip_row_marker elem_type_table ''D.T.{i}.'' @ ''.'' @ ''1.x'') = Some 0"
  by (rule table_entry_hides [OF sample_ops_fit sample_tree_run]) code_simp+

lemma removed_template_dangles_witness:
  "(\<exists>w'. cells (snd (the (bus_table_remove_row sample_sizes sample_tree 1 ''D.T.{i}.''))) 6 = Some w' \<and>
     n_name w' = n_name (the (cells sample_tree 6)) \<and> n_child w' = n_child (the (cells sample_tree 4)) \<and>
     cells (snd (the (bus_table_remove_row sample_sizes sample_tree 1 ''D.T.{i}.''))) (n_child (the (cells sample_tree 4))) = None) \<and>
   get_bus_node_info sample_sizes (snd (the (bus_table_remove_row sample_sizes sample_tree 1 ''D.T.{i}.''))) 1 ''D.T.1.x'' = None"
proof
  show "\<exists>w'. cells (snd (the (bus_table_remove_row sample_sizes sample_tree 1 ''D.T.{i}.''))) 6 = Some w' \<and>
     n_name w' = n_name (the (cells sample_tree 6)) \<and> n_child w' = n_child (the (cells sample_tree 4)) \<and>
     cells (snd (the (bus_table_remove_row sample_sizes sample_tree 1 ''D.T.{i}.''))) (n_child (the (cells sample_tree 4))) = None"
  proof (rule removed_template_dangles [OF sample_ops_fit sample_tree_run])
    show "get_bus_node_info sample_sizes sample_tree 1 ''D.T.{i}.'' = Some 4" by code_simp
    show "cells sample_tree 4 = Some (the (cells sample_tree 4))" by code_simp
    show "cells sample_tree 6 = Some (the (cells sample_tree 6))" by code_simp
    have "bus_table_remove_row sample_sizes sample_tree 1 ''D.T.{i}.'' \<noteq> None" by code_simp
    then show "bus_table_remove_row sample_sizes sample_tree 1 ''D.T.{i}.'' =
      Some (fst (the (bus_table_remove_row sample_sizes sample_tree 1 ''D.T.{i}.'')),
        snd (the (bus_table_remove_row sample_sizes sample_tree 1 ''D.T.{i}.'')))" by auto
  qed code_simp+
  show "get_bus_node_info sample_sizes (snd (the (bus_table_remove_row sample_sizes sample_tree 1 ''D.T.{i}.''))) 1 ''D.T.1.x'' = None"
    by code_simp
qed

end
