(* ===== verification/Bus_Values.thy ===== *)
theory Bus_Values
  imports Bus_Tree
begin

text \<open>
  Values on the bus: the checks of \<open>wlan_emu_bus_common.cpp\<close> before a value is set, and the
  conversions of \<open>src/src/bus/rdkb/wlan_emu_bus.cpp\<close> between the codes and values of the bus
  interface and those of rbus. The functions of rbus on values are an argument.
\<close>

section \<open>Types and data\<close>

datatype bus_data_type =
  bus_data_type_boolean | bus_data_type_char | bus_data_type_byte | bus_data_type_int8
| bus_data_type_uint8 | bus_data_type_int16 | bus_data_type_uint16 | bus_data_type_int32
| bus_data_type_uint32 | bus_data_type_init64 | bus_data_type_uint64 | bus_data_type_single
| bus_data_type_double | bus_data_type_datetime | bus_data_type_string | bus_data_type_bytes
| bus_data_type_property | bus_data_type_object | bus_data_type_none

text \<open>
  \<open>raw_data_t\<close>: a type and a union. Every function reads the member that belongs to the type, so
  the two are one datatype; \<open>Bus_other\<close> has a type without a member the code uses. The pointers of strings and
  bytes may be \<open>NULL\<close>, and their length is kept beside them.
\<close>

datatype bus_raw_data =
  Bus_boolean bool | Bus_int8 u8 | Bus_uint8 u8 | Bus_int16 u16 | Bus_uint16 u16
| Bus_int32 u32 | Bus_uint32 u32
| Bus_string "string option" u32 | Bus_bytes "u8 list option" u32 | Bus_other bus_data_type

fun data_type :: "bus_raw_data \<Rightarrow> bus_data_type" where
  "data_type (Bus_boolean b) = bus_data_type_boolean"
| "data_type (Bus_int8 w) = bus_data_type_int8"
| "data_type (Bus_uint8 w) = bus_data_type_uint8"
| "data_type (Bus_int16 w) = bus_data_type_int16"
| "data_type (Bus_uint16 w) = bus_data_type_uint16"
| "data_type (Bus_int32 w) = bus_data_type_int32"
| "data_type (Bus_uint32 w) = bus_data_type_uint32"
| "data_type (Bus_string s n) = bus_data_type_string"
| "data_type (Bus_bytes s n) = bus_data_type_bytes"
| "data_type (Bus_other t) = t"

text \<open>
  \<open>data_model_properties_t\<close>; the bounds are \<open>long\<close>s of 64 bits, and no format is the value 0. The pointer
  to the array of strings is its address with the strings, which nothing writes to; the array is freed
  with the node of the element, and copies of the properties keep the pointer.
\<close>

record data_model_properties =
  data_permission :: bool
  min_data_range :: u64
  max_data_range :: u64
  num_of_str_validation :: u32
  str_validation :: "(nat \<times> string option list) option"
  data_format :: "bus_data_type option"

section \<open>Checking a value\<close>

datatype ret_code = RETURN_OK | RETURN_ERR

text \<open>\<open>COMPARE_INT_RANGE\<close>\<close>

definition compare_int_range :: "int \<Rightarrow> int \<Rightarrow> int \<Rightarrow> ret_code" where
  "compare_int_range min_value max_value set_value =
     (if set_value < min_value then RETURN_ERR
      else if max_value < set_value then RETURN_ERR
      else RETURN_OK)"

definition u8_of :: "u64 \<Rightarrow> u8" where "u8_of w = ucast w"
definition u16_of :: "u64 \<Rightarrow> u16" where "u16_of w = ucast w"
definition u32_of :: "u64 \<Rightarrow> u32" where "u32_of w = ucast w"

text \<open>The bounds are converted to the type of the value before they are compared.\<close>

definition check_dm_min_max_data_range :: "u64 \<Rightarrow> u64 \<Rightarrow> bus_raw_data \<Rightarrow> ret_code" where
  "check_dm_min_max_data_range min_data max_data bus_set_data =
     (if min_data = 0 \<and> max_data = 0 then RETURN_OK
      else case bus_set_data of
        Bus_boolean b \<Rightarrow> compare_int_range (of_bool (min_data \<noteq> 0)) (of_bool (max_data \<noteq> 0)) (of_bool b)
      | Bus_int8 w \<Rightarrow> compare_int_range (sint (u8_of min_data)) (sint (u8_of max_data)) (sint w)
      | Bus_uint8 w \<Rightarrow> compare_int_range (uint (u8_of min_data)) (uint (u8_of max_data)) (uint w)
      | Bus_int16 w \<Rightarrow> compare_int_range (sint (u16_of min_data)) (sint (u16_of max_data)) (sint w)
      | Bus_uint16 w \<Rightarrow> compare_int_range (uint (u16_of min_data)) (uint (u16_of max_data)) (uint w)
      | Bus_int32 w \<Rightarrow> compare_int_range (sint (u32_of min_data)) (sint (u32_of max_data)) (sint w)
      | Bus_uint32 w \<Rightarrow> compare_int_range (uint (u32_of min_data)) (uint (u32_of max_data)) (uint w)
      | _ \<Rightarrow> RETURN_OK)"

text \<open>The search for the string: \<open>None\<close> when the array is shorter than its count.\<close>

fun find_string :: "string option list \<Rightarrow> nat \<Rightarrow> string \<Rightarrow> bool option" where
  "find_string strs 0 t = Some False"
| "find_string [] (Suc n) t = None"
| "find_string (s # strs) (Suc n) t =
     (if (case s of None \<Rightarrow> False | Some u \<Rightarrow> strncmp_eq u t (length t + 1)) then Some True
      else find_string strs n t)"

text \<open>The arrays that were freed are an argument: reading one of them is undefined.\<close>

definition validate_dm_string_param ::
  "nat list \<Rightarrow> u32 \<Rightarrow> (nat \<times> string option list) option \<Rightarrow> string option \<Rightarrow> ret_code option" where
  "validate_dm_string_param freed num_of_str strs set_str =
     (if num_of_str = 0 then Some RETURN_OK
      else case (strs, set_str) of
        (Some (l, ss), Some t) \<Rightarrow>
          if l \<in> set freed then None
          else map_option (\<lambda>found. if found then RETURN_OK else RETURN_ERR) (find_string ss (unat num_of_str) t)
      | _ \<Rightarrow> Some RETURN_OK)"

definition validate_dm_set_parameters :: "nat list \<Rightarrow> data_model_properties \<Rightarrow> bus_raw_data \<Rightarrow> ret_code option" where
  "validate_dm_set_parameters freed prop bus_set_data =
     (if \<not> data_permission prop then Some RETURN_ERR
      else if check_dm_min_max_data_range (min_data_range prop) (max_data_range prop) bus_set_data \<noteq> RETURN_OK
      then Some RETURN_ERR
      else case bus_set_data of
        Bus_string s n \<Rightarrow> validate_dm_string_param freed (num_of_str_validation prop) (str_validation prop) s
      | _ \<Rightarrow> Some RETURN_OK)"

section \<open>The codes of rbus\<close>

text \<open>The error codes of rbus that the code names; any other code is \<open>RBUS_ERROR_OTHER\<close>.\<close>

datatype rbus_error =
  RBUS_ERROR_SUCCESS | RBUS_ERROR_BUS_ERROR | RBUS_ERROR_INVALID_INPUT | RBUS_ERROR_NOT_INITIALIZED
| RBUS_ERROR_OUT_OF_RESOURCES | RBUS_ERROR_DESTINATION_NOT_FOUND | RBUS_ERROR_DESTINATION_NOT_REACHABLE
| RBUS_ERROR_DESTINATION_RESPONSE_FAILURE | RBUS_ERROR_INVALID_RESPONSE_FROM_DESTINATION
| RBUS_ERROR_INVALID_OPERATION | RBUS_ERROR_INVALID_EVENT | RBUS_ERROR_INVALID_HANDLE
| RBUS_ERROR_SESSION_ALREADY_EXIST | RBUS_ERROR_COMPONENT_NAME_DUPLICATE
| RBUS_ERROR_ELEMENT_NAME_DUPLICATE | RBUS_ERROR_ELEMENT_NAME_MISSING
| RBUS_ERROR_COMPONENT_DOES_NOT_EXIST | RBUS_ERROR_ELEMENT_DOES_NOT_EXIST
| RBUS_ERROR_ACCESS_NOT_ALLOWED | RBUS_ERROR_INVALID_CONTEXT | RBUS_ERROR_TIMEOUT
| RBUS_ERROR_ASYNC_RESPONSE | RBUS_ERROR_INVALID_METHOD | RBUS_ERROR_NOSUBSCRIBERS
| RBUS_ERROR_SUBSCRIPTION_ALREADY_EXIST | RBUS_ERROR_INVALID_NAMESPACE | RBUS_ERROR_DIRECT_CON_NOT_EXIST
| RBUS_ERROR_OTHER nat

fun convert_bus_to_rbus_error_code :: "bus_error \<Rightarrow> rbus_error" where
  "convert_bus_to_rbus_error_code bus_error_success = RBUS_ERROR_SUCCESS"
| "convert_bus_to_rbus_error_code bus_error_general = RBUS_ERROR_BUS_ERROR"
| "convert_bus_to_rbus_error_code bus_error_invalid_input = RBUS_ERROR_INVALID_INPUT"
| "convert_bus_to_rbus_error_code bus_error_not_inttialized = RBUS_ERROR_NOT_INITIALIZED"
| "convert_bus_to_rbus_error_code bus_error_out_of_resources = RBUS_ERROR_OUT_OF_RESOURCES"
| "convert_bus_to_rbus_error_code bus_error_destination_not_found = RBUS_ERROR_DESTINATION_NOT_FOUND"
| "convert_bus_to_rbus_error_code bus_error_destination_not_reachable = RBUS_ERROR_DESTINATION_NOT_REACHABLE"
| "convert_bus_to_rbus_error_code bus_error_destination_response_failure =
     RBUS_ERROR_DESTINATION_RESPONSE_FAILURE"
| "convert_bus_to_rbus_error_code bus_error_invalid_response_from_destination =
     RBUS_ERROR_INVALID_RESPONSE_FROM_DESTINATION"
| "convert_bus_to_rbus_error_code bus_error_invalid_operation = RBUS_ERROR_INVALID_OPERATION"
| "convert_bus_to_rbus_error_code bus_error_invalid_event = RBUS_ERROR_INVALID_EVENT"
| "convert_bus_to_rbus_error_code bus_error_invalid_handle = RBUS_ERROR_INVALID_HANDLE"
| "convert_bus_to_rbus_error_code bus_error_session_already_exist = RBUS_ERROR_SESSION_ALREADY_EXIST"
| "convert_bus_to_rbus_error_code bus_error_component_name_duplicate = RBUS_ERROR_COMPONENT_NAME_DUPLICATE"
| "convert_bus_to_rbus_error_code bus_error_element_name_duplicate = RBUS_ERROR_ELEMENT_NAME_DUPLICATE"
| "convert_bus_to_rbus_error_code bus_error_element_name_missing = RBUS_ERROR_ELEMENT_NAME_MISSING"
| "convert_bus_to_rbus_error_code bus_error_component_does_not_exist = RBUS_ERROR_COMPONENT_DOES_NOT_EXIST"
| "convert_bus_to_rbus_error_code bus_error_element_does_not_exist = RBUS_ERROR_ELEMENT_DOES_NOT_EXIST"
| "convert_bus_to_rbus_error_code bus_error_access_not_allowed = RBUS_ERROR_ACCESS_NOT_ALLOWED"
| "convert_bus_to_rbus_error_code bus_error_invalid_context = RBUS_ERROR_INVALID_CONTEXT"
| "convert_bus_to_rbus_error_code bus_error_timeout = RBUS_ERROR_TIMEOUT"
| "convert_bus_to_rbus_error_code bus_error_async_response = RBUS_ERROR_ASYNC_RESPONSE"
| "convert_bus_to_rbus_error_code bus_error_invalid_method = RBUS_ERROR_INVALID_METHOD"
| "convert_bus_to_rbus_error_code bus_error_nosubscribers = RBUS_ERROR_NOSUBSCRIBERS"
| "convert_bus_to_rbus_error_code bus_error_subscription_already_exist = RBUS_ERROR_SUBSCRIPTION_ALREADY_EXIST"
| "convert_bus_to_rbus_error_code bus_error_invalid_namespace = RBUS_ERROR_INVALID_NAMESPACE"
| "convert_bus_to_rbus_error_code bus_error_direct_con_not_exist = RBUS_ERROR_DIRECT_CON_NOT_EXIST"

fun convert_rbus_to_bus_error_code :: "rbus_error \<Rightarrow> bus_error" where
  "convert_rbus_to_bus_error_code RBUS_ERROR_SUCCESS = bus_error_success"
| "convert_rbus_to_bus_error_code RBUS_ERROR_BUS_ERROR = bus_error_general"
| "convert_rbus_to_bus_error_code RBUS_ERROR_INVALID_INPUT = bus_error_invalid_input"
| "convert_rbus_to_bus_error_code RBUS_ERROR_NOT_INITIALIZED = bus_error_not_inttialized"
| "convert_rbus_to_bus_error_code RBUS_ERROR_OUT_OF_RESOURCES = bus_error_out_of_resources"
| "convert_rbus_to_bus_error_code RBUS_ERROR_DESTINATION_NOT_FOUND = bus_error_destination_not_found"
| "convert_rbus_to_bus_error_code RBUS_ERROR_DESTINATION_NOT_REACHABLE = bus_error_destination_not_reachable"
| "convert_rbus_to_bus_error_code RBUS_ERROR_DESTINATION_RESPONSE_FAILURE =
     bus_error_destination_response_failure"
| "convert_rbus_to_bus_error_code RBUS_ERROR_INVALID_RESPONSE_FROM_DESTINATION =
     bus_error_invalid_response_from_destination"
| "convert_rbus_to_bus_error_code RBUS_ERROR_INVALID_OPERATION = bus_error_invalid_operation"
| "convert_rbus_to_bus_error_code RBUS_ERROR_INVALID_EVENT = bus_error_invalid_event"
| "convert_rbus_to_bus_error_code RBUS_ERROR_INVALID_HANDLE = bus_error_invalid_handle"
| "convert_rbus_to_bus_error_code RBUS_ERROR_SESSION_ALREADY_EXIST = bus_error_session_already_exist"
| "convert_rbus_to_bus_error_code RBUS_ERROR_COMPONENT_NAME_DUPLICATE = bus_error_component_name_duplicate"
| "convert_rbus_to_bus_error_code RBUS_ERROR_ELEMENT_NAME_DUPLICATE = bus_error_element_name_duplicate"
| "convert_rbus_to_bus_error_code RBUS_ERROR_ELEMENT_NAME_MISSING = bus_error_element_name_missing"
| "convert_rbus_to_bus_error_code RBUS_ERROR_COMPONENT_DOES_NOT_EXIST = bus_error_component_does_not_exist"
| "convert_rbus_to_bus_error_code RBUS_ERROR_ELEMENT_DOES_NOT_EXIST = bus_error_element_does_not_exist"
| "convert_rbus_to_bus_error_code RBUS_ERROR_ACCESS_NOT_ALLOWED = bus_error_access_not_allowed"
| "convert_rbus_to_bus_error_code RBUS_ERROR_INVALID_CONTEXT = bus_error_invalid_context"
| "convert_rbus_to_bus_error_code RBUS_ERROR_TIMEOUT = bus_error_timeout"
| "convert_rbus_to_bus_error_code RBUS_ERROR_ASYNC_RESPONSE = bus_error_async_response"
| "convert_rbus_to_bus_error_code RBUS_ERROR_INVALID_METHOD = bus_error_invalid_method"
| "convert_rbus_to_bus_error_code RBUS_ERROR_NOSUBSCRIBERS = bus_error_nosubscribers"
| "convert_rbus_to_bus_error_code RBUS_ERROR_SUBSCRIPTION_ALREADY_EXIST = bus_error_subscription_already_exist"
| "convert_rbus_to_bus_error_code RBUS_ERROR_INVALID_NAMESPACE = bus_error_invalid_namespace"
| "convert_rbus_to_bus_error_code RBUS_ERROR_DIRECT_CON_NOT_EXIST = bus_error_direct_con_not_exist"
| "convert_rbus_to_bus_error_code (RBUS_ERROR_OTHER n) = bus_error_general"

datatype rbus_value_type =
  RBUS_BOOLEAN | RBUS_CHAR | RBUS_BYTE | RBUS_INT8 | RBUS_UINT8 | RBUS_INT16 | RBUS_UINT16
| RBUS_INT32 | RBUS_UINT32 | RBUS_INT64 | RBUS_UINT64 | RBUS_SINGLE | RBUS_DOUBLE | RBUS_DATETIME
| RBUS_STRING | RBUS_BYTES | RBUS_PROPERTY | RBUS_OBJECT | RBUS_NONE | RBUS_OTHER_TYPE nat

fun convert_rbus_to_bus_data_type :: "rbus_value_type \<Rightarrow> bus_data_type" where
  "convert_rbus_to_bus_data_type RBUS_BOOLEAN = bus_data_type_boolean"
| "convert_rbus_to_bus_data_type RBUS_CHAR = bus_data_type_char"
| "convert_rbus_to_bus_data_type RBUS_BYTE = bus_data_type_byte"
| "convert_rbus_to_bus_data_type RBUS_INT8 = bus_data_type_int8"
| "convert_rbus_to_bus_data_type RBUS_UINT8 = bus_data_type_uint8"
| "convert_rbus_to_bus_data_type RBUS_INT16 = bus_data_type_int16"
| "convert_rbus_to_bus_data_type RBUS_UINT16 = bus_data_type_uint16"
| "convert_rbus_to_bus_data_type RBUS_INT32 = bus_data_type_int32"
| "convert_rbus_to_bus_data_type RBUS_UINT32 = bus_data_type_uint32"
| "convert_rbus_to_bus_data_type RBUS_INT64 = bus_data_type_init64"
| "convert_rbus_to_bus_data_type RBUS_UINT64 = bus_data_type_uint64"
| "convert_rbus_to_bus_data_type RBUS_SINGLE = bus_data_type_single"
| "convert_rbus_to_bus_data_type RBUS_DOUBLE = bus_data_type_double"
| "convert_rbus_to_bus_data_type RBUS_DATETIME = bus_data_type_datetime"
| "convert_rbus_to_bus_data_type RBUS_STRING = bus_data_type_string"
| "convert_rbus_to_bus_data_type RBUS_BYTES = bus_data_type_bytes"
| "convert_rbus_to_bus_data_type RBUS_PROPERTY = bus_data_type_property"
| "convert_rbus_to_bus_data_type RBUS_OBJECT = bus_data_type_object"
| "convert_rbus_to_bus_data_type RBUS_NONE = bus_data_type_none"
| "convert_rbus_to_bus_data_type (RBUS_OTHER_TYPE n) = bus_data_type_none"

datatype rbus_element_type =
  RBUS_ELEMENT_TYPE_PROPERTY | RBUS_ELEMENT_TYPE_TABLE | RBUS_ELEMENT_TYPE_EVENT | RBUS_ELEMENT_TYPE_METHOD

fun convert_bus_to_rbus_elem_type :: "bus_element_type \<Rightarrow> rbus_element_type" where
  "convert_bus_to_rbus_elem_type elem_type_property = RBUS_ELEMENT_TYPE_PROPERTY"
| "convert_bus_to_rbus_elem_type elem_type_table = RBUS_ELEMENT_TYPE_TABLE"
| "convert_bus_to_rbus_elem_type elem_type_event = RBUS_ELEMENT_TYPE_EVENT"
| "convert_bus_to_rbus_elem_type elem_type_method = RBUS_ELEMENT_TYPE_METHOD"
| "convert_bus_to_rbus_elem_type elem_type_object = RBUS_ELEMENT_TYPE_PROPERTY"

section \<open>The values of rbus\<close>

text \<open>
  The functions of rbus on values, an argument of the model: the getters return the pointer and, for
  strings and bytes, the length as an \<open>int\<close>; the setters return the value afterwards.
\<close>

record 'v rbus_value_ops =
  rbusValue_Init :: 'v
  rbusValue_GetType :: "'v \<Rightarrow> rbus_value_type"
  rbusValue_GetString :: "'v \<Rightarrow> string option \<times> u32"
  rbusValue_GetBytes :: "'v \<Rightarrow> u8 list option \<times> u32"
  rbusValue_GetBoolean :: "'v \<Rightarrow> bool"
  rbusValue_GetInt32 :: "'v \<Rightarrow> u32"
  rbusValue_GetUInt32 :: "'v \<Rightarrow> u32"
  rbusValue_SetString :: "'v \<Rightarrow> string \<Rightarrow> 'v"
  rbusValue_SetFromString :: "'v \<Rightarrow> rbus_value_type \<Rightarrow> string option \<Rightarrow> 'v"
  rbusValue_SetBytes :: "'v \<Rightarrow> u8 list option \<Rightarrow> u32 \<Rightarrow> 'v"
  rbusValue_SetBoolean :: "'v \<Rightarrow> bool \<Rightarrow> 'v"
  rbusValue_SetInt32 :: "'v \<Rightarrow> u32 \<Rightarrow> 'v"
  rbusValue_SetUInt32 :: "'v \<Rightarrow> u32 \<Rightarrow> 'v"

text \<open>\<open>get_rbus_property_data\<close>: the value of the property, as raw data.\<close>

definition get_rbus_property_data :: "'v rbus_value_ops \<Rightarrow> 'v \<Rightarrow> bus_error \<times> bus_raw_data" where
  "get_rbus_property_data rb value =
     (let type = rbusValue_GetType rb value
      in case type of
        RBUS_STRING \<Rightarrow> (bus_error_success, case rbusValue_GetString rb value of (s, n) \<Rightarrow> Bus_string s n)
      | RBUS_UINT32 \<Rightarrow> (bus_error_success, Bus_uint32 (rbusValue_GetUInt32 rb value))
      | RBUS_INT32 \<Rightarrow> (bus_error_success, Bus_int32 (rbusValue_GetInt32 rb value))
      | RBUS_BOOLEAN \<Rightarrow> (bus_error_success, Bus_boolean (rbusValue_GetBoolean rb value))
      | RBUS_BYTES \<Rightarrow> (bus_error_success, case rbusValue_GetBytes rb value of (s, n) \<Rightarrow> Bus_bytes s n)
      | _ \<Rightarrow> (bus_error_invalid_input, Bus_other (convert_rbus_to_bus_data_type type)))"

text \<open>\<open>set_rbus_property_data\<close>: the value the property is given, in every case.\<close>

definition set_rbus_property_data :: "'v rbus_value_ops \<Rightarrow> bus_raw_data \<Rightarrow> bus_error \<times> 'v" where
  "set_rbus_property_data rb bus_data =
     (let value = rbusValue_Init rb
      in case bus_data of
        Bus_string s n \<Rightarrow>
          (bus_error_success, case s of None \<Rightarrow> value | Some t \<Rightarrow> rbusValue_SetString rb value t)
      | Bus_bytes s n \<Rightarrow>
          (bus_error_success, case s of None \<Rightarrow> value | Some t \<Rightarrow> rbusValue_SetBytes rb value (Some t) n)
      | Bus_uint32 w \<Rightarrow> (bus_error_success, rbusValue_SetUInt32 rb value w)
      | Bus_int32 w \<Rightarrow> (bus_error_success, rbusValue_SetInt32 rb value w)
      | Bus_boolean b \<Rightarrow> (bus_error_success, rbusValue_SetBoolean rb value b)
      | _ \<Rightarrow> (if data_type bus_data = bus_data_type_object then bus_error_success else bus_error_invalid_input, value))"

section \<open>Lists of values\<close>

text \<open>\<open>bus_data_prop_t\<close>, chained; an element of the list is one that carries data.\<close>

record bus_data_prop =
  prop_name :: string
  prop_value :: bus_raw_data

text \<open>\<open>rbus_value_to_bus_prop\<close>: the value is put into the head if that is unused, else behind the head.
  The argument \<open>name_size\<close> is the size of the name of an entry.\<close>

definition prop_of_value :: "'v rbus_value_ops \<Rightarrow> 'v \<Rightarrow> bus_raw_data option" where
  "prop_of_value rb value =
     (case rbusValue_GetType rb value of
        RBUS_STRING \<Rightarrow>
          (case rbusValue_GetString rb value of
             (s, len) \<Rightarrow> (case s of
                None \<Rightarrow> None
              | Some t \<Rightarrow> if sint len < 0 then None else Some (Bus_string (Some (take (unat len) t)) len)))
      | RBUS_BYTES \<Rightarrow>
          (case rbusValue_GetBytes rb value of
             (s, len) \<Rightarrow>
               if sint len < 0 \<or> 0 < sint len \<and> s = None then None
               else Some (Bus_bytes (if 0 < sint len then map_option (take (unat len)) s else None) len))
      | RBUS_BOOLEAN \<Rightarrow> Some (Bus_boolean (rbusValue_GetBoolean rb value))
      | RBUS_INT32 \<Rightarrow> Some (Bus_int32 (rbusValue_GetInt32 rb value))
      | RBUS_UINT32 \<Rightarrow> Some (Bus_uint32 (rbusValue_GetUInt32 rb value))
      | _ \<Rightarrow> None)"

definition rbus_value_to_bus_prop ::
  "'v rbus_value_ops \<Rightarrow> nat \<Rightarrow> bus_data_prop list \<Rightarrow> string option \<Rightarrow> 'v option \<Rightarrow> bus_error \<times> bus_data_prop list" where
  "rbus_value_to_bus_prop rb name_size bus_data name value =
     (case value of
        None \<Rightarrow> (bus_error_invalid_input, bus_data)
      | Some v \<Rightarrow>
          (case name of
             Some s \<Rightarrow> if name_size \<le> length s then (bus_error_invalid_input, bus_data)
               else (case prop_of_value rb v of
                       None \<Rightarrow> (bus_error_invalid_input, bus_data)
                     | Some d \<Rightarrow> (bus_error_success,
                         (case bus_data of
                            [] \<Rightarrow> [\<lparr>prop_name = s, prop_value = d\<rparr>]
                          | head # rest \<Rightarrow> head # \<lparr>prop_name = s, prop_value = d\<rparr> # rest)))
           | None \<Rightarrow>
               (case prop_of_value rb v of
                  None \<Rightarrow> (bus_error_invalid_input, bus_data)
                | Some d \<Rightarrow> (bus_error_success,
                    (case bus_data of
                       [] \<Rightarrow> [\<lparr>prop_name = [], prop_value = d\<rparr>]
                     | head # rest \<Rightarrow> head # \<lparr>prop_name = [], prop_value = d\<rparr> # rest)))))"

text \<open>An object of rbus: its properties, each with its name and value if any, and the value
  without a name if it has no properties.\<close>

record 'v rbus_object =
  object_properties :: "(string option \<times> 'v option) list"
  object_value :: "'v option"

fun read_properties ::
  "'v rbus_value_ops \<Rightarrow> nat \<Rightarrow> (string option \<times> 'v option) list \<Rightarrow> bus_data_prop list \<Rightarrow> bus_error \<times> bus_data_prop list" where
  "read_properties rb name_size [] bus_data = (bus_error_success, bus_data)"
| "read_properties rb name_size ((name, value) # ps) bus_data =
     (case name of
        None \<Rightarrow> (bus_error_invalid_input, [])
      | Some s \<Rightarrow>
          (case value of
             None \<Rightarrow> (bus_error_invalid_input, [])
           | Some v \<Rightarrow>
               (case rbus_value_to_bus_prop rb name_size bus_data (Some s) (Some v) of
                  (rc, bus_data') \<Rightarrow>
                    if rc = bus_error_success then read_properties rb name_size ps bus_data' else (rc, []))))"

definition get_rbus_object_data ::
  "'v rbus_value_ops \<Rightarrow> nat \<Rightarrow> 'v rbus_object option \<Rightarrow> bus_data_prop list \<Rightarrow> bus_error \<times> bus_data_prop list" where
  "get_rbus_object_data rb name_size inParams bus_data =
     (case inParams of
        None \<Rightarrow> (bus_error_invalid_input, bus_data)
      | Some ob \<Rightarrow>
          if object_properties ob \<noteq> [] then read_properties rb name_size (object_properties ob) bus_data
          else (case object_value ob of
                  None \<Rightarrow> (bus_error_invalid_input, bus_data)
                | Some v \<Rightarrow>
                    if rbusValue_GetType rb v = RBUS_NONE then (bus_error_success, bus_data)
                    else rbus_value_to_bus_prop rb name_size bus_data None (Some v)))"

definition value_of_prop :: "'v rbus_value_ops \<Rightarrow> bus_raw_data \<Rightarrow> 'v option" where
  "value_of_prop rb d =
     (let value = rbusValue_Init rb
      in case d of
        Bus_string s n \<Rightarrow> Some (rbusValue_SetString rb value (case s of None \<Rightarrow> [] | Some t \<Rightarrow> t))
      | Bus_bytes s n \<Rightarrow> Some (rbusValue_SetBytes rb value s n)
      | Bus_int32 w \<Rightarrow> Some (rbusValue_SetInt32 rb value w)
      | Bus_uint32 w \<Rightarrow> Some (rbusValue_SetUInt32 rb value w)
      | Bus_boolean b \<Rightarrow> Some (rbusValue_SetBoolean rb value b)
      | _ \<Rightarrow> None)"

text \<open>\<open>set_rbus_object_data\<close>: the properties handed to \<open>rbusObject_SetProperty\<close>, in order.\<close>

fun set_rbus_object_data ::
  "'v rbus_value_ops \<Rightarrow> string option \<Rightarrow> (string option \<times> 'v option) list \<Rightarrow> bus_data_prop list \<Rightarrow>
   bus_error \<times> (string option \<times> 'v option) list" where
  "set_rbus_object_data rb name out [] = (bus_error_success, out)"
| "set_rbus_object_data rb name out (p # ps) =
     (case value_of_prop rb (prop_value p) of
        None \<Rightarrow> (bus_error_invalid_input, out)
      | Some v \<Rightarrow>
          let prop_name = (if prop_name p \<noteq> [] then prop_name p
            else case name of Some (c # s) \<Rightarrow> c # s | _ \<Rightarrow> ''value'')
          in set_rbus_object_data rb name (out @ [(Some prop_name, Some v)]) ps)"

end
