(* ===== verification/Bus_Provider.thy ===== *)
theory Bus_Provider
  imports Bus_Values
begin

text \<open>
  \<open>src/src/bus/rdkb/wlan_emu_bus.cpp\<close>: the handlers that rbus calls, which look up the element in one
  of the two trees and call the function the user registered for it, and the functions of the bus
  descriptor. The functions of rbus and the user's functions are arguments; they act on what lies
  outside, the type \<open>'w\<close>. As in theory \<open>Bus_Tree\<close> the result \<open>None\<close> is undefined behaviour.
\<close>

section \<open>Users and state\<close>

datatype bus_event_sub_action = bus_event_action_subscribe | bus_event_action_unsubscribe

text \<open>The functions of a user. A get handler that leaves the data untouched returns \<open>None\<close> for it.\<close>

record 'w bus_callback_table =
  get_handler :: "(string \<Rightarrow> bus_data_type \<Rightarrow> 'w \<Rightarrow> bus_error \<times> bus_raw_data option \<times> 'w) option"
  set_handler :: "(string \<Rightarrow> bus_raw_data \<Rightarrow> 'w \<Rightarrow> bus_error \<times> 'w) option"
  table_add_row_handler :: "(string \<Rightarrow> string option \<Rightarrow> u32 \<Rightarrow> 'w \<Rightarrow> bus_error \<times> u32 \<times> 'w) option"
  table_remove_row_handler :: "(string \<Rightarrow> 'w \<Rightarrow> bus_error \<times> 'w) option"
  event_sub_handler :: "(string \<Rightarrow> bus_event_sub_action \<Rightarrow> u32 \<Rightarrow> bool \<Rightarrow> 'w \<Rightarrow> bool \<times> 'w) option"
  method_handler :: "(string \<Rightarrow> bus_data_prop list \<Rightarrow> 'w \<Rightarrow> bus_error \<times> bus_data_prop list \<times> 'w) option"

record 'w reg_node_data =
  cb_table :: "'w bus_callback_table"
  data_model_prop :: data_model_properties

text \<open>The functions of a subscriber; the last argument before the world is the user data.\<close>

record 'w sub_node_data =
  sub_handler :: "(string \<Rightarrow> bus_data_prop list \<Rightarrow> nat \<Rightarrow> 'w \<Rightarrow> 'w) option"
  sub_ex_async_handler :: "(string \<Rightarrow> bus_error \<Rightarrow> nat \<Rightarrow> 'w \<Rightarrow> 'w) option"

record 'w bus_state =
  reg_tree :: "'w reg_node_data elem_heap"
  sub_tree :: "'w sub_node_data elem_heap"
  outside :: 'w

text \<open>\<open>bus_data_element_t\<close>\<close>

record 'w bus_data_element =
  de_full_name :: string
  de_type :: bus_element_type
  de_cb_table :: "'w bus_callback_table"
  de_data_model_prop :: data_model_properties
  de_num_of_table_row :: u32

text \<open>Which handlers of this file rbus is given for an element.\<close>

record rbus_callback_table =
  getHandler :: bool
  setHandler :: bool
  tableAddRowHandler :: bool
  tableRemoveRowHandler :: bool
  eventSubHandler :: bool
  methodHandler :: bool

record rbus_sub_callback_table =
  r_sub_handler :: bool
  r_sub_ex_async_handler :: bool

definition bus_init :: "'w \<Rightarrow> 'w bus_state" where
  "bus_init w = \<lparr>reg_tree = init_bus_mux_root, sub_tree = init_bus_mux_root, outside = w\<rparr>"

definition get_bus_cb_data_info :: "bus_sizes \<Rightarrow> 'd elem_heap \<Rightarrow> string \<Rightarrow> 'd option option" where
  "get_bus_cb_data_info sz tree s = do {
     n \<leftarrow> get_bus_node_info sz tree 1 s;
     if n = 0 then Some None
     else map_option n_data (cells tree n)
   }"

section \<open>Handlers for the provider of elements\<close>

definition rbus_table_add_row_handler ::
  "bus_sizes \<Rightarrow> string \<Rightarrow> string option \<Rightarrow> u32 \<Rightarrow> 'w bus_state \<Rightarrow> (rbus_error \<times> u32 \<times> 'w bus_state) option" where
  "rbus_table_add_row_handler sz tableName aliasName instNum st = do {
     reg_node \<leftarrow> get_bus_cb_data_info sz (reg_tree st) tableName;
     case reg_node of
       None \<Rightarrow> Some (RBUS_ERROR_ELEMENT_DOES_NOT_EXIST, instNum, st)
     | Some reg_node_data \<Rightarrow>
         (case table_add_row_handler (cb_table reg_node_data) of
            None \<Rightarrow> Some (RBUS_ERROR_SUCCESS, instNum, st)
          | Some user_cb \<Rightarrow>
              (case user_cb tableName aliasName instNum (outside st) of
                 (ret, inst, w) \<Rightarrow>
                   if ret = bus_error_success
                   then map_option (\<lambda>(e, h). (RBUS_ERROR_SUCCESS, inst, st\<lparr>reg_tree := h, outside := w\<rparr>))
                     (bus_table_add_row sz (reg_tree st) 1 tableName inst)
                   else Some (convert_bus_to_rbus_error_code ret, inst, st\<lparr>outside := w\<rparr>)))
   }"

definition rbus_table_remove_row_handler ::
  "bus_sizes \<Rightarrow> string \<Rightarrow> 'w bus_state \<Rightarrow> (rbus_error \<times> 'w bus_state) option" where
  "rbus_table_remove_row_handler sz rowName st = do {
     reg_node \<leftarrow> get_bus_cb_data_info sz (reg_tree st) rowName;
     case reg_node of
       None \<Rightarrow> Some (RBUS_ERROR_ELEMENT_DOES_NOT_EXIST, st)
     | Some reg_node_data \<Rightarrow>
         (case table_remove_row_handler (cb_table reg_node_data) of
            None \<Rightarrow> Some (RBUS_ERROR_SUCCESS, st)
          | Some user_cb \<Rightarrow>
              (case user_cb rowName (outside st) of
                 (ret, w) \<Rightarrow>
                   if ret = bus_error_success
                   then map_option (\<lambda>(e, h). (RBUS_ERROR_SUCCESS, st\<lparr>reg_tree := h, outside := w\<rparr>))
                     (bus_table_remove_row sz (reg_tree st) 1 rowName)
                   else Some (convert_bus_to_rbus_error_code ret, st\<lparr>outside := w\<rparr>)))
   }"

text \<open>\<open>rbus_set_handler\<close>; the name and the value are those of the property.\<close>

definition rbus_set_handler ::
  "bus_sizes \<Rightarrow> 'v rbus_value_ops \<Rightarrow> string option \<Rightarrow> 'v \<Rightarrow> 'w bus_state \<Rightarrow> (rbus_error \<times> 'w bus_state) option" where
  "rbus_set_handler sz rb name value st =
     (case name of
        None \<Rightarrow> Some (RBUS_ERROR_INVALID_INPUT, st)
      | Some event_name \<Rightarrow> do {
          reg_node \<leftarrow> get_bus_cb_data_info sz (reg_tree st) event_name;
          case reg_node of
            None \<Rightarrow> Some (RBUS_ERROR_ELEMENT_DOES_NOT_EXIST, st)
          | Some reg_node_data \<Rightarrow>
              (case set_handler (cb_table reg_node_data) of
                 None \<Rightarrow> Some (RBUS_ERROR_SUCCESS, st)
               | Some user_cb \<Rightarrow>
                   (case get_rbus_property_data rb value of
                      (ret, bus_data) \<Rightarrow>
                        if ret \<noteq> bus_error_success then Some (convert_bus_to_rbus_error_code ret, st)
                        else do {
                          ret_status \<leftarrow> validate_dm_set_parameters (freed_strings (reg_tree st))
                            (data_model_prop reg_node_data) bus_data;
                          if ret_status \<noteq> RETURN_OK then Some (RBUS_ERROR_INVALID_OPERATION, st)
                          else (case user_cb event_name bus_data (outside st) of
                            (ret, w) \<Rightarrow> Some (convert_bus_to_rbus_error_code ret, st\<lparr>outside := w\<rparr>))
                        }))
        })"

text \<open>
  \<open>rbus_get_handler\<close>; the value of the property afterwards is part of the result. The data the user's
  function is given is not initialised: when it leaves a string or bytes untouched, the pointer
  that is freed at the end, or read before, has no value.
\<close>

definition rbus_get_handler ::
  "bus_sizes \<Rightarrow> 'v rbus_value_ops \<Rightarrow> string option \<Rightarrow> 'v \<Rightarrow> 'w bus_state \<Rightarrow> (rbus_error \<times> 'v \<times> 'w bus_state) option" where
  "rbus_get_handler sz rb name value st =
     (case name of
        None \<Rightarrow> Some (RBUS_ERROR_INVALID_INPUT, value, st)
      | Some event_name \<Rightarrow> do {
          reg_node \<leftarrow> get_bus_cb_data_info sz (reg_tree st) event_name;
          case reg_node of
            None \<Rightarrow> Some (RBUS_ERROR_ELEMENT_DOES_NOT_EXIST, value, st)
          | Some reg_node_data \<Rightarrow>
              (let type = convert_rbus_to_bus_data_type (rbusValue_GetType rb value);
                   type' = (case data_format (data_model_prop reg_node_data) of
                     Some f \<Rightarrow> if type = bus_data_type_none then f else type
                   | None \<Rightarrow> type)
               in case get_handler (cb_table reg_node_data) of
                    None \<Rightarrow> Some (RBUS_ERROR_SUCCESS, value, st)
                  | Some user_cb \<Rightarrow>
                      (case user_cb event_name type' (outside st) of
                         (ret, data, w) \<Rightarrow>
                           (case data of
                              None \<Rightarrow>
                                if ret = bus_error_success \<or> type' \<in> {bus_data_type_string, bus_data_type_bytes}
                                then None
                                else Some (convert_bus_to_rbus_error_code ret, value, st\<lparr>outside := w\<rparr>)
                            | Some d \<Rightarrow>
                                if ret = bus_error_success
                                then (case set_rbus_property_data rb d of
                                        (ret', value') \<Rightarrow>
                                          Some (convert_bus_to_rbus_error_code ret', value', st\<lparr>outside := w\<rparr>))
                                else Some (convert_bus_to_rbus_error_code ret, value, st\<lparr>outside := w\<rparr>))))
        })"

text \<open>The other values of the enumeration of rbus are taken for an end of the subscription.\<close>

datatype rbus_event_sub_action =
  RBUS_EVENT_ACTION_SUBSCRIBE | RBUS_EVENT_ACTION_UNSUBSCRIBE | RBUS_EVENT_ACTION_OTHER nat

fun convert_rbus_to_bus_sub_action_type :: "rbus_event_sub_action \<Rightarrow> bus_event_sub_action" where
  "convert_rbus_to_bus_sub_action_type RBUS_EVENT_ACTION_SUBSCRIBE = bus_event_action_subscribe"
| "convert_rbus_to_bus_sub_action_type RBUS_EVENT_ACTION_UNSUBSCRIBE = bus_event_action_unsubscribe"
| "convert_rbus_to_bus_sub_action_type (RBUS_EVENT_ACTION_OTHER n) = bus_event_action_unsubscribe"

definition rbus_event_sub_handler ::
  "bus_sizes \<Rightarrow> rbus_event_sub_action \<Rightarrow> string \<Rightarrow> u32 \<Rightarrow> bool \<Rightarrow> 'w bus_state \<Rightarrow>
   (rbus_error \<times> bool \<times> 'w bus_state) option" where
  "rbus_event_sub_handler sz action eventName interval autoPublish st = do {
     reg_node \<leftarrow> get_bus_cb_data_info sz (reg_tree st) eventName;
     case reg_node of
       None \<Rightarrow> Some (RBUS_ERROR_ELEMENT_DOES_NOT_EXIST, autoPublish, st)
     | Some reg_node_data \<Rightarrow>
         (case event_sub_handler (cb_table reg_node_data) of
            None \<Rightarrow> Some (RBUS_ERROR_SUCCESS, autoPublish, st)
          | Some user_cb \<Rightarrow>
              (case user_cb eventName (convert_rbus_to_bus_sub_action_type action) interval autoPublish (outside st) of
                 (auto_publish, w) \<Rightarrow> Some (RBUS_ERROR_SUCCESS, auto_publish, st\<lparr>outside := w\<rparr>)))
   }"

text \<open>\<open>rbus_method_handler\<close>; \<open>outParams\<close> are the properties set in the object of the results.\<close>

definition rbus_method_handler ::
  "bus_sizes \<Rightarrow> nat \<Rightarrow> 'v rbus_value_ops \<Rightarrow> string \<Rightarrow> 'v rbus_object option \<Rightarrow> (string option \<times> 'v option) list \<Rightarrow>
   'w bus_state \<Rightarrow> (rbus_error \<times> (string option \<times> 'v option) list \<times> 'w bus_state) option" where
  "rbus_method_handler sz name_size rb methodName inParams outParams st = do {
     reg_node \<leftarrow> get_bus_cb_data_info sz (reg_tree st) methodName;
     case reg_node of
       None \<Rightarrow> Some (RBUS_ERROR_ELEMENT_DOES_NOT_EXIST, outParams, st)
     | Some reg_node_data \<Rightarrow>
         (case method_handler (cb_table reg_node_data) of
            None \<Rightarrow> Some (RBUS_ERROR_SUCCESS, outParams, st)
          | Some user_cb \<Rightarrow>
              (case get_rbus_object_data rb name_size inParams [] of
                 (ret, bus_input_data) \<Rightarrow>
                   if ret \<noteq> bus_error_success then Some (convert_bus_to_rbus_error_code ret, outParams, st)
                   else (case user_cb methodName bus_input_data (outside st) of
                     (ret, bus_output_data, w) \<Rightarrow>
                       if ret \<noteq> bus_error_success
                       then Some (convert_bus_to_rbus_error_code ret, outParams, st\<lparr>outside := w\<rparr>)
                       else (case set_rbus_object_data rb (Some methodName) outParams bus_output_data of
                         (ret, out) \<Rightarrow> Some (convert_bus_to_rbus_error_code ret, out, st\<lparr>outside := w\<rparr>)))))
   }"

section \<open>Handlers for the subscriber\<close>

text \<open>\<open>rbus_sub_handler\<close>: the name of the subscription, its user data, the name of the event if it has
  one, and its data.\<close>

definition rbus_sub_handler ::
  "bus_sizes \<Rightarrow> nat \<Rightarrow> 'v rbus_value_ops \<Rightarrow> string \<Rightarrow> nat \<Rightarrow> string option \<Rightarrow> 'v rbus_object option \<Rightarrow>
   'w bus_state \<Rightarrow> 'w bus_state option" where
  "rbus_sub_handler sz name_size rb sub_name userData event_name data st = do {
     sub_node \<leftarrow> get_bus_cb_data_info sz (sub_tree st) sub_name;
     case sub_node of
       None \<Rightarrow> Some st
     | Some sub_node_data \<Rightarrow>
         (case sub_handler sub_node_data of
            None \<Rightarrow> Some st
          | Some user_cb \<Rightarrow>
              (case get_rbus_object_data rb name_size data [] of
                 (ret, bus_data) \<Rightarrow>
                   Some (if ret = bus_error_success
                     then st\<lparr>outside := user_cb (case event_name of Some s \<Rightarrow> s | None \<Rightarrow> sub_name) bus_data userData (outside st)\<rparr>
                     else st)))
   }"

definition rbus_sub_ex_async_handler ::
  "bus_sizes \<Rightarrow> (string \<times> nat) option \<Rightarrow> rbus_error \<Rightarrow> 'w bus_state \<Rightarrow> 'w bus_state option" where
  "rbus_sub_ex_async_handler sz subscription error st =
     (case subscription of
        None \<Rightarrow> Some st
      | Some (event_name, userData) \<Rightarrow> do {
          sub_node \<leftarrow> get_bus_cb_data_info sz (sub_tree st) event_name;
          Some (case sub_node of
            None \<Rightarrow> st
          | Some sub_node_data \<Rightarrow>
              (case sub_ex_async_handler sub_node_data of
                 None \<Rightarrow> st
               | Some user_cb \<Rightarrow>
                   st\<lparr>outside := user_cb event_name (convert_rbus_to_bus_error_code error) userData (outside st)\<rparr>))
        })"

text \<open>\<open>bus_sub_cb_registration\<close>: which handlers rbus is to call, and the user's handlers in the tree.\<close>

definition bus_sub_cb_registration ::
  "bus_sizes \<Rightarrow> nat \<Rightarrow> string \<Rightarrow> 'w sub_node_data \<Rightarrow> rbus_sub_callback_table \<Rightarrow> 'w bus_state \<Rightarrow>
   (rbus_sub_callback_table \<times> 'w bus_state) option" where
  "bus_sub_cb_registration sz data_len event_name user_cb cb st =
     (let cb1 = (if sub_handler user_cb \<noteq> None then cb\<lparr>r_sub_handler := True\<rparr> else cb);
          cb2 = (if sub_ex_async_handler user_cb \<noteq> None then cb1\<lparr>r_sub_ex_async_handler := True\<rparr> else cb1)
      in if sub_handler user_cb \<noteq> None \<or> sub_ex_async_handler user_cb \<noteq> None
         then map_option (\<lambda>(h, n). (cb2, st\<lparr>sub_tree := h\<rparr>))
           (bus_insert_elem_node sz (sub_tree st) 1
             \<lparr>m_full_name = event_name, m_type = elem_type_event, m_data_type = node_elem_sub_data,
              m_cfg_data = user_cb, m_cfg_data_len = data_len,
              m_strings = None\<rparr>)
         else Some (cb2, st))"

section \<open>The calls of rbus\<close>

text \<open>
  The functions of rbus, each with its result and what lies outside afterwards. Adding a row may call
  the handlers of this file, so it acts on the whole state.
\<close>

record 'w rbus_subscription =
  s_eventName :: string
  s_handler :: bool
  s_asyncHandler :: bool
  s_userData :: nat

record ('w, 'v) rbus_calls =
  rbus_open :: "string \<Rightarrow> 'w \<Rightarrow> rbus_error \<times> 'w"
  rbus_close :: "'w \<Rightarrow> rbus_error \<times> 'w"
  rbus_get :: "string \<Rightarrow> 'w \<Rightarrow> rbus_error \<times> 'v \<times> 'w"
  rbus_set :: "string \<Rightarrow> 'v \<Rightarrow> 'w \<Rightarrow> rbus_error \<times> 'w"
  rbus_setStr :: "string \<Rightarrow> string \<Rightarrow> 'w \<Rightarrow> rbus_error \<times> 'w"
  rbus_regDataElement :: "string \<Rightarrow> rbus_element_type \<Rightarrow> rbus_callback_table \<Rightarrow> 'w \<Rightarrow> rbus_error \<times> 'w"
  rbus_unregDataElements :: "(string \<times> rbus_element_type) list \<Rightarrow> 'w \<Rightarrow> rbus_error \<times> 'w"
  rbusTable_addRow :: "string \<Rightarrow> 'w bus_state \<Rightarrow> (rbus_error \<times> 'w bus_state) option"
  rbusTable_registerRow :: "string \<Rightarrow> u32 \<Rightarrow> string option \<Rightarrow> 'w \<Rightarrow> rbus_error \<times> 'w"
  rbusTable_unregisterRow :: "string \<Rightarrow> 'w \<Rightarrow> rbus_error \<times> 'w"
  rbusTable_removeRow :: "string \<Rightarrow> 'w bus_state \<Rightarrow> (rbus_error \<times> 'w bus_state) option"
  rbusEvent_Subscribe :: "string \<Rightarrow> bool \<Rightarrow> nat \<Rightarrow> u32 \<Rightarrow> 'w \<Rightarrow> rbus_error \<times> 'w"
  rbusEvent_SubscribeEx :: "'w rbus_subscription list \<Rightarrow> u32 \<Rightarrow> 'w \<Rightarrow> rbus_error \<times> 'w"
  rbusEvent_SubscribeExAsync :: "'w rbus_subscription list \<Rightarrow> bool \<Rightarrow> u32 \<Rightarrow> 'w \<Rightarrow> rbus_error \<times> 'w"
  rbusEvent_Unsubscribe :: "string \<Rightarrow> 'w \<Rightarrow> rbus_error \<times> 'w"
  rbusEvent_Publish :: "string \<Rightarrow> 'v \<Rightarrow> 'w \<Rightarrow> rbus_error \<times> 'w"
  rbusEvent_PublishRawData :: "string \<Rightarrow> u8 list \<Rightarrow> 'w \<Rightarrow> rbus_error \<times> 'w"
  rbusMethod_Invoke :: "string \<Rightarrow> string \<times> 'v \<Rightarrow> 'w \<Rightarrow> rbus_error \<times> 'v option \<times> 'w"
  rbusHandle_GetTraceContextAsString :: "u32 \<Rightarrow> u32 \<Rightarrow> 'w \<Rightarrow> rbus_error \<times> (string \<times> string) \<times> 'w"

section \<open>Registering and removing elements\<close>

text \<open>\<open>map_bus_user_cb_with_rbus\<close>: rbus gets a handler for each function the user has.\<close>

definition map_bus_user_cb_with_rbus :: "'w bus_callback_table \<Rightarrow> bool \<times> rbus_callback_table" where
  "map_bus_user_cb_with_rbus user_cb =
     (let cb = \<lparr>getHandler = get_handler user_cb \<noteq> None, setHandler = set_handler user_cb \<noteq> None,
        tableAddRowHandler = table_add_row_handler user_cb \<noteq> None,
        tableRemoveRowHandler = table_remove_row_handler user_cb \<noteq> None,
        eventSubHandler = event_sub_handler user_cb \<noteq> None, methodHandler = method_handler user_cb \<noteq> None\<rparr>
      in (getHandler cb \<or> setHandler cb \<or> tableAddRowHandler cb \<or> tableRemoveRowHandler cb \<or>
          eventSubHandler cb \<or> methodHandler cb, cb))"

text \<open>\<open>mux_bus_cb_registration\<close>; \<open>data_len\<close> is the size of the data of a node.\<close>

definition mux_elem :: "bus_sizes \<Rightarrow> nat \<Rightarrow> 'w bus_data_element \<Rightarrow> 'w reg_node_data mux_data_elem" where
  "mux_elem sz data_len e =
     \<lparr>m_full_name = snprintf_store (bus_name_size sz) (de_full_name e), m_type = de_type e,
      m_data_type = node_elem_reg_data,
      m_cfg_data = \<lparr>cb_table = de_cb_table e, data_model_prop = de_data_model_prop e\<rparr>, m_cfg_data_len = data_len,
      m_strings = map_option fst (str_validation (de_data_model_prop e))\<rparr>"

definition mux_bus_cb_registration ::
  "bus_sizes \<Rightarrow> nat \<Rightarrow> 'w bus_data_element \<Rightarrow> bool \<Rightarrow> 'w bus_state \<Rightarrow> 'w bus_state option" where
  "mux_bus_cb_registration sz data_len e user_cb_set st =
     (if user_cb_set
      then map_option (\<lambda>(h, n). st\<lparr>reg_tree := h\<rparr>) (bus_insert_elem_node sz (reg_tree st) 1 (mux_elem sz data_len e))
      else Some st)"

text \<open>The first loop of \<open>bus_reg_data_elements\<close>: the code of the last registration, and the state.\<close>

fun register_elements ::
  "bus_sizes \<Rightarrow> nat \<Rightarrow> ('w, 'v) rbus_calls \<Rightarrow> 'w bus_data_element list \<Rightarrow> rbus_error \<Rightarrow> 'w bus_state \<Rightarrow>
   (rbus_error \<times> 'w bus_state) option" where
  "register_elements sz data_len rc [] ret st = Some (ret, st)"
| "register_elements sz data_len rc (e # es) ret st =
     (case map_bus_user_cb_with_rbus (de_cb_table e) of
        (user_cb_set, cb) \<Rightarrow>
          (case rbus_regDataElement rc (de_full_name e) (convert_bus_to_rbus_elem_type (de_type e)) cb (outside st) of
             (ret', w) \<Rightarrow>
               let st1 = st\<lparr>outside := w\<rparr>
               in if ret' \<noteq> RBUS_ERROR_SUCCESS then register_elements sz data_len rc es ret' st1
                  else Option.bind (mux_bus_cb_registration sz data_len e user_cb_set st1)
                    (register_elements sz data_len rc es ret')))"

text \<open>\<open>remove_substring\<close>: whether the name ends in the marker of the rows, and the name without it.\<close>

definition remove_substring :: "string \<Rightarrow> string \<times> bool" where
  "remove_substring str =
     (let len = length str
      in if 5 < len
         then if drop (len - 5) str = ''.{i}.'' then (take (len - 4) str, True)
              else if drop (len - 4) str = ''.{i}'' then (take (len - 3) str, True)
              else (str, False)
         else (str, False))"

fun add_rows ::
  "('w, 'v) rbus_calls \<Rightarrow> string \<Rightarrow> nat \<Rightarrow> rbus_error \<Rightarrow> 'w bus_state \<Rightarrow> (rbus_error \<times> 'w bus_state) option" where
  "add_rows rc name 0 ret st = Some (ret, st)"
| "add_rows rc name (Suc n) ret st =
     Option.bind (rbusTable_addRow rc name st) (\<lambda>(ret', st'). add_rows rc name n ret' st')"

fun add_table_rows ::
  "bus_sizes \<Rightarrow> ('w, 'v) rbus_calls \<Rightarrow> 'w bus_data_element list \<Rightarrow> rbus_error \<Rightarrow> 'w bus_state \<Rightarrow>
   (rbus_error \<times> 'w bus_state) option" where
  "add_table_rows sz rc [] ret st = Some (ret, st)"
| "add_table_rows sz rc (e # es) ret st =
     (if de_type e = elem_type_table \<and> de_num_of_table_row e \<noteq> 0 \<and>
         snd (remove_substring (snprintf_store (bus_name_size sz) (de_full_name e)))
      then Option.bind
        (add_rows rc (fst (remove_substring (snprintf_store (bus_name_size sz) (de_full_name e))))
          (unat (de_num_of_table_row e)) ret st)
        (\<lambda>(ret', st'). add_table_rows sz rc es ret' st')
      else add_table_rows sz rc es ret st)"

text \<open>\<open>handle\<close> is whether the bus is open; the elements may be a \<open>NULL\<close> pointer.\<close>

definition bus_reg_data_elements ::
  "bus_sizes \<Rightarrow> nat \<Rightarrow> ('w, 'v) rbus_calls \<Rightarrow> bool \<Rightarrow> 'w bus_data_element list option \<Rightarrow> 'w bus_state \<Rightarrow>
   (bus_error \<times> 'w bus_state) option" where
  "bus_reg_data_elements sz data_len rc handle data_element st =
     (case data_element of
        None \<Rightarrow> Some (bus_error_invalid_input, st)
      | Some es \<Rightarrow>
          if \<not> handle then Some (bus_error_invalid_input, st)
          else do {
            (ret, st1) \<leftarrow> register_elements sz data_len rc es RBUS_ERROR_SUCCESS st;
            (ret', st2) \<leftarrow> add_table_rows sz rc es ret st1;
            Some (convert_rbus_to_bus_error_code ret', st2)
          })"

fun remove_elements :: "bus_sizes \<Rightarrow> string list \<Rightarrow> 'd elem_heap \<Rightarrow> 'd elem_heap option" where
  "remove_elements sz [] h = Some h"
| "remove_elements sz (s # ss) h =
     Option.bind (bus_table_remove_row sz h 1 s) (\<lambda>(e, h'). remove_elements sz ss h')"

definition bus_unreg_data_elements ::
  "bus_sizes \<Rightarrow> ('w, 'v) rbus_calls \<Rightarrow> bool \<Rightarrow> 'w bus_data_element list option \<Rightarrow> 'w bus_state \<Rightarrow>
   (bus_error \<times> 'w bus_state) option" where
  "bus_unreg_data_elements sz rc handle data_element st =
     (case data_element of
        None \<Rightarrow> Some (bus_error_invalid_input, st)
      | Some es \<Rightarrow>
          if \<not> handle then Some (bus_error_invalid_input, st)
          else (case rbus_unregDataElements rc
              (map (\<lambda>e. (de_full_name e, convert_bus_to_rbus_elem_type (de_type e))) es) (outside st) of
            (ret, w) \<Rightarrow>
              let st1 = st\<lparr>outside := w\<rparr>
              in if ret \<noteq> RBUS_ERROR_SUCCESS then Some (convert_rbus_to_bus_error_code ret, st1)
                 else map_option (\<lambda>h. (bus_error_success, st1\<lparr>reg_tree := h\<rparr>))
                   (remove_elements sz (map de_full_name es) (reg_tree st1))))"

definition bus_reg_table_row ::
  "bus_sizes \<Rightarrow> ('w, 'v) rbus_calls \<Rightarrow> string \<Rightarrow> u32 \<Rightarrow> string option \<Rightarrow> 'w bus_state \<Rightarrow> (bus_error \<times> 'w bus_state) option" where
  "bus_reg_table_row sz rc name row_index alias_name st =
     (case rbusTable_registerRow rc name row_index alias_name (outside st) of
        (ret, w) \<Rightarrow>
          let st1 = st\<lparr>outside := w\<rparr>
          in if ret \<noteq> RBUS_ERROR_SUCCESS then Some (convert_rbus_to_bus_error_code ret, st1)
             else map_option (\<lambda>(e, h). (bus_error_success, st1\<lparr>reg_tree := h\<rparr>))
               (bus_table_add_row sz (reg_tree st1) 1 name row_index))"

definition bus_unreg_table_row ::
  "bus_sizes \<Rightarrow> ('w, 'v) rbus_calls \<Rightarrow> string \<Rightarrow> 'w bus_state \<Rightarrow> (bus_error \<times> 'w bus_state) option" where
  "bus_unreg_table_row sz rc name st =
     (case rbusTable_unregisterRow rc name (outside st) of
        (ret, w) \<Rightarrow>
          let st1 = st\<lparr>outside := w\<rparr>
          in if ret \<noteq> RBUS_ERROR_SUCCESS then Some (convert_rbus_to_bus_error_code ret, st1)
             else map_option (\<lambda>(e, h). (bus_error_success, st1\<lparr>reg_tree := h\<rparr>))
               (bus_table_remove_row sz (reg_tree st1) 1 name))"

definition bus_remove_table_row ::
  "('w, 'v) rbus_calls \<Rightarrow> string \<Rightarrow> 'w bus_state \<Rightarrow> (bus_error \<times> 'w bus_state) option" where
  "bus_remove_table_row rc name st =
     map_option (\<lambda>(ret, st'). (convert_rbus_to_bus_error_code ret, st')) (rbusTable_removeRow rc name st)"

section \<open>Getting, setting and publishing\<close>

text \<open>The result of a call that only acts outside.\<close>

definition bus_call :: "('w \<Rightarrow> rbus_error \<times> 'w) \<Rightarrow> 'w bus_state \<Rightarrow> bus_error \<times> 'w bus_state" where
  "bus_call f st = (case f (outside st) of (rc, w) \<Rightarrow> (convert_rbus_to_bus_error_code rc, st\<lparr>outside := w\<rparr>))"

definition bus_open :: "('w, 'v) rbus_calls \<Rightarrow> string \<Rightarrow> 'w bus_state \<Rightarrow> bus_error \<times> 'w bus_state" where
  "bus_open rc component_name = bus_call (rbus_open rc component_name)"

definition bus_close :: "('w, 'v) rbus_calls \<Rightarrow> 'w bus_state \<Rightarrow> bus_error \<times> 'w bus_state" where
  "bus_close rc = bus_call (rbus_close rc)"

definition bus_set_string :: "('w, 'v) rbus_calls \<Rightarrow> string \<Rightarrow> string \<Rightarrow> 'w bus_state \<Rightarrow> bus_error \<times> 'w bus_state" where
  "bus_set_string rc param_name param_str = bus_call (rbus_setStr rc param_name param_str)"

definition bus_raw_event_publish :: "('w, 'v) rbus_calls \<Rightarrow> string \<Rightarrow> u8 list \<Rightarrow> 'w bus_state \<Rightarrow> bus_error \<times> 'w bus_state" where
  "bus_raw_event_publish rc name data = bus_call (rbusEvent_PublishRawData rc name data)"

definition bus_event_unsubscribe :: "('w, 'v) rbus_calls \<Rightarrow> string \<Rightarrow> 'w bus_state \<Rightarrow> bus_error \<times> 'w bus_state" where
  "bus_event_unsubscribe rc event_name = bus_call (rbusEvent_Unsubscribe rc event_name)"

text \<open>The value \<open>bus_set\<close> and \<open>bus_event_publish\<close> send: a \<open>NULL\<close> string is handed to rbus, which the
  model does not follow; any other type sends the initial value.\<close>

definition bus_value :: "'v rbus_value_ops \<Rightarrow> bus_raw_data \<Rightarrow> 'v option" where
  "bus_value rb data =
     (let value = rbusValue_Init rb
      in case data of
        Bus_boolean b \<Rightarrow> Some (rbusValue_SetBoolean rb value b)
      | Bus_string s n \<Rightarrow> map_option (rbusValue_SetString rb value) s
      | Bus_uint32 w \<Rightarrow> Some (rbusValue_SetUInt32 rb value w)
      | Bus_int32 w \<Rightarrow> Some (rbusValue_SetInt32 rb value w)
      | Bus_bytes s n \<Rightarrow> Some (rbusValue_SetBytes rb value s n)
      | _ \<Rightarrow> Some value)"

definition bus_set ::
  "('w, 'v) rbus_calls \<Rightarrow> 'v rbus_value_ops \<Rightarrow> string \<Rightarrow> bus_raw_data \<Rightarrow> 'w bus_state \<Rightarrow> (bus_error \<times> 'w bus_state) option" where
  "bus_set rc rb name data st = map_option (\<lambda>v. bus_call (rbus_set rc name v) st) (bus_value rb data)"

definition bus_event_publish ::
  "('w, 'v) rbus_calls \<Rightarrow> 'v rbus_value_ops \<Rightarrow> string \<Rightarrow> bus_raw_data \<Rightarrow> 'w bus_state \<Rightarrow> (bus_error \<times> 'w bus_state) option" where
  "bus_event_publish rc rb name data st = map_option (\<lambda>v. bus_call (rbusEvent_Publish rc name v) st) (bus_value rb data)"

text \<open>\<open>bus_data_get\<close>: the data the caller has afterwards. A type that is not known leaves the type of the
  data as it was, with the union cleared, and is reported as a success.\<close>

fun cleared :: "bus_raw_data \<Rightarrow> bus_raw_data" where
  "cleared (Bus_boolean b) = Bus_boolean False"
| "cleared (Bus_int8 w) = Bus_int8 0"
| "cleared (Bus_uint8 w) = Bus_uint8 0"
| "cleared (Bus_int16 w) = Bus_int16 0"
| "cleared (Bus_uint16 w) = Bus_uint16 0"
| "cleared (Bus_int32 w) = Bus_int32 0"
| "cleared (Bus_uint32 w) = Bus_uint32 0"
| "cleared (Bus_string s n) = Bus_string None 0"
| "cleared (Bus_bytes s n) = Bus_bytes None 0"
| "cleared (Bus_other t) = Bus_other t"

definition bus_data_get ::
  "('w, 'v) rbus_calls \<Rightarrow> 'v rbus_value_ops \<Rightarrow> string \<Rightarrow> bus_raw_data \<Rightarrow> 'w bus_state \<Rightarrow> bus_error \<times> bus_raw_data \<times> 'w bus_state" where
  "bus_data_get rc rb name data st =
     (case rbus_get rc name (outside st) of
        (ret, value, w) \<Rightarrow>
          let st1 = st\<lparr>outside := w\<rparr>
          in if ret \<noteq> RBUS_ERROR_SUCCESS then (convert_rbus_to_bus_error_code ret, data, st1)
             else (bus_error_success,
               (case rbusValue_GetType rb value of
                  RBUS_BOOLEAN \<Rightarrow> Bus_boolean (rbusValue_GetBoolean rb value)
                | RBUS_STRING \<Rightarrow>
                    (case rbusValue_GetString rb value of (s, n) \<Rightarrow> Bus_string (map_option (take (unat n)) s) n)
                | RBUS_UINT32 \<Rightarrow> Bus_uint32 (rbusValue_GetUInt32 rb value)
                | RBUS_INT32 \<Rightarrow> Bus_int32 (rbusValue_GetInt32 rb value)
                | RBUS_BYTES \<Rightarrow>
                    (case rbusValue_GetBytes rb value of (s, n) \<Rightarrow> Bus_bytes (map_option (take (unat n)) s) n)
                | _ \<Rightarrow> cleared data), st1))"

text \<open>
  \<open>bus_method_invoke\<close>: the parameter is a property with the given string or the initial value, and the
  result is the value of the first property rbus returns; without one the code reads through
  \<open>NULL\<close>. A method that fails, and one invoked to set, leave the output as it was.
\<close>

datatype bus_method_kind = BUS_METHOD_GET | BUS_METHOD_SET

definition method_output :: "'v rbus_value_ops \<Rightarrow> 'v \<Rightarrow> bus_raw_data \<Rightarrow> rbus_error \<times> bus_raw_data" where
  "method_output rb value output_data =
     (case output_data of
        Bus_boolean b \<Rightarrow> (RBUS_ERROR_SUCCESS, Bus_boolean (rbusValue_GetBoolean rb value))
      | Bus_string s n \<Rightarrow> (RBUS_ERROR_SUCCESS, case rbusValue_GetString rb value of (s, n) \<Rightarrow> Bus_string s n)
      | Bus_uint32 w \<Rightarrow> (RBUS_ERROR_SUCCESS, Bus_uint32 (rbusValue_GetUInt32 rb value))
      | Bus_int32 w \<Rightarrow> (RBUS_ERROR_SUCCESS, Bus_int32 (rbusValue_GetInt32 rb value))
      | Bus_bytes s n \<Rightarrow> (RBUS_ERROR_SUCCESS, case rbusValue_GetBytes rb value of (s, n) \<Rightarrow> Bus_bytes s n)
      | _ \<Rightarrow> (RBUS_ERROR_INVALID_INPUT, output_data))"

definition bus_method_invoke ::
  "('w, 'v) rbus_calls \<Rightarrow> 'v rbus_value_ops \<Rightarrow> string \<Rightarrow> string \<Rightarrow> bus_raw_data \<Rightarrow> bus_raw_data \<Rightarrow> bus_method_kind \<Rightarrow>
   'w bus_state \<Rightarrow> (bus_error \<times> bus_raw_data \<times> 'w bus_state) option" where
  "bus_method_invoke rc rb paramName event input_data output_data input_bus_data st =
     (let value = (case input_data of
        Bus_string s n \<Rightarrow>
          if input_bus_data = BUS_METHOD_SET then rbusValue_SetFromString rb (rbusValue_Init rb) RBUS_STRING s
          else rbusValue_Init rb
      | _ \<Rightarrow> rbusValue_Init rb)
      in case rbusMethod_Invoke rc event (paramName, value) (outside st) of
           (ret, out, w) \<Rightarrow>
             let st1 = st\<lparr>outside := w\<rparr>
             in if ret = RBUS_ERROR_SUCCESS \<and> input_bus_data = BUS_METHOD_GET
                then map_option (\<lambda>v. case method_output rb v output_data of
                    (ret', d) \<Rightarrow> (convert_rbus_to_bus_error_code ret', d, st1)) out
                else Some (convert_rbus_to_bus_error_code ret, output_data, st1))"

definition bus_get_trace_context ::
  "('w, 'v) rbus_calls \<Rightarrow> u32 \<Rightarrow> u32 \<Rightarrow> 'w bus_state \<Rightarrow> bus_error \<times> (string \<times> string) \<times> 'w bus_state" where
  "bus_get_trace_context rc traceParentLength traceStateLength st =
     (case rbusHandle_GetTraceContextAsString rc traceParentLength traceStateLength (outside st) of
        (ret, trace, w) \<Rightarrow> (convert_rbus_to_bus_error_code ret, trace, st\<lparr>outside := w\<rparr>))"

section \<open>Subscribing\<close>

definition no_rbus_cb :: rbus_sub_callback_table where
  "no_rbus_cb = \<lparr>r_sub_handler = False, r_sub_ex_async_handler = False\<rparr>"

definition bus_event_subscribe ::
  "bus_sizes \<Rightarrow> nat \<Rightarrow> ('w, 'v) rbus_calls \<Rightarrow> string \<Rightarrow> (string \<Rightarrow> bus_data_prop list \<Rightarrow> nat \<Rightarrow> 'w \<Rightarrow> 'w) option \<Rightarrow>
   nat \<Rightarrow> u32 \<Rightarrow> 'w bus_state \<Rightarrow> (bus_error \<times> 'w bus_state) option" where
  "bus_event_subscribe sz data_len rc event_name cb userData timeout st = do {
     (rbus_cb, st1) \<leftarrow> bus_sub_cb_registration sz data_len event_name
       \<lparr>sub_handler = cb, sub_ex_async_handler = None\<rparr> no_rbus_cb st;
     Some (bus_call (rbusEvent_Subscribe rc event_name (r_sub_handler rbus_cb) userData timeout) st1)
   }"

text \<open>An entry of \<open>bus_event_sub_t\<close>: the name, the handler and the user data.\<close>

type_synonym 'w bus_event_sub = "string \<times> (string \<Rightarrow> bus_data_prop list \<Rightarrow> nat \<Rightarrow> 'w \<Rightarrow> 'w) option \<times> nat"

text \<open>The loop of both functions below: the table of handlers is kept from one entry to the next.\<close>

fun subscribe_loop ::
  "bus_sizes \<Rightarrow> nat \<Rightarrow> (string \<Rightarrow> bus_error \<Rightarrow> nat \<Rightarrow> 'w \<Rightarrow> 'w) option \<Rightarrow> 'w bus_event_sub list \<Rightarrow>
   rbus_sub_callback_table \<Rightarrow> 'w rbus_subscription list \<Rightarrow> 'w bus_state \<Rightarrow>
   (rbus_sub_callback_table \<times> 'w rbus_subscription list \<times> 'w bus_state) option" where
  "subscribe_loop sz data_len async [] cb out st = Some (cb, out, st)"
| "subscribe_loop sz data_len async ((event_name, handler, user_data) # subs) cb out st = do {
     (cb', st') \<leftarrow> bus_sub_cb_registration sz data_len event_name
       \<lparr>sub_handler = handler, sub_ex_async_handler = async\<rparr> cb st;
     subscribe_loop sz data_len async subs cb'
       (out @ [\<lparr>s_eventName = event_name, s_handler = r_sub_handler cb', s_asyncHandler = r_sub_ex_async_handler cb',
         s_userData = user_data\<rparr>]) st'
   }"

definition bus_event_subscribe_ex ::
  "bus_sizes \<Rightarrow> nat \<Rightarrow> ('w, 'v) rbus_calls \<Rightarrow> bool \<Rightarrow> 'w bus_event_sub list option \<Rightarrow> u32 \<Rightarrow> 'w bus_state \<Rightarrow>
   (bus_error \<times> 'w bus_state) option" where
  "bus_event_subscribe_ex sz data_len rc handle l_sub_info_map timeout st =
     (case l_sub_info_map of
        None \<Rightarrow> Some (bus_error_invalid_input, st)
      | Some subs \<Rightarrow>
          if \<not> handle then Some (bus_error_invalid_input, st)
          else do {
            (cb, sub_info_map, st1) \<leftarrow> subscribe_loop sz data_len None subs no_rbus_cb [] st;
            Some (bus_call (rbusEvent_SubscribeEx rc sub_info_map timeout) st1)
          })"

definition bus_event_subscribe_ex_async ::
  "bus_sizes \<Rightarrow> nat \<Rightarrow> ('w, 'v) rbus_calls \<Rightarrow> bool \<Rightarrow> 'w bus_event_sub list option \<Rightarrow>
   (string \<Rightarrow> bus_error \<Rightarrow> nat \<Rightarrow> 'w \<Rightarrow> 'w) option \<Rightarrow> u32 \<Rightarrow> 'w bus_state \<Rightarrow> (bus_error \<times> 'w bus_state) option" where
  "bus_event_subscribe_ex_async sz data_len rc handle l_sub_info_map l_sub_handler timeout st =
     (case l_sub_info_map of
        None \<Rightarrow> Some (bus_error_invalid_input, st)
      | Some subs \<Rightarrow>
          if \<not> handle then Some (bus_error_invalid_input, st)
          else do {
            (cb, sub_info_map, st1) \<leftarrow> subscribe_loop sz data_len l_sub_handler subs no_rbus_cb [] st;
            Some (bus_call (rbusEvent_SubscribeExAsync rc sub_info_map (r_sub_ex_async_handler cb) timeout) st1)
          })"

end
