(* ===== verification/Bus_Facts.thy ===== *)
theory Bus_Facts
  imports Bus_Tree_Runs Bus_Provider
begin

text \<open>
  What the provider's side of the bus promises: a value reaches the function of the user only when
  the properties of the element accept it, a new row is served by the functions of the template,
  codes and values survive their conversions, and where the conversions lose something.
\<close>

section \<open>Which values are accepted\<close>

text \<open>The bounds of an element, as they apply to a value; no bounds at all when both are 0.\<close>

fun in_bounds :: "u64 \<Rightarrow> u64 \<Rightarrow> bus_raw_data \<Rightarrow> bool" where
  "in_bounds lo hi (Bus_boolean b) \<longleftrightarrow> (lo \<noteq> 0 \<longrightarrow> b) \<and> (b \<longrightarrow> hi \<noteq> 0)"
| "in_bounds lo hi (Bus_int8 w) \<longleftrightarrow> u8_of lo \<le>s w \<and> w \<le>s u8_of hi"
| "in_bounds lo hi (Bus_uint8 w) \<longleftrightarrow> u8_of lo \<le> w \<and> w \<le> u8_of hi"
| "in_bounds lo hi (Bus_int16 w) \<longleftrightarrow> u16_of lo \<le>s w \<and> w \<le>s u16_of hi"
| "in_bounds lo hi (Bus_uint16 w) \<longleftrightarrow> u16_of lo \<le> w \<and> w \<le> u16_of hi"
| "in_bounds lo hi (Bus_int32 w) \<longleftrightarrow> u32_of lo \<le>s w \<and> w \<le>s u32_of hi"
| "in_bounds lo hi (Bus_uint32 w) \<longleftrightarrow> u32_of lo \<le> w \<and> w \<le> u32_of hi"
| "in_bounds lo hi d \<longleftrightarrow> True"

text \<open>The strings an element lists, if it lists any.\<close>

definition listed :: "data_model_properties \<Rightarrow> bus_raw_data \<Rightarrow> bool" where
  "listed prop d \<longleftrightarrow>
     (case (d, str_validation prop) of
        (Bus_string (Some s) n, Some (l, ss)) \<Rightarrow>
          num_of_str_validation prop \<noteq> 0 \<longrightarrow> Some s \<in> set (take (unat (num_of_str_validation prop)) ss)
      | _ \<Rightarrow> True)"

definition dm_accepts :: "data_model_properties \<Rightarrow> bus_raw_data \<Rightarrow> bool" where
  "dm_accepts prop d \<longleftrightarrow>
     data_permission prop \<and>
     (min_data_range prop = 0 \<and> max_data_range prop = 0 \<or> in_bounds (min_data_range prop) (max_data_range prop) d) \<and>
     listed prop d"

lemma compare_int_range_ok: "compare_int_range lo hi v = RETURN_OK \<longleftrightarrow> lo \<le> v \<and> v \<le> hi"
  by (auto simp: compare_int_range_def)

lemma range_check_ok:
  "check_dm_min_max_data_range lo hi d = RETURN_OK \<longleftrightarrow> lo = 0 \<and> hi = 0 \<or> in_bounds lo hi d"
  by (cases d) (auto simp: check_dm_min_max_data_range_def compare_int_range_ok word_sle_eq word_le_def)

lemma strncmp_eq_whole: "strncmp_eq u t (Suc (length t)) \<longleftrightarrow> u = t"
proof
  assume "strncmp_eq u t (Suc (length t))"
  then have e: "take (Suc (length t)) u = t" by (simp add: strncmp_eq_take)
  then have "length (take (Suc (length t)) u) = length t" by simp
  then have "length u = length t" by simp
  then show "u = t" using e by simp
qed (simp add: strncmp_eq_take)

lemma find_string_finds:
  "n \<le> length ss \<Longrightarrow> find_string ss n t = Some (Some t \<in> set (take n ss))"
  by (induction ss n t rule: find_string.induct)
    (auto simp: strncmp_eq_whole simp del: strncmp_eq.simps split: option.splits)

text \<open>The array of strings was not freed, and it is as long as the element says.\<close>

definition strings_there :: "nat list \<Rightarrow> data_model_properties \<Rightarrow> bool" where
  "strings_there freed prop \<longleftrightarrow>
     (case str_validation prop of
        None \<Rightarrow> True
      | Some (l, ss) \<Rightarrow> l \<notin> set freed \<and> unat (num_of_str_validation prop) \<le> length ss)"

lemma validate_string:
  assumes "strings_there freed prop"
  shows "validate_dm_string_param freed (num_of_str_validation prop) (str_validation prop) s =
    Some (if listed prop (Bus_string s n) then RETURN_OK else RETURN_ERR)"
  using assms find_string_finds
  by (auto simp: validate_dm_string_param_def listed_def strings_there_def split: option.splits)

lemma validate_accepts:
  assumes "strings_there freed prop"
  shows "validate_dm_set_parameters freed prop d = Some (if dm_accepts prop d then RETURN_OK else RETURN_ERR)"
proof (cases "\<exists>s n. d = Bus_string s n")
  case True
  then obtain s n where "d = Bus_string s n" by blast
  then show ?thesis using validate_string [OF assms, of s n]
    by (auto simp: validate_dm_set_parameters_def dm_accepts_def range_check_ok)
next
  case False
  then have "listed prop d" by (cases d) (auto simp: listed_def)
  then show ?thesis using False
    by (cases d) (auto simp: validate_dm_set_parameters_def dm_accepts_def range_check_ok simp del: in_bounds.simps)
qed

text \<open>
  C21. When rbus sets an element that has a set handler, the function of the user is called exactly once with
  the value if the element accepts it, and its result is returned; otherwise nothing changes and the
  operation is reported as invalid. An element accepts a value if it may be written, its bounds are both 0 or
  contain the value in its own type, and a string is among those the element lists, if it lists any. The
  list must be there still: removing a row frees the list of its table.
\<close>

theorem set_reaches_user_iff_accepted:
  assumes "get_bus_cb_data_info sz (reg_tree st) s = Some (Some node)"
    and "set_handler (cb_table node) = Some f" and "strings_there (freed_strings (reg_tree st)) (data_model_prop node)"
    and "get_rbus_property_data rb value = (bus_error_success, d)"
  shows "rbus_set_handler sz rb (Some s) value st =
    Some (if dm_accepts (data_model_prop node) d
          then (convert_bus_to_rbus_error_code (fst (f s d (outside st))), st\<lparr>outside := snd (f s d (outside st))\<rparr>)
          else (RBUS_ERROR_INVALID_OPERATION, st))"
  using assms by (simp add: rbus_set_handler_def validate_accepts split: prod.splits)

section \<open>Codes and values\<close>

lemma error_code_round_trip: "convert_rbus_to_bus_error_code (convert_bus_to_rbus_error_code e) = e"
  by (cases e) simp_all

text \<open>Values that can be set: strings and bytes with the length that is said.\<close>

fun carried :: "bus_raw_data \<Rightarrow> bool" where
  "carried (Bus_boolean b) \<longleftrightarrow> True"
| "carried (Bus_int32 w) \<longleftrightarrow> True"
| "carried (Bus_uint32 w) \<longleftrightarrow> True"
| "carried (Bus_string (Some s) n) \<longleftrightarrow> n = of_nat (length s)"
| "carried (Bus_bytes (Some b) n) \<longleftrightarrow> n = of_nat (length b)"
| "carried d \<longleftrightarrow> False"

text \<open>What rbus documents of its values: what was set is read, with its type.\<close>

definition rbus_reads_back :: "'v rbus_value_ops \<Rightarrow> bool" where
  "rbus_reads_back rb \<longleftrightarrow>
     (\<forall>v s. rbusValue_GetType rb (rbusValue_SetString rb v s) = RBUS_STRING \<and>
        rbusValue_GetString rb (rbusValue_SetString rb v s) = (Some s, of_nat (length s))) \<and>
     (\<forall>v b n. rbusValue_GetType rb (rbusValue_SetBytes rb v (Some b) n) = RBUS_BYTES \<and>
        rbusValue_GetBytes rb (rbusValue_SetBytes rb v (Some b) n) = (Some (take (unat n) b), n)) \<and>
     (\<forall>v b. rbusValue_GetType rb (rbusValue_SetBoolean rb v b) = RBUS_BOOLEAN \<and>
        rbusValue_GetBoolean rb (rbusValue_SetBoolean rb v b) = b) \<and>
     (\<forall>v w. rbusValue_GetType rb (rbusValue_SetInt32 rb v w) = RBUS_INT32 \<and>
        rbusValue_GetInt32 rb (rbusValue_SetInt32 rb v w) = w) \<and>
     (\<forall>v w. rbusValue_GetType rb (rbusValue_SetUInt32 rb v w) = RBUS_UINT32 \<and>
        rbusValue_GetUInt32 rb (rbusValue_SetUInt32 rb v w) = w)"

definition short_bytes :: "bus_raw_data \<Rightarrow> bool" where
  "short_bytes d \<longleftrightarrow> (\<forall>b n. d = Bus_bytes (Some b) n \<longrightarrow> length b < 2 ^ 32)"

lemma value_round_trip:
  assumes "rbus_reads_back rb" and "carried d" and "short_bytes d"
  shows "get_rbus_property_data rb (snd (set_rbus_property_data rb d)) = (bus_error_success, d)"
  using assms
  by (cases d rule: carried.cases)
    (auto simp: rbus_reads_back_def set_rbus_property_data_def get_rbus_property_data_def short_bytes_def Let_def)

text \<open>The parameters of a method: the first stays in front, the others are turned round.\<close>

definition parameter_of :: "'v rbus_value_ops \<Rightarrow> nat \<Rightarrow> (string option \<times> 'v option) \<Rightarrow> bus_data_prop option" where
  "parameter_of rb name_size p =
     (case p of
        (Some s, Some v) \<Rightarrow>
          if name_size \<le> length s then None
          else map_option (\<lambda>d. \<lparr>prop_name = s, prop_value = d\<rparr>) (prop_of_value rb v)
      | _ \<Rightarrow> None)"

lemma read_properties_behind_head:
  assumes "list_all2 (\<lambda>p q. parameter_of rb name_size p = Some q) ps qs"
  shows "read_properties rb name_size ps (x # xs) = (bus_error_success, x # rev qs @ xs)"
  using assms
proof (induction ps qs arbitrary: xs rule: list_all2_induct)
  case (Cons p ps q qs)
  then show ?case
    by (cases p) (auto simp: parameter_of_def rbus_value_to_bus_prop_def split: option.splits if_splits)
qed simp

lemma method_parameters_turned:
  assumes "list_all2 (\<lambda>p q. parameter_of rb name_size p = Some q) (p # ps) (q # qs)"
    and "object_properties ob = p # ps"
  shows "get_rbus_object_data rb name_size (Some ob) [] = (bus_error_success, q # rev qs)"
proof -
  have "read_properties rb name_size (p # ps) [] = read_properties rb name_size ps [q]"
    using assms(1)
    by (cases p) (auto simp: parameter_of_def rbus_value_to_bus_prop_def split: option.splits if_splits)
  then show ?thesis
    using assms read_properties_behind_head [of rb name_size ps qs q "[]"]
    by (simp add: get_rbus_object_data_def)
qed

section \<open>Rows of a table on the bus\<close>

text \<open>
  C16. When rbus adds a new row to a registered table and the function of the user accepts it with the number
  \<open>i\<close>, every name below the row finds the data and functions of the same name below the template.
\<close>

theorem row_served_by_template:
  assumes "8 \<le> node_name_size sz" and "list_all (op_fits sz) ops"
    and "tree_run sz ops init_bus_mux_root = Some (reg_tree st)"
    and "plain_name sz s" and "get_bus_node_info sz (reg_tree st) 1 s = Some p" and "p \<noteq> 0"
    and "get_bus_node_info sz (reg_tree st) 1 (s @ ''.{i}'') = Some c" and "c \<noteq> 0"
    and "get_bus_node_info sz (reg_tree st) 1 (s @ ''.'' @ row_name i) = Some 0"
    and "plain_name sz (s @ ''.{i}.'' @ u)" and "plain_name sz (s @ ''.'' @ row_name i @ ''.'' @ u)"
    and "dot_tokens u \<noteq> []"
    and "get_bus_cb_data_info sz (reg_tree st) s = Some (Some node)"
    and "table_add_row_handler (cb_table node) = Some f"
    and "f s al n (outside st) = (bus_error_success, i, w)"
  shows "\<exists>st'. rbus_table_add_row_handler sz s al n st = Some (RBUS_ERROR_SUCCESS, i, st') \<and> outside st' = w \<and>
    get_bus_cb_data_info sz (reg_tree st') (s @ ''.'' @ row_name i @ ''.'' @ u) =
    get_bus_cb_data_info sz (reg_tree st') (s @ ''.{i}.'' @ u)"
proof -
  obtain h' where h': "bus_table_add_row sz (reg_tree st) 1 s i = Some (bus_error_success, h')"
    "get_bus_node_info sz h' 1 (s @ ''.'' @ row_name i @ ''.'' @ u) = get_bus_node_info sz h' 1 (s @ ''.{i}.'' @ u)"
    using new_row_offers_template [OF assms(1-12)] by blast
  then have "rbus_table_add_row_handler sz s al n st =
    Some (RBUS_ERROR_SUCCESS, i, st\<lparr>reg_tree := h', outside := w\<rparr>)"
    using assms(13-15) by (simp add: rbus_table_add_row_handler_def)
  then show ?thesis using h'(2) by (auto simp: get_bus_cb_data_info_def)
qed

section \<open>A get that fails\<close>

lemma failed_string_get_undefined:
  assumes "get_bus_cb_data_info sz (reg_tree st) s = Some (Some node)"
    and "get_handler (cb_table node) = Some f" and "data_format (data_model_prop node) = Some bus_data_type_string"
    and "rbusValue_GetType rb value = RBUS_NONE"
    and "f s bus_data_type_string (outside st) = (e, None, w)"
  shows "rbus_get_handler sz rb (Some s) value st = None"
  using assms by (simp add: rbus_get_handler_def Let_def)

section \<open>Registering many elements\<close>

text \<open>
  What the registration relies on: entering an element succeeds and finds it, and what was found
  stays found. Then the elements of a list are all found at its end.
\<close>

fun enter_all :: "('s \<Rightarrow> 'e \<Rightarrow> 's option) \<Rightarrow> 'e list \<Rightarrow> 's \<Rightarrow> 's option" where
  "enter_all enter [] s = Some s"
| "enter_all enter (e # es) s = Option.bind (enter s e) (enter_all enter es)"

locale element_directory =
  fixes ok :: "'s \<Rightarrow> bool" and fits :: "'e \<Rightarrow> bool"
    and enter :: "'s \<Rightarrow> 'e \<Rightarrow> 's option" and found :: "'s \<Rightarrow> 'e \<Rightarrow> bool"
  assumes enter_finds: "ok s \<Longrightarrow> fits e \<Longrightarrow> \<exists>s'. enter s e = Some s' \<and> ok s' \<and> found s' e"
    and enter_keeps: "ok s \<Longrightarrow> fits e \<Longrightarrow> enter s e = Some s' \<Longrightarrow> fits x \<Longrightarrow> found s x \<Longrightarrow> found s' x"
begin

lemma enter_all_keeps:
  "ok s \<Longrightarrow> list_all fits es \<Longrightarrow> fits x \<Longrightarrow> found s x \<Longrightarrow> \<exists>s'. enter_all enter es s = Some s' \<and> found s' x"
proof (induction es arbitrary: s)
  case (Cons e es)
  then obtain s1 where "enter s e = Some s1" "ok s1" using enter_finds [of s e] by auto
  then show ?case using Cons enter_keeps [of s e s1 x] by auto
qed simp

lemma enter_all_finds:
  "ok s \<Longrightarrow> list_all fits es \<Longrightarrow> \<exists>s'. enter_all enter es s = Some s' \<and> ok s' \<and> list_all (found s') es"
proof (induction es arbitrary: s)
  case (Cons e es)
  obtain s1 where s1: "enter s e = Some s1" "ok s1" "found s1 e"
    using enter_finds [OF Cons.prems(1)] Cons.prems(2) by auto
  obtain s' where "enter_all enter es s1 = Some s'" "ok s'" "list_all (found s') es"
    using Cons.IH [OF s1(2)] Cons.prems(2) by auto
  then show ?case using s1 enter_all_keeps [OF s1(2) _ _ s1(3), of es] Cons.prems(2) by auto
qed simp

end

text \<open>An element that the registration enters: not a table, with a plain name that fits and a function,
  and accepted by rbus.\<close>

definition registrable :: "bus_sizes \<Rightarrow> ('w, 'v) rbus_calls \<Rightarrow> 'w bus_data_element \<Rightarrow> bool" where
  "registrable sz rc e \<longleftrightarrow> de_type e \<noteq> elem_type_table \<and> plain_name sz (de_full_name e) \<and>
     list_all (\<lambda>t. length t < node_name_size sz) (dot_tokens (de_full_name e)) \<and>
     fst (map_bus_user_cb_with_rbus (de_cb_table e)) \<and>
     (\<forall>w. fst (rbus_regDataElement rc (de_full_name e) (convert_bus_to_rbus_elem_type (de_type e))
        (snd (map_bus_user_cb_with_rbus (de_cb_table e))) w) = RBUS_ERROR_SUCCESS)"

text \<open>The name of the element leads to a node.\<close>

definition element_found :: "bus_sizes \<Rightarrow> 'w bus_state \<Rightarrow> 'w bus_data_element \<Rightarrow> bool" where
  "element_found sz st e \<longleftrightarrow> (\<exists>p. p \<noteq> 0 \<and> get_bus_node_info sz (reg_tree st) 1 (de_full_name e) = Some p)"

definition register_one ::
  "bus_sizes \<Rightarrow> nat \<Rightarrow> ('w, 'v) rbus_calls \<Rightarrow> 'w bus_state \<Rightarrow> 'w bus_data_element \<Rightarrow> 'w bus_state option" where
  "register_one sz data_len rc st e = map_option snd (register_elements sz data_len rc [e] RBUS_ERROR_SUCCESS st)"

lemma register_one_mux:
  assumes "registrable sz rc e"
  shows "\<exists>w. register_one sz data_len rc st e =
    map_option (\<lambda>(h, n). st\<lparr>outside := w, reg_tree := h\<rparr>)
      (bus_insert_elem_node sz (reg_tree st) 1 (mux_elem sz data_len e))"
proof -
  obtain cb where cb: "map_bus_user_cb_with_rbus (de_cb_table e) = (True, cb)"
    using assms by (cases "map_bus_user_cb_with_rbus (de_cb_table e)") (simp add: registrable_def)
  obtain w where "rbus_regDataElement rc (de_full_name e) (convert_bus_to_rbus_elem_type (de_type e)) cb (outside st)
      = (RBUS_ERROR_SUCCESS, w)"
    using assms cb
    by (cases "rbus_regDataElement rc (de_full_name e) (convert_bus_to_rbus_elem_type (de_type e)) cb (outside st)")
      (auto simp: registrable_def dest!: spec [of _ "outside st"])
  then have "register_one sz data_len rc st e =
    map_option (\<lambda>(h, n). st\<lparr>outside := w, reg_tree := h\<rparr>)
      (bus_insert_elem_node sz (reg_tree st) 1 (mux_elem sz data_len e))"
    using cb by (cases "bus_insert_elem_node sz (reg_tree st) 1 (mux_elem sz data_len e)")
      (auto simp: register_one_def mux_bus_cb_registration_def Let_def)
  then show ?thesis ..
qed

lemma registrable_elem:
  assumes "registrable sz rc e"
  shows "elem_fits sz (mux_elem sz data_len e)" and "m_type (mux_elem sz data_len e) \<noteq> elem_type_table"
    and "elem_tokens (mux_elem sz data_len e) = dot_tokens (de_full_name e)"
proof -
  have len: "length (de_full_name e) < bus_name_size sz - 1" using assms by (simp add: registrable_def plain_name_def)
  then have "snprintf_store (bus_name_size sz) (de_full_name e) = de_full_name e" by (intro snprintf_store_fits) simp
  then show "elem_fits sz (mux_elem sz data_len e)" "m_type (mux_elem sz data_len e) \<noteq> elem_type_table"
    "elem_tokens (mux_elem sz data_len e) = dot_tokens (de_full_name e)"
    using assms len
    by (simp_all add: elem_fits_def registrable_def mux_elem_def elem_tokens_def strip_row_marker_def Let_def)
qed

interpretation bus_directory: element_directory "\<lambda>st. tree_wf (reg_tree st) 1" "registrable sz rc"
  "register_one sz data_len rc" "element_found sz"
proof
  fix st :: "'a bus_state" and e
  assume wf: "tree_wf (reg_tree st) 1" and e: "registrable sz rc e"
  obtain h' p where h': "bus_insert_elem_node sz (reg_tree st) 1 (mux_elem sz data_len e) = Some (h', p)"
    "elem_path h' 1 (dot_tokens (de_full_name e)) p" "tree_wf h' 1"
    by (rule bus_insert_elem_node_wf [OF wf registrable_elem(1) [OF e, of data_len]])
      (simp add: registrable_elem(3) [OF e])
  have "get_bus_node_info sz h' 1 (de_full_name e) = Some p"
    using e by (intro get_bus_node_info_path [OF _ h'(3,2)]) (simp add: registrable_def)
  then show "\<exists>st'. register_one sz data_len rc st e = Some st' \<and> tree_wf (reg_tree st') 1 \<and> element_found sz st' e"
    using h' elem_path_not_null [OF h'(3,2)] register_one_mux [OF e, of data_len st]
    by (auto simp: element_found_def)
next
  fix st :: "'a bus_state" and e st' x
  assume wf: "tree_wf (reg_tree st) 1" and e: "registrable sz rc e" and enter: "register_one sz data_len rc st e = Some st'"
    and x: "registrable sz rc x" "element_found sz st x"
  obtain w where "map_option (\<lambda>(h, n). st\<lparr>outside := w, reg_tree := h\<rparr>)
    (bus_insert_elem_node sz (reg_tree st) 1 (mux_elem sz data_len e)) = Some st'"
    using enter register_one_mux [OF e, of data_len st] by metis
  then obtain h' p where h': "bus_insert_elem_node sz (reg_tree st) 1 (mux_elem sz data_len e) = Some (h', p)"
    "st' = st\<lparr>outside := w, reg_tree := h'\<rparr>" by auto
  have ext: "extends (reg_tree st) h'"
    using insert_extends [OF wf registrable_elem(1,2) [OF e] h'(1)] by blast
  obtain h2 p2 where "bus_insert_elem_node sz (reg_tree st) 1 (mux_elem sz data_len e) = Some (h2, p2)" "tree_wf h2 1"
    by (rule bus_insert_elem_node_wf [OF wf registrable_elem(1) [OF e, of data_len]])
  then have wf': "tree_wf h' 1" using h'(1) by simp
  have plain: "plain_name sz (de_full_name x)" using x(1) by (simp add: registrable_def)
  obtain q where q: "q \<noteq> 0" "get_bus_node_info sz (reg_tree st) 1 (de_full_name x) = Some q"
    using x(2) by (auto simp: element_found_def)
  then have "elem_path (reg_tree st) 1 (dot_tokens (de_full_name x)) q"
    using get_bus_node_info_iff [OF plain wf, of q] by simp
  from get_bus_node_info_path [OF plain wf' elem_path_extends [OF this ext]]
  show "element_found sz st' x" using q(1) h'(2) by (simp add: element_found_def)
qed

text \<open>The loop of the registration enters the elements one by one.\<close>

lemma register_elements_enter:
  "list_all (registrable sz rc) es \<Longrightarrow>
    register_elements sz data_len rc es RBUS_ERROR_SUCCESS st =
    map_option (\<lambda>st'. (RBUS_ERROR_SUCCESS, st')) (enter_all (register_one sz data_len rc) es st)"
proof (induction es arbitrary: st)
  case (Cons e es)
  obtain cb where cb: "map_bus_user_cb_with_rbus (de_cb_table e) = (True, cb)"
    using Cons.prems by (cases "map_bus_user_cb_with_rbus (de_cb_table e)") (simp add: registrable_def)
  obtain w where w: "rbus_regDataElement rc (de_full_name e) (convert_bus_to_rbus_elem_type (de_type e)) cb (outside st)
      = (RBUS_ERROR_SUCCESS, w)"
    using Cons.prems cb
    by (cases "rbus_regDataElement rc (de_full_name e) (convert_bus_to_rbus_elem_type (de_type e)) cb (outside st)")
      (auto simp: registrable_def dest!: spec [of _ "outside st"])
  have "register_one sz data_len rc st e = mux_bus_cb_registration sz data_len e True (st\<lparr>outside := w\<rparr>)"
    using cb w by (cases "mux_bus_cb_registration sz data_len e True (st\<lparr>outside := w\<rparr>)")
      (simp_all add: register_one_def Let_def)
  then show ?case
    using cb w Cons.IH Cons.prems
    by (cases "mux_bus_cb_registration sz data_len e True (st\<lparr>outside := w\<rparr>)") (simp_all add: Let_def)
qed simp

text \<open>
  C17. Registering a list of elements other than tables, which rbus accepts, succeeds, and at the end every
  one of them is found by its name, in any tree reached by registrations and rows.
\<close>

theorem registered_elements_found:
  assumes "8 \<le> node_name_size sz" and "list_all (op_fits sz) ops"
    and "tree_run sz ops init_bus_mux_root = Some (reg_tree st)"
    and "list_all (registrable sz rc) es"
  shows "\<exists>st'. bus_reg_data_elements sz data_len rc True (Some es) st = Some (bus_error_success, st') \<and>
    list_all (\<lambda>e. \<exists>p. p \<noteq> 0 \<and> get_bus_node_info sz (reg_tree st') 1 (de_full_name e) = Some p) es"
proof -
  have "add_table_rows sz rc es ret st' = Some (ret, st')" for ret st'
    using assms(4) by (induction es) (simp_all add: registrable_def)
  moreover obtain st' where "enter_all (register_one sz data_len rc) es st = Some st'"
    "list_all (element_found sz st') es"
    using bus_directory.enter_all_finds [OF run_wf [OF assms(1-3)] assms(4), of data_len] by blast
  ultimately show ?thesis
    using register_elements_enter [OF assms(4), of data_len st]
    by (simp add: bus_reg_data_elements_def element_found_def [abs_def])
qed

section \<open>A bus with values as values\<close>

text \<open>A value of rbus as the data it holds, and a world that counts the sets and rows.\<close>

definition sample_values :: "bus_raw_data rbus_value_ops" where
  "sample_values = \<lparr>rbusValue_Init = Bus_other bus_data_type_none,
     rbusValue_GetType = (\<lambda>v. case v of Bus_uint32 w \<Rightarrow> RBUS_UINT32 | Bus_int32 w \<Rightarrow> RBUS_INT32 | Bus_boolean b \<Rightarrow> RBUS_BOOLEAN
       | Bus_string s n \<Rightarrow> RBUS_STRING | Bus_bytes s n \<Rightarrow> RBUS_BYTES | _ \<Rightarrow> RBUS_NONE),
     rbusValue_GetString = (\<lambda>v. case v of Bus_string s n \<Rightarrow> (s, n) | _ \<Rightarrow> (None, 0)),
     rbusValue_GetBytes = (\<lambda>v. case v of Bus_bytes s n \<Rightarrow> (s, n) | _ \<Rightarrow> (None, 0)),
     rbusValue_GetBoolean = (\<lambda>v. case v of Bus_boolean b \<Rightarrow> b | _ \<Rightarrow> False),
     rbusValue_GetInt32 = (\<lambda>v. case v of Bus_int32 w \<Rightarrow> w | _ \<Rightarrow> 0),
     rbusValue_GetUInt32 = (\<lambda>v. case v of Bus_uint32 w \<Rightarrow> w | _ \<Rightarrow> 0),
     rbusValue_SetString = (\<lambda>v s. Bus_string (Some s) (of_nat (length s))),
     rbusValue_SetFromString = (\<lambda>v t s. Bus_string s 0),
     rbusValue_SetBytes = (\<lambda>v s n. Bus_bytes (map_option (take (unat n)) s) n),
     rbusValue_SetBoolean = (\<lambda>v. Bus_boolean), rbusValue_SetInt32 = (\<lambda>v. Bus_int32), rbusValue_SetUInt32 = (\<lambda>v. Bus_uint32)\<rparr>"

lemma sample_values_read_back: "rbus_reads_back sample_values"
  by (simp add: rbus_reads_back_def sample_values_def)

definition sample_props :: data_model_properties where
  "sample_props = \<lparr>data_permission = True, min_data_range = 1, max_data_range = 300, num_of_str_validation = 0,
     str_validation = None, data_format = Some bus_data_type_uint32\<rparr>"

definition sample_callbacks :: "nat bus_callback_table" where
  "sample_callbacks = \<lparr>get_handler = Some (\<lambda>s t w. (bus_error_success, Some (Bus_uint32 (of_nat w)), w)),
     set_handler = Some (\<lambda>s d w. (bus_error_success, Suc w)),
     table_add_row_handler = Some (\<lambda>s al n w. (bus_error_success, 2, Suc w)),
     table_remove_row_handler = None, event_sub_handler = None, method_handler = None\<rparr>"

definition sample_node :: "nat reg_node_data" where
  "sample_node = \<lparr>cb_table = sample_callbacks, data_model_prop = sample_props\<rparr>"

definition sample_reg :: "string \<Rightarrow> bus_element_type \<Rightarrow> nat reg_node_data mux_data_elem" where
  "sample_reg s ty = \<lparr>m_full_name = s, m_type = ty, m_data_type = node_elem_reg_data, m_cfg_data = sample_node,
     m_cfg_data_len = 8, m_strings = None\<rparr>"

definition sample_reg_ops :: "nat reg_node_data bus_op list" where
  "sample_reg_ops = [Register (sample_reg ''D.T.{i}.'' elem_type_table),
     Register (sample_reg ''D.T.{i}.x'' elem_type_property)]"

definition sample_state :: "nat bus_state" where
  "sample_state = (bus_init 0)\<lparr>reg_tree := the (tree_run sample_sizes sample_reg_ops init_bus_mux_root)\<rparr>"

lemma sample_reg_fit: "list_all (op_fits sample_sizes) sample_reg_ops"
  by code_simp

lemma sample_state_run: "tree_run sample_sizes sample_reg_ops init_bus_mux_root = Some (reg_tree sample_state)"
  using tree_run_wf [OF tree_wf_init sample_reg_fit sample_ops_fit(1)] by (auto simp: sample_state_def)

text \<open>What is found under a name, and the functions of its user.\<close>

definition node_at :: "string \<Rightarrow> nat reg_node_data" where
  "node_at s = the (the (get_bus_cb_data_info sample_sizes (reg_tree sample_state) s))"

definition set_at :: "string \<Rightarrow> string \<Rightarrow> bus_raw_data \<Rightarrow> nat \<Rightarrow> bus_error \<times> nat" where
  "set_at s = the (set_handler (cb_table (node_at s)))"

definition add_row_at :: "string \<Rightarrow> string \<Rightarrow> string option \<Rightarrow> u32 \<Rightarrow> nat \<Rightarrow> bus_error \<times> u32 \<times> nat" where
  "add_row_at s = the (table_add_row_handler (cb_table (node_at s)))"

definition is_some :: "'a option \<Rightarrow> bool" where "is_some x \<longleftrightarrow> (case x of None \<Rightarrow> False | Some y \<Rightarrow> True)"

lemma is_some_the: "is_some x \<Longrightarrow> x = Some (the x)"
  by (simp add: is_some_def split: option.splits)

lemma is_some_the_the: "is_some x \<Longrightarrow> is_some (the x) \<Longrightarrow> x = Some (Some (the (the x)))"
  by (auto simp: is_some_def split: option.splits)

lemma set_reaches_user_iff_accepted_witness:
  "rbus_set_handler sample_sizes sample_values (Some ''D.T.{i}.x'') (Bus_uint32 5) sample_state =
     Some (if dm_accepts (data_model_prop (node_at ''D.T.{i}.x'')) (Bus_uint32 5)
       then (convert_bus_to_rbus_error_code (fst (set_at ''D.T.{i}.x'' ''D.T.{i}.x'' (Bus_uint32 5) (outside sample_state))),
         sample_state\<lparr>outside := snd (set_at ''D.T.{i}.x'' ''D.T.{i}.x'' (Bus_uint32 5) (outside sample_state))\<rparr>)
       else (RBUS_ERROR_INVALID_OPERATION, sample_state)) \<and>
   map_option (\<lambda>(rc, st). (rc, outside st))
     (rbus_set_handler sample_sizes sample_values (Some ''D.T.{i}.x'') (Bus_uint32 5) sample_state) = Some (RBUS_ERROR_SUCCESS, 1) \<and>
   map_option (\<lambda>(rc, st). (rc, outside st))
     (rbus_set_handler sample_sizes sample_values (Some ''D.T.{i}.x'') (Bus_uint32 301) sample_state) =
     Some (RBUS_ERROR_INVALID_OPERATION, 0)"
proof (intro conjI)
  show "rbus_set_handler sample_sizes sample_values (Some ''D.T.{i}.x'') (Bus_uint32 5) sample_state =
     Some (if dm_accepts (data_model_prop (node_at ''D.T.{i}.x'')) (Bus_uint32 5)
       then (convert_bus_to_rbus_error_code (fst (set_at ''D.T.{i}.x'' ''D.T.{i}.x'' (Bus_uint32 5) (outside sample_state))),
         sample_state\<lparr>outside := snd (set_at ''D.T.{i}.x'' ''D.T.{i}.x'' (Bus_uint32 5) (outside sample_state))\<rparr>)
       else (RBUS_ERROR_INVALID_OPERATION, sample_state))"
  proof (rule set_reaches_user_iff_accepted [where f = "set_at ''D.T.{i}.x''"])
    show "get_bus_cb_data_info sample_sizes (reg_tree sample_state) ''D.T.{i}.x'' = Some (Some (node_at ''D.T.{i}.x''))"
      unfolding node_at_def by (rule is_some_the_the) code_simp+
    show "set_handler (cb_table (node_at ''D.T.{i}.x'')) = Some (set_at ''D.T.{i}.x'')"
      unfolding set_at_def by (rule is_some_the) code_simp
  qed code_simp+
qed code_simp+

lemma row_served_by_template_witness:
  "\<exists>st'. rbus_table_add_row_handler sample_sizes ''D.T'' None 0 sample_state = Some (RBUS_ERROR_SUCCESS, 2, st') \<and>
    outside st' = 1 \<and>
    get_bus_cb_data_info sample_sizes (reg_tree st') (''D.T'' @ ''.'' @ row_name 2 @ ''.'' @ ''x'') =
    get_bus_cb_data_info sample_sizes (reg_tree st') (''D.T'' @ ''.{i}.'' @ ''x'')"
proof (rule row_served_by_template [OF sample_ops_fit(1) sample_reg_fit sample_state_run])
  show "get_bus_node_info sample_sizes (reg_tree sample_state) 1 ''D.T'' = Some 3" by code_simp
  show "get_bus_node_info sample_sizes (reg_tree sample_state) 1 (''D.T'' @ ''.{i}'') = Some 4" by code_simp
  show "get_bus_cb_data_info sample_sizes (reg_tree sample_state) ''D.T'' = Some (Some (node_at ''D.T''))"
    unfolding node_at_def by (rule is_some_the_the) code_simp+
  show "table_add_row_handler (cb_table (node_at ''D.T'')) = Some (add_row_at ''D.T'')"
    unfolding add_row_at_def by (rule is_some_the) code_simp
qed code_simp+

definition sample_rbus_calls :: "(nat, bus_raw_data) rbus_calls" where
  "sample_rbus_calls = \<lparr>rbus_open = (\<lambda>s w. (RBUS_ERROR_SUCCESS, w)), rbus_close = (\<lambda>w. (RBUS_ERROR_SUCCESS, w)),
     rbus_get = (\<lambda>s w. (RBUS_ERROR_SUCCESS, Bus_uint32 0, w)), rbus_set = (\<lambda>s v w. (RBUS_ERROR_SUCCESS, w)),
     rbus_setStr = (\<lambda>s t w. (RBUS_ERROR_SUCCESS, w)), rbus_regDataElement = (\<lambda>s t cb w. (RBUS_ERROR_SUCCESS, Suc w)),
     rbus_unregDataElements = (\<lambda>es w. (RBUS_ERROR_SUCCESS, w)), rbusTable_addRow = (\<lambda>s st. Some (RBUS_ERROR_SUCCESS, st)),
     rbusTable_registerRow = (\<lambda>s i a w. (RBUS_ERROR_SUCCESS, w)), rbusTable_unregisterRow = (\<lambda>s w. (RBUS_ERROR_SUCCESS, w)),
     rbusTable_removeRow = (\<lambda>s st. Some (RBUS_ERROR_SUCCESS, st)), rbusEvent_Subscribe = (\<lambda>s b n t w. (RBUS_ERROR_SUCCESS, w)),
     rbusEvent_SubscribeEx = (\<lambda>ss t w. (RBUS_ERROR_SUCCESS, w)), rbusEvent_SubscribeExAsync = (\<lambda>ss b t w. (RBUS_ERROR_SUCCESS, w)),
     rbusEvent_Unsubscribe = (\<lambda>s w. (RBUS_ERROR_SUCCESS, w)), rbusEvent_Publish = (\<lambda>s v w. (RBUS_ERROR_SUCCESS, w)),
     rbusEvent_PublishRawData = (\<lambda>s b w. (RBUS_ERROR_SUCCESS, w)), rbusMethod_Invoke = (\<lambda>m p w. (RBUS_ERROR_SUCCESS, None, w)),
     rbusHandle_GetTraceContextAsString = (\<lambda>n m w. (RBUS_ERROR_SUCCESS, ([], []), w))\<rparr>"

definition sample_new_element :: "string \<Rightarrow> nat bus_data_element" where
  "sample_new_element s = \<lparr>de_full_name = s, de_type = elem_type_property, de_cb_table = sample_callbacks,
     de_data_model_prop = sample_props, de_num_of_table_row = 0\<rparr>"

lemma registered_elements_found_witness:
  "\<exists>st'. bus_reg_data_elements sample_sizes 8 sample_rbus_calls True
      (Some [sample_new_element ''D.a'', sample_new_element ''D.b'']) sample_state = Some (bus_error_success, st') \<and>
    list_all (\<lambda>e. \<exists>p. p \<noteq> 0 \<and> get_bus_node_info sample_sizes (reg_tree st') 1 (de_full_name e) = Some p)
      [sample_new_element ''D.a'', sample_new_element ''D.b'']"
proof (rule registered_elements_found [OF sample_ops_fit(1) sample_reg_fit sample_state_run])
  have "plain_name sample_sizes ''D.a'' \<and> plain_name sample_sizes ''D.b''" by code_simp
  then show "list_all (registrable sample_sizes sample_rbus_calls) [sample_new_element ''D.a'', sample_new_element ''D.b'']"
    by (simp add: registrable_def sample_new_element_def sample_callbacks_def map_bus_user_cb_with_rbus_def
        sample_rbus_calls_def dot_tokens_def sample_sizes_def)
qed

end
