(* ===== verification/Spec2Isabelle.thy ===== *)
theory Spec2Isabelle
  imports Linked_Queue Emu_Hash_Map Msg_Codec Msg_Mgr Wifi_Utils Pcap_Frame_Types Emu_Msg Test_Step
    Step_Behaviour Test_Runs Gateway_Runs Sta_Runs Reboot_Step Ext_Runs Agent_Runs
    Bus_Facts
begin

text \<open>
  A verification library of the OneWifi test suite, the emulator that runs scripted test cases
  against the OneWifi stack of a gateway.

  How the program works. A kernel driver hands the frames and configuration calls it sees to user
  space through a character device. The message handler (\<open>src/messages/wlan_emu_msg_hdlr.cpp\<close>) reads and
  decodes them and gives each to the message manager (\<open>wlan_emu_msg_mgr.cpp\<close>), which pushes a copy into
  the queue of every subscribed test case. A test case (\<open>src/tests/wlan_emu_tests.cpp\<close>) is a thread that
  starts its steps, delivers the messages to them, counts their time-outs and chooses the next step.
  A step is an object of one of the classes \<open>src/tests/wlan_emu_test_param_*.cpp\<close>; it sends a
  configuration, captures frames, runs a command and so on, and uploads its result files through the
  UI manager (\<open>src/ui/wlan_emu_ui_mgr.cpp\<close>).

  Which theory models which part.
  \<^item> \<open>Emu_Prelude\<close>: strings, words as sets of flags, bounded printing, lists updated by index.
  \<^item> \<open>Linked_Queue\<close>, \<open>Emu_Queue\<close>, \<open>Emu_Hash_Map\<close>: \<open>src/utils/collection.c\<close>. The queue is modelled twice, as
    the cells and pointers of the code and as a list (newest element first, so that index 0 is the
    head of the cells); a refinement lemma connects them, and everything above uses the lists.
  \<^item> \<open>Emu_Types\<close>, \<open>Msg_Codec\<close>: the enumerations and unions of \<open>inc/wlan_emu_common.h\<close> and
    \<open>inc/wlan_emu_msg_data.h\<close> and the decoders of the handler. A decoder reads a list of bytes; \<open>None\<close> is a
    read behind the 2048 bytes of the buffer. The other side of the decoders is the driver's, in
    \<open>src/build/openwrt/patches/0999-rdkfmac_cdev.patch\<close>: the layouts it packs its messages into (\<open>device_layout\<close>,
    \<open>driver_start_ap_layout\<close>). The two agree but for the start of an access point.
  \<^item> \<open>Msg_Mgr\<close>: subscription and delivery.
  \<^item> \<open>Wifi_Utils\<close>, \<open>Pcap_Frame_Types\<close>: the functions of \<open>src/utils/cci_wifi_utils.cpp\<close> that compute
    (addresses, the Internet checksum, header lengths, copies, waits) and the names of frames
    (\<open>src/common/wlan_common_utils.cpp\<close>).
  \<^item> \<open>Emu_Msg\<close>, \<open>Test_Step\<close>: the name, capture and unloading of a message (\<open>src/messages/wlan_emu_msg.cpp\<close>),
    the steps with the union of their parameters, and the UI manager's services they use.
  \<^item> \<open>Step_Classes\<close>, \<open>Step_Behaviour\<close>: constructor, \<open>step_execute\<close>, \<open>step_timeout\<close> and \<open>step_frame_filter\<close> of
    each modelled class, the virtual calls, and the locale \<open>step_class\<close>: what the scheduler relies on.
  \<^item> \<open>Test_Scheduler\<close>, \<open>Scheduler_Facts\<close>, \<open>Test_Runs\<close>: the thread of a test case. One iteration of its
    loop is a function of the state and of what the iteration meets (clock, result of the timed wait,
    answers of the environment); \<open>emu_run\<close> is the reachability relation of the whole run, with messages
    arriving in between.

  \<^item> \<open>Ui_Mgr\<close>: the UI manager's signals, downloads, uploads and reports. \<open>Gateway\<close>, \<open>Gateway_Facts\<close>,
    \<open>Gateway_Runs\<close>: \<open>src/gateway_cci/wlan_emu.cpp\<close>, the state machine that waits for a request, has it analysed,
    starts the test cases and reports their ends, and the data model handlers. The field \<open>u_reports\<close> is no
    variable of the code: it logs each report and whether it was posted. A session is a number of
    rounds of this machine; a request of \<open>n\<close> test cases needs \<open>n + 5\<close> rounds to come to rest.
  \<^item> \<open>Sta_Mgr\<close>, \<open>Sta_Mgr_Facts\<close>, \<open>Sta_Runs\<close>: the simulated stations (\<open>src/sta/wlan_emu_sta_mgr.cpp\<close>,
    \<open>wlan_emu_sta.cpp\<close>): the inventory of radio devices, the map from keys to station objects, the
    objects in a heap, and the two phases of adding stations. The invariant over all reachable
    states says that a station in the map is live and holds a device of its own.

  \<^item> \<open>Config_Json\<close>, \<open>Step_Decode\<close>, \<open>Stats_Decode\<close>, \<open>Config_Decode\<close>, \<open>Decode_Facts\<close>, \<open>Decode_Runs\<close>: the decoding of a
    test configuration in the UI manager, from the JSON document to the queue of test cases with their
    steps (\<open>decode_json_config\<close> and everything it calls), and the link to the scheduler: a decoded test case
    meets what its start asks for. A decoder is \<open>Accept\<close> a value, \<open>Reject\<close> (\<open>RETURN_ERR\<close>) or \<open>Undef\<close> (an access without a meaning).
    \<open>Iperf_Options\<close>: the check of iperf option strings with the scan of \<open>getopt_long\<close>.
  \<^item> \<open>Json_Doc\<close>: documents the program writes with the JSON library, and \<open>mirrors\<close>, what it relies on when
    such a document is read again. \<open>Reboot_Step\<close>: the upgrade step, the document it leaves behind, and the
    manager that goes on with it after the reboot.
  \<^item> \<open>Ext_Agent\<close>, \<open>Ext_Capability\<close>, \<open>Ext_Sta_Mgr\<close>, \<open>Ext_Sta_Facts\<close>, \<open>Ext_Runs\<close>: the interface between the gateway and
    the external agents (\<open>src/common/wlan_emu_ext_agent_interface.cpp\<close> with the HTTP requests of
    \<open>cci_wifi_utils.cpp\<close>) and the manager of the stations and ethernet clients on them
    (\<open>src/sta/wlan_emu_ext_sta_mgr.cpp\<close>).
  \<^item> \<open>Eth_Client\<close>: the ethernet client step of the gateway. \<open>Common_Tables\<close>: the name tables of
    \<open>inc/wlan_common_utils.h\<close>.
  \<^item> \<open>Agent_Sta_Mgr\<close>, \<open>Agent_Steps\<close>, \<open>Agent_Tests\<close>, \<open>Agent_Main\<close>: the process on an external agent
    (\<open>src/external_agent_cci\<close>): its stations, its steps with their decoding, the handling of messages, the poll
    that asks the steps for their status, the state machine and the endpoints of its HTTP server. \<open>Json_Library\<close>:
    what both sides rely on when one prints a document and the other reads it, and a small library that has this
    behaviour. \<open>Agent_Facts\<close>, \<open>Agent_Eth\<close>, \<open>Agent_Runs\<close>: what the gateway understands of an agent's status, and an
    ethernet client on both sides, second by second. \<open>eth_run\<close> has as fuel the seconds it may take; the duration of
    the step is enough.
  \<^item> \<open>Bus_Tree\<close>, \<open>Bus_Tree_Facts\<close>, \<open>Bus_Tree_Entry\<close>, \<open>Bus_Tree_Runs\<close>: the tree of the elements of the bus
    (\<open>src/bus/common/wlan_emu_bus_common.cpp\<close>), nodes on a heap with the pointers of the code: lookup with wild
    cards, registration, rows that share the children of their table's template, and removal. A row also shares
    the list of strings of its table's data, a block of its own (\<open>n_strings\<close>); freeing a freed one is \<open>None\<close>. The invariant
    \<open>tree_ok\<close> gives every node a depth; the fuel of the walks over siblings and children is the number of nodes
    ever allocated, and \<open>tree_operations_defined\<close> says that it is enough. \<open>Bus_Values\<close>, \<open>Bus_Provider\<close>,
    \<open>Bus_Facts\<close>: the checks and conversions of values, the functions rbus calls and those of the descriptor
    (\<open>src/bus/rdkb/wlan_emu_bus.cpp\<close>), with the locale \<open>element_directory\<close>: what registering a list of elements
    promises, proved of the tree.

  What is a parameter. The bus, the web configuration library, curl, pcap, the file system, the clock
  and \<open>malloc\<close> are fields of the record \<open>environment\<close>: a run gets one environment per call. The values of the
  library constants the frame names depend on are the record \<open>hostap\<close>. The UI manager and the gateway have
  the records \<open>ui_env\<close> and \<open>gateway_env\<close> (the decoding of a test configuration is the field \<open>ue_decode\<close>, whose model
  is \<open>decode_json_config\<close>, the run of a test case's thread the field \<open>ge_run\<close>), the simulated stations the record
  \<open>sta_env\<close>, whose answers may depend on everything done before, the JSON library the record \<open>json_env\<close> and
  the requests to an external agent the record \<open>agent_env\<close>, and what an agent asks of its device the record
  \<open>agent_outside\<close>. The rbus library and its values are the records \<open>rbus_calls\<close> and \<open>rbus_value_ops\<close>; the sizes of
  the names, which are in headers of OneWifi, the record \<open>bus_sizes\<close>. What a step does to the outside is
  appended to a list of effects.

  How errors appear. A C result code stays a result code (\<open>RETURN_OK\<close>, \<open>RETURN_ERR\<close>), the global error
  code of the UI manager is the field \<open>w_error\<close>, and \<open>None\<close> stands for behaviour that C leaves undefined or
  for a loop that does not end; the text above a definition says which.

  Bounds. Indices and counters are 32 bit words where the code has them. The pending steps of a test are
  the bits of such a word, so the properties of runs ask for fewer than 31 steps (\<open>all_covered\<close>). The loops
  over pending steps and over the search for a forked step are partial functions, since they may not
  end; the theorems say when they do.

  Not modelled. Locks and the interleaving inside one iteration (the thread holds its mutex except
  while it waits), logging, statistics structures of the hardware layer, sockets and \<open>ioctl\<close>s, the bus
  of the platforms without rbus (stubs that return success), the start-up and the name spaces of an external agent, and the kernel headers in \<open>inc\<close>. The execution of
  the step classes that work with external agents or the test controller (iperf, station management) and of those
  that copy library structures (statistics) is not part of the dispatch.
\<close>

end
